(* ===== verification/Prelude.thy ===== *)
theory Prelude
  imports Complex_Main "HOL-Library.AList" "HOL-Library.Char_ord" "HOL-Library.List_Lexorder"
begin

text \<open>
  The prelude of the Risk development: the collections of proof rules the component theories
  share, and the containers of the JavaScript code as HOL values.

  \<^item> A JavaScript \<^verbatim>\<open>Map\<close> is an association list with distinct keys in insertion order:
    \<^verbatim>\<open>m.get(k)\<close> is \<open>map_of m k\<close>, \<^verbatim>\<open>m.set(k, v)\<close> is \<open>AList.update k v m\<close> (a present key keeps
    its place, a new one goes to the end), \<^verbatim>\<open>m.delete(k)\<close> is \<open>AList.delete k m\<close>,
    \<^verbatim>\<open>m.has(k)\<close> is \<open>map_has m k\<close> and \<^verbatim>\<open>m.size\<close> is \<open>length m\<close>.
  \<^item> \<^verbatim>\<open>[...new Set(xs)]\<close> is \<open>uniq xs\<close>: the first occurrence of each element, in order.
  \<^item> \<^verbatim>\<open>xs.findIndex(p)\<close> is \<open>find_index p xs\<close> with \<open>None\<close> for \<^verbatim>\<open>-1\<close>.
  \<^item> Strings are compared by code units, which is the lexicographic order of \<open>List_Lexorder\<close>
    over the character order of \<open>Char_ord\<close>.
\<close>

named_theorems js_simps \<open>evaluation of JavaScript primitives\<close>
named_theorems guard_defs \<open>definitions of the predicates that guard operations\<close>

section \<open>Maps\<close>

definition map_has :: "('k \<times> 'v) list \<Rightarrow> 'k \<Rightarrow> bool" where
  "map_has m k \<longleftrightarrow> k \<in> set (map fst m)"

definition map_keys :: "('k \<times> 'v) list \<Rightarrow> 'k list" where
  "map_keys m = map fst m"

definition map_values :: "('k \<times> 'v) list \<Rightarrow> 'v list" where
  "map_values m = map snd m"

definition wf_map :: "('k \<times> 'v) list \<Rightarrow> bool" where
  "wf_map m \<longleftrightarrow> distinct (map fst m)"

lemma map_has_iff: "map_has m k \<longleftrightarrow> map_of m k \<noteq> None"
  by (induction m) (auto simp: map_has_def)

lemma map_has_Nil [simp]: "\<not> map_has [] k"
  by (simp add: map_has_def)

lemma wf_map_Nil [simp]: "wf_map []"
  by (simp add: wf_map_def)

lemma wf_map_update [simp]: "wf_map m \<Longrightarrow> wf_map (AList.update k v m)"
  by (simp add: wf_map_def distinct_update)

lemma wf_map_delete [simp]: "wf_map m \<Longrightarrow> wf_map (AList.delete k m)"
  by (simp add: wf_map_def distinct_delete)

lemma map_of_update_eq [simp]: "map_of (AList.update k v m) k' = (if k' = k then Some v else map_of m k')"
  by (simp add: update_conv')

lemma map_of_delete_eq [simp]: "map_of (AList.delete k m) k' = (if k' = k then None else map_of m k')"
  by (simp add: delete_conv')

lemma map_has_update [simp]: "map_has (AList.update k v m) k' \<longleftrightarrow> k' = k \<or> map_has m k'"
  by (simp add: map_has_iff)

lemma map_has_delete [simp]: "map_has (AList.delete k m) k' \<longleftrightarrow> k' \<noteq> k \<and> map_has m k'"
  by (simp add: map_has_iff)

lemma length_update:
  "length (AList.update k v m) = (if map_has m k then length m else Suc (length m))"
  by (induction m) (auto simp: map_has_def)

lemma length_delete_le: "length (AList.delete k m) \<le> length m"
  by (induction m) auto

lemma length_delete_has:
  "map_has m k \<Longrightarrow> length (AList.delete k m) < length m"
proof (induction m)
  case (Cons p m)
  then show ?case
    using length_delete_le [of k m] by (cases p) (auto simp: map_has_def)
qed simp

lemma set_delete_subset: "set (AList.delete k m) \<subseteq> set m"
  by (induction m) auto

section \<open>Sets and arrays\<close>

primrec uniq :: "'a list \<Rightarrow> 'a list" where
  "uniq [] = []"
| "uniq (x # xs) = x # filter (\<lambda>y. y \<noteq> x) (uniq xs)"

lemma set_uniq [simp]: "set (uniq xs) = set xs"
  by (induction xs) auto

lemma distinct_uniq [simp]: "distinct (uniq xs)"
  by (induction xs) auto

lemma uniq_id: "distinct xs \<Longrightarrow> uniq xs = xs"
  by (induction xs) (auto intro!: filter_True)

lemma length_uniq_le: "length (uniq xs) \<le> length xs"
proof (induction xs)
  case (Cons x xs)
  have "length (filter (\<lambda>y. y \<noteq> x) (uniq xs)) \<le> length (uniq xs)"
    by (rule length_filter_le)
  also have "\<dots> \<le> length xs" by (rule Cons.IH)
  finally show ?case by simp
qed simp

primrec find_index :: "('a \<Rightarrow> bool) \<Rightarrow> 'a list \<Rightarrow> nat option" where
  "find_index p [] = None"
| "find_index p (x # xs) = (if p x then Some 0 else map_option Suc (find_index p xs))"

lemma find_index_None: "find_index p xs = None \<longleftrightarrow> (\<forall>x \<in> set xs. \<not> p x)"
  by (induction xs) auto

lemma find_index_Some:
  "find_index p xs = Some i \<Longrightarrow> i < length xs \<and> p (xs ! i) \<and> (\<forall>j < i. \<not> p (xs ! j))"
proof (induction xs arbitrary: i)
  case (Cons x xs)
  show ?case
  proof (cases "p x")
    case False
    with Cons.prems obtain k where k: "i = Suc k" "find_index p xs = Some k" by auto
    from Cons.IH [OF k(2)] show ?thesis using False k(1) by (auto simp: less_Suc_eq_0_disj)
  qed (use Cons.prems in auto)
qed simp

lemma find_set: "List.find p xs = Some x \<Longrightarrow> x \<in> set xs \<and> p x"
  by (auto simp: find_Some_iff)

lemma find_exists: "\<exists>x \<in> set xs. p x \<Longrightarrow> \<exists>y. List.find p xs = Some y"
  by (metis find_None_iff option.exhaust)

end
