(* ===== verification/JS_Value.thy ===== *)
theory JS_Value
  imports Prelude
begin

text \<open>
  The JavaScript values and standard-library operations the modelled code uses.

  A value of static type \<^verbatim>\<open>unknown\<close> (what \<^verbatim>\<open>JSON.parse\<close> returns, what arrives on a data
  channel) is a \<open>jsval\<close>. A number is a double: a finite double is a rational number, so
  \<open>JFin\<close> carries a rational, beside the two infinities and \<^verbatim>\<open>NaN\<close>. An object is the list of
  its own enumerable properties in creation order; reading an absent property gives
  \<^verbatim>\<open>undefined\<close>.

  A string is a list of code units. The type \<open>string\<close> has the code units below 256, which
  include every character the protocol's patterns accept; \<open>js_trim\<close>, \<open>js_lower\<close> and \<open>utf8_length\<close> are
  exact on that range (the no-break space is white space, the accented Latin-1 capitals have
  lower-case letters, a code unit from 128 on takes two bytes in UTF-8).
\<close>

section \<open>Values\<close>

datatype jsnum = JFin rat | JPosInf | JNegInf | JNaN

datatype jsval =
    JUndefined
  | JNull
  | JBool bool
  | JNum jsnum
  | JStr string
  | JArr "jsval list"
  | JObj "(string \<times> jsval) list"

abbreviation JInt :: "int \<Rightarrow> jsval" where
  "JInt n \<equiv> JNum (JFin (of_int n))"

text \<open>Truthiness, as \<^verbatim>\<open>!value\<close> and \<^verbatim>\<open>Boolean(value)\<close> read it.\<close>

fun truthy :: "jsval \<Rightarrow> bool" where
  "truthy JUndefined = False"
| "truthy JNull = False"
| "truthy (JBool b) = b"
| "truthy (JNum (JFin x)) = (x \<noteq> 0)"
| "truthy (JNum JNaN) = False"
| "truthy (JNum _) = True"
| "truthy (JStr s) = (s \<noteq> [])"
| "truthy (JArr _) = True"
| "truthy (JObj _) = True"

text \<open>
  \<^verbatim>\<open>value && typeof value === "object"\<close> holds of objects and arrays, and with
  \<^verbatim>\<open>!Array.isArray(value)\<close> of objects only.
\<close>

fun is_object :: "jsval \<Rightarrow> bool" where
  "is_object (JObj _) = True"
| "is_object (JArr _) = True"
| "is_object _ = False"

fun is_record :: "jsval \<Rightarrow> bool" where
  "is_record (JObj _) = True"
| "is_record _ = False"

fun is_str :: "jsval \<Rightarrow> bool" where
  "is_str (JStr _) = True"
| "is_str _ = False"

fun is_bool :: "jsval \<Rightarrow> bool" where
  "is_bool (JBool _) = True"
| "is_bool _ = False"

text \<open>Reading a property; an array has none of the properties the code reads by name.\<close>

fun jprop :: "jsval \<Rightarrow> string \<Rightarrow> jsval" where
  "jprop (JObj ps) k = (case map_of ps k of None \<Rightarrow> JUndefined | Some v \<Rightarrow> v)"
| "jprop _ k = JUndefined"

text \<open>A test of a string value: \<^verbatim>\<open>typeof v === "string" && p(v)\<close>.\<close>

fun str_such :: "(string \<Rightarrow> bool) \<Rightarrow> jsval \<Rightarrow> bool" where
  "str_such p (JStr s) = p s"
| "str_such p _ = False"

text \<open>A test of an array value: \<^verbatim>\<open>Array.isArray(v) && p(v)\<close>.\<close>

fun arr_such :: "(jsval list \<Rightarrow> bool) \<Rightarrow> jsval \<Rightarrow> bool" where
  "arr_such p (JArr xs) = p xs"
| "arr_such p _ = False"

text \<open>
  A thrown exception is the left value of a sum: a \<^verbatim>\<open>TypeError\<close> of the language, or an
  \<^verbatim>\<open>Error\<close> of the program, told apart by a short label in place of its message.
\<close>

datatype js_error = TypeError | JSError string

definition bind_result :: "'e + 'a \<Rightarrow> ('a \<Rightarrow> 'e + 'b) \<Rightarrow> 'e + 'b" where
  "bind_result r f = (case r of Inl e \<Rightarrow> Inl e | Inr x \<Rightarrow> f x)"

text \<open>\<^verbatim>\<open>await Promise.all(xs.map(f))\<close>: the results in order, or the first error.\<close>

fun map_result :: "('a \<Rightarrow> 'e + 'b) \<Rightarrow> 'a list \<Rightarrow> 'e + 'b list" where
  "map_result f [] = Inr []"
| "map_result f (x # xs) = bind_result (f x) (\<lambda>y. bind_result (map_result f xs) (\<lambda>ys. Inr (y # ys)))"

lemma bind_result_simps [simp]:
  "bind_result (Inl e) f = Inl e" "bind_result (Inr x) f = f x"
  by (simp_all add: bind_result_def)

lemma bind_result_Inr: "bind_result r f = Inr y \<longleftrightarrow> (\<exists>x. r = Inr x \<and> f x = Inr y)"
  by (cases r) auto

lemma map_result_Inr: "map_result f xs = Inr ys \<Longrightarrow> list_all2 (\<lambda>x y. f x = Inr y) xs ys"
  by (induction xs arbitrary: ys) (auto simp: bind_result_Inr)

section \<open>Numbers\<close>

definition MAX_SAFE_INTEGER :: int where
  "MAX_SAFE_INTEGER = 2 ^ 53 - 1"

text \<open>\<^verbatim>\<open>Number.isSafeInteger(v)\<close>, with the integer it is.\<close>

fun safe_int :: "jsval \<Rightarrow> int option" where
  "safe_int (JNum (JFin x)) =
     (if of_int \<lfloor>x\<rfloor> = x \<and> \<bar>\<lfloor>x\<rfloor>\<bar> \<le> MAX_SAFE_INTEGER then Some \<lfloor>x\<rfloor> else None)"
| "safe_int _ = None"

text \<open>\<^verbatim>\<open>typeof v === "number" && Number.isFinite(v)\<close>, with the number it is.\<close>

fun finite_num :: "jsval \<Rightarrow> rat option" where
  "finite_num (JNum (JFin x)) = Some x"
| "finite_num _ = None"

definition int_such :: "(int \<Rightarrow> bool) \<Rightarrow> jsval \<Rightarrow> bool" where
  "int_such p v = (case safe_int v of None \<Rightarrow> False | Some n \<Rightarrow> p n)"

definition num_such :: "(rat \<Rightarrow> bool) \<Rightarrow> jsval \<Rightarrow> bool" where
  "num_such p v = (case finite_num v of None \<Rightarrow> False | Some x \<Rightarrow> p x)"

text \<open>
  \<^verbatim>\<open>Math.ceil(a / b)\<close> on safe integers with \<open>0 < b\<close>. A quotient that is not an integer is at
  least \<open>1 / b\<close> away from the next one, more than half a unit in the last place of the
  double quotient, so the rounding of the division never changes the ceiling.
\<close>

definition ceil_div :: "int \<Rightarrow> int \<Rightarrow> int" where
  "ceil_div a b = - ((- a) div b)"

lemma safe_int_JInt [simp]:
  "safe_int (JInt n) = (if \<bar>n\<bar> \<le> MAX_SAFE_INTEGER then Some n else None)"
  by simp

lemma safe_int_Some:
  "safe_int v = Some n \<longleftrightarrow> v = JInt n \<and> \<bar>n\<bar> \<le> MAX_SAFE_INTEGER"
  by (cases v rule: safe_int.cases) auto

lemma int_such_JInt [simp]: "int_such p (JInt n) \<longleftrightarrow> \<bar>n\<bar> \<le> MAX_SAFE_INTEGER \<and> p n"
  by (simp add: int_such_def)

lemma int_such_iff: "int_such p v \<longleftrightarrow> (\<exists>n. safe_int v = Some n \<and> p n)"
  by (simp add: int_such_def split: option.splits)

lemma int_suchE:
  assumes "int_such p v"
  obtains n where "v = JInt n" "\<bar>n\<bar> \<le> MAX_SAFE_INTEGER" "p n"
  using assms by (auto simp: int_such_iff safe_int_Some)

lemma num_such_iff: "num_such p v \<longleftrightarrow> (\<exists>x. v = JNum (JFin x) \<and> p x)"
  by (cases v rule: finite_num.cases) (auto simp: num_such_def)

lemma str_such_iff: "str_such p v \<longleftrightarrow> (\<exists>s. v = JStr s \<and> p s)"
  by (cases v) auto

lemma arr_such_iff: "arr_such p v \<longleftrightarrow> (\<exists>xs. v = JArr xs \<and> p xs)"
  by (cases v) auto

lemma is_record_iff: "is_record v \<longleftrightarrow> (\<exists>ps. v = JObj ps)"
  by (cases v) auto

lemma ceil_div_bounds:
  assumes "0 < b"
  shows "a \<le> ceil_div a b * b" and "ceil_div a b * b < a + b"
proof -
  have "(- a) div b * b + (- a) mod b = - a" by (rule div_mult_mod_eq)
  then have eq: "ceil_div a b * b = a + (- a) mod b"
    unfolding ceil_div_def by linarith
  have "0 \<le> (- a) mod b" "(- a) mod b < b" using assms by simp_all
  then show "a \<le> ceil_div a b * b" "ceil_div a b * b < a + b"
    unfolding eq by linarith+
qed

lemma ceil_div_unique:
  assumes "0 < b" "a \<le> k * b" "k * b < a + b"
  shows "ceil_div a b = k"
proof -
  note bs = ceil_div_bounds [OF assms(1), of a]
  have "ceil_div a b * b < (k + 1) * b" "k * b < (ceil_div a b + 1) * b"
    using bs assms by (simp_all add: distrib_right)
  with assms(1) have "ceil_div a b < k + 1" "k < ceil_div a b + 1"
    by (simp_all only: mult_less_cancel_right_pos)
  then show ?thesis by linarith
qed

lemma ceil_div_nonneg: "0 \<le> a \<Longrightarrow> 0 < b \<Longrightarrow> 0 \<le> ceil_div a b"
  by (simp add: ceil_div_def div_nonpos_pos_le0)

lemma ceil_div_zero [simp]: "ceil_div 0 b = 0"
  by (simp add: ceil_div_def)

section \<open>Strings\<close>

abbreviation code_unit :: "char \<Rightarrow> nat" where
  "code_unit \<equiv> of_char"

definition digit_chars :: string where
  "digit_chars = ''0123456789''"

definition lower_chars :: string where
  "lower_chars = ''abcdefghijklmnopqrstuvwxyz''"

definition upper_chars :: string where
  "upper_chars = ''ABCDEFGHIJKLMNOPQRSTUVWXYZ''"

text \<open>The classes \<^verbatim>\<open>[A-Za-z0-9_-]\<close> and, ignoring case, \<^verbatim>\<open>[a-f0-9]\<close>.\<close>

definition wire_chars :: string where
  "wire_chars = upper_chars @ lower_chars @ digit_chars @ ''_-''"

definition hex_chars :: string where
  "hex_chars = digit_chars @ ''abcdef'' @ ''ABCDEF''"

text \<open>\<^verbatim>\<open>/^[cs]{lo,hi}$/.test(s)\<close>\<close>

definition matches_class :: "string \<Rightarrow> nat \<Rightarrow> nat \<Rightarrow> string \<Rightarrow> bool" where
  "matches_class cs lo hi s \<longleftrightarrow> lo \<le> length s \<and> length s \<le> hi \<and> list_all (\<lambda>c. c \<in> set cs) s"

definition sha256_pattern :: "string \<Rightarrow> bool" where
  "sha256_pattern = matches_class hex_chars 64 64"

definition is_white :: "char \<Rightarrow> bool" where
  "is_white c \<longleftrightarrow> (let n = code_unit c in 9 \<le> n \<and> n \<le> 13 \<or> n = 32 \<or> n = 160)"

definition js_trim :: "string \<Rightarrow> string" where
  "js_trim s = rev (dropWhile is_white (rev (dropWhile is_white s)))"

definition lower_char :: "char \<Rightarrow> char" where
  "lower_char c = (let n = code_unit c in
     if 65 \<le> n \<and> n \<le> 90 \<or> 192 \<le> n \<and> n \<le> 222 \<and> n \<noteq> 215 then char_of (n + 32) else c)"

definition js_lower :: "string \<Rightarrow> string" where
  "js_lower = map lower_char"

definition starts_with :: "string \<Rightarrow> string \<Rightarrow> bool" where
  "starts_with s p \<longleftrightarrow> take (length p) s = p"

fun includes_str :: "string \<Rightarrow> string \<Rightarrow> bool" where
  "includes_str [] p = (p = [])"
| "includes_str (c # s) p = (starts_with (c # s) p \<or> includes_str s p)"

text \<open>\<^verbatim>\<open>s.split(c)\<close> for a one-character separator, and \<^verbatim>\<open>xs.join(sep)\<close>.\<close>

fun split_on :: "char \<Rightarrow> string \<Rightarrow> string list" where
  "split_on c [] = [[]]"
| "split_on c (x # s) =
     (if x = c then [] # split_on c s
      else (case split_on c s of [] \<Rightarrow> [[x]] | y # ys \<Rightarrow> (x # y) # ys))"

fun join_with :: "string \<Rightarrow> string list \<Rightarrow> string" where
  "join_with sep [] = []"
| "join_with sep [x] = x"
| "join_with sep (x # xs) = x @ sep @ join_with sep xs"

text \<open>\<^verbatim>\<open>new TextEncoder().encode(s).byteLength\<close>\<close>

definition utf8_length :: "string \<Rightarrow> nat" where
  "utf8_length s = sum_list (map (\<lambda>c. if code_unit c < 128 then 1 else 2) s)"

text \<open>Decimal printing of an integer, as \<^verbatim>\<open>String(n)\<close> prints it.\<close>

definition digit_char :: "nat \<Rightarrow> char" where
  "digit_char d = char_of (48 + d)"

fun nat_digits :: "nat \<Rightarrow> string" where
  "nat_digits n = (if n < 10 then [digit_char n] else nat_digits (n div 10) @ [digit_char (n mod 10)])"

declare nat_digits.simps [simp del]

definition int_digits :: "int \<Rightarrow> string" where
  "int_digits n = (if n < 0 then CHR ''-'' # nat_digits (nat (- n)) else nat_digits (nat n))"

lemma split_on_nonempty [simp]: "split_on c s \<noteq> []"
  by (cases s) (auto split: list.splits)

lemma split_on_no_sep: "seg \<in> set (split_on c s) \<Longrightarrow> c \<notin> set seg"
proof (induction s arbitrary: seg)
  case (Cons x s)
  then show ?case
    by (auto split: if_splits list.splits)
qed simp

lemma split_on_chars: "seg \<in> set (split_on c s) \<Longrightarrow> set seg \<subseteq> set s"
proof (induction s arbitrary: seg)
  case (Cons x s)
  then show ?case
    by (auto split: if_splits list.splits) blast+
qed simp

lemma matches_class_chars: "matches_class cs lo hi s \<Longrightarrow> c \<in> set s \<Longrightarrow> c \<in> set cs"
  by (auto simp: matches_class_def list_all_iff)

lemma utf8_length_ge: "length s \<le> utf8_length s"
  by (induction s) (auto simp: utf8_length_def)

lemma utf8_length_append [simp]: "utf8_length (s @ t) = utf8_length s + utf8_length t"
  by (simp add: utf8_length_def)

lemma js_trim_subset: "set (js_trim s) \<subseteq> set s"
proof -
  have "set (js_trim s) \<subseteq> set (dropWhile is_white s)"
    unfolding js_trim_def by (auto dest: set_dropWhileD)
  then show ?thesis by (auto dest: set_dropWhileD)
qed

lemma length_js_trim: "length (js_trim s) \<le> length s"
  unfolding js_trim_def
  by (metis length_dropWhile_le length_rev order_trans)

lemma length_js_lower [simp]: "length (js_lower s) = length s"
  by (simp add: js_lower_def)

end
