(* ===== verification/SHA256.thy ===== *)
theory SHA256
  imports JS_Value "HOL-Library.Word"
begin

unbundle bit_operations_syntax

text \<open>
  The incremental SHA-256 of \<^verbatim>\<open>packages/rtc/src/streaming-sha256.ts\<close>, which hashes a file while it
  is read in pieces, and its equivalence with the hash of the whole message as FIPS 180-4 defines it.

  A byte is an \<open>8 word\<close> and a state word a \<open>32 word\<close>. The code adds up to five 32-bit numbers as
  doubles, which is exact, and reduces the sum with \<^verbatim>\<open>>>> 0\<close>; that is the wrapping addition of
  words. The buffer of a partial block keeps stale bytes behind \<^verbatim>\<open>blockLength\<close>, as in the code.
\<close>

type_synonym byte = "8 word"
type_synonym word32 = "32 word"

section \<open>The code\<close>

definition K :: "word32 list" where
  "K = concat [
    [0x428a2f98, 0x71374491, 0xb5c0fbcf, 0xe9b5dba5, 0x3956c25b, 0x59f111f1, 0x923f82a4, 0xab1c5ed5],
    [0xd807aa98, 0x12835b01, 0x243185be, 0x550c7dc3, 0x72be5d74, 0x80deb1fe, 0x9bdc06a7, 0xc19bf174],
    [0xe49b69c1, 0xefbe4786, 0x0fc19dc6, 0x240ca1cc, 0x2de92c6f, 0x4a7484aa, 0x5cb0a9dc, 0x76f988da],
    [0x983e5152, 0xa831c66d, 0xb00327c8, 0xbf597fc7, 0xc6e00bf3, 0xd5a79147, 0x06ca6351, 0x14292967],
    [0x27b70a85, 0x2e1b2138, 0x4d2c6dfc, 0x53380d13, 0x650a7354, 0x766a0abb, 0x81c2c92e, 0x92722c85],
    [0xa2bfe8a1, 0xa81a664b, 0xc24b8b70, 0xc76c51a3, 0xd192e819, 0xd6990624, 0xf40e3585, 0x106aa070],
    [0x19a4c116, 0x1e376c08, 0x2748774c, 0x34b0bcb5, 0x391c0cb3, 0x4ed8aa4a, 0x5b9cca4f, 0x682e6ff3],
    [0x748f82ee, 0x78a5636f, 0x84c87814, 0x8cc70208, 0x90befffa, 0xa4506ceb, 0xbef9a3f7, 0xc67178f2]]"

definition initial_state :: "word32 list" where
  "initial_state = [0x6a09e667,0xbb67ae85,0x3c6ef372,0xa54ff53a,0x510e527f,0x9b05688c,0x1f83d9ab,0x5be0cd19]"

definition rotr :: "word32 \<Rightarrow> nat \<Rightarrow> word32" where
  "rotr value bits = drop_bit bits value OR push_bit (32 - bits) value"

text \<open>\<^verbatim>\<open>view.getUint32(offset, false)\<close> and \<^verbatim>\<open>view.setUint32(offset, value, false)\<close>: big-endian.\<close>

definition get_uint32 :: "byte list \<Rightarrow> nat \<Rightarrow> word32" where
  "get_uint32 bs i = push_bit 24 (ucast (bs ! i)) OR push_bit 16 (ucast (bs ! (i + 1)))
     OR push_bit 8 (ucast (bs ! (i + 2))) OR ucast (bs ! (i + 3))"

definition uint32_bytes :: "word32 \<Rightarrow> byte list" where
  "uint32_bytes v = [ucast (drop_bit 24 v), ucast (drop_bit 16 v), ucast (drop_bit 8 v), ucast v]"

text \<open>The schedule: the first loop reads sixteen words, the second extends them to sixty-four.\<close>

definition schedule_step :: "word32 list \<Rightarrow> nat \<Rightarrow> word32 list" where
  "schedule_step words index =
    (let x = words ! (index - 15); y = words ! (index - 2)
     in words @ [words ! (index - 16) + (rotr x 7 XOR rotr x 18 XOR drop_bit 3 x)
                 + words ! (index - 7) + (rotr y 17 XOR rotr y 19 XOR drop_bit 10 y)])"

definition schedule :: "byte list \<Rightarrow> word32 list" where
  "schedule chunk = foldl schedule_step (map (\<lambda>index. get_uint32 chunk (index * 4)) [0..<16]) [16..<64]"

type_synonym working = "word32 \<times> word32 \<times> word32 \<times> word32 \<times> word32 \<times> word32 \<times> word32 \<times> word32"

definition round_step :: "word32 list \<Rightarrow> working \<Rightarrow> nat \<Rightarrow> working" where
  "round_step words v index = (case v of (a, b, c, d, e, f, g, h) \<Rightarrow>
    (let t1 = h + (rotr e 6 XOR rotr e 11 XOR rotr e 25) + ((e AND f) XOR (NOT e AND g)) + K ! index + words ! index;
         t2 = (rotr a 2 XOR rotr a 13 XOR rotr a 22) + ((a AND b) XOR (a AND c) XOR (b AND c))
     in (t1 + t2, a, b, c, d + t1, e, f, g)))"

definition compress :: "word32 list \<Rightarrow> byte list \<Rightarrow> word32 list" where
  "compress s chunk =
    (case foldl (round_step (schedule chunk)) (s ! 0, s ! 1, s ! 2, s ! 3, s ! 4, s ! 5, s ! 6, s ! 7) [0..<64] of
       (a, b, c, d, e, f, g, h) \<Rightarrow>
         [s ! 0 + a, s ! 1 + b, s ! 2 + c, s ! 3 + d, s ! 4 + e, s ! 5 + f, s ! 6 + g, s ! 7 + h])"

record IncrementalSha256 =
  sh_state :: "word32 list"
  sh_block :: "byte list"
  sh_blockLength :: nat
  sh_bytesHashed :: nat
  sh_finished :: bool

definition new_sha256 :: IncrementalSha256 where
  "new_sha256 = \<lparr>sh_state = initial_state, sh_block = replicate 64 0, sh_blockLength = 0,
     sh_bytesHashed = 0, sh_finished = False\<rparr>"

text \<open>\<^verbatim>\<open>array.set(values, offset)\<close> inside the array.\<close>

definition array_set :: "'a list \<Rightarrow> nat \<Rightarrow> 'a list \<Rightarrow> 'a list" where
  "array_set xs i vs = take i xs @ vs @ drop (i + length vs) xs"

text \<open>
  One turn of the loop of \<^verbatim>\<open>update\<close> takes as many bytes as fit in the block. The loop would spin for
  ever on a full block, so it is a partial function; \<open>None\<close> is not returning.
\<close>

definition absorb_step :: "IncrementalSha256 \<Rightarrow> byte list \<Rightarrow> IncrementalSha256 \<times> byte list" where
  "absorb_step st bytes =
    (let n = min (64 - sh_blockLength st) (length bytes);
         block = array_set (sh_block st) (sh_blockLength st) (take n bytes);
         st1 = st\<lparr>sh_block := block, sh_blockLength := sh_blockLength st + n\<rparr>
     in (if sh_blockLength st1 = 64
         then st1\<lparr>sh_state := compress (sh_state st1) (sh_block st1), sh_blockLength := 0\<rparr> else st1,
         drop n bytes))"

partial_function (option) absorb :: "IncrementalSha256 \<Rightarrow> byte list \<Rightarrow> IncrementalSha256 option" where
  "absorb st bytes =
    (if bytes = [] then Some st
     else case absorb_step st bytes of (st', rest) \<Rightarrow> absorb st' rest)"

definition update :: "IncrementalSha256 \<Rightarrow> byte list \<Rightarrow> js_error + IncrementalSha256 option" where
  "update st bytes =
    (if sh_finished st then Inl (JSError ''already finished'')
     else Inr (absorb (st\<lparr>sh_bytesHashed := sh_bytesHashed st + length bytes\<rparr>) bytes))"

definition fill_zero :: "byte list \<Rightarrow> nat \<Rightarrow> nat \<Rightarrow> byte list" where
  "fill_zero xs i j = array_set xs i (replicate (j - i) 0)"

definition finish :: "IncrementalSha256 \<Rightarrow> IncrementalSha256" where
  "finish st =
    (let bitLength = sh_bytesHashed st * 8;
         block1 = array_set (sh_block st) (sh_blockLength st) [0x80];
         len1 = sh_blockLength st + 1;
         (state2, block2, len2) =
           (if len1 > 56
            then (let filled = fill_zero block1 len1 64 in (compress (sh_state st) filled, filled, 0))
            else (sh_state st, block1, len1));
         block3 = fill_zero block2 len2 56;
         block4 = array_set block3 56 (uint32_bytes (of_nat (bitLength div 2 ^ 32 mod 2 ^ 32)));
         block5 = array_set block4 60 (uint32_bytes (of_nat (bitLength mod 2 ^ 32)))
     in st\<lparr>sh_finished := True, sh_block := block5, sh_blockLength := len2, sh_state := compress state2 block5\<rparr>)"

definition digest :: "IncrementalSha256 \<Rightarrow> byte list \<times> IncrementalSha256" where
  "digest st = (let st' = (if sh_finished st then st else finish st)
     in (concat (map uint32_bytes (sh_state st')), st'))"

definition hex_digit_char :: "nat \<Rightarrow> char" where
  "hex_digit_char n = (if n < 10 then char_of (48 + n) else char_of (87 + n))"

definition byte_hex :: "byte \<Rightarrow> string" where
  "byte_hex b = [hex_digit_char (unat b div 16), hex_digit_char (unat b mod 16)]"

definition digestHex :: "IncrementalSha256 \<Rightarrow> string \<times> IncrementalSha256" where
  "digestHex st = (case digest st of (bytes, st') \<Rightarrow> (concat (map byte_hex bytes), st'))"

text \<open>Hashing a blob: its stream is read piece by piece.\<close>

fun update_all :: "IncrementalSha256 \<Rightarrow> byte list list \<Rightarrow> js_error + IncrementalSha256 option" where
  "update_all st [] = Inr (Some st)"
| "update_all st (p # pieces) =
    (case update st p of
       Inl e \<Rightarrow> Inl e
     | Inr None \<Rightarrow> Inr None
     | Inr (Some st') \<Rightarrow> update_all st' pieces)"

definition sha256BlobHex :: "byte list list \<Rightarrow> js_error + string option" where
  "sha256BlobHex pieces =
    (case update_all new_sha256 pieces of
       Inl e \<Rightarrow> Inl e
     | Inr None \<Rightarrow> Inr None
     | Inr (Some st) \<Rightarrow> Inr (Some (fst (digestHex st))))"

section \<open>The standard\<close>

text \<open>
  The hash of FIPS 180-4: the message is padded with a one bit, zeros and its length in bits to a
  multiple of 512 bits, and the blocks are compressed from the initial value on. The schedule is
  the recurrence on word numbers, the functions rotate words.
\<close>

fun W :: "byte list \<Rightarrow> nat \<Rightarrow> word32" where
  "W block t =
    (if t < 16 then get_uint32 block (t * 4)
     else (word_rotr 17 (W block (t - 2)) XOR word_rotr 19 (W block (t - 2)) XOR drop_bit 10 (W block (t - 2)))
        + W block (t - 7)
        + (word_rotr 7 (W block (t - 15)) XOR word_rotr 18 (W block (t - 15)) XOR drop_bit 3 (W block (t - 15)))
        + W block (t - 16))"

declare W.simps [simp del]

definition fips_round :: "byte list \<Rightarrow> working \<Rightarrow> nat \<Rightarrow> working" where
  "fips_round block v t = (case v of (a, b, c, d, e, f, g, h) \<Rightarrow>
    (let T1 = h + (word_rotr 6 e XOR word_rotr 11 e XOR word_rotr 25 e) + ((e AND f) XOR (NOT e AND g)) + K ! t + W block t;
         T2 = (word_rotr 2 a XOR word_rotr 13 a XOR word_rotr 22 a) + ((a AND b) XOR (a AND c) XOR (b AND c))
     in (T1 + T2, a, b, c, d + T1, e, f, g)))"

definition fips_compress :: "word32 list \<Rightarrow> byte list \<Rightarrow> word32 list" where
  "fips_compress s block =
    (case foldl (fips_round block) (s ! 0, s ! 1, s ! 2, s ! 3, s ! 4, s ! 5, s ! 6, s ! 7) [0..<64] of
       (a, b, c, d, e, f, g, h) \<Rightarrow>
         [s ! 0 + a, s ! 1 + b, s ! 2 + c, s ! 3 + d, s ! 4 + e, s ! 5 + f, s ! 6 + g, s ! 7 + h])"

function blocks64 :: "'a list \<Rightarrow> 'a list list" where
  "blocks64 xs = (if xs = [] then [] else take 64 xs # blocks64 (drop 64 xs))"
  by auto
termination by (relation "measure length") auto

declare blocks64.simps [simp del]

definition pad_zeros :: "nat \<Rightarrow> nat" where
  "pad_zeros n = (119 - n mod 64) mod 64"

definition length_bytes :: "nat \<Rightarrow> byte list" where
  "length_bytes n = (let bits = n * 8 in
     uint32_bytes (of_nat (bits div 2 ^ 32 mod 2 ^ 32)) @ uint32_bytes (of_nat (bits mod 2 ^ 32)))"

definition padded :: "byte list \<Rightarrow> byte list" where
  "padded m = m @ 0x80 # replicate (pad_zeros (length m)) 0 @ length_bytes (length m)"

definition sha256 :: "byte list \<Rightarrow> byte list" where
  "sha256 m = concat (map uint32_bytes (foldl fips_compress initial_state (blocks64 (padded m))))"

section \<open>The compression function is the standard one\<close>

lemma rotr_word_rotr:
  assumes "0 < n" "n < 32"
  shows "rotr x n = word_rotr n x"
proof (rule bit_word_eqI)
  fix k assume "k < LENGTH(32)"
  then have k: "k < 32" by simp
  have l: "bit (rotr x n) k \<longleftrightarrow> bit x (k + n) \<or> (32 - n \<le> k \<and> bit x (k - (32 - n)))"
    using k by (simp add: rotr_def bit_or_iff bit_drop_bit_eq bit_push_bit_iff add.commute)
  have r: "bit (word_rotr n x) k \<longleftrightarrow> bit x ((k + n) mod 32)"
    using k by (simp add: bit_word_rotr_iff)
  show "bit (rotr x n) k \<longleftrightarrow> bit (word_rotr n x) k"
  proof (cases "k + n < 32")
    case True
    then have "\<not> 32 - n \<le> k" using assms by linarith
    with True show ?thesis by (simp add: l r)
  next
    case False
    then have "(k + n) mod 32 = k - (32 - n)" using assms k by (simp add: le_mod_geq)
    moreover have "\<not> bit x (k + n)" using False bit_imp_le_length [of x "k + n"] by auto
    moreover have "32 - n \<le> k" using False by linarith
    ultimately show ?thesis by (simp add: l r)
  qed
qed

lemma length_schedule_fold: "length (foldl schedule_step ws is) = length ws + length is"
  by (induction "is" arbitrary: ws) (auto simp: schedule_step_def Let_def)

lemma schedule_prefix:
  assumes "16 \<le> n" "n \<le> 64"
  shows "foldl schedule_step (map (\<lambda>i. get_uint32 chunk (i * 4)) [0..<16]) [16..<n] = map (W chunk) [0..<n]"
  using assms
proof (induction n rule: nat_induct_at_least)
  case base
  have "map (\<lambda>i. get_uint32 chunk (i * 4)) [0..<16] = map (W chunk) [0..<16]"
    by (rule map_cong) (auto simp: W.simps [of chunk])
  then show ?case by simp
next
  case (Suc n)
  have n: "16 \<le> n" "n < 64" using Suc by auto
  then have sub: "n - 15 < n" "n - 2 < n" "n - 16 < n" "n - 7 < n" by auto
  from Suc have "foldl schedule_step (map (\<lambda>i. get_uint32 chunk (i * 4)) [0..<16]) [16..<Suc n]
      = schedule_step (map (W chunk) [0..<n]) n" by simp
  also have "\<dots> = map (W chunk) [0..<n] @ [W chunk n]"
    using n sub by (simp add: schedule_step_def Let_def W.simps [of chunk n] rotr_word_rotr)
  finally show ?case by simp
qed

lemma schedule_W: "t < 64 \<Longrightarrow> schedule chunk ! t = W chunk t"
proof -
  have "schedule chunk = map (W chunk) [0..<64]"
    unfolding schedule_def by (rule schedule_prefix) auto
  then show "t < 64 \<Longrightarrow> schedule chunk ! t = W chunk t"
    by (simp only: nth_map length_upt nth_upt add_0 minus_nat.diff_0)
qed

lemma foldl_cong_on:
  "(\<And>a x. x \<in> set xs \<Longrightarrow> f a x = g a x) \<Longrightarrow> foldl f a xs = foldl g a xs"
  by (induction xs arbitrary: a) auto

lemma compress_fips: "compress s chunk = fips_compress s chunk"
proof -
  have "round_step (schedule chunk) v t = fips_round chunk v t" if "t \<in> set [0..<64]" for v t
    using that by (simp add: round_step_def fips_round_def schedule_W rotr_word_rotr)
  then have "foldl (round_step (schedule chunk)) v [0..<64] = foldl (fips_round chunk) v [0..<64]" for v
    by (rule foldl_cong_on)
  then show ?thesis by (simp add: compress_def fips_compress_def)
qed

section \<open>Blocks\<close>

lemma blocks64_Nil [simp]: "blocks64 [] = []"
  by (simp add: blocks64.simps)

lemma blocks64_single: "length b = 64 \<Longrightarrow> blocks64 (b @ xs) = b # blocks64 xs"
  by (subst blocks64.simps) auto

lemma blocks64_append:
  "length xs mod 64 = 0 \<Longrightarrow> blocks64 (xs @ ys) = blocks64 xs @ blocks64 ys"
proof (induction xs rule: blocks64.induct)
  case (1 xs)
  show ?case
  proof (cases "xs = []")
    case False
    with 1(2) have len: "64 \<le> length xs" by (metis length_0_conv mod_less not_less)
    have "blocks64 (xs @ ys) = blocks64 (take 64 xs @ drop 64 xs @ ys)"
      by (metis append.assoc append_take_drop_id)
    also have "\<dots> = take 64 xs # blocks64 (drop 64 xs @ ys)"
      using len by (intro blocks64_single) simp
    also have "blocks64 (drop 64 xs @ ys) = blocks64 (drop 64 xs) @ blocks64 ys"
      using 1(1) [OF False] 1(2) len by (simp add: le_mod_geq)
    also have "take 64 xs # blocks64 (drop 64 xs) @ blocks64 ys = blocks64 xs @ blocks64 ys"
      using False by (simp add: blocks64.simps [of xs])
    finally show ?thesis .
  qed simp
qed

lemma length_array_set [simp]: "i + length vs \<le> length xs \<Longrightarrow> length (array_set xs i vs) = length xs"
  by (simp add: array_set_def)

lemma take_array_set: "i \<le> length xs \<Longrightarrow> take (i + length vs) (array_set xs i vs) = take i xs @ vs"
  by (simp add: array_set_def)

section \<open>Absorbing\<close>

text \<open>
  The state after the bytes \<open>m\<close>: all full blocks of \<open>m\<close> are compressed, the rest of \<open>m\<close> is in
  the buffer.
\<close>

definition full_part :: "nat \<Rightarrow> nat" where
  "full_part n = n - n mod 64"

definition absorbed :: "byte list \<Rightarrow> IncrementalSha256 \<Rightarrow> bool" where
  "absorbed m st \<longleftrightarrow>
     sh_state st = foldl compress initial_state (blocks64 (take (full_part (length m)) m))
     \<and> length (sh_block st) = 64
     \<and> sh_blockLength st = length m mod 64
     \<and> take (sh_blockLength st) (sh_block st) = drop (full_part (length m)) m
     \<and> \<not> sh_finished st"

lemma absorbed_new: "absorbed [] new_sha256"
  by (simp add: absorbed_def new_sha256_def full_part_def)

lemma full_part:
  "full_part n + n mod 64 = n" "full_part n mod 64 = 0" "full_part n \<le> n"
  by (simp_all add: full_part_def minus_mod_eq_mult_div)

lemma full_part_add: "n mod 64 + k < 64 \<Longrightarrow> full_part (n + k) = full_part n"
  using full_part(1) [of n] full_part(1) [of "n + k"] mod_add_left_eq [of n 64 k] by simp

lemma absorbed_fits:
  assumes "absorbed m st" "length m mod 64 + length p < 64"
    "b = array_set (sh_block st) (sh_blockLength st) p"
  shows "absorbed (m @ p) (st\<lparr>sh_block := b, sh_blockLength := sh_blockLength st + length p\<rparr>)"
proof -
  have len: "(length m + length p) mod 64 = length m mod 64 + length p"
    using assms(2) by (metis mod_add_left_eq mod_less)
  have b: "length b = 64" "take (length m mod 64 + length p) b = drop (full_part (length m)) m @ p"
    using assms take_array_set [of "length m mod 64" "sh_block st" p] by (auto simp: absorbed_def)
  show ?thesis
    using assms(1) b full_part(3) [of "length m"] by (simp add: absorbed_def len full_part_add [OF assms(2)])
qed

lemma absorbed_fills:
  assumes "absorbed m st" "length m mod 64 + length p = 64"
    "b = array_set (sh_block st) (sh_blockLength st) p"
  shows "absorbed (m @ p) (st\<lparr>sh_block := b, sh_state := compress (sh_state st) b, sh_blockLength := 0\<rparr>)"
proof -
  have eq: "length m + length p = full_part (length m) + 64"
    using assms(2) full_part(1) [of "length m"] by linarith
  have md: "(length m + length p) mod 64 = 0"
    unfolding eq using full_part(2) by simp
  then have len: "(length m + length p) mod 64 = 0" "full_part (length m + length p) = length m + length p"
    by (simp_all only: full_part_def diff_zero)
  have b: "length b = 64"
    using assms by (auto simp: absorbed_def)
  have "take (length m mod 64 + length p) b = drop (full_part (length m)) m @ p"
    using assms take_array_set [of "length m mod 64" "sh_block st" p] by (auto simp: absorbed_def)
  then have "b = drop (full_part (length m)) m @ p" using assms(2) b by simp
  then have mp: "m @ p = take (full_part (length m)) m @ b" by simp
  have "length (take (full_part (length m)) m) mod 64 = 0"
    unfolding length_take min_absorb2 [OF full_part(3)] by (rule full_part(2))
  then have "blocks64 (m @ p) = blocks64 (take (full_part (length m)) m) @ [b]"
    unfolding mp using blocks64_single [OF b, of "[]"] by (simp add: blocks64_append del: length_take)
  then show ?thesis
    using assms(1) b by (simp add: absorbed_def len)
qed

lemma absorb_absorbed:
  assumes "absorbed m st"
  shows "\<exists>st'. absorb st bytes = Some st' \<and> absorbed (m @ bytes) st' \<and> sh_bytesHashed st' = sh_bytesHashed st"
  using assms
proof (induction bytes arbitrary: m st rule: length_induct)
  case (1 bytes)
  show ?case
  proof (cases "bytes = []")
    case False
    define n where "n = min (64 - length m mod 64) (length bytes)"
    define p where "p = take n bytes"
    define b where "b = array_set (sh_block st) (sh_blockLength st) p"
    have bl: "sh_blockLength st = length m mod 64" using 1(2) by (simp add: absorbed_def)
    have n: "0 < n" "n \<le> length bytes" "length m mod 64 + n \<le> 64" using False by (auto simp: n_def)
    have p: "length p = n" "bytes = p @ drop n bytes" using n by (auto simp: p_def)
    define st1 where "st1 = (if length m mod 64 + n = 64
       then st\<lparr>sh_block := b, sh_state := compress (sh_state st) b, sh_blockLength := 0\<rparr>
       else st\<lparr>sh_block := b, sh_blockLength := sh_blockLength st + length p\<rparr>)"
    have step: "absorb_step st bytes = (st1, drop n bytes)"
      unfolding absorb_step_def Let_def bl n_def [symmetric] p_def [symmetric] b_def [symmetric, unfolded bl]
      using p(1) by (simp add: st1_def bl b_def [symmetric, unfolded bl])
    have "absorbed (m @ p) st1"
      using absorbed_fits [OF 1(2) _ b_def] absorbed_fills [OF 1(2) _ b_def] n p(1) by (simp add: st1_def)
    moreover have "length (drop n bytes) < length bytes" using n False by simp
    ultimately obtain st' where "absorb st1 (drop n bytes) = Some st'" "absorbed ((m @ p) @ drop n bytes) st'"
      "sh_bytesHashed st' = sh_bytesHashed st1"
      using 1(1) [rule_format, of "drop n bytes" "m @ p" st1] by blast
    moreover have "(m @ p) @ drop n bytes = m @ bytes" using p(2) by (metis append.assoc)
    moreover have "sh_bytesHashed st1 = sh_bytesHashed st" by (simp add: st1_def)
    ultimately show ?thesis using False step by (simp add: absorb.simps [of st bytes])
  qed (use 1(2) in \<open>simp add: absorb.simps\<close>)
qed


section \<open>Finishing\<close>

lemma length_length_bytes [simp]: "length (length_bytes n) = 8"
  by (simp add: length_bytes_def Let_def uint32_bytes_def)

lemma pad_zeros_short: "n mod 64 < 56 \<Longrightarrow> pad_zeros n = 55 - n mod 64"
proof -
  have "(119 - r) mod 64 = 55 - r" if "r < 56" for r :: nat
    using that mod_add_self2 [of "55 - r" 64] mod_less [of "55 - r" 64] by (simp del: mod_add_self2)
  then show "n mod 64 < 56 \<Longrightarrow> pad_zeros n = 55 - n mod 64"
    unfolding pad_zeros_def .
qed

lemma pad_zeros_long: "56 \<le> n mod 64 \<Longrightarrow> pad_zeros n = 119 - n mod 64"
proof -
  have "(119 - r) mod 64 = 119 - r" if "56 \<le> r" for r :: nat
    using that by (intro mod_less) linarith
  then show "56 \<le> n mod 64 \<Longrightarrow> pad_zeros n = 119 - n mod 64"
    unfolding pad_zeros_def .
qed

text \<open>The last eight bytes of the block hold the bit length.\<close>

lemma length_written:
  assumes "length b = 64"
  shows "array_set (array_set b 56 (uint32_bytes x)) 60 (uint32_bytes y) = take 56 b @ uint32_bytes x @ uint32_bytes y"
  using assms by (simp add: array_set_def uint32_bytes_def take_Cons')

lemma zero_filled:
  assumes "length b = 64" "i \<le> j" "j \<le> 64"
  shows "take j (fill_zero b i j) = take i b @ replicate (j - i) 0" "length (fill_zero b i j) = 64"
  using assms by (simp_all add: fill_zero_def array_set_def)

lemma finish_absorbed:
  assumes "absorbed m st" "sh_bytesHashed st = length m"
  shows "sh_state (finish st) = foldl compress initial_state (blocks64 (padded m))"
proof -
  define r where "r = drop (full_part (length m)) m"
  define f where "f = take (full_part (length m)) m"
  have m: "m = f @ r" by (simp add: r_def f_def)
  have lr: "length r = length m mod 64" and lf: "length f mod 64 = 0"
    using full_part [of "length m"] by (simp_all add: r_def f_def full_part_def)
  have st: "sh_state st = foldl compress initial_state (blocks64 f)" "length (sh_block st) = 64"
    "sh_blockLength st = length r" "take (length r) (sh_block st) = r"
    using assms(1) unfolding absorbed_def lr f_def [symmetric] r_def [symmetric] by (auto simp: lr)
  have r64: "length r < 64" using lr by simp
  define b1 where "b1 = array_set (sh_block st) (length r) [0x80]"
  have b1: "length b1 = 64" "take (Suc (length r)) b1 = r @ [0x80]"
    using take_array_set [of "length r" "sh_block st" "[0x80]"] st(2,4) r64 by (simp_all add: b1_def)
  let ?len = "length_bytes (length m)"
  have tail: "array_set (array_set b 56 (uint32_bytes (of_nat (length m * 8 div 2 ^ 32 mod 2 ^ 32)))) 60
      (uint32_bytes (of_nat (length m * 8 mod 2 ^ 32))) = take 56 b @ ?len" if "length b = 64" for b
    using length_written [OF that] by (simp add: length_bytes_def Let_def)
  have split: "foldl compress initial_state (blocks64 (padded m))
      = foldl compress (sh_state st) (blocks64 (r @ 0x80 # replicate (pad_zeros (length m)) 0 @ ?len))"
    using blocks64_append [OF lf, of "r @ 0x80 # replicate (pad_zeros (length m)) 0 @ ?len"] m st(1)
    by (simp add: padded_def)
  show ?thesis
  proof (cases "length r < 56")
    case True
    define b where "b = take 56 (fill_zero b1 (Suc (length r)) 56) @ ?len"
    have bz: "b = r @ 0x80 # replicate (pad_zeros (length m)) 0 @ ?len"
      using zero_filled(1) [OF b1(1), of "Suc (length r)" 56] b1(2) True lr
      by (simp add: b_def pad_zeros_short)
    have "length b = 64" using bz True lr by (simp add: pad_zeros_short)
    then have "blocks64 b = [b]" using blocks64_single [of b "[]"] by simp
    moreover have "sh_state (finish st) = compress (sh_state st) b"
      unfolding finish_def Let_def st(3) assms(2) b1_def [symmetric]
      using True tail [OF zero_filled(2) [OF b1(1)], of "Suc (length r)" 56] by (simp add: b_def)
    ultimately show ?thesis using split bz by simp
  next
    case False
    define c where "c = fill_zero b1 (Suc (length r)) 64"
    define b where "b = take 56 (fill_zero c 0 56) @ ?len"
    have c: "length c = 64" "c = r @ 0x80 # replicate (63 - length r) 0"
      using zero_filled [OF b1(1), of "Suc (length r)" 64] b1(2) r64 by (simp_all add: c_def)
    have bz: "b = replicate 56 0 @ ?len"
      using zero_filled(1) [OF c(1), of 0 56] by (simp add: b_def)
    have "r @ 0x80 # replicate (pad_zeros (length m)) 0 @ ?len = c @ b"
    proof -
      have "pad_zeros (length m) = (63 - length r) + 56" using False r64 lr by (simp add: pad_zeros_long)
      then show ?thesis by (simp only: c(2) bz replicate_add append.assoc append_Cons)
    qed
    moreover have "blocks64 (c @ b) = [c, b]"
      using blocks64_single [OF c(1), of b] blocks64_single [of b "[]"] bz by simp
    moreover have "sh_state (finish st) = compress (compress (sh_state st) c) b"
      unfolding finish_def Let_def st(3) assms(2) b1_def [symmetric]
      using False tail [OF zero_filled(2) [OF c(1)], of 0 56] by (simp add: b_def c_def [symmetric])
    ultimately show ?thesis using split by simp
  qed
qed

lemma update_all_absorbed:
  assumes "absorbed m st" "sh_bytesHashed st = length m"
  shows "\<exists>st'. update_all st pieces = Inr (Some st') \<and> absorbed (m @ concat pieces) st'
    \<and> sh_bytesHashed st' = length (m @ concat pieces)"
  using assms
proof (induction pieces arbitrary: m st)
  case (Cons p pieces)
  have "absorbed m (st\<lparr>sh_bytesHashed := sh_bytesHashed st + length p\<rparr>)"
    using Cons.prems(1) by (auto simp: absorbed_def)
  from absorb_absorbed [OF this, of p] obtain st1 where st1:
    "absorb (st\<lparr>sh_bytesHashed := sh_bytesHashed st + length p\<rparr>) p = Some st1" "absorbed (m @ p) st1"
    "sh_bytesHashed st1 = length (m @ p)" using Cons.prems(2) by auto
  have "update st p = Inr (Some st1)"
    using Cons.prems(1) st1(1) by (simp add: update_def absorbed_def)
  then show ?case using Cons.IH [OF st1(2,3)] by simp
qed simp

lemma hasher_digest:
  "\<exists>st. update_all new_sha256 pieces = Inr (Some st) \<and> fst (digest st) = sha256 (concat pieces)"
proof -
  have "sh_bytesHashed new_sha256 = length ([] :: byte list)" by (simp add: new_sha256_def)
  from update_all_absorbed [OF absorbed_new this, of pieces] obtain st where
    st: "update_all new_sha256 pieces = Inr (Some st)" "absorbed (concat pieces) st"
    "sh_bytesHashed st = length (concat pieces)" by auto
  have "fst (digest st) = sha256 (concat pieces)"
    using finish_absorbed [OF st(2,3)] st(2) unfolding sha256_def digest_def Let_def
    by (simp add: absorbed_def compress_fips [abs_def])
  with st(1) show ?thesis by blast
qed

definition hex_text :: "byte list \<Rightarrow> string" where
  "hex_text bs = concat (map byte_hex bs)"

lemma sha256BlobHex_eq: "sha256BlobHex pieces = Inr (Some (hex_text (sha256 (concat pieces))))"
proof -
  obtain st where "update_all new_sha256 pieces = Inr (Some st)" "fst (digest st) = sha256 (concat pieces)"
    using hasher_digest by blast
  then show ?thesis by (simp add: sha256BlobHex_def digestHex_def hex_text_def split_def)
qed

text \<open>C7: However a message is cut into pieces, feeding them to the incremental hasher returns, and
  the digest is the SHA-256 of FIPS 180-4 of the whole message: the loop over the block buffer
  ends, stale bytes in the buffer never count, and the padding is right at every length.\<close>

theorem incremental_sha256_correct:
  "(\<exists>st. update_all new_sha256 pieces = Inr (Some st) \<and> fst (digest st) = sha256 (concat pieces))
   \<and> sha256BlobHex pieces = Inr (Some (hex_text (sha256 (concat pieces))))"
  using hasher_digest sha256BlobHex_eq by blast

end
