(* ===== verification/Streaming_SHA256.thy ===== *)
theory Streaming_SHA256
  imports SHA256
begin

text \<open>
  The second SHA-256 of the repository, \<^verbatim>\<open>apps/web/src/services/attachments/streaming-sha256.ts\<close>,
  which hashes stored attachments. It is written apart from the one of the transfer package, with
  named intermediate values and a reset of the block length at the end, so it is modelled apart
  and proved to compute the same digests.
\<close>

section \<open>The code\<close>

definition K_streaming :: "word32 list" where
  "K_streaming = concat [
    [0x428a2f98, 0x71374491, 0xb5c0fbcf, 0xe9b5dba5, 0x3956c25b, 0x59f111f1, 0x923f82a4, 0xab1c5ed5],
    [0xd807aa98, 0x12835b01, 0x243185be, 0x550c7dc3, 0x72be5d74, 0x80deb1fe, 0x9bdc06a7, 0xc19bf174],
    [0xe49b69c1, 0xefbe4786, 0x0fc19dc6, 0x240ca1cc, 0x2de92c6f, 0x4a7484aa, 0x5cb0a9dc, 0x76f988da],
    [0x983e5152, 0xa831c66d, 0xb00327c8, 0xbf597fc7, 0xc6e00bf3, 0xd5a79147, 0x06ca6351, 0x14292967],
    [0x27b70a85, 0x2e1b2138, 0x4d2c6dfc, 0x53380d13, 0x650a7354, 0x766a0abb, 0x81c2c92e, 0x92722c85],
    [0xa2bfe8a1, 0xa81a664b, 0xc24b8b70, 0xc76c51a3, 0xd192e819, 0xd6990624, 0xf40e3585, 0x106aa070],
    [0x19a4c116, 0x1e376c08, 0x2748774c, 0x34b0bcb5, 0x391c0cb3, 0x4ed8aa4a, 0x5b9cca4f, 0x682e6ff3],
    [0x748f82ee, 0x78a5636f, 0x84c87814, 0x8cc70208, 0x90befffa, 0xa4506ceb, 0xbef9a3f7, 0xc67178f2]]"

record StreamingSha256 =
  ss_state :: "word32 list"
  ss_block :: "byte list"
  ss_blockLength :: nat
  ss_bytesHashed :: nat
  ss_finished :: bool

definition new_streaming :: StreamingSha256 where
  "new_streaming = \<lparr>
     ss_state = [0x6a09e667, 0xbb67ae85, 0x3c6ef372, 0xa54ff53a, 0x510e527f, 0x9b05688c, 0x1f83d9ab, 0x5be0cd19],
     ss_block = replicate 64 0, ss_blockLength = 0, ss_bytesHashed = 0, ss_finished = False\<rparr>"

definition streaming_schedule_step :: "word32 list \<Rightarrow> nat \<Rightarrow> word32 list" where
  "streaming_schedule_step words index =
    (let x = words ! (index - 15);
         y = words ! (index - 2);
         s0 = rotr x 7 XOR rotr x 18 XOR drop_bit 3 x;
         s1 = rotr y 17 XOR rotr y 19 XOR drop_bit 10 y
     in words @ [words ! (index - 16) + s0 + words ! (index - 7) + s1])"

definition streaming_schedule :: "byte list \<Rightarrow> word32 list" where
  "streaming_schedule chunk =
    foldl streaming_schedule_step (map (\<lambda>index. get_uint32 chunk (index * 4)) [0..<16]) [16..<64]"

definition streaming_round :: "word32 list \<Rightarrow> working \<Rightarrow> nat \<Rightarrow> working" where
  "streaming_round words v index = (case v of (a, b, c, d, e, f, g, h) \<Rightarrow>
    (let s1 = rotr e 6 XOR rotr e 11 XOR rotr e 25;
         choice = (e AND f) XOR (NOT e AND g);
         temp1 = h + s1 + choice + K_streaming ! index + words ! index;
         s0 = rotr a 2 XOR rotr a 13 XOR rotr a 22;
         majority = (a AND b) XOR (a AND c) XOR (b AND c);
         temp2 = s0 + majority
     in (temp1 + temp2, a, b, c, d + temp1, e, f, g)))"

definition streaming_compress :: "word32 list \<Rightarrow> byte list \<Rightarrow> word32 list" where
  "streaming_compress s chunk =
    (case foldl (streaming_round (streaming_schedule chunk))
            (s ! 0, s ! 1, s ! 2, s ! 3, s ! 4, s ! 5, s ! 6, s ! 7) [0..<64] of
       (a, b, c, d, e, f, g, h) \<Rightarrow>
         [s ! 0 + a, s ! 1 + b, s ! 2 + c, s ! 3 + d, s ! 4 + e, s ! 5 + f, s ! 6 + g, s ! 7 + h])"

definition streaming_step :: "StreamingSha256 \<Rightarrow> byte list \<Rightarrow> StreamingSha256 \<times> byte list" where
  "streaming_step st bytes =
    (let remaining = 64 - ss_blockLength st;
         n = min remaining (length bytes);
         st1 = st\<lparr>ss_block := array_set (ss_block st) (ss_blockLength st) (take n bytes),
                  ss_blockLength := ss_blockLength st + n\<rparr>
     in (if ss_blockLength st1 = 64
         then st1\<lparr>ss_state := streaming_compress (ss_state st1) (ss_block st1), ss_blockLength := 0\<rparr>
         else st1,
         drop n bytes))"

partial_function (option) streaming_absorb :: "StreamingSha256 \<Rightarrow> byte list \<Rightarrow> StreamingSha256 option" where
  "streaming_absorb st bytes =
    (if bytes = [] then Some st
     else case streaming_step st bytes of (st', rest) \<Rightarrow> streaming_absorb st' rest)"

definition streaming_update :: "StreamingSha256 \<Rightarrow> byte list \<Rightarrow> js_error + StreamingSha256 option" where
  "streaming_update st bytes =
    (if ss_finished st then Inl (JSError ''already finished'')
     else Inr (streaming_absorb (st\<lparr>ss_bytesHashed := ss_bytesHashed st + length bytes\<rparr>) bytes))"

definition streaming_finish :: "StreamingSha256 \<Rightarrow> StreamingSha256" where
  "streaming_finish st =
    (let bitLength = ss_bytesHashed st * 8;
         block1 = array_set (ss_block st) (ss_blockLength st) [0x80];
         len1 = ss_blockLength st + 1;
         (state2, block2, len2) =
           (if len1 > 56
            then (let filled = fill_zero block1 len1 64 in (streaming_compress (ss_state st) filled, filled, 0))
            else (ss_state st, block1, len1));
         block3 = fill_zero block2 len2 56;
         block4 = array_set block3 56 (uint32_bytes (of_nat (bitLength div 2 ^ 32 mod 2 ^ 32)));
         block5 = array_set block4 60 (uint32_bytes (of_nat (bitLength mod 2 ^ 32)))
     in st\<lparr>ss_finished := True, ss_block := block5, ss_state := streaming_compress state2 block5,
           ss_blockLength := 0\<rparr>)"

definition streaming_digest :: "StreamingSha256 \<Rightarrow> byte list \<times> StreamingSha256" where
  "streaming_digest st = (let st' = (if ss_finished st then st else streaming_finish st)
     in (concat (map uint32_bytes (ss_state st')), st'))"

definition streaming_digestHex :: "StreamingSha256 \<Rightarrow> string \<times> StreamingSha256" where
  "streaming_digestHex st = (case streaming_digest st of (bytes, st') \<Rightarrow> (concat (map byte_hex bytes), st'))"

fun streaming_update_all :: "StreamingSha256 \<Rightarrow> byte list list \<Rightarrow> js_error + StreamingSha256 option" where
  "streaming_update_all st [] = Inr (Some st)"
| "streaming_update_all st (p # pieces) =
    (case streaming_update st p of
       Inl e \<Rightarrow> Inl e
     | Inr None \<Rightarrow> Inr None
     | Inr (Some st') \<Rightarrow> streaming_update_all st' pieces)"

section \<open>The two classes agree\<close>

definition abs_streaming :: "StreamingSha256 \<Rightarrow> IncrementalSha256" where
  "abs_streaming st = \<lparr>sh_state = ss_state st, sh_block = ss_block st, sh_blockLength = ss_blockLength st,
     sh_bytesHashed = ss_bytesHashed st, sh_finished = ss_finished st\<rparr>"

lemma abs_streaming_simps [simp]:
  "sh_state (abs_streaming st) = ss_state st" "sh_block (abs_streaming st) = ss_block st"
  "sh_blockLength (abs_streaming st) = ss_blockLength st" "sh_bytesHashed (abs_streaming st) = ss_bytesHashed st"
  "sh_finished (abs_streaming st) = ss_finished st"
  by (simp_all add: abs_streaming_def)

lemma streaming_schedule_eq: "streaming_schedule = schedule"
  unfolding streaming_schedule_def [abs_def] schedule_def [abs_def]
    streaming_schedule_step_def [abs_def] schedule_step_def [abs_def] Let_def ..

lemma streaming_round_eq: "streaming_round = round_step"
  unfolding streaming_round_def [abs_def] round_step_def [abs_def] Let_def K_streaming_def K_def ..

lemma streaming_compress_eq: "streaming_compress = compress"
  unfolding streaming_compress_def [abs_def] compress_def [abs_def] streaming_schedule_eq streaming_round_eq ..

lemma streaming_step_abs:
  "absorb_step (abs_streaming st) bytes = map_prod abs_streaming id (streaming_step st bytes)"
  unfolding absorb_step_def streaming_step_def streaming_compress_eq Let_def
  by (auto simp: abs_streaming_def)

lemma streaming_step_progress:
  "ss_blockLength st < 64 \<Longrightarrow> bytes \<noteq> [] \<Longrightarrow> streaming_step st bytes = (st', rest)
   \<Longrightarrow> ss_blockLength st' < 64 \<and> length rest < length bytes"
  by (auto simp: streaming_step_def Let_def split: if_splits)

lemma streaming_absorb_abs:
  "ss_blockLength st < 64 \<Longrightarrow> absorb (abs_streaming st) bytes = map_option abs_streaming (streaming_absorb st bytes)"
proof (induction bytes arbitrary: st rule: length_induct)
  case (1 bytes)
  show ?case
  proof (cases "bytes = []")
    case False
    obtain st' rest where step: "streaming_step st bytes = (st', rest)" by force
    from streaming_step_progress [OF 1(2) False step]
    have "absorb (abs_streaming st') rest = map_option abs_streaming (streaming_absorb st' rest)"
      using 1(1) by blast
    then show ?thesis
      using False step by (simp add: absorb.simps [of "abs_streaming st"] streaming_absorb.simps [of st] streaming_step_abs)
  qed (simp add: absorb.simps streaming_absorb.simps)
qed

lemma absorb_blockLength:
  "sh_blockLength st < 64 \<Longrightarrow> absorb st bytes = Some st' \<Longrightarrow> sh_blockLength st' < 64"
proof (induction bytes arbitrary: st rule: length_induct)
  case (1 bytes)
  show ?case
  proof (cases "bytes = []")
    case False
    obtain st1 rest where step: "absorb_step st bytes = (st1, rest)" by force
    then have "sh_blockLength st1 < 64" "length rest < length bytes"
      using False 1(2) by (auto simp: absorb_step_def Let_def split: if_splits)
    with 1 False step show ?thesis by (auto simp: absorb.simps [of st])
  qed (use 1 in \<open>simp add: absorb.simps\<close>)
qed

lemma streaming_update_abs:
  assumes "ss_blockLength st < 64"
  shows "update (abs_streaming st) bytes = map_sum id (map_option abs_streaming) (streaming_update st bytes)"
proof -
  let ?st = "st\<lparr>ss_bytesHashed := ss_bytesHashed st + length bytes\<rparr>"
  have eq: "(abs_streaming st)\<lparr>sh_bytesHashed := ss_bytesHashed st + length bytes\<rparr> = abs_streaming ?st"
    by (simp add: abs_streaming_def)
  show ?thesis
    using streaming_absorb_abs [of ?st bytes] assms by (simp add: update_def streaming_update_def eq)
qed

lemma streaming_update_all_abs:
  "ss_blockLength st < 64 \<Longrightarrow>
   update_all (abs_streaming st) pieces = map_sum id (map_option abs_streaming) (streaming_update_all st pieces)"
proof (induction pieces arbitrary: st)
  case (Cons p pieces)
  note u = streaming_update_abs [OF Cons.prems, of p]
  show ?case
  proof (cases "streaming_update st p")
    case (Inr r)
    show ?thesis
    proof (cases r)
      case (Some st')
      with u Inr have "update (abs_streaming st) p = Inr (Some (abs_streaming st'))" by simp
      then have "absorb ((abs_streaming st)\<lparr>sh_bytesHashed := ss_bytesHashed st + length p\<rparr>) p
          = Some (abs_streaming st')"
        by (simp add: update_def split: if_splits)
      from absorb_blockLength [OF _ this] have "ss_blockLength st' < 64" using Cons.prems by simp
      with Cons.IH u Inr Some show ?thesis by simp
    qed (use u Inr in simp)
  qed (use u in simp)
qed simp

lemma streaming_digest_abs: "fst (streaming_digest st) = fst (digest (abs_streaming st))"
  unfolding streaming_digest_def digest_def streaming_finish_def finish_def streaming_compress_eq Let_def
  by (simp add: split_def)

text \<open>C24: The hasher of the storage layer and the hasher of the transfer layer give the same hexadecimal
  digest for every message and every way to cut it into pieces, so an attachment verified on
  arrival is found again under the same hash on disk.\<close>

theorem streaming_hashers_agree:
  "map_sum id (map_option (fst \<circ> streaming_digestHex)) (streaming_update_all new_streaming pieces)
   = sha256BlobHex pieces"
proof -
  have "abs_streaming new_streaming = new_sha256"
    by (simp add: abs_streaming_def new_streaming_def new_sha256_def initial_state_def)
  moreover have "ss_blockLength new_streaming < 64" by (simp add: new_streaming_def)
  ultimately have "update_all new_sha256 pieces
      = map_sum id (map_option abs_streaming) (streaming_update_all new_streaming pieces)"
    using streaming_update_all_abs by metis
  then show ?thesis
    by (cases "streaming_update_all new_streaming pieces")
      (auto simp: sha256BlobHex_def streaming_digestHex_def digestHex_def streaming_digest_abs split_def
        split: option.split)
qed

end
