(* ===== verification/Attachment_Protocol.thy ===== *)
theory Attachment_Protocol
  imports JS_Value
begin

text \<open>
  The attachment wire protocol, \<^verbatim>\<open>packages/protocol/src/attachments.ts\<close>: the manifest, the control
  messages and the chunk frame, the classification of files by name, the sanitising of file
  names, and the validators that guard every attachment message taken from a data channel.

  \<^verbatim>\<open>Date.parse\<close> accepts implementation-defined formats, so it is the parameter \<open>dateparse\<close>: the
  time value of a date string, \<open>None\<close> for \<^verbatim>\<open>NaN\<close>.
\<close>

section \<open>Constants and types\<close>

definition RISK_ATTACHMENT_PROTOCOL_VERSION :: int where
  "RISK_ATTACHMENT_PROTOCOL_VERSION = 1"

definition DEFAULT_ATTACHMENT_CHUNK_SIZE :: int where
  "DEFAULT_ATTACHMENT_CHUNK_SIZE = 256 * 1024"

definition MAX_ATTACHMENT_CHUNK_SIZE :: int where
  "MAX_ATTACHMENT_CHUNK_SIZE = 256 * 1024"

definition MAX_ATTACHMENT_FILENAME_LENGTH :: nat where
  "MAX_ATTACHMENT_FILENAME_LENGTH = 255"

definition MAX_ATTACHMENT_MIME_LENGTH :: nat where
  "MAX_ATTACHMENT_MIME_LENGTH = 127"

definition MAX_ATTACHMENT_CHUNKS :: int where
  "MAX_ATTACHMENT_CHUNKS = 1000000"

definition MAX_ATTACHMENT_CONTROL_WIRE_BYTES :: nat where
  "MAX_ATTACHMENT_CONTROL_WIRE_BYTES = 64 * 1024"

datatype AttachmentKind =
  KImage | KVideo | KAudio | KDocument | KArchive | KExecutable | KOther

definition kind_names :: "(string \<times> AttachmentKind) list" where
  "kind_names = [(''image'', KImage), (''video'', KVideo), (''audio'', KAudio),
     (''document'', KDocument), (''archive'', KArchive), (''executable'', KExecutable),
     (''other'', KOther)]"

definition RISK_CAPABILITIES :: "string list" where
  "RISK_CAPABILITIES = [''file-transfer-v1'', ''attachment-sync-v1'', ''transfer-resume-v1'',
     ''multi-source-v1'']"

record AttachmentMetadata =
  md_width :: "rat option"
  md_height :: "rat option"
  md_durationMs :: "rat option"
  md_thumbnailHash :: "string option"
  md_voiceMessage :: "bool option"

record AttachmentManifest =
  am_protocolVersion :: int
  am_id :: string
  am_messageId :: "string option"
  am_channelId :: "string option"
  am_senderPeerId :: string
  am_filename :: string
  am_mimeType :: string
  am_extension :: "string option"
  am_kind :: AttachmentKind
  am_size :: int
  am_contentHash :: string
  am_chunkSize :: int
  am_chunkCount :: int
  am_chunkHashes :: "string list option"
  am_createdAt :: string
  am_metadata :: "AttachmentMetadata option"

datatype AttachmentTransferState =
    Offered | Waiting | Accepted | Queued | Transferring | Paused
  | Verifying | Completed | Failed | Cancelled

datatype FileControlMessage =
    PeerCapabilities int "string list"
  | FileOffer string AttachmentManifest
  | FileRequest string
  | FileAccept string
  | FileReject string "string option"
  | FileManifest string AttachmentManifest
  | FileNeed string "int list"
  | FilePause string
  | FileResume string "int list option"
  | FileCancel string "string option"
  | FileComplete string string
  | FileError string string string bool
  | FileAvailability string int "int list" string

record 'b AttachmentChunkFrame =
  cf_transferId :: string
  cf_attachmentId :: string
  cf_index :: int
  cf_offset :: int
  cf_size :: int
  cf_hash :: string
  cf_payload :: "'b list"

section \<open>Classification of a file by type and name\<close>

definition MIME_BY_EXTENSION :: "(string \<times> string) list" where
  "MIME_BY_EXTENSION =
    [(''png'', ''image/png''), (''jpg'', ''image/jpeg''), (''jpeg'', ''image/jpeg''),
     (''jfif'', ''image/jpeg''), (''gif'', ''image/gif''), (''webp'', ''image/webp''),
     (''avif'', ''image/avif''), (''bmp'', ''image/bmp''), (''ico'', ''image/x-icon''),
     (''mp4'', ''video/mp4''), (''webm'', ''video/webm''), (''ogv'', ''video/ogg''),
     (''mp3'', ''audio/mpeg''), (''wav'', ''audio/wav''), (''ogg'', ''audio/ogg''),
     (''opus'', ''audio/ogg''), (''m4a'', ''audio/mp4''), (''aac'', ''audio/aac''),
     (''flac'', ''audio/flac''), (''pdf'', ''application/pdf'')]"

text \<open>
  The table is an object literal, so an indexed read also finds the members every object
  inherits from \<^verbatim>\<open>Object.prototype\<close>. None of them is \<^verbatim>\<open>undefined\<close> or \<^verbatim>\<open>null\<close> and none is a
  string.
\<close>

definition object_prototype_members :: "string list" where
  "object_prototype_members =
    [''constructor'', ''__defineGetter__'', ''__defineSetter__'', ''hasOwnProperty'',
     ''__lookupGetter__'', ''__lookupSetter__'', ''isPrototypeOf'', ''propertyIsEnumerable'',
     ''toString'', ''valueOf'', ''__proto__'', ''toLocaleString'']"

definition octet_stream :: string where
  "octet_stream = ''application/octet-stream''"

definition extension_part :: "string \<Rightarrow> string" where
  "extension_part filename = last (split_on CHR ''.'' (js_lower filename))"

text \<open>\<open>Inr s\<close> is the string \<open>s\<close>; \<open>Inl k\<close> is the inherited member \<open>k\<close>, which is no string.\<close>

definition inferAttachmentMimeType :: "string \<Rightarrow> string \<Rightarrow> string + string" where
  "inferAttachmentMimeType mimeType filename =
    (let normalized = js_lower (js_trim mimeType) in
     if normalized \<noteq> [] \<and> normalized \<noteq> octet_stream then Inr normalized
     else let extension = extension_part filename in
       (case map_of MIME_BY_EXTENSION extension of
          Some m \<Rightarrow> Inr m
        | None \<Rightarrow>
            if extension \<in> set object_prototype_members then Inl extension
            else Inr (if normalized \<noteq> [] then normalized else octet_stream)))"

definition archive_extensions :: "string list" where
  "archive_extensions = [''zip'', ''rar'', ''7z'', ''tar'', ''gz'', ''bz2'', ''xz'']"

definition executable_extensions :: "string list" where
  "executable_extensions = [''exe'', ''msi'', ''bat'', ''cmd'', ''com'', ''ps1'', ''scr'', ''jar'',
     ''appimage'', ''deb'', ''rpm'']"

text \<open>Calling \<^verbatim>\<open>startsWith\<close> on something that is no string throws a \<^verbatim>\<open>TypeError\<close>.\<close>

definition classifyAttachment :: "string \<Rightarrow> string \<Rightarrow> js_error + AttachmentKind" where
  "classifyAttachment mimeType filename =
    (case inferAttachmentMimeType mimeType filename of
       Inl _ \<Rightarrow> Inl TypeError
     | Inr mime \<Rightarrow>
         let extension = extension_part filename in
         Inr (if starts_with mime ''image/'' then KImage
              else if starts_with mime ''video/'' then KVideo
              else if starts_with mime ''audio/'' then KAudio
              else if extension \<in> set archive_extensions then KArchive
              else if extension \<in> set executable_extensions then KExecutable
              else if starts_with mime ''text/'' \<or> mime = ''application/pdf''
                \<or> includes_str mime ''document'' \<or> includes_str mime ''spreadsheet''
                \<or> includes_str mime ''presentation'' then KDocument
              else KOther))"

section \<open>Sanitising a file name\<close>

definition unsafe_name_char :: "char \<Rightarrow> bool" where
  "unsafe_name_char c \<longleftrightarrow> code_unit c \<le> 31 \<or> c \<in> set ''<>:|?*'' \<or> c = CHR 0x22"

definition sanitizeAttachmentFilename :: "string \<Rightarrow> string" where
  "sanitizeAttachmentFilename filename =
    (let slashed = map (\<lambda>c. if c = CHR 0x5C then CHR ''/'' else c) filename;
         base = last (split_on CHR ''/'' slashed);
         replaced = map (\<lambda>c. if unsafe_name_char c then CHR ''_'' else c) base;
         undotted = (if replaced \<noteq> [] \<and> list_all (\<lambda>c. c = CHR ''.'') replaced
                     then ''attachment'' else replaced);
         cleaned = js_trim undotted
     in take MAX_ATTACHMENT_FILENAME_LENGTH (if cleaned \<noteq> [] then cleaned else ''attachment''))"

section \<open>Validators of wire values\<close>

definition validWireIdentifier :: "string \<Rightarrow> bool" where
  "validWireIdentifier value \<longleftrightarrow>
     8 \<le> length value \<and> length value \<le> 128 \<and> list_all (\<lambda>c. c \<in> set wire_chars) value"

definition validTransferIdentifier :: "string \<Rightarrow> bool" where
  "validTransferIdentifier value \<longleftrightarrow>
     8 \<le> length value \<and> length value \<le> 200 \<and> list_all (\<lambda>c. c \<in> set (wire_chars @ '':'')) value"

definition validChunkList :: "jsval \<Rightarrow> bool" where
  "validChunkList = arr_such (\<lambda>xs. length xs \<le> 2048
     \<and> list_all (int_such (\<lambda>i. 0 \<le> i \<and> i < MAX_ATTACHMENT_CHUNKS)) xs)"

definition optional :: "(jsval \<Rightarrow> bool) \<Rightarrow> jsval \<Rightarrow> bool" where
  "optional p v \<longleftrightarrow> v = JUndefined \<or> p v"

definition validPositiveNumber :: "jsval \<Rightarrow> bool" where
  "validPositiveNumber = optional (num_such (\<lambda>x. 0 \<le> x))"

definition validAttachmentMetadata :: "jsval \<Rightarrow> bool" where
  "validAttachmentMetadata value \<longleftrightarrow> is_record value
     \<and> validPositiveNumber (jprop value ''width'')
     \<and> validPositiveNumber (jprop value ''height'')
     \<and> validPositiveNumber (jprop value ''durationMs'')
     \<and> optional (str_such sha256_pattern) (jprop value ''thumbnailHash'')
     \<and> optional is_bool (jprop value ''voiceMessage'')"

definition date_ok :: "(string \<Rightarrow> rat option) \<Rightarrow> jsval \<Rightarrow> bool" where
  "date_ok dateparse = str_such (\<lambda>s. length s \<le> 64 \<and> dateparse s \<noteq> None)"

definition report :: "bool \<Rightarrow> string \<Rightarrow> string list" where
  "report wrong code = (if wrong then [code] else [])"

definition chunk_layout_wrong :: "jsval \<Rightarrow> jsval \<Rightarrow> jsval \<Rightarrow> bool" where
  "chunk_layout_wrong sz chunkSize chunkCount \<longleftrightarrow>
     (case (safe_int sz, safe_int chunkSize, safe_int chunkCount) of
        (Some s, Some c, Some n) \<Rightarrow> 0 \<le> s \<and> 0 < c \<and> n \<noteq> ceil_div s c
      | _ \<Rightarrow> False)"

definition id_hash_mismatch :: "jsval \<Rightarrow> jsval \<Rightarrow> bool" where
  "id_hash_mismatch i h \<longleftrightarrow>
     (case (i, h) of (JStr a, JStr b) \<Rightarrow> js_lower a \<noteq> js_lower b | _ \<Rightarrow> False)"

definition validateAttachmentManifest :: "(string \<Rightarrow> rat option) \<Rightarrow> jsval \<Rightarrow> string list" where
  "validateAttachmentManifest dateparse manifest =
    (if \<not> is_record manifest then [''invalid_manifest''] else
     let v = jprop manifest in
       report (v ''protocolVersion'' \<noteq> JInt RISK_ATTACHMENT_PROTOCOL_VERSION) ''unsupported_protocol_version''
     @ report (\<not> str_such sha256_pattern (v ''id'')) ''missing_attachment_id''
     @ report (\<not> str_such validWireIdentifier (v ''senderPeerId'')) ''missing_sender_peer_id''
     @ report (\<not> str_such (\<lambda>s. s \<noteq> [] \<and> length s \<le> MAX_ATTACHMENT_FILENAME_LENGTH) (v ''filename'')) ''invalid_filename''
     @ report (\<not> str_such (\<lambda>s. length s \<le> MAX_ATTACHMENT_MIME_LENGTH) (v ''mimeType'')) ''invalid_mime_type''
     @ report (\<not> str_such (\<lambda>s. map_of kind_names s \<noteq> None) (v ''kind'')) ''invalid_kind''
     @ report (\<not> int_such (\<lambda>n. 0 \<le> n) (v ''size'')) ''invalid_size''
     @ report (\<not> int_such (\<lambda>n. 0 < n \<and> n \<le> MAX_ATTACHMENT_CHUNK_SIZE) (v ''chunkSize'')) ''invalid_chunk_size''
     @ report (\<not> int_such (\<lambda>n. 0 \<le> n \<and> n \<le> MAX_ATTACHMENT_CHUNKS) (v ''chunkCount'')) ''invalid_chunk_count''
     @ report (\<not> str_such sha256_pattern (v ''contentHash'')) ''invalid_content_hash''
     @ report (id_hash_mismatch (v ''id'') (v ''contentHash'')) ''attachment_id_hash_mismatch''
     @ report (chunk_layout_wrong (v ''size'') (v ''chunkSize'') (v ''chunkCount'')) ''invalid_chunk_layout''
     @ report (\<not> optional (arr_such (\<lambda>hs. v ''chunkCount'' = JInt (int (length hs))
           \<and> list_all (str_such sha256_pattern) hs)) (v ''chunkHashes'')) ''invalid_chunk_hash_count''
     @ report (\<not> date_ok dateparse (v ''createdAt'')) ''invalid_created_at''
     @ report (\<not> optional (str_such validWireIdentifier) (v ''channelId'')) ''invalid_channel_id''
     @ report (\<not> optional (str_such validWireIdentifier) (v ''messageId'')) ''invalid_message_id''
     @ report (\<not> optional (str_such (\<lambda>s. length s \<le> 32)) (v ''extension'')) ''invalid_extension''
     @ report (\<not> optional validAttachmentMetadata (v ''metadata'')) ''invalid_metadata'')"

definition isFileControlMessage :: "(string \<Rightarrow> rat option) \<Rightarrow> jsval \<Rightarrow> bool" where
  "isFileControlMessage dateparse value \<longleftrightarrow> is_record value \<and>
    (let v = jprop value;
         validTransfer = str_such validTransferIdentifier (v ''transferId'');
         validOptionalReason = optional (str_such (\<lambda>s. length s \<le> 500)) (v ''reason'')
     in case v ''type'' of
          JStr ty \<Rightarrow>
            if ty = ''peer.capabilities'' then
              v ''protocolVersion'' = JInt RISK_ATTACHMENT_PROTOCOL_VERSION
              \<and> arr_such (\<lambda>cs. length cs \<le> length RISK_CAPABILITIES
                  \<and> list_all (str_such (\<lambda>c. c \<in> set RISK_CAPABILITIES)) cs) (v ''capabilities'')
            else if ty = ''file.offer'' \<or> ty = ''file.manifest'' then
              validTransfer \<and> validateAttachmentManifest dateparse (v ''manifest'') = []
            else if ty = ''file.request'' then str_such sha256_pattern (v ''attachmentId'')
            else if ty = ''file.accept'' \<or> ty = ''file.pause'' then validTransfer
            else if ty = ''file.reject'' \<or> ty = ''file.cancel'' then validTransfer \<and> validOptionalReason
            else if ty = ''file.need'' then validTransfer \<and> validChunkList (v ''missingChunks'')
            else if ty = ''file.resume'' then
              validTransfer \<and> optional validChunkList (v ''missingChunks'')
            else if ty = ''file.complete'' then
              validTransfer \<and> str_such sha256_pattern (v ''contentHash'')
            else if ty = ''file.error'' then
              validTransfer
              \<and> str_such (matches_class wire_chars 1 64) (v ''code'')
              \<and> str_such (\<lambda>s. length s \<le> 1000) (v ''message'')
              \<and> is_bool (v ''retryable'')
            else if ty = ''file.availability'' then
              str_such sha256_pattern (v ''attachmentId'')
              \<and> int_such (\<lambda>n. 0 \<le> n \<and> n \<le> MAX_ATTACHMENT_CHUNKS
                  \<and> validChunkList (v ''availableChunks'')
                  \<and> arr_such (list_all (int_such (\<lambda>i. i < n))) (v ''availableChunks'')) (v ''chunkCount'')
              \<and> date_ok dateparse (v ''expiresAt'')
            else False
        | _ \<Rightarrow> False)"

section \<open>Reading validated values at their type\<close>

text \<open>
  The validators are TypeScript type guards: after a successful check the code uses the value
  at its declared type. The readers below give the typed value, or \<open>None\<close> where the cast
  would be wrong; \<open>manifest_js\<close> is the object literal of a typed manifest.
\<close>

fun read_str :: "jsval \<Rightarrow> string option" where
  "read_str (JStr s) = Some s"
| "read_str _ = None"

fun read_bool :: "jsval \<Rightarrow> bool option" where
  "read_bool (JBool b) = Some b"
| "read_bool _ = None"

fun read_list :: "(jsval \<Rightarrow> 'a option) \<Rightarrow> jsval \<Rightarrow> 'a list option" where
  "read_list r (JArr xs) = those (map r xs)"
| "read_list r _ = None"

definition read_opt :: "(jsval \<Rightarrow> 'a option) \<Rightarrow> jsval \<Rightarrow> 'a option option" where
  "read_opt r v = (if v = JUndefined then Some None else map_option Some (r v))"

definition read_kind :: "jsval \<Rightarrow> AttachmentKind option" where
  "read_kind v = Option.bind (read_str v) (map_of kind_names)"

definition read_metadata :: "jsval \<Rightarrow> AttachmentMetadata option" where
  "read_metadata v =
    (case (read_opt finite_num (jprop v ''width''), read_opt finite_num (jprop v ''height''),
           read_opt finite_num (jprop v ''durationMs''), read_opt read_str (jprop v ''thumbnailHash''),
           read_opt read_bool (jprop v ''voiceMessage'')) of
       (Some w, Some h, Some d, Some t, Some vm) \<Rightarrow>
         Some \<lparr>md_width = w, md_height = h, md_durationMs = d, md_thumbnailHash = t, md_voiceMessage = vm\<rparr>
     | _ \<Rightarrow> None)"

definition manifest_of_js :: "jsval \<Rightarrow> AttachmentManifest option" where
  "manifest_of_js v =
    (case (safe_int (jprop v ''protocolVersion''), read_str (jprop v ''id''),
           read_opt read_str (jprop v ''messageId''), read_opt read_str (jprop v ''channelId''),
           read_str (jprop v ''senderPeerId''), read_str (jprop v ''filename''),
           read_str (jprop v ''mimeType''), read_opt read_str (jprop v ''extension'')) of
       (Some pv, Some i, Some mi, Some ci, Some sp, Some fn, Some mt, Some ex) \<Rightarrow>
       (case (read_kind (jprop v ''kind''), safe_int (jprop v ''size''),
              read_str (jprop v ''contentHash''), safe_int (jprop v ''chunkSize''),
              safe_int (jprop v ''chunkCount''), read_opt (read_list read_str) (jprop v ''chunkHashes''),
              read_str (jprop v ''createdAt''), read_opt read_metadata (jprop v ''metadata'')) of
          (Some k, Some sz, Some ch, Some cs, Some cc, Some hs, Some cr, Some md) \<Rightarrow>
            Some \<lparr>am_protocolVersion = pv, am_id = i, am_messageId = mi, am_channelId = ci,
              am_senderPeerId = sp, am_filename = fn, am_mimeType = mt, am_extension = ex,
              am_kind = k, am_size = sz, am_contentHash = ch, am_chunkSize = cs, am_chunkCount = cc,
              am_chunkHashes = hs, am_createdAt = cr, am_metadata = md\<rparr>
        | _ \<Rightarrow> None)
     | _ \<Rightarrow> None)"

text \<open>What a valid manifest promises about its typed fields.\<close>

definition wf_metadata :: "AttachmentMetadata \<Rightarrow> bool" where
  "wf_metadata d \<longleftrightarrow>
     pred_option (\<lambda>x. 0 \<le> x) (md_width d) \<and> pred_option (\<lambda>x. 0 \<le> x) (md_height d)
     \<and> pred_option (\<lambda>x. 0 \<le> x) (md_durationMs d) \<and> pred_option sha256_pattern (md_thumbnailHash d)"

definition wf_layout :: "AttachmentManifest \<Rightarrow> bool" where
  "wf_layout m \<longleftrightarrow>
     0 \<le> am_size m \<and> am_size m \<le> MAX_SAFE_INTEGER
     \<and> 0 < am_chunkSize m \<and> am_chunkSize m \<le> MAX_ATTACHMENT_CHUNK_SIZE
     \<and> am_chunkCount m = ceil_div (am_size m) (am_chunkSize m)
     \<and> am_chunkCount m \<le> MAX_ATTACHMENT_CHUNKS
     \<and> pred_option (\<lambda>hs. int (length hs) = am_chunkCount m \<and> list_all sha256_pattern hs) (am_chunkHashes m)"

definition wf_manifest :: "(string \<Rightarrow> rat option) \<Rightarrow> AttachmentManifest \<Rightarrow> bool" where
  "wf_manifest dateparse m \<longleftrightarrow>
     am_protocolVersion m = RISK_ATTACHMENT_PROTOCOL_VERSION
     \<and> sha256_pattern (am_id m) \<and> sha256_pattern (am_contentHash m)
     \<and> js_lower (am_id m) = js_lower (am_contentHash m)
     \<and> validWireIdentifier (am_senderPeerId m)
     \<and> am_filename m \<noteq> [] \<and> length (am_filename m) \<le> MAX_ATTACHMENT_FILENAME_LENGTH
     \<and> length (am_mimeType m) \<le> MAX_ATTACHMENT_MIME_LENGTH
     \<and> wf_layout m
     \<and> length (am_createdAt m) \<le> 64 \<and> dateparse (am_createdAt m) \<noteq> None
     \<and> pred_option validWireIdentifier (am_channelId m)
     \<and> pred_option validWireIdentifier (am_messageId m)
     \<and> pred_option (\<lambda>s. length s \<le> 32) (am_extension m)
     \<and> pred_option wf_metadata (am_metadata m)"

lemma report_Nil [simp]: "report b c = [] \<longleftrightarrow> \<not> b"
  by (simp add: report_def)

lemma optional_read_opt:
  assumes "optional p v" and "\<And>v. p v \<Longrightarrow> \<exists>x. r v = Some x \<and> q x"
  shows "\<exists>y. read_opt r v = Some y \<and> pred_option q y"
  using assms by (cases "v = JUndefined") (fastforce simp: optional_def read_opt_def)+

lemma str_such_read: "str_such p v \<Longrightarrow> \<exists>x. read_str v = Some x \<and> p x"
  by (auto simp: str_such_iff)

lemma num_such_read: "num_such p v \<Longrightarrow> \<exists>x. finite_num v = Some x \<and> p x"
  by (auto simp: num_such_iff)

lemma is_bool_read: "is_bool v \<Longrightarrow> \<exists>x. read_bool v = Some x \<and> True"
  by (cases v) auto

lemma int_such_read: "int_such p v \<Longrightarrow> \<exists>n. safe_int v = Some n \<and> \<bar>n\<bar> \<le> MAX_SAFE_INTEGER \<and> p n"
  by (auto simp: int_such_iff safe_int_Some)

lemma list_all_read:
  assumes "list_all p xs" and "\<And>v. p v \<Longrightarrow> \<exists>x. r v = Some x \<and> q x"
  shows "\<exists>ys. those (map r xs) = Some ys \<and> length ys = length xs \<and> list_all q ys"
  using assms(1)
proof (induction xs)
  case (Cons v xs)
  moreover obtain x where "r v = Some x" "q x" using assms(2) Cons.prems by auto
  ultimately show ?case by auto
qed simp

lemma arr_strs_read:
  assumes "arr_such (\<lambda>hs. P hs \<and> list_all (str_such p) hs) v"
  shows "\<exists>ys. read_list read_str v = Some ys \<and> list_all p ys
    \<and> (\<exists>xs. v = JArr xs \<and> P xs \<and> length ys = length xs)"
proof -
  from assms obtain xs where v: "v = JArr xs" "P xs" "list_all (str_such p) xs"
    by (auto simp: arr_such_iff)
  from list_all_read [OF v(3) str_such_read] v(1,2) show ?thesis by fastforce
qed

lemma validAttachmentMetadata_read:
  assumes "validAttachmentMetadata v"
  shows "\<exists>d. read_metadata v = Some d \<and> wf_metadata d"
proof -
  from assms have
    "\<exists>w. read_opt finite_num (jprop v ''width'') = Some w \<and> pred_option (\<lambda>x. 0 \<le> x) w"
    "\<exists>h. read_opt finite_num (jprop v ''height'') = Some h \<and> pred_option (\<lambda>x. 0 \<le> x) h"
    "\<exists>d. read_opt finite_num (jprop v ''durationMs'') = Some d \<and> pred_option (\<lambda>x. 0 \<le> x) d"
    "\<exists>t. read_opt read_str (jprop v ''thumbnailHash'') = Some t \<and> pred_option sha256_pattern t"
    "\<exists>b. read_opt read_bool (jprop v ''voiceMessage'') = Some b \<and> pred_option (\<lambda>_. True) b"
    unfolding validAttachmentMetadata_def validPositiveNumber_def
    by (blast intro: optional_read_opt num_such_read str_such_read is_bool_read)+
  then show ?thesis unfolding read_metadata_def wf_metadata_def by fastforce
qed

lemma validateAttachmentManifest_Nil:
  assumes "validateAttachmentManifest dateparse v = []"
  shows "is_record v"
    and "jprop v ''protocolVersion'' = JInt RISK_ATTACHMENT_PROTOCOL_VERSION"
    and "str_such sha256_pattern (jprop v ''id'')"
    and "str_such validWireIdentifier (jprop v ''senderPeerId'')"
    and "str_such (\<lambda>s. s \<noteq> [] \<and> length s \<le> MAX_ATTACHMENT_FILENAME_LENGTH) (jprop v ''filename'')"
    and "str_such (\<lambda>s. length s \<le> MAX_ATTACHMENT_MIME_LENGTH) (jprop v ''mimeType'')"
    and "str_such (\<lambda>s. map_of kind_names s \<noteq> None) (jprop v ''kind'')"
    and "int_such (\<lambda>n. 0 \<le> n) (jprop v ''size'')"
    and "int_such (\<lambda>n. 0 < n \<and> n \<le> MAX_ATTACHMENT_CHUNK_SIZE) (jprop v ''chunkSize'')"
    and "int_such (\<lambda>n. 0 \<le> n \<and> n \<le> MAX_ATTACHMENT_CHUNKS) (jprop v ''chunkCount'')"
    and "str_such sha256_pattern (jprop v ''contentHash'')"
    and "\<not> id_hash_mismatch (jprop v ''id'') (jprop v ''contentHash'')"
    and "\<not> chunk_layout_wrong (jprop v ''size'') (jprop v ''chunkSize'') (jprop v ''chunkCount'')"
    and "optional (arr_such (\<lambda>hs. jprop v ''chunkCount'' = JInt (int (length hs))
           \<and> list_all (str_such sha256_pattern) hs)) (jprop v ''chunkHashes'')"
    and "date_ok dateparse (jprop v ''createdAt'')"
    and "optional (str_such validWireIdentifier) (jprop v ''channelId'')"
    and "optional (str_such validWireIdentifier) (jprop v ''messageId'')"
    and "optional (str_such (\<lambda>s. length s \<le> 32)) (jprop v ''extension'')"
    and "optional validAttachmentMetadata (jprop v ''metadata'')"
  using assms unfolding validateAttachmentManifest_def Let_def
  by (simp_all split: if_splits)

lemma optional_str_read:
  "optional (str_such p) v \<Longrightarrow> \<exists>y. read_opt read_str v = Some y \<and> pred_option p y"
  by (erule optional_read_opt) (rule str_such_read)

lemma optional_metadata_read:
  "optional validAttachmentMetadata v \<Longrightarrow> \<exists>y. read_opt read_metadata v = Some y \<and> pred_option wf_metadata y"
  by (erule optional_read_opt) (rule validAttachmentMetadata_read)

lemma kind_read:
  assumes "str_such (\<lambda>s. map_of kind_names s \<noteq> None) v"
  shows "\<exists>k. read_kind v = Some k"
  using assms by (auto simp: str_such_iff read_kind_def)

lemma chunk_hashes_read:
  assumes "optional (arr_such (\<lambda>hs. cc = JInt (int (length hs)) \<and> list_all (str_such p) hs)) v"
    and "safe_int cc = Some n"
  shows "\<exists>hs. read_opt (read_list read_str) v = Some hs
    \<and> pred_option (\<lambda>hs. int (length hs) = n \<and> list_all p hs) hs"
proof (rule optional_read_opt [OF assms(1)])
  fix v assume "arr_such (\<lambda>hs. cc = JInt (int (length hs)) \<and> list_all (str_such p) hs) v"
  from arr_strs_read [OF this] assms(2)
  show "\<exists>hs. read_list read_str v = Some hs \<and> int (length hs) = n \<and> list_all p hs"
    by (auto split: if_splits)
qed

lemma manifest_guard:
  assumes "validateAttachmentManifest dateparse v = []"
  shows "\<exists>m. manifest_of_js v = Some m \<and> wf_manifest dateparse m"
proof -
  note V = validateAttachmentManifest_Nil [OF assms]
  obtain i h where ids: "jprop v ''id'' = JStr i" "sha256_pattern i"
    "jprop v ''contentHash'' = JStr h" "sha256_pattern h" "js_lower i = js_lower h"
    using V(3,11,12) by (auto simp: str_such_iff id_hash_mismatch_def)
  obtain sp fn mt where strs: "jprop v ''senderPeerId'' = JStr sp" "validWireIdentifier sp"
    "jprop v ''filename'' = JStr fn" "fn \<noteq> []" "length fn \<le> MAX_ATTACHMENT_FILENAME_LENGTH"
    "jprop v ''mimeType'' = JStr mt" "length mt \<le> MAX_ATTACHMENT_MIME_LENGTH"
    using V(4,5,6) by (auto simp: str_such_iff)
  obtain k where k: "read_kind (jprop v ''kind'') = Some k" using kind_read [OF V(7)] by blast
  obtain sz cs cc where nums: "safe_int (jprop v ''size'') = Some sz" "0 \<le> sz" "\<bar>sz\<bar> \<le> MAX_SAFE_INTEGER"
    "safe_int (jprop v ''chunkSize'') = Some cs" "0 < cs" "cs \<le> MAX_ATTACHMENT_CHUNK_SIZE"
    "safe_int (jprop v ''chunkCount'') = Some cc" "cc \<le> MAX_ATTACHMENT_CHUNKS"
    using V(8,9,10) [THEN int_such_read] by blast
  have layout: "cc = ceil_div sz cs"
    using V(13) nums by (simp add: chunk_layout_wrong_def)
  obtain hs where hs: "read_opt (read_list read_str) (jprop v ''chunkHashes'') = Some hs"
    "pred_option (\<lambda>hs. int (length hs) = cc \<and> list_all sha256_pattern hs) hs"
    using chunk_hashes_read [OF V(14) nums(7)] by blast
  obtain cr where cr: "jprop v ''createdAt'' = JStr cr" "length cr \<le> 64" "dateparse cr \<noteq> None"
    using V(15) by (auto simp: date_ok_def str_such_iff)
  obtain ci mi ex md where opts:
    "read_opt read_str (jprop v ''channelId'') = Some ci" "pred_option validWireIdentifier ci"
    "read_opt read_str (jprop v ''messageId'') = Some mi" "pred_option validWireIdentifier mi"
    "read_opt read_str (jprop v ''extension'') = Some ex" "pred_option (\<lambda>s. length s \<le> 32) ex"
    "read_opt read_metadata (jprop v ''metadata'') = Some md" "pred_option wf_metadata md"
    using optional_str_read [OF V(16)] optional_str_read [OF V(17)] optional_str_read [OF V(18)]
      optional_metadata_read [OF V(19)] by blast
  have pv: "safe_int (jprop v ''protocolVersion'') = Some RISK_ATTACHMENT_PROTOCOL_VERSION"
    using V(2) by (simp add: RISK_ATTACHMENT_PROTOCOL_VERSION_def MAX_SAFE_INTEGER_def)
  show ?thesis
    using ids strs k nums layout hs cr opts pv
    by (simp add: manifest_of_js_def wf_manifest_def wf_layout_def)
qed

text \<open>
  Control messages at their type. The switch of \<^verbatim>\<open>isFileControlMessage\<close> has one case per
  constructor of \<open>FileControlMessage\<close>.
\<close>

definition control_of_js :: "jsval \<Rightarrow> FileControlMessage option" where
  "control_of_js value =
    (let v = jprop value; tid = read_str (v ''transferId'') in
     case read_str (v ''type'') of
       None \<Rightarrow> None
     | Some ty \<Rightarrow>
        if ty = ''peer.capabilities'' then
          (case (safe_int (v ''protocolVersion''), read_list read_str (v ''capabilities'')) of
             (Some n, Some cs) \<Rightarrow> Some (PeerCapabilities n cs) | _ \<Rightarrow> None)
        else if ty = ''file.offer'' then
          (case (tid, manifest_of_js (v ''manifest'')) of
             (Some t, Some m) \<Rightarrow> Some (FileOffer t m) | _ \<Rightarrow> None)
        else if ty = ''file.manifest'' then
          (case (tid, manifest_of_js (v ''manifest'')) of
             (Some t, Some m) \<Rightarrow> Some (FileManifest t m) | _ \<Rightarrow> None)
        else if ty = ''file.request'' then map_option FileRequest (read_str (v ''attachmentId''))
        else if ty = ''file.accept'' then map_option FileAccept tid
        else if ty = ''file.pause'' then map_option FilePause tid
        else if ty = ''file.reject'' then
          (case (tid, read_opt read_str (v ''reason'')) of
             (Some t, Some r) \<Rightarrow> Some (FileReject t r) | _ \<Rightarrow> None)
        else if ty = ''file.cancel'' then
          (case (tid, read_opt read_str (v ''reason'')) of
             (Some t, Some r) \<Rightarrow> Some (FileCancel t r) | _ \<Rightarrow> None)
        else if ty = ''file.need'' then
          (case (tid, read_list safe_int (v ''missingChunks'')) of
             (Some t, Some cs) \<Rightarrow> Some (FileNeed t cs) | _ \<Rightarrow> None)
        else if ty = ''file.resume'' then
          (case (tid, read_opt (read_list safe_int) (v ''missingChunks'')) of
             (Some t, Some cs) \<Rightarrow> Some (FileResume t cs) | _ \<Rightarrow> None)
        else if ty = ''file.complete'' then
          (case (tid, read_str (v ''contentHash'')) of
             (Some t, Some h) \<Rightarrow> Some (FileComplete t h) | _ \<Rightarrow> None)
        else if ty = ''file.error'' then
          (case (tid, read_str (v ''code''), read_str (v ''message''), read_bool (v ''retryable'')) of
             (Some t, Some c, Some m, Some r) \<Rightarrow> Some (FileError t c m r) | _ \<Rightarrow> None)
        else if ty = ''file.availability'' then
          (case (read_str (v ''attachmentId''), safe_int (v ''chunkCount''),
                 read_list safe_int (v ''availableChunks''), read_str (v ''expiresAt'')) of
             (Some a, Some n, Some cs, Some e) \<Rightarrow> Some (FileAvailability a n cs e) | _ \<Rightarrow> None)
        else None)"

definition chunk_list_ok :: "int list \<Rightarrow> bool" where
  "chunk_list_ok cs \<longleftrightarrow> length cs \<le> 2048 \<and> list_all (\<lambda>i. 0 \<le> i \<and> i < MAX_ATTACHMENT_CHUNKS) cs"

fun wf_control :: "(string \<Rightarrow> rat option) \<Rightarrow> FileControlMessage \<Rightarrow> bool" where
  "wf_control dp (PeerCapabilities n cs) =
     (n = RISK_ATTACHMENT_PROTOCOL_VERSION \<and> length cs \<le> 4 \<and> set cs \<subseteq> set RISK_CAPABILITIES)"
| "wf_control dp (FileOffer t m) = (validTransferIdentifier t \<and> wf_manifest dp m)"
| "wf_control dp (FileManifest t m) = (validTransferIdentifier t \<and> wf_manifest dp m)"
| "wf_control dp (FileRequest a) = sha256_pattern a"
| "wf_control dp (FileAccept t) = validTransferIdentifier t"
| "wf_control dp (FilePause t) = validTransferIdentifier t"
| "wf_control dp (FileReject t r) = (validTransferIdentifier t \<and> pred_option (\<lambda>s. length s \<le> 500) r)"
| "wf_control dp (FileCancel t r) = (validTransferIdentifier t \<and> pred_option (\<lambda>s. length s \<le> 500) r)"
| "wf_control dp (FileNeed t cs) = (validTransferIdentifier t \<and> chunk_list_ok cs)"
| "wf_control dp (FileResume t cs) = (validTransferIdentifier t \<and> pred_option chunk_list_ok cs)"
| "wf_control dp (FileComplete t h) = (validTransferIdentifier t \<and> sha256_pattern h)"
| "wf_control dp (FileError t c m r) =
     (validTransferIdentifier t \<and> matches_class wire_chars 1 64 c \<and> length m \<le> 1000)"
| "wf_control dp (FileAvailability a n cs e) =
     (sha256_pattern a \<and> 0 \<le> n \<and> n \<le> MAX_ATTACHMENT_CHUNKS \<and> chunk_list_ok cs
      \<and> list_all (\<lambda>i. i < n) cs \<and> length e \<le> 64 \<and> dp e \<noteq> None)"

lemma int_such_read': "int_such p v \<Longrightarrow> \<exists>n. safe_int v = Some n \<and> p n"
  by (auto simp: int_such_iff)

lemma list_all_ints_read:
  "list_all (int_such p) xs \<Longrightarrow>
     \<exists>ys. those (map safe_int xs) = Some ys \<and> length ys = length xs \<and> list_all p ys"
  by (erule list_all_read) (rule int_such_read')

lemma validChunkList_read:
  assumes "validChunkList v"
  shows "\<exists>cs. read_list safe_int v = Some cs \<and> chunk_list_ok cs"
proof -
  from assms obtain xs where v: "v = JArr xs" "length xs \<le> 2048"
    "list_all (int_such (\<lambda>i. 0 \<le> i \<and> i < MAX_ATTACHMENT_CHUNKS)) xs"
    by (auto simp: validChunkList_def arr_such_iff)
  from list_all_ints_read [OF v(3)] v(1,2) show ?thesis
    by (auto simp: chunk_list_ok_def)
qed

lemma optional_chunks_read:
  "optional validChunkList v \<Longrightarrow> \<exists>y. read_opt (read_list safe_int) v = Some y \<and> pred_option chunk_list_ok y"
  by (erule optional_read_opt) (rule validChunkList_read)

lemma capabilities_read:
  assumes "arr_such (\<lambda>cs. length cs \<le> length RISK_CAPABILITIES
      \<and> list_all (str_such (\<lambda>c. c \<in> set RISK_CAPABILITIES)) cs) v"
  shows "\<exists>cs. read_list read_str v = Some cs \<and> length cs \<le> 4 \<and> set cs \<subseteq> set RISK_CAPABILITIES"
proof -
  have four: "length RISK_CAPABILITIES = 4" by (simp add: RISK_CAPABILITIES_def)
  from arr_strs_read [OF assms] obtain ys where ys: "read_list read_str v = Some ys"
    "list_all (\<lambda>c. c \<in> set RISK_CAPABILITIES) ys" "length ys \<le> length RISK_CAPABILITIES"
    by auto
  then have "length ys \<le> 4" "set ys \<subseteq> set RISK_CAPABILITIES"
    unfolding four by (simp_all add: list_all_iff subset_iff)
  with ys(1) show ?thesis by blast
qed

lemma availability_read:
  assumes "validChunkList v" "arr_such (list_all (int_such (\<lambda>i. i < n))) v"
  shows "\<exists>cs. read_list safe_int v = Some cs \<and> chunk_list_ok cs \<and> list_all (\<lambda>i. i < n) cs"
proof -
  from assms(2) obtain xs where v: "v = JArr xs" "list_all (int_such (\<lambda>i. i < n)) xs"
    by (auto simp: arr_such_iff)
  from list_all_ints_read [OF v(2)] validChunkList_read [OF assms(1)] v(1)
  show ?thesis by auto
qed

lemma file_control_guard:
  assumes "isFileControlMessage dateparse value"
  shows "\<exists>msg. control_of_js value = Some msg \<and> wf_control dateparse msg"
proof -
  let ?v = "jprop value"
  from assms obtain ty where ty: "?v ''type'' = JStr ty"
    by (auto simp: isFileControlMessage_def Let_def split: jsval.splits)
  note G = assms [unfolded isFileControlMessage_def Let_def ty jsval.case, THEN conjunct2]
  note C = control_of_js_def Let_def ty read_str.simps option.case
  consider "ty = ''peer.capabilities''" | "ty = ''file.offer''" | "ty = ''file.manifest''"
    | "ty = ''file.request''" | "ty = ''file.accept''" | "ty = ''file.pause''"
    | "ty = ''file.reject''" | "ty = ''file.cancel''" | "ty = ''file.need''"
    | "ty = ''file.resume''" | "ty = ''file.complete''" | "ty = ''file.error''"
    | "ty = ''file.availability''"
    using G by (simp split: if_splits) (erule disjE; simp)+
  then show ?thesis
  proof cases
    case 13
    with G show ?thesis
      by (auto simp: C date_ok_def dest!: str_such_read int_such_read' availability_read)
  qed (use G in \<open>auto simp: C RISK_ATTACHMENT_PROTOCOL_VERSION_def MAX_SAFE_INTEGER_def
    dest!: str_such_read is_bool_read manifest_guard optional_str_read validChunkList_read
      optional_chunks_read capabilities_read\<close>)
qed

lemma wf_layout_bounds:
  assumes "wf_layout m"
  shows "am_size m \<le> am_chunkCount m * am_chunkSize m"
    and "(am_chunkCount m - 1) * am_chunkSize m < am_size m \<or> am_size m = 0 \<and> am_chunkCount m = 0"
    and "am_size m \<le> MAX_ATTACHMENT_CHUNKS * MAX_ATTACHMENT_CHUNK_SIZE"
proof -
  from assms have c: "0 < am_chunkSize m" "am_chunkCount m = ceil_div (am_size m) (am_chunkSize m)"
    "0 \<le> am_size m" "am_chunkCount m \<le> MAX_ATTACHMENT_CHUNKS"
    "am_chunkSize m \<le> MAX_ATTACHMENT_CHUNK_SIZE"
    by (simp_all add: wf_layout_def)
  note B = ceil_div_bounds [OF c(1), of "am_size m"]
  show up: "am_size m \<le> am_chunkCount m * am_chunkSize m" using B(1) c(2) by simp
  show "(am_chunkCount m - 1) * am_chunkSize m < am_size m \<or> am_size m = 0 \<and> am_chunkCount m = 0"
    using B(2) c(2) by (simp add: algebra_simps)
  have "0 \<le> am_chunkCount m" using c(1-3) ceil_div_nonneg by simp
  then have "am_chunkCount m * am_chunkSize m \<le> MAX_ATTACHMENT_CHUNKS * MAX_ATTACHMENT_CHUNK_SIZE"
    using c by (intro mult_mono) auto
  with up show "am_size m \<le> MAX_ATTACHMENT_CHUNKS * MAX_ATTACHMENT_CHUNK_SIZE" by simp
qed

section \<open>Properties of the attachment protocol\<close>

text \<open>C16: A manifest that passes \<^verbatim>\<open>validateAttachmentManifest\<close> can be read at its declared type, its id
  is its content hash, and its chunks exactly cover the file: no chunk is superfluous and the
  announced size is bounded by the number of chunks times the chunk size (at most 262144000000
  bytes).\<close>

theorem validateAttachmentManifest_sound:
  assumes "validateAttachmentManifest dateparse v = []"
  shows "\<exists>m. manifest_of_js v = Some m \<and> wf_manifest dateparse m
    \<and> am_size m \<le> am_chunkCount m * am_chunkSize m
    \<and> ((am_chunkCount m - 1) * am_chunkSize m < am_size m \<or> am_size m = 0 \<and> am_chunkCount m = 0)
    \<and> am_size m \<le> 262144000000"
proof -
  from manifest_guard [OF assms] obtain m where m: "manifest_of_js v = Some m" "wf_manifest dateparse m"
    by blast
  then have "wf_layout m" by (simp add: wf_manifest_def)
  from wf_layout_bounds [OF this] m show ?thesis
    by (simp add: MAX_ATTACHMENT_CHUNKS_def MAX_ATTACHMENT_CHUNK_SIZE_def)
qed

definition sample_manifest_js :: jsval where
  "sample_manifest_js = JObj
    [(''protocolVersion'', JInt 1), (''id'', JStr (replicate 64 (CHR ''a''))),
     (''senderPeerId'', JStr ''peer_12345678''), (''filename'', JStr ''arquivo.zip''),
     (''mimeType'', JStr ''application/zip''), (''kind'', JStr ''archive''), (''size'', JInt 100),
     (''contentHash'', JStr (replicate 64 (CHR ''A''))), (''chunkSize'', JInt 64), (''chunkCount'', JInt 2),
     (''createdAt'', JStr ''1970-01-01T00:00:00.000Z'')]"

lemma sample_manifest_valid: "validateAttachmentManifest (\<lambda>_. Some 0) sample_manifest_js = []"
  by code_simp

theorem validateAttachmentManifest_sound_witness:
  "\<exists>m. manifest_of_js sample_manifest_js = Some m \<and> wf_manifest (\<lambda>_. Some 0) m
    \<and> am_size m \<le> am_chunkCount m * am_chunkSize m
    \<and> ((am_chunkCount m - 1) * am_chunkSize m < am_size m \<or> am_size m = 0 \<and> am_chunkCount m = 0)
    \<and> am_size m \<le> 262144000000"
  by (rule validateAttachmentManifest_sound [OF sample_manifest_valid])

text \<open>Every value that passes \<^verbatim>\<open>isFileControlMessage\<close> is one of the thirteen control messages at its
  declared type, with a valid transfer identifier, bounded chunk lists whose indices a manifest
  can have, and, for an offer, a well-formed manifest.\<close>

theorem isFileControlMessage_sound:
  assumes "isFileControlMessage dateparse value"
  shows "\<exists>msg. control_of_js value = Some msg \<and> wf_control dateparse msg"
  using assms by (rule file_control_guard)

theorem isFileControlMessage_sound_witness:
  "\<exists>msg. control_of_js (JObj [(''type'', JStr ''file.offer''), (''transferId'', JStr ''transfer_1:2''),
      (''manifest'', sample_manifest_js)]) = Some msg \<and> wf_control (\<lambda>_. Some 0) msg"
proof (rule isFileControlMessage_sound)
  show "isFileControlMessage (\<lambda>_. Some 0) (JObj [(''type'', JStr ''file.offer''),
      (''transferId'', JStr ''transfer_1:2''), (''manifest'', sample_manifest_js)])"
    by code_simp
qed

lemma split_on_append: "split_on c (a @ c # b) = split_on c a @ split_on c b"
proof (induction a)
  case (Cons x a)
  then show ?case by (cases "split_on c a") (auto simp: split_on_nonempty)
qed simp

lemma last_split_on: "last (split_on c (a @ c # b)) = last (split_on c b)"
  by (simp add: split_on_append)

lemma lower_char_not_upper: "lower_char c \<notin> set upper_chars"
proof -
  have "code_unit (lower_char c) < 65 \<or> 90 < code_unit (lower_char c)"
    by (auto simp: lower_char_def Let_def)
  moreover have "65 \<le> code_unit x \<and> code_unit x \<le> 90" if "x \<in> set upper_chars" for x
    using that by (auto simp: upper_chars_def)
  ultimately show ?thesis by fastforce
qed

lemma extension_part_lower: "c \<in> set (extension_part filename) \<Longrightarrow> c \<notin> set upper_chars"
proof -
  assume "c \<in> set (extension_part filename)"
  moreover have "extension_part filename \<in> set (split_on CHR ''.'' (js_lower filename))"
    by (simp add: extension_part_def)
  ultimately have "c \<in> set (js_lower filename)" using split_on_chars by blast
  then show ?thesis using lower_char_not_upper by (auto simp: js_lower_def)
qed

lemma prototype_members_lower:
  "filter (list_all (\<lambda>c. c \<notin> set upper_chars)) object_prototype_members = [''constructor'', ''__proto__'']"
  by code_simp

lemma extension_part_prototype:
  "extension_part filename \<in> set object_prototype_members \<longleftrightarrow>
   extension_part filename \<in> {''constructor'', ''__proto__''}"
proof -
  have "list_all (\<lambda>c. c \<notin> set upper_chars) (extension_part filename)"
    by (simp add: list_all_iff extension_part_lower)
  then have "extension_part filename \<in> set object_prototype_members \<longleftrightarrow>
    extension_part filename \<in> set (filter (list_all (\<lambda>c. c \<notin> set upper_chars)) object_prototype_members)"
    by simp
  then show ?thesis unfolding prototype_members_lower by simp
qed

definition path_safe_char :: "char \<Rightarrow> bool" where
  "path_safe_char c \<longleftrightarrow> c \<noteq> CHR ''/'' \<and> c \<noteq> CHR 0x5C \<and> \<not> unsafe_name_char c"

lemma path_safe_attachment: "list_all path_safe_char ''attachment''"
  by (simp add: path_safe_char_def unsafe_name_char_def)

lemma if_both: "P y \<Longrightarrow> P x \<Longrightarrow> P (if b then x else y)"
  by simp

lemma path_safe_replaced:
  assumes "CHR ''/'' \<notin> set base" "CHR 0x5C \<notin> set base"
  shows "list_all path_safe_char (map (\<lambda>c. if unsafe_name_char c then CHR ''_'' else c) base)"
proof -
  have "path_safe_char (CHR ''_'')" by (simp add: path_safe_char_def unsafe_name_char_def)
  moreover have "path_safe_char y" if "y \<in> set base" "\<not> unsafe_name_char y" for y
    using that assms by (auto simp: path_safe_char_def)
  ultimately show ?thesis by (auto simp: list_all_iff)
qed

lemma sanitize_path_safe: "list_all path_safe_char (sanitizeAttachmentFilename filename)"
proof -
  define slashed where "slashed = map (\<lambda>c. if c = CHR 0x5C then CHR ''/'' else c) filename"
  define base where "base = last (split_on CHR ''/'' slashed)"
  define replaced where "replaced = map (\<lambda>c. if unsafe_name_char c then CHR ''_'' else c) base"
  define undotted where "undotted = (if replaced \<noteq> [] \<and> list_all (\<lambda>c. c = CHR ''.'') replaced
    then ''attachment'' else replaced)"
  have "base \<in> set (split_on CHR ''/'' slashed)" by (simp add: base_def)
  then have "CHR ''/'' \<notin> set base" "set base \<subseteq> set slashed"
    using split_on_no_sep split_on_chars by blast+
  moreover have "CHR 0x5C \<notin> set slashed" by (auto simp: slashed_def)
  ultimately have "list_all path_safe_char replaced"
    unfolding replaced_def by (intro path_safe_replaced) auto
  then have "list_all path_safe_char undotted" using path_safe_attachment unfolding undotted_def by (rule if_both)
  then have "list_all path_safe_char (js_trim undotted)"
    using js_trim_subset [of undotted] by (auto simp: list_all_iff)
  then have "list_all path_safe_char (if js_trim undotted \<noteq> [] then js_trim undotted else ''attachment'')"
    using path_safe_attachment by (rule if_both [rotated])
  then show ?thesis
    unfolding sanitizeAttachmentFilename_def Let_def slashed_def [symmetric] base_def [symmetric]
      replaced_def [symmetric] undotted_def [symmetric]
    by (auto simp: list_all_iff dest: in_set_takeD)
qed

text \<open>C17: The name \<^verbatim>\<open>sanitizeAttachmentFilename\<close> returns is never empty, has at most 255 characters, and
  contains no path separator, no control character and none of the reserved characters.\<close>

theorem sanitizeAttachmentFilename_safe:
  "sanitizeAttachmentFilename filename \<noteq> []
   \<and> length (sanitizeAttachmentFilename filename) \<le> MAX_ATTACHMENT_FILENAME_LENGTH
   \<and> list_all path_safe_char (sanitizeAttachmentFilename filename)"
  by (simp add: sanitize_path_safe)
    (simp add: sanitizeAttachmentFilename_def Let_def MAX_ATTACHMENT_FILENAME_LENGTH_def)

text \<open>A path whose last component is two dots and a space is sanitised to the parent directory:
  the dots are looked for before the white space is trimmed.\<close>

theorem sanitizeAttachmentFilename_parent:
  "sanitizeAttachmentFilename (dir @ ''/.. '') = ''..''"
  by (simp add: sanitizeAttachmentFilename_def Let_def last_split_on unsafe_name_char_def js_trim_def
      is_white_def MAX_ATTACHMENT_FILENAME_LENGTH_def)

text \<open>C18: \<^verbatim>\<open>classifyAttachment\<close> fails exactly on a file with no specific MIME type whose extension is the
  name of a member every object inherits; for every other input it returns a kind.\<close>

theorem classifyAttachment_total_iff:
  "classifyAttachment mimeType filename = Inl TypeError \<longleftrightarrow>
     js_lower (js_trim mimeType) \<in> {[], octet_stream}
     \<and> extension_part filename \<in> {''constructor'', ''__proto__''}"
proof -
  have "map_of MIME_BY_EXTENSION ''constructor'' = None" "map_of MIME_BY_EXTENSION ''__proto__'' = None"
    by (simp_all add: MIME_BY_EXTENSION_def)
  then show ?thesis
    unfolding classifyAttachment_def inferAttachmentMimeType_def Let_def extension_part_prototype
    by (auto split: option.splits)
qed

end
