(* ===== verification/JSON_Text.thy ===== *)
theory JSON_Text
  imports JS_Value
begin

text \<open>
  \<^verbatim>\<open>JSON.stringify\<close> on the values of the model. Canonical forms are printed this way before
  they are signed, so what a signature binds depends on the printing being injective, which is
  \<open>jtext_inj\<close> below.

  An integer below \<open>10 ^ 21\<close> prints as its decimal digits. How any other finite double prints is
  the shortest decimal that reads back to it; that text is the parameter \<open>num\<close>, and
  \<open>number_format\<close> states what is used of it.
\<close>

section \<open>Printing\<close>

definition number_text :: "(rat \<Rightarrow> string) \<Rightarrow> rat \<Rightarrow> string" where
  "number_text num x =
    (if of_int \<lfloor>x\<rfloor> = x \<and> \<bar>x\<bar> < 10 ^ 21 then int_digits \<lfloor>x\<rfloor> else num x)"

definition hex_digit :: "nat \<Rightarrow> char" where
  "hex_digit n = (if n < 10 then char_of (48 + n) else char_of (87 + n))"

definition escape_char :: "char \<Rightarrow> string" where
  "escape_char c =
    (if c = CHR 0x22 then [CHR 0x5C, CHR 0x22]
     else if c = CHR 0x5C then [CHR 0x5C, CHR 0x5C]
     else if c = CHR 0x08 then [CHR 0x5C, CHR ''b'']
     else if c = CHR 0x09 then [CHR 0x5C, CHR ''t'']
     else if c = CHR 0x0A then [CHR 0x5C, CHR ''n'']
     else if c = CHR 0x0C then [CHR 0x5C, CHR ''f'']
     else if c = CHR 0x0D then [CHR 0x5C, CHR ''r'']
     else if code_unit c < (32 :: nat)
     then [CHR 0x5C, CHR ''u'', CHR ''0'', CHR ''0'', hex_digit (code_unit c div 16), hex_digit (code_unit c mod 16)]
     else [c])"

definition quote_text :: "string \<Rightarrow> string" where
  "quote_text s = CHR 0x22 # concat (map escape_char s) @ [CHR 0x22]"

fun jtext :: "(rat \<Rightarrow> string) \<Rightarrow> jsval \<Rightarrow> string" where
  "jtext num JUndefined = ''null''"
| "jtext num JNull = ''null''"
| "jtext num (JBool b) = (if b then ''true'' else ''false'')"
| "jtext num (JNum (JFin x)) = number_text num x"
| "jtext num (JNum _) = ''null''"
| "jtext num (JStr s) = quote_text s"
| "jtext num (JArr xs) = CHR ''['' # join_with '','' (map (jtext num) xs) @ '']''"
| "jtext num (JObj ps) =
     CHR ''{'' # join_with '','' (map (\<lambda>p. quote_text (fst p) @ '':'' @ jtext num (snd p))
                               (filter (\<lambda>p. snd p \<noteq> JUndefined) ps)) @ ''}''"

text \<open>\<^verbatim>\<open>JSON.stringify(undefined)\<close> is \<^verbatim>\<open>undefined\<close>; every other value of the model has a text.\<close>

definition jstringify :: "(rat \<Rightarrow> string) \<Rightarrow> jsval \<Rightarrow> string option" where
  "jstringify num v = (if v = JUndefined then None else Some (jtext num v))"

section \<open>Injectivity\<close>

definition number_chars :: string where
  "number_chars = digit_chars @ ''-+.e''"

text \<open>
  What the printing of a double that is no small integer guarantees: it uses the characters of
  a number, it starts with a digit or a sign, it shows a point or an exponent, and no two
  doubles print alike.
\<close>

definition number_format :: "(rat \<Rightarrow> string) \<Rightarrow> bool" where
  "number_format num \<longleftrightarrow> inj num
     \<and> (\<forall>x. set (num x) \<subseteq> set number_chars \<and> num x \<noteq> []
          \<and> (CHR ''.'' \<in> set (num x) \<or> CHR ''e'' \<in> set (num x)))"

fun json_safe :: "jsval \<Rightarrow> bool" where
  "json_safe JUndefined = False"
| "json_safe JNull = True"
| "json_safe (JBool b) = True"
| "json_safe (JNum x) = (case x of JFin q \<Rightarrow> True | _ \<Rightarrow> False)"
| "json_safe (JStr s) = True"
| "json_safe (JArr xs) = list_all json_safe xs"
| "json_safe (JObj ps) = list_all (\<lambda>p. json_safe (snd p)) ps"

lemma digit_char_inj: "a < 10 \<Longrightarrow> b < 10 \<Longrightarrow> digit_char a = digit_char b \<Longrightarrow> a = b"
  by (simp add: digit_char_def of_char_of of_char_eq_iff [symmetric] del: of_char_eq_iff)

lemma digit_char_mem: "d < 10 \<Longrightarrow> digit_char d \<in> set digit_chars"
proof -
  have "list_all (\<lambda>d. digit_char d \<in> set digit_chars) [0..<10]" by code_simp
  then show "d < 10 \<Longrightarrow> digit_char d \<in> set digit_chars" by (simp add: list_all_iff)
qed

lemma nat_digits_nonempty [simp]: "nat_digits n \<noteq> []"
  by (subst nat_digits.simps) simp

lemma nat_digits_chars: "set (nat_digits n) \<subseteq> set digit_chars"
proof (induction n rule: nat_digits.induct)
  case (1 n)
  show ?case
  proof (cases "n < 10")
    case True
    then show ?thesis using digit_char_mem by (subst nat_digits.simps) simp
  next
    case False
    with 1 show ?thesis using digit_char_mem [of "n mod 10"]
      by (subst nat_digits.simps) simp
  qed
qed

lemma nat_digits_length_1: "length (nat_digits n) = 1 \<longleftrightarrow> n < 10"
  by (subst nat_digits.simps) simp

lemma nat_digits_inj: "nat_digits n = nat_digits m \<Longrightarrow> n = m"
proof (induction n arbitrary: m rule: nat_digits.induct)
  case (1 n)
  have iff: "n < 10 \<longleftrightarrow> m < 10"
    using nat_digits_length_1 [of n] nat_digits_length_1 [of m] 1(2) by simp
  show ?case
  proof (cases "n < 10")
    case True
    with iff 1(2) show ?thesis
      using nat_digits.simps [of n] nat_digits.simps [of m] digit_char_inj [of n m] by simp
  next
    case False
    with iff 1(2) have "nat_digits (n div 10) = nat_digits (m div 10)"
      "digit_char (n mod 10) = digit_char (m mod 10)"
      using nat_digits.simps [of n] nat_digits.simps [of m] by simp_all
    then have "n div 10 = m div 10" "n mod 10 = m mod 10"
      using 1(1) [OF False] digit_char_inj [of "n mod 10" "m mod 10"] by simp_all
    then show ?thesis by (metis div_mult_mod_eq)
  qed
qed

lemma minus_not_digit: "CHR ''-'' \<notin> set digit_chars" by code_simp

lemma int_digits_inj: "int_digits a = int_digits b \<Longrightarrow> a = b"
proof -
  assume eq: "int_digits a = int_digits b"
  have hd: "nat_digits k \<noteq> CHR ''-'' # t" for k t
    using nat_digits_chars [of k] minus_not_digit by auto
  from eq show "a = b" unfolding int_digits_def
    by (auto simp: hd hd [symmetric] dest!: nat_digits_inj split: if_splits)
qed

lemma int_digits_chars: "set (int_digits n) \<subseteq> insert (CHR ''-'') (set digit_chars)"
  using nat_digits_chars by (auto simp: int_digits_def)

lemma int_digits_nonempty [simp]: "int_digits n \<noteq> []"
  by (simp add: int_digits_def)

lemma point_not_int: "CHR ''.'' \<notin> insert (CHR ''-'') (set digit_chars)"
  "CHR ''e'' \<notin> insert (CHR ''-'') (set digit_chars)"
  by code_simp+

lemma number_chars_int: "insert (CHR ''-'') (set digit_chars) \<subseteq> set number_chars"
  by (auto simp: number_chars_def)

lemma number_text_chars:
  assumes "number_format num"
  shows "set (number_text num x) \<subseteq> set number_chars"
  using assms subset_trans [OF int_digits_chars number_chars_int]
  unfolding number_text_def number_format_def by simp

lemma number_text_nonempty: "number_format num \<Longrightarrow> number_text num x \<noteq> []"
  unfolding number_text_def number_format_def by simp

lemma number_text_inj:
  assumes "number_format num" "number_text num x = number_text num y"
  shows "x = y"
proof -
  have no: "num a \<noteq> int_digits b" for a b
    using assms(1) int_digits_chars [of b] point_not_int unfolding number_format_def by (metis subsetD)
  show ?thesis
  proof (cases "of_int \<lfloor>x\<rfloor> = x \<and> \<bar>x\<bar> < 10 ^ 21"; cases "of_int \<lfloor>y\<rfloor> = y \<and> \<bar>y\<bar> < 10 ^ 21")
    assume "of_int \<lfloor>x\<rfloor> = x \<and> \<bar>x\<bar> < 10 ^ 21" "of_int \<lfloor>y\<rfloor> = y \<and> \<bar>y\<bar> < 10 ^ 21"
    with assms(2) show ?thesis unfolding number_text_def by (metis int_digits_inj)
  next
    assume "\<not> (of_int \<lfloor>x\<rfloor> = x \<and> \<bar>x\<bar> < 10 ^ 21)" "\<not> (of_int \<lfloor>y\<rfloor> = y \<and> \<bar>y\<bar> < 10 ^ 21)"
    with assms show ?thesis unfolding number_text_def number_format_def by (metis injD)
  qed (use assms(2) no in \<open>metis number_text_def\<close>)+
qed

text \<open>Reading one escaped character back.\<close>

definition hex_value :: "char \<Rightarrow> nat" where
  "hex_value c = (let n = code_unit c in if n < 58 then n - 48 else n - 87)"

definition unescape_code :: "char \<Rightarrow> string \<Rightarrow> char \<times> string" where
  "unescape_code c r =
    (if c = CHR ''b'' then (CHR 0x08, r)
     else if c = CHR ''t'' then (CHR 0x09, r)
     else if c = CHR ''n'' then (CHR 0x0A, r)
     else if c = CHR ''f'' then (CHR 0x0C, r)
     else if c = CHR ''r'' then (CHR 0x0D, r)
     else if c = CHR ''u'' then (char_of (hex_value (r ! 2) * 16 + hex_value (r ! 3)), drop 4 r)
     else (c, r))"

definition unescape :: "string \<Rightarrow> char \<times> string" where
  "unescape s = (if hd s = CHR 0x5C then unescape_code (s ! 1) (drop 2 s) else (hd s, tl s))"

lemma hex_value_digit: "n < 16 \<Longrightarrow> hex_value (hex_digit n) = n"
  by (simp add: hex_value_def hex_digit_def Let_def of_char_of)

lemma unescape_escape: "unescape (escape_char c @ r) = (c, r)"
proof (cases "c = CHR 0x22 \<or> c = CHR 0x5C \<or> c = CHR 0x08 \<or> c = CHR 0x09 \<or> c = CHR 0x0A \<or> c = CHR 0x0C \<or> c = CHR 0x0D")
  case True
  then show ?thesis
    by (elim disjE) (simp_all add: escape_char_def unescape_def unescape_code_def)
next
  case False
  show ?thesis
  proof (cases "code_unit c < (32 :: nat)")
    case True
    then have "hex_value (hex_digit (code_unit c div 16)) * 16 + hex_value (hex_digit (code_unit c mod 16)) = code_unit c"
      by (simp add: hex_value_digit)
    with False True show ?thesis
      by (simp add: escape_char_def unescape_def unescape_code_def)
  next
    case nl: False
    with False show ?thesis by (simp add: escape_char_def unescape_def)
  qed
qed

lemma escape_char_start: "escape_char c \<noteq> []" "escape_char c \<noteq> CHR 0x22 # t"
  by (simp_all add: escape_char_def)

lemma quote_body_inj:
  "concat (map escape_char s) @ CHR 0x22 # r = concat (map escape_char t) @ CHR 0x22 # u
    \<Longrightarrow> s = t \<and> r = u"
proof (induction s arbitrary: t)
  case Nil
  then show ?case
    using escape_char_start by (cases t) (auto simp: Cons_eq_append_conv eq_commute)
next
  case (Cons c s)
  note IH = Cons.IH and eq = Cons.prems
  show ?case
  proof (cases t)
    case Nil
    with eq escape_char_start [of c] show ?thesis by (cases "escape_char c") auto
  next
    case (Cons d t')
    from eq have "escape_char c @ concat (map escape_char s) @ CHR 0x22 # r
        = escape_char d @ concat (map escape_char t') @ CHR 0x22 # u" by (simp add: Cons)
    from arg_cong [OF this, of unescape] show ?thesis
      using IH [of t'] by (simp add: unescape_escape Cons)
  qed
qed

lemma quote_text_inj: "quote_text s @ r = quote_text t @ u \<Longrightarrow> s = t \<and> r = u"
  using quote_body_inj [of s r t u] by (simp add: quote_text_def)

text \<open>
  A text is followed by a delimiter or by nothing; then the text and what follows it are
  determined by their concatenation.
\<close>

definition ends_text :: "string \<Rightarrow> bool" where
  "ends_text r \<longleftrightarrow> r = [] \<or> hd r \<in> {CHR '','', CHR '']'', CHR ''}''}"

lemma ends_text_not_number: "ends_text (c # r) \<Longrightarrow> c \<notin> set number_chars"
proof -
  have "list_all (\<lambda>c. c \<notin> set number_chars) [CHR '','', CHR '']'', CHR ''}'']" by code_simp
  then show "ends_text (c # r) \<Longrightarrow> c \<notin> set number_chars" by (auto simp: ends_text_def)
qed

lemma class_prefix_det:
  assumes "set a \<subseteq> C" "set b \<subseteq> C" "\<And>c t. r = c # t \<Longrightarrow> c \<notin> C" "\<And>c t. s = c # t \<Longrightarrow> c \<notin> C"
    "a @ r = b @ s"
  shows "a = b \<and> r = s"
proof -
  have tw: "takeWhile (\<lambda>c. c \<in> C) (x @ y) = x" if "set x \<subseteq> C" "\<And>c t. y = c # t \<Longrightarrow> c \<notin> C" for x y
    using that by (cases y) (auto simp: takeWhile_append2 takeWhile_eq_all_conv subset_iff)
  have "takeWhile (\<lambda>c. c \<in> C) (a @ r) = a" by (rule tw) (use assms in auto)
  moreover have "takeWhile (\<lambda>c. c \<in> C) (b @ s) = b" by (rule tw) (use assms in auto)
  ultimately have "a = b" using assms(5) by simp
  with assms(5) show ?thesis by simp
qed

text \<open>The first character of a text tells the kind of value.\<close>

definition text_kind :: "jsval \<Rightarrow> char \<Rightarrow> bool" where
  "text_kind v c = (case v of JNull \<Rightarrow> c = CHR ''n'' | JBool b \<Rightarrow> c = (if b then CHR ''t'' else CHR ''f'')
     | JNum x \<Rightarrow> c \<in> set number_chars | JStr s \<Rightarrow> c = CHR 0x22 | JArr xs \<Rightarrow> c = CHR ''[''
     | JObj ps \<Rightarrow> c = CHR ''{'' | JUndefined \<Rightarrow> False)"

lemma jtext_start:
  assumes "number_format num" "json_safe v"
  obtains c t where "jtext num v = c # t" "text_kind v c"
proof (cases v)
  case (JNum x)
  with assms(2) obtain q where x: "x = JFin q" by (cases x) auto
  obtain c t where c: "number_text num q = c # t"
    using number_text_nonempty [OF assms(1)] by (meson neq_Nil_conv)
  with number_text_chars [OF assms(1), of q] have "c \<in> set number_chars" by simp
  with c that JNum x show thesis by (simp add: text_kind_def)
next
  case (JBool b)
  with that show thesis by (cases b) (auto simp: text_kind_def)
qed (use assms that in \<open>auto simp: text_kind_def quote_text_def\<close>)

lemma number_chars_other:
  "list_all (\<lambda>c. c \<notin> set number_chars)
    [CHR ''n'', CHR ''t'', CHR ''f'', CHR 0x22, CHR ''['', CHR ''{'', CHR '','', CHR '']'', CHR ''}'']"
  by code_simp

lemma text_kind_not_end: "text_kind v c \<Longrightarrow> c \<notin> {CHR '','', CHR '']'', CHR ''}''}"
  using number_chars_other by (cases v) (auto simp: text_kind_def)

lemma text_kind_unique:
  assumes "text_kind v c" "text_kind w c"
  shows "(v = JNull \<and> w = JNull) \<or> (\<exists>b. v = JBool b \<and> w = JBool b) \<or> (\<exists>x y. v = JNum x \<and> w = JNum y)
    \<or> (\<exists>s t. v = JStr s \<and> w = JStr t) \<or> (\<exists>xs ys. v = JArr xs \<and> w = JArr ys)
    \<or> (\<exists>ps qs. v = JObj ps \<and> w = JObj qs)"
  using assms number_chars_other
  by (cases v; cases w) (auto simp: text_kind_def split: if_splits)

definition item_det :: "('a \<Rightarrow> string) \<Rightarrow> ('a \<Rightarrow> bool) \<Rightarrow> 'a \<Rightarrow> bool" where
  "item_det f q x \<longleftrightarrow> (\<forall>y r s. q y \<longrightarrow> ends_text r \<longrightarrow> ends_text s \<longrightarrow> f x @ r = f y @ s \<longrightarrow> x = y \<and> r = s)"

definition item_start :: "('a \<Rightarrow> string) \<Rightarrow> 'a \<Rightarrow> bool" where
  "item_start f x \<longleftrightarrow> f x \<noteq> [] \<and> hd (f x) \<notin> {CHR '','', CHR '']'', CHR ''}''}"

lemma join_with_Cons: "join_with '','' (a # l) = a @ concat (map ((#) (CHR '','')) l)"
  by (induction l arbitrary: a) auto

lemma item_tail_det:
  assumes "\<forall>x \<in> set xs. item_det f q x" "\<forall>y \<in> set ys. q y" "c \<in> {CHR '']'', CHR ''}''}"
    "concat (map ((#) (CHR '','')) (map f xs)) @ c # r = concat (map ((#) (CHR '','')) (map f ys)) @ c # s"
  shows "xs = ys \<and> r = s"
  using assms
proof (induction xs arbitrary: ys)
  case Nil
  then show ?case by (cases ys) auto
next
  case (Cons x xs)
  note IH = Cons.IH and prems = Cons.prems
  have et: "ends_text (concat (map ((#) (CHR '','')) l) @ c # u)" for l u
    using prems(3) by (cases l) (auto simp: ends_text_def)
  show ?case
  proof (cases ys)
    case Nil
    with prems show ?thesis by auto
  next
    case (Cons y ys')
    from prems(4) have "f x @ concat (map ((#) (CHR '','')) (map f xs)) @ c # r
        = f y @ concat (map ((#) (CHR '','')) (map f ys')) @ c # s" by (simp add: Cons)
    with prems(1,2) et have "x = y"
      "concat (map ((#) (CHR '','')) (map f xs)) @ c # r = concat (map ((#) (CHR '','')) (map f ys')) @ c # s"
      unfolding item_det_def Cons by (metis list.set_intros(1))+
    with IH [of ys'] prems show ?thesis by (auto simp: Cons)
  qed
qed

lemma join_det:
  assumes "\<forall>x \<in> set xs. item_det f q x \<and> item_start f x" "\<forall>y \<in> set ys. q y \<and> item_start f y"
    "c \<in> {CHR '']'', CHR ''}''}"
    "join_with '','' (map f xs) @ c # r = join_with '','' (map f ys) @ c # s"
  shows "xs = ys \<and> r = s"
proof (cases xs; cases ys)
  fix x xs' y ys'
  assume xy: "xs = x # xs'" "ys = y # ys'"
  have et: "ends_text (concat (map ((#) (CHR '','')) l) @ c # u)" for l u
    using assms(3) by (cases l) (auto simp: ends_text_def)
  from assms(4) have "f x @ concat (map ((#) (CHR '','')) (map f xs')) @ c # r
      = f y @ concat (map ((#) (CHR '','')) (map f ys')) @ c # s"
    by (simp add: xy join_with_Cons)
  with assms(1,2) et have "x = y"
    "concat (map ((#) (CHR '','')) (map f xs')) @ c # r = concat (map ((#) (CHR '','')) (map f ys')) @ c # s"
    unfolding item_det_def xy by (metis list.set_intros(1))+
  with item_tail_det [of xs' f q ys' c r s] assms show ?thesis by (auto simp: xy)
next
  fix y ys' assume "xs = []" "ys = y # ys'"
  with assms show ?thesis by (cases "f y") (auto simp: item_start_def join_with_Cons)
next
  fix x xs' assume "xs = x # xs'" "ys = []"
  with assms show ?thesis by (cases "f x") (auto simp: item_start_def join_with_Cons)
qed (use assms in auto)


definition member_text :: "(rat \<Rightarrow> string) \<Rightarrow> string \<times> jsval \<Rightarrow> string" where
  "member_text num p = quote_text (fst p) @ '':'' @ jtext num (snd p)"

lemma json_safe_defined: "list_all (\<lambda>p. json_safe (snd p)) ps \<Longrightarrow> filter (\<lambda>p. snd p \<noteq> JUndefined) ps = ps"
  by (induction ps) auto

lemma jtext_JObj_safe:
  assumes "json_safe (JObj ps)"
  shows "jtext num (JObj ps) = CHR ''{'' # join_with '','' (map (member_text num) ps) @ ''}''"
  using assms json_safe_defined [of ps] by (simp add: member_text_def [abs_def])

lemma member_start: "item_start (member_text num) p"
  by (simp add: item_start_def member_text_def quote_text_def)

lemma jtext_item_start: "number_format num \<Longrightarrow> json_safe v \<Longrightarrow> item_start (jtext num) v"
  using text_kind_not_end by (fastforce simp: item_start_def elim: jtext_start)

lemma member_det:
  assumes "item_det (jtext num) json_safe (snd p)"
  shows "item_det (member_text num) (\<lambda>q. json_safe (snd q)) p"
  unfolding item_det_def
proof (intro allI impI)
  fix y r s
  assume *: "json_safe (snd y)" "ends_text r" "ends_text s" "member_text num p @ r = member_text num y @ s"
  from *(4) have "fst p = fst y \<and> '':'' @ jtext num (snd p) @ r = '':'' @ jtext num (snd y) @ s"
    unfolding member_text_def append_assoc by (rule quote_text_inj)
  with assms * show "p = y \<and> r = s" unfolding item_det_def by (auto simp: prod_eq_iff)
qed

lemma jtext_det:
  assumes "number_format num" "json_safe v"
  shows "item_det (jtext num) json_safe v"
  using assms(2)
proof (induction v rule: measure_induct_rule [of size])
  case (less v)
  show ?case unfolding item_det_def
  proof (intro allI impI)
    fix w r s
    assume w: "json_safe w" and rs: "ends_text r" "ends_text s" and eq: "jtext num v @ r = jtext num w @ s"
    obtain c t d u where c: "jtext num v = c # t" "text_kind v c" and d: "jtext num w = d # u" "text_kind w d"
      using jtext_start [OF assms(1) less.prems] jtext_start [OF assms(1) w] by metis
    with eq have "text_kind w c" by simp
    from text_kind_unique [OF c(2) this] show "v = w \<and> r = s"
    proof (elim disjE exE conjE)
      fix x y assume n: "v = JNum x" "w = JNum y"
      with less.prems w obtain p q where pq: "x = JFin p" "y = JFin q"
        by (cases x; cases y) auto
      have nc: "c \<notin> set number_chars" if "ends_text l" "l = c # t" for l c t
        using that ends_text_not_number by blast
      have "number_text num p @ r = number_text num q @ s" using eq n pq by simp
      then have "number_text num p = number_text num q \<and> r = s"
        using class_prefix_det [OF number_text_chars [OF assms(1)] number_text_chars [OF assms(1)]] nc rs by metis
      then show ?thesis using number_text_inj [OF assms(1)] n pq by simp
    next
      fix a b assume a: "v = JStr a" "w = JStr b"
      then have "quote_text a @ r = quote_text b @ s" using eq by simp
      from quote_text_inj [OF this] show ?thesis by (simp add: a)
    next
      fix xs ys assume a: "v = JArr xs" "w = JArr ys"
      have "size x < size v" if "x \<in> set xs" for x using size_list_estimation' [OF that, of "size x" size] a by simp
      with less a have "\<forall>x \<in> set xs. item_det (jtext num) json_safe x \<and> item_start (jtext num) x"
        using jtext_item_start [OF assms(1)] by (simp add: list_all_iff)
      moreover have "\<forall>y \<in> set ys. json_safe y \<and> item_start (jtext num) y"
        using jtext_item_start [OF assms(1)] a w by (simp add: list_all_iff)
      ultimately have "xs = ys \<and> r = s"
        by (rule join_det [where c = "CHR '']''"]) (use eq a in simp_all)
      then show ?thesis by (simp add: a)
    next
      fix ps qs assume a: "v = JObj ps" "w = JObj qs"
      have "size (snd p) < size v" if "p \<in> set ps" for p
        using size_list_estimation' [OF that, of "size (snd p)" "size_prod (\<lambda>x. 0) size"] a
        by (cases p) simp
      with less a have "\<forall>p \<in> set ps. item_det (member_text num) (\<lambda>q. json_safe (snd q)) p \<and> item_start (member_text num) p"
        using member_start member_det by (simp add: list_all_iff)
      moreover have "\<forall>q \<in> set qs. json_safe (snd q) \<and> item_start (member_text num) q"
        using member_start a w by (simp add: list_all_iff)
      ultimately have "ps = qs \<and> r = s"
        by (rule join_det [where c = "CHR ''}''"])
          (use eq jtext_JObj_safe [of ps num] jtext_JObj_safe [of qs num] less.prems w a in \<open>simp_all del: jtext.simps\<close>)
      then show ?thesis by (simp add: a)
    qed (use eq in auto)
  qed
qed

lemma jtext_inj:
  assumes "number_format num" "json_safe v" "json_safe w" "jtext num v = jtext num w"
  shows "v = w"
  using jtext_det [OF assms(1,2)] assms(3,4) unfolding item_det_def
  by (metis append_Nil2 ends_text_def)

lemma jtext_eq_iff:
  "number_format num \<Longrightarrow> json_safe v \<Longrightarrow> json_safe w \<Longrightarrow> jtext num v = jtext num w \<longleftrightarrow> v = w"
  using jtext_inj by blast

text \<open>A printing that satisfies \<open>number_format\<close>, for concrete evaluations.\<close>

definition fraction_text :: "rat \<Rightarrow> string" where
  "fraction_text x = (case quotient_of x of (a, b) \<Rightarrow> int_digits a @ ''e'' @ int_digits b)"

lemma number_format_fraction_text: "number_format fraction_text"
proof -
  have e: "CHR ''e'' \<notin> set (int_digits a)" for a
    using int_digits_chars [of a] point_not_int by blast
  have "x = y" if "fraction_text x = fraction_text y" for x y
  proof -
    obtain a b c d where q: "quotient_of x = (a, b)" "quotient_of y = (c, d)" by fastforce
    with that have "int_digits a @ CHR ''e'' # int_digits b = int_digits c @ CHR ''e'' # int_digits d"
      by (simp add: fraction_text_def)
    then have "int_digits a = int_digits c \<and> int_digits b = int_digits d"
      using e by (metis append_Cons_eq_iff)
    then have "quotient_of x = quotient_of y" using q int_digits_inj by auto
    then show ?thesis by (simp add: quotient_of_inject_eq)
  qed
  moreover have "set (fraction_text x) \<subseteq> set number_chars" for x
  proof -
    have "CHR ''e'' \<in> set number_chars" by code_simp
    then show ?thesis
      using subset_trans [OF int_digits_chars number_chars_int]
      by (auto simp: fraction_text_def split: prod.splits)
  qed
  ultimately show ?thesis
    unfolding number_format_def inj_def by (auto simp: fraction_text_def split: prod.splits)
qed

end
