(* ===== verification/Chunk_Codec.thy ===== *)
theory Chunk_Codec
  imports Attachment_Protocol JSON_Text SHA256
begin

text \<open>
  The binary chunk frames of \<^verbatim>\<open>packages/rtc/src/file-chunk-codec.ts\<close>: a fixed header of sixteen
  bytes, the metadata as JSON text and the payload.

  What the decoder reads is not typed: the metadata is whatever \<^verbatim>\<open>JSON.parse\<close> returns and
  \<^verbatim>\<open>validateFrame\<close> tests it with operators that convert their operands. A decoded frame is
  therefore the metadata value beside the payload. Three parameters stand for parts of the
  runtime: \<open>parse\<close> is \<^verbatim>\<open>JSON.parse(new TextDecoder().decode(bytes))\<close>, with \<open>None\<close> where it
  throws, and \<open>tonum\<close> and \<open>tostr\<close> convert a value that is not a number or a string already.
\<close>

section \<open>The code\<close>

definition MAGIC :: word32 where "MAGIC = 0x5249534b"
definition VERSION :: byte where "VERSION = 1"
definition FIXED_HEADER_BYTES :: nat where "FIXED_HEADER_BYTES = 16"
definition MAX_METADATA_BYTES :: nat where "MAX_METADATA_BYTES = 16 * 1024"
definition MAX_PAYLOAD_BYTES :: nat where "MAX_PAYLOAD_BYTES = 256 * 1024"

type_synonym chunk_frame = "byte AttachmentChunkFrame"
type_synonym raw_frame = "jsval \<times> byte list"

text \<open>\<^verbatim>\<open>new TextEncoder().encode(s)\<close>: a code unit from 128 on takes two bytes.\<close>

definition utf8_char :: "char \<Rightarrow> byte list" where
  "utf8_char c = (let n = code_unit c in
     if n < 128 then [of_nat n] else [of_nat (192 + n div 64), of_nat (128 + n mod 64)])"

definition utf8 :: "string \<Rightarrow> byte list" where
  "utf8 s = concat (map utf8_char s)"

definition uint16_bytes :: "16 word \<Rightarrow> byte list" where
  "uint16_bytes v = [ucast (drop_bit 8 v), ucast v]"

definition get_uint16 :: "byte list \<Rightarrow> nat \<Rightarrow> 16 word" where
  "get_uint16 bs i = push_bit 8 (ucast (bs ! i)) OR ucast (bs ! (i + 1))"

text \<open>\<^verbatim>\<open>value.length\<close>, and the comparison \<^verbatim>\<open>value > limit\<close> with its conversion to a number.\<close>

fun js_length :: "jsval \<Rightarrow> jsval" where
  "js_length (JStr s) = JInt (int (length s))"
| "js_length (JArr xs) = JInt (int (length xs))"
| "js_length (JObj ps) = jprop (JObj ps) ''length''"
| "js_length _ = JUndefined"

fun num_above :: "int \<Rightarrow> jsnum \<Rightarrow> bool" where
  "num_above k (JFin x) = (of_int k < x)"
| "num_above k JPosInf = True"
| "num_above k _ = False"

fun js_above :: "(jsval \<Rightarrow> jsnum) \<Rightarrow> int \<Rightarrow> jsval \<Rightarrow> bool" where
  "js_above tonum k (JNum n) = num_above k n"
| "js_above tonum k JUndefined = False"
| "js_above tonum k v = num_above k (tonum v)"

fun js_string :: "(jsval \<Rightarrow> string) \<Rightarrow> jsval \<Rightarrow> string" where
  "js_string tostr (JStr s) = s"
| "js_string tostr v = tostr v"

definition identifier_bad :: "(jsval \<Rightarrow> jsnum) \<Rightarrow> jsval \<Rightarrow> bool" where
  "identifier_bad tonum v \<longleftrightarrow> \<not> truthy v \<or> js_above tonum 128 (js_length v)"

definition validateFrame :: "(jsval \<Rightarrow> jsnum) \<Rightarrow> (jsval \<Rightarrow> string) \<Rightarrow> raw_frame \<Rightarrow> js_error + unit" where
  "validateFrame tonum tostr frame = (case frame of (obj, payload) \<Rightarrow>
    if identifier_bad tonum (jprop obj ''transferId'') then Inl (JSError ''transferId'')
    else if identifier_bad tonum (jprop obj ''attachmentId'') then Inl (JSError ''attachmentId'')
    else if \<not> int_such (\<lambda>n. 0 \<le> n) (jprop obj ''index'') then Inl (JSError ''index'')
    else if \<not> int_such (\<lambda>n. 0 \<le> n) (jprop obj ''offset'') then Inl (JSError ''offset'')
    else if \<not> int_such (\<lambda>n. 0 \<le> n \<and> n = int (length payload)) (jprop obj ''size'') then Inl (JSError ''size'')
    else if \<not> sha256_pattern (js_string tostr (jprop obj ''hash'')) then Inl (JSError ''hash'')
    else Inr ())"

definition metadata_js :: "chunk_frame \<Rightarrow> jsval" where
  "metadata_js frame = JObj [
     (''transferId'', JStr (cf_transferId frame)),
     (''attachmentId'', JStr (cf_attachmentId frame)),
     (''index'', JInt (cf_index frame)),
     (''offset'', JInt (cf_offset frame)),
     (''size'', JInt (cf_size frame)),
     (''hash'', JStr (cf_hash frame))]"

definition frame_raw :: "chunk_frame \<Rightarrow> raw_frame" where
  "frame_raw frame = (metadata_js frame, cf_payload frame)"

definition encodeAttachmentChunkFrame ::
  "(rat \<Rightarrow> string) \<Rightarrow> (jsval \<Rightarrow> jsnum) \<Rightarrow> (jsval \<Rightarrow> string) \<Rightarrow> chunk_frame \<Rightarrow> js_error + byte list" where
  "encodeAttachmentChunkFrame num tonum tostr frame =
    bind_result (validateFrame tonum tostr (frame_raw frame)) (\<lambda>_.
      let metadataBytes = utf8 (jtext num (metadata_js frame)) in
      if length metadataBytes > MAX_METADATA_BYTES then Inl (JSError ''metadata too large'')
      else if length (cf_payload frame) > MAX_PAYLOAD_BYTES then Inl (JSError ''payload too large'')
      else Inr (uint32_bytes MAGIC @ [VERSION] @ [0] @ uint16_bytes (of_nat FIXED_HEADER_BYTES)
        @ uint32_bytes (of_nat (length metadataBytes)) @ uint32_bytes (of_nat (length (cf_payload frame)))
        @ metadataBytes @ cf_payload frame))"

definition decodeAttachmentChunkFrame ::
  "(jsval \<Rightarrow> jsnum) \<Rightarrow> (jsval \<Rightarrow> string) \<Rightarrow> (byte list \<Rightarrow> jsval option) \<Rightarrow> byte list \<Rightarrow> js_error + raw_frame" where
  "decodeAttachmentChunkFrame tonum tostr parse buffer =
    (if length buffer < FIXED_HEADER_BYTES then Inl (JSError ''truncated'')
     else if get_uint32 buffer 0 \<noteq> MAGIC then Inl (JSError ''magic'')
     else if buffer ! 4 \<noteq> VERSION then Inl (JSError ''version'')
     else if unat (get_uint16 buffer 6) \<noteq> FIXED_HEADER_BYTES then Inl (JSError ''header'')
     else
       let metadataLength = unat (get_uint32 buffer 8); payloadLength = unat (get_uint32 buffer 12) in
       if metadataLength > MAX_METADATA_BYTES \<or> payloadLength > MAX_PAYLOAD_BYTES then Inl (JSError ''limits'')
       else if FIXED_HEADER_BYTES + metadataLength + payloadLength \<noteq> length buffer then Inl (JSError ''length'')
       else (case parse (take metadataLength (drop FIXED_HEADER_BYTES buffer)) of
           None \<Rightarrow> Inl (JSError ''metadata'')
         | Some metadata \<Rightarrow>
             let payloadStart = FIXED_HEADER_BYTES + metadataLength;
                 frame = (metadata, take payloadLength (drop payloadStart buffer)) in
             bind_result (validateFrame tonum tostr frame) (\<lambda>_.
               if safe_int (jprop metadata ''size'') \<noteq> Some (int payloadLength) then Inl (JSError ''announced size'')
               else Inr frame)))"

definition isAttachmentChunkFrame :: "byte list \<Rightarrow> bool" where
  "isAttachmentChunkFrame buffer \<longleftrightarrow> length buffer \<ge> FIXED_HEADER_BYTES \<and> get_uint32 buffer 0 = MAGIC"

section \<open>Big-endian numbers\<close>

lemma byte_position:
  "n < 32 \<Longrightarrow> n < 8 \<or> (\<exists>k < 8. n = 8 + k) \<or> (\<exists>k < 8. n = 16 + k) \<or> (\<exists>k < 8. n = (24::nat) + k)"
  by presburger

lemma get_uint32_bytes: "get_uint32 (uint32_bytes v @ r) 0 = v"
proof (rule bit_word_eqI)
  fix n assume "n < LENGTH(32)"
  then consider "n < 8" | k where "n = 8 + k" "k < 8" | k where "n = 16 + k" "k < 8" | k where "n = 24 + k" "k < 8"
    using byte_position [of n] by auto
  then show "bit (get_uint32 (uint32_bytes v @ r) 0) n \<longleftrightarrow> bit v n"
    by cases (auto simp: get_uint32_def uint32_bytes_def bit_or_iff bit_push_bit_iff bit_ucast_iff bit_drop_bit_eq add.assoc)
qed

lemma get_uint32_shift: "length pre = i \<Longrightarrow> get_uint32 (pre @ r) (i + k) = get_uint32 r k"
  by (auto simp: get_uint32_def nth_append)

lemma get_uint16_bytes: "get_uint16 (uint16_bytes v @ r) 0 = v"
  by (rule bit_word_eqI)
    (auto simp: get_uint16_def uint16_bytes_def bit_or_iff bit_push_bit_iff bit_ucast_iff bit_drop_bit_eq)

lemma length_uint32_bytes [simp]: "length (uint32_bytes v) = 4"
  by (simp add: uint32_bytes_def)

lemma unat_uint32: "n \<le> 2 ^ 31 \<Longrightarrow> unat (of_nat n :: word32) = n"
  by (simp add: unat_of_nat take_bit_nat_eq_self)

section \<open>The frame survives the wire\<close>

lemma validateFrame_Inr:
  "validateFrame tonum tostr (obj, payload) = Inr u \<longleftrightarrow>
    \<not> identifier_bad tonum (jprop obj ''transferId'') \<and> \<not> identifier_bad tonum (jprop obj ''attachmentId'')
    \<and> int_such (\<lambda>n. 0 \<le> n) (jprop obj ''index'') \<and> int_such (\<lambda>n. 0 \<le> n) (jprop obj ''offset'')
    \<and> int_such (\<lambda>n. 0 \<le> n \<and> n = int (length payload)) (jprop obj ''size'')
    \<and> sha256_pattern (js_string tostr (jprop obj ''hash''))"
  unfolding validateFrame_def by simp

lemma decode_layout:
  assumes md: "length md \<le> MAX_METADATA_BYTES" and pl: "length pl \<le> MAX_PAYLOAD_BYTES"
    and parse: "parse md = Some obj" and ok: "validateFrame tonum tostr (obj, pl) = Inr ()"
  shows "decodeAttachmentChunkFrame tonum tostr parse
      (uint32_bytes MAGIC @ [VERSION] @ [0] @ uint16_bytes (of_nat FIXED_HEADER_BYTES)
        @ uint32_bytes (of_nat (length md)) @ uint32_bytes (of_nat (length pl)) @ md @ pl) = Inr (obj, pl)"
    (is "decodeAttachmentChunkFrame _ _ _ ?b = _")
proof -
  define h where "h = uint32_bytes MAGIC @ [VERSION] @ [0] @ uint16_bytes (of_nat FIXED_HEADER_BYTES)"
  have h: "length h = 8" by (simp add: h_def uint32_bytes_def uint16_bytes_def)
  have b: "?b = h @ uint32_bytes (of_nat (length md)) @ uint32_bytes (of_nat (length pl)) @ md @ pl"
    by (simp add: h_def)
  have len: "length ?b = 16 + length md + length pl" by (simp add: uint16_bytes_def)
  have m: "get_uint32 ?b 0 = MAGIC" by (rule get_uint32_bytes)
  have v: "?b ! 4 = VERSION" by (simp add: nth_append)
  have w: "unat (get_uint16 ?b 6) = FIXED_HEADER_BYTES"
  proof -
    have "get_uint16 ?b 6 = get_uint16 (uint16_bytes (of_nat FIXED_HEADER_BYTES)
        @ uint32_bytes (of_nat (length md)) @ uint32_bytes (of_nat (length pl)) @ md @ pl) 0"
      by (simp add: get_uint16_def nth_append)
    then show ?thesis by (simp add: get_uint16_bytes FIXED_HEADER_BYTES_def)
  qed
  have l1: "unat (get_uint32 ?b 8) = length md"
    unfolding b using get_uint32_shift [OF h, of _ 0] md
    by (simp add: get_uint32_bytes unat_uint32 MAX_METADATA_BYTES_def)
  have l2: "unat (get_uint32 ?b 12) = length pl"
    unfolding b using get_uint32_shift [of "h @ uint32_bytes (of_nat (length md))" 12 _ 0] h pl
    by (simp add: get_uint32_bytes unat_uint32 MAX_PAYLOAD_BYTES_def)
  have d: "drop FIXED_HEADER_BYTES ?b = md @ pl"
    unfolding b using h by (simp add: FIXED_HEADER_BYTES_def)
  then have e: "take (length md) (drop FIXED_HEADER_BYTES ?b) = md"
    "take (length pl) (drop (FIXED_HEADER_BYTES + length md) ?b) = pl"
    by (simp_all only: add.commute [of FIXED_HEADER_BYTES] drop_drop [symmetric]) simp_all
  have sz: "safe_int (jprop obj ''size'') = Some (int (length pl))"
    using ok by (auto simp: validateFrame_Inr int_such_iff)
  have fl: "FIXED_HEADER_BYTES + length md + length pl = length ?b" "\<not> length ?b < FIXED_HEADER_BYTES"
    unfolding len by (simp_all add: FIXED_HEADER_BYTES_def)
  show ?thesis
    unfolding decodeAttachmentChunkFrame_def Let_def m v w l1 l2 e parse
    using fl md pl ok sz by simp
qed

lemma validateFrame_decode:
  assumes "decodeAttachmentChunkFrame tonum tostr parse buffer = Inr (obj, payload)"
  shows "validateFrame tonum tostr (obj, payload) = Inr ()" "length payload \<le> MAX_PAYLOAD_BYTES"
    "\<exists>md. parse md = Some obj \<and> length md \<le> MAX_METADATA_BYTES \<and> length buffer = FIXED_HEADER_BYTES + length md + length payload"
  using assms unfolding decodeAttachmentChunkFrame_def Let_def
  by (auto simp: bind_result_Inr split: if_splits option.splits intro!: exI)

text \<open>C14: Every chunk frame the sender can encode is recognised as a chunk frame and decoded to the
  same metadata and payload: the header fields, the lengths and the cut between metadata and
  payload agree on both sides. The parser of the runtime is only relied on to read back the
  metadata text of this frame.\<close>

theorem chunk_frame_roundtrip:
  assumes "encodeAttachmentChunkFrame num tonum tostr frame = Inr buffer"
    and "parse (utf8 (jtext num (metadata_js frame))) = Some (metadata_js frame)"
  shows "decodeAttachmentChunkFrame tonum tostr parse buffer = Inr (frame_raw frame)
    \<and> isAttachmentChunkFrame buffer"
proof -
  have v: "validateFrame tonum tostr (frame_raw frame) = Inr ()"
    and md: "length (utf8 (jtext num (metadata_js frame))) \<le> MAX_METADATA_BYTES"
    and pl: "length (cf_payload frame) \<le> MAX_PAYLOAD_BYTES"
    and b: "buffer = uint32_bytes MAGIC @ [VERSION] @ [0] @ uint16_bytes (of_nat FIXED_HEADER_BYTES)
        @ uint32_bytes (of_nat (length (utf8 (jtext num (metadata_js frame)))))
        @ uint32_bytes (of_nat (length (cf_payload frame)))
        @ utf8 (jtext num (metadata_js frame)) @ cf_payload frame"
    using assms(1) by (auto simp: encodeAttachmentChunkFrame_def bind_result_Inr Let_def split: if_splits)
  have "decodeAttachmentChunkFrame tonum tostr parse buffer = Inr (metadata_js frame, cf_payload frame)"
    unfolding b by (rule decode_layout [OF md pl, of parse, OF assms(2) v [unfolded frame_raw_def]])
  moreover have "isAttachmentChunkFrame buffer"
    unfolding isAttachmentChunkFrame_def b get_uint32_bytes
    by (simp add: FIXED_HEADER_BYTES_def uint16_bytes_def)
  ultimately show ?thesis by (simp add: frame_raw_def)
qed

definition sample_frame :: chunk_frame where
  "sample_frame = \<lparr>cf_transferId = ''t1'', cf_attachmentId = ''a1'', cf_index = 3, cf_offset = 12, cf_size = 4,
     cf_hash = replicate 64 (CHR ''a''), cf_payload = [1, 2, 3, 4]\<rparr>"

lemma sample_frame_valid: "validateFrame (\<lambda>_. JNaN) (\<lambda>_. []) (frame_raw sample_frame) = Inr ()"
  unfolding validateFrame_Inr frame_raw_def
  by (simp add: metadata_js_def sample_frame_def identifier_bad_def int_such_def MAX_SAFE_INTEGER_def sha256_pattern_def
      matches_class_def hex_chars_def digit_chars_def list_all_length)

lemma sample_frame_encodes:
  "\<exists>buffer. encodeAttachmentChunkFrame fraction_text (\<lambda>_. JNaN) (\<lambda>_. []) sample_frame = Inr buffer"
proof -
  have "length (utf8 (jtext fraction_text (metadata_js sample_frame))) \<le> MAX_METADATA_BYTES" by code_simp
  moreover have "length (cf_payload sample_frame) \<le> MAX_PAYLOAD_BYTES"
    by (simp add: sample_frame_def MAX_PAYLOAD_BYTES_def)
  ultimately show ?thesis by (simp add: encodeAttachmentChunkFrame_def sample_frame_valid Let_def)
qed

theorem chunk_frame_roundtrip_witness:
  "\<exists>buffer. encodeAttachmentChunkFrame fraction_text (\<lambda>_. JNaN) (\<lambda>_. []) sample_frame = Inr buffer
     \<and> decodeAttachmentChunkFrame (\<lambda>_. JNaN) (\<lambda>_. [])
         (\<lambda>bs. if bs = utf8 (jtext fraction_text (metadata_js sample_frame)) then Some (metadata_js sample_frame) else None)
         buffer = Inr (frame_raw sample_frame)"
  using sample_frame_encodes chunk_frame_roundtrip [of fraction_text "\<lambda>_. JNaN" "\<lambda>_. []" sample_frame _
    "\<lambda>bs. if bs = utf8 (jtext fraction_text (metadata_js sample_frame)) then Some (metadata_js sample_frame) else None"]
  by auto

end
