(* ===== verification/Attachment_Chunks.thy ===== *)
theory Attachment_Chunks
  imports Attachment_Protocol SHA256
begin

text \<open>
  Cutting a file into chunks and describing it by a manifest: the functions of
  \<^verbatim>\<open>packages/rtc/src/file-transfer.ts\<close> outside the sender class, and \<^verbatim>\<open>buildManifest\<close> of
  \<^verbatim>\<open>apps/web/src/services/attachments/attachment-service.ts\<close>.

  A file is its bytes with its name and type. The parameter \<open>stream\<close> gives the pieces in which
  \<^verbatim>\<open>blob.stream()\<close> delivers the bytes of a blob; the documented behaviour is that they join up to
  the blob (\<open>blob_stream\<close>). \<^verbatim>\<open>crypto.subtle.digest("SHA-256", bytes)\<close> is the function of the
  standard. A hash that is computed in a loop may in principle not return, so the functions have
  results of type \<^verbatim>\<open>js_error + 'a option\<close>, and \<open>Inr None\<close> is not returning.
\<close>

section \<open>The code\<close>

record TransferSource =
  ts_content :: "byte list"
  ts_name :: "string option"
  ts_type :: string

record CreateAttachmentManifestOptions =
  co_id :: "string option"
  co_messageId :: "string option"
  co_channelId :: "string option"
  co_senderPeerId :: string
  co_chunkSize :: "jsnum option"
  co_createdAt :: "string option"
  co_includeChunkHashes :: "bool option"

type_synonym 'a run = "js_error + 'a option"

definition bind_run :: "'a run \<Rightarrow> ('a \<Rightarrow> 'b run) \<Rightarrow> 'b run" where
  "bind_run r f = (case r of Inl e \<Rightarrow> Inl e | Inr None \<Rightarrow> Inr None | Inr (Some x) \<Rightarrow> f x)"

definition lift_run :: "js_error + 'a \<Rightarrow> 'a run" where
  "lift_run r = map_sum id Some r"

text \<open>The two cases of \<^verbatim>\<open>sha256Hex\<close>: a blob is hashed as its stream delivers it, a buffer at once.\<close>

datatype hash_input = Blob_Input "byte list" | Buffer_Input "byte list"

definition sha256Hex :: "(byte list \<Rightarrow> byte list list) \<Rightarrow> hash_input \<Rightarrow> string run" where
  "sha256Hex stream data = (case data of
     Blob_Input blob \<Rightarrow> sha256BlobHex (stream blob)
   | Buffer_Input bytes \<Rightarrow> Inr (Some (hex_text (sha256 bytes))))"

definition blob_slice :: "byte list \<Rightarrow> int \<Rightarrow> int \<Rightarrow> byte list" where
  "blob_slice blob i j = take (nat (j - i)) (drop (nat i) blob)"

abbreviation blob_size :: "byte list \<Rightarrow> int" where
  "blob_size blob \<equiv> int (length blob)"

definition chunk_bytes :: "byte list \<Rightarrow> int \<Rightarrow> int \<Rightarrow> byte list" where
  "chunk_bytes blob chunkSize index =
    (let offset = index * chunkSize in blob_slice blob offset (min (blob_size blob) (offset + chunkSize)))"

fun run_each :: "('a \<Rightarrow> 'b run) \<Rightarrow> 'a list \<Rightarrow> 'b list run" where
  "run_each f [] = Inr (Some [])"
| "run_each f (x # xs) = bind_run (f x) (\<lambda>y. bind_run (run_each f xs) (\<lambda>ys. Inr (Some (y # ys))))"

definition hashChunks :: "(byte list \<Rightarrow> byte list list) \<Rightarrow> byte list \<Rightarrow> int \<Rightarrow> int \<Rightarrow> string list run" where
  "hashChunks stream source chunkSize chunkCount =
    run_each (\<lambda>index. sha256Hex stream (Blob_Input (chunk_bytes source chunkSize index))) [0..chunkCount - 1]"

text \<open>\<^verbatim>\<open>filename.lastIndexOf(".")\<close>: the last segment and whether there is one before it.\<close>

definition extensionOf :: "string \<Rightarrow> string option" where
  "extensionOf filename =
    (let ext = last (split_on CHR ''.'' filename); index = int (length filename) - int (length ext) - 1 in
     if CHR ''.'' \<notin> set filename \<or> index \<le> 0 \<or> index = int (length filename) - 1 then None
     else Some (js_lower ext))"

definition createAttachmentManifest ::
  "(byte list \<Rightarrow> byte list list) \<Rightarrow> string \<Rightarrow> TransferSource \<Rightarrow> CreateAttachmentManifestOptions \<Rightarrow> AttachmentManifest run" where
  "createAttachmentManifest stream now source options =
    (case safe_int (JNum (case co_chunkSize options of Some n \<Rightarrow> n | None \<Rightarrow> JFin (of_int DEFAULT_ATTACHMENT_CHUNK_SIZE))) of
       None \<Rightarrow> Inl (JSError ''chunkSize'')
     | Some chunkSize \<Rightarrow>
         if chunkSize \<le> 0 then Inl (JSError ''chunkSize'') else
         let filename = sanitizeAttachmentFilename (case ts_name source of Some n \<Rightarrow> n | None \<Rightarrow> ''attachment'');
             mimeType = (if ts_type source \<noteq> [] then ts_type source else octet_stream) in
         bind_run (sha256Hex stream (Blob_Input (ts_content source))) (\<lambda>contentHash.
         let chunkCount = ceil_div (blob_size (ts_content source)) chunkSize;
             id = (case co_id options of Some i \<Rightarrow> i | None \<Rightarrow> contentHash) in
         bind_run (if co_includeChunkHashes options = Some False then Inr (Some None)
           else bind_run (hashChunks stream (ts_content source) chunkSize chunkCount) (\<lambda>hs. Inr (Some (Some hs)))) (\<lambda>chunkHashes.
         bind_run (lift_run (classifyAttachment mimeType filename)) (\<lambda>kind.
         Inr (Some \<lparr>am_protocolVersion = RISK_ATTACHMENT_PROTOCOL_VERSION, am_id = id,
           am_messageId = co_messageId options, am_channelId = co_channelId options,
           am_senderPeerId = co_senderPeerId options, am_filename = filename, am_mimeType = mimeType,
           am_extension = extensionOf filename, am_kind = kind, am_size = blob_size (ts_content source),
           am_contentHash = contentHash, am_chunkSize = chunkSize, am_chunkCount = chunkCount,
           am_chunkHashes = chunkHashes,
           am_createdAt = (case co_createdAt options of Some t \<Rightarrow> t | None \<Rightarrow> now),
           am_metadata = None\<rparr>)))))"

text \<open>One frame of the generator; it is sent only after the transfer identifier is filled in.\<close>

definition chunk_frame_at :: "byte list \<Rightarrow> AttachmentManifest \<Rightarrow> int \<Rightarrow> byte AttachmentChunkFrame" where
  "chunk_frame_at source manifest index =
    (let payload = chunk_bytes source (am_chunkSize manifest) index;
         hash = (case am_chunkHashes manifest of
             Some hs \<Rightarrow> if 0 \<le> index \<and> nat index < length hs then hs ! nat index else hex_text (sha256 payload)
           | None \<Rightarrow> hex_text (sha256 payload))
     in \<lparr>cf_transferId = [], cf_attachmentId = am_id manifest, cf_index = index,
         cf_offset = index * am_chunkSize manifest, cf_size = blob_size payload, cf_hash = hash,
         cf_payload = payload\<rparr>)"

definition iterateAttachmentChunks ::
  "byte list \<Rightarrow> AttachmentManifest \<Rightarrow> int list option \<Rightarrow> byte AttachmentChunkFrame list" where
  "iterateAttachmentChunks source manifest onlyChunks =
    map (chunk_frame_at source manifest)
      (filter (\<lambda>index. case onlyChunks of None \<Rightarrow> True | Some cs \<Rightarrow> index \<in> set cs) [0..am_chunkCount manifest - 1])"

definition verifyAttachmentChunk :: "byte AttachmentChunkFrame \<Rightarrow> bool" where
  "verifyAttachmentChunk frame \<longleftrightarrow>
     0 \<le> cf_index frame \<and> cf_index frame \<le> MAX_SAFE_INTEGER
     \<and> 0 \<le> cf_offset frame \<and> cf_offset frame \<le> MAX_SAFE_INTEGER
     \<and> blob_size (cf_payload frame) = cf_size frame
     \<and> js_lower (hex_text (sha256 (cf_payload frame))) = js_lower (cf_hash frame)"

text \<open>The manifest of a file to send, of \<^verbatim>\<open>attachment-service.ts\<close>, hashed while it is read chunk by chunk.\<close>

definition MAX_MANIFEST_CHUNK_HASHES :: int where
  "MAX_MANIFEST_CHUNK_HASHES = 512"

definition service_extensionOf :: "string \<Rightarrow> string option" where
  "service_extensionOf filename =
    (let ext = last (split_on CHR ''.'' filename); index = int (length filename) - int (length ext) - 1 in
     if CHR ''.'' \<in> set filename \<and> index > 0 \<and> index < int (length filename) - 1 then Some (js_lower ext) else None)"

definition buildManifest ::
  "(byte list \<Rightarrow> byte list list) \<Rightarrow> string \<Rightarrow> string \<Rightarrow> TransferSource \<Rightarrow> string \<Rightarrow> string \<Rightarrow> AttachmentManifest run" where
  "buildManifest stream now uuid file channelId senderPeerId =
    (let chunkSize = DEFAULT_ATTACHMENT_CHUNK_SIZE;
         chunkCount = ceil_div (blob_size (ts_content file)) chunkSize;
         payloads = map (chunk_bytes (ts_content file) chunkSize) [0..chunkCount - 1] in
     bind_run (update_all new_sha256 payloads) (\<lambda>hasher.
     bind_run (if chunkCount \<le> MAX_MANIFEST_CHUNK_HASHES
         then bind_run (run_each (\<lambda>payload. sha256Hex stream (Buffer_Input payload)) payloads) (\<lambda>hs. Inr (Some (Some hs)))
         else Inr (Some None)) (\<lambda>chunkHashes.
     let contentHash = fst (digestHex hasher);
         filename = sanitizeAttachmentFilename (case ts_name file of Some n \<Rightarrow> if n \<noteq> [] then n else ''attachment'' | None \<Rightarrow> ''attachment'');
         mimeType = (if ts_type file \<noteq> [] then ts_type file else octet_stream) in
     bind_run (lift_run (classifyAttachment mimeType filename)) (\<lambda>kind.
     Inr (Some \<lparr>am_protocolVersion = RISK_ATTACHMENT_PROTOCOL_VERSION, am_id = contentHash,
       am_messageId = Some uuid, am_channelId = Some channelId, am_senderPeerId = senderPeerId,
       am_filename = filename, am_mimeType = mimeType, am_extension = service_extensionOf filename,
       am_kind = kind, am_size = blob_size (ts_content file), am_contentHash = contentHash,
       am_chunkSize = chunkSize, am_chunkCount = chunkCount, am_chunkHashes = chunkHashes,
       am_createdAt = now, am_metadata = None\<rparr>)))))"

definition sanitizeChunkList :: "int list \<Rightarrow> int list" where
  "sanitizeChunkList chunks = take 100000 (uniq (filter (\<lambda>i. \<bar>i\<bar> \<le> MAX_SAFE_INTEGER \<and> 0 \<le> i) chunks))"

text \<open>A manifest as the value that \<^verbatim>\<open>JSON.stringify\<close> writes and the validator of the other peer reads.\<close>

definition kind_name :: "AttachmentKind \<Rightarrow> string" where
  "kind_name k = (case k of KImage \<Rightarrow> ''image'' | KVideo \<Rightarrow> ''video'' | KAudio \<Rightarrow> ''audio''
     | KDocument \<Rightarrow> ''document'' | KArchive \<Rightarrow> ''archive'' | KExecutable \<Rightarrow> ''executable'' | KOther \<Rightarrow> ''other'')"

definition js_opt :: "('a \<Rightarrow> jsval) \<Rightarrow> 'a option \<Rightarrow> jsval" where
  "js_opt f x = (case x of None \<Rightarrow> JUndefined | Some y \<Rightarrow> f y)"

definition metadata_value :: "AttachmentMetadata \<Rightarrow> jsval" where
  "metadata_value d = JObj [
     (''width'', js_opt (\<lambda>x. JNum (JFin x)) (md_width d)), (''height'', js_opt (\<lambda>x. JNum (JFin x)) (md_height d)),
     (''durationMs'', js_opt (\<lambda>x. JNum (JFin x)) (md_durationMs d)),
     (''thumbnailHash'', js_opt JStr (md_thumbnailHash d)), (''voiceMessage'', js_opt JBool (md_voiceMessage d))]"

definition manifest_js :: "AttachmentManifest \<Rightarrow> jsval" where
  "manifest_js m = JObj [
     (''protocolVersion'', JInt (am_protocolVersion m)), (''id'', JStr (am_id m)),
     (''messageId'', js_opt JStr (am_messageId m)), (''channelId'', js_opt JStr (am_channelId m)),
     (''senderPeerId'', JStr (am_senderPeerId m)), (''filename'', JStr (am_filename m)),
     (''mimeType'', JStr (am_mimeType m)), (''extension'', js_opt JStr (am_extension m)),
     (''kind'', JStr (kind_name (am_kind m))), (''size'', JInt (am_size m)),
     (''contentHash'', JStr (am_contentHash m)), (''chunkSize'', JInt (am_chunkSize m)),
     (''chunkCount'', JInt (am_chunkCount m)), (''chunkHashes'', js_opt (\<lambda>hs. JArr (map JStr hs)) (am_chunkHashes m)),
     (''createdAt'', JStr (am_createdAt m)), (''metadata'', js_opt metadata_value (am_metadata m))]"

section \<open>Hashes\<close>

definition blob_stream :: "(byte list \<Rightarrow> byte list list) \<Rightarrow> bool" where
  "blob_stream stream \<longleftrightarrow> (\<forall>b. concat (stream b) = b)"

lemma bind_run_simps [simp]:
  "bind_run (Inl e) f = Inl e" "bind_run (Inr None) f = Inr None" "bind_run (Inr (Some x)) f = f x"
  by (simp_all add: bind_run_def)

lemma bind_run_Some: "bind_run r f = Inr (Some y) \<longleftrightarrow> (\<exists>x. r = Inr (Some x) \<and> f x = Inr (Some y))"
  by (cases r) (auto simp: bind_run_def split: option.splits)

lemma lift_run_Some: "lift_run r = Inr (Some y) \<longleftrightarrow> r = Inr y"
  by (cases r) (auto simp: lift_run_def)

lemma sha256Hex_eq:
  assumes "blob_stream stream"
  shows "sha256Hex stream (Blob_Input b) = Inr (Some (hex_text (sha256 b)))"
    "sha256Hex stream (Buffer_Input b) = Inr (Some (hex_text (sha256 b)))"
  using assms by (simp_all add: sha256Hex_def sha256BlobHex_eq blob_stream_def)

lemma run_each_total: "(\<And>x. f x = Inr (Some (g x))) \<Longrightarrow> run_each f xs = Inr (Some (map g xs))"
  by (induction xs) simp_all

lemma length_compress [simp]: "length (compress s c) = 8"
  by (simp add: compress_def split: prod.split)

lemma length_foldl_compress: "length s = 8 \<Longrightarrow> length (foldl compress s bs) = 8"
  by (induction bs arbitrary: s) simp_all

lemma length_sha256: "length (sha256 m) = 32"
proof -
  have "length (foldl compress initial_state (blocks64 (padded m))) = 8"
    by (rule length_foldl_compress) (simp add: initial_state_def)
  then show ?thesis
    by (simp add: sha256_def compress_fips [abs_def, symmetric] length_concat uint32_bytes_def
        comp_def sum_list_triv)
qed

lemma hex_digit_char_mem: "n < 16 \<Longrightarrow> hex_digit_char n \<in> set hex_chars"
proof -
  have "\<forall>n \<in> {0..<16}. hex_digit_char n \<in> set hex_chars" by code_simp
  then show "n < 16 \<Longrightarrow> hex_digit_char n \<in> set hex_chars" by simp
qed

lemma hex_text_pattern:
  assumes "length bs = 32"
  shows "sha256_pattern (hex_text bs)"
proof -
  have "length (hex_text bs) = 64"
    using assms by (simp add: hex_text_def length_concat byte_hex_def comp_def sum_list_triv)
  moreover have "list_all (\<lambda>c. c \<in> set hex_chars) (hex_text bs)"
  proof -
    have "unat b div 16 < 16" for b :: byte
      using unsigned_less [of b] by (simp add: div_less_iff_less_mult)
    then show ?thesis
      by (auto simp: list_all_iff hex_text_def byte_hex_def hex_digit_char_mem)
  qed
  ultimately show ?thesis by (simp add: sha256_pattern_def matches_class_def)
qed

lemmas sha256_hex_pattern = hex_text_pattern [OF length_sha256]

section \<open>Chunks cover the file\<close>

lemma chunk_bytes_nat:
  assumes "0 < c"
  shows "chunk_bytes blob (int c) (int k) = take c (drop (k * c) blob)"
proof -
  have "int k * int c = int (k * c)" by simp
  then have "chunk_bytes blob (int c) (int k)
      = take (nat (min (int (length blob)) (int (k * c) + int c) - int (k * c))) (drop (k * c) blob)"
    by (simp only: chunk_bytes_def blob_slice_def Let_def nat_int)
  also have "\<dots> = take (min (length blob - k * c) c) (drop (k * c) blob)"
  proof -
    have "nat (min (int n) (int j + int c) - int j) = min (n - j) c" for n j by linarith
    then show ?thesis by (simp only:)
  qed
  also have "\<dots> = take c (drop (k * c) blob)" by (simp add: min_def)
  finally show ?thesis .
qed

lemma concat_chunks:
  assumes "0 < c"
  shows "concat (map (\<lambda>k. take c (drop (k * c) blob)) [0..<n]) = take (n * c) blob"
proof (induction n)
  case (Suc n)
  have "take (Suc n * c) blob = take (n * c) blob @ take c (drop (n * c) blob)"
    by (simp add: take_add add.commute [of c])
  with Suc show ?case by simp
qed simp

lemma upto_upt: "[0..int n - 1] = map int [0..<n]"
proof (induction n)
  case (Suc n)
  have "[0..int (Suc n) - 1] = [0..int n - 1] @ [int n]"
    using upto_rec2 [of 0 "int n"] by simp
  with Suc show ?case by simp
qed simp

lemma chunks_join:
  assumes "0 < chunkSize" "count = ceil_div (blob_size blob) chunkSize"
  shows "concat (map (chunk_bytes blob chunkSize) [0..count - 1]) = blob"
proof -
  obtain c where c: "chunkSize = int c" "0 < c" using assms(1) zero_less_imp_eq_int by blast
  obtain n where n: "count = int n"
    using ceil_div_nonneg [of "blob_size blob" chunkSize] assms by (metis nonneg_int_cases of_nat_0_le_iff)
  have "blob_size blob \<le> count * chunkSize" using ceil_div_bounds(1) [OF assms(1)] assms(2) by simp
  then have "length blob \<le> n * c" unfolding n c(1) by (simp only: of_nat_mult [symmetric] of_nat_le_iff)
  then have "take (n * c) blob = blob" by simp
  moreover have "map (chunk_bytes blob chunkSize) [0..count - 1] = map (\<lambda>k. take c (drop (k * c) blob)) [0..<n]"
    unfolding n upto_upt by (simp add: chunk_bytes_nat [OF c(2)] c(1))
  ultimately show ?thesis using concat_chunks [OF c(2), of blob n] by (simp only:)
qed

text \<open>A manifest that describes a file: its size, its chunk layout and the hashes of its chunks.\<close>

definition describes :: "byte list \<Rightarrow> AttachmentManifest \<Rightarrow> bool" where
  "describes blob m \<longleftrightarrow> am_size m = blob_size blob \<and> 0 < am_chunkSize m
     \<and> am_chunkCount m = ceil_div (blob_size blob) (am_chunkSize m)
     \<and> am_contentHash m = hex_text (sha256 blob)
     \<and> (am_chunkHashes m = None
        \<or> am_chunkHashes m = Some (map (\<lambda>i. hex_text (sha256 (chunk_bytes blob (am_chunkSize m) i))) [0..am_chunkCount m - 1]))"

lemma createAttachmentManifest_describes:
  assumes "blob_stream stream" "createAttachmentManifest stream now source options = Inr (Some m)"
  shows "describes (ts_content source) m"
proof -
  have h: "hashChunks stream blob cs n = Inr (Some (map (\<lambda>i. hex_text (sha256 (chunk_bytes blob cs i))) [0..n - 1]))"
    for blob cs n
    unfolding hashChunks_def by (rule run_each_total) (rule sha256Hex_eq(1) [OF assms(1)])
  define v where "v = safe_int (JNum (case co_chunkSize options of Some n \<Rightarrow> n | None \<Rightarrow> JFin (of_int DEFAULT_ATTACHMENT_CHUNK_SIZE)))"
  note m = assms(2) [unfolded createAttachmentManifest_def v_def [symmetric]]
  obtain cs where cs: "v = Some cs" "\<not> cs \<le> 0"
    using m by (cases v) (simp_all split: if_splits)
  have "am_size m = blob_size (ts_content source) \<and> am_chunkSize m = cs
    \<and> am_chunkCount m = ceil_div (blob_size (ts_content source)) cs \<and> am_contentHash m = hex_text (sha256 (ts_content source))
    \<and> am_chunkHashes m = (if co_includeChunkHashes options = Some False then None else
       Some (map (\<lambda>i. hex_text (sha256 (chunk_bytes (ts_content source) cs i))) [0..ceil_div (blob_size (ts_content source)) cs - 1]))"
    using m cs by (cases "co_includeChunkHashes options = Some False")
      (auto simp: sha256Hex_eq [OF assms(1)] bind_run_Some Let_def h)
  then show ?thesis using cs(2) by (simp add: describes_def)
qed

lemma buildManifest_describes:
  assumes "blob_stream stream" "buildManifest stream now uuid file channelId sender = Inr (Some m)"
  shows "describes (ts_content file) m \<and> am_chunkSize m = DEFAULT_ATTACHMENT_CHUNK_SIZE \<and> am_id m = am_contentHash m"
proof -
  let ?ps = "map (chunk_bytes (ts_content file) DEFAULT_ATTACHMENT_CHUNK_SIZE)
    [0..ceil_div (blob_size (ts_content file)) DEFAULT_ATTACHMENT_CHUNK_SIZE - 1]"
  have pos: "0 < DEFAULT_ATTACHMENT_CHUNK_SIZE" by (simp add: DEFAULT_ATTACHMENT_CHUNK_SIZE_def)
  obtain st where st: "update_all new_sha256 ?ps = Inr (Some st)" "fst (digest st) = sha256 (ts_content file)"
    using hasher_digest [of ?ps] chunks_join [OF pos refl, of "ts_content file"] by auto
  have "run_each (\<lambda>p. sha256Hex stream (Buffer_Input p)) ps = Inr (Some (map (\<lambda>p. hex_text (sha256 p)) ps))" for ps
    by (rule run_each_total) (rule sha256Hex_eq(2) [OF assms(1)])
  with assms(2) st pos show ?thesis
    unfolding buildManifest_def describes_def Let_def digestHex_def
    by (auto simp: bind_run_Some hex_text_def [symmetric] split_def comp_def split: if_splits)
qed

lemma chunk_frame_simps:
  "cf_index (chunk_frame_at blob m i) = i" "cf_offset (chunk_frame_at blob m i) = i * am_chunkSize m"
  "cf_payload (chunk_frame_at blob m i) = chunk_bytes blob (am_chunkSize m) i"
  by (simp_all add: chunk_frame_at_def Let_def)

lemma chunk_frame_describes:
  assumes "describes blob m" "0 \<le> i" "i < am_chunkCount m"
  shows "cf_hash (chunk_frame_at blob m i) = hex_text (sha256 (chunk_bytes blob (am_chunkSize m) i))"
  using assms by (auto simp: describes_def chunk_frame_at_def Let_def)

lemma chunk_frame_verifies:
  assumes "describes blob m" "0 \<le> i" "i < am_chunkCount m" "blob_size blob \<le> MAX_SAFE_INTEGER"
  shows "verifyAttachmentChunk (chunk_frame_at blob m i)"
proof -
  let ?c = "am_chunkSize m"
  have c: "0 < ?c" "am_chunkCount m = ceil_div (blob_size blob) ?c" using assms(1) by (auto simp: describes_def)
  have "i * ?c \<le> (am_chunkCount m - 1) * ?c" using assms(3) c(1) by (simp add: mult_right_mono)
  also have "\<dots> < blob_size blob" using ceil_div_bounds(2) [OF c(1), of "blob_size blob"] c(2) by (simp add: left_diff_distrib)
  finally have o: "i * ?c < blob_size blob" .
  have "i * 1 \<le> i * ?c" using assms(2) c(1) by (intro mult_left_mono) auto
  then have "i \<le> MAX_SAFE_INTEGER" using o assms(4) by simp
  moreover have "0 \<le> i * ?c" using assms(2) c(1) by simp
  ultimately show ?thesis
    using o assms(2,4) chunk_frame_describes [OF assms(1-3)]
    by (simp add: verifyAttachmentChunk_def) (simp add: chunk_frame_at_def Let_def)
qed

text \<open>C25: The chunks that the sender iterates over a file, under the manifest that the service builds for
  it, join up to the file, carry consecutive indices and offsets and no more than the announced
  chunk size, and each of them passes the check of the receiver. The file is smaller than
  \<open>2 ^ 53\<close> bytes, so that offsets are exact numbers.\<close>

theorem built_chunks_cover_file:
  assumes "blob_stream stream"
    and "buildManifest stream now uuid file channelId sender = Inr (Some m)"
    and "blob_size (ts_content file) \<le> MAX_SAFE_INTEGER"
  shows "let frames = iterateAttachmentChunks (ts_content file) m None in
     concat (map cf_payload frames) = ts_content file
     \<and> map cf_index frames = [0..am_chunkCount m - 1]
     \<and> map cf_offset frames = map (\<lambda>i. i * am_chunkSize m) [0..am_chunkCount m - 1]
     \<and> list_all (\<lambda>f. cf_size f \<le> am_chunkSize m) frames
     \<and> list_all verifyAttachmentChunk frames"
proof -
  have d: "describes (ts_content file) m" using buildManifest_describes [OF assms(1,2)] by simp
  then have c: "0 < am_chunkSize m" "am_chunkCount m = ceil_div (blob_size (ts_content file)) (am_chunkSize m)"
    by (auto simp: describes_def)
  let ?is = "[0..am_chunkCount m - 1]"
  have it: "iterateAttachmentChunks (ts_content file) m None = map (chunk_frame_at (ts_content file) m) ?is"
    by (simp add: iterateAttachmentChunks_def)
  have p: "map cf_payload (map (chunk_frame_at (ts_content file) m) ?is)
      = map (chunk_bytes (ts_content file) (am_chunkSize m)) ?is"
    by (simp add: chunk_frame_at_def Let_def)
  have "length (chunk_bytes (ts_content file) (am_chunkSize m) i) \<le> nat (am_chunkSize m)" for i
  proof -
    have "nat (min (blob_size (ts_content file)) (j + d) - j) \<le> nat d" for j d by linarith
    then show ?thesis unfolding chunk_bytes_def blob_slice_def Let_def length_take by (rule le_trans [OF min.cobounded2])
  qed
  then have s: "cf_size (chunk_frame_at (ts_content file) m i) \<le> am_chunkSize m" for i
    using c(1) by (simp add: chunk_frame_at_def Let_def) (metis int_nat_eq le_less nat_int not_less of_nat_le_iff)
  have "concat (map cf_payload (map (chunk_frame_at (ts_content file) m) ?is)) = ts_content file"
    unfolding p by (rule chunks_join [OF c])
  moreover have "list_all verifyAttachmentChunk (map (chunk_frame_at (ts_content file) m) ?is)"
    using chunk_frame_verifies [OF d _ _ assms(3)] by (simp add: list_all_iff)
  ultimately show ?thesis
    unfolding it Let_def using s by (simp add: list_all_iff comp_def chunk_frame_simps)
qed

definition sample_file :: TransferSource where
  "sample_file = \<lparr>ts_content = [1, 2, 3], ts_name = Some ''notes.txt'', ts_type = ''text/plain''\<rparr>"

lemma buildManifest_total:
  assumes "blob_stream stream" "ts_type file \<noteq> []"
    "classifyAttachment (ts_type file) (sanitizeAttachmentFilename (case ts_name file of Some n \<Rightarrow> if n \<noteq> [] then n else ''attachment'' | None \<Rightarrow> ''attachment'')) = Inr k"
  shows "\<exists>m. buildManifest stream now uuid file channelId sender = Inr (Some m)"
proof -
  obtain st where "update_all new_sha256 (map (chunk_bytes (ts_content file) DEFAULT_ATTACHMENT_CHUNK_SIZE)
    [0..ceil_div (blob_size (ts_content file)) DEFAULT_ATTACHMENT_CHUNK_SIZE - 1]) = Inr (Some st)"
    using hasher_digest by blast
  moreover have "run_each (\<lambda>p. sha256Hex stream (Buffer_Input p)) ps = Inr (Some (map (\<lambda>p. hex_text (sha256 p)) ps))" for ps
    by (rule run_each_total) (rule sha256Hex_eq(2) [OF assms(1)])
  ultimately show ?thesis
    using assms(2,3) by (simp add: buildManifest_def Let_def lift_run_def)
qed

lemma sample_file_builds:
  "\<exists>m. buildManifest (\<lambda>b. [b]) ''2026-01-01'' ''messageid'' sample_file ''channel1'' ''peer0001'' = Inr (Some m)"
proof (rule buildManifest_total)
  show "blob_stream (\<lambda>b. [b])" by (simp add: blob_stream_def)
  show "ts_type sample_file \<noteq> []" by (simp add: sample_file_def)
  show "classifyAttachment (ts_type sample_file) (sanitizeAttachmentFilename (case ts_name sample_file of
     Some n \<Rightarrow> if n \<noteq> [] then n else ''attachment'' | None \<Rightarrow> ''attachment'')) = Inr KDocument" by code_simp
qed

theorem built_chunks_cover_file_witness:
  "\<exists>m. buildManifest (\<lambda>b. [b]) ''2026-01-01'' ''messageid'' sample_file ''channel1'' ''peer0001'' = Inr (Some m)
     \<and> concat (map cf_payload (iterateAttachmentChunks [1, 2, 3] m None)) = [1, 2, 3]"
proof -
  obtain m where m: "buildManifest (\<lambda>b. [b]) ''2026-01-01'' ''messageid'' sample_file ''channel1'' ''peer0001'' = Inr (Some m)"
    using sample_file_builds by blast
  have "blob_stream (\<lambda>b. [b])" by (simp add: blob_stream_def)
  from built_chunks_cover_file [OF this m] have
    "concat (map cf_payload (iterateAttachmentChunks (ts_content sample_file) m None)) = ts_content sample_file"
    by (simp add: Let_def sample_file_def MAX_SAFE_INTEGER_def)
  with m show ?thesis by (auto simp: sample_file_def)
qed

section \<open>The receiver accepts what the service builds\<close>

lemma sanitized_bounds:
  "sanitizeAttachmentFilename n \<noteq> []" "length (sanitizeAttachmentFilename n) \<le> MAX_ATTACHMENT_FILENAME_LENGTH"
  by (simp_all add: sanitizeAttachmentFilename_def Let_def MAX_ATTACHMENT_FILENAME_LENGTH_def)

lemma jprop_manifest_js:
  "jprop (manifest_js m) ''protocolVersion'' = JInt (am_protocolVersion m)"
  "jprop (manifest_js m) ''id'' = JStr (am_id m)"
  "jprop (manifest_js m) ''messageId'' = js_opt JStr (am_messageId m)"
  "jprop (manifest_js m) ''channelId'' = js_opt JStr (am_channelId m)"
  "jprop (manifest_js m) ''senderPeerId'' = JStr (am_senderPeerId m)"
  "jprop (manifest_js m) ''filename'' = JStr (am_filename m)"
  "jprop (manifest_js m) ''mimeType'' = JStr (am_mimeType m)"
  "jprop (manifest_js m) ''extension'' = js_opt JStr (am_extension m)"
  "jprop (manifest_js m) ''kind'' = JStr (kind_name (am_kind m))"
  "jprop (manifest_js m) ''size'' = JInt (am_size m)"
  "jprop (manifest_js m) ''contentHash'' = JStr (am_contentHash m)"
  "jprop (manifest_js m) ''chunkSize'' = JInt (am_chunkSize m)"
  "jprop (manifest_js m) ''chunkCount'' = JInt (am_chunkCount m)"
  "jprop (manifest_js m) ''chunkHashes'' = js_opt (\<lambda>hs. JArr (map JStr hs)) (am_chunkHashes m)"
  "jprop (manifest_js m) ''createdAt'' = JStr (am_createdAt m)"
  "jprop (manifest_js m) ''metadata'' = js_opt metadata_value (am_metadata m)"
  by (simp_all add: manifest_js_def)

lemma js_opt_optional:
  "(\<And>x. f x \<noteq> JUndefined) \<Longrightarrow> optional p (js_opt f v) \<longleftrightarrow> pred_option (\<lambda>x. p (f x)) v"
  by (cases v) (auto simp: js_opt_def optional_def)

lemma kind_name_known: "map_of kind_names (kind_name k) \<noteq> None"
  by (cases k) (simp_all add: kind_name_def kind_names_def)

lemma JInt_eq [simp]: "JInt a = JInt b \<longleftrightarrow> a = b"
  by simp

lemma metadata_value_defined: "metadata_value d \<noteq> JUndefined"
  by (simp add: metadata_value_def)

lemma validAttachmentMetadata_js: "validAttachmentMetadata (metadata_value d) \<longleftrightarrow> wf_metadata d"
  unfolding validAttachmentMetadata_def wf_metadata_def validPositiveNumber_def
  by (simp add: metadata_value_def js_opt_optional num_such_def) (cases "md_voiceMessage d"; simp add: js_opt_def optional_def)

text \<open>
  On manifests that are values of the type, the validator accepts exactly the well-formed ones. The
  sizes are numbers of the file system, so they are safe integers.
\<close>

lemma validate_manifest_js:
  assumes "\<bar>am_size m\<bar> \<le> MAX_SAFE_INTEGER" "\<bar>am_chunkSize m\<bar> \<le> MAX_SAFE_INTEGER" "\<bar>am_chunkCount m\<bar> \<le> MAX_SAFE_INTEGER"
  shows "validateAttachmentManifest dateparse (manifest_js m) = [] \<longleftrightarrow> wf_manifest dateparse m"
proof -
  have nrec: "\<not> \<not> is_record (manifest_js m)" by (simp add: manifest_js_def)
  have hs: "optional (arr_such (\<lambda>hs. JInt (am_chunkCount m) = JInt (int (length hs)) \<and> list_all (str_such sha256_pattern) hs))
      (js_opt (\<lambda>hs. JArr (map JStr hs)) (am_chunkHashes m))
    \<longleftrightarrow> pred_option (\<lambda>hs. int (length hs) = am_chunkCount m \<and> list_all sha256_pattern hs) (am_chunkHashes m)"
    by (cases "am_chunkHashes m") (auto simp: js_opt_def optional_def list.pred_map comp_def)
  have lay: "chunk_layout_wrong (JInt (am_size m)) (JInt (am_chunkSize m)) (JInt (am_chunkCount m))
     \<longleftrightarrow> 0 \<le> am_size m \<and> 0 < am_chunkSize m \<and> am_chunkCount m \<noteq> ceil_div (am_size m) (am_chunkSize m)"
    using assms unfolding chunk_layout_wrong_def safe_int_JInt by simp
  have cnt: "0 \<le> am_size m \<Longrightarrow> 0 < am_chunkSize m \<Longrightarrow> 0 \<le> ceil_div (am_size m) (am_chunkSize m)"
    by (rule ceil_div_nonneg)
  show ?thesis
    unfolding validateAttachmentManifest_def Let_def if_not_P [OF nrec] jprop_manifest_js append_is_Nil_conv report_Nil lay hs
      wf_manifest_def wf_layout_def date_ok_def str_such.simps
    using assms kind_name_known [of "am_kind m"] cnt
    by (auto simp: js_opt_optional metadata_value_defined validAttachmentMetadata_js id_hash_mismatch_def)
qed

text \<open>C26: The manifest that the service builds for a file within the size limit is accepted by the
  validator of every receiver exactly when the extension of the sanitised file name has at most 32
  characters. The service does not limit the extension, so a file such as a download with a long
  suffix after its last dot is offered and always refused.\<close>

theorem built_manifest_accepted_iff:
  assumes "blob_stream stream"
    and "buildManifest stream now uuid file channelId sender = Inr (Some m)"
    and "blob_size (ts_content file) \<le> 20 * 1024 * 1024 * 1024"
    and "validWireIdentifier uuid" "validWireIdentifier channelId" "validWireIdentifier sender"
    and "length (ts_type file) \<le> MAX_ATTACHMENT_MIME_LENGTH"
    and "length now \<le> 64" "dateparse now \<noteq> None"
  shows "validateAttachmentManifest dateparse (manifest_js m) = []
    \<longleftrightarrow> pred_option (\<lambda>e. length e \<le> 32) (am_extension m)"
proof -
  have d: "describes (ts_content file) m" "am_chunkSize m = DEFAULT_ATTACHMENT_CHUNK_SIZE" "am_id m = am_contentHash m"
    using buildManifest_describes [OF assms(1,2)] by auto
  have f: "am_protocolVersion m = RISK_ATTACHMENT_PROTOCOL_VERSION" "am_messageId m = Some uuid" "am_channelId m = Some channelId"
    "am_senderPeerId m = sender" "am_createdAt m = now" "am_metadata m = None"
    "am_mimeType m = (if ts_type file \<noteq> [] then ts_type file else octet_stream)"
    "\<exists>n. am_filename m = sanitizeAttachmentFilename n"
    using assms(2) by (auto simp: buildManifest_def Let_def bind_run_Some)
  have sz: "am_size m = blob_size (ts_content file)"
    and cc: "am_chunkCount m = ceil_div (blob_size (ts_content file)) DEFAULT_ATTACHMENT_CHUNK_SIZE"
    and ch: "am_contentHash m = hex_text (sha256 (ts_content file))"
    using d by (auto simp: describes_def)
  have pos: "0 < DEFAULT_ATTACHMENT_CHUNK_SIZE" by (simp add: DEFAULT_ATTACHMENT_CHUNK_SIZE_def)
  have count: "0 \<le> am_chunkCount m" "am_chunkCount m \<le> 81920"
    using ceil_div_bounds [OF pos, of "blob_size (ts_content file)"] assms(3) ceil_div_nonneg [OF _ pos]
    unfolding cc by (auto simp: DEFAULT_ATTACHMENT_CHUNK_SIZE_def)
  have hs: "pred_option (\<lambda>hs. int (length hs) = am_chunkCount m \<and> list_all sha256_pattern hs) (am_chunkHashes m)"
    using d(1) count(1) by (auto simp: describes_def list_all_iff sha256_hex_pattern)
  have name: "am_filename m \<noteq> []" "length (am_filename m) \<le> MAX_ATTACHMENT_FILENAME_LENGTH"
    using f(8) sanitized_bounds by metis+
  have mime: "length (am_mimeType m) \<le> MAX_ATTACHMENT_MIME_LENGTH"
    using assms(7) f(7) by (simp add: octet_stream_def MAX_ATTACHMENT_MIME_LENGTH_def)
  have lay: "wf_layout m"
    unfolding wf_layout_def using assms(3) d(2) count(2) hs
    by (simp add: sz cc MAX_SAFE_INTEGER_def DEFAULT_ATTACHMENT_CHUNK_SIZE_def MAX_ATTACHMENT_CHUNK_SIZE_def MAX_ATTACHMENT_CHUNKS_def)
  have "wf_manifest dateparse m \<longleftrightarrow> pred_option (\<lambda>e. length e \<le> 32) (am_extension m)"
    unfolding wf_manifest_def using assms(4-6,8,9) f(1-6) name mime lay d(3) ch by (simp add: sha256_hex_pattern)
  moreover have "validateAttachmentManifest dateparse (manifest_js m) = [] \<longleftrightarrow> wf_manifest dateparse m"
    by (rule validate_manifest_js)
      (use assms(3) sz d(2) count in \<open>simp_all add: MAX_SAFE_INTEGER_def DEFAULT_ATTACHMENT_CHUNK_SIZE_def\<close>)
  ultimately show ?thesis by simp
qed

theorem built_manifest_accepted_iff_witness:
  "\<exists>m. buildManifest (\<lambda>b. [b]) ''2026-01-01'' ''messageid'' sample_file ''channel1'' ''peer0001'' = Inr (Some m)
     \<and> validateAttachmentManifest (\<lambda>_. Some 0) (manifest_js m) = []"
proof -
  obtain m where m: "buildManifest (\<lambda>b. [b]) ''2026-01-01'' ''messageid'' sample_file ''channel1'' ''peer0001'' = Inr (Some m)"
    using sample_file_builds by blast
  have "am_extension m = service_extensionOf (sanitizeAttachmentFilename ''notes.txt'')"
    using m by (auto simp: buildManifest_def Let_def bind_run_Some sample_file_def)
  also have "\<dots> = Some ''txt''" by code_simp
  finally have e: "pred_option (\<lambda>e. length e \<le> 32) (am_extension m)" by simp
  have ids: "validWireIdentifier ''messageid''" "validWireIdentifier ''channel1''" "validWireIdentifier ''peer0001''"
    by code_simp+
  have "validateAttachmentManifest (\<lambda>_. Some 0) (manifest_js m) = []"
    using built_manifest_accepted_iff [OF _ m _ ids, of "\<lambda>_. Some 0"] e
    by (simp add: blob_stream_def sample_file_def MAX_ATTACHMENT_MIME_LENGTH_def)
  with m show ?thesis by blast
qed

end
