(* ===== verification/File_Receiver.thy ===== *)
theory File_Receiver
  imports Attachment_Chunks
begin

text \<open>
  The receiver of attachments, \<^verbatim>\<open>packages/rtc/src/file-receiver.ts\<close>, at the granularity of its
  \<^verbatim>\<open>await\<close>s. The methods are asynchronous: a method runs until it awaits, other methods run, and
  it goes on with what it awaited. So a running method is a task with a program counter, one
  constructor of \<open>pc\<close> for each \<^verbatim>\<open>await\<close> of the source with the local variables that live across
  it, and a step of the receiver starts a method or resumes a task with the outcome of what it
  awaited (\<open>resume\<close>). The scheduler is unrestricted, so what is proved holds for every
  interleaving of control messages, chunks, local calls and answers of the storage.

  The transfers are objects with identity: \<^verbatim>\<open>this.transfers.get(id) !== transfer\<close> tells a transfer
  from another one with the same identifier. They live in a list of objects, a reference is an
  index, and the table maps identifiers to references. Calls of the storage and of the transport
  and dispatched events are entries of a log.
\<close>

section \<open>State\<close>

record AttachmentTransferProgress =
  pr_transferId :: string
  pr_attachmentId :: string
  pr_peerId :: string
  pr_state :: AttachmentTransferState
  pr_bytesTransferred :: int
  pr_totalBytes :: int
  pr_retryCount :: int
  pr_startedAt :: "string option"
  pr_updatedAt :: string
  pr_lastError :: "string option"

type_synonym frame = "byte AttachmentChunkFrame"
type_synonym ref = nat
type_synonym task = nat

record IncomingTransfer =
  it_peerId :: string
  it_transferId :: string
  it_manifest :: AttachmentManifest
  it_receivedChunks :: "int list"
  it_bytesTransferred :: int
  it_state :: AttachmentTransferState
  it_startedAt :: "string option"
  it_retryCount :: int
  it_missingChunks :: "int list option"
  it_processingChunks :: "int list"

text \<open>What the receiver calls: the control channel, the listeners and the chunk sink.\<close>

datatype rx_effect =
    Sent string FileControlMessage
  | Progress AttachmentTransferProgress
  | Offer_Event string string AttachmentManifest
  | On_Offer string string AttachmentManifest
  | Auto_Accept string AttachmentManifest
  | Sink_Prepare string AttachmentManifest
  | Sink_Has string int
  | Sink_Write string frame
  | Sink_Finalize string AttachmentManifest
  | Sink_Discard string
  | Sink_List string int

text \<open>The options and the optional method \<^verbatim>\<open>listMissingChunks\<close> of the sink.\<close>

record rx_options =
  ro_maxIncomingTransfers :: int
  ro_maxConcurrentChunkWrites :: int
  ro_maxFileSizeBytes :: int
  ro_hasOnOffer :: bool
  ro_hasAutoAccept :: bool
  ro_hasListMissing :: bool
  ro_dateparse :: "string \<Rightarrow> rat option"
  ro_now :: string

datatype pc =
    Offer_EvictSend string string AttachmentManifest ref
  | Offer_EvictDiscard string string AttachmentManifest ref
  | Last_Send
  | Offer_Notify string string AttachmentManifest
  | Offer_Auto string string
  | Offer_AutoFailed string string
  | Offer_AcceptFailed string string
  | Accept_Prepare "string option" ref
  | Accept_List "string option" ref
  | Accept_Scan "string option" ref int "int list"
  | Accept_Send "string option" ref
  | Chunk_Queued ref string frame
  | Chunk_Woken ref string frame
  | Chunk_Need ref frame
  | Chunk_Verify ref ref string frame
  | Chunk_Has ref ref string frame
  | Chunk_Write ref ref string frame
  | Chunk_Discard ref frame
  | Chunk_Settled ref frame "js_error option"
  | Chunk_Final ref frame "js_error option"
  | Reject_Send ref "string option"
  | Reject_Discard ref
  | Cancel_Wait ref string
  | Cancel_Waited string
  | Cancel_Discard string
  | Complete_Wait string ref string
  | Complete_Waited string ref string
  | Complete_List string ref string
  | Complete_Scan string ref string int "int list"
  | Complete_Finalize string ref string
  | Complete_Discard
  | Complete_Send string ref

record Receiver =
  rx_objects :: "IncomingTransfer list"
  rx_transfers :: "(string \<times> ref) list"
  rx_inFlightWrites :: "(string \<times> task list) list"
  rx_semActive :: int
  rx_semWaiters :: "task list"
  rx_tasks :: "(task \<times> pc) list"
  rx_nextTask :: task
  rx_log :: "rx_effect list"

definition DEFAULT_MAX_INCOMING_TRANSFERS :: int where "DEFAULT_MAX_INCOMING_TRANSFERS = 4"
definition DEFAULT_MAX_CONCURRENT_CHUNK_WRITES :: int where "DEFAULT_MAX_CONCURRENT_CHUNK_WRITES = 8"
definition DEFAULT_MAX_FILE_SIZE_BYTES :: int where "DEFAULT_MAX_FILE_SIZE_BYTES = 20 * 1024 * 1024 * 1024"
definition MAX_MISSING_CHUNKS_PER_REQUEST :: nat where "MAX_MISSING_CHUNKS_PER_REQUEST = 2048"

definition new_receiver :: Receiver where
  "new_receiver = \<lparr>rx_objects = [], rx_transfers = [], rx_inFlightWrites = [], rx_semActive = 0,
     rx_semWaiters = [], rx_tasks = [], rx_nextTask = 0, rx_log = []\<rparr>"

text \<open>A segment between two \<^verbatim>\<open>await\<close>s ends at the next one, with a return or with an exception.\<close>

datatype progress_point = Await pc | Return | Throw js_error

text \<open>What an awaited operation gives back.\<close>

datatype outcome = Ok | Ok_Bool bool | Ok_Chunks "int list" | Ok_Hash string | Fail string

type_synonym segment = "Receiver \<Rightarrow> Receiver \<times> progress_point"

section \<open>Primitives\<close>

definition emit :: "rx_effect \<Rightarrow> Receiver \<Rightarrow> Receiver" where
  "emit e st = st\<lparr>rx_log := rx_log st @ [e]\<rparr>"

definition obj :: "Receiver \<Rightarrow> ref \<Rightarrow> IncomingTransfer" where
  "obj st r = rx_objects st ! r"

definition upd_obj :: "ref \<Rightarrow> (IncomingTransfer \<Rightarrow> IncomingTransfer) \<Rightarrow> Receiver \<Rightarrow> Receiver" where
  "upd_obj r f st = st\<lparr>rx_objects := (rx_objects st)[r := f (obj st r)]\<rparr>"

definition set_state :: "AttachmentTransferState \<Rightarrow> ref \<Rightarrow> Receiver \<Rightarrow> Receiver" where
  "set_state s r = upd_obj r (\<lambda>t. t\<lparr>it_state := s\<rparr>)"

definition del_transfer :: "string \<Rightarrow> Receiver \<Rightarrow> Receiver" where
  "del_transfer i st = st\<lparr>rx_transfers := AList.delete i (rx_transfers st)\<rparr>"

definition emitProgress :: "rx_options \<Rightarrow> string option \<Rightarrow> ref \<Rightarrow> Receiver \<Rightarrow> Receiver" where
  "emitProgress opts lastError r st = (let t = obj st r in
     emit (Progress \<lparr>pr_transferId = it_transferId t, pr_attachmentId = am_id (it_manifest t),
       pr_peerId = it_peerId t, pr_state = it_state t, pr_bytesTransferred = it_bytesTransferred t,
       pr_totalBytes = am_size (it_manifest t), pr_retryCount = it_retryCount t,
       pr_startedAt = it_startedAt t, pr_updatedAt = ro_now opts, pr_lastError = lastError\<rparr>) st)"

definition emitOffer :: "rx_options \<Rightarrow> ref \<Rightarrow> Receiver \<Rightarrow> Receiver" where
  "emitOffer opts r st = (let t = obj st r in
     emitProgress opts None r (emit (Offer_Event (it_transferId t) (it_peerId t) (it_manifest t)) st))"

definition requireTransfer :: "Receiver \<Rightarrow> string \<Rightarrow> js_error + ref" where
  "requireTransfer st i = (case map_of (rx_transfers st) i of
     None \<Rightarrow> Inl (JSError ''unknown transfer'') | Some r \<Rightarrow> Inr r)"

text \<open>\<^verbatim>\<open>this.transfers.get(transfer.transferId) === transfer\<close>, and that it is still receiving.\<close>

definition current :: "Receiver \<Rightarrow> ref \<Rightarrow> bool" where
  "current st r \<longleftrightarrow> map_of (rx_transfers st) (it_transferId (obj st r)) = Some r"

definition receiving_state :: "AttachmentTransferState \<Rightarrow> bool" where
  "receiving_state s \<longleftrightarrow> s = Accepted \<or> s = Transferring"

definition isReceiving :: "Receiver \<Rightarrow> ref \<Rightarrow> bool" where
  "isReceiving st r \<longleftrightarrow> current st r \<and> receiving_state (it_state (obj st r))"

definition updateState :: "rx_options \<Rightarrow> string \<Rightarrow> AttachmentTransferState \<Rightarrow> Receiver \<Rightarrow> Receiver" where
  "updateState opts i s st = (case map_of (rx_transfers st) i of
     None \<Rightarrow> st | Some r \<Rightarrow> emitProgress opts None r (set_state s r st))"

definition requestMissing :: "string \<Rightarrow> ref \<Rightarrow> int list \<Rightarrow> Receiver \<Rightarrow> Receiver" where
  "requestMissing peer r missing st =
     emit (Sent peer (FileNeed (it_transferId (obj st r)) (take MAX_MISSING_CHUNKS_PER_REQUEST missing))) st"

definition send_reject :: "string \<Rightarrow> string \<Rightarrow> string \<Rightarrow> segment" where
  "send_reject peer i reason st = (emit (Sent peer (FileReject i (Some reason))) st, Await Last_Send)"

section \<open>Accepting, rejecting and cancelling\<close>

text \<open>
  \<^verbatim>\<open>accept\<close> runs on its own or inside \<^verbatim>\<open>handleOffer\<close>, whose \<^verbatim>\<open>catch\<close> then discards the transfer
  (\<open>Some peer\<close>). \<open>accept_fail\<close> is what an exception does in either case.
\<close>

definition accept_fail :: "string option \<Rightarrow> string \<Rightarrow> js_error \<Rightarrow> segment" where
  "accept_fail from i e st = (case from of
     None \<Rightarrow> (st, Throw e)
   | Some peer \<Rightarrow> (emit (Sink_Discard i) st, Await (Offer_AcceptFailed peer i)))"

definition accept_start :: "string option \<Rightarrow> string \<Rightarrow> segment" where
  "accept_start from i st = (case requireTransfer st i of
     Inl e \<Rightarrow> accept_fail from i e st
   | Inr r \<Rightarrow> (emit (Sink_Prepare i (it_manifest (obj st r))) st, Await (Accept_Prepare from r)))"

text \<open>The missing chunks are known: ask for them, or accept the whole file.\<close>

definition accept_missing :: "string option \<Rightarrow> ref \<Rightarrow> int list \<Rightarrow> segment" where
  "accept_missing from r missing st =
    (let st1 = upd_obj r (\<lambda>t. t\<lparr>it_missingChunks := Some (uniq missing)\<rparr>) st; t = obj st1 r;
         st2 = (if int (length missing) = am_chunkCount (it_manifest t)
                then emit (Sent (it_peerId t) (FileAccept (it_transferId t))) st1
                else requestMissing (it_peerId t) r missing st1)
     in (st2, Await (Accept_Send from r)))"

text \<open>
  The loop of \<^verbatim>\<open>getMissingChunks\<close> from an index on: a chunk already received is skipped, for any
  other the sink is asked. \<open>Inl index\<close> is the next question, \<open>Inr missing\<close> the end.
\<close>

definition next_unknown :: "Receiver \<Rightarrow> ref \<Rightarrow> int \<Rightarrow> int option" where
  "next_unknown st r index = List.find (\<lambda>i. i \<notin> set (it_receivedChunks (obj st r))) [index..am_chunkCount (it_manifest (obj st r)) - 1]"

definition accept_scan :: "string option \<Rightarrow> ref \<Rightarrow> int \<Rightarrow> int list \<Rightarrow> segment" where
  "accept_scan from r index missing st = (case next_unknown st r index of
     None \<Rightarrow> accept_missing from r missing st
   | Some i \<Rightarrow> (emit (Sink_Has (it_transferId (obj st r)) i) st, Await (Accept_Scan from r i missing)))"

definition accept_prepared :: "rx_options \<Rightarrow> string option \<Rightarrow> ref \<Rightarrow> segment" where
  "accept_prepared opts from r st =
    (let st1 = set_state Accepted r st; t = obj st1 r in
     if ro_hasListMissing opts
     then (emit (Sink_List (it_transferId t) (am_chunkCount (it_manifest t))) st1, Await (Accept_List from r))
     else accept_scan from r 0 [] st1)"

definition canAccept :: "Receiver \<Rightarrow> string \<Rightarrow> bool" where
  "canAccept st i \<longleftrightarrow> (case map_of (rx_transfers st) i of None \<Rightarrow> False | Some r \<Rightarrow> it_state (obj st r) = Offered)"

definition reject_start :: "string \<Rightarrow> string option \<Rightarrow> segment" where
  "reject_start i reason st = (case requireTransfer st i of
     Inl e \<Rightarrow> (st, Throw e)
   | Inr r \<Rightarrow> (emit (Sent (it_peerId (obj st r)) (FileReject i reason)) st, Await (Reject_Send r reason)))"

definition cancel_start :: "rx_options \<Rightarrow> string \<Rightarrow> segment" where
  "cancel_start opts i st = (case map_of (rx_transfers st) i of
     None \<Rightarrow> (st, Return)
   | Some r \<Rightarrow> (emitProgress opts None r (set_state Cancelled r st), Await (Cancel_Wait r i)))"

section \<open>Offers\<close>

definition offer_validate :: "rx_options \<Rightarrow> string \<Rightarrow> string \<Rightarrow> AttachmentManifest \<Rightarrow> segment" where
  "offer_validate opts peer i m st =
    (let errors = validateAttachmentManifest (ro_dateparse opts) (manifest_js m) in
     if errors \<noteq> [] \<or> am_size m > ro_maxFileSizeBytes opts
     then send_reject peer i (if errors \<noteq> [] then join_with '','' errors else ''file_too_large'') st
     else
       let r = length (rx_objects st);
           t = \<lparr>it_peerId = peer, it_transferId = i, it_manifest = m, it_receivedChunks = [],
                it_bytesTransferred = 0, it_state = Offered, it_startedAt = None, it_retryCount = 0,
                it_missingChunks = None, it_processingChunks = []\<rparr>;
           st1 = st\<lparr>rx_objects := rx_objects st @ [t], rx_transfers := AList.update i r (rx_transfers st)\<rparr>;
           st2 = emitOffer opts r st1;
           st3 = (if ro_hasOnOffer opts then emit (On_Offer peer i m) st2 else st2)
       in (st3, Await (Offer_Notify peer i m)))"

definition handleOffer :: "rx_options \<Rightarrow> string \<Rightarrow> string \<Rightarrow> AttachmentManifest \<Rightarrow> segment" where
  "handleOffer opts peer i m st =
    (if map_has (rx_transfers st) i then (st, Return)
     else if int (length (rx_transfers st)) \<ge> ro_maxIncomingTransfers opts
     then (case List.find (\<lambda>r. it_state (obj st r) = Offered) (map snd (rx_transfers st)) of
         Some d \<Rightarrow> (emit (Sent (it_peerId (obj st d)) (FileReject (it_transferId (obj st d)) (Some ''too_many_transfers''))) st,
             Await (Offer_EvictSend peer i m d))
       | None \<Rightarrow> send_reject peer i ''too_many_transfers'' st)
     else offer_validate opts peer i m st)"

definition ensurePrepared :: "rx_options \<Rightarrow> string \<Rightarrow> string \<Rightarrow> AttachmentManifest \<Rightarrow> segment" where
  "ensurePrepared opts peer i m st = (case map_of (rx_transfers st) i of
     Some r \<Rightarrow>
       if it_peerId (obj st r) \<noteq> peer \<or> am_contentHash (it_manifest (obj st r)) \<noteq> am_contentHash m
       then (st, Throw (JSError ''manifest mismatch'')) else (st, Return)
   | None \<Rightarrow> handleOffer opts peer i m st)"

section \<open>Chunks\<close>

definition chunk_settle :: "ref \<Rightarrow> frame \<Rightarrow> js_error option \<Rightarrow> segment" where
  "chunk_settle r f e st = (st, Await (Chunk_Settled r f e))"

definition chunk_refuse :: "ref \<Rightarrow> ref \<Rightarrow> string \<Rightarrow> frame \<Rightarrow> segment" where
  "chunk_refuse r r2 peer f st =
    (requestMissing peer r2 [cf_index f] (upd_obj r2 (\<lambda>t. t\<lparr>it_retryCount := it_retryCount t + 1\<rparr>) st),
     Await (Chunk_Need r f))"

definition expected_hash :: "AttachmentManifest \<Rightarrow> int \<Rightarrow> string option" where
  "expected_hash m i = (case am_chunkHashes m of None \<Rightarrow> None
     | Some hs \<Rightarrow> if 0 \<le> i \<and> nat i < length hs \<and> hs ! nat i \<noteq> [] then Some (hs ! nat i) else None)"

text \<open>
  \<^verbatim>\<open>processChunk\<close>, called with a place in the semaphore. It looks the transfer up again; \<open>r\<close> is the
  object that \<^verbatim>\<open>handleChunk\<close> found, \<open>r2\<close> the one found here.
\<close>

definition processChunk :: "ref \<Rightarrow> string \<Rightarrow> frame \<Rightarrow> segment" where
  "processChunk r peer f st = (case map_of (rx_transfers st) (cf_transferId f) of
     None \<Rightarrow> chunk_settle r f None st
   | Some r2 \<Rightarrow>
       let t = obj st r2 in
       if it_peerId t \<noteq> peer \<or> \<not> isReceiving st r2 then chunk_settle r f None st
       else if (case expected_hash (it_manifest t) (cf_index f) of Some h \<Rightarrow> js_lower h \<noteq> js_lower (cf_hash f) | None \<Rightarrow> False)
       then chunk_refuse r r2 peer f st
       else (st, Await (Chunk_Verify r r2 peer f)))"

definition add_chunk :: "int \<Rightarrow> int list \<Rightarrow> int list" where
  "add_chunk i cs = (if i \<in> set cs then cs else cs @ [i])"

definition chunk_write :: "ref \<Rightarrow> ref \<Rightarrow> string \<Rightarrow> frame \<Rightarrow> segment" where
  "chunk_write r r2 peer f st = (emit (Sink_Write (cf_transferId f) f) st, Await (Chunk_Write r r2 peer f))"

definition chunk_known :: "ref \<Rightarrow> ref \<Rightarrow> frame \<Rightarrow> segment" where
  "chunk_known r r2 f st =
     chunk_settle r f None (upd_obj r2 (\<lambda>t. t\<lparr>it_receivedChunks := add_chunk (cf_index f) (it_receivedChunks t)\<rparr>) st)"

definition chunk_verified :: "ref \<Rightarrow> ref \<Rightarrow> string \<Rightarrow> frame \<Rightarrow> segment" where
  "chunk_verified r r2 peer f st =
    (if \<not> verifyAttachmentChunk f then chunk_refuse r r2 peer f st
     else if \<not> isReceiving st r2 then chunk_settle r f None st
     else case it_missingChunks (obj st r2) of
         Some ms \<Rightarrow> if cf_index f \<notin> set ms then chunk_known r r2 f st else chunk_write r r2 peer f st
       | None \<Rightarrow> (emit (Sink_Has (cf_transferId f) (cf_index f)) st, Await (Chunk_Has r r2 peer f)))"

definition chunk_written :: "rx_options \<Rightarrow> ref \<Rightarrow> ref \<Rightarrow> frame \<Rightarrow> segment" where
  "chunk_written opts r r2 f st =
    (if map_of (rx_transfers st) (cf_transferId f) \<noteq> Some r2
     then (emit (Sink_Discard (cf_transferId f)) st, Await (Chunk_Discard r f))
     else if it_state (obj st r2) = Cancelled then chunk_settle r f None st
     else chunk_settle r f None (emitProgress opts None r2 (upd_obj r2 (\<lambda>t. t\<lparr>
       it_receivedChunks := add_chunk (cf_index f) (it_receivedChunks t),
       it_missingChunks := map_option (filter (\<lambda>i. i \<noteq> cf_index f)) (it_missingChunks t),
       it_bytesTransferred := it_bytesTransferred t + cf_size f,
       it_state := (if it_state t = Paused then Paused else Transferring),
       it_startedAt := (case it_startedAt t of None \<Rightarrow> Some (ro_now opts) | Some s \<Rightarrow> Some s)\<rparr>) st)))"

text \<open>
  \<^verbatim>\<open>AsyncSemaphore.run\<close>: a task waits in the queue or takes a place at once; a place given back wakes
  the first waiter, which takes its place only when it is resumed.
\<close>

definition sem_enter :: "task \<Rightarrow> int \<Rightarrow> ref \<Rightarrow> string \<Rightarrow> frame \<Rightarrow> segment" where
  "sem_enter me limit r peer f st =
    (if rx_semActive st \<ge> limit
     then (st\<lparr>rx_semWaiters := rx_semWaiters st @ [me]\<rparr>, Await (Chunk_Queued r peer f))
     else processChunk r peer f (st\<lparr>rx_semActive := rx_semActive st + 1\<rparr>))"

fun woken :: "pc \<Rightarrow> pc" where
  "woken (Chunk_Queued r peer f) = Chunk_Woken r peer f"
| "woken p = p"

definition wake :: "task \<Rightarrow> (task \<times> pc) list \<Rightarrow> (task \<times> pc) list" where
  "wake w tasks = map (\<lambda>(t, p). (t, if t = w then woken p else p)) tasks"

definition sem_leave :: "Receiver \<Rightarrow> Receiver" where
  "sem_leave st = (case rx_semWaiters st of
     [] \<Rightarrow> st\<lparr>rx_semActive := rx_semActive st - 1\<rparr>
   | w # ws \<Rightarrow> st\<lparr>rx_semActive := rx_semActive st - 1, rx_semWaiters := ws, rx_tasks := wake w (rx_tasks st)\<rparr>)"

definition handleChunk :: "rx_options \<Rightarrow> string \<Rightarrow> frame \<Rightarrow> task \<Rightarrow> segment" where
  "handleChunk opts peer f me st = (case map_of (rx_transfers st) (cf_transferId f) of
     None \<Rightarrow> (st, Throw (JSError ''unknown transfer''))
   | Some r \<Rightarrow>
       let t = obj st r in
       if it_peerId t \<noteq> peer then (st, Throw (JSError ''unknown transfer''))
       else if \<not> receiving_state (it_state t) then (st, Return)
       else if cf_attachmentId f \<noteq> am_id (it_manifest t) then (st, Throw (JSError ''attachmentId''))
       else if cf_index f < 0 \<or> cf_index f \<ge> am_chunkCount (it_manifest t) then (st, Throw (JSError ''index''))
       else if cf_index f \<in> set (it_receivedChunks t) \<or> cf_index f \<in> set (it_processingChunks t) then (st, Return)
       else
         let st1 = upd_obj r (\<lambda>t. t\<lparr>it_processingChunks := add_chunk (cf_index f) (it_processingChunks t)\<rparr>) st;
             (st2, n) = sem_enter me (ro_maxConcurrentChunkWrites opts) r peer f st1;
             writes = (case map_of (rx_inFlightWrites st2) (cf_transferId f) of None \<Rightarrow> [] | Some ws \<Rightarrow> ws)
         in (st2\<lparr>rx_inFlightWrites := AList.update (cf_transferId f) (writes @ [me]) (rx_inFlightWrites st2)\<rparr>, n))"

definition chunk_final :: "task \<Rightarrow> ref \<Rightarrow> frame \<Rightarrow> js_error option \<Rightarrow> segment" where
  "chunk_final me r f e st =
    (let st1 = upd_obj r (\<lambda>t. t\<lparr>it_processingChunks := filter (\<lambda>i. i \<noteq> cf_index f) (it_processingChunks t)\<rparr>) st;
         writes = filter (\<lambda>w. w \<noteq> me) (case map_of (rx_inFlightWrites st1) (cf_transferId f) of None \<Rightarrow> [] | Some ws \<Rightarrow> ws);
         st2 = st1\<lparr>rx_inFlightWrites := (if writes = [] then AList.delete (cf_transferId f) (rx_inFlightWrites st1)
                 else AList.update (cf_transferId f) writes (rx_inFlightWrites st1))\<rparr>
     in (st2, case e of None \<Rightarrow> Return | Some x \<Rightarrow> Throw x))"

section \<open>Completion\<close>

definition complete_start :: "string \<Rightarrow> string \<Rightarrow> string \<Rightarrow> segment" where
  "complete_start peer i announced st = (case requireTransfer st i of
     Inl e \<Rightarrow> (st, Throw e)
   | Inr r \<Rightarrow>
       if it_peerId (obj st r) \<noteq> peer then (st, Throw (JSError ''peer mismatch''))
       else if \<not> receiving_state (it_state (obj st r)) then (st, Return)
       else (st, Await (Complete_Wait peer r announced)))"

definition complete_missing :: "rx_options \<Rightarrow> string \<Rightarrow> ref \<Rightarrow> string \<Rightarrow> int list \<Rightarrow> segment" where
  "complete_missing opts peer r announced missing st =
    (let st1 = upd_obj r (\<lambda>t. t\<lparr>it_missingChunks := (case it_missingChunks t of None \<Rightarrow> Some (uniq missing) | Some ms \<Rightarrow> Some ms)\<rparr>) st
     in if missing \<noteq> [] then (requestMissing peer r missing st1, Await Last_Send)
        else
          let st2 = emitProgress opts None r (set_state Verifying r st1) in
          (emit (Sink_Finalize (it_transferId (obj st2 r)) (it_manifest (obj st2 r))) st2, Await (Complete_Finalize peer r announced)))"

definition complete_scan :: "rx_options \<Rightarrow> string \<Rightarrow> ref \<Rightarrow> string \<Rightarrow> int \<Rightarrow> int list \<Rightarrow> segment" where
  "complete_scan opts peer r announced index missing st = (case next_unknown st r index of
     None \<Rightarrow> complete_missing opts peer r announced missing st
   | Some i \<Rightarrow> (emit (Sink_Has (it_transferId (obj st r)) i) st, Await (Complete_Scan peer r announced i missing)))"

definition complete_waited :: "rx_options \<Rightarrow> string \<Rightarrow> ref \<Rightarrow> string \<Rightarrow> segment" where
  "complete_waited opts peer r announced st =
    (if \<not> isReceiving st r then (st, Return)
     else case it_missingChunks (obj st r) of
         Some ms \<Rightarrow> complete_missing opts peer r announced ms st
       | None \<Rightarrow>
           if ro_hasListMissing opts
           then (emit (Sink_List (it_transferId (obj st r)) (am_chunkCount (it_manifest (obj st r)))) st,
                 Await (Complete_List peer r announced))
           else complete_scan opts peer r announced 0 [] st)"

definition complete_failed :: "rx_options \<Rightarrow> string \<Rightarrow> ref \<Rightarrow> string \<Rightarrow> segment" where
  "complete_failed opts peer r reason st =
    (if \<not> current st r \<or> it_state (obj st r) = Cancelled then (st, Return)
     else
       let st1 = emitProgress opts (Some reason) r (set_state Failed r st) in
       (emit (Sent peer (FileError (it_transferId (obj st1 r)) ''integrity_check_failed'' reason True)) st1, Await Last_Send))"

definition complete_finalized :: "rx_options \<Rightarrow> string \<Rightarrow> ref \<Rightarrow> string \<Rightarrow> string \<Rightarrow> segment" where
  "complete_finalized opts peer r announced contentHash st =
    (let t = obj st r in
     if \<not> current st r \<or> it_state t \<noteq> Verifying then (emit (Sink_Discard (it_transferId t)) st, Await Complete_Discard)
     else if js_lower contentHash \<noteq> js_lower (am_contentHash (it_manifest t)) \<or> js_lower contentHash \<noteq> js_lower announced
     then complete_failed opts peer r ''final hash mismatch'' st
     else
       let st1 = emitProgress opts None r (upd_obj r (\<lambda>t. t\<lparr>it_bytesTransferred := am_size (it_manifest t), it_state := Completed\<rparr>) st) in
       (emit (Sent peer (FileComplete (it_transferId t) contentHash)) st1, Await (Complete_Send peer r)))"

section \<open>Control messages and tasks\<close>

definition handleControl :: "rx_options \<Rightarrow> string \<Rightarrow> FileControlMessage \<Rightarrow> segment" where
  "handleControl opts peer message st = (case message of
     FileOffer i m \<Rightarrow> handleOffer opts peer i m st
   | FileManifest i m \<Rightarrow> ensurePrepared opts peer i m st
   | FilePause i \<Rightarrow> (updateState opts i Paused st, Return)
   | FileResume i _ \<Rightarrow> (updateState opts i Transferring st, Return)
   | FileCancel i _ \<Rightarrow> cancel_start opts i st
   | FileComplete i h \<Rightarrow> complete_start peer i h st
   | _ \<Rightarrow> (st, Return))"

text \<open>\<^verbatim>\<open>waitForInFlightWrites\<close> looks again after the writes it saw have settled.\<close>

definition wait_writes :: "string \<Rightarrow> pc \<Rightarrow> pc \<Rightarrow> segment" where
  "wait_writes i again done st = (st, Await (if map_of (rx_inFlightWrites st) i \<in> {None, Some []} then done else again))"

definition missing_after :: "outcome \<Rightarrow> int \<Rightarrow> int list \<Rightarrow> int list" where
  "missing_after out i missing = (if out = Ok_Bool True then missing else missing @ [i])"

fun resume :: "rx_options \<Rightarrow> task \<Rightarrow> pc \<Rightarrow> outcome \<Rightarrow> segment" where
  "resume opts me (Offer_EvictSend peer i m d) out st = (case out of
     Fail e \<Rightarrow> (st, Throw (JSError e))
   | _ \<Rightarrow> (emit (Sink_Discard (it_transferId (obj st d))) st, Await (Offer_EvictDiscard peer i m d)))"
| "resume opts me (Offer_EvictDiscard peer i m d) out st = (case out of
     Fail e \<Rightarrow> (st, Throw (JSError e))
   | _ \<Rightarrow> offer_validate opts peer i m
           (del_transfer (it_transferId (obj st d)) (emitProgress opts None d (set_state Cancelled d st))))"
| "resume opts me Last_Send out st = (st, case out of Fail e \<Rightarrow> Throw (JSError e) | _ \<Rightarrow> Return)"
| "resume opts me (Offer_Notify peer i m) out st = (case out of
     Fail e \<Rightarrow> send_reject peer i ''storage_unavailable'' (del_transfer i st)
   | _ \<Rightarrow> if ro_hasAutoAccept opts then (emit (Auto_Accept peer m) st, Await (Offer_Auto peer i)) else (st, Return))"
| "resume opts me (Offer_Auto peer i) out st = (case out of
     Fail e \<Rightarrow> (emit (Sink_Discard i) (del_transfer i st), Await (Offer_AutoFailed peer i))
   | Ok_Bool True \<Rightarrow> accept_start (Some peer) i st
   | _ \<Rightarrow> (st, Return))"
| "resume opts me (Offer_AutoFailed peer i) out st = send_reject peer i ''storage_unavailable'' st"
| "resume opts me (Offer_AcceptFailed peer i) out st = send_reject peer i ''storage_unavailable'' (del_transfer i st)"
| "resume opts me (Accept_Prepare from r) out st = (case out of
     Fail e \<Rightarrow> accept_fail from (it_transferId (obj st r)) (JSError e) st
   | _ \<Rightarrow> accept_prepared opts from r st)"
| "resume opts me (Accept_List from r) out st = (case out of
     Ok_Chunks missing \<Rightarrow> accept_missing from r missing st
   | _ \<Rightarrow> accept_fail from (it_transferId (obj st r)) (JSError ''list'') st)"
| "resume opts me (Accept_Scan from r i missing) out st = (case out of
     Fail e \<Rightarrow> accept_fail from (it_transferId (obj st r)) (JSError e) st
   | _ \<Rightarrow> accept_scan from r (i + 1) (missing_after out i missing) st)"
| "resume opts me (Accept_Send from r) out st = (case out of
     Fail e \<Rightarrow> accept_fail from (it_transferId (obj st r)) (JSError e) st
   | _ \<Rightarrow> (emitProgress opts None r (set_state Transferring r st), Return))"
| "resume opts me (Chunk_Queued r peer f) out st = (st, Await (Chunk_Queued r peer f))"
| "resume opts me (Chunk_Woken r peer f) out st = processChunk r peer f (st\<lparr>rx_semActive := rx_semActive st + 1\<rparr>)"
| "resume opts me (Chunk_Need r f) out st = chunk_settle r f (case out of Fail e \<Rightarrow> Some (JSError e) | _ \<Rightarrow> None) st"
| "resume opts me (Chunk_Verify r r2 peer f) out st = chunk_verified r r2 peer f st"
| "resume opts me (Chunk_Has r r2 peer f) out st = (case out of
     Fail e \<Rightarrow> chunk_settle r f (Some (JSError e)) st
   | _ \<Rightarrow> if \<not> isReceiving st r2 then chunk_settle r f None st
         else if out = Ok_Bool True then chunk_known r r2 f st else chunk_write r r2 peer f st)"
| "resume opts me (Chunk_Write r r2 peer f) out st = (case out of
     Fail e \<Rightarrow> chunk_settle r f (Some (JSError e)) st
   | _ \<Rightarrow> chunk_written opts r r2 f st)"
| "resume opts me (Chunk_Discard r f) out st = chunk_settle r f None st"
| "resume opts me (Chunk_Settled r f e) out st = (sem_leave st, Await (Chunk_Final r f e))"
| "resume opts me (Chunk_Final r f e) out st = chunk_final me r f e st"
| "resume opts me (Reject_Send r reason) out st = (case out of
     Fail e \<Rightarrow> (st, Throw (JSError e))
   | _ \<Rightarrow> (emit (Sink_Discard (it_transferId (obj st r))) st, Await (Reject_Discard r)))"
| "resume opts me (Reject_Discard r) out st = (case out of
     Fail e \<Rightarrow> (st, Throw (JSError e))
   | _ \<Rightarrow> (del_transfer (it_transferId (obj st r)) (emitProgress opts None r (set_state Cancelled r st)), Return))"
| "resume opts me (Cancel_Wait r i) out st = wait_writes i (Cancel_Wait r i) (Cancel_Waited i) st"
| "resume opts me (Cancel_Waited i) out st = (emit (Sink_Discard i) st, Await (Cancel_Discard i))"
| "resume opts me (Cancel_Discard i) out st = (case out of
     Fail e \<Rightarrow> (st, Throw (JSError e)) | _ \<Rightarrow> (del_transfer i st, Return))"
| "resume opts me (Complete_Wait peer r h) out st =
     wait_writes (it_transferId (obj st r)) (Complete_Wait peer r h) (Complete_Waited peer r h) st"
| "resume opts me (Complete_Waited peer r h) out st = complete_waited opts peer r h st"
| "resume opts me (Complete_List peer r h) out st = (case out of
     Ok_Chunks missing \<Rightarrow> complete_missing opts peer r h missing st
   | _ \<Rightarrow> (st, Throw (JSError ''list'')))"
| "resume opts me (Complete_Scan peer r h i missing) out st = (case out of
     Fail e \<Rightarrow> (st, Throw (JSError e))
   | _ \<Rightarrow> complete_scan opts peer r h (i + 1) (missing_after out i missing) st)"
| "resume opts me (Complete_Finalize peer r h) out st = (case out of
     Ok_Hash contentHash \<Rightarrow> complete_finalized opts peer r h contentHash st
   | _ \<Rightarrow> complete_failed opts peer r (case out of Fail e \<Rightarrow> e | _ \<Rightarrow> ''finalize'') st)"
| "resume opts me Complete_Discard out st = (st, Return)"
| "resume opts me (Complete_Send peer r) out st = (case out of
     Fail e \<Rightarrow> complete_failed opts peer r e st
   | _ \<Rightarrow> (del_transfer (it_transferId (obj st r)) st, Return))"

definition settle :: "task \<Rightarrow> Receiver \<times> progress_point \<Rightarrow> Receiver" where
  "settle me result = (case result of (st, n) \<Rightarrow>
     st\<lparr>rx_tasks := (case n of Await p \<Rightarrow> AList.update me p (rx_tasks st) | _ \<Rightarrow> AList.delete me (rx_tasks st))\<rparr>)"

definition spawn :: "(task \<Rightarrow> segment) \<Rightarrow> Receiver \<Rightarrow> Receiver" where
  "spawn body st = (let me = rx_nextTask st in settle me (body me (st\<lparr>rx_nextTask := me + 1\<rparr>)))"

definition run_task :: "rx_options \<Rightarrow> task \<Rightarrow> outcome \<Rightarrow> Receiver \<Rightarrow> Receiver" where
  "run_task opts t out st = (case map_of (rx_tasks st) t of
     None \<Rightarrow> st | Some p \<Rightarrow> settle t (resume opts t p out st))"

text \<open>What can happen to a receiver: a message, a chunk, a local call, or the end of something awaited.\<close>

datatype rx_event =
    Control string FileControlMessage
  | Chunk string frame
  | Call_Accept string
  | Call_Reject string "string option"
  | Call_Cancel string
  | Resume task outcome

fun rx_apply :: "rx_options \<Rightarrow> rx_event \<Rightarrow> Receiver \<Rightarrow> Receiver" where
  "rx_apply opts (Control peer m) st = spawn (\<lambda>_. handleControl opts peer m) st"
| "rx_apply opts (Chunk peer f) st = spawn (handleChunk opts peer f) st"
| "rx_apply opts (Call_Accept i) st = spawn (\<lambda>_. accept_start None i) st"
| "rx_apply opts (Call_Reject i reason) st = spawn (\<lambda>_. reject_start i reason) st"
| "rx_apply opts (Call_Cancel i) st = spawn (\<lambda>_. cancel_start opts i) st"
| "rx_apply opts (Resume t out) st = run_task opts t out st"

inductive rx_reachable :: "rx_options \<Rightarrow> Receiver \<Rightarrow> bool" for opts where
  rx_init: "rx_reachable opts new_receiver"
| rx_step: "rx_reachable opts st \<Longrightarrow> rx_reachable opts (rx_apply opts e st)"

end
