(* ===== verification/Receiver_Safety.thy ===== *)
theory Receiver_Safety
  imports File_Receiver "HOL-Library.Sublist"
begin

text \<open>
  Safety of the attachment receiver under every interleaving.

  The identity of a transfer object, its peer, its identifier and its manifest never change, so
  what was checked of them before an \<^verbatim>\<open>await\<close> still holds after it; \<open>ids\<close> is the list of these
  identities and only grows. Each segment of the code is related to its start state by \<open>rel\<close>:
  the identities grow, the table keeps its invariant, the new calls are admissible and the
  program counters of other tasks stay meaningful. The relation composes along the primitives of
  the receiver, so a segment is checked by the primitives it uses.
\<close>

section \<open>The invariant\<close>

type_synonym identity = "string \<times> string \<times> AttachmentManifest"

definition immut :: "IncomingTransfer \<Rightarrow> identity" where
  "immut t = (it_peerId t, it_transferId t, it_manifest t)"

definition ids :: "Receiver \<Rightarrow> identity list" where
  "ids st = map immut (rx_objects st)"

definition offer_ok :: "rx_options \<Rightarrow> AttachmentManifest \<Rightarrow> bool" where
  "offer_ok opts m \<longleftrightarrow> validateAttachmentManifest (ro_dateparse opts) (manifest_js m) = []
     \<and> am_size m \<le> ro_maxFileSizeBytes opts"

text \<open>Every transfer in the table is stored under its own identifier and has a valid manifest.\<close>

definition table_ok :: "rx_options \<Rightarrow> Receiver \<Rightarrow> bool" where
  "table_ok opts st \<longleftrightarrow> wf_map (rx_transfers st) \<and>
     (\<forall>(i, r) \<in> set (rx_transfers st). r < length (rx_objects st)
        \<and> it_transferId (obj st r) = i \<and> offer_ok opts (it_manifest (obj st r)))"

text \<open>The checks of \<^verbatim>\<open>handleChunk\<close> and of \<^verbatim>\<open>processChunk\<close> on a frame.\<close>

definition frame_admitted :: "identity list \<Rightarrow> string \<Rightarrow> frame \<Rightarrow> bool" where
  "frame_admitted os peer f \<longleftrightarrow> (\<exists>m. (peer, cf_transferId f, m) \<in> set os
     \<and> cf_attachmentId f = am_id m \<and> 0 \<le> cf_index f \<and> cf_index f < am_chunkCount m)"

definition hash_expected :: "AttachmentManifest \<Rightarrow> frame \<Rightarrow> bool" where
  "hash_expected m f \<longleftrightarrow> pred_option (\<lambda>h. js_lower h = js_lower (cf_hash f)) (expected_hash m (cf_index f))"

definition frame_matches :: "identity list \<Rightarrow> string \<Rightarrow> frame \<Rightarrow> ref \<Rightarrow> bool" where
  "frame_matches os peer f r \<longleftrightarrow> r < length os
     \<and> (\<exists>m. os ! r = (peer, cf_transferId f, m) \<and> hash_expected m f)"

text \<open>A written chunk was admitted, has the announced hash and is intact; a completion carries the hash of the manifest.\<close>

definition write_ok :: "identity list \<Rightarrow> string \<Rightarrow> frame \<Rightarrow> bool" where
  "write_ok os i f \<longleftrightarrow> cf_transferId f = i \<and> verifyAttachmentChunk f
     \<and> (\<exists>peer. frame_admitted os peer f \<and> (\<exists>m. (peer, i, m) \<in> set os \<and> hash_expected m f))"

definition completion_ok :: "identity list \<Rightarrow> string \<Rightarrow> string \<Rightarrow> string \<Rightarrow> bool" where
  "completion_ok os peer i h \<longleftrightarrow> (\<exists>m. (peer, i, m) \<in> set os \<and> js_lower h = js_lower (am_contentHash m))"

fun effect_ok :: "identity list \<Rightarrow> rx_effect \<Rightarrow> bool" where
  "effect_ok os (Sent peer (FileComplete i h)) = completion_ok os peer i h"
| "effect_ok os (Sink_Write i f) = write_ok os i f"
| "effect_ok os _ = True"

definition in_ids :: "identity list \<Rightarrow> ref \<Rightarrow> bool" where
  "in_ids os r \<longleftrightarrow> r < length os"

definition owned :: "identity list \<Rightarrow> string \<Rightarrow> ref \<Rightarrow> bool" where
  "owned os peer r \<longleftrightarrow> r < length os \<and> fst (os ! r) = peer"

fun pc_ok :: "identity list \<Rightarrow> pc \<Rightarrow> bool" where
  "pc_ok os (Chunk_Queued r peer f) = frame_admitted os peer f"
| "pc_ok os (Chunk_Woken r peer f) = frame_admitted os peer f"
| "pc_ok os (Chunk_Verify r r2 peer f) = (frame_admitted os peer f \<and> frame_matches os peer f r2)"
| "pc_ok os (Chunk_Has r r2 peer f) = (frame_admitted os peer f \<and> frame_matches os peer f r2 \<and> verifyAttachmentChunk f)"
| "pc_ok os (Complete_Wait peer r h) = owned os peer r"
| "pc_ok os (Complete_Waited peer r h) = owned os peer r"
| "pc_ok os (Complete_List peer r h) = owned os peer r"
| "pc_ok os (Complete_Scan peer r h i ms) = owned os peer r"
| "pc_ok os (Complete_Finalize peer r h) = owned os peer r"
| "pc_ok os _ = True"

fun point_ok :: "identity list \<Rightarrow> progress_point \<Rightarrow> bool" where
  "point_ok os (Await p) = pc_ok os p"
| "point_ok os _ = True"

definition tasks_ok :: "identity list \<Rightarrow> (task \<times> pc) list \<Rightarrow> bool" where
  "tasks_ok os ts \<longleftrightarrow> list_all (\<lambda>(t, p). pc_ok os p) ts"

definition rx_inv :: "rx_options \<Rightarrow> Receiver \<Rightarrow> bool" where
  "rx_inv opts st \<longleftrightarrow> table_ok opts st \<and> list_all (effect_ok (ids st)) (rx_log st) \<and> tasks_ok (ids st) (rx_tasks st)"

section \<open>Monotonicity\<close>

lemma frame_admitted_mono: "frame_admitted os peer f \<Longrightarrow> prefix os os' \<Longrightarrow> frame_admitted os' peer f"
  unfolding frame_admitted_def using set_mono_prefix by fastforce

lemma frame_matches_mono: "frame_matches os peer f r \<Longrightarrow> prefix os os' \<Longrightarrow> frame_matches os' peer f r"
  by (auto simp: frame_matches_def prefix_def nth_append)

lemma owned_mono: "owned os peer r \<Longrightarrow> prefix os os' \<Longrightarrow> owned os' peer r"
  by (auto simp: owned_def prefix_def nth_append)

lemma pc_ok_mono: "pc_ok os p \<Longrightarrow> prefix os os' \<Longrightarrow> pc_ok os' p"
  by (cases p) (auto intro: frame_admitted_mono frame_matches_mono owned_mono)

lemma effect_ok_mono: "effect_ok os e \<Longrightarrow> prefix os os' \<Longrightarrow> effect_ok os' e"
proof (cases "(os, e)" rule: effect_ok.cases)
  case (1 os'' peer i h)
  then show "effect_ok os e \<Longrightarrow> prefix os os' \<Longrightarrow> effect_ok os' e"
    using set_mono_prefix [of os os'] by (auto simp: completion_ok_def)
next
  case (2 os'' i f)
  then show "effect_ok os e \<Longrightarrow> prefix os os' \<Longrightarrow> effect_ok os' e"
    using set_mono_prefix [of os os'] frame_admitted_mono [of os _ f os'] by (auto simp: write_ok_def)
qed simp_all

lemma tasks_ok_mono: "tasks_ok os ts \<Longrightarrow> prefix os os' \<Longrightarrow> tasks_ok os' ts"
  by (auto simp: tasks_ok_def list_all_iff intro: pc_ok_mono)

section \<open>The step relation of segments\<close>

definition rel :: "rx_options \<Rightarrow> Receiver \<Rightarrow> Receiver \<Rightarrow> bool" where
  "rel opts st st' \<longleftrightarrow> prefix (ids st) (ids st') \<and> (table_ok opts st \<longrightarrow> table_ok opts st')
     \<and> (\<exists>new. rx_log st' = rx_log st @ new \<and> list_all (effect_ok (ids st')) new)
     \<and> (\<forall>os. tasks_ok os (rx_tasks st) \<longrightarrow> tasks_ok os (rx_tasks st'))"

lemma in_set_update: "(k, x) \<in> set (AList.update i v m) \<Longrightarrow> k = i \<and> x = v \<or> (k, x) \<in> set m"
  by (induction m) (auto split: if_splits)

lemma rel_refl: "rel opts st st"
  by (simp add: rel_def)

lemma rel_trans:
  assumes "rel opts a b" "rel opts b c"
  shows "rel opts a c"
proof -
  from assms obtain n1 n2 where n: "rx_log b = rx_log a @ n1" "list_all (effect_ok (ids b)) n1"
    "rx_log c = rx_log b @ n2" "list_all (effect_ok (ids c)) n2" by (auto simp: rel_def)
  have p: "prefix (ids a) (ids b)" "prefix (ids b) (ids c)" using assms by (auto simp: rel_def)
  have "list_all (effect_ok (ids c)) n1"
    using n(2) effect_ok_mono [OF _ p(2)] by (auto simp: list_all_iff)
  then show ?thesis
    using n p assms unfolding rel_def by (auto intro: prefix_order.order_trans)
qed

lemma rel_emit: "rel opts st0 st \<Longrightarrow> effect_ok (ids st) e \<Longrightarrow> rel opts st0 (emit e st)"
  by (rule rel_trans, assumption) (simp add: rel_def emit_def ids_def table_ok_def obj_def)

lemma ids_upd_obj [simp]: "(\<And>t. immut (f t) = immut t) \<Longrightarrow> ids (upd_obj r f st) = ids st"
  unfolding ids_def upd_obj_def obj_def
  by (cases "r < length (rx_objects st)") (simp_all add: map_update list_update_beyond list_update_same_conv)

lemma obj_upd_obj: "obj (upd_obj r f st) k = (if k = r \<and> r < length (rx_objects st) then f (obj st r) else obj st k)"
  by (auto simp: obj_def upd_obj_def nth_list_update list_update_beyond)

lemma immut_fields:
  "immut (f t) = immut t \<Longrightarrow> it_transferId (f t) = it_transferId t \<and> it_manifest (f t) = it_manifest t \<and> it_peerId (f t) = it_peerId t"
  by (simp add: immut_def)

lemma rel_upd_obj:
  assumes "rel opts st0 st" "\<And>t. immut (f t) = immut t"
  shows "rel opts st0 (upd_obj r f st)"
proof (rule rel_trans [OF assms(1)])
  have "table_ok opts st \<Longrightarrow> table_ok opts (upd_obj r f st)"
    unfolding table_ok_def using immut_fields [of f, OF assms(2)]
    by (auto simp: obj_upd_obj) (auto simp: upd_obj_def)
  moreover have "rx_log (upd_obj r f st) = rx_log st" "rx_tasks (upd_obj r f st) = rx_tasks st"
    by (simp_all add: upd_obj_def)
  ultimately show "rel opts st (upd_obj r f st)"
    by (simp add: rel_def assms(2))
qed

lemma rel_set_state: "rel opts st0 st \<Longrightarrow> rel opts st0 (set_state s r st)"
  unfolding set_state_def by (rule rel_upd_obj) (simp_all add: immut_def)

lemma rel_del: "rel opts st0 st \<Longrightarrow> rel opts st0 (del_transfer i st)"
  by (rule rel_trans, assumption)
    (auto simp: rel_def del_transfer_def ids_def table_ok_def obj_def dest: set_delete_subset [THEN subsetD])

lemma rel_sem:
  "rel opts st0 st \<Longrightarrow> rel opts st0 (st\<lparr>rx_semActive := n\<rparr>)"
  "rel opts st0 st \<Longrightarrow> rel opts st0 (st\<lparr>rx_semWaiters := ws\<rparr>)"
  "rel opts st0 st \<Longrightarrow> rel opts st0 (st\<lparr>rx_inFlightWrites := fs\<rparr>)"
  by (erule rel_trans, simp add: rel_def ids_def table_ok_def obj_def)+

lemma rel_emitProgress: "rel opts st0 st \<Longrightarrow> rel opts st0 (emitProgress o' e r st)"
  unfolding emitProgress_def Let_def by (rule rel_emit) simp_all

lemma rel_emitOffer: "rel opts st0 st \<Longrightarrow> rel opts st0 (emitOffer o' r st)"
  unfolding emitOffer_def Let_def by (intro rel_emitProgress rel_emit) simp_all

lemma rel_requestMissing: "rel opts st0 st \<Longrightarrow> rel opts st0 (requestMissing peer r ms st)"
  unfolding requestMissing_def by (rule rel_emit) simp_all

lemma tasks_ok_wake: "tasks_ok os ts \<Longrightarrow> tasks_ok os (wake w ts)"
proof -
  have "pc_ok os (woken p) = pc_ok os p" for p by (cases p) simp_all
  then have "pc_ok os (if t = w then woken p else p) = pc_ok os p" for t p by (cases "t = w") (simp_all only: simp_thms if_True if_False)
  then show "tasks_ok os ts \<Longrightarrow> tasks_ok os (wake w ts)"
    by (simp only: tasks_ok_def wake_def list.pred_map comp_def split_def fst_conv snd_conv)
qed

lemma rel_sem_leave: "rel opts st0 st \<Longrightarrow> rel opts st0 (sem_leave st)"
  by (erule rel_trans)
    (auto simp: rel_def sem_leave_def ids_def table_ok_def obj_def tasks_ok_wake split: list.split)

lemma rel_updateState: "rel opts st0 st \<Longrightarrow> rel opts st0 (updateState o' i s st)"
  unfolding updateState_def by (simp add: rel_emitProgress rel_set_state split: option.split)

lemmas rel_intros = rel_refl rel_emit rel_upd_obj rel_set_state rel_del rel_sem rel_emitProgress rel_emitOffer
  rel_requestMissing rel_sem_leave rel_updateState

lemma ids_simps [simp]:
  "ids (emit e st) = ids st" "ids (set_state s r st) = ids st" "ids (del_transfer i st) = ids st"
  "ids (emitProgress opts err r st) = ids st" "ids (emitOffer opts r st) = ids st" "ids (requestMissing peer r ms st) = ids st"
  "ids (st\<lparr>rx_semActive := n\<rparr>) = ids st" "ids (st\<lparr>rx_semWaiters := ws\<rparr>) = ids st" "ids (st\<lparr>rx_inFlightWrites := fs\<rparr>) = ids st"
  "ids (st\<lparr>rx_nextTask := k\<rparr>) = ids st" "ids (st\<lparr>rx_tasks := ts\<rparr>) = ids st"
  by (simp_all add: emit_def emitProgress_def emitOffer_def requestMissing_def Let_def del_transfer_def set_state_def immut_def)
    (simp_all add: ids_def)

section \<open>Segments\<close>

definition seg_ok :: "rx_options \<Rightarrow> Receiver \<Rightarrow> Receiver \<times> progress_point \<Rightarrow> bool" where
  "seg_ok opts st0 result \<longleftrightarrow> (case result of (st, n) \<Rightarrow> rel opts st0 st \<and> point_ok (ids st) n)"

lemma seg_okI: "rel opts st0 st \<Longrightarrow> point_ok (ids st) n \<Longrightarrow> seg_ok opts st0 (st, n)"
  by (simp add: seg_ok_def)

lemma table_lookup:
  assumes "table_ok opts st" "map_of (rx_transfers st) i = Some r"
  shows "r < length (rx_objects st)" "it_transferId (obj st r) = i" "offer_ok opts (it_manifest (obj st r))"
    "ids st ! r = (it_peerId (obj st r), i, it_manifest (obj st r))"
  using assms map_of_SomeD [OF assms(2)] by (auto simp: table_ok_def ids_def obj_def immut_def)

lemma rel_table: "rel opts st0 st \<Longrightarrow> table_ok opts st0 \<Longrightarrow> table_ok opts st"
  by (simp add: rel_def)

lemma send_reject_ok: "rel opts st0 st \<Longrightarrow> seg_ok opts st0 (send_reject peer i reason st)"
  unfolding send_reject_def by (intro seg_okI rel_emit) simp_all

lemma accept_fail_ok: "rel opts st0 st \<Longrightarrow> seg_ok opts st0 (accept_fail from i e st)"
  unfolding accept_fail_def by (auto split: option.split intro!: seg_okI rel_emit)

lemma accept_start_ok: "rel opts st0 st \<Longrightarrow> seg_ok opts st0 (accept_start from i st)"
  unfolding accept_start_def by (auto split: sum.split intro!: accept_fail_ok seg_okI rel_emit)

lemma accept_missing_ok: "rel opts st0 st \<Longrightarrow> seg_ok opts st0 (accept_missing from r ms st)"
  unfolding accept_missing_def Let_def
  by (auto intro!: seg_okI rel_emit rel_requestMissing rel_upd_obj simp: immut_def)

lemma accept_scan_ok: "rel opts st0 st \<Longrightarrow> seg_ok opts st0 (accept_scan from r i ms st)"
  unfolding accept_scan_def by (auto split: option.split intro!: accept_missing_ok seg_okI rel_emit)

lemma accept_prepared_ok: "rel opts st0 st \<Longrightarrow> seg_ok opts st0 (accept_prepared opts from r st)"
  unfolding accept_prepared_def Let_def
  by (auto intro!: accept_scan_ok seg_okI rel_emit rel_set_state)

lemma reject_start_ok: "rel opts st0 st \<Longrightarrow> seg_ok opts st0 (reject_start i reason st)"
  unfolding reject_start_def by (auto split: sum.split intro!: seg_okI rel_emit)

lemma cancel_start_ok: "rel opts st0 st \<Longrightarrow> seg_ok opts st0 (cancel_start opts i st)"
  unfolding cancel_start_def by (auto split: option.split intro!: seg_okI rel_emitProgress rel_set_state)

text \<open>A new object is added with a manifest that passed the checks.\<close>

lemma rel_new_transfer:
  assumes "it_transferId t = i" "offer_ok opts (it_manifest t)"
  shows "rel opts st (st\<lparr>rx_objects := rx_objects st @ [t], rx_transfers := AList.update i (length (rx_objects st)) (rx_transfers st)\<rparr>)"
proof -
  have "table_ok opts (st\<lparr>rx_objects := rx_objects st @ [t], rx_transfers := AList.update i (length (rx_objects st)) (rx_transfers st)\<rparr>)"
    if t: "table_ok opts st"
  proof -
    have "k = i \<and> r = length (rx_objects st) \<or> (k, r) \<in> set (rx_transfers st)"
      if "(k, r) \<in> set (AList.update i (length (rx_objects st)) (rx_transfers st))" for k r
      using that by (rule in_set_update)
    moreover have "wf_map (AList.update i (length (rx_objects st)) (rx_transfers st))"
      using t by (simp add: table_ok_def)
    moreover have "r < length (rx_objects st) \<and> it_transferId (rx_objects st ! r) = k \<and> offer_ok opts (it_manifest (rx_objects st ! r))"
      if "(k, r) \<in> set (rx_transfers st)" for k r
      using t that by (auto simp: table_ok_def obj_def)
    ultimately show ?thesis using assms unfolding table_ok_def obj_def by (fastforce simp: nth_append)
  qed
  then show ?thesis by (simp add: rel_def ids_def)
qed

lemma offer_validate_ok: "rel opts st0 st \<Longrightarrow> seg_ok opts st0 (offer_validate opts peer i m st)"
proof -
  assume r: "rel opts st0 st"
  show ?thesis
  proof (cases "offer_ok opts m")
    case True
    note new = rel_trans [OF r rel_new_transfer [of _ i opts st]]
    from True show ?thesis
      unfolding offer_validate_def Let_def offer_ok_def
      by (auto intro!: seg_okI rel_emit rel_emitOffer new simp: offer_ok_def)
  next
    case False
    then show ?thesis
      unfolding offer_validate_def Let_def offer_ok_def by (auto intro!: send_reject_ok r)
  qed
qed

lemma handleOffer_ok: "rel opts st0 st \<Longrightarrow> seg_ok opts st0 (handleOffer opts peer i m st)"
  unfolding handleOffer_def
  by (auto split: option.split intro!: offer_validate_ok send_reject_ok seg_okI rel_emit)

lemma ensurePrepared_ok: "rel opts st0 st \<Longrightarrow> seg_ok opts st0 (ensurePrepared opts peer i m st)"
  unfolding ensurePrepared_def by (auto split: option.split intro!: handleOffer_ok seg_okI)

lemma chunk_settle_ok: "rel opts st0 st \<Longrightarrow> seg_ok opts st0 (chunk_settle r f e st)"
  unfolding chunk_settle_def by (intro seg_okI) simp_all

lemma chunk_refuse_ok: "rel opts st0 st \<Longrightarrow> seg_ok opts st0 (chunk_refuse r r2 peer f st)"
  unfolding chunk_refuse_def by (intro seg_okI rel_requestMissing rel_upd_obj) (simp_all add: immut_def)

lemma processChunk_ok:
  assumes "rel opts st0 st" "table_ok opts st" "frame_admitted (ids st) peer f"
  shows "seg_ok opts st0 (processChunk r peer f st)"
proof (cases "map_of (rx_transfers st) (cf_transferId f)")
  case (Some r2)
  note t = table_lookup [OF assms(2) Some]
  have "frame_matches (ids st) peer f r2"
    if "it_peerId (obj st r2) = peer" "hash_expected (it_manifest (obj st r2)) f"
    using that t(1,4) by (simp add: frame_matches_def ids_def)
  moreover have "hash_expected (it_manifest (obj st r2)) f \<longleftrightarrow>
     \<not> (case expected_hash (it_manifest (obj st r2)) (cf_index f) of Some h \<Rightarrow> js_lower h \<noteq> js_lower (cf_hash f) | None \<Rightarrow> False)"
    by (simp add: hash_expected_def split: option.split)
  ultimately show ?thesis
    using Some assms by (auto simp: processChunk_def Let_def intro!: chunk_settle_ok chunk_refuse_ok seg_okI)
qed (simp add: processChunk_def chunk_settle_ok assms)

lemma chunk_known_ok: "rel opts st0 st \<Longrightarrow> seg_ok opts st0 (chunk_known r r2 f st)"
  unfolding chunk_known_def by (intro chunk_settle_ok rel_upd_obj) (simp_all add: immut_def)

lemma chunk_write_ok:
  assumes "rel opts st0 st" "frame_admitted (ids st) peer f" "frame_matches (ids st) peer f r2" "verifyAttachmentChunk f"
  shows "seg_ok opts st0 (chunk_write r r2 peer f st)"
proof -
  have "write_ok (ids st) (cf_transferId f) f"
    unfolding write_ok_def using assms(2-4) by (auto simp: frame_matches_def) (metis nth_mem)
  then show ?thesis unfolding chunk_write_def by (intro seg_okI rel_emit) (simp_all add: assms(1))
qed

lemma chunk_verified_ok:
  assumes "rel opts st0 st" "frame_admitted (ids st) peer f" "frame_matches (ids st) peer f r2"
  shows "seg_ok opts st0 (chunk_verified r r2 peer f st)"
  unfolding chunk_verified_def using assms
  by (auto split: option.split intro!: chunk_settle_ok chunk_refuse_ok chunk_known_ok chunk_write_ok seg_okI rel_emit)

lemma chunk_written_ok: "rel opts st0 st \<Longrightarrow> seg_ok opts st0 (chunk_written opts r r2 f st)"
  unfolding chunk_written_def
  by (auto intro!: chunk_settle_ok seg_okI rel_emit rel_emitProgress rel_upd_obj simp: immut_def)

lemma sem_enter_ok:
  assumes "rel opts st0 st" "table_ok opts st" "frame_admitted (ids st) peer f"
  shows "seg_ok opts st0 (sem_enter me limit r peer f st)"
proof -
  have "table_ok opts (st\<lparr>rx_semActive := rx_semActive st + 1\<rparr>)"
    using rel_table [OF rel_sem(1) [OF rel_refl]] assms(2) .
  then show ?thesis
    unfolding sem_enter_def using assms by (auto intro!: seg_okI processChunk_ok rel_sem)
qed

lemma handleChunk_ok:
  assumes "table_ok opts st"
  shows "seg_ok opts st (handleChunk opts peer f me st)"
proof (cases "map_of (rx_transfers st) (cf_transferId f)")
  case (Some r)
  note t = table_lookup [OF assms Some]
  let ?st1 = "upd_obj r (\<lambda>t. t\<lparr>it_processingChunks := add_chunk (cf_index f) (it_processingChunks t)\<rparr>) st"
  obtain st2 n where e: "sem_enter me (ro_maxConcurrentChunkWrites opts) r peer f ?st1 = (st2, n)" by force
  have rel1: "rel opts st ?st1" by (intro rel_upd_obj rel_refl) (simp add: immut_def)
  have "frame_admitted (ids ?st1) peer f"
    if "it_peerId (obj st r) = peer" "cf_attachmentId f = am_id (it_manifest (obj st r))"
      "0 \<le> cf_index f" "cf_index f < am_chunkCount (it_manifest (obj st r))"
  proof -
    have "ids ?st1 = ids st" by (rule ids_upd_obj) (simp add: immut_def)
    moreover have "(it_peerId (obj st r), cf_transferId f, it_manifest (obj st r)) \<in> set (ids st)"
      using t(1) nth_mem [of r "ids st"] unfolding t(4) by (simp add: ids_def)
    ultimately show ?thesis unfolding frame_admitted_def using that by auto
  qed
  from sem_enter_ok [OF rel1 rel_table [OF rel1 assms] this, of me "ro_maxConcurrentChunkWrites opts" r]
  have "rel opts st (st2\<lparr>rx_inFlightWrites := ws\<rparr>) \<and> point_ok (ids st2) n"
    if "it_peerId (obj st r) = peer" "cf_attachmentId f = am_id (it_manifest (obj st r))"
      "0 \<le> cf_index f" "cf_index f < am_chunkCount (it_manifest (obj st r))" for ws
    using that e by (auto simp: seg_ok_def intro: rel_sem(3))
  then show ?thesis
    using Some e by (auto simp: handleChunk_def Let_def seg_ok_def rel_refl)
qed (simp add: handleChunk_def seg_ok_def rel_refl)

lemma chunk_final_ok: "rel opts st0 st \<Longrightarrow> seg_ok opts st0 (chunk_final me r f e st)"
  unfolding chunk_final_def Let_def
  by (auto intro!: seg_okI rel_sem rel_upd_obj simp: immut_def split: option.split)

lemma complete_start_ok:
  assumes "table_ok opts st"
  shows "seg_ok opts st (complete_start peer i h st)"
proof (cases "map_of (rx_transfers st) i")
  case (Some r)
  note t = table_lookup [OF assms Some]
  have "owned (ids st) (it_peerId (obj st r)) r" using t(1,4) by (simp add: owned_def ids_def)
  then show ?thesis
    using Some by (auto simp: complete_start_def requireTransfer_def intro!: seg_okI rel_refl)
qed (simp add: complete_start_def requireTransfer_def seg_ok_def rel_refl)

lemma complete_missing_ok:
  "rel opts st0 st \<Longrightarrow> owned (ids st) peer r \<Longrightarrow> seg_ok opts st0 (complete_missing opts peer r h ms st)"
  unfolding complete_missing_def Let_def
  by (auto intro!: seg_okI rel_emit rel_emitProgress rel_set_state rel_requestMissing rel_upd_obj simp: immut_def)

lemma complete_scan_ok:
  "rel opts st0 st \<Longrightarrow> owned (ids st) peer r \<Longrightarrow> seg_ok opts st0 (complete_scan opts peer r h i ms st)"
  unfolding complete_scan_def by (auto split: option.split intro!: complete_missing_ok seg_okI rel_emit)

lemma complete_waited_ok:
  "rel opts st0 st \<Longrightarrow> owned (ids st) peer r \<Longrightarrow> seg_ok opts st0 (complete_waited opts peer r h st)"
  unfolding complete_waited_def
  by (auto split: option.split intro!: complete_missing_ok complete_scan_ok seg_okI rel_emit)

lemma complete_failed_ok: "rel opts st0 st \<Longrightarrow> seg_ok opts st0 (complete_failed opts peer r e st)"
  unfolding complete_failed_def Let_def by (auto intro!: seg_okI rel_emit rel_emitProgress rel_set_state)

lemma complete_finalized_ok:
  assumes "rel opts st0 st" "owned (ids st) peer r"
  shows "seg_ok opts st0 (complete_finalized opts peer r h ch st)"
proof -
  have "ids st ! r = (peer, it_transferId (obj st r), it_manifest (obj st r))" "r < length (ids st)"
    using assms(2) by (auto simp: owned_def ids_def immut_def obj_def)
  then have c: "completion_ok (ids st) peer (it_transferId (obj st r)) ch"
    if "js_lower ch = js_lower (am_contentHash (it_manifest (obj st r)))"
    using that unfolding completion_ok_def by (metis nth_mem)
  then show ?thesis
    unfolding complete_finalized_def Let_def using assms(1)
    by (auto intro!: seg_okI rel_emit rel_emitProgress rel_upd_obj complete_failed_ok simp: immut_def)
qed

lemma resume_ok:
  assumes "table_ok opts st" "pc_ok (ids st) p"
  shows "seg_ok opts st (resume opts me p out st)"
proof -
  have t: "table_ok opts (st\<lparr>rx_semActive := rx_semActive st + 1\<rparr>)"
    using rel_table [OF rel_sem(1) [OF rel_refl]] assms(1) .
  show ?thesis
    using assms t
    by (cases p)
      (auto simp: wait_writes_def split: outcome.split bool.split option.split
        intro!: offer_validate_ok send_reject_ok accept_start_ok accept_fail_ok accept_prepared_ok accept_missing_ok
          accept_scan_ok processChunk_ok chunk_settle_ok chunk_verified_ok chunk_known_ok chunk_write_ok chunk_written_ok
          chunk_final_ok complete_waited_ok complete_missing_ok complete_scan_ok complete_finalized_ok complete_failed_ok
          seg_okI rel_intros)
qed

lemma handleControl_ok: "table_ok opts st \<Longrightarrow> seg_ok opts st (handleControl opts peer m st)"
  unfolding handleControl_def
  by (auto split: FileControlMessage.split
      intro!: handleOffer_ok ensurePrepared_ok cancel_start_ok complete_start_ok seg_okI rel_updateState rel_refl)

section \<open>Reachable receivers\<close>

lemma tasks_ok_update: "tasks_ok os ts \<Longrightarrow> pc_ok os p \<Longrightarrow> tasks_ok os (AList.update t p ts)"
  by (induction ts) (auto simp: tasks_ok_def)

lemma tasks_ok_delete: "tasks_ok os ts \<Longrightarrow> tasks_ok os (AList.delete t ts)"
  unfolding tasks_ok_def list_all_iff using set_delete_subset [of t ts] by fast

lemma settle_inv:
  assumes "rx_inv opts st" "seg_ok opts st result"
  shows "rx_inv opts (settle me result)"
proof -
  obtain st' n where r: "result = (st', n)" by force
  with assms(2) have rel: "rel opts st st'" and n: "point_ok (ids st') n" by (auto simp: seg_ok_def)
  from rel obtain new where new: "rx_log st' = rx_log st @ new" "list_all (effect_ok (ids st')) new"
    and p: "prefix (ids st) (ids st')" by (auto simp: rel_def)
  have t: "table_ok opts st'" using rel_table [OF rel] assms(1) by (simp add: rx_inv_def)
  have "list_all (effect_ok (ids st')) (rx_log st')"
    using assms(1) new effect_ok_mono [OF _ p] by (auto simp: rx_inv_def list_all_iff)
  moreover have "tasks_ok (ids st') (rx_tasks st')"
    using assms(1) rel tasks_ok_mono [OF _ p] by (auto simp: rx_inv_def rel_def)
  ultimately show ?thesis
    using t n unfolding rx_inv_def r settle_def
    by (auto simp: table_ok_def obj_def ids_def [of "st'\<lparr>rx_tasks := _\<rparr>"] ids_def [symmetric]
        split: progress_point.split intro: tasks_ok_update tasks_ok_delete)
qed

lemma spawn_inv:
  assumes "rx_inv opts st" "\<And>st me. table_ok opts st \<Longrightarrow> seg_ok opts st (body me st)"
  shows "rx_inv opts (spawn body st)"
proof -
  have inv: "rx_inv opts (st\<lparr>rx_nextTask := k\<rparr>)" for k
    using assms(1) by (simp add: rx_inv_def table_ok_def obj_def)
  then have "table_ok opts (st\<lparr>rx_nextTask := k\<rparr>)" for k by (simp add: rx_inv_def)
  from settle_inv [OF inv assms(2) [OF this]] show ?thesis
    unfolding spawn_def Let_def .
qed

lemma rx_apply_inv: "rx_inv opts st \<Longrightarrow> rx_inv opts (rx_apply opts e st)"
proof (cases e)
  case (Resume t out)
  assume inv: "rx_inv opts st"
  have "pc_ok (ids st) p" if "map_of (rx_tasks st) t = Some p" for p
    using inv map_of_SomeD [OF that] by (auto simp: rx_inv_def tasks_ok_def list_all_iff)
  then show ?thesis
    using Resume inv by (auto simp: run_task_def split: option.split intro!: settle_inv resume_ok) (auto simp: rx_inv_def)
qed (auto intro!: spawn_inv handleControl_ok handleChunk_ok accept_start_ok reject_start_ok cancel_start_ok rel_refl)

lemma reachable_inv: "rx_reachable opts st \<Longrightarrow> rx_inv opts st"
proof (induction rule: rx_reachable.induct)
  case rx_init
  show ?case by (simp add: rx_inv_def table_ok_def new_receiver_def tasks_ok_def)
qed (rule rx_apply_inv)



definition sample_options :: rx_options where
  "sample_options = \<lparr>ro_maxIncomingTransfers = 1, ro_maxConcurrentChunkWrites = 1, ro_maxFileSizeBytes = 100,
     ro_hasOnOffer = False, ro_hasAutoAccept = False, ro_hasListMissing = False,
     ro_dateparse = (\<lambda>_. Some 0), ro_now = ''now''\<rparr>"

definition sample_manifest :: AttachmentManifest where
  "sample_manifest = \<lparr>am_protocolVersion = 1, am_id = replicate 64 (CHR ''a''), am_messageId = None, am_channelId = None,
     am_senderPeerId = ''peer0001'', am_filename = ''f'', am_mimeType = [], am_extension = None, am_kind = KOther,
     am_size = 4, am_contentHash = replicate 64 (CHR ''a''), am_chunkSize = 4, am_chunkCount = 1, am_chunkHashes = None,
     am_createdAt = ''now'', am_metadata = None\<rparr>"

lemma sample_manifest_ok: "validateAttachmentManifest (\<lambda>_. Some 0) (manifest_js sample_manifest) = []"
proof -
  have p: "sha256_pattern (replicate 64 (CHR ''a''))" by code_simp
  have w: "validWireIdentifier ''peer0001''" by code_simp
  have "wf_manifest (\<lambda>_. Some 0) sample_manifest"
    unfolding wf_manifest_def wf_layout_def sample_manifest_def
    by (simp add: p w RISK_ATTACHMENT_PROTOCOL_VERSION_def MAX_ATTACHMENT_FILENAME_LENGTH_def MAX_SAFE_INTEGER_def
        MAX_ATTACHMENT_CHUNK_SIZE_def MAX_ATTACHMENT_CHUNKS_def ceil_div_def)
  then show ?thesis
    by (subst validate_manifest_js) (simp_all add: sample_manifest_def MAX_SAFE_INTEGER_def)
qed

text \<open>A run of events from the empty receiver.\<close>

definition rx_run :: "rx_options \<Rightarrow> rx_event list \<Rightarrow> Receiver" where
  "rx_run opts es = foldl (\<lambda>st e. rx_apply opts e st) new_receiver es"

lemma rx_run_reachable: "rx_reachable opts (rx_run opts es)"
proof (induction es rule: rev_induct)
  case (snoc e es)
  then show ?case using rx_step [of opts "rx_run opts es" e] by (simp add: rx_run_def)
qed (simp add: rx_run_def rx_init)


text \<open>
  The limit on incoming transfers is tested before the \<^verbatim>\<open>await\<close>s of the eviction. Three offers with the
  limit one: the second and the third find the first as the deferred transfer, and both are
  stored after it is gone.
\<close>

definition offer_race :: "rx_event list" where
  "offer_race = [
     Control ''peer0001'' (FileOffer ''transfer1'' sample_manifest), Resume 0 Ok,
     Control ''peer0002'' (FileOffer ''transfer2'' sample_manifest),
     Control ''peer0003'' (FileOffer ''transfer3'' sample_manifest),
     Resume 1 Ok, Resume 2 Ok, Resume 1 Ok, Resume 2 Ok]"

lemmas rx_eval = spawn_def run_task_def settle_def handleControl_def handleOffer_def offer_validate_def emitOffer_def
  emitProgress_def emit_def obj_def set_state_def upd_obj_def del_transfer_def map_has_def send_reject_def Let_def
  handleChunk_def sem_enter_def processChunk_def chunk_verified_def chunk_write_def updateState_def isReceiving_def
  current_def receiving_state_def chunk_settle_def chunk_refuse_def

lemma overlapping_evictions:
  assumes "validateAttachmentManifest (ro_dateparse opts) (manifest_js m) = []" "\<not> ro_maxFileSizeBytes opts < am_size m"
    and "ro_maxIncomingTransfers opts = 1" "\<not> ro_hasOnOffer opts" "\<not> ro_hasAutoAccept opts"
    and "i1 \<noteq> i2" "i2 \<noteq> i3" "i1 \<noteq> i3"
  shows "length (rx_transfers (rx_run opts [
     Control p1 (FileOffer i1 m), Resume 0 Ok, Control p2 (FileOffer i2 m), Control p3 (FileOffer i3 m),
     Resume 1 Ok, Resume 2 Ok, Resume 1 Ok, Resume 2 Ok])) = 2"
  unfolding rx_run_def foldl.simps rx_apply.simps
  by (simp add: rx_eval assms assms(6-8) [symmetric] new_receiver_def)

lemma sample_offer:
  "validateAttachmentManifest (ro_dateparse sample_options) (manifest_js sample_manifest) = []"
  "\<not> ro_maxFileSizeBytes sample_options < am_size sample_manifest"
  "ro_maxIncomingTransfers sample_options = 1" "\<not> ro_hasOnOffer sample_options" "\<not> ro_hasAutoAccept sample_options"
  "ro_maxConcurrentChunkWrites sample_options = 1"
  using sample_manifest_ok by (simp_all add: sample_options_def) (simp add: sample_manifest_def)

text \<open>The limit on incoming transfers is not kept under concurrency: a receiver that allows one transfer
  reaches, by three offers whose evictions overlap, a state with two transfers in its table.\<close>

theorem incoming_limit_exceeded:
  "ro_maxIncomingTransfers sample_options = 1
   \<and> rx_reachable sample_options (rx_run sample_options offer_race)
   \<and> length (rx_transfers (rx_run sample_options offer_race)) = 2"
  using sample_offer(3) rx_run_reachable overlapping_evictions [OF sample_offer(1-5)]
  unfolding offer_race_def by simp

text \<open>A message \<^verbatim>\<open>file.resume\<close> from any peer starts a transfer that was only offered; a chunk is then written.\<close>

definition sample_chunk :: frame where
  "sample_chunk = \<lparr>cf_transferId = ''transfer1'', cf_attachmentId = replicate 64 (CHR ''a''), cf_index = 0, cf_offset = 0,
     cf_size = 4, cf_hash = hex_text (sha256 [1, 2, 3, 4]), cf_payload = [1, 2, 3, 4]\<rparr>"

definition resume_race :: "rx_event list" where
  "resume_race = [
     Control ''peer0001'' (FileOffer ''transfer1'' sample_manifest), Resume 0 Ok,
     Control ''peer0002'' (FileResume ''transfer1'' None),
     Chunk ''peer0001'' sample_chunk, Resume 2 Ok, Resume 2 (Ok_Bool False)]"

definition sink_entry :: "rx_effect \<Rightarrow> bool" where
  "sink_entry e = (case e of Sink_Prepare _ _ \<Rightarrow> True | Sink_Write _ _ \<Rightarrow> True | _ \<Rightarrow> False)"

lemma unaccepted_write:
  assumes "validateAttachmentManifest (ro_dateparse opts) (manifest_js m) = []" "\<not> ro_maxFileSizeBytes opts < am_size m"
    and "ro_maxIncomingTransfers opts = 1" "\<not> ro_hasOnOffer opts" "\<not> ro_hasAutoAccept opts"
    and "ro_maxConcurrentChunkWrites opts = 1"
    and "cf_transferId f = i" "cf_attachmentId f = am_id m" "\<not> cf_index f < 0" "\<not> am_chunkCount m \<le> cf_index f"
    and "am_chunkHashes m = None" "verifyAttachmentChunk f"
  shows "filter sink_entry (rx_log (rx_run opts [
     Control p1 (FileOffer i m), Resume 0 Ok, Control p2 (FileResume i None), Chunk p1 f, Resume 2 Ok, Resume 2 (Ok_Bool False)]))
     = [Sink_Write i f]"
  unfolding rx_run_def foldl.simps rx_apply.simps
  by (simp add: rx_eval assms expected_hash_def new_receiver_def sink_entry_def)


end
