(* ===== verification/File_Sender.thy ===== *)
theory File_Sender
  imports File_Receiver
begin

text \<open>
  The sender of attachments, the class \<^verbatim>\<open>AttachmentTransferSender\<close> of
  \<^verbatim>\<open>packages/rtc/src/file-transfer.ts\<close>, at the granularity of its \<^verbatim>\<open>await\<close>s, in the style of the
  receiver: transfers are objects with identity, a running \<^verbatim>\<open>run\<close> is a task with a program
  counter, and the scheduler is unrestricted. \<^verbatim>\<open>sendWithRetry\<close>, \<^verbatim>\<open>applyBackpressure\<close> and the
  generator of chunks run inside the task of their \<^verbatim>\<open>run\<close>; their return is joined with the
  segment that follows.

  \<^verbatim>\<open>pump\<close> has no \<^verbatim>\<open>await\<close>, so its flag \<^verbatim>\<open>pumping\<close> is never seen set by another method and is not
  part of the state. \<open>uuid k\<close> is the value of the \<open>k\<close>-th call of \<^verbatim>\<open>crypto.randomUUID()\<close>.
\<close>

section \<open>State\<close>

record QueuedTransfer =
  qt_transferId :: string
  qt_peerId :: string
  qt_source :: TransferSource
  qt_manifest :: AttachmentManifest
  qt_missingChunks :: "int list option"
  qt_paused :: bool
  qt_cancelled :: bool
  qt_awaitingVerification :: bool
  qt_retryCount :: int
  qt_bytesTransferred :: int
  qt_startedAt :: "string option"

record tx_options =
  to_maxConcurrentTransfers :: int
  to_highWaterMarkBytes :: int
  to_lowWaterMarkBytes :: int
  to_retryLimit :: int
  to_retryDelayMs :: int
  to_hasBufferedAmount :: bool
  to_hasWaitLow :: bool
  to_uuid :: "nat \<Rightarrow> string"
  to_now :: string

definition DEFAULT_MAX_CONCURRENT_TRANSFERS :: int where "DEFAULT_MAX_CONCURRENT_TRANSFERS = 2"
definition DEFAULT_HIGH_WATER_MARK_BYTES :: int where "DEFAULT_HIGH_WATER_MARK_BYTES = 4 * 1024 * 1024"
definition DEFAULT_LOW_WATER_MARK_BYTES :: int where "DEFAULT_LOW_WATER_MARK_BYTES = 1 * 1024 * 1024"
definition DEFAULT_RETRY_LIMIT :: int where "DEFAULT_RETRY_LIMIT = 3"
definition DEFAULT_RETRY_DELAY_MS :: int where "DEFAULT_RETRY_DELAY_MS = 500"

definition positiveInteger :: "jsval \<Rightarrow> int \<Rightarrow> int" where
  "positiveInteger value fallback = (case safe_int value of Some n \<Rightarrow> if n > 0 then n else fallback | None \<Rightarrow> fallback)"

definition nonNegativeInteger :: "jsval \<Rightarrow> int \<Rightarrow> int" where
  "nonNegativeInteger value fallback = (case safe_int value of Some n \<Rightarrow> if n \<ge> 0 then n else fallback | None \<Rightarrow> fallback)"

text \<open>The constructor: defaults for the numbers, and the water marks in order.\<close>

definition tx_configure ::
  "jsval \<Rightarrow> jsval \<Rightarrow> jsval \<Rightarrow> jsval \<Rightarrow> jsval \<Rightarrow> bool \<Rightarrow> bool \<Rightarrow> (nat \<Rightarrow> string) \<Rightarrow> string \<Rightarrow> js_error + tx_options" where
  "tx_configure maxConcurrent high low limit wait hasBuffered hasWaitLow uuid now =
    (let opts = \<lparr>to_maxConcurrentTransfers = positiveInteger maxConcurrent DEFAULT_MAX_CONCURRENT_TRANSFERS,
          to_highWaterMarkBytes = positiveInteger high DEFAULT_HIGH_WATER_MARK_BYTES,
          to_lowWaterMarkBytes = positiveInteger low DEFAULT_LOW_WATER_MARK_BYTES,
          to_retryLimit = nonNegativeInteger limit DEFAULT_RETRY_LIMIT,
          to_retryDelayMs = nonNegativeInteger wait DEFAULT_RETRY_DELAY_MS,
          to_hasBufferedAmount = hasBuffered, to_hasWaitLow = hasWaitLow, to_uuid = uuid, to_now = now\<rparr>
     in if to_lowWaterMarkBytes opts > to_highWaterMarkBytes opts then Inl (JSError ''water marks'') else Inr opts)"

datatype tx_effect =
    Tx_Sent string FileControlMessage
  | Tx_Chunk string frame
  | Tx_Progress AttachmentTransferProgress
  | Tx_WaitLow string
  | Tx_WaitPending string
  | Tx_Delay int

datatype tx_pc =
    Offer_Sent ref
  | Run_Manifest ref
  | Run_Next ref "int list option" int
  | Run_Paused ref "int list option" frame
  | Pressure_Check ref "int list option" frame
  | Pressure_Wait ref "int list option" frame
  | Pressure_Poll ref "int list option" frame
  | Send_Paused ref "int list option" frame
  | Send_Chunk ref "int list option" frame
  | Send_Delay ref "int list option" frame
  | Run_Pending ref
  | Run_Complete ref
  | Run_Failed ref
  | Run_Settled ref

record Sender =
  tx_objects :: "QueuedTransfer list"
  tx_queue :: "ref list"
  tx_active :: "(string \<times> ref) list"
  tx_tasks :: "(task \<times> tx_pc) list"
  tx_nextTask :: task
  tx_uuids :: nat
  tx_log :: "tx_effect list"

definition new_sender :: Sender where
  "new_sender = \<lparr>tx_objects = [], tx_queue = [], tx_active = [], tx_tasks = [], tx_nextTask = 0, tx_uuids = 0, tx_log = []\<rparr>"

datatype tx_point = Tx_Await tx_pc | Tx_Return

text \<open>What an awaited operation gives: success, a failure, or the number of buffered bytes when it is read.\<close>

datatype tx_outcome = Done | Failed string | Buffered int

type_synonym tx_segment = "Sender \<Rightarrow> Sender \<times> tx_point"

section \<open>Primitives\<close>

definition tx_emit :: "tx_effect \<Rightarrow> Sender \<Rightarrow> Sender" where
  "tx_emit e st = st\<lparr>tx_log := tx_log st @ [e]\<rparr>"

definition tx_obj :: "Sender \<Rightarrow> ref \<Rightarrow> QueuedTransfer" where
  "tx_obj st r = tx_objects st ! r"

definition tx_upd :: "ref \<Rightarrow> (QueuedTransfer \<Rightarrow> QueuedTransfer) \<Rightarrow> Sender \<Rightarrow> Sender" where
  "tx_upd r f st = st\<lparr>tx_objects := (tx_objects st)[r := f (tx_obj st r)]\<rparr>"

definition tx_progress :: "tx_options \<Rightarrow> AttachmentTransferState \<Rightarrow> string option \<Rightarrow> ref \<Rightarrow> Sender \<Rightarrow> Sender" where
  "tx_progress opts s lastError r st = (let t = tx_obj st r in
     tx_emit (Tx_Progress \<lparr>pr_transferId = qt_transferId t, pr_attachmentId = am_id (qt_manifest t), pr_peerId = qt_peerId t,
       pr_state = s, pr_bytesTransferred = qt_bytesTransferred t, pr_totalBytes = am_size (qt_manifest t),
       pr_retryCount = qt_retryCount t, pr_startedAt = qt_startedAt t, pr_updatedAt = to_now opts,
       pr_lastError = lastError\<rparr>) st)"

definition findTransfer :: "Sender \<Rightarrow> string \<Rightarrow> js_error + ref" where
  "findTransfer st i = (case List.find (\<lambda>r. qt_transferId (tx_obj st r) = i) (tx_queue st) of
     Some r \<Rightarrow> Inr r
   | None \<Rightarrow> (case map_of (tx_active st) i of Some r \<Rightarrow> Inr r | None \<Rightarrow> Inl (JSError ''unknown transfer'')))"

definition removeTransfer :: "ref \<Rightarrow> Sender \<Rightarrow> Sender" where
  "removeTransfer r st = st\<lparr>tx_queue := remove1 r (tx_queue st)\<rparr>"

definition tx_settle :: "task \<Rightarrow> Sender \<times> tx_point \<Rightarrow> Sender" where
  "tx_settle me result = (case result of (st, n) \<Rightarrow>
     st\<lparr>tx_tasks := (case n of Tx_Await p \<Rightarrow> AList.update me p (tx_tasks st) | Tx_Return \<Rightarrow> AList.delete me (tx_tasks st))\<rparr>)"

definition tx_spawn :: "tx_segment \<Rightarrow> Sender \<Rightarrow> Sender" where
  "tx_spawn body st = (let me = tx_nextTask st in tx_settle me (body (st\<lparr>tx_nextTask := me + 1\<rparr>)))"

section \<open>Starting transfers\<close>

definition eligible :: "Sender \<Rightarrow> ref \<Rightarrow> bool" where
  "eligible st r \<longleftrightarrow> (let t = tx_obj st r in
     \<not> qt_cancelled t \<and> \<not> qt_paused t \<and> \<not> qt_awaitingVerification t \<and> \<not> map_has (tx_active st) (qt_transferId t))"

text \<open>\<^verbatim>\<open>run\<close> up to its first \<^verbatim>\<open>await\<close>.\<close>

definition run_start :: "tx_options \<Rightarrow> ref \<Rightarrow> tx_segment" where
  "run_start opts r st =
    (let st1 = tx_upd r (\<lambda>t. t\<lparr>qt_startedAt := (case qt_startedAt t of None \<Rightarrow> Some (to_now opts) | Some s \<Rightarrow> Some s)\<rparr>) st;
         t = tx_obj st1 r
     in (tx_emit (Tx_Sent (qt_peerId t) (FileManifest (qt_transferId t) (qt_manifest t))) st1, Tx_Await (Run_Manifest r)))"

text \<open>
  The loop of \<^verbatim>\<open>pump\<close>. Each turn makes one more queued transfer active, so as many turns as the
  queue is long are enough (\<open>pump_exhausts\<close>).
\<close>

fun pump_loop :: "nat \<Rightarrow> tx_options \<Rightarrow> Sender \<Rightarrow> Sender" where
  "pump_loop 0 opts st = st"
| "pump_loop (Suc fuel) opts st =
    (if int (length (tx_active st)) < to_maxConcurrentTransfers opts
     then (case List.find (eligible st) (tx_queue st) of
         None \<Rightarrow> st
       | Some r \<Rightarrow> pump_loop fuel opts (tx_spawn (run_start opts r)
           (st\<lparr>tx_active := AList.update (qt_transferId (tx_obj st r)) r (tx_active st)\<rparr>)))
     else st)"

definition pump :: "tx_options \<Rightarrow> Sender \<Rightarrow> Sender" where
  "pump opts st = pump_loop (length (tx_queue st)) opts st"

section \<open>The methods\<close>

definition offer_transfer :: "tx_options \<Rightarrow> string \<Rightarrow> TransferSource \<Rightarrow> AttachmentManifest \<Rightarrow> Sender \<Rightarrow> Sender" where
  "offer_transfer opts peer source m st =
    (let i = to_uuid opts (tx_uuids st); r = length (tx_objects st);
         t = \<lparr>qt_transferId = i, qt_peerId = peer, qt_source = source, qt_manifest = m, qt_missingChunks = None,
              qt_paused = False, qt_cancelled = False, qt_awaitingVerification = False, qt_retryCount = 0,
              qt_bytesTransferred = 0, qt_startedAt = None\<rparr>
     in tx_spawn (\<lambda>st. (tx_emit (Tx_Sent peer (FileOffer i m)) st, Tx_Await (Offer_Sent r)))
          (st\<lparr>tx_uuids := tx_uuids st + 1, tx_objects := tx_objects st @ [t], tx_queue := tx_queue st @ [r]\<rparr>))"

definition with_transfer :: "Sender \<Rightarrow> string \<Rightarrow> (ref \<Rightarrow> Sender) \<Rightarrow> js_error + Sender" where
  "with_transfer st i f = bind_result (findTransfer st i) (\<lambda>r. Inr (f r))"

definition acceptAndStart :: "tx_options \<Rightarrow> string \<Rightarrow> int list option \<Rightarrow> Sender \<Rightarrow> js_error + Sender" where
  "acceptAndStart opts i missing st = with_transfer st i (\<lambda>r.
     pump opts (tx_progress opts Queued None r (tx_upd r (\<lambda>t. t\<lparr>qt_missingChunks := missing, qt_paused := False,
       qt_awaitingVerification := False\<rparr>) st)))"

definition tx_pause :: "tx_options \<Rightarrow> string \<Rightarrow> Sender \<Rightarrow> js_error + Sender" where
  "tx_pause opts i st = with_transfer st i (\<lambda>r.
     tx_progress opts Paused None r (tx_upd r (\<lambda>t. t\<lparr>qt_paused := True\<rparr>) st))"

definition tx_resume :: "tx_options \<Rightarrow> string \<Rightarrow> int list option \<Rightarrow> Sender \<Rightarrow> js_error + Sender" where
  "tx_resume opts i missing st = with_transfer st i (\<lambda>r.
     pump opts (tx_progress opts Queued None r (tx_upd r (\<lambda>t. t\<lparr>qt_paused := False, qt_awaitingVerification := False,
       qt_missingChunks := (case missing of Some ms \<Rightarrow> Some ms | None \<Rightarrow> qt_missingChunks t)\<rparr>) st)))"

definition tx_cancel :: "tx_options \<Rightarrow> string \<Rightarrow> Sender \<Rightarrow> js_error + Sender" where
  "tx_cancel opts i st = with_transfer st i (\<lambda>r.
     let st1 = tx_progress opts Cancelled None r (tx_upd r (\<lambda>t. t\<lparr>qt_cancelled := True, qt_paused := False,
           qt_awaitingVerification := False\<rparr>) st)
     in if map_has (tx_active st1) i then st1 else removeTransfer r st1)"

definition tx_confirm :: "tx_options \<Rightarrow> string \<Rightarrow> Sender \<Rightarrow> js_error + Sender" where
  "tx_confirm opts i st = with_transfer st i (\<lambda>r.
     removeTransfer r (tx_progress opts Completed None r (tx_upd r (\<lambda>t. t\<lparr>qt_awaitingVerification := False,
       qt_bytesTransferred := am_size (qt_manifest t)\<rparr>) st)))"

section \<open>A running transfer\<close>

definition run_end :: "ref \<Rightarrow> tx_segment" where
  "run_end r st = (st, Tx_Await (Run_Settled r))"

definition run_fail :: "tx_options \<Rightarrow> ref \<Rightarrow> string \<Rightarrow> tx_segment" where
  "run_fail opts r e st =
    (let st1 = tx_progress opts AttachmentTransferState.Failed (Some e) r (tx_upd r (\<lambda>t. t\<lparr>qt_awaitingVerification := False\<rparr>) st); t = tx_obj st1 r
     in (tx_emit (Tx_Sent (qt_peerId t) (FileError (qt_transferId t) ''transfer_failed'' e (qt_retryCount t < to_retryLimit opts))) st1,
         Tx_Await (Run_Failed r)))"

definition transfer_state :: "QueuedTransfer \<Rightarrow> AttachmentTransferState" where
  "transfer_state t = (if qt_paused t then Paused else Transferring)"

text \<open>\<^verbatim>\<open>sendWithRetry\<close> from the head of its loop on.\<close>

definition send_attempt :: "ref \<Rightarrow> int list option \<Rightarrow> frame \<Rightarrow> tx_segment" where
  "send_attempt r only f st =
    (if qt_cancelled (tx_obj st r) then run_end r st
     else if qt_paused (tx_obj st r) then (st, Tx_Await (Send_Paused r only f))
     else (tx_emit (Tx_Chunk (qt_peerId (tx_obj st r)) f) st, Tx_Await (Send_Chunk r only f)))"

definition after_pressure :: "ref \<Rightarrow> int list option \<Rightarrow> frame \<Rightarrow> tx_segment" where
  "after_pressure r only f st =
    (if qt_cancelled (tx_obj st r) then run_end r st
     else send_attempt r only (f\<lparr>cf_transferId := qt_transferId (tx_obj st r)\<rparr>) st)"

definition applyBackpressure :: "tx_options \<Rightarrow> ref \<Rightarrow> int list option \<Rightarrow> frame \<Rightarrow> int \<Rightarrow> tx_segment" where
  "applyBackpressure opts r only f amount st =
    (if \<not> to_hasBufferedAmount opts \<or> amount \<le> to_highWaterMarkBytes opts then after_pressure r only f st
     else if to_hasWaitLow opts
     then (tx_emit (Tx_WaitLow (qt_peerId (tx_obj st r))) st, Tx_Await (Pressure_Wait r only f))
     else (st, Tx_Await (Pressure_Poll r only f)))"

definition after_pause :: "ref \<Rightarrow> int list option \<Rightarrow> frame \<Rightarrow> tx_segment" where
  "after_pause r only f st =
    (if qt_cancelled (tx_obj st r) then run_end r st else (st, Tx_Await (Pressure_Check r only f)))"

definition run_frame :: "ref \<Rightarrow> int list option \<Rightarrow> frame \<Rightarrow> tx_segment" where
  "run_frame r only f st =
    (if qt_cancelled (tx_obj st r) then run_end r st
     else if qt_paused (tx_obj st r) then (st, Tx_Await (Run_Paused r only f))
     else after_pause r only f st)"

definition run_sent :: "tx_options \<Rightarrow> ref \<Rightarrow> int list option \<Rightarrow> frame \<Rightarrow> tx_segment" where
  "run_sent opts r only f st =
    (let st1 = tx_upd r (\<lambda>t. t\<lparr>qt_bytesTransferred := min (am_size (qt_manifest t)) (qt_bytesTransferred t + cf_size f)\<rparr>) st
     in if qt_cancelled (tx_obj st1 r) then run_end r st1
        else (tx_progress opts (transfer_state (tx_obj st1 r)) None r st1, Tx_Await (Run_Next r only (cf_index f + 1))))"

definition next_chunk :: "AttachmentManifest \<Rightarrow> int list option \<Rightarrow> int \<Rightarrow> int option" where
  "next_chunk m only i = List.find (\<lambda>j. case only of None \<Rightarrow> True | Some cs \<Rightarrow> j \<in> set cs) [i..am_chunkCount m - 1]"

definition run_next :: "tx_options \<Rightarrow> ref \<Rightarrow> int list option \<Rightarrow> int \<Rightarrow> tx_outcome \<Rightarrow> tx_segment" where
  "run_next opts r only i out st = (let t = tx_obj st r in
     case next_chunk (qt_manifest t) only i of
       Some j \<Rightarrow> (case out of
           Failed e \<Rightarrow> run_fail opts r e st
         | _ \<Rightarrow> run_frame r only (chunk_frame_at (ts_content (qt_source t)) (qt_manifest t) j) st)
     | None \<Rightarrow>
         if qt_cancelled t then run_end r st
         else (tx_emit (Tx_WaitPending (qt_peerId t)) st, Tx_Await (Run_Pending r)))"

definition run_pending :: "tx_options \<Rightarrow> ref \<Rightarrow> tx_segment" where
  "run_pending opts r st =
    (if qt_cancelled (tx_obj st r) then run_end r st
     else
       let st1 = tx_progress opts Verifying None r (tx_upd r (\<lambda>t. t\<lparr>qt_awaitingVerification := True\<rparr>) st); t = tx_obj st1 r
       in (tx_emit (Tx_Sent (qt_peerId t) (FileComplete (qt_transferId t) (am_contentHash (qt_manifest t)))) st1, Tx_Await (Run_Complete r)))"

definition send_failed :: "tx_options \<Rightarrow> ref \<Rightarrow> int list option \<Rightarrow> frame \<Rightarrow> string \<Rightarrow> tx_segment" where
  "send_failed opts r only f e st =
    (let st1 = tx_upd r (\<lambda>t. t\<lparr>qt_retryCount := qt_retryCount t + 1\<rparr>) st; n = qt_retryCount (tx_obj st1 r)
     in if n > to_retryLimit opts then run_fail opts r e st1
        else (tx_emit (Tx_Delay (to_retryDelayMs opts * n)) st1, Tx_Await (Send_Delay r only f)))"

text \<open>The \<^verbatim>\<open>finally\<close> of a run: the transfer leaves the active map and the next ones are started.\<close>

definition run_finally :: "tx_options \<Rightarrow> ref \<Rightarrow> Sender \<Rightarrow> Sender" where
  "run_finally opts r st =
    (let st1 = st\<lparr>tx_active := AList.delete (qt_transferId (tx_obj st r)) (tx_active st)\<rparr>;
         st2 = (if qt_cancelled (tx_obj st1 r) then removeTransfer r st1 else st1)
     in pump opts st2)"

fun tx_continue :: "tx_options \<Rightarrow> tx_pc \<Rightarrow> tx_outcome \<Rightarrow> tx_segment" where
  "tx_continue opts (Offer_Sent r) out st = (case out of
     Failed e \<Rightarrow> (st, Tx_Return) | _ \<Rightarrow> (tx_progress opts Offered None r st, Tx_Return))"
| "tx_continue opts (Run_Manifest r) out st = (case out of
     Failed e \<Rightarrow> run_end r st
   | _ \<Rightarrow> if qt_cancelled (tx_obj st r) then run_end r st
         else (tx_progress opts (transfer_state (tx_obj st r)) None r st, Tx_Await (Run_Next r (qt_missingChunks (tx_obj st r)) 0)))"
| "tx_continue opts (Run_Next r only i) out st = run_next opts r only i out st"
| "tx_continue opts (Run_Paused r only f) out st =
     (if qt_paused (tx_obj st r) then (st, Tx_Await (Run_Paused r only f)) else after_pause r only f st)"
| "tx_continue opts (Pressure_Check r only f) out st =
     applyBackpressure opts r only f (case out of Buffered n \<Rightarrow> n | _ \<Rightarrow> 0) st"
| "tx_continue opts (Pressure_Wait r only f) out st = (case out of
     Failed e \<Rightarrow> run_fail opts r e st | _ \<Rightarrow> after_pressure r only f st)"
| "tx_continue opts (Pressure_Poll r only f) out st =
     (if (case out of Buffered n \<Rightarrow> n | _ \<Rightarrow> 0) > to_lowWaterMarkBytes opts then (st, Tx_Await (Pressure_Poll r only f))
      else after_pressure r only f st)"
| "tx_continue opts (Send_Paused r only f) out st =
     (if qt_paused (tx_obj st r) then (st, Tx_Await (Send_Paused r only f)) else send_attempt r only f st)"
| "tx_continue opts (Send_Chunk r only f) out st = (case out of
     Failed e \<Rightarrow> send_failed opts r only f e st | _ \<Rightarrow> run_sent opts r only f st)"
| "tx_continue opts (Send_Delay r only f) out st = send_attempt r only f st"
| "tx_continue opts (Run_Pending r) out st = (case out of
     Failed e \<Rightarrow> run_fail opts r e st | _ \<Rightarrow> run_pending opts r st)"
| "tx_continue opts (Run_Complete r) out st = (case out of
     Failed e \<Rightarrow> run_fail opts r e st | _ \<Rightarrow> run_end r st)"
| "tx_continue opts (Run_Failed r) out st = run_end r st"
| "tx_continue opts (Run_Settled r) out st = (run_finally opts r st, Tx_Return)"

datatype tx_event =
    Do_Offer string TransferSource AttachmentManifest
  | Do_Accept string "int list option"
  | Do_Pause string
  | Do_Resume string "int list option"
  | Do_Cancel string
  | Do_Confirm string
  | Continue task tx_outcome

text \<open>A method that throws leaves the sender as it was.\<close>

definition or_unchanged :: "Sender \<Rightarrow> js_error + Sender \<Rightarrow> Sender" where
  "or_unchanged st r = (case r of Inl _ \<Rightarrow> st | Inr st' \<Rightarrow> st')"

fun tx_apply :: "tx_options \<Rightarrow> tx_event \<Rightarrow> Sender \<Rightarrow> Sender" where
  "tx_apply opts (Do_Offer peer source m) st = offer_transfer opts peer source m st"
| "tx_apply opts (Do_Accept i missing) st = or_unchanged st (acceptAndStart opts i missing st)"
| "tx_apply opts (Do_Pause i) st = or_unchanged st (tx_pause opts i st)"
| "tx_apply opts (Do_Resume i missing) st = or_unchanged st (tx_resume opts i missing st)"
| "tx_apply opts (Do_Cancel i) st = or_unchanged st (tx_cancel opts i st)"
| "tx_apply opts (Do_Confirm i) st = or_unchanged st (tx_confirm opts i st)"
| "tx_apply opts (Continue t out) st = (case map_of (tx_tasks st) t of
     None \<Rightarrow> st | Some p \<Rightarrow> tx_settle t (tx_continue opts p out st))"

inductive tx_reachable :: "tx_options \<Rightarrow> Sender \<Rightarrow> bool" for opts where
  tx_init: "tx_reachable opts new_sender"
| tx_step: "tx_reachable opts st \<Longrightarrow> tx_reachable opts (tx_apply opts e st)"

end
