(* ===== verification/Sender_Safety.thy ===== *)
theory Sender_Safety
  imports File_Sender
begin

text \<open>
  Safety of the attachment sender under every interleaving: what it sends, to whom and when, the
  limit on concurrent transfers, and what \<^verbatim>\<open>pump\<close> leaves. The proofs follow the segments of the
  code; the identities of the transfers (peer, identifier, file, manifest) change only when a
  transfer is offered.
\<close>

section \<open>The invariant\<close>

type_synonym tx_identity = "string \<times> string \<times> TransferSource \<times> AttachmentManifest"

definition tx_immut :: "QueuedTransfer \<Rightarrow> tx_identity" where
  "tx_immut t = (qt_peerId t, qt_transferId t, qt_source t, qt_manifest t)"

definition tx_ids :: "Sender \<Rightarrow> tx_identity list" where
  "tx_ids st = map tx_immut (tx_objects st)"

text \<open>A frame is the chunk at its index of the file of a transfer.\<close>

definition chunk_of :: "tx_identity \<Rightarrow> frame \<Rightarrow> bool" where
  "chunk_of d f \<longleftrightarrow> (case d of (peer, i, src, m) \<Rightarrow>
     0 \<le> cf_index f \<and> cf_index f < am_chunkCount m
     \<and> f\<lparr>cf_transferId := []\<rparr> = chunk_frame_at (ts_content src) m (cf_index f))"

definition chunk_sent_ok :: "tx_identity list \<Rightarrow> string \<Rightarrow> frame \<Rightarrow> bool" where
  "chunk_sent_ok os peer f \<longleftrightarrow>
     (\<exists>src m. (peer, cf_transferId f, src, m) \<in> set os \<and> chunk_of (peer, cf_transferId f, src, m) f)"

fun tx_effect_ok :: "tx_identity list \<Rightarrow> tx_effect \<Rightarrow> bool" where
  "tx_effect_ok os (Tx_Chunk peer f) = chunk_sent_ok os peer f"
| "tx_effect_ok os _ = True"

definition raw_ok :: "tx_identity list \<Rightarrow> ref \<Rightarrow> frame \<Rightarrow> bool" where
  "raw_ok os r f \<longleftrightarrow> r < length os \<and> chunk_of (os ! r) f"

definition addressed_ok :: "tx_identity list \<Rightarrow> ref \<Rightarrow> frame \<Rightarrow> bool" where
  "addressed_ok os r f \<longleftrightarrow> raw_ok os r f \<and> cf_transferId f = fst (snd (os ! r))"

fun tx_pc_ok :: "tx_identity list \<Rightarrow> tx_pc \<Rightarrow> bool" where
  "tx_pc_ok os (Run_Manifest r) = (r < length os)"
| "tx_pc_ok os (Run_Next r only i) = (r < length os \<and> 0 \<le> i)"
| "tx_pc_ok os (Run_Paused r only f) = raw_ok os r f"
| "tx_pc_ok os (Pressure_Check r only f) = raw_ok os r f"
| "tx_pc_ok os (Pressure_Wait r only f) = raw_ok os r f"
| "tx_pc_ok os (Pressure_Poll r only f) = raw_ok os r f"
| "tx_pc_ok os (Send_Paused r only f) = addressed_ok os r f"
| "tx_pc_ok os (Send_Chunk r only f) = addressed_ok os r f"
| "tx_pc_ok os (Send_Delay r only f) = addressed_ok os r f"
| "tx_pc_ok os _ = True"

fun tx_point_ok :: "tx_identity list \<Rightarrow> tx_point \<Rightarrow> bool" where
  "tx_point_ok os (Tx_Await p) = tx_pc_ok os p"
| "tx_point_ok os Tx_Return = True"

definition bytes_ok :: "QueuedTransfer \<Rightarrow> bool" where
  "bytes_ok t \<longleftrightarrow> qt_bytesTransferred t \<le> max 0 (am_size (qt_manifest t))"

definition tx_inv :: "tx_options \<Rightarrow> Sender \<Rightarrow> bool" where
  "tx_inv opts st \<longleftrightarrow> list_all (\<lambda>r. r < length (tx_objects st)) (tx_queue st)
     \<and> list_all (\<lambda>(t, p). tx_pc_ok (tx_ids st) p) (tx_tasks st)
     \<and> list_all (tx_effect_ok (tx_ids st)) (tx_log st)
     \<and> list_all bytes_ok (tx_objects st)
     \<and> int (length (tx_active st)) \<le> max 0 (to_maxConcurrentTransfers opts)"

section \<open>Primitives keep the invariant\<close>

lemma tx_ids_simps [simp]:
  "tx_ids (tx_emit e st) = tx_ids st" "tx_ids (tx_progress opts s err r st) = tx_ids st"
  "tx_ids (removeTransfer r st) = tx_ids st" "tx_ids (st\<lparr>tx_active := a\<rparr>) = tx_ids st"
  "tx_ids (st\<lparr>tx_tasks := ts\<rparr>) = tx_ids st" "tx_ids (st\<lparr>tx_nextTask := k\<rparr>) = tx_ids st"
  by (simp_all add: tx_ids_def tx_emit_def tx_progress_def removeTransfer_def Let_def)

lemma tx_ids_upd [simp]: "(\<And>t. tx_immut (f t) = tx_immut t) \<Longrightarrow> tx_ids (tx_upd r f st) = tx_ids st"
  unfolding tx_ids_def tx_upd_def tx_obj_def
  by (cases "r < length (tx_objects st)") (simp_all add: map_update list_update_beyond list_update_same_conv)

lemma tx_ids_nth: "r < length (tx_ids st) \<Longrightarrow> tx_ids st ! r = tx_immut (tx_obj st r)"
  by (simp add: tx_ids_def tx_obj_def)

lemma length_tx_ids [simp]: "length (tx_ids st) = length (tx_objects st)"
  by (simp add: tx_ids_def)

lemma tx_inv_emit: "tx_inv opts st \<Longrightarrow> tx_effect_ok (tx_ids st) e \<Longrightarrow> tx_inv opts (tx_emit e st)"
  by (simp add: tx_inv_def) (simp add: tx_emit_def)

lemma tx_inv_progress: "tx_inv opts st \<Longrightarrow> tx_inv opts (tx_progress o' s err r st)"
  unfolding tx_progress_def Let_def by (rule tx_inv_emit) simp_all

lemma tx_inv_upd:
  assumes "tx_inv opts st" "\<And>t. tx_immut (f t) = tx_immut t" "\<And>t. bytes_ok t \<Longrightarrow> bytes_ok (f t)"
  shows "tx_inv opts (tx_upd r f st)"
proof -
  have "list_all bytes_ok ((tx_objects st)[r := f (tx_obj st r)])"
  proof (cases "r < length (tx_objects st)")
    case True
    then have "bytes_ok (tx_obj st r)" using assms(1) by (auto simp: tx_inv_def list_all_iff tx_obj_def)
    then show ?thesis
      using assms(1,3) set_update_subset_insert [of "tx_objects st" r "f (tx_obj st r)"]
      by (auto simp: tx_inv_def list_all_iff)
  qed (use assms(1) in \<open>simp add: tx_inv_def list_update_beyond\<close>)
  then show ?thesis
    using assms(1) unfolding tx_inv_def tx_ids_upd [OF assms(2)] by (simp add: tx_upd_def)
qed

lemma tx_inv_remove: "tx_inv opts st \<Longrightarrow> tx_inv opts (removeTransfer r st)"
  by (simp add: tx_inv_def) (auto simp: removeTransfer_def list_all_iff dest: notin_set_remove1 in_set_remove1)

definition tx_seg :: "tx_options \<Rightarrow> tx_identity list \<Rightarrow> Sender \<times> tx_point \<Rightarrow> bool" where
  "tx_seg opts os res \<longleftrightarrow> tx_inv opts (fst res) \<and> tx_ids (fst res) = os \<and> tx_point_ok os (snd res)"

lemma tx_segI: "tx_inv opts st \<Longrightarrow> tx_ids st = os \<Longrightarrow> tx_point_ok os n \<Longrightarrow> tx_seg opts os (st, n)"
  by (simp add: tx_seg_def)

lemma tx_inv_settle:
  assumes "tx_seg opts os res"
  shows "tx_inv opts (tx_settle me res) \<and> tx_ids (tx_settle me res) = os"
proof -
  obtain st n where res: "res = (st, n)" by force
  have "list_all (\<lambda>(t, p). tx_pc_ok os p) (AList.update me p ts)"
    if "list_all (\<lambda>(t, p). tx_pc_ok os p) ts" "tx_pc_ok os p" for p ts
    using that by (induction ts) auto
  moreover have "list_all (\<lambda>(t, p). tx_pc_ok os p) (AList.delete me ts)"
    if "list_all (\<lambda>(t, p). tx_pc_ok os p) ts" for ts
    using that set_delete_subset [of me ts] unfolding list_all_iff by fast
  ultimately show ?thesis
    using assms unfolding res tx_settle_def tx_seg_def tx_inv_def
    by (auto split: tx_point.split)
qed

lemma tx_inv_spawn:
  assumes "tx_inv opts st" "\<And>st. tx_inv opts st \<Longrightarrow> tx_ids st = os \<Longrightarrow> tx_seg opts os (body st)" "tx_ids st = os"
  shows "tx_inv opts (tx_spawn body st) \<and> tx_ids (tx_spawn body st) = os"
proof -
  have "tx_inv opts (st\<lparr>tx_nextTask := k\<rparr>)" for k using assms(1) by (simp add: tx_inv_def)
  then show ?thesis unfolding tx_spawn_def Let_def using assms(2,3) by (intro tx_inv_settle) simp
qed

section \<open>Starting and calling\<close>

lemma tx_immut_simps [simp]:
  "tx_immut (t\<lparr>qt_startedAt := a\<rparr>) = tx_immut t" "tx_immut (t\<lparr>qt_missingChunks := b\<rparr>) = tx_immut t"
  "tx_immut (t\<lparr>qt_paused := c\<rparr>) = tx_immut t" "tx_immut (t\<lparr>qt_cancelled := d\<rparr>) = tx_immut t"
  "tx_immut (t\<lparr>qt_awaitingVerification := e\<rparr>) = tx_immut t" "tx_immut (t\<lparr>qt_retryCount := g\<rparr>) = tx_immut t"
  "tx_immut (t\<lparr>qt_bytesTransferred := h\<rparr>) = tx_immut t"
  by (simp_all add: tx_immut_def)

lemma bytes_ok_simps [simp]:
  "bytes_ok (t\<lparr>qt_startedAt := a\<rparr>) = bytes_ok t" "bytes_ok (t\<lparr>qt_missingChunks := b\<rparr>) = bytes_ok t"
  "bytes_ok (t\<lparr>qt_paused := c\<rparr>) = bytes_ok t" "bytes_ok (t\<lparr>qt_cancelled := d\<rparr>) = bytes_ok t"
  "bytes_ok (t\<lparr>qt_awaitingVerification := e\<rparr>) = bytes_ok t" "bytes_ok (t\<lparr>qt_retryCount := g\<rparr>) = bytes_ok t"
  "bytes_ok (t\<lparr>qt_bytesTransferred := am_size (qt_manifest t)\<rparr>)"
  "bytes_ok (t\<lparr>qt_bytesTransferred := min (am_size (qt_manifest t)) n\<rparr>)"
  by (simp_all add: bytes_ok_def)

lemma run_start_seg: "tx_inv opts st \<Longrightarrow> tx_ids st = os \<Longrightarrow> r < length os \<Longrightarrow> tx_seg opts os (run_start opts r st)"
  unfolding run_start_def Let_def by (intro tx_segI tx_inv_emit tx_inv_upd) simp_all

lemma pump_loop_inv:
  "tx_inv opts st \<Longrightarrow> tx_inv opts (pump_loop n opts st) \<and> tx_ids (pump_loop n opts st) = tx_ids st"
proof (induction n arbitrary: st)
  case (Suc n)
  show ?case
  proof (cases "int (length (tx_active st)) < to_maxConcurrentTransfers opts")
    case True
    show ?thesis
    proof (cases "List.find (eligible st) (tx_queue st)")
      case (Some r)
      let ?st = "st\<lparr>tx_active := AList.update (qt_transferId (tx_obj st r)) r (tx_active st)\<rparr>"
      have r: "r < length (tx_objects st)"
        using find_set [OF Some] Suc.prems by (auto simp: tx_inv_def list_all_iff)
      have "length (AList.update k r m) \<le> length m + 1" for k and m :: "(string \<times> ref) list"
        by (induction m) auto
      then have "length (tx_active ?st) \<le> length (tx_active st) + 1" by simp
      then have "int (length (tx_active ?st)) \<le> to_maxConcurrentTransfers opts"
        using True by linarith
      then have "tx_inv opts ?st" using Suc.prems by (simp add: tx_inv_def)
      from tx_inv_spawn [OF this, of "tx_ids st" "run_start opts r"] r
      have "tx_inv opts (tx_spawn (run_start opts r) ?st) \<and> tx_ids (tx_spawn (run_start opts r) ?st) = tx_ids st"
        by (simp add: run_start_seg)
      then show ?thesis using Suc.IH True Some by simp
    qed (use True Suc.prems in simp)
  qed (use Suc.prems in simp)
qed simp

lemma pump_inv: "tx_inv opts st \<Longrightarrow> tx_inv opts (pump opts st)"
  unfolding pump_def by (simp add: pump_loop_inv)

lemma tx_ids_pump: "tx_inv opts st \<Longrightarrow> tx_ids (pump opts st) = tx_ids st"
  unfolding pump_def by (simp add: pump_loop_inv)

lemma with_transfer_inv:
  "tx_inv opts st \<Longrightarrow> (\<And>r. tx_inv opts (f r)) \<Longrightarrow> tx_inv opts (or_unchanged st (with_transfer st i f))"
  by (cases "findTransfer st i") (simp_all add: or_unchanged_def with_transfer_def)

lemma tx_calls_inv:
  assumes "tx_inv opts st"
  shows "tx_inv opts (or_unchanged st (acceptAndStart opts i ms st))" "tx_inv opts (or_unchanged st (tx_pause opts i st))"
    "tx_inv opts (or_unchanged st (tx_resume opts i ms st))" "tx_inv opts (or_unchanged st (tx_cancel opts i st))"
    "tx_inv opts (or_unchanged st (tx_confirm opts i st))"
proof -
  have upd: "tx_inv opts (tx_progress opts s None r (tx_upd r f st))"
    if "\<And>t. tx_immut (f t) = tx_immut t" "\<And>t. bytes_ok t \<Longrightarrow> bytes_ok (f t)" for f s r
    by (rule tx_inv_progress [OF tx_inv_upd [OF assms that]])
  show "tx_inv opts (or_unchanged st (acceptAndStart opts i ms st))" "tx_inv opts (or_unchanged st (tx_pause opts i st))"
    "tx_inv opts (or_unchanged st (tx_resume opts i ms st))" "tx_inv opts (or_unchanged st (tx_cancel opts i st))"
    "tx_inv opts (or_unchanged st (tx_confirm opts i st))"
    unfolding acceptAndStart_def tx_pause_def tx_resume_def tx_cancel_def tx_confirm_def Let_def
    by (rule with_transfer_inv [OF assms], auto intro!: pump_inv tx_inv_remove upd simp: bytes_ok_def)+
qed

section \<open>Segments of a run\<close>

lemma run_end_seg: "tx_inv opts st \<Longrightarrow> tx_ids st = os \<Longrightarrow> tx_seg opts os (run_end r st)"
  unfolding run_end_def by (intro tx_segI) simp_all

lemma run_fail_seg: "tx_inv opts st \<Longrightarrow> tx_ids st = os \<Longrightarrow> tx_seg opts os (run_fail opts r e st)"
  unfolding run_fail_def Let_def by (intro tx_segI tx_inv_emit tx_inv_progress tx_inv_upd) simp_all

lemma send_attempt_seg:
  assumes "tx_inv opts st" "tx_ids st = os" "addressed_ok os r f"
  shows "tx_seg opts os (send_attempt r only f st)"
proof -
  have "tx_effect_ok os (Tx_Chunk (qt_peerId (tx_obj st r)) f)"
  proof -
    have r: "r < length os" "os ! r = tx_immut (tx_obj st r)"
      using assms tx_ids_nth [of r st] by (auto simp: addressed_ok_def raw_ok_def)
    then show ?thesis
      using assms(3) nth_mem [OF r(1)] by (auto simp: addressed_ok_def raw_ok_def chunk_sent_ok_def tx_immut_def)
  qed
  then show ?thesis
    unfolding send_attempt_def using assms by (auto intro!: run_end_seg tx_segI tx_inv_emit)
qed

lemma after_pressure_seg:
  assumes "tx_inv opts st" "tx_ids st = os" "raw_ok os r f"
  shows "tx_seg opts os (after_pressure r only f st)"
proof -
  have "addressed_ok os r (f\<lparr>cf_transferId := qt_transferId (tx_obj st r)\<rparr>)"
    using assms tx_ids_nth [of r st] by (auto simp: addressed_ok_def raw_ok_def chunk_of_def tx_immut_def)
  then show ?thesis
    unfolding after_pressure_def using assms by (auto intro!: run_end_seg send_attempt_seg)
qed

lemma applyBackpressure_seg:
  "tx_inv opts st \<Longrightarrow> tx_ids st = os \<Longrightarrow> raw_ok os r f \<Longrightarrow> tx_seg opts os (applyBackpressure o' r only f n st)"
  unfolding applyBackpressure_def by (auto intro!: after_pressure_seg tx_segI tx_inv_emit)

lemma after_pause_seg:
  "tx_inv opts st \<Longrightarrow> tx_ids st = os \<Longrightarrow> raw_ok os r f \<Longrightarrow> tx_seg opts os (after_pause r only f st)"
  unfolding after_pause_def by (auto intro!: run_end_seg tx_segI)

lemma run_frame_seg:
  "tx_inv opts st \<Longrightarrow> tx_ids st = os \<Longrightarrow> raw_ok os r f \<Longrightarrow> tx_seg opts os (run_frame r only f st)"
  unfolding run_frame_def by (auto intro!: run_end_seg after_pause_seg tx_segI)

lemma run_sent_seg:
  "tx_inv opts st \<Longrightarrow> tx_ids st = os \<Longrightarrow> addressed_ok os r f \<Longrightarrow> tx_seg opts os (run_sent opts r only f st)"
  unfolding run_sent_def Let_def
  by (auto intro!: run_end_seg tx_segI tx_inv_progress tx_inv_upd simp: addressed_ok_def raw_ok_def chunk_of_def)

lemma next_chunk_range: "next_chunk m only i = Some j \<Longrightarrow> i \<le> j \<and> j < am_chunkCount m"
  unfolding next_chunk_def using find_set by fastforce

lemma run_next_seg:
  assumes "tx_inv opts st" "tx_ids st = os" "r < length os" "0 \<le> i"
  shows "tx_seg opts os (run_next opts r only i out st)"
proof -
  have "raw_ok os r (chunk_frame_at (ts_content (qt_source (tx_obj st r))) (qt_manifest (tx_obj st r)) j)"
    if "next_chunk (qt_manifest (tx_obj st r)) only i = Some j" for j
    using assms next_chunk_range [OF that] tx_ids_nth [of r st]
    by (auto simp: raw_ok_def chunk_of_def tx_immut_def chunk_frame_at_def Let_def)
  then show ?thesis
    unfolding run_next_def Let_def using assms
    by (auto split: option.split tx_outcome.split intro!: run_fail_seg run_frame_seg run_end_seg tx_segI tx_inv_emit)
qed

lemma run_pending_seg: "tx_inv opts st \<Longrightarrow> tx_ids st = os \<Longrightarrow> tx_seg opts os (run_pending opts r st)"
  unfolding run_pending_def Let_def
  by (auto intro!: run_end_seg tx_segI tx_inv_emit tx_inv_progress tx_inv_upd)

lemma send_failed_seg:
  "tx_inv opts st \<Longrightarrow> tx_ids st = os \<Longrightarrow> addressed_ok os r f \<Longrightarrow> tx_seg opts os (send_failed opts r only f e st)"
  unfolding send_failed_def Let_def
  by (auto intro!: run_fail_seg tx_segI tx_inv_emit tx_inv_upd)

lemma run_finally_inv:
  assumes "tx_inv opts st"
  shows "tx_inv opts (run_finally opts r st) \<and> tx_ids (run_finally opts r st) = tx_ids st"
proof -
  let ?st = "st\<lparr>tx_active := AList.delete (qt_transferId (tx_obj st r)) (tx_active st)\<rparr>"
  have "length (AList.delete k m) \<le> length m" for k and m :: "(string \<times> ref) list"
    by (simp add: AList.delete_eq)
  then have "tx_inv opts ?st"
    using assms unfolding tx_inv_def by (auto intro: order_trans [OF of_nat_mono])
  then show ?thesis
    unfolding run_finally_def Let_def using tx_ids_pump pump_inv tx_inv_remove by (simp add: tx_obj_def)
qed

lemma tx_continue_seg:
  assumes "tx_inv opts st" "tx_pc_ok (tx_ids st) p"
  shows "tx_seg opts (tx_ids st) (tx_continue opts p out st)"
  using assms run_finally_inv [OF assms(1)]
  by (cases p)
    (auto split: tx_outcome.split intro!: run_end_seg run_next_seg after_pause_seg applyBackpressure_seg run_fail_seg
      after_pressure_seg send_attempt_seg send_failed_seg run_sent_seg run_pending_seg tx_segI tx_inv_progress)

section \<open>Reachable senders\<close>

lemma tx_effect_ok_append: "tx_effect_ok os e \<Longrightarrow> tx_effect_ok (os @ os') e"
  by (cases e) (auto simp: chunk_sent_ok_def)

lemma tx_pc_ok_append: "tx_pc_ok os p \<Longrightarrow> tx_pc_ok (os @ os') p"
  by (cases p) (auto simp: raw_ok_def addressed_ok_def nth_append)

lemma offer_transfer_inv:
  assumes "tx_inv opts st"
  shows "tx_inv opts (offer_transfer opts peer src m st)"
proof -
  define t where "t = \<lparr>qt_transferId = to_uuid opts (tx_uuids st), qt_peerId = peer, qt_source = src, qt_manifest = m,
    qt_missingChunks = None, qt_paused = False, qt_cancelled = False, qt_awaitingVerification = False,
    qt_retryCount = 0, qt_bytesTransferred = 0, qt_startedAt = None\<rparr>"
  let ?st = "st\<lparr>tx_uuids := tx_uuids st + 1, tx_objects := tx_objects st @ [t], tx_queue := tx_queue st @ [length (tx_objects st)]\<rparr>"
  have ids: "tx_ids ?st = tx_ids st @ [tx_immut t]" by (simp add: tx_ids_def)
  have "bytes_ok t" by (simp add: bytes_ok_def t_def)
  then have "tx_inv opts ?st"
    using assms unfolding tx_inv_def ids by (auto simp: list_all_iff tx_effect_ok_append tx_pc_ok_append)
  then have "tx_inv opts (tx_spawn (\<lambda>st. (tx_emit (Tx_Sent peer (FileOffer (to_uuid opts (tx_uuids st')) m)) st, Tx_Await (Offer_Sent r))) ?st)" for st' r
    by (rule tx_inv_spawn [THEN conjunct1]) (auto intro!: tx_segI tx_inv_emit)
  then show ?thesis unfolding offer_transfer_def Let_def t_def .
qed

lemma tx_apply_inv: "tx_inv opts st \<Longrightarrow> tx_inv opts (tx_apply opts e st)"
proof (cases e)
  case (Continue t out)
  assume inv: "tx_inv opts st"
  have "tx_pc_ok (tx_ids st) p" if "map_of (tx_tasks st) t = Some p" for p
    using inv map_of_SomeD [OF that] by (auto simp: tx_inv_def list_all_iff)
  then show ?thesis
    using Continue inv tx_inv_settle [OF tx_continue_seg] by (auto split: option.split)
qed (simp_all add: offer_transfer_inv tx_calls_inv)

lemma tx_reachable_inv: "tx_reachable opts st \<Longrightarrow> tx_inv opts st"
proof (induction rule: tx_reachable.induct)
  case tx_init
  show ?case by (simp add: tx_inv_def new_sender_def)
qed (rule tx_apply_inv)

text \<open>C12: In every reachable state of the sender each chunk ever handed to the data channel went to the
  peer of its transfer, carries the identifier of that transfer and is exactly the chunk of its
  file at its index; no more transfers run at once than the limit allows, and no transfer reports
  more bytes than its file has.\<close>

theorem sender_integrity:
  assumes "tx_reachable opts st"
  shows "list_all (tx_effect_ok (tx_ids st)) (tx_log st)
    \<and> int (length (tx_active st)) \<le> max 0 (to_maxConcurrentTransfers opts)
    \<and> list_all bytes_ok (tx_objects st)"
  using tx_reachable_inv [OF assms] by (simp add: tx_inv_def)

definition tx_run :: "tx_options \<Rightarrow> tx_event list \<Rightarrow> Sender" where
  "tx_run opts es = foldl (\<lambda>st e. tx_apply opts e st) new_sender es"

lemma tx_run_reachable: "tx_reachable opts (tx_run opts es)"
proof (induction es rule: rev_induct)
  case (snoc e es)
  then show ?case using tx_step [of opts "tx_run opts es" e] by (simp add: tx_run_def)
qed (simp add: tx_run_def tx_init)

definition sample_tx_options :: tx_options where
  "sample_tx_options = \<lparr>to_maxConcurrentTransfers = 2, to_highWaterMarkBytes = 10, to_lowWaterMarkBytes = 5,
     to_retryLimit = 0, to_retryDelayMs = 1, to_hasBufferedAmount = False, to_hasWaitLow = False,
     to_uuid = (\<lambda>n. replicate n (CHR ''x'')), to_now = ''now''\<rparr>"

theorem sender_integrity_witness:
  "\<forall>m. int (length (tx_active (tx_run sample_tx_options [Do_Offer ''peer0001'' sample_file m, Do_Accept [] None]))) \<le> 2"
  using sender_integrity [OF tx_run_reachable, of sample_tx_options "[Do_Offer ''peer0001'' sample_file _, Do_Accept [] None]"]
  by (simp add: sample_tx_options_def)

section \<open>What pump leaves\<close>

lemma length_filter_less_strict:
  assumes "x \<in> set xs" "p x" "\<not> q x" "\<And>y. q y \<Longrightarrow> p y"
  shows "length (filter q xs) < length (filter p xs)"
  using assms(1)
proof (induction xs)
  case (Cons y ys)
  have "length (filter q ys) \<le> length (filter p ys)" for ys using assms(4) by (induction ys) auto
  from this [of ys] show ?case using Cons assms(2-4) by (cases "x = y") auto
qed simp

definition not_active :: "Sender \<Rightarrow> ref list" where
  "not_active st = filter (\<lambda>r. \<not> map_has (tx_active st) (qt_transferId (tx_obj st r))) (tx_queue st)"

lemma tx_obj_run_start:
  "qt_transferId (tx_obj (tx_spawn (run_start opts r) st) k) = qt_transferId (tx_obj st k)"
  "tx_queue (tx_spawn (run_start opts r) st) = tx_queue st" "tx_active (tx_spawn (run_start opts r) st) = tx_active st"
  by (cases "k = r"; cases "r < length (tx_objects st)";
      simp add: tx_spawn_def tx_settle_def run_start_def tx_emit_def tx_upd_def tx_obj_def Let_def list_update_beyond)
    (simp_all add: tx_spawn_def tx_settle_def run_start_def tx_emit_def tx_upd_def Let_def)

lemma pump_loop_exhausts:
  "length (not_active st) \<le> n \<Longrightarrow> st' = pump_loop n opts st \<Longrightarrow>
   to_maxConcurrentTransfers opts \<le> int (length (tx_active st')) \<or> List.find (eligible st') (tx_queue st') = None"
proof (induction n arbitrary: st)
  case 0
  then have "\<forall>r \<in> set (tx_queue st). map_has (tx_active st) (qt_transferId (tx_obj st r))"
    by (simp add: not_active_def filter_empty_conv)
  then show ?case using 0(2) by (simp add: find_None_iff eligible_def Let_def)
next
  case (Suc n)
  show ?case
  proof (cases "int (length (tx_active st)) < to_maxConcurrentTransfers opts")
    case True
    show ?thesis
    proof (cases "List.find (eligible st) (tx_queue st)")
      case (Some r)
      let ?act = "AList.update (qt_transferId (tx_obj st r)) r (tx_active st)"
      let ?st = "tx_spawn (run_start opts r) (st\<lparr>tx_active := ?act\<rparr>)"
      have r: "r \<in> set (tx_queue st)" "\<not> map_has (tx_active st) (qt_transferId (tx_obj st r))"
        using find_set [OF Some] by (auto simp: eligible_def Let_def)
      have "tx_obj (st\<lparr>tx_active := ?act\<rparr>) k = tx_obj st k" for k by (simp add: tx_obj_def)
      then have na: "not_active ?st = filter (\<lambda>k. \<not> map_has ?act (qt_transferId (tx_obj st k))) (tx_queue st)"
        unfolding not_active_def by (simp add: tx_obj_run_start)
      have "length (not_active ?st) < length (not_active st)"
        unfolding na not_active_def [of st]
        using r by (intro length_filter_less_strict [of r]) auto
      then have "length (not_active ?st) \<le> n" using Suc.prems(1) by simp
      from Suc.IH [OF this] Suc.prems(2) True Some show ?thesis by simp
    qed (use Suc.prems True in simp)
  qed (use Suc.prems in simp)
qed

text \<open>C27: The loop that starts transfers ends only when the limit of concurrent transfers is reached or
  nothing in the queue may be started, so no waiting transfer is forgotten.\<close>

theorem pump_exhausts:
  "to_maxConcurrentTransfers opts \<le> int (length (tx_active (pump opts st)))
   \<or> List.find (eligible (pump opts st)) (tx_queue (pump opts st)) = None"
  using pump_loop_exhausts [of st "length (tx_queue st)"] unfolding pump_def
  by (simp add: not_active_def)

section \<open>Chunks are sent only while a transfer runs\<close>

definition chunk_entries :: "tx_effect list \<Rightarrow> tx_effect list" where
  "chunk_entries es = filter (\<lambda>e. case e of Tx_Chunk _ _ \<Rightarrow> True | _ \<Rightarrow> False) es"

lemma chunk_entries_emit [simp]:
  "chunk_entries (tx_log (tx_emit e st)) = chunk_entries (tx_log st) @ (case e of Tx_Chunk _ _ \<Rightarrow> [e] | _ \<Rightarrow> [])"
  by (cases e) (simp_all add: chunk_entries_def tx_emit_def)

lemma chunk_entries_simps [simp]:
  "chunk_entries (tx_log (tx_progress opts s err r st)) = chunk_entries (tx_log st)"
  "chunk_entries (tx_log (tx_upd r f st)) = chunk_entries (tx_log st)"
  "chunk_entries (tx_log (removeTransfer r st)) = chunk_entries (tx_log st)"
  "chunk_entries (tx_log (tx_settle me res)) = chunk_entries (tx_log (fst res))"
  by (simp_all add: tx_progress_def Let_def tx_upd_def removeTransfer_def tx_settle_def split: prod.split)

lemma chunk_entries_pump_loop [simp]: "chunk_entries (tx_log (pump_loop n opts st)) = chunk_entries (tx_log st)"
  by (induction n arbitrary: st) (auto split: option.split simp: tx_spawn_def run_start_def Let_def)

lemma chunk_entries_pump [simp]: "chunk_entries (tx_log (pump opts st)) = chunk_entries (tx_log st)"
  by (simp add: pump_def)

lemma chunk_entries_calls:
  "chunk_entries (tx_log (or_unchanged st (acceptAndStart opts i ms st))) = chunk_entries (tx_log st)"
  "chunk_entries (tx_log (or_unchanged st (tx_pause opts i st))) = chunk_entries (tx_log st)"
  "chunk_entries (tx_log (or_unchanged st (tx_resume opts i ms st))) = chunk_entries (tx_log st)"
  "chunk_entries (tx_log (or_unchanged st (tx_cancel opts i st))) = chunk_entries (tx_log st)"
  "chunk_entries (tx_log (or_unchanged st (tx_confirm opts i st))) = chunk_entries (tx_log st)"
  "chunk_entries (tx_log (offer_transfer opts peer src m st)) = chunk_entries (tx_log st)"
  by (cases "findTransfer st i"; simp add: or_unchanged_def acceptAndStart_def tx_pause_def tx_resume_def tx_cancel_def
      tx_confirm_def with_transfer_def Let_def)+
    (simp add: offer_transfer_def tx_spawn_def Let_def)

text \<open>A chunk of a transfer that runs: it goes to the peer of the transfer, which is neither paused nor cancelled.\<close>

definition sent_running :: "Sender \<Rightarrow> Sender \<Rightarrow> bool" where
  "sent_running st st' \<longleftrightarrow> chunk_entries (tx_log st') = chunk_entries (tx_log st)
     \<or> (\<exists>r f. r < length (tx_objects st') \<and> \<not> qt_paused (tx_obj st' r) \<and> \<not> qt_cancelled (tx_obj st' r)
          \<and> cf_transferId f = qt_transferId (tx_obj st' r)
          \<and> chunk_entries (tx_log st') = chunk_entries (tx_log st) @ [Tx_Chunk (qt_peerId (tx_obj st' r)) f])"

lemma send_attempt_running:
  assumes "addressed_ok (tx_ids st) r f"
  shows "sent_running st (fst (send_attempt r only f st))"
proof -
  have "r < length (tx_objects st)" "cf_transferId f = qt_transferId (tx_obj st r)"
    using assms tx_ids_nth [of r st] by (auto simp: addressed_ok_def raw_ok_def tx_immut_def)
  moreover have "tx_obj (tx_emit e st) k = tx_obj st k" "tx_objects (tx_emit e st) = tx_objects st" for e k
    by (simp_all add: tx_emit_def tx_obj_def)
  ultimately show ?thesis
    unfolding send_attempt_def sent_running_def by (auto simp: run_end_def)
qed

lemma after_pressure_running:
  assumes "raw_ok (tx_ids st) r f"
  shows "sent_running st (fst (after_pressure r only f st))"
proof -
  have "addressed_ok (tx_ids st) r (f\<lparr>cf_transferId := qt_transferId (tx_obj st r)\<rparr>)"
    using assms tx_ids_nth [of r st] by (auto simp: addressed_ok_def raw_ok_def chunk_of_def tx_immut_def)
  then show ?thesis
    unfolding after_pressure_def using send_attempt_running by (auto simp: run_end_def sent_running_def)
qed

lemma no_chunk_segments:
  "chunk_entries (tx_log (fst (run_end r st))) = chunk_entries (tx_log st)"
  "chunk_entries (tx_log (fst (run_fail opts r e st))) = chunk_entries (tx_log st)"
  "chunk_entries (tx_log (fst (after_pause r only f st))) = chunk_entries (tx_log st)"
  "chunk_entries (tx_log (fst (run_frame r only f st))) = chunk_entries (tx_log st)"
  "chunk_entries (tx_log (fst (run_sent opts r only f st))) = chunk_entries (tx_log st)"
  "chunk_entries (tx_log (fst (run_pending opts r st))) = chunk_entries (tx_log st)"
  "chunk_entries (tx_log (fst (send_failed opts r only f e st))) = chunk_entries (tx_log st)"
  by (simp_all add: run_end_def run_fail_def after_pause_def run_frame_def run_sent_def run_pending_def send_failed_def Let_def)

lemma run_next_no_chunk: "chunk_entries (tx_log (fst (run_next opts r only i out st))) = chunk_entries (tx_log st)"
  unfolding run_next_def Let_def by (auto simp: no_chunk_segments split: option.split tx_outcome.split)

lemma run_finally_no_chunk: "chunk_entries (tx_log (run_finally opts r st)) = chunk_entries (tx_log st)"
  unfolding run_finally_def Let_def by simp

lemma sent_running_same: "chunk_entries (tx_log st') = chunk_entries (tx_log st) \<Longrightarrow> sent_running st st'"
  by (simp add: sent_running_def)

lemma applyBackpressure_running:
  "raw_ok (tx_ids st) r f \<Longrightarrow> sent_running st (fst (applyBackpressure opts r only f n st))"
  unfolding applyBackpressure_def by (auto intro: after_pressure_running sent_running_same)

lemma tx_continue_running:
  "tx_pc_ok (tx_ids st) p \<Longrightarrow> sent_running st (fst (tx_continue opts p out st))"
  by (cases p)
    (auto simp: no_chunk_segments run_next_no_chunk run_finally_no_chunk sent_running_same split: tx_outcome.split
      intro!: send_attempt_running after_pressure_running applyBackpressure_running)

text \<open>C13: A paused or cancelled transfer sends nothing: whenever a step of a reachable sender hands a chunk
  to the data channel, it is one chunk, its transfer is neither paused nor cancelled at that
  moment, and it goes to the peer of the transfer. In particular a pause or a cancellation takes
  effect before the next chunk.\<close>

theorem chunk_sent_only_while_running:
  assumes "tx_reachable opts st"
  shows "sent_running st (tx_apply opts e st)"
proof (cases e)
  case (Continue t out)
  show ?thesis
  proof (cases "map_of (tx_tasks st) t")
    case (Some p)
    have "tx_pc_ok (tx_ids st) p"
      using tx_reachable_inv [OF assms] map_of_SomeD [OF Some] by (auto simp: tx_inv_def list_all_iff)
    then have "sent_running st (fst (tx_continue opts p out st))" by (rule tx_continue_running)
    moreover have "tx_obj (tx_settle t res) k = tx_obj (fst res) k" "tx_objects (tx_settle t res) = tx_objects (fst res)" for res k
      by (simp_all add: tx_settle_def tx_obj_def split: prod.split)
    ultimately show ?thesis using Continue Some by (simp add: sent_running_def)
  qed (simp add: Continue sent_running_def)
qed (simp_all add: sent_running_def chunk_entries_calls)

theorem chunk_sent_only_while_running_witness:
  "sent_running new_sender (tx_apply sample_tx_options (Do_Cancel []) new_sender)"
  by (rule chunk_sent_only_while_running [OF tx_init])

section \<open>Transfers that start again, and too early\<close>

lemmas tx_eval = offer_transfer_def acceptAndStart_def with_transfer_def findTransfer_def tx_spawn_def tx_settle_def tx_emit_def
  tx_progress_def tx_upd_def tx_obj_def pump_def eligible_def run_start_def map_has_def or_unchanged_def Let_def
  run_next_def run_frame_def after_pause_def applyBackpressure_def after_pressure_def send_attempt_def send_failed_def
  run_fail_def run_end_def run_finally_def next_chunk_def transfer_state_def new_sender_def

definition manifests_sent :: "Sender \<Rightarrow> nat" where
  "manifests_sent st = length (filter (\<lambda>e. case e of Tx_Sent _ (FileManifest _ _) \<Rightarrow> True | _ \<Rightarrow> False) (tx_log st))"

text \<open>One failed attempt to send the first chunk, with the retries used up.\<close>

definition failed_run :: "task \<Rightarrow> tx_event list" where
  "failed_run t = [Continue t Done, Continue t Done, Continue t (Buffered 0), Continue t (Failed ''closed''),
     Continue t Done, Continue t Done]"

lemma failed_runs:
  assumes "to_maxConcurrentTransfers opts = 1" "to_retryLimit opts = 0" "\<not> to_hasBufferedAmount opts" "am_chunkCount m = 1"
  shows "manifests_sent (tx_run opts (Do_Offer peer src m # Continue 0 Done # Do_Accept (to_uuid opts 0) None
      # failed_run 1 @ failed_run 2)) = 3"
  by (simp add: tx_run_def failed_run_def tx_eval assms manifests_sent_def upto_rec1)


text \<open>Accepting one transfer also starts another that was only offered: after two offers, the acceptance
  of the second makes both active, so the file is sent to a peer that has not accepted it.\<close>

theorem acceptance_starts_other_offers:
  "map fst (tx_active (tx_run sample_tx_options [Do_Offer peer1 src m, Do_Offer peer2 src m, Do_Accept ''x'' None])) = [[], ''x'']"
proof -
  have u: "to_uuid sample_tx_options 0 = []" "to_uuid sample_tx_options (Suc 0) = ''x''"
    "to_maxConcurrentTransfers sample_tx_options = 2" by (simp_all add: sample_tx_options_def)
  show ?thesis by (simp add: tx_run_def tx_eval u)
qed

end
