(* ===== verification/Protocol_Compatibility.thy ===== *)
theory Protocol_Compatibility
  imports JS_Value
begin

text \<open>
  Versions, capabilities and clocks of peers: \<^verbatim>\<open>apps/web/src/services/protocol-compatibility.ts\<close> and
  \<^verbatim>\<open>apps/web/src/services/p2p-clock.ts\<close>. The version of the running application comes from the
  build environment with a default; it is the parameter \<open>app\<close> of the functions that compare
  with it.
\<close>

section \<open>Clock\<close>

definition P2P_CLOCK_SKEW_TOLERANCE_MS :: rat where
  "P2P_CLOCK_SKEW_TOLERANCE_MS = 5 * 60000"

definition P2P_CLOCK_SKEW_WARNING_MS :: rat where
  "P2P_CLOCK_SKEW_WARNING_MS = 30000"

definition p2pClockSkewMs :: "jsval \<Rightarrow> rat \<Rightarrow> rat option" where
  "p2pClockSkewMs timestamp now = (case finite_num timestamp of Some t \<Rightarrow> Some (t - now) | None \<Rightarrow> None)"

definition withinP2PClockTolerance :: "jsval \<Rightarrow> rat \<Rightarrow> bool" where
  "withinP2PClockTolerance timestamp now =
    (case p2pClockSkewMs timestamp now of None \<Rightarrow> False | Some skew \<Rightarrow> \<bar>skew\<bar> \<le> P2P_CLOCK_SKEW_TOLERANCE_MS)"

section \<open>Versions and capabilities\<close>

definition DEFAULT_APP_VERSION :: string where "DEFAULT_APP_VERSION = ''0.2.1''"
definition RISK_NEGOTIATION_PROTOCOL_VERSION :: int where "RISK_NEGOTIATION_PROTOCOL_VERSION = 2"
definition RISK_CALL_PROTOCOL_VERSION :: int where "RISK_CALL_PROTOCOL_VERSION = 2"
definition RISK_CHAT_PROTOCOL_VERSION :: int where "RISK_CHAT_PROTOCOL_VERSION = 2"
definition RISK_GROUP_MANIFEST_VERSION :: int where "RISK_GROUP_MANIFEST_VERSION = 2"

definition RISK_APP_CAPABILITIES :: "string list" where
  "RISK_APP_CAPABILITIES = [''files-v2'', ''screen-audio'', ''rnnoise'', ''group-sync-v2'', ''chat-events-v1'',
     ''chat-replies-v1'', ''message-edit-v1'', ''message-delete-v1'', ''message-reactions-v1'', ''message-pins-v1'',
     ''typing-indicator-v1'', ''markdown-safe-links-v1'']"

record RiskPeerCapabilities =
  pc_appVersion :: string
  pc_callProtocolVersion :: int
  pc_chatProtocolVersion :: int
  pc_groupManifestVersion :: int
  pc_protocol :: "int option"
  pc_client :: "string option"
  pc_capabilities :: "string list option"

definition LOCAL_RISK_CAPABILITIES :: "string \<Rightarrow> RiskPeerCapabilities" where
  "LOCAL_RISK_CAPABILITIES app = \<lparr>pc_appVersion = app, pc_callProtocolVersion = RISK_CALL_PROTOCOL_VERSION,
     pc_chatProtocolVersion = RISK_CHAT_PROTOCOL_VERSION, pc_groupManifestVersion = RISK_GROUP_MANIFEST_VERSION,
     pc_protocol = Some RISK_NEGOTIATION_PROTOCOL_VERSION, pc_client = Some app,
     pc_capabilities = Some RISK_APP_CAPABILITIES\<rparr>"

text \<open>
  \<^verbatim>\<open>/^\d+\.\d+\.\d+(?:[-+][0-9A-Za-z.-]+)?$/\<close> read from the left: three runs of digits, then nothing
  or a sign and a rest. A run of digits is taken as far as it goes, which loses no match, since
  what follows it in the pattern is no digit.
\<close>

definition digits_then :: "(string \<Rightarrow> bool) \<Rightarrow> string \<Rightarrow> bool" where
  "digits_then k s \<longleftrightarrow> takeWhile (\<lambda>c. c \<in> set digit_chars) s \<noteq> [] \<and> k (dropWhile (\<lambda>c. c \<in> set digit_chars) s)"

definition char_then :: "char \<Rightarrow> (string \<Rightarrow> bool) \<Rightarrow> string \<Rightarrow> bool" where
  "char_then c k s = (case s of [] \<Rightarrow> False | d # r \<Rightarrow> d = c \<and> k r)"

definition semver_suffix :: "string \<Rightarrow> bool" where
  "semver_suffix s = (case s of [] \<Rightarrow> True
     | c # r \<Rightarrow> (c = CHR ''-'' \<or> c = CHR ''+'') \<and> r \<noteq> []
         \<and> list_all (\<lambda>d. d \<in> set (digit_chars @ upper_chars @ lower_chars @ ''.-'')) r)"

definition validSemver :: "string \<Rightarrow> bool" where
  "validSemver version \<longleftrightarrow> 3 \<le> length version \<and> length version \<le> 32
     \<and> digits_then (char_then CHR ''.'' (digits_then (char_then CHR ''.'' (digits_then semver_suffix)))) version"

definition compatibleAppVersion :: "string \<Rightarrow> string option \<Rightarrow> bool" where
  "compatibleAppVersion app version = (case version of
     None \<Rightarrow> False
   | Some v \<Rightarrow> v \<noteq> [] \<and> validSemver v \<and> validSemver app
       \<and> hd (split_on CHR ''.'' app) = hd (split_on CHR ''.'' v))"

definition capability_name :: "string \<Rightarrow> bool" where
  "capability_name s = (case s of [] \<Rightarrow> False
     | c # r \<Rightarrow> c \<in> set (lower_chars @ digit_chars) \<and> matches_class (lower_chars @ digit_chars @ ''-'') 1 63 r)"

definition validRiskPeerCapabilities :: "jsval \<Rightarrow> bool" where
  "validRiskPeerCapabilities item \<longleftrightarrow> is_record item
     \<and> str_such validSemver (jprop item ''appVersion'')
     \<and> safe_int (jprop item ''callProtocolVersion'') \<noteq> None
     \<and> safe_int (jprop item ''chatProtocolVersion'') \<noteq> None
     \<and> safe_int (jprop item ''groupManifestVersion'') \<noteq> None
     \<and> (jprop item ''protocol'' = JUndefined \<or> int_such (\<lambda>n. 1 \<le> n \<and> n \<le> 32) (jprop item ''protocol''))
     \<and> (jprop item ''client'' = JUndefined
        \<or> jprop item ''client'' = jprop item ''appVersion'' \<and> str_such validSemver (jprop item ''client''))
     \<and> (jprop item ''capabilities'' = JUndefined
        \<or> arr_such (\<lambda>cs. length cs \<le> 64 \<and> list_all (str_such capability_name) cs) (jprop item ''capabilities''))"

definition compatibleCallPeer :: "string \<Rightarrow> RiskPeerCapabilities \<Rightarrow> bool" where
  "compatibleCallPeer app capabilities \<longleftrightarrow> compatibleAppVersion app (Some (pc_appVersion capabilities))
     \<and> pc_callProtocolVersion capabilities = RISK_CALL_PROTOCOL_VERSION
     \<and> pc_groupManifestVersion capabilities = RISK_GROUP_MANIFEST_VERSION"

definition compatibleChatPeer :: "string \<Rightarrow> RiskPeerCapabilities \<Rightarrow> bool" where
  "compatibleChatPeer app capabilities \<longleftrightarrow> compatibleAppVersion app (Some (pc_appVersion capabilities))
     \<and> pc_chatProtocolVersion capabilities = RISK_CHAT_PROTOCOL_VERSION
     \<and> pc_groupManifestVersion capabilities = RISK_GROUP_MANIFEST_VERSION"

definition peerSupportsCapability :: "RiskPeerCapabilities option \<Rightarrow> string \<Rightarrow> bool" where
  "peerSupportsCapability capabilities capability = (case capabilities of
     None \<Rightarrow> False
   | Some p \<Rightarrow> (case pc_capabilities p of None \<Rightarrow> False | Some cs \<Rightarrow> capability \<in> set cs))"

definition negotiateCapabilities :: "RiskPeerCapabilities \<Rightarrow> string list" where
  "negotiateCapabilities remote =
    filter (\<lambda>capability. capability \<in> set (case pc_capabilities remote of None \<Rightarrow> [] | Some cs \<Rightarrow> cs)) RISK_APP_CAPABILITIES"

section \<open>Properties\<close>

lemma withinP2PClockTolerance_iff:
  "withinP2PClockTolerance v now \<longleftrightarrow>
     num_such (\<lambda>t. now - P2P_CLOCK_SKEW_TOLERANCE_MS \<le> t \<and> t \<le> now + P2P_CLOCK_SKEW_TOLERANCE_MS) v"
  by (auto simp: withinP2PClockTolerance_def p2pClockSkewMs_def num_such_def abs_le_iff split: option.splits)

lemma compatible_symmetric:
  "a \<noteq> [] \<Longrightarrow> b \<noteq> [] \<Longrightarrow> compatibleAppVersion a (Some b) \<longleftrightarrow> compatibleAppVersion b (Some a)"
  by (auto simp: compatibleAppVersion_def)

text \<open>Negotiation is symmetric: of two peers with any two application versions that announce their own
  capabilities, both find the other compatible or neither does, for chat and for calls. The
  capabilities used with a peer are exactly those this version knows and the peer announces, and a
  peer that announces no list supports none.\<close>

theorem negotiation_symmetric:
  "compatibleChatPeer a (LOCAL_RISK_CAPABILITIES b) = compatibleChatPeer b (LOCAL_RISK_CAPABILITIES a)
   \<and> compatibleCallPeer a (LOCAL_RISK_CAPABILITIES b) = compatibleCallPeer b (LOCAL_RISK_CAPABILITIES a)
   \<and> set (negotiateCapabilities p) = set RISK_APP_CAPABILITIES \<inter> set (case pc_capabilities p of None \<Rightarrow> [] | Some cs \<Rightarrow> cs)
   \<and> peerSupportsCapability (Some p) c = (c \<in> set (case pc_capabilities p of None \<Rightarrow> [] | Some cs \<Rightarrow> cs))"
proof -
  have "compatibleAppVersion a (Some b) = compatibleAppVersion b (Some a)"
  proof (cases "a = [] \<or> b = []")
    case True
    then show ?thesis by (auto simp: compatibleAppVersion_def validSemver_def)
  qed (auto simp: compatible_symmetric)
  then show ?thesis
    by (auto simp: compatibleChatPeer_def compatibleCallPeer_def LOCAL_RISK_CAPABILITIES_def negotiateCapabilities_def
        peerSupportsCapability_def split: option.split)
qed

end
