(* ===== verification/Base64.thy ===== *)
theory Base64
  imports JS_Value
begin

text \<open>
  The URL-safe Base64 helpers \<^verbatim>\<open>bytesToBase64Url\<close> and \<^verbatim>\<open>base64UrlToArrayBuffer\<close> that every signed
  message of the application uses (\<^verbatim>\<open>social-storage.ts\<close> and its siblings), over \<^verbatim>\<open>btoa\<close> and
  \<^verbatim>\<open>atob\<close>. A byte is a natural number below 256, and \<^verbatim>\<open>atob\<close> fails with an exception, \<open>None\<close>, on a
  text that is not Base64.
\<close>

definition base64_chars :: string where
  "base64_chars = upper_chars @ lower_chars @ digit_chars @ ''+/''"

fun sextets :: "nat list \<Rightarrow> nat list" where
  "sextets [] = []"
| "sextets [a] = [a div 4, a mod 4 * 16]"
| "sextets [a, b] = [a div 4, a mod 4 * 16 + b div 16, b mod 16 * 4]"
| "sextets (a # b # c # r) = a div 4 # (a mod 4 * 16 + b div 16) # (b mod 16 * 4 + c div 64) # c mod 64 # sextets r"

fun octets :: "nat list \<Rightarrow> nat list" where
  "octets [] = []"
| "octets [a] = []"
| "octets [a, b] = [a * 4 + b div 16]"
| "octets [a, b, c] = [a * 4 + b div 16, b mod 16 * 16 + c div 4]"
| "octets (a # b # c # d # r) = (a * 4 + b div 16) # (b mod 16 * 16 + c div 4) # (c mod 4 * 64 + d) # octets r"

text \<open>The characters that pad a text of \<open>n\<close> sextets to a multiple of four.\<close>

definition pad_count :: "nat \<Rightarrow> nat" where
  "pad_count n = (4 - n mod 4) mod 4"

definition btoa :: "nat list \<Rightarrow> string" where
  "btoa bytes = (let s = sextets bytes in
     map (\<lambda>n. base64_chars ! n) s @ replicate (pad_count (length s)) (CHR ''=''))"

text \<open>
  \<^verbatim>\<open>atob\<close> drops ASCII white space, then one or two padding characters if the length is a
  multiple of four, and rejects a length of one modulo four and any other character.
\<close>

definition ascii_white :: "char \<Rightarrow> bool" where
  "ascii_white c \<longleftrightarrow> (let n = code_unit c in n = 9 \<or> n = 10 \<or> n = 12 \<or> n = 13 \<or> n = (32 :: nat))"

definition strip_pad :: "string \<Rightarrow> string" where
  "strip_pad s =
    (if length s mod 4 = 0 \<and> s \<noteq> [] \<and> last s = CHR ''=''
     then (let t = butlast s in if t \<noteq> [] \<and> last t = CHR ''='' then butlast t else t)
     else s)"

definition atob :: "string \<Rightarrow> nat list option" where
  "atob s = (let t = strip_pad (filter (\<lambda>c. \<not> ascii_white c) s) in
     if length t mod 4 = 1 \<or> \<not> list_all (\<lambda>c. c \<in> set base64_chars) t then None
     else Some (octets (map (\<lambda>c. the (find_index (\<lambda>d. d = c) base64_chars)) t)))"

definition bytesToBase64Url :: "nat list \<Rightarrow> string" where
  "bytesToBase64Url bytes =
    rev (dropWhile (\<lambda>c. c = CHR ''='') (rev
      (map (\<lambda>c. if c = CHR ''/'' then CHR ''_'' else c)
        (map (\<lambda>c. if c = CHR ''+'' then CHR ''-'' else c) (btoa bytes)))))"

definition base64UrlToArrayBuffer :: "string \<Rightarrow> nat list option" where
  "base64UrlToArrayBuffer value =
    (let normalized = map (\<lambda>c. if c = CHR ''_'' then CHR ''/'' else c)
           (map (\<lambda>c. if c = CHR ''-'' then CHR ''+'' else c) value)
     in atob (normalized @ replicate (nat (ceil_div (int (length value)) 4 * 4) - length normalized) (CHR ''='')))"

section \<open>Round trip\<close>

definition is_bytes :: "nat list \<Rightarrow> bool" where
  "is_bytes bs \<longleftrightarrow> list_all (\<lambda>b. b < 256) bs"

definition url_char :: "nat \<Rightarrow> char" where
  "url_char n = (upper_chars @ lower_chars @ digit_chars @ ''-_'') ! n"

lemma sextets_bound: "is_bytes bs \<Longrightarrow> list_all (\<lambda>n. n < 64) (sextets bs)"
  unfolding is_bytes_def by (induction bs rule: sextets.induct) auto

lemma octets_sextets: "is_bytes bs \<Longrightarrow> octets (sextets bs) = bs"
  unfolding is_bytes_def by (induction bs rule: sextets.induct) auto

lemma length_sextets: "length (sextets bs) = (4 * length bs + 2) div 3"
  by (induction bs rule: sextets.induct) auto

lemma length_sextets_mod: "length (sextets bs) mod 4 \<noteq> 1"
  by (induction bs rule: sextets.induct) auto

definition to_url :: "char \<Rightarrow> char" where
  "to_url c = (let d = (if c = CHR ''+'' then CHR ''-'' else c) in if d = CHR ''/'' then CHR ''_'' else d)"

definition from_url :: "char \<Rightarrow> char" where
  "from_url c = (let d = (if c = CHR ''-'' then CHR ''+'' else c) in if d = CHR ''_'' then CHR ''/'' else d)"

lemma base64_alphabet:
  "length base64_chars = 64 \<and> distinct base64_chars
    \<and> list_all (\<lambda>c. from_url (to_url c) = c \<and> \<not> ascii_white c \<and> to_url c \<noteq> CHR ''='' \<and> c \<noteq> CHR ''=''
        \<and> to_url c \<in> set wire_chars) base64_chars"
  by code_simp

lemma find_index_nth:
  "distinct xs \<Longrightarrow> n < length xs \<Longrightarrow> find_index (\<lambda>d. d = xs ! n) xs = Some n"
  by (induction xs arbitrary: n) (auto simp: nth_Cons' split: if_splits)

lemma base64_nth:
  assumes "n < 64"
  shows "from_url (to_url (base64_chars ! n)) = base64_chars ! n" "\<not> ascii_white (base64_chars ! n)"
    "to_url (base64_chars ! n) \<noteq> CHR ''=''" "base64_chars ! n \<noteq> CHR ''=''"
    "to_url (base64_chars ! n) \<in> set wire_chars" "base64_chars ! n \<in> set base64_chars"
    "find_index (\<lambda>d. d = base64_chars ! n) base64_chars = Some n"
  using base64_alphabet find_index_nth [of base64_chars n] nth_mem [of n base64_chars] assms
  by (simp_all add: list_all_iff)

lemma bytesToBase64Url_eq:
  assumes "is_bytes bs"
  shows "bytesToBase64Url bs = map (\<lambda>n. to_url (base64_chars ! n)) (sextets bs)"
proof -
  have eq: "map (\<lambda>c. if c = CHR ''/'' then CHR ''_'' else c) (map (\<lambda>c. if c = CHR ''+'' then CHR ''-'' else c) t)
      = map to_url t" for t
    by (simp add: to_url_def Let_def)
  have pad: "map to_url (replicate k (CHR ''='')) = replicate k (CHR ''='')" for k
    by (simp add: to_url_def)
  have no: "dropWhile (\<lambda>c. c = CHR ''='') (rev (map (\<lambda>n. to_url (base64_chars ! n)) l))
      = rev (map (\<lambda>n. to_url (base64_chars ! n)) l)" if "list_all (\<lambda>n. n < 64) l" for l
    using that base64_nth(3) by (cases l rule: rev_cases) (auto simp: list_all_iff)
  have drop: "dropWhile (\<lambda>c. c = CHR ''='') (replicate k (CHR ''='') @ l) = dropWhile (\<lambda>c. c = CHR ''='') l" for k l
    by (induction k) auto
  show ?thesis
    using no [OF sextets_bound [OF assms]]
    unfolding bytesToBase64Url_def eq btoa_def Let_def map_append pad rev_append rev_replicate drop
    by (simp add: comp_def rev_map)
qed

lemma pad_count_ceil: "nat (ceil_div (int n) 4 * 4) - n = pad_count n"
proof -
  have n: "4 * (n div 4) + n mod 4 = n" "n mod 4 < 4" by simp_all
  have "ceil_div (int n) 4 = int (n div 4 + (if n mod 4 = 0 then 0 else 1))"
    by (rule ceil_div_unique; use n in \<open>simp split: if_splits; linarith\<close>)
  then have "nat (ceil_div (int n) 4 * 4) = (n div 4 + (if n mod 4 = 0 then 0 else 1)) * 4"
    by (metis nat_int of_nat_mult of_nat_numeral)
  with n show ?thesis by (simp add: pad_count_def; linarith)
qed

lemma strip_pad_text:
  assumes "\<forall>c \<in> set t. c \<noteq> CHR ''=''" "length t mod 4 \<noteq> 1"
  shows "strip_pad (t @ replicate (pad_count (length t)) (CHR ''='')) = t"
proof -
  have last: "t \<noteq> [] \<Longrightarrow> last t \<noteq> CHR ''=''" using assms(1) by auto
  have "length t mod 4 < 4" by simp
  with assms(2) consider "length t mod 4 = 0" | "length t mod 4 = 2" | "length t mod 4 = 3" by linarith
  then show ?thesis
  proof cases
    case 1
    with last show ?thesis by (auto simp: pad_count_def strip_pad_def)
  next
    case 2
    then have "length (t @ replicate 2 (CHR ''='')) mod 4 = 0" by (simp add: mod_Suc)
    with 2 show ?thesis
      by (simp add: pad_count_def strip_pad_def numeral_2_eq_2 butlast_append Let_def)
  next
    case 3
    then have "length (t @ [CHR ''='']) mod 4 = 0" by (simp add: mod_Suc)
    with 3 last show ?thesis by (auto simp: pad_count_def strip_pad_def butlast_append Let_def)
  qed
qed

lemma base64_roundtrip:
  assumes "is_bytes bs"
  shows "base64UrlToArrayBuffer (bytesToBase64Url bs) = Some bs"
proof -
  let ?s = "sextets bs" let ?t = "map (\<lambda>n. base64_chars ! n) ?s"
  have b: "n < 64" if "n \<in> set ?s" for n using sextets_bound [OF assms] that by (simp add: list_all_iff)
  have norm: "map (\<lambda>c. if c = CHR ''_'' then CHR ''/'' else c) (map (\<lambda>c. if c = CHR ''-'' then CHR ''+'' else c) v)
      = map from_url v" for v
    by (simp add: from_url_def Let_def)
  have txt_eq: "map from_url (bytesToBase64Url bs) = ?t"
    using b base64_nth(1) by (simp add: bytesToBase64Url_eq [OF assms])
  have len: "length (bytesToBase64Url bs) = length ?s"
    by (simp add: bytesToBase64Url_eq [OF assms])
  have "filter (\<lambda>c. \<not> ascii_white c) (?t @ replicate k (CHR ''='')) = ?t @ replicate k (CHR ''='')" for k
    using b base64_nth(2) by (auto intro!: filter_True simp: ascii_white_def)
  moreover have "strip_pad (?t @ replicate (pad_count (length ?s)) (CHR ''='')) = ?t"
    using strip_pad_text [of ?t] b base64_nth(4) length_sextets_mod by simp
  moreover have "map (\<lambda>c. the (find_index (\<lambda>d. d = c) base64_chars)) ?t = ?s"
    using b base64_nth(7) by (simp add: map_idI)
  moreover have "list_all (\<lambda>c. c \<in> set base64_chars) ?t"
    using b base64_nth(6) by (simp add: list_all_iff)
  ultimately show ?thesis
    using octets_sextets [OF assms] length_sextets_mod [of bs]
    unfolding base64UrlToArrayBuffer_def norm txt_eq len atob_def Let_def
    by (simp add: pad_count_ceil)
qed

text \<open>A signature is 64 bytes, so its text has 86 characters of the wire alphabet.\<close>

lemma base64_wire:
  assumes "is_bytes bs"
  shows "list_all (\<lambda>c. c \<in> set wire_chars) (bytesToBase64Url bs)"
    "length (bytesToBase64Url bs) = (4 * length bs + 2) div 3"
  using sextets_bound [OF assms] base64_nth(5)
  by (auto simp: bytesToBase64Url_eq [OF assms] list_all_iff length_sextets)

end
