(* ===== verification/Peer_Identity.thy ===== *)
theory Peer_Identity
  imports Base64 JSON_Text "HOL-Library.Multiset"
begin

text \<open>
  Peer identities: the public and local identities of
  \<^verbatim>\<open>apps/web/src/services/offline/social-storage.ts\<close>, the avatar check of
  \<^verbatim>\<open>avatar-validation.ts\<close>, and the two operations that keep a member list free of duplicates
  (\<^verbatim>\<open>dedupePeerIdentities\<close>, \<^verbatim>\<open>upsertGroupMemberIdentity\<close>).

  A JSON Web Key is read through its four members \<^verbatim>\<open>kty\<close>, \<^verbatim>\<open>crv\<close>, \<^verbatim>\<open>x\<close>, \<^verbatim>\<open>y\<close>; what else a key
  object carries is kept in \<open>jk_rest\<close>. A private key is an opaque handle.

  \<^verbatim>\<open>String.prototype.localeCompare\<close> follows the collation of the running locale; it is the
  parameter \<open>lc\<close> of the definitions that sort with it, and the locale \<open>collation\<close> has the laws the
  language requires of it.
\<close>

section \<open>Types\<close>

record JsonWebKey =
  jk_kty :: "string option"
  jk_crv :: "string option"
  jk_x :: "string option"
  jk_y :: "string option"
  jk_rest :: "(string \<times> string) list"

record PublicPeerIdentity =
  peerId :: string
  publicKey :: JsonWebKey
  displayName :: string
  avatar :: "string option"

type_synonym CryptoKey = string

record LocalIdentity =
  li_peerId :: string
  li_publicKey :: JsonWebKey
  li_displayName :: string
  li_avatar :: "string option"
  li_privateKey :: CryptoKey

definition publicIdentity :: "LocalIdentity \<Rightarrow> PublicPeerIdentity" where
  "publicIdentity identity =
    \<lparr>peerId = li_peerId identity, publicKey = li_publicKey identity,
     displayName = li_displayName identity, avatar = li_avatar identity\<rparr>"

section \<open>Sorting with a comparison function\<close>

text \<open>\<^verbatim>\<open>xs.sort(cmp)\<close> is stable: an element is placed before the elements it compares equal to.\<close>

primrec insert_cmp :: "('a \<Rightarrow> 'a \<Rightarrow> int) \<Rightarrow> 'a \<Rightarrow> 'a list \<Rightarrow> 'a list" where
  "insert_cmp cmp x [] = [x]"
| "insert_cmp cmp x (y # ys) = (if cmp x y \<le> 0 then x # y # ys else y # insert_cmp cmp x ys)"

definition sort_cmp :: "('a \<Rightarrow> 'a \<Rightarrow> int) \<Rightarrow> 'a list \<Rightarrow> 'a list" where
  "sort_cmp cmp xs = foldr (insert_cmp cmp) xs []"

lemma mset_insert_cmp [simp]: "mset (insert_cmp cmp x xs) = add_mset x (mset xs)"
  by (induction xs) auto

lemma mset_sort_cmp [simp]: "mset (sort_cmp cmp xs) = mset xs"
  by (induction xs) (auto simp: sort_cmp_def)

lemma set_sort_cmp [simp]: "set (sort_cmp cmp xs) = set xs"
  by (metis mset_sort_cmp set_mset_mset)

lemma length_sort_cmp [simp]: "length (sort_cmp cmp xs) = length xs"
  by (metis mset_sort_cmp size_mset)

lemma distinct_sort_cmp [simp]: "distinct (sort_cmp cmp xs) = distinct xs"
  by (metis mset_sort_cmp mset_eq_imp_distinct_iff)

lemma sort_cmp_Nil [simp]: "sort_cmp cmp [] = []"
  by (simp add: sort_cmp_def)

locale collation =
  fixes lc :: "string \<Rightarrow> string \<Rightarrow> int"
  assumes lc_refl: "lc a a = 0"
    and lc_sym: "lc a b < 0 \<longleftrightarrow> 0 < lc b a"
    and lc_trans: "lc a b \<le> 0 \<Longrightarrow> lc b c \<le> 0 \<Longrightarrow> lc a c \<le> 0"
begin

lemma lc_total: "lc a b \<le> 0 \<or> lc b a \<le> 0"
  using lc_sym [of b a] by linarith

lemma sorted_insert_cmp:
  assumes "sorted_wrt (\<lambda>x y. lc (f x) (f y) \<le> 0) xs"
  shows "sorted_wrt (\<lambda>x y. lc (f x) (f y) \<le> 0) (insert_cmp (\<lambda>a b. lc (f a) (f b)) x xs)"
  using assms
proof (induction xs)
  case (Cons y ys)
  have set_eq: "set (insert_cmp (\<lambda>a b. lc (f a) (f b)) x ys) = insert x (set ys)"
    by (metis mset_insert_cmp set_mset_add_mset_insert set_mset_mset)
  show ?case
  proof (cases "lc (f x) (f y) \<le> 0")
    case True
    with Cons.prems show ?thesis by (auto intro: lc_trans)
  next
    case False
    with lc_total have "lc (f y) (f x) \<le> 0" by blast
    with False Cons show ?thesis by (auto simp: set_eq)
  qed
qed simp

lemma sorted_sort_cmp:
  "sorted_wrt (\<lambda>x y. lc (f x) (f y) \<le> 0) (sort_cmp (\<lambda>a b. lc (f a) (f b)) xs)"
  by (induction xs) (auto simp: sort_cmp_def intro: sorted_insert_cmp)

end

text \<open>A collation that tells all strings apart makes a sorted list of distinct keys unique.\<close>

locale strict_collation = collation +
  assumes lc_antisym: "lc a b = 0 \<Longrightarrow> a = b"
begin

lemma lc_antisym_le: "lc a b \<le> 0 \<Longrightarrow> lc b a \<le> 0 \<Longrightarrow> a = b"
  using lc_sym [of a b] lc_antisym [of a b] by (cases "lc a b = 0") auto

lemma sorted_unique:
  assumes "sorted_wrt (\<lambda>x y. lc (f x) (f y) \<le> 0) xs" "sorted_wrt (\<lambda>x y. lc (f x) (f y) \<le> 0) ys"
    "mset xs = mset ys" "inj_on f (set xs)"
  shows "xs = ys"
  using assms
proof (induction xs arbitrary: ys)
  case (Cons x xs)
  then obtain y ys' where ys: "ys = y # ys'" by (cases ys) auto
  have "x \<in> set ys" "y \<in> set (x # xs)"
    using Cons.prems(3) ys by (metis list.set_intros(1) set_mset_mset)+
  with Cons.prems(1,2) ys have "lc (f x) (f y) \<le> 0" "lc (f y) (f x) \<le> 0"
    using lc_refl by (auto simp: order_refl)
  then have "f x = f y" by (rule lc_antisym_le)
  with Cons.prems(4) \<open>y \<in> set (x # xs)\<close> have "x = y" by (meson inj_onD list.set_intros(1))
  with Cons ys show ?case by (auto simp: inj_on_def)
qed simp

lemma sort_cmp_unique:
  assumes "mset xs = mset ys" "inj_on f (set xs)"
  shows "sort_cmp (\<lambda>a b. lc (f a) (f b)) xs = sort_cmp (\<lambda>a b. lc (f a) (f b)) ys"
  by (rule sorted_unique [OF sorted_sort_cmp sorted_sort_cmp]) (use assms in auto)

end

text \<open>
  Comparison by code units is a collation: it is the order a host without locale data uses, and
  the instance the witnesses evaluate.
\<close>

definition code_unit_compare :: "string \<Rightarrow> string \<Rightarrow> int" where
  "code_unit_compare a b = (if a < b then - 1 else if a = b then 0 else 1)"

interpretation code_unit_collation: strict_collation code_unit_compare
  by unfold_locales (auto simp: code_unit_compare_def split: if_splits)

section \<open>Avatars, keys and identities\<close>

definition MAX_AVATAR_DATA_URL_BYTES :: nat where
  "MAX_AVATAR_DATA_URL_BYTES = 32 * 1024"

definition avatar_prefixes :: "string list" where
  "avatar_prefixes = [''data:image/png;base64,'', ''data:image/jpeg;base64,'', ''data:image/webp;base64,'']"

definition avatar_body :: "string \<Rightarrow> bool" where
  "avatar_body s \<longleftrightarrow>
     takeWhile (\<lambda>c. c \<in> set base64_chars) s \<noteq> []
     \<and> list_all (\<lambda>c. c = CHR ''='') (dropWhile (\<lambda>c. c \<in> set base64_chars) s)"

definition valid_avatar :: "string \<Rightarrow> bool" where
  "valid_avatar s \<longleftrightarrow>
     list_ex (\<lambda>p. starts_with (js_lower s) p \<and> avatar_body (drop (length p) s)) avatar_prefixes
     \<and> utf8_length s \<le> MAX_AVATAR_DATA_URL_BYTES"

definition validAvatarDataUrl :: "jsval \<Rightarrow> bool" where
  "validAvatarDataUrl = str_such valid_avatar"

definition wire_id :: "string \<Rightarrow> bool" where
  "wire_id = matches_class wire_chars 8 128"

definition validOpaqueId :: "string option \<Rightarrow> bool" where
  "validOpaqueId value = (case value of None \<Rightarrow> False | Some s \<Rightarrow> wire_id s)"

definition coordinate :: "string \<Rightarrow> bool" where
  "coordinate = matches_class wire_chars 1 128"

definition validP256PublicKey :: "JsonWebKey \<Rightarrow> bool" where
  "validP256PublicKey key \<longleftrightarrow>
     jk_kty key = Some ''EC'' \<and> jk_crv key = Some ''P-256''
     \<and> (case jk_x key of None \<Rightarrow> False | Some x \<Rightarrow> coordinate x)
     \<and> (case jk_y key of None \<Rightarrow> False | Some y \<Rightarrow> coordinate y)"

definition samePublicKey :: "JsonWebKey \<Rightarrow> JsonWebKey \<Rightarrow> bool" where
  "samePublicKey left right \<longleftrightarrow>
     jk_kty left = jk_kty right \<and> jk_crv left = jk_crv right
     \<and> jk_x left = jk_x right \<and> jk_y left = jk_y right"

definition samePeerIdentity :: "PublicPeerIdentity \<Rightarrow> PublicPeerIdentity \<Rightarrow> bool" where
  "samePeerIdentity left right \<longleftrightarrow>
     peerId left = peerId right \<or> samePublicKey (publicKey left) (publicKey right)"

definition validPublicPeerIdentity :: "PublicPeerIdentity \<Rightarrow> bool" where
  "validPublicPeerIdentity identity \<longleftrightarrow>
     wire_id (peerId identity)
     \<and> 2 \<le> length (js_trim (displayName identity))
     \<and> length (displayName identity) \<le> 80
     \<and> validP256PublicKey (publicKey identity)"

lemma samePublicKey_refl [simp]: "samePublicKey k k"
  by (simp add: samePublicKey_def)

lemma samePublicKey_sym: "samePublicKey a b \<longleftrightarrow> samePublicKey b a"
  by (auto simp: samePublicKey_def)

lemma samePublicKey_trans: "samePublicKey a b \<Longrightarrow> samePublicKey b c \<Longrightarrow> samePublicKey a c"
  by (auto simp: samePublicKey_def)

lemma samePeerIdentity_refl [simp]: "samePeerIdentity a a"
  by (simp add: samePeerIdentity_def)

lemma samePeerIdentity_sym: "samePeerIdentity a b \<longleftrightarrow> samePeerIdentity b a"
  using samePublicKey_sym by (auto simp: samePeerIdentity_def)

section \<open>Member lists\<close>

definition upsertGroupMemberIdentity ::
    "PublicPeerIdentity list \<Rightarrow> PublicPeerIdentity \<Rightarrow> PublicPeerIdentity list" where
  "upsertGroupMemberIdentity members member =
    (case find_index (\<lambda>candidate. samePeerIdentity candidate member) members of
       None \<Rightarrow> members @ [member]
     | Some index \<Rightarrow> members[index := member])"

text \<open>One round of the loop of \<^verbatim>\<open>dedupePeerIdentities\<close>.\<close>

definition dedupe_step ::
    "PublicPeerIdentity option \<Rightarrow> PublicPeerIdentity \<Rightarrow> PublicPeerIdentity list \<Rightarrow> PublicPeerIdentity list" where
  "dedupe_step preferred member unique =
    (if \<not> validPublicPeerIdentity member then unique
     else (case find_index (\<lambda>existing. samePeerIdentity existing member) unique of
        None \<Rightarrow> unique @ [member]
      | Some index \<Rightarrow>
          (let existing = unique ! index in
           case preferred of
             Some p \<Rightarrow>
               if samePeerIdentity member p then unique[index := p]
               else if samePublicKey (publicKey existing) (publicKey member)
               then unique[index := existing\<lparr>displayName := displayName member, avatar := avatar member\<rparr>]
               else unique
           | None \<Rightarrow>
               if samePublicKey (publicKey existing) (publicKey member)
               then unique[index := existing\<lparr>displayName := displayName member, avatar := avatar member\<rparr>]
               else unique)))"

definition dedupePeerIdentities ::
    "PublicPeerIdentity list \<Rightarrow> PublicPeerIdentity option \<Rightarrow> PublicPeerIdentity list" where
  "dedupePeerIdentities members preferred = fold (dedupe_step preferred) members []"

text \<open>
  What identifies a member is its peer id and its key; the loop never changes those of an entry,
  it only appends an entry that aliases none of the ones before it.
\<close>

definition ident :: "PublicPeerIdentity \<Rightarrow> string \<times> JsonWebKey" where
  "ident m = (peerId m, publicKey m)"

definition same_ident :: "string \<times> JsonWebKey \<Rightarrow> string \<times> JsonWebKey \<Rightarrow> bool" where
  "same_ident a b \<longleftrightarrow> fst a = fst b \<or> samePublicKey (snd a) (snd b)"

definition no_alias :: "PublicPeerIdentity list \<Rightarrow> bool" where
  "no_alias ms \<longleftrightarrow> sorted_wrt (\<lambda>a b. \<not> samePeerIdentity a b) ms"

lemma samePeerIdentity_ident: "samePeerIdentity a b \<longleftrightarrow> same_ident (ident a) (ident b)"
  by (simp add: samePeerIdentity_def same_ident_def ident_def)

lemma same_ident_refl [simp]: "same_ident a a"
  by (simp add: same_ident_def)

lemma no_alias_ident: "no_alias ms \<longleftrightarrow> sorted_wrt (\<lambda>a b. \<not> same_ident a b) (map ident ms)"
  by (simp add: no_alias_def samePeerIdentity_ident sorted_wrt_map)

lemma map_ident_dedupe_step:
  "map ident (dedupe_step None m u) =
    (if validPublicPeerIdentity m \<and> (\<forall>e \<in> set u. \<not> samePeerIdentity e m)
     then map ident u @ [ident m] else map ident u)"
proof (cases "find_index (\<lambda>existing. samePeerIdentity existing m) u")
  case None
  then have "\<forall>e \<in> set u. \<not> samePeerIdentity e m" by (simp only: find_index_None)
  with None show ?thesis by (simp add: dedupe_step_def)
next
  case (Some i)
  note i = find_index_Some [OF Some]
  have "ident ((u ! i)\<lparr>displayName := d, avatar := a\<rparr>) = map ident u ! i" for d a
    using i by (simp add: ident_def)
  with i Some show ?thesis
    by (auto simp: dedupe_step_def Let_def map_update list_update_id simp del: nth_map)
qed

lemma dedupe_step_valid:
  assumes "\<forall>e \<in> set u. validPublicPeerIdentity e"
  shows "\<forall>e \<in> set (dedupe_step None m u). validPublicPeerIdentity e"
proof (cases "find_index (\<lambda>existing. samePeerIdentity existing m) u")
  case (Some i)
  with find_index_Some [OF Some] assms show ?thesis
    by (auto simp: dedupe_step_def Let_def validPublicPeerIdentity_def dest!: set_update_subset_insert [THEN subsetD])
qed (use assms in \<open>auto simp: dedupe_step_def\<close>)

lemma dedupe_fold:
  assumes "\<forall>e \<in> set u. validPublicPeerIdentity e" "no_alias u"
  shows "(\<forall>e \<in> set (fold (dedupe_step None) ms u). validPublicPeerIdentity e)
    \<and> no_alias (fold (dedupe_step None) ms u)
    \<and> (\<exists>ex. map ident (fold (dedupe_step None) ms u) = map ident u @ ex
        \<and> set ex \<subseteq> ident ` {m \<in> set ms. validPublicPeerIdentity m})"
  using assms
proof (induction ms arbitrary: u)
  case (Cons m ms)
  let ?u = "dedupe_step None m u"
  have "no_alias ?u"
    using Cons.prems(2) map_ident_dedupe_step [of m u]
    by (auto simp: no_alias_ident sorted_wrt_append samePeerIdentity_ident)
  from Cons.IH [OF dedupe_step_valid [OF Cons.prems(1)] this]
  obtain ex where ex: "map ident (fold (dedupe_step None) ms ?u) = map ident ?u @ ex"
    "set ex \<subseteq> ident ` {m \<in> set ms. validPublicPeerIdentity m}"
    "\<forall>e \<in> set (fold (dedupe_step None) ms ?u). validPublicPeerIdentity e"
    "no_alias (fold (dedupe_step None) ms ?u)" by blast
  with map_ident_dedupe_step [of m u] show ?case by (auto split: if_splits)
qed simp

lemma dedupe_valid: "m \<in> set (dedupePeerIdentities ms None) \<Longrightarrow> validPublicPeerIdentity m"
  and dedupe_no_alias: "no_alias (dedupePeerIdentities ms None)"
  and dedupe_subset: "ident ` set (dedupePeerIdentities ms None) \<subseteq> ident ` {m \<in> set ms. validPublicPeerIdentity m}"
proof -
  have fold: "(\<forall>e \<in> set (dedupePeerIdentities ms None). validPublicPeerIdentity e)
    \<and> no_alias (dedupePeerIdentities ms None)
    \<and> (\<exists>ex. map ident (dedupePeerIdentities ms None) = map ident [] @ ex
        \<and> set ex \<subseteq> ident ` {m \<in> set ms. validPublicPeerIdentity m})"
    unfolding dedupePeerIdentities_def by (rule dedupe_fold) (simp_all add: no_alias_def)
  then show "m \<in> set (dedupePeerIdentities ms None) \<Longrightarrow> validPublicPeerIdentity m"
    "no_alias (dedupePeerIdentities ms None)" by blast+
  from fold have "set (map ident (dedupePeerIdentities ms None)) \<subseteq> ident ` {m \<in> set ms. validPublicPeerIdentity m}"
    by (elim conjE exE) simp
  then show "ident ` set (dedupePeerIdentities ms None) \<subseteq> ident ` {m \<in> set ms. validPublicPeerIdentity m}"
    by (simp only: set_map)
qed

lemma dedupe_origin:
  assumes "e \<in> set (dedupePeerIdentities ms None)"
  obtains x where "x \<in> set ms" "validPublicPeerIdentity x" "peerId e = peerId x" "publicKey e = publicKey x"
proof -
  from assms have "ident e \<in> ident ` set (dedupePeerIdentities ms None)" by (rule imageI)
  then have "ident e \<in> ident ` {m \<in> set ms. validPublicPeerIdentity m}" by (rule subsetD [OF dedupe_subset])
  then show thesis using that by (auto simp: ident_def)
qed

text \<open>The first members of the list keep their entries, whatever follows them.\<close>

lemma dedupe_fold_keeps:
  "\<exists>ex. map ident (fold (dedupe_step None) ms u) = map ident u @ ex"
proof (induction ms arbitrary: u)
  case (Cons m ms)
  from Cons.IH [of "dedupe_step None m u"] map_ident_dedupe_step [of m u] show ?case
    by auto
qed simp

lemma dedupe_append_prefix:
  "\<exists>ex. map ident (dedupePeerIdentities (xs @ ys) None) = map ident (dedupePeerIdentities xs None) @ ex"
  unfolding dedupePeerIdentities_def fold_append comp_apply by (rule dedupe_fold_keeps)

lemma dedupe_complete:
  assumes "m \<in> set ms" "validPublicPeerIdentity m"
  shows "\<exists>e \<in> set (dedupePeerIdentities ms None). samePeerIdentity e m"
proof -
  from assms(1) obtain xs ys where ms: "ms = xs @ m # ys" by (meson split_list)
  let ?u = "dedupe_step None m (fold (dedupe_step None) xs [])"
  have "\<exists>i \<in> set (map ident ?u). same_ident i (ident m)"
    using assms(2) map_ident_dedupe_step [of m "fold (dedupe_step None) xs []"]
    by (auto simp: samePeerIdentity_ident)
  moreover obtain ex where "map ident (dedupePeerIdentities ms None) = map ident ?u @ ex"
    using dedupe_fold_keeps [of ys ?u] by (auto simp: dedupePeerIdentities_def ms)
  ultimately have "\<exists>i \<in> set (map ident (dedupePeerIdentities ms None)). same_ident i (ident m)"
    by auto
  then show ?thesis by (auto simp: samePeerIdentity_ident)
qed

lemma dedupe_fold_id:
  assumes "\<forall>m \<in> set ms. validPublicPeerIdentity m" "no_alias (u @ ms)"
  shows "map ident (fold (dedupe_step None) ms u) = map ident u @ map ident ms"
  using assms
proof (induction ms arbitrary: u)
  case (Cons m ms)
  have "\<forall>e \<in> set u. \<not> samePeerIdentity e m"
    using Cons.prems(2) by (simp add: no_alias_def sorted_wrt_append)
  with Cons.prems(1) have step: "map ident (dedupe_step None m u) = map ident u @ [ident m]"
    by (simp add: map_ident_dedupe_step)
  have "no_alias (dedupe_step None m u @ ms)"
    using Cons.prems(2) unfolding no_alias_ident by (simp add: step)
  with Cons.IH [of "dedupe_step None m u"] Cons.prems(1) step show ?case by simp
qed simp

text \<open>A list that is already free of aliases keeps all its entries, in order.\<close>

lemma dedupe_id:
  "\<forall>m \<in> set ms. validPublicPeerIdentity m \<Longrightarrow> no_alias ms \<Longrightarrow>
    map ident (dedupePeerIdentities ms None) = map ident ms"
  using dedupe_fold_id [of ms "[]"] by (simp add: dedupePeerIdentities_def)

lemma no_alias_distinct: "no_alias ms \<Longrightarrow> distinct (map peerId ms)"
  unfolding no_alias_def
  by (induction ms) (auto simp: samePeerIdentity_def)

lemma no_alias_unique:
  "no_alias ms \<Longrightarrow> a \<in> set ms \<Longrightarrow> b \<in> set ms \<Longrightarrow> samePeerIdentity a b \<Longrightarrow> a = b"
  unfolding no_alias_def using samePeerIdentity_sym by (induction ms) auto

lemma no_alias_intro:
  "distinct ms \<Longrightarrow> \<forall>a \<in> set ms. \<forall>b \<in> set ms. samePeerIdentity a b \<longrightarrow> a = b \<Longrightarrow> no_alias ms"
  unfolding no_alias_def by (induction ms) auto

lemma no_alias_filter: "no_alias ms \<Longrightarrow> no_alias (filter p ms)"
  by (simp add: no_alias_def sorted_wrt_filter)

end
