(* ===== verification/Group_Certificates.thy ===== *)
theory Group_Certificates
  imports Peer_Identity
begin

text \<open>
  The signed statements of a group in \<^verbatim>\<open>apps/web/src/services/offline/social-storage.ts\<close>: the
  grant by which the owner makes a member an administrator, and the certificate that revokes a
  member. The theory has their types, their canonical texts, their creation and verification,
  and the merging of two lists of them.

  The Web Cryptography API is outside the repository. Signing is the parameter
  \<open>sign :: CryptoKey \<Rightarrow> string \<Rightarrow> nat list\<close> (key, text, the bytes of the signature) and verifying
  is \<open>verify :: JsonWebKey \<Rightarrow> nat list \<Rightarrow> string \<Rightarrow> bool\<close>, false also where importing the key
  throws. \<open>signature_scheme\<close> states what is used of them. The texts of
  \<^verbatim>\<open>crypto.randomUUID()\<close> and the time of \<^verbatim>\<open>Date.now()\<close> are arguments.
\<close>

section \<open>Types\<close>

record GroupAdministratorGrant =
  gr_version :: int
  gr_groupId :: string
  gr_administratorPeerId :: string
  gr_administratorPublicKey :: JsonWebKey
  gr_ownerPeerId :: string
  gr_administratorEpoch :: int
  gr_messageId :: string
  gr_timestamp :: rat
  gr_signature :: string

record GroupRevocationCertificate =
  rc_version :: int
  rc_groupId :: string
  rc_targetPeerId :: string
  rc_targetPublicKey :: JsonWebKey
  rc_issuerPeerId :: string
  rc_membershipVersion :: int
  rc_administratorEpoch :: int
  rc_messageId :: string
  rc_timestamp :: rat
  rc_administratorGrant :: "GroupAdministratorGrant option"
  rc_rendezvousVersion :: "int option"
  rc_rendezvousSecret :: "string option"
  rc_signature :: string

datatype ChannelKind = TextChannel | VoiceChannel

record LocalGroupChannel =
  ch_id :: string
  ch_name :: string
  ch_kind :: ChannelKind
  ch_voiceRoomId :: "string option option"

record PublicGroupMetadata =
  g_groupId :: string
  g_name :: string
  g_avatar :: "string option"
  g_channels :: "LocalGroupChannel list"
  g_ownerPeerId :: string
  g_membershipVersion :: int
  g_manifestVersion :: int
  g_administratorPeerIds :: "string list"
  g_removedPeerIds :: "string list"
  g_removedMembers :: "PublicPeerIdentity list"
  g_manifestActorPeerId :: "string option"
  g_manifestOperationId :: "string option"
  g_administratorEpoch :: "int option"
  g_administratorGrants :: "GroupAdministratorGrant list option"
  g_revocations :: "GroupRevocationCertificate list option"
  g_rendezvousVersion :: "int option"
  g_rendezvousSecret :: "string option"
  g_ownerIdentity :: "PublicPeerIdentity option"

record LocalGroup = PublicGroupMetadata +
  g_members :: "PublicPeerIdentity list"
  g_joinedAt :: rat

text \<open>The \<^verbatim>\<open>value ?? fallback\<close> operator on an optional field, and the defaults the code writes with it.\<close>

definition or_else :: "'a option \<Rightarrow> 'a \<Rightarrow> 'a" where
  "or_else v d = (case v of None \<Rightarrow> d | Some x \<Rightarrow> x)"

lemma or_else_simps [simp]: "or_else None d = d" "or_else (Some x) d = x"
  by (simp_all add: or_else_def)

abbreviation epoch_of :: "'a PublicGroupMetadata_scheme \<Rightarrow> int" where
  "epoch_of g \<equiv> or_else (g_administratorEpoch g) 1"

abbreviation revocations_of :: "'a PublicGroupMetadata_scheme \<Rightarrow> GroupRevocationCertificate list" where
  "revocations_of g \<equiv> or_else (g_revocations g) []"

abbreviation grants_of :: "'a PublicGroupMetadata_scheme \<Rightarrow> GroupAdministratorGrant list" where
  "grants_of g \<equiv> or_else (g_administratorGrants g) []"

section \<open>Well-formedness\<close>

definition signature_text :: "string \<Rightarrow> bool" where
  "signature_text = matches_class wire_chars 16 256"

definition safe_positive :: "int \<Rightarrow> bool" where
  "safe_positive n \<longleftrightarrow> 1 \<le> n \<and> n \<le> MAX_SAFE_INTEGER"

definition validGroupAdministratorGrant :: "GroupAdministratorGrant \<Rightarrow> bool" where
  "validGroupAdministratorGrant grant \<longleftrightarrow>
     gr_version grant = 1
     \<and> wire_id (gr_groupId grant)
     \<and> wire_id (gr_administratorPeerId grant)
     \<and> wire_id (gr_ownerPeerId grant)
     \<and> validP256PublicKey (gr_administratorPublicKey grant)
     \<and> safe_positive (gr_administratorEpoch grant)
     \<and> wire_id (gr_messageId grant)
     \<and> gr_timestamp grant > 0
     \<and> signature_text (gr_signature grant)"

definition validGroupRevocationCertificate :: "GroupRevocationCertificate \<Rightarrow> bool" where
  "validGroupRevocationCertificate certificate \<longleftrightarrow>
     rc_version certificate = 1
     \<and> wire_id (rc_groupId certificate)
     \<and> wire_id (rc_targetPeerId certificate)
     \<and> wire_id (rc_issuerPeerId certificate)
     \<and> safe_positive (rc_membershipVersion certificate)
     \<and> safe_positive (rc_administratorEpoch certificate)
     \<and> wire_id (rc_messageId certificate)
     \<and> rc_timestamp certificate > 0
     \<and> (case rc_administratorGrant certificate of None \<Rightarrow> True | Some g \<Rightarrow> validGroupAdministratorGrant g)
     \<and> (case rc_rendezvousVersion certificate of None \<Rightarrow> True | Some v \<Rightarrow> safe_positive v)
     \<and> (case rc_rendezvousSecret certificate of None \<Rightarrow> True | Some s \<Rightarrow> wire_id s)
     \<and> signature_text (rc_signature certificate)"

section \<open>Canonical texts\<close>

definition js_or_null :: "('a \<Rightarrow> jsval) \<Rightarrow> 'a option \<Rightarrow> jsval" where
  "js_or_null f v = (case v of None \<Rightarrow> JNull | Some x \<Rightarrow> f x)"

definition canonicalPublicKey :: "JsonWebKey \<Rightarrow> jsval" where
  "canonicalPublicKey key = JObj
    [(''kty'', js_or_null JStr (jk_kty key)), (''crv'', js_or_null JStr (jk_crv key)),
     (''x'', js_or_null JStr (jk_x key)), (''y'', js_or_null JStr (jk_y key))]"

definition canonicalAdministratorGrantValue :: "GroupAdministratorGrant \<Rightarrow> jsval" where
  "canonicalAdministratorGrantValue grant = JObj
    [(''version'', JInt (gr_version grant)),
     (''groupId'', JStr (gr_groupId grant)),
     (''administratorPeerId'', JStr (gr_administratorPeerId grant)),
     (''administratorPublicKey'', canonicalPublicKey (gr_administratorPublicKey grant)),
     (''ownerPeerId'', JStr (gr_ownerPeerId grant)),
     (''administratorEpoch'', JInt (gr_administratorEpoch grant)),
     (''messageId'', JStr (gr_messageId grant)),
     (''timestamp'', JNum (JFin (gr_timestamp grant))),
     (''signature'', JStr (gr_signature grant))]"

definition canonicalGroupAdministratorGrant :: "(rat \<Rightarrow> string) \<Rightarrow> GroupAdministratorGrant \<Rightarrow> string" where
  "canonicalGroupAdministratorGrant num grant = jtext num (JObj
    [(''version'', JInt 1),
     (''groupId'', JStr (gr_groupId grant)),
     (''administratorPeerId'', JStr (gr_administratorPeerId grant)),
     (''administratorPublicKey'', canonicalPublicKey (gr_administratorPublicKey grant)),
     (''ownerPeerId'', JStr (gr_ownerPeerId grant)),
     (''administratorEpoch'', JInt (gr_administratorEpoch grant)),
     (''messageId'', JStr (gr_messageId grant)),
     (''timestamp'', JNum (JFin (gr_timestamp grant)))])"

definition legacyFields :: "GroupRevocationCertificate \<Rightarrow> (string \<times> jsval) list" where
  "legacyFields certificate =
    [(''version'', JInt 1),
     (''groupId'', JStr (rc_groupId certificate)),
     (''targetPeerId'', JStr (rc_targetPeerId certificate)),
     (''targetPublicKey'', canonicalPublicKey (rc_targetPublicKey certificate)),
     (''issuerPeerId'', JStr (rc_issuerPeerId certificate)),
     (''membershipVersion'', JInt (rc_membershipVersion certificate)),
     (''administratorEpoch'', JInt (rc_administratorEpoch certificate)),
     (''messageId'', JStr (rc_messageId certificate)),
     (''timestamp'', JNum (JFin (rc_timestamp certificate)))]"

definition chained_certificate :: "GroupRevocationCertificate \<Rightarrow> bool" where
  "chained_certificate certificate \<longleftrightarrow>
     rc_administratorGrant certificate \<noteq> None
     \<or> (case rc_rendezvousVersion certificate of None \<Rightarrow> False | Some v \<Rightarrow> v \<noteq> 0)
     \<or> (case rc_rendezvousSecret certificate of None \<Rightarrow> False | Some s \<Rightarrow> s \<noteq> [])"

definition canonicalGroupRevocation :: "(rat \<Rightarrow> string) \<Rightarrow> GroupRevocationCertificate \<Rightarrow> string" where
  "canonicalGroupRevocation num certificate = jtext num (JObj
    (if chained_certificate certificate
     then legacyFields certificate @
       [(''administratorGrant'', js_or_null canonicalAdministratorGrantValue (rc_administratorGrant certificate)),
        (''rendezvousVersion'', js_or_null (\<lambda>n. JInt n) (rc_rendezvousVersion certificate)),
        (''rendezvousSecret'', js_or_null JStr (rc_rendezvousSecret certificate))]
     else legacyFields certificate))"

section \<open>Creation and verification\<close>

definition canManageLocalGroup :: "'a PublicGroupMetadata_scheme \<Rightarrow> string \<Rightarrow> bool" where
  "canManageLocalGroup grp peer \<longleftrightarrow>
     g_ownerPeerId grp = peer \<or> peer \<in> set (g_administratorPeerIds grp)"

definition createGroupAdministratorGrant ::
    "(rat \<Rightarrow> string) \<Rightarrow> (CryptoKey \<Rightarrow> string \<Rightarrow> nat list) \<Rightarrow> string \<Rightarrow> rat
     \<Rightarrow> 'a PublicGroupMetadata_scheme \<Rightarrow> PublicPeerIdentity \<Rightarrow> LocalIdentity \<Rightarrow> int
     \<Rightarrow> js_error + GroupAdministratorGrant" where
  "createGroupAdministratorGrant num sign uuid now grp administrator owner epoch =
    (if li_peerId owner \<noteq> g_ownerPeerId grp then Inl (JSError ''only the owner delegates'')
     else let unsigned =
            \<lparr>gr_version = 1, gr_groupId = g_groupId grp,
             gr_administratorPeerId = peerId administrator,
             gr_administratorPublicKey = publicKey administrator,
             gr_ownerPeerId = li_peerId owner, gr_administratorEpoch = epoch,
             gr_messageId = uuid, gr_timestamp = now, gr_signature = []\<rparr>
          in Inr (unsigned\<lparr>gr_signature :=
               bytesToBase64Url (sign (li_privateKey owner) (canonicalGroupAdministratorGrant num unsigned))\<rparr>))"

definition verify_text :: "(JsonWebKey \<Rightarrow> nat list \<Rightarrow> string \<Rightarrow> bool) \<Rightarrow> JsonWebKey \<Rightarrow> string \<Rightarrow> string \<Rightarrow> bool" where
  "verify_text verify key signature msg =
    (case base64UrlToArrayBuffer signature of None \<Rightarrow> False | Some bytes \<Rightarrow> verify key bytes msg)"

abbreviation known_identities :: "'a LocalGroup_scheme \<Rightarrow> PublicPeerIdentity list" where
  "known_identities grp \<equiv> g_members grp @ g_removedMembers grp"

definition find_peer :: "PublicPeerIdentity list \<Rightarrow> string \<Rightarrow> PublicPeerIdentity option" where
  "find_peer ms p = List.find (\<lambda>m. peerId m = p) ms"

definition verifyGroupAdministratorGrant ::
    "(rat \<Rightarrow> string) \<Rightarrow> (JsonWebKey \<Rightarrow> nat list \<Rightarrow> string \<Rightarrow> bool)
     \<Rightarrow> GroupAdministratorGrant \<Rightarrow> 'a LocalGroup_scheme \<Rightarrow> bool" where
  "verifyGroupAdministratorGrant num verify grant grp =
    (if \<not> validGroupAdministratorGrant grant
        \<or> gr_groupId grant \<noteq> g_groupId grp
        \<or> gr_ownerPeerId grant \<noteq> g_ownerPeerId grp then False
     else case (case find_peer (known_identities grp) (g_ownerPeerId grp) of
                  Some o' \<Rightarrow> Some o' | None \<Rightarrow> g_ownerIdentity grp) of
       None \<Rightarrow> False
     | Some owner \<Rightarrow>
         if (case find_peer (known_identities grp) (gr_administratorPeerId grant) of
               None \<Rightarrow> False
             | Some administrator \<Rightarrow> \<not> samePublicKey (publicKey administrator) (gr_administratorPublicKey grant))
         then False
         else verify_text verify (publicKey owner) (gr_signature grant) (canonicalGroupAdministratorGrant num grant))"

definition createGroupRevocationCertificate ::
    "(rat \<Rightarrow> string) \<Rightarrow> (CryptoKey \<Rightarrow> string \<Rightarrow> nat list) \<Rightarrow> string \<Rightarrow> rat
     \<Rightarrow> 'a PublicGroupMetadata_scheme \<Rightarrow> PublicPeerIdentity \<Rightarrow> LocalIdentity \<Rightarrow> int
     \<Rightarrow> js_error + GroupRevocationCertificate" where
  "createGroupRevocationCertificate num sign uuid now grp target issuer version =
    (if \<not> canManageLocalGroup grp (li_peerId issuer) then Inl (JSError ''issuer may not revoke'')
     else if peerId target = g_ownerPeerId grp then Inl (JSError ''owner cannot be removed'')
     else if li_peerId issuer \<noteq> g_ownerPeerId grp \<and> peerId target \<in> set (g_administratorPeerIds grp)
     then Inl (JSError ''only the owner removes an administrator'')
     else let grant = (if li_peerId issuer \<noteq> g_ownerPeerId grp
                then List.find (\<lambda>g. gr_administratorPeerId g = li_peerId issuer
                       \<and> gr_administratorEpoch g = epoch_of grp) (grants_of grp)
                else None)
          in if li_peerId issuer \<noteq> g_ownerPeerId grp \<and> grant = None
             then Inl (JSError ''no signed delegation'')
             else let unsigned =
               \<lparr>rc_version = 1, rc_groupId = g_groupId grp,
                rc_targetPeerId = peerId target, rc_targetPublicKey = publicKey target,
                rc_issuerPeerId = li_peerId issuer, rc_membershipVersion = version,
                rc_administratorEpoch = epoch_of grp,
                rc_messageId = uuid, rc_timestamp = now, rc_administratorGrant = grant,
                rc_rendezvousVersion = g_rendezvousVersion grp,
                rc_rendezvousSecret = g_rendezvousSecret grp, rc_signature = []\<rparr>
             in Inr (unsigned\<lparr>rc_signature :=
                  bytesToBase64Url (sign (li_privateKey issuer) (canonicalGroupRevocation num unsigned))\<rparr>))"

text \<open>The key a certificate's signature is checked with, \<open>None\<close> where verification fails before.\<close>

definition revocation_issuer_key ::
    "(rat \<Rightarrow> string) \<Rightarrow> (JsonWebKey \<Rightarrow> nat list \<Rightarrow> string \<Rightarrow> bool)
     \<Rightarrow> GroupRevocationCertificate \<Rightarrow> 'a LocalGroup_scheme \<Rightarrow> bool \<Rightarrow> JsonWebKey option" where
  "revocation_issuer_key num verify certificate grp allowHistorical =
    (if rc_issuerPeerId certificate = g_ownerPeerId grp
     then (case find_peer (known_identities grp) (rc_issuerPeerId certificate) of
             Some issuer \<Rightarrow> Some (publicKey issuer)
           | None \<Rightarrow> map_option publicKey (g_ownerIdentity grp))
     else case rc_administratorGrant certificate of
       None \<Rightarrow> None
     | Some grant \<Rightarrow>
         if gr_administratorPeerId grant \<noteq> rc_issuerPeerId certificate
            \<or> gr_administratorEpoch grant \<noteq> rc_administratorEpoch certificate
            \<or> (\<not> allowHistorical \<and> epoch_of grp > rc_administratorEpoch certificate)
            \<or> (epoch_of grp = rc_administratorEpoch certificate
                \<and> rc_issuerPeerId certificate \<notin> set (g_administratorPeerIds grp))
            \<or> \<not> verifyGroupAdministratorGrant num verify grant grp
         then None else Some (gr_administratorPublicKey grant))"

definition verifyGroupRevocationCertificate ::
    "(rat \<Rightarrow> string) \<Rightarrow> (JsonWebKey \<Rightarrow> nat list \<Rightarrow> string \<Rightarrow> bool)
     \<Rightarrow> GroupRevocationCertificate \<Rightarrow> 'a LocalGroup_scheme \<Rightarrow> bool \<Rightarrow> bool" where
  "verifyGroupRevocationCertificate num verify certificate grp allowHistorical =
    (if \<not> validGroupRevocationCertificate certificate
        \<or> rc_groupId certificate \<noteq> g_groupId grp
        \<or> rc_targetPeerId certificate = g_ownerPeerId grp
        \<or> (rc_issuerPeerId certificate \<noteq> g_ownerPeerId grp
            \<and> rc_targetPeerId certificate \<in> set (g_administratorPeerIds grp)) then False
     else case revocation_issuer_key num verify certificate grp allowHistorical of
       None \<Rightarrow> False
     | Some issuerKey \<Rightarrow>
         (case find_peer (known_identities grp) (rc_targetPeerId certificate) of
            None \<Rightarrow> False
          | Some target \<Rightarrow>
              samePublicKey (publicKey target) (rc_targetPublicKey certificate)
              \<and> verify_text verify issuerKey (rc_signature certificate) (canonicalGroupRevocation num certificate)))"

section \<open>Merging\<close>

definition MAX_GROUP_MEMBERS :: nat where
  "MAX_GROUP_MEMBERS = 48"

definition MAX_GROUP_REVOCATIONS :: nat where
  "MAX_GROUP_REVOCATIONS = 48"

text \<open>
  Both merges keep, per key, the best of the well-formed entries in a \<^verbatim>\<open>Map\<close>, the later one
  only when it is strictly better.
\<close>

definition best_step :: "('a \<Rightarrow> bool) \<Rightarrow> ('a \<Rightarrow> string) \<Rightarrow> ('a \<Rightarrow> 'a \<Rightarrow> bool)
    \<Rightarrow> 'a \<Rightarrow> (string \<times> 'a) list \<Rightarrow> (string \<times> 'a) list" where
  "best_step valid key better c m =
    (if \<not> valid c then m
     else case map_of m (key c) of
       None \<Rightarrow> AList.update (key c) c m
     | Some current \<Rightarrow> if better c current then AList.update (key c) c m else m)"

definition newer_revocation :: "GroupRevocationCertificate \<Rightarrow> GroupRevocationCertificate \<Rightarrow> bool" where
  "newer_revocation certificate current \<longleftrightarrow>
     rc_membershipVersion certificate > rc_membershipVersion current
     \<or> (rc_membershipVersion certificate = rc_membershipVersion current
         \<and> rc_messageId certificate > rc_messageId current)"

definition newer_grant :: "GroupAdministratorGrant \<Rightarrow> GroupAdministratorGrant \<Rightarrow> bool" where
  "newer_grant grant current \<longleftrightarrow>
     gr_administratorEpoch grant > gr_administratorEpoch current
     \<or> (gr_administratorEpoch grant = gr_administratorEpoch current
         \<and> gr_messageId grant > gr_messageId current)"

definition mergeGroupRevocations ::
    "(string \<Rightarrow> string \<Rightarrow> int) \<Rightarrow> GroupRevocationCertificate list \<Rightarrow> GroupRevocationCertificate list
     \<Rightarrow> GroupRevocationCertificate list" where
  "mergeGroupRevocations lc left right =
    (let byTarget = fold (best_step validGroupRevocationCertificate rc_targetPeerId newer_revocation) (left @ right) []
     in take MAX_GROUP_REVOCATIONS
          (sort_cmp (\<lambda>a b. lc (rc_targetPeerId a) (rc_targetPeerId b)) (map_values byTarget)))"

definition mergeAdministratorGrants ::
    "(string \<Rightarrow> string \<Rightarrow> int) \<Rightarrow> GroupAdministratorGrant list \<Rightarrow> GroupAdministratorGrant list
     \<Rightarrow> GroupAdministratorGrant list" where
  "mergeAdministratorGrants lc left right =
    (let byAdministrator = fold (best_step validGroupAdministratorGrant gr_administratorPeerId newer_grant) (left @ right) []
     in take MAX_GROUP_MEMBERS
          (sort_cmp (\<lambda>a b. lc (gr_administratorPeerId a) (gr_administratorPeerId b)) (map_values byAdministrator)))"

section \<open>What merging keeps\<close>

text \<open>
  The contract of a merge by key: the preference is a strict weak order. Then the map holds, for
  every key some well-formed entry has, an entry no other one beats.
\<close>

definition best_entries :: "('a \<Rightarrow> bool) \<Rightarrow> ('a \<Rightarrow> string) \<Rightarrow> ('a \<Rightarrow> 'a \<Rightarrow> bool)
    \<Rightarrow> 'a list \<Rightarrow> (string \<times> 'a) list \<Rightarrow> bool" where
  "best_entries valid key better xs m \<longleftrightarrow> wf_map m
     \<and> (\<forall>k. map_of m k = None \<longrightarrow> (\<forall>c \<in> set xs. valid c \<longrightarrow> key c \<noteq> k))
     \<and> (\<forall>k v. map_of m k = Some v \<longrightarrow> v \<in> set xs \<and> valid v \<and> key v = k
          \<and> (\<forall>c \<in> set xs. valid c \<longrightarrow> key c = k \<longrightarrow> \<not> better c v))"

definition unambiguous :: "('a \<Rightarrow> bool) \<Rightarrow> ('a \<Rightarrow> string) \<Rightarrow> ('a \<Rightarrow> 'a \<Rightarrow> bool) \<Rightarrow> 'a set \<Rightarrow> bool" where
  "unambiguous valid key better s \<longleftrightarrow>
     (\<forall>a \<in> s. \<forall>b \<in> s. valid a \<longrightarrow> valid b \<longrightarrow> key a = key b \<longrightarrow> \<not> better a b \<longrightarrow> \<not> better b a \<longrightarrow> a = b)"

locale keyed_merge =
  fixes valid :: "'a \<Rightarrow> bool" and key :: "'a \<Rightarrow> string" and better :: "'a \<Rightarrow> 'a \<Rightarrow> bool"
  assumes better_asym: "better a b \<Longrightarrow> \<not> better b a"
    and better_negtrans: "\<not> better a b \<Longrightarrow> \<not> better b c \<Longrightarrow> \<not> better a c"
begin

lemma best_step_entries:
  assumes "best_entries valid key better xs m"
  shows "best_entries valid key better (xs @ [c]) (best_step valid key better c m)"
proof -
  have wf: "wf_map m"
    and none: "\<And>k d. map_of m k = None \<Longrightarrow> d \<in> set xs \<Longrightarrow> valid d \<Longrightarrow> key d \<noteq> k"
    and some: "\<And>k v. map_of m k = Some v \<Longrightarrow> v \<in> set xs \<and> valid v \<and> key v = k"
    and best: "\<And>k v d. map_of m k = Some v \<Longrightarrow> d \<in> set xs \<Longrightarrow> valid d \<Longrightarrow> key d = k \<Longrightarrow> \<not> better d v"
    using assms unfolding best_entries_def by blast+
  have irrefl: "\<not> better a a" for a using better_asym by blast
  have above: "\<not> better d c" if "map_of m (key c) = Some v" "better c v" "d \<in> set xs" "valid d" "key d = key c" for d v
    using best [OF that(1,3,4,5)] that(2) better_negtrans [of c d v] better_asym [of d c] by blast
  show ?thesis
    unfolding best_entries_def best_step_def
    using wf none some best irrefl above
    by (simp split: option.splits) (metis option.distinct(1) option.inject)
qed

lemma best_entries_fold: "best_entries valid key better xs (fold (best_step valid key better) xs [])"
proof (induction xs rule: rev_induct)
  case Nil
  then show ?case by (simp add: best_entries_def)
next
  case (snoc x xs)
  from best_step_entries [OF this] show ?case by simp
qed

lemma best_entry:
  assumes "(k, v) \<in> set (fold (best_step valid key better) xs [])"
  shows "map_of (fold (best_step valid key better) xs []) k = Some v" "key v = k" "v \<in> set xs" "valid v"
    "\<And>c. c \<in> set xs \<Longrightarrow> valid c \<Longrightarrow> key c = k \<Longrightarrow> \<not> better c v"
proof -
  let ?m = "fold (best_step valid key better) xs []"
  show "map_of ?m k = Some v"
    using best_entries_fold [of xs] assms by (simp add: best_entries_def wf_map_def)
  with best_entries_fold [of xs] show "key v = k" "v \<in> set xs" "valid v"
    "\<And>c. c \<in> set xs \<Longrightarrow> valid c \<Longrightarrow> key c = k \<Longrightarrow> \<not> better c v"
    unfolding best_entries_def by blast+
qed

lemma best_value:
  assumes "v \<in> set (map_values (fold (best_step valid key better) xs []))"
  shows "v \<in> set xs" "valid v" "\<And>c. c \<in> set xs \<Longrightarrow> valid c \<Longrightarrow> key c = key v \<Longrightarrow> \<not> better c v"
proof -
  from assms obtain k where k: "(k, v) \<in> set (fold (best_step valid key better) xs [])"
    by (auto simp: map_values_def)
  from best_entry [OF k] show "v \<in> set xs" "valid v"
    "\<And>c. c \<in> set xs \<Longrightarrow> valid c \<Longrightarrow> key c = key v \<Longrightarrow> \<not> better c v" by simp_all
qed

lemma best_keys:
  "map key (map_values (fold (best_step valid key better) xs [])) =
   map fst (fold (best_step valid key better) xs [])"
  using best_entry(2) by (auto simp: map_values_def)

lemma best_values_keys:
  "distinct (map key (map_values (fold (best_step valid key better) xs [])))"
  "key ` set (map_values (fold (best_step valid key better) xs [])) = key ` {c \<in> set xs. valid c}"
proof -
  let ?m = "fold (best_step valid key better) xs []"
  show "distinct (map key (map_values ?m))"
    unfolding best_keys using best_entries_fold [of xs] by (simp add: best_entries_def wf_map_def)
  have "key c \<in> set (map fst ?m)" if "c \<in> set xs" "valid c" for c
    using that best_entries_fold [of xs] unfolding best_entries_def map_of_eq_None_iff set_map by blast
  then have "key ` {c \<in> set xs. valid c} \<subseteq> key ` set (map_values ?m)"
    unfolding best_keys [symmetric] by auto
  then show "key ` set (map_values ?m) = key ` {c \<in> set xs. valid c}"
    using best_value(1,2) [of _ xs] by auto
qed

lemma best_values_inj: "inj_on key (set (map_values (fold (best_step valid key better) xs [])))"
  using best_values_keys(1) distinct_map by blast

lemma best_values_perm:
  assumes "unambiguous valid key better (set xs)" "set xs = set ys"
  shows "mset (map_values (fold (best_step valid key better) xs [])) =
         mset (map_values (fold (best_step valid key better) ys []))"
proof -
  let ?V = "\<lambda>zs. map_values (fold (best_step valid key better) zs [])"
  have sub: "set (?V as) \<subseteq> set (?V bs)" if eq: "set as = set bs" "unambiguous valid key better (set as)" for as bs
  proof
    fix v assume v: "v \<in> set (?V as)"
    have "key v \<in> key ` {c \<in> set bs. valid c}"
      using best_value(1,2) [OF v] eq by auto
    then have "key v \<in> key ` set (?V bs)" by (simp only: best_values_keys(2))
    then obtain w where w: "w \<in> set (?V bs)" "key w = key v" by (metis (no_types) imageE)
    have "\<not> better w v" "\<not> better v w"
      using best_value(3) [OF v] best_value(1,2) [OF w(1)] best_value(3) [OF w(1)] best_value(1,2) [OF v] w(2) eq
      by auto
    then have "v = w"
      using eq best_value(1,2) [OF v] best_value(1,2) [OF w(1)] w(2) unfolding unambiguous_def by blast
    with w show "v \<in> set (?V bs)" by simp
  qed
  have "set (?V xs) = set (?V ys)" using sub [of xs ys] sub [of ys xs] assms by auto
  moreover have "distinct (?V zs)" for zs
    using best_values_keys(1) distinct_map by blast
  ultimately show ?thesis by (metis set_eq_iff_mset_eq_distinct)
qed

end

interpretation revocation_merge: keyed_merge validGroupRevocationCertificate rc_targetPeerId newer_revocation
  by unfold_locales (auto simp: newer_revocation_def)

interpretation grant_merge: keyed_merge validGroupAdministratorGrant gr_administratorPeerId newer_grant
  by unfold_locales (auto simp: newer_grant_def)

lemma mergeGroupRevocations_mem:
  assumes "c \<in> set (mergeGroupRevocations lc left right)"
  shows "c \<in> set left \<union> set right" "validGroupRevocationCertificate c"
    "\<And>d. d \<in> set left \<union> set right \<Longrightarrow> validGroupRevocationCertificate d
       \<Longrightarrow> rc_targetPeerId d = rc_targetPeerId c \<Longrightarrow> \<not> newer_revocation d c"
proof -
  have "c \<in> set (map_values (fold (best_step validGroupRevocationCertificate rc_targetPeerId newer_revocation) (left @ right) []))"
    using assms set_take_subset [of MAX_GROUP_REVOCATIONS] unfolding mergeGroupRevocations_def Let_def
    by (metis set_sort_cmp subsetD)
  from revocation_merge.best_value [OF this] show "c \<in> set left \<union> set right" "validGroupRevocationCertificate c"
    "\<And>d. d \<in> set left \<union> set right \<Longrightarrow> validGroupRevocationCertificate d
       \<Longrightarrow> rc_targetPeerId d = rc_targetPeerId c \<Longrightarrow> \<not> newer_revocation d c" by auto
qed

lemma mergeAdministratorGrants_mem:
  assumes "g \<in> set (mergeAdministratorGrants lc left right)"
  shows "g \<in> set left \<union> set right" "validGroupAdministratorGrant g"
proof -
  have "g \<in> set (map_values (fold (best_step validGroupAdministratorGrant gr_administratorPeerId newer_grant) (left @ right) []))"
    using assms set_take_subset [of MAX_GROUP_MEMBERS] unfolding mergeAdministratorGrants_def Let_def
    by (metis set_sort_cmp subsetD)
  from grant_merge.best_value [OF this] show "g \<in> set left \<union> set right" "validGroupAdministratorGrant g" by auto
qed

lemma mergeGroupRevocations_bound: "length (mergeGroupRevocations lc left right) \<le> MAX_GROUP_REVOCATIONS"
  by (simp add: mergeGroupRevocations_def Let_def)

lemma mergeGroupRevocations_set:
  assumes "strict_collation lc"
    and "unambiguous validGroupRevocationCertificate rc_targetPeerId newer_revocation (set (left @ right))"
    and "set (left @ right) = set (left' @ right')"
  shows "mergeGroupRevocations lc left right = mergeGroupRevocations lc left' right'"
  unfolding mergeGroupRevocations_def Let_def
  using strict_collation.sort_cmp_unique [OF assms(1) revocation_merge.best_values_perm [OF assms(2,3)]
      revocation_merge.best_values_inj]
  by simp

section \<open>What a signature binds\<close>

definition strip_key :: "JsonWebKey \<Rightarrow> JsonWebKey" where
  "strip_key k = k\<lparr>jk_rest := []\<rparr>"

definition signed_grant :: "GroupAdministratorGrant \<Rightarrow> GroupAdministratorGrant" where
  "signed_grant g = g\<lparr>gr_administratorPublicKey := strip_key (gr_administratorPublicKey g)\<rparr>"

definition signed_revocation :: "GroupRevocationCertificate \<Rightarrow> GroupRevocationCertificate" where
  "signed_revocation c = c\<lparr>rc_targetPublicKey := strip_key (rc_targetPublicKey c),
     rc_administratorGrant := map_option signed_grant (rc_administratorGrant c), rc_signature := []\<rparr>"

lemma js_or_null_str [simp]: "js_or_null JStr a = js_or_null JStr b \<longleftrightarrow> a = b"
  by (auto simp: js_or_null_def split: option.splits)

lemma canonicalPublicKey_inj: "canonicalPublicKey a = canonicalPublicKey b \<longleftrightarrow> strip_key a = strip_key b"
  by (cases a; cases b) (auto simp: canonicalPublicKey_def strip_key_def)

lemma canonicalAdministratorGrantValue_inj:
  "canonicalAdministratorGrantValue a = canonicalAdministratorGrantValue b \<longleftrightarrow> signed_grant a = signed_grant b"
  by (cases a; cases b)
    (simp add: canonicalAdministratorGrantValue_def signed_grant_def canonicalPublicKey_inj)

lemma json_safe_or_null: "(\<And>x. json_safe (f x)) \<Longrightarrow> json_safe (js_or_null f v)"
  by (auto simp: js_or_null_def split: option.splits)

lemma json_safe_key [simp]: "json_safe (canonicalPublicKey k)"
  by (simp add: canonicalPublicKey_def json_safe_or_null)

lemma json_safe_grant [simp]: "json_safe (canonicalAdministratorGrantValue g)"
  by (simp add: canonicalAdministratorGrantValue_def)

lemma json_safe_legacy [simp]: "list_all (\<lambda>p. json_safe (snd p)) (legacyFields c)"
  by (simp add: legacyFields_def)

lemma legacyFields_inj:
  "legacyFields a = legacyFields b \<longleftrightarrow>
     rc_groupId a = rc_groupId b \<and> rc_targetPeerId a = rc_targetPeerId b
     \<and> strip_key (rc_targetPublicKey a) = strip_key (rc_targetPublicKey b)
     \<and> rc_issuerPeerId a = rc_issuerPeerId b \<and> rc_membershipVersion a = rc_membershipVersion b
     \<and> rc_administratorEpoch a = rc_administratorEpoch b \<and> rc_messageId a = rc_messageId b
     \<and> rc_timestamp a = rc_timestamp b"
  by (simp add: legacyFields_def canonicalPublicKey_inj)

lemma length_legacyFields [simp]: "length (legacyFields c) = 9"
  by (simp add: legacyFields_def)

text \<open>The text a revocation certificate is signed over determines every field of a well-formed
  certificate but the signature itself, including the rendezvous secret it rotates to and the whole
  administrator grant with the owner's signature on it; two certificates have the same text exactly
  when they agree on all of them.\<close>

theorem canonicalGroupRevocation_binds:
  assumes "number_format num" "validGroupRevocationCertificate a" "validGroupRevocationCertificate b"
  shows "canonicalGroupRevocation num a = canonicalGroupRevocation num b \<longleftrightarrow>
    signed_revocation a = signed_revocation b"
proof -
  let ?f = "\<lambda>c. if chained_certificate c
     then legacyFields c @
       [(''administratorGrant'', js_or_null canonicalAdministratorGrantValue (rc_administratorGrant c)),
        (''rendezvousVersion'', js_or_null (\<lambda>n. JInt n) (rc_rendezvousVersion c)),
        (''rendezvousSecret'', js_or_null JStr (rc_rendezvousSecret c))]
     else legacyFields c"
  have plain: "\<not> chained_certificate c \<longleftrightarrow> rc_administratorGrant c = None
      \<and> rc_rendezvousVersion c = None \<and> rc_rendezvousSecret c = None"
    if "validGroupRevocationCertificate c" for c
    using that by (auto simp: chained_certificate_def validGroupRevocationCertificate_def safe_positive_def
        wire_id_def matches_class_def split: option.splits)
  have grant: "js_or_null canonicalAdministratorGrantValue x = js_or_null canonicalAdministratorGrantValue y
      \<longleftrightarrow> map_option signed_grant x = map_option signed_grant y" for x y
    by (cases x; cases y) (auto simp: js_or_null_def canonicalAdministratorGrantValue_inj [symmetric]
        canonicalAdministratorGrantValue_def)
  have ver: "js_or_null (\<lambda>n. JInt n) x = js_or_null (\<lambda>n. JInt n) y \<longleftrightarrow> x = y" for x y
    by (auto simp: js_or_null_def split: option.splits)
  have no: "legacyFields x @ p # q # r \<noteq> legacyFields y" for x y p q r
    by (auto dest: arg_cong [of _ _ length])
  have safe: "json_safe (JObj (?f c))" for c
    by (simp add: json_safe_or_null)
  have "canonicalGroupRevocation num a = canonicalGroupRevocation num b \<longleftrightarrow> ?f a = ?f b"
    unfolding canonicalGroupRevocation_def by (simp only: jtext_eq_iff [OF assms(1) safe safe] jsval.inject)
  also have "\<dots> \<longleftrightarrow> legacyFields a = legacyFields b
      \<and> map_option signed_grant (rc_administratorGrant a) = map_option signed_grant (rc_administratorGrant b)
      \<and> rc_rendezvousVersion a = rc_rendezvousVersion b \<and> rc_rendezvousSecret a = rc_rendezvousSecret b"
    using plain [OF assms(2)] plain [OF assms(3)]
    by (cases "chained_certificate a"; cases "chained_certificate b") (auto simp: grant ver no no [symmetric])
  also have "\<dots> \<longleftrightarrow> signed_revocation a = signed_revocation b"
    using assms(2,3) unfolding legacyFields_inj
    by (cases a; cases b) (auto simp: signed_revocation_def validGroupRevocationCertificate_def)
  finally show ?thesis .
qed

section \<open>Signing and verifying\<close>

text \<open>
  What is used of the signature algorithm: a signature made with the private half of a key pair
  has 64 bytes (ECDSA over P-256) and verifies with the public half.
\<close>

definition signature_scheme ::
    "(CryptoKey \<Rightarrow> JsonWebKey \<Rightarrow> bool) \<Rightarrow> (CryptoKey \<Rightarrow> string \<Rightarrow> nat list)
     \<Rightarrow> (JsonWebKey \<Rightarrow> nat list \<Rightarrow> string \<Rightarrow> bool) \<Rightarrow> bool" where
  "signature_scheme keypair sign verify \<longleftrightarrow>
     (\<forall>priv pub msg. keypair priv pub \<longrightarrow>
        is_bytes (sign priv msg) \<and> length (sign priv msg) = 64 \<and> verify pub (sign priv msg) msg)"

lemma verify_text_sign:
  assumes "signature_scheme keypair sign verify" "keypair priv pub"
  shows "verify_text verify pub (bytesToBase64Url (sign priv msg)) msg"
    and "signature_text (bytesToBase64Url (sign priv msg))"
proof -
  have s: "is_bytes (sign priv msg)" "length (sign priv msg) = 64" "verify pub (sign priv msg) msg"
    using assms by (auto simp: signature_scheme_def)
  show "verify_text verify pub (bytesToBase64Url (sign priv msg)) msg"
    by (simp add: verify_text_def base64_roundtrip [OF s(1)] s)
  show "signature_text (bytesToBase64Url (sign priv msg))"
    by (simp add: signature_text_def matches_class_def base64_wire [OF s(1)] s)
qed

lemma canonicalGroupRevocation_unsigned [simp]:
  "canonicalGroupRevocation num (c\<lparr>rc_signature := s\<rparr>) = canonicalGroupRevocation num c"
  by (simp add: canonicalGroupRevocation_def legacyFields_def chained_certificate_def)

lemma canonicalGroupAdministratorGrant_unsigned [simp]:
  "canonicalGroupAdministratorGrant num (g\<lparr>gr_signature := s\<rparr>) = canonicalGroupAdministratorGrant num g"
  by (simp add: canonicalGroupAdministratorGrant_def)

text \<open>
  The state in which an issuer can revoke: the identifiers and versions of the group are well
  formed, the target is known by its key, and the issuer's private key belongs to the owner's
  known key or to the key of every grant it holds, each of which the owner signed.
\<close>

definition can_issue ::
    "(rat \<Rightarrow> string) \<Rightarrow> (CryptoKey \<Rightarrow> JsonWebKey \<Rightarrow> bool) \<Rightarrow> (JsonWebKey \<Rightarrow> nat list \<Rightarrow> string \<Rightarrow> bool)
     \<Rightarrow> LocalGroup \<Rightarrow> PublicPeerIdentity \<Rightarrow> LocalIdentity \<Rightarrow> bool" where
  "can_issue num keypair verify grp target issuer \<longleftrightarrow>
     wire_id (g_groupId grp) \<and> wire_id (peerId target) \<and> wire_id (li_peerId issuer)
     \<and> safe_positive (epoch_of grp)
     \<and> (case g_rendezvousVersion grp of None \<Rightarrow> True | Some v \<Rightarrow> safe_positive v)
     \<and> (case g_rendezvousSecret grp of None \<Rightarrow> True | Some s \<Rightarrow> wire_id s)
     \<and> (case find_peer (known_identities grp) (peerId target) of
          None \<Rightarrow> False | Some t \<Rightarrow> samePublicKey (publicKey t) (publicKey target))
     \<and> (if li_peerId issuer = g_ownerPeerId grp
        then (case find_peer (known_identities grp) (li_peerId issuer) of
                None \<Rightarrow> False | Some w \<Rightarrow> keypair (li_privateKey issuer) (publicKey w))
        else list_all (\<lambda>g. gr_administratorPeerId g = li_peerId issuer \<longrightarrow>
               keypair (li_privateKey issuer) (gr_administratorPublicKey g)
               \<and> verifyGroupAdministratorGrant num verify g grp) (grants_of grp))"

lemma verifyGroupAdministratorGrant_valid:
  "verifyGroupAdministratorGrant num verify g grp \<Longrightarrow> validGroupAdministratorGrant g"
  by (simp add: verifyGroupAdministratorGrant_def split: if_splits)

text \<open>C21: A revocation certificate that an owner or administrator creates for a member verifies
  against the same group state, with the signature carried through its Base64 text: creation
  never produces a certificate that the verifying side refuses.\<close>

theorem createGroupRevocationCertificate_verifies:
  assumes "signature_scheme keypair sign verify"
    and "can_issue num keypair verify grp target issuer"
    and "wire_id uuid" "0 < now" "safe_positive version"
    and "createGroupRevocationCertificate num sign uuid now grp target issuer version = Inr c"
  shows "verifyGroupRevocationCertificate num verify c grp historical"
proof -
  define grant where "grant = (if li_peerId issuer \<noteq> g_ownerPeerId grp
    then List.find (\<lambda>g. gr_administratorPeerId g = li_peerId issuer \<and> gr_administratorEpoch g = epoch_of grp) (grants_of grp)
    else None)"
  define u where "u = \<lparr>rc_version = 1, rc_groupId = g_groupId grp, rc_targetPeerId = peerId target,
     rc_targetPublicKey = publicKey target, rc_issuerPeerId = li_peerId issuer, rc_membershipVersion = version,
     rc_administratorEpoch = epoch_of grp, rc_messageId = uuid, rc_timestamp = now, rc_administratorGrant = grant,
     rc_rendezvousVersion = g_rendezvousVersion grp, rc_rendezvousSecret = g_rendezvousSecret grp, rc_signature = []\<rparr>"
  let ?sig = "bytesToBase64Url (sign (li_privateKey issuer) (canonicalGroupRevocation num u))"
  have guards: "canManageLocalGroup grp (li_peerId issuer)" "peerId target \<noteq> g_ownerPeerId grp"
      "li_peerId issuer \<noteq> g_ownerPeerId grp \<longrightarrow> peerId target \<notin> set (g_administratorPeerIds grp) \<and> grant \<noteq> None"
    and c: "c = u\<lparr>rc_signature := ?sig\<rparr>"
    using assms(6) unfolding createGroupRevocationCertificate_def Let_def grant_def [symmetric] u_def [symmetric]
    by (auto split: if_splits)
  have grant: "gr_administratorPeerId g = li_peerId issuer" "gr_administratorEpoch g = epoch_of grp" "g \<in> set (grants_of grp)"
      "li_peerId issuer \<noteq> g_ownerPeerId grp" if "grant = Some g" for g
    using that find_set unfolding grant_def by (fastforce split: if_splits)+
  have gv: "keypair (li_privateKey issuer) (gr_administratorPublicKey g)" "verifyGroupAdministratorGrant num verify g grp"
    if "grant = Some g" for g
    using assms(2) grant [OF that] by (auto simp: can_issue_def list_all_iff)
  obtain key where key: "keypair (li_privateKey issuer) key" "revocation_issuer_key num verify c grp historical = Some key"
  proof (cases "li_peerId issuer = g_ownerPeerId grp")
    case True
    with assms(2) that show thesis
      by (auto simp: can_issue_def revocation_issuer_key_def c u_def split: option.splits)
  next
    case False
    with guards obtain g where g: "grant = Some g" by blast
    with False that gv [OF g] grant [OF g] guards show thesis
      by (auto simp: revocation_issuer_key_def c u_def canManageLocalGroup_def)
  qed
  note sig = verify_text_sign [OF assms(1) key(1), of "canonicalGroupRevocation num u"]
  have "validGroupRevocationCertificate c"
    using assms(2-5) sig(2) gv(2) verifyGroupAdministratorGrant_valid
    by (auto simp: validGroupRevocationCertificate_def c u_def can_issue_def split: option.splits)
  moreover have "verify_text verify key (rc_signature c) (canonicalGroupRevocation num c)"
    using sig(1) by (simp add: c)
  moreover have "rc_groupId c = g_groupId grp" "rc_targetPeerId c = peerId target"
    "rc_issuerPeerId c = li_peerId issuer" "rc_targetPublicKey c = publicKey target"
    by (simp_all add: c u_def)
  ultimately show ?thesis
    using key(2) guards assms(2) unfolding verifyGroupRevocationCertificate_def can_issue_def
    by (auto split: option.splits)
qed

definition owner_key :: "'a LocalGroup_scheme \<Rightarrow> JsonWebKey option" where
  "owner_key grp = (case find_peer (known_identities grp) (g_ownerPeerId grp) of
     Some w \<Rightarrow> Some (publicKey w) | None \<Rightarrow> map_option publicKey (g_ownerIdentity grp))"

text \<open>
  Every revocation certificate that verifies chains to the key the group knows for its
  owner: it names neither the owner nor (unless the owner issued it) an administrator as its
  target, and it is signed by the owner's key, or by a key that a grant of this group, signed by
  the owner's key, gives to the issuer.
\<close>

definition chains_to ::
    "(rat \<Rightarrow> string) \<Rightarrow> (JsonWebKey \<Rightarrow> nat list \<Rightarrow> string \<Rightarrow> bool) \<Rightarrow> JsonWebKey \<Rightarrow> LocalGroup
     \<Rightarrow> GroupRevocationCertificate \<Rightarrow> bool" where
  "chains_to num verify key grp c \<longleftrightarrow>
     rc_groupId c = g_groupId grp \<and> rc_targetPeerId c \<noteq> g_ownerPeerId grp
     \<and> (rc_targetPeerId c \<in> set (g_administratorPeerIds grp) \<longrightarrow> rc_issuerPeerId c = g_ownerPeerId grp)
     \<and> (if rc_issuerPeerId c = g_ownerPeerId grp
        then verify_text verify key (rc_signature c) (canonicalGroupRevocation num c)
        else \<exists>g. rc_administratorGrant c = Some g
          \<and> gr_groupId g = g_groupId grp \<and> gr_administratorPeerId g = rc_issuerPeerId c
          \<and> gr_administratorEpoch g = rc_administratorEpoch c
          \<and> verify_text verify key (gr_signature g) (canonicalGroupAdministratorGrant num g)
          \<and> verify_text verify (gr_administratorPublicKey g) (rc_signature c) (canonicalGroupRevocation num c))"

lemma verifyGroupRevocationCertificate_chain:
  assumes "verifyGroupRevocationCertificate num verify c grp historical"
  shows "\<exists>key. owner_key grp = Some key \<and> chains_to num verify key grp c"
proof (cases "rc_issuerPeerId c = g_ownerPeerId grp")
  case True
  with assms show ?thesis
    unfolding verifyGroupRevocationCertificate_def revocation_issuer_key_def owner_key_def chains_to_def
    by (auto split: if_splits option.splits)
next
  case False
  have g: "owner_key grp \<noteq> None \<and> gr_groupId g = g_groupId grp
      \<and> verify_text verify (the (owner_key grp)) (gr_signature g) (canonicalGroupAdministratorGrant num g)"
    if "verifyGroupAdministratorGrant num verify g grp" for g
    using that unfolding verifyGroupAdministratorGrant_def owner_key_def
    by (auto split: if_splits option.splits)
  from False assms obtain g where "rc_administratorGrant c = Some g" "verifyGroupAdministratorGrant num verify g grp"
    "gr_administratorPeerId g = rc_issuerPeerId c" "gr_administratorEpoch g = rc_administratorEpoch c"
    "verify_text verify (gr_administratorPublicKey g) (rc_signature c) (canonicalGroupRevocation num c)"
    unfolding verifyGroupRevocationCertificate_def revocation_issuer_key_def
    by (auto split: if_splits option.splits)
  with False assms g [of g] show ?thesis
    unfolding verifyGroupRevocationCertificate_def chains_to_def by (auto split: if_splits)
qed

section \<open>Concrete instances\<close>

definition sample_key :: "string \<Rightarrow> JsonWebKey" where
  "sample_key s = \<lparr>jk_kty = Some ''EC'', jk_crv = Some ''P-256'', jk_x = Some s, jk_y = Some s, jk_rest = []\<rparr>"

definition sample_peer :: "string \<Rightarrow> PublicPeerIdentity" where
  "sample_peer s = \<lparr>peerId = s, publicKey = sample_key s, displayName = ''Member'', avatar = None\<rparr>"

definition sample_identity :: "string \<Rightarrow> LocalIdentity" where
  "sample_identity s = \<lparr>li_peerId = s, li_publicKey = sample_key s, li_displayName = ''Member'',
     li_avatar = None, li_privateKey = s\<rparr>"

definition sample_group :: LocalGroup where
  "sample_group = \<lparr>g_groupId = ''group-01'', g_name = ''Group'', g_avatar = None, g_channels = [],
     g_ownerPeerId = ''owner-01'', g_membershipVersion = 1, g_manifestVersion = 1,
     g_administratorPeerIds = [], g_removedPeerIds = [], g_removedMembers = [],
     g_manifestActorPeerId = None, g_manifestOperationId = None, g_administratorEpoch = Some 1,
     g_administratorGrants = None, g_revocations = None, g_rendezvousVersion = Some 2,
     g_rendezvousSecret = Some ''secret-01'', g_ownerIdentity = None,
     g_members = [sample_peer ''owner-01'', sample_peer ''member-1''], g_joinedAt = 1\<rparr>"

definition sample_keypair :: "CryptoKey \<Rightarrow> JsonWebKey \<Rightarrow> bool" where
  "sample_keypair priv pub \<longleftrightarrow> jk_x pub = Some priv"

definition sample_sign :: "CryptoKey \<Rightarrow> string \<Rightarrow> nat list" where
  "sample_sign priv msg = replicate 64 0"

definition sample_verify :: "JsonWebKey \<Rightarrow> nat list \<Rightarrow> string \<Rightarrow> bool" where
  "sample_verify pub bytes msg \<longleftrightarrow>
     (case jk_x pub of None \<Rightarrow> False | Some priv \<Rightarrow> bytes = sample_sign priv msg)"

lemma sample_scheme: "signature_scheme sample_keypair sample_sign sample_verify"
  by (auto simp: signature_scheme_def sample_keypair_def sample_sign_def sample_verify_def is_bytes_def list_all_iff)

lemma sample_can_issue:
  "can_issue fraction_text sample_keypair sample_verify sample_group (sample_peer ''member-1'') (sample_identity ''owner-01'')"
  by code_simp

lemma sample_ids: "wire_id ''message-1'' \<and> safe_positive 2"
  by code_simp

lemma sample_certificate:
  obtains c where "createGroupRevocationCertificate fraction_text sample_sign ''message-1'' 1 sample_group
    (sample_peer ''member-1'') (sample_identity ''owner-01'') 2 = Inr c"
    "rc_targetPeerId c = ''member-1''"
  by (simp add: createGroupRevocationCertificate_def sample_group_def sample_peer_def sample_identity_def
      canManageLocalGroup_def)

theorem createGroupRevocationCertificate_verifies_witness:
  "\<exists>c. createGroupRevocationCertificate fraction_text sample_sign ''message-1'' 1 sample_group
      (sample_peer ''member-1'') (sample_identity ''owner-01'') 2 = Inr c
    \<and> verifyGroupRevocationCertificate fraction_text sample_verify c sample_group False"
proof -
  obtain c where c: "createGroupRevocationCertificate fraction_text sample_sign ''message-1'' 1 sample_group
    (sample_peer ''member-1'') (sample_identity ''owner-01'') 2 = Inr c" by (rule sample_certificate)
  have "verifyGroupRevocationCertificate fraction_text sample_verify c sample_group False"
    by (rule createGroupRevocationCertificate_verifies [OF sample_scheme sample_can_issue _ _ _ c])
      (use sample_ids in simp_all)
  with c show ?thesis by blast
qed

definition sample_revocation :: "string \<Rightarrow> int \<Rightarrow> GroupRevocationCertificate" where
  "sample_revocation target version = \<lparr>rc_version = 1, rc_groupId = ''group-01'', rc_targetPeerId = target,
     rc_targetPublicKey = sample_key target, rc_issuerPeerId = ''owner-01'', rc_membershipVersion = version,
     rc_administratorEpoch = 1, rc_messageId = ''message-1'', rc_timestamp = 1, rc_administratorGrant = None,
     rc_rendezvousVersion = None, rc_rendezvousSecret = None, rc_signature = replicate 86 (CHR ''A'')\<rparr>"

lemma sample_signature: "base64UrlToArrayBuffer (replicate 86 (CHR ''A'')) = Some (replicate 64 0)"
  by code_simp

lemma sample_revocation_valid:
  "validGroupRevocationCertificate (sample_revocation ''member-1'' 2)"
  "validGroupRevocationCertificate (sample_revocation ''member-2'' 2)"
  by code_simp+

lemma sample_revocation_verifies:
  "verifyGroupRevocationCertificate fraction_text sample_verify (sample_revocation ''member-1'' 2)
    (sample_group\<lparr>g_removedMembers := ms\<rparr>) historical"
  using sample_revocation_valid(1)
  by (simp add: verifyGroupRevocationCertificate_def revocation_issuer_key_def find_peer_def sample_group_def
      sample_peer_def verify_text_def)
    (simp add: sample_revocation_def sample_signature sample_verify_def sample_key_def sample_sign_def)

theorem canonicalGroupRevocation_binds_witness:
  "canonicalGroupRevocation fraction_text (sample_revocation ''member-1'' 2)
    \<noteq> canonicalGroupRevocation fraction_text (sample_revocation ''member-2'' 2)"
  using canonicalGroupRevocation_binds [OF number_format_fraction_text sample_revocation_valid]
  by (simp add: signed_revocation_def) (simp add: sample_revocation_def)

end
