(* ===== verification/Group_Manifest.thy ===== *)
theory Group_Manifest
  imports Group_Certificates
begin

text \<open>
  The replicated group manifest of \<^verbatim>\<open>apps/web/src/services/offline/social-storage.ts\<close>: revisions
  and their order, the merge of a manifest received from another peer
  (\<^verbatim>\<open>resolveLocalGroupManifest\<close>), the check of the revocations it carries
  (\<^verbatim>\<open>validateMergedManifestRevocations\<close>) and the application of a single revocation certificate.

  The theorems are about authority and monotonicity: a manifest of a peer that is neither owner
  nor administrator changes nothing, a removed peer never returns, the owner is never removed.
\<close>

section \<open>Revisions\<close>

definition nextGroupManifestRevision ::
    "string \<Rightarrow> 'a PublicGroupMetadata_scheme \<Rightarrow> string \<Rightarrow> int \<times> string option \<times> string option" where
  "nextGroupManifestRevision uuid grp actorPeerId =
    (max 1 (g_manifestVersion grp) + 1, Some actorPeerId, Some uuid)"

definition assign_revision ::
    "'a PublicGroupMetadata_scheme \<Rightarrow> int \<times> string option \<times> string option \<Rightarrow> 'a PublicGroupMetadata_scheme" where
  "assign_revision grp revision = (case revision of (version, actor, operation) \<Rightarrow>
     grp\<lparr>g_manifestVersion := version, g_manifestActorPeerId := actor, g_manifestOperationId := operation\<rparr>)"

definition groupRendezvousId :: "'a PublicGroupMetadata_scheme \<Rightarrow> string \<Rightarrow> string \<Rightarrow> string" where
  "groupRendezvousId grp purpose resourceId =
    (let secret = (if validOpaqueId (g_rendezvousSecret grp) then the (g_rendezvousSecret grp) else g_groupId grp)
     in ''risk-rendezvous-v1:'' @ secret @ '':'' @ purpose @ '':'' @ resourceId)"

definition legacy_operation :: "int \<Rightarrow> string" where
  "legacy_operation version = ''legacy-'' @ int_digits version"

abbreviation actor_of :: "'a PublicGroupMetadata_scheme \<Rightarrow> string" where
  "actor_of g \<equiv> or_else (g_manifestActorPeerId g) (g_ownerPeerId g)"

abbreviation operation_of :: "'a PublicGroupMetadata_scheme \<Rightarrow> string" where
  "operation_of g \<equiv> or_else (g_manifestOperationId g) (legacy_operation (g_manifestVersion g))"

abbreviation rendezvous_version_of :: "'a PublicGroupMetadata_scheme \<Rightarrow> int" where
  "rendezvous_version_of g \<equiv> or_else (g_rendezvousVersion g) 1"

definition compareGroupManifestRevisions ::
    "(string \<Rightarrow> string \<Rightarrow> int) \<Rightarrow> 'a PublicGroupMetadata_scheme \<Rightarrow> 'b PublicGroupMetadata_scheme \<Rightarrow> int" where
  "compareGroupManifestRevisions lc left right =
    (if g_manifestVersion left \<noteq> g_manifestVersion right
     then g_manifestVersion left - g_manifestVersion right
     else let leftOwnerPriority = (if actor_of left = g_ownerPeerId left then 1 else 0);
              rightOwnerPriority = (if actor_of right = g_ownerPeerId right then 1 else 0)
          in if leftOwnerPriority \<noteq> rightOwnerPriority then leftOwnerPriority - rightOwnerPriority
             else let actor = lc (actor_of left) (actor_of right)
                  in if actor \<noteq> 0 then actor else lc (operation_of left) (operation_of right))"

section \<open>Merging a received manifest\<close>

text \<open>\<^verbatim>\<open>strings.sort()\<close> without a comparison orders by code units.\<close>

definition sort_strings :: "string list \<Rightarrow> string list" where
  "sort_strings = sort_cmp code_unit_compare"

definition removed_ids :: "'a PublicGroupMetadata_scheme \<Rightarrow> string list" where
  "removed_ids g = uniq (g_removedPeerIds g @ map rc_targetPeerId (revocations_of g))"

text \<open>A member without an avatar keeps the one that is cached for it.\<close>

definition keep_avatar :: "LocalGroup \<Rightarrow> PublicPeerIdentity \<Rightarrow> PublicPeerIdentity" where
  "keep_avatar grp member =
    (case avatar member of
       Some a \<Rightarrow> member
     | None \<Rightarrow>
         (case List.find (\<lambda>candidate. samePeerIdentity candidate member) (g_members grp) of
            None \<Rightarrow> member
          | Some cached \<Rightarrow>
              (case avatar cached of
                 None \<Rightarrow> member
               | Some a \<Rightarrow> if a = [] then member else member\<lparr>avatar := Some a\<rparr>)))"

text \<open>The guards of \<^verbatim>\<open>resolveLocalGroupManifest\<close> on which it returns the local group unchanged.\<close>

definition manifest_accepted :: "LocalGroup \<Rightarrow> LocalGroup \<Rightarrow> string \<Rightarrow> bool" where
  "manifest_accepted grp incoming sender \<longleftrightarrow>
     g_ownerPeerId incoming = g_ownerPeerId grp
     \<and> (sender = g_ownerPeerId grp \<or> sender \<in> set (g_administratorPeerIds grp))
     \<and> (case find_peer (g_members grp) (g_ownerPeerId grp) of
          None \<Rightarrow> False
        | Some knownOwner \<Rightarrow>
            (case find_peer (g_members incoming) (g_ownerPeerId incoming) of
               None \<Rightarrow> False
             | Some incomingOwner \<Rightarrow> samePublicKey (publicKey knownOwner) (publicKey incomingOwner)))
     \<and> \<not> (epoch_of incoming > epoch_of grp \<and> sender \<noteq> g_ownerPeerId grp)
     \<and> \<not> (\<exists>p \<in> set (removed_ids incoming). p \<notin> set (removed_ids grp)
            \<and> \<not> (\<exists>c \<in> set (revocations_of grp @ revocations_of incoming). rc_targetPeerId c = p))
     \<and> g_ownerPeerId grp \<notin> set (removed_ids incoming)
     \<and> \<not> (sender \<noteq> g_ownerPeerId grp
            \<and> (\<exists>p \<in> set (g_administratorPeerIds grp). p \<in> set (removed_ids incoming)))"

text \<open>
  A manifest of an administrator from an earlier administrator epoch loses its metadata first.
\<close>

definition demoted_manifest :: "LocalGroup \<Rightarrow> LocalGroup \<Rightarrow> string \<Rightarrow> LocalGroup" where
  "demoted_manifest grp incoming sender =
    (if epoch_of incoming < epoch_of grp \<and> sender \<noteq> g_ownerPeerId grp
     then incoming\<lparr>g_name := g_name grp, g_avatar := g_avatar grp, g_channels := g_channels grp,
            g_administratorPeerIds := g_administratorPeerIds grp\<rparr>
     else incoming)"

definition incoming_wins :: "(string \<Rightarrow> string \<Rightarrow> int) \<Rightarrow> LocalGroup \<Rightarrow> LocalGroup \<Rightarrow> bool" where
  "incoming_wins lc grp incoming \<longleftrightarrow>
     compareGroupManifestRevisions lc incoming grp > 0 \<or> epoch_of incoming > epoch_of grp"

definition ordered_members :: "(string \<Rightarrow> string \<Rightarrow> int) \<Rightarrow> LocalGroup \<Rightarrow> LocalGroup \<Rightarrow> PublicPeerIdentity list" where
  "ordered_members lc grp incoming =
    (if epoch_of incoming > epoch_of grp then g_members incoming
     else if epoch_of incoming < epoch_of grp then g_members grp
     else if incoming_wins lc grp incoming then g_members incoming @ g_members grp
     else g_members grp @ g_members incoming)"

definition merged_manifest :: "(string \<Rightarrow> string \<Rightarrow> int) \<Rightarrow> LocalGroup \<Rightarrow> LocalGroup \<Rightarrow> LocalGroup" where
  "merged_manifest lc grp incoming =
    (let localEpoch = epoch_of grp;
         incomingEpoch = epoch_of incoming;
         revocations = mergeGroupRevocations lc (revocations_of grp) (revocations_of incoming);
         removed = uniq (g_removedPeerIds grp @ g_removedPeerIds incoming @ map rc_targetPeerId revocations);
         members = sort_cmp (\<lambda>l r. lc (peerId l) (peerId r))
           (map (keep_avatar grp)
             (filter (\<lambda>m. peerId m \<notin> set removed)
               (dedupePeerIdentities (ordered_members lc grp incoming) None)));
         winner = (if incoming_wins lc grp incoming then incoming else grp);
         administratorEpoch = max localEpoch incomingEpoch;
         administratorPeerIds = sort_strings (filter
           (\<lambda>p. (\<exists>m \<in> set members. peerId m = p) \<and> p \<noteq> g_ownerPeerId incoming)
           (if incomingEpoch > localEpoch then g_administratorPeerIds incoming
            else if incomingEpoch < localEpoch then g_administratorPeerIds grp
            else g_administratorPeerIds winner));
         administratorGrants = filter
           (\<lambda>g. gr_administratorPeerId g \<in> set administratorPeerIds \<and> gr_administratorEpoch g = administratorEpoch)
           (mergeAdministratorGrants lc (grants_of grp) (grants_of incoming));
         rendezvousWinner =
           (if rendezvous_version_of incoming > rendezvous_version_of grp then incoming
            else if rendezvous_version_of incoming < rendezvous_version_of grp then grp
            else winner)
     in grp\<lparr>g_name := g_name winner, g_avatar := g_avatar winner, g_channels := g_channels winner,
            g_members := members, g_ownerPeerId := g_ownerPeerId incoming,
            g_membershipVersion := max (g_membershipVersion grp) (g_membershipVersion incoming),
            g_manifestVersion := g_manifestVersion winner,
            g_manifestActorPeerId := Some (actor_of winner),
            g_manifestOperationId := Some (operation_of winner),
            g_administratorEpoch := Some administratorEpoch,
            g_administratorPeerIds := administratorPeerIds,
            g_administratorGrants := Some administratorGrants,
            g_removedPeerIds := sort_strings removed,
            g_removedMembers := sort_cmp (\<lambda>l r. lc (peerId l) (peerId r))
              (filter (\<lambda>m. peerId m \<in> set removed)
                (dedupePeerIdentities (g_removedMembers grp @ g_removedMembers incoming) None)),
            g_revocations := Some revocations,
            g_rendezvousVersion := Some (max (rendezvous_version_of grp) (rendezvous_version_of incoming)),
            g_rendezvousSecret :=
              (if validOpaqueId (g_rendezvousSecret rendezvousWinner) then g_rendezvousSecret rendezvousWinner
               else Some (g_groupId grp))\<rparr>)"

definition resolveLocalGroupManifest ::
    "(string \<Rightarrow> string \<Rightarrow> int) \<Rightarrow> LocalGroup \<Rightarrow> LocalGroup \<Rightarrow> string \<Rightarrow> LocalGroup" where
  "resolveLocalGroupManifest lc grp incoming sender =
    (if manifest_accepted grp incoming sender
     then merged_manifest lc grp (demoted_manifest grp incoming sender) else grp)"

section \<open>Checking the revocations of a received manifest\<close>

definition verification_group :: "LocalGroup \<Rightarrow> LocalGroup \<Rightarrow> LocalGroup" where
  "verification_group grp incoming =
    grp\<lparr>g_members := dedupePeerIdentities (g_members grp @ g_members incoming) None,
        g_removedMembers := dedupePeerIdentities (g_removedMembers grp @ g_removedMembers incoming) None\<rparr>"

definition already_trusted :: "(rat \<Rightarrow> string) \<Rightarrow> LocalGroup \<Rightarrow> GroupRevocationCertificate \<Rightarrow> bool" where
  "already_trusted num grp certificate =
    (case List.find (\<lambda>item. rc_messageId item = rc_messageId certificate) (revocations_of grp) of
       None \<Rightarrow> False
     | Some known \<Rightarrow> rc_signature known = rc_signature certificate
         \<and> canonicalGroupRevocation num known = canonicalGroupRevocation num certificate)"

definition certificate_admissible ::
    "(rat \<Rightarrow> string) \<Rightarrow> (JsonWebKey \<Rightarrow> nat list \<Rightarrow> string \<Rightarrow> bool) \<Rightarrow> LocalGroup \<Rightarrow> LocalGroup
     \<Rightarrow> GroupRevocationCertificate \<Rightarrow> bool" where
  "certificate_admissible num verify grp incoming certificate \<longleftrightarrow>
     rc_targetPeerId certificate \<noteq> g_ownerPeerId grp
     \<and> (already_trusted num grp certificate
        \<or> verifyGroupRevocationCertificate num verify certificate (verification_group grp incoming) True)
     \<and> \<not> (rc_issuerPeerId certificate \<noteq> g_ownerPeerId grp
            \<and> rc_targetPeerId certificate \<in> set (g_administratorPeerIds grp))"

definition validateMergedManifestRevocations ::
    "(rat \<Rightarrow> string) \<Rightarrow> (JsonWebKey \<Rightarrow> nat list \<Rightarrow> string \<Rightarrow> bool) \<Rightarrow> LocalGroup \<Rightarrow> LocalGroup \<Rightarrow> string \<Rightarrow> bool" where
  "validateMergedManifestRevocations num verify grp incoming sender =
    (if g_ownerPeerId incoming \<noteq> g_ownerPeerId grp then False
     else if sender \<noteq> g_ownerPeerId grp \<and> sender \<notin> set (g_administratorPeerIds grp) then False
     else if \<not> list_all (certificate_admissible num verify grp incoming) (revocations_of incoming) then False
     else let verifiedTargets = map rc_targetPeerId (revocations_of incoming);
              previouslyRemoved = removed_ids grp;
              newlyRemoved = removed_ids incoming
          in list_all (\<lambda>p. p \<in> set previouslyRemoved \<or> p \<in> set verifiedTargets) newlyRemoved
             \<and> list_all (\<lambda>removed. peerId removed \<in> set newlyRemoved
                  \<and> list_ex (\<lambda>known. samePeerIdentity known removed)
                      (g_removedMembers (verification_group grp incoming))) (g_removedMembers incoming))"

section \<open>Applying one certificate\<close>

definition revoked_group :: "(string \<Rightarrow> string \<Rightarrow> int) \<Rightarrow> GroupRevocationCertificate \<Rightarrow> LocalGroup \<Rightarrow> LocalGroup" where
  "revoked_group lc certificate grp =
    (let target = rc_targetPeerId certificate;
         learnsNewAdministratorEpoch = rc_administratorGrant certificate \<noteq> None
           \<and> rc_administratorEpoch certificate > epoch_of grp;
         newer = (case rc_rendezvousVersion certificate of
            None \<Rightarrow> False | Some v \<Rightarrow> v \<noteq> 0 \<and> v > rendezvous_version_of grp);
         grants = (case rc_administratorGrant certificate of None \<Rightarrow> [] | Some g \<Rightarrow> [g])
     in grp\<lparr>g_members := filter (\<lambda>m. peerId m \<noteq> target) (g_members grp),
            g_administratorPeerIds := filter (\<lambda>p. p \<noteq> target)
              (uniq (g_administratorPeerIds grp @
                (if learnsNewAdministratorEpoch then [rc_issuerPeerId certificate] else []))),
            g_administratorGrants := Some (filter (\<lambda>g. gr_administratorPeerId g \<noteq> target)
              (mergeAdministratorGrants lc (grants_of grp) grants)),
            g_removedPeerIds := uniq (g_removedPeerIds grp @ [target]),
            g_removedMembers := (case find_peer (g_members grp) target of
               None \<Rightarrow> g_removedMembers grp
             | Some m \<Rightarrow> dedupePeerIdentities (g_removedMembers grp @ [m]) None),
            g_revocations := Some (mergeGroupRevocations lc (revocations_of grp) [certificate]),
            g_membershipVersion := max (g_membershipVersion grp) (rc_membershipVersion certificate),
            g_manifestVersion := max (g_manifestVersion grp) (rc_membershipVersion certificate),
            g_manifestActorPeerId := Some (rc_issuerPeerId certificate),
            g_manifestOperationId := Some (rc_messageId certificate),
            g_administratorEpoch := Some (max (epoch_of grp) (rc_administratorEpoch certificate)),
            g_rendezvousVersion := Some (if newer then the (rc_rendezvousVersion certificate) else rendezvous_version_of grp),
            g_rendezvousSecret := Some (if newer
              then or_else (rc_rendezvousSecret certificate) (or_else (g_rendezvousSecret grp) (g_groupId grp))
              else or_else (g_rendezvousSecret grp) (g_groupId grp))\<rparr>)"

section \<open>The group invariant\<close>

lemma find_peer_Some: "find_peer ms p = Some m \<Longrightarrow> m \<in> set ms \<and> peerId m = p"
  unfolding find_peer_def by (drule find_set) simp

lemma find_peer_None: "find_peer ms p = None \<longleftrightarrow> p \<notin> peerId ` set ms"
  by (auto simp: find_peer_def find_None_iff)

lemma ident_keep_avatar [simp]: "ident (keep_avatar grp m) = ident m"
  by (auto simp: keep_avatar_def ident_def split: option.splits)

lemma keep_avatar_simps [simp]:
  "peerId (keep_avatar grp m) = peerId m" "publicKey (keep_avatar grp m) = publicKey m"
  "displayName (keep_avatar grp m) = displayName m"
  by (auto simp: keep_avatar_def split: option.splits)

text \<open>
  A well-formed group: its members are well-formed identities no two of which share an id or a
  key, the owner is one of them, the administrators are members other than the owner, and no
  member is marked as removed or the target of a revocation.
\<close>

definition group_inv :: "LocalGroup \<Rightarrow> bool" where
  "group_inv grp \<longleftrightarrow>
     (\<forall>m \<in> set (g_members grp). validPublicPeerIdentity m)
     \<and> no_alias (g_members grp)
     \<and> g_ownerPeerId grp \<in> peerId ` set (g_members grp)
     \<and> set (g_administratorPeerIds grp) \<subseteq> peerId ` set (g_members grp) - {g_ownerPeerId grp}
     \<and> peerId ` set (g_members grp) \<inter> set (removed_ids grp) = {}"

lemma group_inv_not_removed:
  "group_inv grp \<Longrightarrow> p \<in> set (g_ownerPeerId grp # g_administratorPeerIds grp) \<Longrightarrow> p \<notin> set (removed_ids grp)"
  unfolding group_inv_def by auto

text \<open>No other member of a received manifest presents the key of its owner.\<close>

definition owner_unaliased :: "LocalGroup \<Rightarrow> bool" where
  "owner_unaliased grp \<longleftrightarrow>
     (case find_peer (g_members grp) (g_ownerPeerId grp) of
        None \<Rightarrow> True
      | Some w \<Rightarrow> validPublicPeerIdentity w
          \<and> list_all (\<lambda>m. samePublicKey (publicKey m) (publicKey w) \<longrightarrow> peerId m = g_ownerPeerId grp) (g_members grp))"

lemma dedupe_keeps_peer:
  assumes "m \<in> set ms" "validPublicPeerIdentity m"
    "\<And>x. x \<in> set ms \<Longrightarrow> samePublicKey (publicKey x) (publicKey m) \<Longrightarrow> peerId x = peerId m"
  shows "peerId m \<in> peerId ` set (dedupePeerIdentities ms None)"
proof -
  from dedupe_complete [OF assms(1,2)] obtain e where
    e: "e \<in> set (dedupePeerIdentities ms None)" "samePeerIdentity e m" by blast
  obtain x where "x \<in> set ms" "peerId e = peerId x" "publicKey e = publicKey x"
    using dedupe_origin [OF e(1)] by blast
  with e assms(3) [of x] have "peerId e = peerId m" by (auto simp: samePeerIdentity_def)
  with e(1) show ?thesis by (metis imageI)
qed

text \<open>Two lists that agree on the owner's key and alias it nowhere keep the owner when merged.\<close>

lemma accepted_owner:
  assumes "group_inv grp" "manifest_accepted grp incoming sender" "owner_unaliased incoming"
  obtains w v where "w \<in> set (g_members grp)" "peerId w = g_ownerPeerId grp" "validPublicPeerIdentity w"
    "v \<in> set (g_members incoming)" "peerId v = g_ownerPeerId grp" "validPublicPeerIdentity v"
    "samePublicKey (publicKey w) (publicKey v)"
    "\<And>x. x \<in> set (g_members grp) \<union> set (g_members incoming) \<Longrightarrow>
       samePublicKey (publicKey x) (publicKey w) \<Longrightarrow> peerId x = g_ownerPeerId grp"
proof -
  from assms(2) obtain w v where
    w: "find_peer (g_members grp) (g_ownerPeerId grp) = Some w" and
    v: "find_peer (g_members incoming) (g_ownerPeerId incoming) = Some v" and
    wv: "samePublicKey (publicKey w) (publicKey v)" and own: "g_ownerPeerId incoming = g_ownerPeerId grp"
    by (auto simp: manifest_accepted_def split: option.splits)
  note w' = find_peer_Some [OF w] and v' = find_peer_Some [OF v]
  have grp: "peerId x = g_ownerPeerId grp"
    if "x \<in> set (g_members grp)" "samePublicKey (publicKey x) (publicKey w)" for x
  proof -
    have "x = w"
      using no_alias_unique [of "g_members grp" x w] assms(1) that w'
      by (simp add: group_inv_def samePeerIdentity_def)
    then show ?thesis using w' by simp
  qed
  have inc: "peerId x = g_ownerPeerId grp"
    if "x \<in> set (g_members incoming)" "samePublicKey (publicKey x) (publicKey w)" for x
    using assms(3) v own that samePublicKey_trans [OF that(2) wv]
    by (auto simp: owner_unaliased_def list_all_iff)
  have "validPublicPeerIdentity v" using assms(3) v by (simp add: owner_unaliased_def)
  moreover have "validPublicPeerIdentity w" using assms(1) w' by (simp add: group_inv_def)
  ultimately show thesis using that [of w v] w' v' wv own grp inc by auto
qed

section \<open>Fields of the merged manifest\<close>

definition merged_revocations :: "(string \<Rightarrow> string \<Rightarrow> int) \<Rightarrow> LocalGroup \<Rightarrow> LocalGroup \<Rightarrow> GroupRevocationCertificate list" where
  "merged_revocations lc grp incoming = mergeGroupRevocations lc (revocations_of grp) (revocations_of incoming)"

definition merged_removed :: "(string \<Rightarrow> string \<Rightarrow> int) \<Rightarrow> LocalGroup \<Rightarrow> LocalGroup \<Rightarrow> string list" where
  "merged_removed lc grp incoming = uniq (g_removedPeerIds grp @ g_removedPeerIds incoming
     @ map rc_targetPeerId (merged_revocations lc grp incoming))"

definition merged_members :: "(string \<Rightarrow> string \<Rightarrow> int) \<Rightarrow> LocalGroup \<Rightarrow> LocalGroup \<Rightarrow> PublicPeerIdentity list" where
  "merged_members lc grp incoming = sort_cmp (\<lambda>l r. lc (peerId l) (peerId r))
     (map (keep_avatar grp) (filter (\<lambda>m. peerId m \<notin> set (merged_removed lc grp incoming))
        (dedupePeerIdentities (ordered_members lc grp incoming) None)))"

lemma merged_manifest_fields:
  "g_members (merged_manifest lc grp incoming) = merged_members lc grp incoming"
  "g_ownerPeerId (merged_manifest lc grp incoming) = g_ownerPeerId incoming"
  "set (g_removedPeerIds (merged_manifest lc grp incoming)) = set (merged_removed lc grp incoming)"
  "g_revocations (merged_manifest lc grp incoming) = Some (merged_revocations lc grp incoming)"
  "g_administratorEpoch (merged_manifest lc grp incoming) = Some (max (epoch_of grp) (epoch_of incoming))"
  "g_groupId (merged_manifest lc grp incoming) = g_groupId grp"
  unfolding merged_members_def merged_removed_def merged_revocations_def merged_manifest_def Let_def
  by (simp_all add: sort_strings_def split del: if_split)

definition proposed_administrators :: "(string \<Rightarrow> string \<Rightarrow> int) \<Rightarrow> LocalGroup \<Rightarrow> LocalGroup \<Rightarrow> string list" where
  "proposed_administrators lc grp incoming =
    (if epoch_of incoming > epoch_of grp then g_administratorPeerIds incoming
     else if epoch_of incoming < epoch_of grp then g_administratorPeerIds grp
     else g_administratorPeerIds (if incoming_wins lc grp incoming then incoming else grp))"

lemma merged_manifest_administrators_eq:
  "g_administratorPeerIds (merged_manifest lc grp incoming) = sort_strings (filter
     (\<lambda>p. (\<exists>m \<in> set (merged_members lc grp incoming). peerId m = p) \<and> p \<noteq> g_ownerPeerId incoming)
     (proposed_administrators lc grp incoming))"
  unfolding merged_members_def merged_removed_def merged_revocations_def proposed_administrators_def
    merged_manifest_def Let_def
  by (simp split del: if_split add: if_distrib [of g_administratorPeerIds])

lemma merged_manifest_administrators:
  "set (g_administratorPeerIds (merged_manifest lc grp incoming)) =
    {p \<in> set (proposed_administrators lc grp incoming).
      p \<in> peerId ` set (merged_members lc grp incoming) \<and> p \<noteq> g_ownerPeerId incoming}"
  unfolding merged_manifest_administrators_eq by (auto simp: sort_strings_def image_iff)

lemma demoted_manifest_fields [simp]:
  "g_members (demoted_manifest grp incoming sender) = g_members incoming"
  "g_ownerPeerId (demoted_manifest grp incoming sender) = g_ownerPeerId incoming"
  "g_removedPeerIds (demoted_manifest grp incoming sender) = g_removedPeerIds incoming"
  "g_revocations (demoted_manifest grp incoming sender) = g_revocations incoming"
  "g_administratorEpoch (demoted_manifest grp incoming sender) = g_administratorEpoch incoming"
  "g_administratorGrants (demoted_manifest grp incoming sender) = g_administratorGrants incoming"
  "g_rendezvousVersion (demoted_manifest grp incoming sender) = g_rendezvousVersion incoming"
  "g_rendezvousSecret (demoted_manifest grp incoming sender) = g_rendezvousSecret incoming"
  "g_manifestVersion (demoted_manifest grp incoming sender) = g_manifestVersion incoming"
  "g_manifestActorPeerId (demoted_manifest grp incoming sender) = g_manifestActorPeerId incoming"
  "g_manifestOperationId (demoted_manifest grp incoming sender) = g_manifestOperationId incoming"
  "g_removedMembers (demoted_manifest grp incoming sender) = g_removedMembers incoming"
  "g_membershipVersion (demoted_manifest grp incoming sender) = g_membershipVersion incoming"
  by (simp_all add: demoted_manifest_def)

lemma incoming_wins_demoted [simp]:
  "incoming_wins lc grp (demoted_manifest grp incoming sender) = incoming_wins lc grp incoming"
  by (simp only: incoming_wins_def compareGroupManifestRevisions_def demoted_manifest_fields)

lemma ordered_members_demoted [simp]:
  "ordered_members lc grp (demoted_manifest grp incoming sender) = ordered_members lc grp incoming"
  by (simp add: ordered_members_def)

lemma merged_demoted [simp]:
  "merged_revocations lc grp (demoted_manifest grp incoming sender) = merged_revocations lc grp incoming"
  "merged_removed lc grp (demoted_manifest grp incoming sender) = merged_removed lc grp incoming"
  "merged_members lc grp (demoted_manifest grp incoming sender) = merged_members lc grp incoming"
  by (simp_all add: merged_revocations_def merged_removed_def merged_members_def)

lemma set_merged_removed:
  "set (merged_removed lc grp incoming) \<subseteq> set (removed_ids grp) \<union> set (removed_ids incoming)"
  "set (g_removedPeerIds grp) \<subseteq> set (merged_removed lc grp incoming)"
  using mergeGroupRevocations_mem(1) by (fastforce simp: merged_removed_def merged_revocations_def removed_ids_def)+

lemma ident_merged_members:
  "ident ` set (merged_members lc grp incoming) =
   ident ` {m \<in> set (dedupePeerIdentities (ordered_members lc grp incoming) None). peerId m \<notin> set (merged_removed lc grp incoming)}"
  by (auto simp: merged_members_def image_iff)

lemma merged_members_no_alias: "no_alias (merged_members lc grp incoming)"
proof -
  let ?ms = "map (keep_avatar grp) (filter (\<lambda>m. peerId m \<notin> set (merged_removed lc grp incoming))
        (dedupePeerIdentities (ordered_members lc grp incoming) None))"
  have "no_alias ?ms"
    using no_alias_filter [OF dedupe_no_alias] by (simp add: no_alias_ident comp_def)
  then have "distinct ?ms" "\<forall>a \<in> set ?ms. \<forall>b \<in> set ?ms. samePeerIdentity a b \<longrightarrow> a = b"
    using no_alias_distinct distinct_map no_alias_unique by blast+
  then show ?thesis
    using no_alias_intro [of "merged_members lc grp incoming"] by (simp add: merged_members_def)
qed

lemma merged_members_valid: "m \<in> set (merged_members lc grp incoming) \<Longrightarrow> validPublicPeerIdentity m"
  using dedupe_valid by (auto simp: merged_members_def validPublicPeerIdentity_def)

lemma merged_members_not_removed:
  "peerId ` set (merged_members lc grp incoming) \<inter> set (merged_removed lc grp incoming) = {}"
  by (auto simp: merged_members_def)

section \<open>Invariance, authority and monotonicity\<close>

lemma merged_owner_member:
  assumes "group_inv grp" "manifest_accepted grp incoming sender" "owner_unaliased incoming"
  shows "g_ownerPeerId grp \<in> peerId ` set (merged_members lc grp incoming)"
proof -
  from accepted_owner [OF assms] obtain w v where
    w: "w \<in> set (g_members grp)" "peerId w = g_ownerPeerId grp" "validPublicPeerIdentity w" and
    v: "v \<in> set (g_members incoming)" "peerId v = g_ownerPeerId grp" "validPublicPeerIdentity v"
      "samePublicKey (publicKey w) (publicKey v)" and
    u: "\<And>x. x \<in> set (g_members grp) \<union> set (g_members incoming) \<Longrightarrow>
       samePublicKey (publicKey x) (publicKey w) \<Longrightarrow> peerId x = g_ownerPeerId grp"
    by blast
  let ?ms = "ordered_members lc grp incoming"
  have sub: "set ?ms \<subseteq> set (g_members grp) \<union> set (g_members incoming)"
    by (auto simp: ordered_members_def)
  have uw: "peerId x = peerId w" if "x \<in> set ?ms" "samePublicKey (publicKey x) (publicKey w)" for x
    using u [OF subsetD [OF sub that(1)] that(2)] w(2) by simp
  have uv: "peerId x = peerId v" if "x \<in> set ?ms" "samePublicKey (publicKey x) (publicKey v)" for x
    using uw [OF that(1) samePublicKey_trans [OF that(2) samePublicKey_sym [THEN iffD1, OF v(4)]]] w(2) v(2) by simp
  have "w \<in> set ?ms \<or> v \<in> set ?ms"
    using w v by (auto simp: ordered_members_def)
  then have "g_ownerPeerId grp \<in> peerId ` set (dedupePeerIdentities ?ms None)"
    using dedupe_keeps_peer [OF _ w(3) uw] dedupe_keeps_peer [OF _ v(3) uv] w(2) v(2) by auto
  moreover have "g_ownerPeerId grp \<notin> set (merged_removed lc grp incoming)"
    using group_inv_not_removed [OF assms(1)] assms(2) set_merged_removed(1) [of lc grp incoming]
    by (auto simp: manifest_accepted_def)
  ultimately show ?thesis by (auto simp: merged_members_def image_iff)
qed

lemma removed_ids_merged:
  "set (removed_ids (merged_manifest lc grp incoming)) = set (merged_removed lc grp incoming)"
  by (auto simp: removed_ids_def merged_manifest_fields merged_removed_def)


text \<open>A run of merges with any manifests from any senders.\<close>

definition resolve_all :: "(string \<Rightarrow> string \<Rightarrow> int) \<Rightarrow> (LocalGroup \<times> string) list \<Rightarrow> LocalGroup \<Rightarrow> LocalGroup" where
  "resolve_all lc inputs grp = fold (\<lambda>(incoming, sender) g. resolveLocalGroupManifest lc g incoming sender) inputs grp"

lemma resolve_removed_mono:
  "set (g_removedPeerIds grp) \<subseteq> set (g_removedPeerIds (resolveLocalGroupManifest lc grp incoming sender))"
  using set_merged_removed(2) [of grp lc incoming]
  by (simp add: resolveLocalGroupManifest_def merged_manifest_fields)

lemma resolve_removed_not_member:
  assumes "p \<in> set (g_removedPeerIds grp)" "p \<notin> peerId ` set (g_members grp)"
  shows "p \<notin> peerId ` set (g_members (resolveLocalGroupManifest lc grp incoming sender))"
  using assms merged_members_not_removed [of lc grp incoming] set_merged_removed(2) [of grp lc incoming]
  by (auto simp: resolveLocalGroupManifest_def merged_manifest_fields)

text \<open>C8: Removal wins for ever: a peer that is removed from a group is not a member after any
  sequence of merges, with any manifests and any senders, and is still marked as removed.\<close>

theorem removed_peer_never_returns:
  assumes "p \<in> set (g_removedPeerIds grp)" "p \<notin> peerId ` set (g_members grp)"
  shows "p \<in> set (g_removedPeerIds (resolve_all lc inputs grp))
    \<and> p \<notin> peerId ` set (g_members (resolve_all lc inputs grp))"
  using assms unfolding resolve_all_def
proof (induction inputs arbitrary: grp)
  case (Cons i inputs)
  let ?g = "resolveLocalGroupManifest lc grp (fst i) (snd i)"
  have removed: "p \<in> set (g_removedPeerIds ?g)"
    using Cons.prems(1) resolve_removed_mono by (rule subsetD [rotated])
  have gone: "p \<notin> peerId ` set (g_members ?g)" by (rule resolve_removed_not_member [OF Cons.prems])
  have run: "fold (\<lambda>(incoming, sender) g. resolveLocalGroupManifest lc g incoming sender) (i # inputs) grp
      = fold (\<lambda>(incoming, sender) g. resolveLocalGroupManifest lc g incoming sender) inputs ?g"
    by (cases i) simp
  show ?case unfolding run by (rule Cons.IH [OF removed gone])
qed simp

text \<open>C20: A manifest from a peer that is not the owner has bounded effect: from a peer that is no
  administrator either it changes nothing, and from an administrator it neither changes the owner nor
  the administrator epoch, nor marks the owner or any administrator as removed.\<close>

theorem resolve_nonowner_bounded:
  assumes "group_inv grp" "sender \<noteq> g_ownerPeerId grp"
  shows "(sender \<notin> set (g_administratorPeerIds grp) \<longrightarrow> resolveLocalGroupManifest lc grp incoming sender = grp)
    \<and> g_ownerPeerId (resolveLocalGroupManifest lc grp incoming sender) = g_ownerPeerId grp
    \<and> epoch_of (resolveLocalGroupManifest lc grp incoming sender) = epoch_of grp
    \<and> (\<forall>p \<in> set (g_ownerPeerId grp # g_administratorPeerIds grp).
         p \<notin> set (removed_ids (resolveLocalGroupManifest lc grp incoming sender)))"
proof (cases "manifest_accepted grp incoming sender")
  case True
  then have acc: "g_ownerPeerId incoming = g_ownerPeerId grp" "sender \<in> set (g_administratorPeerIds grp)"
    "\<not> epoch_of incoming > epoch_of grp" "g_ownerPeerId grp \<notin> set (removed_ids incoming)"
    "\<forall>p \<in> set (g_administratorPeerIds grp). p \<notin> set (removed_ids incoming)"
    using assms(2) unfolding manifest_accepted_def by blast+
  have res: "resolveLocalGroupManifest lc grp incoming sender = merged_manifest lc grp (demoted_manifest grp incoming sender)"
    using True by (simp add: resolveLocalGroupManifest_def)
  have "p \<notin> set (merged_removed lc grp incoming)" if "p \<in> set (g_ownerPeerId grp # g_administratorPeerIds grp)" for p
    using that acc(4,5) group_inv_not_removed [OF assms(1) that] set_merged_removed(1) [of lc grp incoming] by auto
  with acc show ?thesis
    unfolding res removed_ids_merged by (simp add: merged_manifest_fields)
next
  case False
  then show ?thesis
    using group_inv_not_removed [OF assms(1)] by (simp add: resolveLocalGroupManifest_def)
qed

section \<open>New removals chain to the owner\<close>

lemma find_peer_ident: "map_option ident (find_peer ms p) = List.find (\<lambda>i. fst i = p) (map ident ms)"
  by (induction ms) (auto simp: find_peer_def ident_def)

lemma find_append: "List.find q (xs @ ys) = (case List.find q xs of None \<Rightarrow> List.find q ys | Some x \<Rightarrow> Some x)"
  by (induction xs) auto

text \<open>Identities that came with a manifest do not replace the owner's key the group knows.\<close>

lemma owner_key_verification_group:
  assumes "group_inv grp"
  obtains w where "w \<in> set (g_members grp)" "peerId w = g_ownerPeerId grp"
    "owner_key (verification_group grp incoming) = Some (publicKey w)"
proof -
  from assms obtain w where w: "find_peer (g_members grp) (g_ownerPeerId grp) = Some w"
    using find_peer_None by (fastforce simp: group_inv_def)
  obtain ex where "map ident (dedupePeerIdentities (g_members grp @ g_members incoming) None)
      = map ident (dedupePeerIdentities (g_members grp) None) @ ex"
    using dedupe_append_prefix by blast
  also have "map ident (dedupePeerIdentities (g_members grp) None) = map ident (g_members grp)"
    using assms by (intro dedupe_id) (auto simp: group_inv_def)
  finally have "map ident (known_identities (verification_group grp incoming)) =
      map ident (g_members grp) @ ex @ map ident (dedupePeerIdentities (g_removedMembers grp @ g_removedMembers incoming) None)"
    by (simp add: verification_group_def)
  moreover have "List.find (\<lambda>i. fst i = g_ownerPeerId grp) (map ident (g_members grp)) = Some (ident w)"
    using w by (simp add: find_peer_ident [symmetric])
  ultimately have "map_option ident (find_peer (known_identities (verification_group grp incoming)) (g_ownerPeerId grp))
      = Some (ident w)"
    unfolding find_peer_ident by (simp add: find_append)
  then obtain v where "find_peer (known_identities (verification_group grp incoming)) (g_ownerPeerId grp) = Some v"
    "publicKey v = publicKey w" by (auto simp: ident_def)
  moreover have "g_ownerPeerId (verification_group grp incoming) = g_ownerPeerId grp"
    by (simp add: verification_group_def)
  ultimately show thesis using that [of w] find_peer_Some [OF w] by (simp add: owner_key_def)
qed

lemma chains_to_verification_group:
  "chains_to num verify key (verification_group grp incoming) c \<longleftrightarrow> chains_to num verify key grp c"
  by (simp add: chains_to_def verification_group_def)

lemma canonicalGroupRevocation_target:
  assumes "number_format num" "canonicalGroupRevocation num a = canonicalGroupRevocation num b"
  shows "rc_targetPeerId a = rc_targetPeerId b"
proof -
  let ?f = "\<lambda>c. if chained_certificate c
     then legacyFields c @
       [(''administratorGrant'', js_or_null canonicalAdministratorGrantValue (rc_administratorGrant c)),
        (''rendezvousVersion'', js_or_null (\<lambda>n. JInt n) (rc_rendezvousVersion c)),
        (''rendezvousSecret'', js_or_null JStr (rc_rendezvousSecret c))]
     else legacyFields c"
  have safe: "json_safe (JObj (?f c))" for c
    by (simp add: json_safe_or_null)
  have "?f a = ?f b"
    using assms(2) unfolding canonicalGroupRevocation_def by (simp only: jtext_eq_iff [OF assms(1) safe safe] jsval.inject)
  then have "?f a ! 2 = ?f b ! 2" by (rule arg_cong)
  then show ?thesis by (simp add: nth_append legacyFields_def split: if_splits)
qed

text \<open>C10: When the revocations of a received manifest pass the check, every peer it newly removes is
  the target of a certificate in it that chains to the key this device knows for the owner, even
  though the certificate was checked against identities the manifest itself brought along.\<close>

theorem new_removals_chain_to_owner:
  assumes "number_format num" "group_inv grp"
    and "validateMergedManifestRevocations num verify grp incoming sender"
    and "p \<in> set (removed_ids incoming)" "p \<notin> set (removed_ids grp)"
  shows "\<exists>c \<in> set (revocations_of incoming). \<exists>w \<in> set (g_members grp). rc_targetPeerId c = p
    \<and> peerId w = g_ownerPeerId grp \<and> chains_to num verify (publicKey w) grp c"
proof -
  from assms(3-5) obtain c where c: "c \<in> set (revocations_of incoming)" "rc_targetPeerId c = p"
    "certificate_admissible num verify grp incoming c"
    by (auto simp: validateMergedManifestRevocations_def list_all_iff Let_def split: if_splits)
  have "\<not> already_trusted num grp c"
  proof
    assume "already_trusted num grp c"
    then obtain k where k: "k \<in> set (revocations_of grp)" "canonicalGroupRevocation num k = canonicalGroupRevocation num c"
      using find_set by (fastforce simp: already_trusted_def split: option.splits)
    with canonicalGroupRevocation_target [OF assms(1) k(2)] c(2) assms(5) show False
      by (auto simp: removed_ids_def)
  qed
  with c(3) have "verifyGroupRevocationCertificate num verify c (verification_group grp incoming) True"
    by (simp add: certificate_admissible_def)
  from verifyGroupRevocationCertificate_chain [OF this] obtain key where
    "owner_key (verification_group grp incoming) = Some key" "chains_to num verify key grp c"
    by (auto simp: chains_to_verification_group)
  with owner_key_verification_group [OF assms(2), of incoming] c(1,2) show ?thesis by (metis option.inject)
qed

section \<open>What the merge leaves to its callers\<close>

text \<open>
  The manifest in which an administrator adds a peer to the administrators, at the same epoch
  and without a grant of the owner.
\<close>

definition promoting_manifest :: "LocalGroup \<Rightarrow> string \<Rightarrow> LocalGroup" where
  "promoting_manifest grp p = grp\<lparr>g_manifestVersion := g_manifestVersion grp + 1,
     g_administratorPeerIds := p # g_administratorPeerIds grp\<rparr>"

lemma promoting_accepted:
  assumes "group_inv grp" "sender \<in> set (g_administratorPeerIds grp)"
  shows "manifest_accepted grp (promoting_manifest grp p) sender"
proof -
  have r: "removed_ids (promoting_manifest grp p) = removed_ids grp"
    by (simp add: removed_ids_def promoting_manifest_def)
  have o: "find_peer (g_members grp) (g_ownerPeerId grp) \<noteq> None"
    using assms(1) find_peer_None by (auto simp: group_inv_def)
  have nr: "q \<notin> set (removed_ids grp)" if "q \<in> set (g_ownerPeerId grp # g_administratorPeerIds grp)" for q
    by (rule group_inv_not_removed [OF assms(1) that])
  show ?thesis
    unfolding manifest_accepted_def r using assms(2) nr o by (auto simp: promoting_manifest_def)
qed

text \<open>The merge itself lets an administrator make any member an administrator: a manifest of the
  same administrator epoch with a higher version and a longer administrator list is taken over,
  although only the owner is meant to change roles. The chat path compares the lists before it
  calls the merge; the path that accepts a group invite does not.\<close>

theorem resolve_administrator_promotes:
  assumes "group_inv grp" "sender \<in> set (g_administratorPeerIds grp)"
    and "p \<in> peerId ` set (g_members grp)" "p \<noteq> g_ownerPeerId grp"
  shows "p \<in> set (g_administratorPeerIds (resolveLocalGroupManifest lc grp (promoting_manifest grp p) sender))"
proof -
  let ?inc = "promoting_manifest grp p"
  have win: "incoming_wins lc grp ?inc" and ep: "epoch_of ?inc = epoch_of grp"
    and mem: "g_members ?inc = g_members grp" and own: "g_ownerPeerId ?inc = g_ownerPeerId grp"
    and rem: "removed_ids ?inc = removed_ids grp"
    by (simp_all add: incoming_wins_def compareGroupManifestRevisions_def promoting_manifest_def removed_ids_def)
  have dem: "demoted_manifest grp ?inc sender = ?inc" by (simp add: demoted_manifest_def ep)
  have "p \<notin> set (merged_removed lc grp ?inc)"
    using assms(1,3) set_merged_removed(1) [of lc grp ?inc] unfolding rem group_inv_def by blast
  moreover have "p \<in> peerId ` set (dedupePeerIdentities (ordered_members lc grp ?inc) None)"
  proof -
    obtain ex where "map ident (dedupePeerIdentities (g_members grp @ g_members grp) None) = map ident (g_members grp) @ ex"
      using dedupe_append_prefix [of "g_members grp" "g_members grp"] dedupe_id [of "g_members grp"] assms(1)
      by (auto simp: group_inv_def)
    then have "fst ` set (map ident (g_members grp)) \<subseteq> fst ` set (map ident (dedupePeerIdentities (g_members grp @ g_members grp) None))"
      by auto
    then show ?thesis using assms(3) win ep mem by (simp add: ordered_members_def image_comp comp_def ident_def subset_iff)
  qed
  ultimately have "p \<in> peerId ` set (merged_members lc grp ?inc)" by (auto simp: merged_members_def image_iff)
  moreover have "p \<in> set (proposed_administrators lc grp ?inc)"
    using win ep by (simp add: proposed_administrators_def promoting_manifest_def)
  ultimately show ?thesis
    using promoting_accepted [OF assms(1,2)] assms(4)
    by (simp add: resolveLocalGroupManifest_def dem merged_manifest_administrators own)
qed

definition sample_admin_group :: LocalGroup where
  "sample_admin_group = sample_group\<lparr>g_administratorPeerIds := [''admin-01''],
     g_members := [sample_peer ''owner-01'', sample_peer ''admin-01'', sample_peer ''member-1'']\<rparr>"

lemma sample_admin_group_inv: "group_inv sample_admin_group"
  by code_simp

theorem resolve_administrator_promotes_witness:
  "''member-1'' \<in> set (g_administratorPeerIds (resolveLocalGroupManifest code_unit_compare sample_admin_group
     (promoting_manifest sample_admin_group ''member-1'') ''admin-01''))"
  by (rule resolve_administrator_promotes [OF sample_admin_group_inv])
    (simp_all add: sample_admin_group_def sample_group_def sample_peer_def)

text \<open>
  A manifest that lists the owner's key under another peer id first, then the owner.
\<close>

definition aliasing_manifest :: LocalGroup where
  "aliasing_manifest = sample_admin_group\<lparr>g_manifestVersion := 2,
     g_members := (sample_peer ''owner-01'')\<lparr>peerId := ''alias-01''\<rparr> # g_members sample_admin_group\<rparr>"


section \<open>Convergence\<close>

lemma insert_cmp_map:
  assumes "\<And>a b. cmp (f a) (f b) = cmp' a b"
  shows "map f (insert_cmp cmp' x xs) = insert_cmp cmp (f x) (map f xs)"
  using assms by (induction xs) auto

lemma sort_cmp_map:
  assumes "\<And>a b. cmp (f a) (f b) = cmp' a b"
  shows "map f (sort_cmp cmp' xs) = sort_cmp cmp (map f xs)"
  by (induction xs) (auto simp: sort_cmp_def insert_cmp_map [of cmp f cmp', OF assms])

lemma compare_sym:
  assumes "strict_collation lc"
  shows "compareGroupManifestRevisions lc a b > 0 \<longleftrightarrow> compareGroupManifestRevisions lc b a < 0"
proof -
  have lt: "lc x y < 0 \<longleftrightarrow> 0 < lc y x" for x y
    using assms unfolding strict_collation_def collation_def by blast
  have "lc x y = 0 \<longleftrightarrow> lc y x = 0" for x y
    using lt [of x y] lt [of y x] by linarith
  with lt show ?thesis
    unfolding compareGroupManifestRevisions_def Let_def by auto
qed

text \<open>The order in which two replicas take their members, and which of them wins, is symmetric.\<close>

lemma winner_sym:
  assumes "strict_collation lc" "epoch_of a = epoch_of b" "compareGroupManifestRevisions lc a b \<noteq> 0"
  shows "incoming_wins lc a b \<longleftrightarrow> \<not> incoming_wins lc b a"
  using compare_sym [OF assms(1), of a b] compare_sym [OF assms(1), of b a] assms(2,3)
  unfolding incoming_wins_def by auto

lemma merged_revocations_sym:
  assumes "strict_collation lc"
    and "unambiguous validGroupRevocationCertificate rc_targetPeerId newer_revocation
          (set (revocations_of a @ revocations_of b))"
  shows "merged_revocations lc a b = merged_revocations lc b a"
  unfolding merged_revocations_def
  by (rule mergeGroupRevocations_set [OF assms]) auto

lemma sort_strings_set: "set xs = set ys \<Longrightarrow> sort_strings (uniq xs) = sort_strings (uniq ys)"
  unfolding sort_strings_def
  using code_unit_collation.sort_cmp_unique [of "uniq xs" "uniq ys" "\<lambda>x. x"]
  by (simp add: set_eq_iff_mset_eq_distinct [symmetric])

lemma map_ident_merged_members:
  "map ident (merged_members lc grp incoming) = sort_cmp (\<lambda>l r. lc (fst l) (fst r))
     (map ident (filter (\<lambda>m. peerId m \<notin> set (merged_removed lc grp incoming))
        (dedupePeerIdentities (ordered_members lc grp incoming) None)))"
  unfolding merged_members_def
  by (subst sort_cmp_map [where cmp = "\<lambda>l r. lc (fst l) (fst r)"]) (simp_all add: ident_def [abs_def] comp_def)

definition same_manifest :: "LocalGroup \<Rightarrow> LocalGroup \<Rightarrow> bool" where
  "same_manifest x y \<longleftrightarrow>
     g_name x = g_name y \<and> g_avatar x = g_avatar y \<and> g_channels x = g_channels y
     \<and> map ident (g_members x) = map ident (g_members y)
     \<and> g_ownerPeerId x = g_ownerPeerId y
     \<and> g_membershipVersion x = g_membershipVersion y
     \<and> g_manifestVersion x = g_manifestVersion y
     \<and> g_manifestActorPeerId x = g_manifestActorPeerId y
     \<and> g_manifestOperationId x = g_manifestOperationId y
     \<and> g_administratorEpoch x = g_administratorEpoch y
     \<and> g_administratorPeerIds x = g_administratorPeerIds y
     \<and> g_removedPeerIds x = g_removedPeerIds y
     \<and> g_revocations x = g_revocations y
     \<and> g_rendezvousVersion x = g_rendezvousVersion y
     \<and> g_rendezvousSecret x = g_rendezvousSecret y"

definition manifest_winner :: "(string \<Rightarrow> string \<Rightarrow> int) \<Rightarrow> LocalGroup \<Rightarrow> LocalGroup \<Rightarrow> LocalGroup" where
  "manifest_winner lc grp incoming = (if incoming_wins lc grp incoming then incoming else grp)"

definition rendezvous_winner :: "(string \<Rightarrow> string \<Rightarrow> int) \<Rightarrow> LocalGroup \<Rightarrow> LocalGroup \<Rightarrow> LocalGroup" where
  "rendezvous_winner lc grp incoming =
    (if rendezvous_version_of incoming > rendezvous_version_of grp then incoming
     else if rendezvous_version_of incoming < rendezvous_version_of grp then grp
     else manifest_winner lc grp incoming)"

lemma merged_manifest_winner:
  fixes lc grp incoming
  defines "m \<equiv> merged_manifest lc grp incoming" and "w \<equiv> manifest_winner lc grp incoming"
  shows "g_name m = g_name w" "g_avatar m = g_avatar w" "g_channels m = g_channels w"
    "g_manifestVersion m = g_manifestVersion w" "g_manifestActorPeerId m = Some (actor_of w)"
    "g_manifestOperationId m = Some (operation_of w)"
    "g_membershipVersion m = max (g_membershipVersion grp) (g_membershipVersion incoming)"
    "g_rendezvousVersion m = Some (max (rendezvous_version_of grp) (rendezvous_version_of incoming))"
    "g_rendezvousSecret m = (if validOpaqueId (g_rendezvousSecret (rendezvous_winner lc grp incoming))
       then g_rendezvousSecret (rendezvous_winner lc grp incoming) else Some (g_groupId grp))"
    "g_removedPeerIds m = sort_strings (merged_removed lc grp incoming)"
  unfolding m_def w_def manifest_winner_def rendezvous_winner_def merged_removed_def merged_revocations_def
    merged_manifest_def Let_def
  by (simp_all split del: if_split)

lemma member_by_ident: "(\<exists>m \<in> set ms. peerId m = p) \<longleftrightarrow> p \<in> set (map fst (map ident ms))"
  by (auto simp: ident_def image_iff)


section \<open>Concrete instances\<close>

definition sample_removal :: LocalGroup where
  "sample_removal = sample_group\<lparr>g_manifestVersion := 2, g_members := [sample_peer ''owner-01''],
     g_removedPeerIds := [''member-1''], g_removedMembers := [sample_peer ''member-1''],
     g_revocations := Some [sample_revocation ''member-1'' 2]\<rparr>"

lemma sample_group_inv: "group_inv sample_group" by code_simp

lemma sample_removal_inv: "group_inv sample_removal" by code_simp

lemma sample_removal_unaliased: "owner_unaliased sample_removal" by code_simp


theorem removed_peer_never_returns_witness:
  "''member-1'' \<notin> peerId ` set (g_members (resolve_all code_unit_compare [(sample_group, ''owner-01'')] sample_removal))"
  using removed_peer_never_returns [of "''member-1''" sample_removal code_unit_compare "[(sample_group, ''owner-01'')]"]
  by (simp add: sample_removal_def sample_peer_def)

theorem resolve_nonowner_bounded_witness:
  "resolveLocalGroupManifest code_unit_compare sample_group sample_removal ''member-1'' = sample_group"
  using resolve_nonowner_bounded [OF sample_group_inv, of "''member-1''" code_unit_compare sample_removal]
  by (simp add: sample_group_def)

lemma sample_removal_validates:
  "validateMergedManifestRevocations fraction_text sample_verify sample_group sample_removal ''owner-01''"
proof -
  have vg: "verification_group sample_group sample_removal = sample_group\<lparr>g_removedMembers := [sample_peer ''member-1'']\<rparr>"
    by code_simp
  have "verifyGroupRevocationCertificate fraction_text sample_verify (sample_revocation ''member-1'' 2)
      (sample_group\<lparr>g_removedMembers := [sample_peer ''member-1'']\<rparr>) True"
    by (rule sample_revocation_verifies)
  then have "certificate_admissible fraction_text sample_verify sample_group sample_removal (sample_revocation ''member-1'' 2)"
    by (simp add: certificate_admissible_def vg) (simp add: sample_revocation_def sample_group_def)
  then show ?thesis
    by (simp add: validateMergedManifestRevocations_def vg removed_ids_def)
      (simp add: sample_removal_def sample_group_def removed_ids_def sample_peer_def sample_revocation_def)
qed

theorem new_removals_chain_to_owner_witness:
  "\<exists>c \<in> set (revocations_of sample_removal). rc_targetPeerId c = ''member-1''"
proof -
  have "''member-1'' \<in> set (removed_ids sample_removal)" "''member-1'' \<notin> set (removed_ids sample_group)"
    by (simp_all add: removed_ids_def sample_removal_def sample_group_def)
  from new_removals_chain_to_owner [OF number_format_fraction_text sample_group_inv sample_removal_validates this]
  show ?thesis by blast
qed


end
