(* ===== verification/Chat_Protocol.thy ===== *)
theory Chat_Protocol
  imports Protocol_Compatibility Group_Manifest Chunk_Codec Attachment_Chunks
begin

text \<open>
  The chat wire protocol, \<^verbatim>\<open>apps/web/src/chat/MessageProtocol.ts\<close>: the messages between peers of a
  channel, the parser that admits them and the canonical texts that are signed.

  The parser reads an untyped value. Where the code returns the parsed object itself
  (\<^verbatim>\<open>message as unknown as ...\<close>), the model returns its declared fields. Where it keeps parts of
  the object that enter a canonical text as they are (capabilities, grants, channels,
  revocations, members), the model keeps the values.

  Parameters: \<open>jparse\<close> is \<^verbatim>\<open>JSON.parse\<close> with \<open>None\<close> where it throws, \<open>dateparse\<close> is
  \<^verbatim>\<open>Date.parse\<close> with \<open>None\<close> for \<^verbatim>\<open>NaN\<close>, \<open>isotime\<close> is \<^verbatim>\<open>new Date(t).toISOString()\<close>, \<open>now\<close> is
  \<^verbatim>\<open>Date.now()\<close>. A channel identifier is optional in the code, so it is an option here.
\<close>

section \<open>Messages\<close>

record LegacyChatWireMessage =
  lm_channelId :: "string option"
  lm_id :: string
  lm_author :: string
  lm_content :: string
  lm_timestamp :: rat

record SignedChatWireMessage =
  sm_channelId :: "string option"
  sm_id :: string
  sm_authorPeerId :: string
  sm_author :: string
  sm_content :: string
  sm_timestamp :: rat
  sm_signature :: string

datatype ChatEventAction = Reply | Edit | Delete | ReactionAdd | ReactionRemove | Pin | Unpin

record SignedChatEventWireMessage =
  ev_channelId :: "string option"
  ev_id :: string
  ev_targetMessageId :: string
  ev_actorPeerId :: string
  ev_action :: ChatEventAction
  ev_content :: "string option"
  ev_referenceMessageId :: "string option"
  ev_emoji :: "string option"
  ev_timestamp :: rat
  ev_signature :: string

record ChatTypingWireMessage =
  ty_channelId :: "string option"
  ty_actorPeerId :: string
  ty_active :: bool
  ty_timestamp :: rat

record IdentityChallengeWireMessage =
  ic_channelId :: "string option"
  ic_fromPeerId :: string
  ic_nonce :: string
  ic_timestamp :: rat
  ic_capabilities :: jsval

record IdentityProofWireMessage =
  ip_channelId :: "string option"
  ip_fromPeerId :: string
  ip_toPeerId :: string
  ip_nonce :: string
  ip_timestamp :: rat
  ip_capabilities :: jsval
  ip_signature :: string

record HistoryRequestWireMessage =
  hr_channelId :: "string option"
  hr_requestId :: string
  hr_knownIds :: "string list"
  hr_knownEventIds :: "string list option"
  hr_messageBefore :: "string option"
  hr_messageBeforeId :: "string option"
  hr_eventBeforeTimestamp :: "rat option"
  hr_eventBeforeId :: "string option"
  hr_messagesDone :: "bool option"
  hr_eventsDone :: "bool option"

record HistoryChunkWireMessage =
  hc_channelId :: "string option"
  hc_requestId :: string
  hc_messages :: "SignedChatWireMessage list"
  hc_events :: "SignedChatEventWireMessage list option"

record HistoryCompleteWireMessage =
  hd_channelId :: "string option"
  hd_requestId :: string
  hd_nextMessageBefore :: "string option"
  hd_nextMessageBeforeId :: "string option"
  hd_nextEventBeforeTimestamp :: "rat option"
  hd_nextEventBeforeId :: "string option"

record GroupMembersWireMessage =
  gm_channelId :: "string option"
  gm_groupId :: string
  gm_senderPeerId :: string
  gm_ownerPeerId :: string
  gm_membershipVersion :: int
  gm_manifestVersion :: int
  gm_manifestActorPeerId :: string
  gm_manifestOperationId :: string
  gm_administratorEpoch :: int
  gm_administratorGrants :: "jsval list"
  gm_name :: string
  gm_avatar :: "string option"
  gm_channels :: "jsval list"
  gm_administratorPeerIds :: "string list"
  gm_removedPeerIds :: "string list"
  gm_removedMembers :: "jsval list"
  gm_revocations :: "jsval list"
  gm_rendezvousVersion :: int
  gm_rendezvousSecret :: string
  gm_members :: "jsval list"
  gm_timestamp :: rat
  gm_signature :: string

record ProfileUpdateWireMessage =
  pu_channelId :: "string option"
  pu_identity :: jsval
  pu_timestamp :: rat
  pu_signature :: string

datatype ChatWireEnvelope =
    Legacy_Message LegacyChatWireMessage
  | Signed_Message SignedChatWireMessage
  | Identity_Challenge IdentityChallengeWireMessage
  | Identity_Proof IdentityProofWireMessage
  | History_Request HistoryRequestWireMessage
  | History_Chunk HistoryChunkWireMessage
  | History_Complete HistoryCompleteWireMessage
  | Group_Members GroupMembersWireMessage
  | Profile_Update ProfileUpdateWireMessage
  | Group_Revocation "string option" jsval
  | Message_Ack "string option" string
  | Chat_Event SignedChatEventWireMessage
  | Chat_Typing ChatTypingWireMessage

definition MAX_WIRE_BYTES :: nat where "MAX_WIRE_BYTES = 64 * 1024"
definition MAX_HISTORY_IDS :: nat where "MAX_HISTORY_IDS = 200"
definition HISTORY_CHUNK_MESSAGES :: nat where "HISTORY_CHUNK_MESSAGES = 8"
definition HISTORY_CHUNK_EVENTS :: nat where "HISTORY_CHUNK_EVENTS = 16"
definition MAX_GROUP_SYNC_MEMBERS :: nat where "MAX_GROUP_SYNC_MEMBERS = 48"
definition MAX_GROUP_SYNC_REVOCATIONS :: nat where "MAX_GROUP_SYNC_REVOCATIONS = 48"
definition LEGACY_MESSAGE_MAX_AGE_MS :: rat where "LEGACY_MESSAGE_MAX_AGE_MS = 120000"
definition LEGACY_FUTURE_CLOCK_SKEW_MS :: rat where "LEGACY_FUTURE_CLOCK_SKEW_MS = 30000"
definition QUEUED_MESSAGE_MAX_AGE_MS :: rat where "QUEUED_MESSAGE_MAX_AGE_MS = 30 * 24 * 60 * 60000"

section \<open>Tests of wire values\<close>

text \<open>Reading a value whose type has been tested.\<close>

fun str_val :: "jsval \<Rightarrow> string" where "str_val (JStr s) = s" | "str_val _ = []"
fun num_val :: "jsval \<Rightarrow> rat" where "num_val (JNum (JFin x)) = x" | "num_val _ = 0"
fun bool_val :: "jsval \<Rightarrow> bool" where "bool_val (JBool b) = b" | "bool_val _ = False"
fun arr_val :: "jsval \<Rightarrow> jsval list" where "arr_val (JArr xs) = xs" | "arr_val _ = []"
definition int_val :: "jsval \<Rightarrow> int" where "int_val v = (case safe_int v of Some n \<Rightarrow> n | None \<Rightarrow> 0)"

definition validWireId :: "jsval \<Rightarrow> bool" where
  "validWireId = str_such (matches_class wire_chars 8 128)"

definition valid_signature :: "jsval \<Rightarrow> bool" where
  "valid_signature = str_such (matches_class wire_chars 16 256)"

definition named_text :: "nat \<Rightarrow> jsval \<Rightarrow> bool" where
  "named_text lo = str_such (\<lambda>s. lo \<le> length (js_trim s) \<and> length s \<le> 80)"

definition content_text :: "jsval \<Rightarrow> bool" where
  "content_text = str_such (\<lambda>s. 0 < length (js_trim s) \<and> length s \<le> 4000)"

definition freshTimestamp :: "rat \<Rightarrow> jsval \<Rightarrow> bool" where
  "freshTimestamp now = num_such (\<lambda>t. now - P2P_CLOCK_SKEW_TOLERANCE_MS \<le> t \<and> t \<le> now + P2P_CLOCK_SKEW_TOLERANCE_MS)"

definition message_timestamp :: "rat \<Rightarrow> bool \<Rightarrow> jsval \<Rightarrow> bool" where
  "message_timestamp now allowHistorical = num_such (\<lambda>t. 0 < t \<and> t \<le> now + P2P_CLOCK_SKEW_TOLERANCE_MS
     \<and> (allowHistorical \<or> now - QUEUED_MESSAGE_MAX_AGE_MS \<le> t))"

definition isPublicPeerIdentity :: "jsval \<Rightarrow> bool" where
  "isPublicPeerIdentity identity \<longleftrightarrow> is_object identity
     \<and> validWireId (jprop identity ''peerId'')
     \<and> named_text 2 (jprop identity ''displayName'')
     \<and> (jprop identity ''avatar'' = JUndefined \<or> validAvatarDataUrl (jprop identity ''avatar''))
     \<and> is_object (jprop identity ''publicKey'')
     \<and> (let key = jprop identity ''publicKey'' in
          jprop key ''kty'' = JStr ''EC'' \<and> jprop key ''crv'' = JStr ''P-256''
          \<and> str_such coordinate (jprop key ''x'') \<and> str_such coordinate (jprop key ''y''))"

definition isLocalGroupChannel :: "jsval \<Rightarrow> bool" where
  "isLocalGroupChannel channel \<longleftrightarrow> is_object channel
     \<and> validWireId (jprop channel ''id'') \<and> named_text 1 (jprop channel ''name'')
     \<and> (jprop channel ''kind'' = JStr ''text'' \<or> jprop channel ''kind'' = JStr ''voice'')
     \<and> (jprop channel ''voiceRoomId'' = JUndefined \<or> jprop channel ''voiceRoomId'' = JNull
        \<or> validWireId (jprop channel ''voiceRoomId''))"

definition wire_P256PublicKey :: "jsval \<Rightarrow> bool" where
  "wire_P256PublicKey key \<longleftrightarrow> is_record key
     \<and> jprop key ''kty'' = JStr ''EC'' \<and> jprop key ''crv'' = JStr ''P-256''
     \<and> str_such coordinate (jprop key ''x'') \<and> str_such coordinate (jprop key ''y'')"

definition positive_number :: "jsval \<Rightarrow> bool" where
  "positive_number = num_such (\<lambda>t. 0 < t)"

text \<open>The untyped tests of certificates that arrive on the wire.\<close>

definition wire_GroupAdministratorGrant :: "jsval \<Rightarrow> bool" where
  "wire_GroupAdministratorGrant grant \<longleftrightarrow> is_record grant
     \<and> jprop grant ''version'' = JInt 1
     \<and> validWireId (jprop grant ''groupId'') \<and> validWireId (jprop grant ''administratorPeerId'')
     \<and> validWireId (jprop grant ''ownerPeerId'')
     \<and> wire_P256PublicKey (jprop grant ''administratorPublicKey'')
     \<and> int_such (\<lambda>n. 1 \<le> n) (jprop grant ''administratorEpoch'')
     \<and> validWireId (jprop grant ''messageId'')
     \<and> positive_number (jprop grant ''timestamp'')
     \<and> valid_signature (jprop grant ''signature'')"

definition wire_GroupRevocationCertificate :: "jsval \<Rightarrow> bool" where
  "wire_GroupRevocationCertificate certificate \<longleftrightarrow> is_record certificate
     \<and> jprop certificate ''version'' = JInt 1
     \<and> validWireId (jprop certificate ''groupId'') \<and> validWireId (jprop certificate ''targetPeerId'')
     \<and> validWireId (jprop certificate ''issuerPeerId'')
     \<and> is_object (jprop certificate ''targetPublicKey'')
     \<and> int_such (\<lambda>n. 1 \<le> n) (jprop certificate ''membershipVersion'')
     \<and> int_such (\<lambda>n. 1 \<le> n) (jprop certificate ''administratorEpoch'')
     \<and> validWireId (jprop certificate ''messageId'')
     \<and> positive_number (jprop certificate ''timestamp'')
     \<and> (jprop certificate ''administratorGrant'' = JUndefined \<or> wire_GroupAdministratorGrant (jprop certificate ''administratorGrant''))
     \<and> (jprop certificate ''rendezvousVersion'' = JUndefined \<or> int_such (\<lambda>n. 1 \<le> n) (jprop certificate ''rendezvousVersion''))
     \<and> (jprop certificate ''rendezvousSecret'' = JUndefined \<or> validWireId (jprop certificate ''rendezvousSecret''))
     \<and> valid_signature (jprop certificate ''signature'')"

definition wire_list :: "nat \<Rightarrow> (jsval \<Rightarrow> bool) \<Rightarrow> jsval \<Rightarrow> bool" where
  "wire_list n p = arr_such (\<lambda>xs. length xs \<le> n \<and> list_all p xs)"

definition channel_is :: "string option \<Rightarrow> jsval \<Rightarrow> bool" where
  "channel_is channelId v \<longleftrightarrow> jprop v ''channelId'' = js_opt JStr channelId"

definition tagged :: "int \<Rightarrow> string \<Rightarrow> jsval \<Rightarrow> bool" where
  "tagged n ty v \<longleftrightarrow> jprop v ''version'' = JInt n \<and> jprop v ''type'' = JStr ty"

section \<open>Parsers\<close>

definition legacy_id :: "string \<Rightarrow> bool" where
  "legacy_id = matches_class (hex_chars @ ''-'') 36 36"

definition parseLegacyMessage :: "rat \<Rightarrow> string option \<Rightarrow> jsval \<Rightarrow> LegacyChatWireMessage option" where
  "parseLegacyMessage now channelId v =
    (if tagged 1 ''chat.message'' v \<and> channel_is channelId v
        \<and> str_such legacy_id (jprop v ''id'')
        \<and> named_text 2 (jprop v ''author'') \<and> content_text (jprop v ''content'')
        \<and> num_such (\<lambda>t. now - LEGACY_MESSAGE_MAX_AGE_MS \<le> t \<and> t \<le> now + LEGACY_FUTURE_CLOCK_SKEW_MS) (jprop v ''timestamp'')
     then Some \<lparr>lm_channelId = channelId, lm_id = str_val (jprop v ''id''), lm_author = str_val (jprop v ''author''),
       lm_content = str_val (jprop v ''content''), lm_timestamp = num_val (jprop v ''timestamp'')\<rparr>
     else None)"

definition parseSignedMessageObject :: "rat \<Rightarrow> string option \<Rightarrow> bool \<Rightarrow> jsval \<Rightarrow> SignedChatWireMessage option" where
  "parseSignedMessageObject now channelId allowHistorical v =
    (if is_object v \<and> tagged 2 ''chat.message'' v \<and> channel_is channelId v
        \<and> validWireId (jprop v ''id'') \<and> validWireId (jprop v ''authorPeerId'')
        \<and> named_text 2 (jprop v ''author'') \<and> content_text (jprop v ''content'')
        \<and> valid_signature (jprop v ''signature'') \<and> message_timestamp now allowHistorical (jprop v ''timestamp'')
     then Some \<lparr>sm_channelId = channelId, sm_id = str_val (jprop v ''id''), sm_authorPeerId = str_val (jprop v ''authorPeerId''),
       sm_author = str_val (jprop v ''author''), sm_content = str_val (jprop v ''content''),
       sm_timestamp = num_val (jprop v ''timestamp''), sm_signature = str_val (jprop v ''signature'')\<rparr>
     else None)"

definition action_names :: "(string \<times> ChatEventAction) list" where
  "action_names = [(''reply'', Reply), (''edit'', Edit), (''delete'', Delete), (''reaction.add'', ReactionAdd),
     (''reaction.remove'', ReactionRemove), (''pin'', Pin), (''unpin'', Unpin)]"

definition event_fields_ok :: "ChatEventAction \<Rightarrow> jsval \<Rightarrow> bool" where
  "event_fields_ok action v \<longleftrightarrow>
     (if action = Edit then content_text (jprop v ''content'') else jprop v ''content'' = JUndefined)
     \<and> (if action = Reply then validWireId (jprop v ''referenceMessageId'') else jprop v ''referenceMessageId'' = JUndefined)
     \<and> (if action = ReactionAdd \<or> action = ReactionRemove
        then str_such (\<lambda>s. 0 < length (js_trim s) \<and> length s \<le> 16) (jprop v ''emoji'')
        else jprop v ''emoji'' = JUndefined)"

definition str_opt :: "jsval \<Rightarrow> string option" where
  "str_opt v = (case v of JStr s \<Rightarrow> Some s | _ \<Rightarrow> None)"

definition parseSignedEventObject :: "rat \<Rightarrow> string option \<Rightarrow> bool \<Rightarrow> jsval \<Rightarrow> SignedChatEventWireMessage option" where
  "parseSignedEventObject now channelId allowHistorical v =
    (case map_of action_names (str_val (jprop v ''action'')) of
       None \<Rightarrow> None
     | Some action \<Rightarrow>
         if is_object v \<and> tagged 3 ''chat.event'' v \<and> channel_is channelId v
            \<and> validWireId (jprop v ''id'') \<and> validWireId (jprop v ''targetMessageId'') \<and> validWireId (jprop v ''actorPeerId'')
            \<and> event_fields_ok action v \<and> message_timestamp now allowHistorical (jprop v ''timestamp'')
            \<and> valid_signature (jprop v ''signature'')
         then Some \<lparr>ev_channelId = channelId, ev_id = str_val (jprop v ''id''),
           ev_targetMessageId = str_val (jprop v ''targetMessageId''), ev_actorPeerId = str_val (jprop v ''actorPeerId''),
           ev_action = action, ev_content = str_opt (jprop v ''content''),
           ev_referenceMessageId = str_opt (jprop v ''referenceMessageId''), ev_emoji = str_opt (jprop v ''emoji''),
           ev_timestamp = num_val (jprop v ''timestamp''), ev_signature = str_val (jprop v ''signature'')\<rparr>
         else None)"

definition parseTypingMessage :: "rat \<Rightarrow> string option \<Rightarrow> jsval \<Rightarrow> ChatTypingWireMessage option" where
  "parseTypingMessage now channelId v =
    (if tagged 3 ''chat.typing'' v \<and> channel_is channelId v \<and> validWireId (jprop v ''actorPeerId'')
        \<and> is_bool (jprop v ''active'') \<and> freshTimestamp now (jprop v ''timestamp'')
     then Some \<lparr>ty_channelId = channelId, ty_actorPeerId = str_val (jprop v ''actorPeerId''),
       ty_active = bool_val (jprop v ''active''), ty_timestamp = num_val (jprop v ''timestamp'')\<rparr>
     else None)"

definition parseIdentityChallenge :: "rat \<Rightarrow> string option \<Rightarrow> jsval \<Rightarrow> IdentityChallengeWireMessage option" where
  "parseIdentityChallenge now channelId v =
    (if validWireId (jprop v ''fromPeerId'') \<and> validWireId (jprop v ''nonce'') \<and> freshTimestamp now (jprop v ''timestamp'')
        \<and> validRiskPeerCapabilities (jprop v ''capabilities'')
     then Some \<lparr>ic_channelId = channelId, ic_fromPeerId = str_val (jprop v ''fromPeerId''), ic_nonce = str_val (jprop v ''nonce''),
       ic_timestamp = num_val (jprop v ''timestamp''), ic_capabilities = jprop v ''capabilities''\<rparr>
     else None)"

definition parseIdentityProof :: "rat \<Rightarrow> string option \<Rightarrow> jsval \<Rightarrow> IdentityProofWireMessage option" where
  "parseIdentityProof now channelId v =
    (if validWireId (jprop v ''fromPeerId'') \<and> validWireId (jprop v ''toPeerId'') \<and> validWireId (jprop v ''nonce'')
        \<and> freshTimestamp now (jprop v ''timestamp'') \<and> validRiskPeerCapabilities (jprop v ''capabilities'')
        \<and> valid_signature (jprop v ''signature'')
     then Some \<lparr>ip_channelId = channelId, ip_fromPeerId = str_val (jprop v ''fromPeerId''), ip_toPeerId = str_val (jprop v ''toPeerId''),
       ip_nonce = str_val (jprop v ''nonce''), ip_timestamp = num_val (jprop v ''timestamp''),
       ip_capabilities = jprop v ''capabilities'', ip_signature = str_val (jprop v ''signature'')\<rparr>
     else None)"

definition membership_ok :: "rat \<Rightarrow> jsval \<Rightarrow> bool" where
  "membership_ok now v \<longleftrightarrow>
     validWireId (jprop v ''groupId'') \<and> validWireId (jprop v ''senderPeerId'') \<and> validWireId (jprop v ''ownerPeerId'')
     \<and> int_such (\<lambda>n. 1 \<le> n) (jprop v ''membershipVersion'')
     \<and> wire_list MAX_GROUP_SYNC_MEMBERS isPublicPeerIdentity (jprop v ''members'') \<and> arr_val (jprop v ''members'') \<noteq> []
     \<and> int_such (\<lambda>n. 1 \<le> n) (jprop v ''manifestVersion'')
     \<and> validWireId (jprop v ''manifestActorPeerId'') \<and> validWireId (jprop v ''manifestOperationId'')
     \<and> int_such (\<lambda>n. 1 \<le> n) (jprop v ''administratorEpoch'')
     \<and> wire_list MAX_GROUP_SYNC_MEMBERS wire_GroupAdministratorGrant (jprop v ''administratorGrants'')
     \<and> named_text 2 (jprop v ''name'')
     \<and> (jprop v ''avatar'' = JUndefined \<or> validAvatarDataUrl (jprop v ''avatar''))
     \<and> wire_list 100 isLocalGroupChannel (jprop v ''channels'')
     \<and> wire_list 64 validWireId (jprop v ''administratorPeerIds'')
     \<and> wire_list 256 validWireId (jprop v ''removedPeerIds'')
     \<and> wire_list MAX_GROUP_SYNC_MEMBERS isPublicPeerIdentity (jprop v ''removedMembers'')
     \<and> wire_list MAX_GROUP_SYNC_REVOCATIONS wire_GroupRevocationCertificate (jprop v ''revocations'')
     \<and> int_such (\<lambda>n. 1 \<le> n) (jprop v ''rendezvousVersion'') \<and> validWireId (jprop v ''rendezvousSecret'')
     \<and> freshTimestamp now (jprop v ''timestamp'') \<and> valid_signature (jprop v ''signature'')"

definition parseGroupMembership :: "rat \<Rightarrow> string option \<Rightarrow> jsval \<Rightarrow> GroupMembersWireMessage option" where
  "parseGroupMembership now channelId v =
    (if membership_ok now v
     then Some \<lparr>gm_channelId = channelId, gm_groupId = str_val (jprop v ''groupId''),
       gm_senderPeerId = str_val (jprop v ''senderPeerId''), gm_ownerPeerId = str_val (jprop v ''ownerPeerId''),
       gm_membershipVersion = int_val (jprop v ''membershipVersion''), gm_manifestVersion = int_val (jprop v ''manifestVersion''),
       gm_manifestActorPeerId = str_val (jprop v ''manifestActorPeerId''),
       gm_manifestOperationId = str_val (jprop v ''manifestOperationId''),
       gm_administratorEpoch = int_val (jprop v ''administratorEpoch''),
       gm_administratorGrants = arr_val (jprop v ''administratorGrants''), gm_name = str_val (jprop v ''name''),
       gm_avatar = str_opt (jprop v ''avatar''), gm_channels = arr_val (jprop v ''channels''),
       gm_administratorPeerIds = uniq (map str_val (arr_val (jprop v ''administratorPeerIds''))),
       gm_removedPeerIds = uniq (map str_val (arr_val (jprop v ''removedPeerIds''))),
       gm_removedMembers = arr_val (jprop v ''removedMembers''), gm_revocations = arr_val (jprop v ''revocations''),
       gm_rendezvousVersion = int_val (jprop v ''rendezvousVersion''), gm_rendezvousSecret = str_val (jprop v ''rendezvousSecret''),
       gm_members = arr_val (jprop v ''members''), gm_timestamp = num_val (jprop v ''timestamp''),
       gm_signature = str_val (jprop v ''signature'')\<rparr>
     else None)"

definition parseProfileUpdate :: "rat \<Rightarrow> string option \<Rightarrow> jsval \<Rightarrow> ProfileUpdateWireMessage option" where
  "parseProfileUpdate now channelId v =
    (if isPublicPeerIdentity (jprop v ''identity'') \<and> freshTimestamp now (jprop v ''timestamp'') \<and> valid_signature (jprop v ''signature'')
     then Some \<lparr>pu_channelId = channelId, pu_identity = jprop v ''identity'', pu_timestamp = num_val (jprop v ''timestamp''),
       pu_signature = str_val (jprop v ''signature'')\<rparr>
     else None)"

definition validOptionalHistoryCursor :: "(string \<Rightarrow> rat option) \<Rightarrow> jsval \<Rightarrow> jsval \<Rightarrow> bool" where
  "validOptionalHistoryCursor dateparse timestamp cursorId \<longleftrightarrow>
     timestamp = JUndefined \<and> cursorId = JUndefined
     \<or> str_such (\<lambda>s. length s \<le> 64 \<and> dateparse s \<noteq> None) timestamp \<and> validWireId cursorId"

definition validOptionalEventCursor :: "jsval \<Rightarrow> jsval \<Rightarrow> bool" where
  "validOptionalEventCursor timestamp cursorId \<longleftrightarrow>
     timestamp = JUndefined \<and> cursorId = JUndefined \<or> int_such (\<lambda>t. 0 < t) timestamp \<and> validWireId cursorId"

definition wire_ids :: "jsval \<Rightarrow> bool" where
  "wire_ids = wire_list MAX_HISTORY_IDS validWireId"

definition optional_bool :: "jsval \<Rightarrow> bool" where
  "optional_bool v \<longleftrightarrow> v = JUndefined \<or> is_bool v"

definition bool_opt :: "jsval \<Rightarrow> bool option" where
  "bool_opt v = (case v of JBool b \<Rightarrow> Some b | _ \<Rightarrow> None)"

definition ids_opt :: "jsval \<Rightarrow> string list option" where
  "ids_opt v = (case v of JArr xs \<Rightarrow> Some (uniq (map str_val xs)) | _ \<Rightarrow> None)"

definition parse_history_request :: "(string \<Rightarrow> rat option) \<Rightarrow> string option \<Rightarrow> jsval \<Rightarrow> HistoryRequestWireMessage option" where
  "parse_history_request dateparse channelId v =
    (if wire_ids (jprop v ''knownIds'') \<and> (jprop v ''knownEventIds'' = JUndefined \<or> wire_ids (jprop v ''knownEventIds''))
        \<and> validOptionalHistoryCursor dateparse (jprop v ''messageBefore'') (jprop v ''messageBeforeId'')
        \<and> validOptionalEventCursor (jprop v ''eventBeforeTimestamp'') (jprop v ''eventBeforeId'')
        \<and> optional_bool (jprop v ''messagesDone'') \<and> optional_bool (jprop v ''eventsDone'')
     then Some \<lparr>hr_channelId = channelId, hr_requestId = str_val (jprop v ''requestId''),
       hr_knownIds = uniq (map str_val (arr_val (jprop v ''knownIds''))), hr_knownEventIds = ids_opt (jprop v ''knownEventIds''),
       hr_messageBefore = str_opt (jprop v ''messageBefore''), hr_messageBeforeId = str_opt (jprop v ''messageBeforeId''),
       hr_eventBeforeTimestamp = map_option of_int (safe_int (jprop v ''eventBeforeTimestamp'')), hr_eventBeforeId = str_opt (jprop v ''eventBeforeId''),
       hr_messagesDone = bool_opt (jprop v ''messagesDone''), hr_eventsDone = bool_opt (jprop v ''eventsDone'')\<rparr>
     else None)"

fun all_some :: "('a \<Rightarrow> 'b option) \<Rightarrow> 'a list \<Rightarrow> 'b list option" where
  "all_some f [] = Some []"
| "all_some f (x # xs) = (case f x of None \<Rightarrow> None | Some y \<Rightarrow> map_option ((#) y) (all_some f xs))"

definition short_list :: "nat \<Rightarrow> jsval \<Rightarrow> bool" where
  "short_list n = arr_such (\<lambda>xs. length xs \<le> n)"

definition parse_history_chunk :: "rat \<Rightarrow> string option \<Rightarrow> jsval \<Rightarrow> HistoryChunkWireMessage option" where
  "parse_history_chunk now channelId v =
    (if \<not> short_list HISTORY_CHUNK_MESSAGES (jprop v ''messages'') then None
     else case all_some (parseSignedMessageObject now channelId True) (arr_val (jprop v ''messages'')) of
         None \<Rightarrow> None
       | Some messages \<Rightarrow>
           if jprop v ''events'' \<noteq> JUndefined \<and> \<not> short_list HISTORY_CHUNK_EVENTS (jprop v ''events'') then None
           else (case all_some (parseSignedEventObject now channelId True) (arr_val (jprop v ''events'')) of
               None \<Rightarrow> None
             | Some events \<Rightarrow> Some \<lparr>hc_channelId = channelId, hc_requestId = str_val (jprop v ''requestId''),
                 hc_messages = messages, hc_events = (if jprop v ''events'' = JUndefined then None else Some events)\<rparr>))"

definition parse_history_complete :: "(string \<Rightarrow> rat option) \<Rightarrow> string option \<Rightarrow> jsval \<Rightarrow> HistoryCompleteWireMessage option" where
  "parse_history_complete dateparse channelId v =
    (if validOptionalHistoryCursor dateparse (jprop v ''nextMessageBefore'') (jprop v ''nextMessageBeforeId'')
        \<and> validOptionalEventCursor (jprop v ''nextEventBeforeTimestamp'') (jprop v ''nextEventBeforeId'')
     then Some \<lparr>hd_channelId = channelId, hd_requestId = str_val (jprop v ''requestId''),
       hd_nextMessageBefore = str_opt (jprop v ''nextMessageBefore''), hd_nextMessageBeforeId = str_opt (jprop v ''nextMessageBeforeId''),
       hd_nextEventBeforeTimestamp = map_option of_int (safe_int (jprop v ''nextEventBeforeTimestamp'')),
       hd_nextEventBeforeId = str_opt (jprop v ''nextEventBeforeId'')\<rparr>
     else None)"

definition parse_history :: "(string \<Rightarrow> rat option) \<Rightarrow> rat \<Rightarrow> string option \<Rightarrow> jsval \<Rightarrow> ChatWireEnvelope option" where
  "parse_history dateparse now channelId v =
    (if jprop v ''version'' \<noteq> JInt 2 \<or> \<not> validWireId (jprop v ''requestId'') then None
     else if jprop v ''type'' = JStr ''chat.history.request'' then map_option History_Request (parse_history_request dateparse channelId v)
     else if jprop v ''type'' = JStr ''chat.history.chunk'' then map_option History_Chunk (parse_history_chunk now channelId v)
     else if jprop v ''type'' = JStr ''chat.history.complete'' then map_option History_Complete (parse_history_complete dateparse channelId v)
     else None)"

definition parse_object :: "(string \<Rightarrow> rat option) \<Rightarrow> rat \<Rightarrow> string option \<Rightarrow> jsval \<Rightarrow> ChatWireEnvelope option" where
  "parse_object dateparse now channelId v =
    (if jprop v ''type'' = JStr ''chat.message''
     then (if jprop v ''version'' = JInt 1 then map_option Legacy_Message (parseLegacyMessage now channelId v)
           else if jprop v ''version'' = JInt 2 then map_option Signed_Message (parseSignedMessageObject now channelId False v)
           else None)
     else if tagged 3 ''chat.event'' v then map_option Chat_Event (parseSignedEventObject now channelId False v)
     else if tagged 3 ''chat.typing'' v then map_option Chat_Typing (parseTypingMessage now channelId v)
     else if tagged 2 ''chat.identity.challenge'' v then map_option Identity_Challenge (parseIdentityChallenge now channelId v)
     else if tagged 2 ''chat.identity.proof'' v then map_option Identity_Proof (parseIdentityProof now channelId v)
     else if tagged 2 ''chat.members.snapshot'' v then map_option Group_Members (parseGroupMembership now channelId v)
     else if tagged 2 ''chat.group.revocation'' v \<and> wire_GroupRevocationCertificate (jprop v ''certificate'')
     then Some (Group_Revocation channelId (jprop v ''certificate''))
     else if tagged 2 ''chat.profile.update'' v then map_option Profile_Update (parseProfileUpdate now channelId v)
     else if tagged 2 ''chat.message.ack'' v \<and> validWireId (jprop v ''messageId'')
     then Some (Message_Ack channelId (str_val (jprop v ''messageId'')))
     else parse_history dateparse now channelId v)"

definition parseChatWireEnvelope ::
  "(string \<Rightarrow> jsval option) \<Rightarrow> (string \<Rightarrow> rat option) \<Rightarrow> rat \<Rightarrow> string \<Rightarrow> string option \<Rightarrow> ChatWireEnvelope option" where
  "parseChatWireEnvelope jparse dateparse now raw channelId =
    (if utf8_length raw > MAX_WIRE_BYTES then None
     else case jparse raw of
         None \<Rightarrow> None
       | Some v \<Rightarrow> if \<not> is_object v \<or> \<not> channel_is channelId v then None else parse_object dateparse now channelId v)"

definition parseChatWireMessage ::
  "(string \<Rightarrow> jsval option) \<Rightarrow> (string \<Rightarrow> rat option) \<Rightarrow> rat \<Rightarrow> string \<Rightarrow> string option \<Rightarrow> ChatWireEnvelope option" where
  "parseChatWireMessage jparse dateparse now raw channelId =
    (case parseChatWireEnvelope jparse dateparse now raw channelId of
       Some (Legacy_Message m) \<Rightarrow> Some (Legacy_Message m)
     | Some (Signed_Message m) \<Rightarrow> Some (Signed_Message m)
     | _ \<Rightarrow> None)"

section \<open>Canonical texts\<close>

definition signed_message_value :: "SignedChatWireMessage \<Rightarrow> jsval" where
  "signed_message_value m = JObj [
     (''version'', JInt 2), (''type'', JStr ''chat.message''), (''channelId'', js_opt JStr (sm_channelId m)),
     (''id'', JStr (sm_id m)), (''authorPeerId'', JStr (sm_authorPeerId m)), (''author'', JStr (sm_author m)),
     (''content'', JStr (sm_content m)), (''timestamp'', JNum (JFin (sm_timestamp m)))]"

definition canonicalSignedMessage :: "(rat \<Rightarrow> string) \<Rightarrow> SignedChatWireMessage \<Rightarrow> string" where
  "canonicalSignedMessage num m = jtext num (signed_message_value m)"

definition action_name :: "ChatEventAction \<Rightarrow> string" where
  "action_name a = (case a of Reply \<Rightarrow> ''reply'' | Edit \<Rightarrow> ''edit'' | Delete \<Rightarrow> ''delete'' | ReactionAdd \<Rightarrow> ''reaction.add''
     | ReactionRemove \<Rightarrow> ''reaction.remove'' | Pin \<Rightarrow> ''pin'' | Unpin \<Rightarrow> ''unpin'')"

definition chat_event_value :: "SignedChatEventWireMessage \<Rightarrow> jsval" where
  "chat_event_value m = JObj [
     (''version'', JInt 3), (''type'', JStr ''chat.event''), (''channelId'', js_opt JStr (ev_channelId m)),
     (''id'', JStr (ev_id m)), (''targetMessageId'', JStr (ev_targetMessageId m)), (''actorPeerId'', JStr (ev_actorPeerId m)),
     (''action'', JStr (action_name (ev_action m))), (''content'', js_or_null JStr (ev_content m)),
     (''referenceMessageId'', js_or_null JStr (ev_referenceMessageId m)), (''emoji'', js_or_null JStr (ev_emoji m)),
     (''timestamp'', JNum (JFin (ev_timestamp m)))]"

definition canonicalChatEvent :: "(rat \<Rightarrow> string) \<Rightarrow> SignedChatEventWireMessage \<Rightarrow> string" where
  "canonicalChatEvent num m = jtext num (chat_event_value m)"

definition identity_proof_value :: "IdentityProofWireMessage \<Rightarrow> jsval" where
  "identity_proof_value m = JObj [
     (''version'', JInt 2), (''type'', JStr ''chat.identity.proof''), (''channelId'', js_opt JStr (ip_channelId m)),
     (''fromPeerId'', JStr (ip_fromPeerId m)), (''toPeerId'', JStr (ip_toPeerId m)), (''nonce'', JStr (ip_nonce m)),
     (''timestamp'', JNum (JFin (ip_timestamp m))), (''capabilities'', ip_capabilities m)]"

definition canonicalIdentityProof :: "(rat \<Rightarrow> string) \<Rightarrow> IdentityProofWireMessage \<Rightarrow> string" where
  "canonicalIdentityProof num m = jtext num (identity_proof_value m)"

definition str_field :: "string \<Rightarrow> jsval \<Rightarrow> string" where
  "str_field k v = str_val (jprop v k)"

definition sort_by_field :: "(string \<Rightarrow> string \<Rightarrow> int) \<Rightarrow> string \<Rightarrow> jsval list \<Rightarrow> jsval list" where
  "sort_by_field lc k = sort_cmp (\<lambda>a b. lc (str_field k a) (str_field k b))"

text \<open>\<^verbatim>\<open>value ?? null\<close> on a value.\<close>

definition nullish :: "jsval \<Rightarrow> jsval" where
  "nullish v = (if v = JUndefined then JNull else v)"

definition canonical_key :: "jsval \<Rightarrow> jsval" where
  "canonical_key key = JObj [(''kty'', nullish (jprop key ''kty'')), (''crv'', nullish (jprop key ''crv'')),
     (''x'', nullish (jprop key ''x'')), (''y'', nullish (jprop key ''y''))]"

definition canonical_peer :: "jsval \<Rightarrow> jsval" where
  "canonical_peer member = JObj [(''peerId'', jprop member ''peerId''), (''displayName'', jprop member ''displayName''),
     (''avatar'', nullish (jprop member ''avatar'')), (''publicKey'', canonical_key (jprop member ''publicKey''))]"

definition canonicalPeerIdentities :: "(string \<Rightarrow> string \<Rightarrow> int) \<Rightarrow> jsval list \<Rightarrow> jsval list" where
  "canonicalPeerIdentities lc members = map canonical_peer (sort_by_field lc ''peerId'' members)"

definition membership_value :: "(string \<Rightarrow> string \<Rightarrow> int) \<Rightarrow> GroupMembersWireMessage \<Rightarrow> jsval" where
  "membership_value lc m = JObj [
     (''version'', JInt 2), (''type'', JStr ''chat.members.snapshot''), (''channelId'', js_opt JStr (gm_channelId m)),
     (''groupId'', JStr (gm_groupId m)), (''senderPeerId'', JStr (gm_senderPeerId m)), (''ownerPeerId'', JStr (gm_ownerPeerId m)),
     (''membershipVersion'', JInt (gm_membershipVersion m)), (''manifestVersion'', JInt (gm_manifestVersion m)),
     (''manifestActorPeerId'', JStr (gm_manifestActorPeerId m)), (''manifestOperationId'', JStr (gm_manifestOperationId m)),
     (''administratorEpoch'', JInt (gm_administratorEpoch m)),
     (''administratorGrants'', JArr (sort_by_field lc ''administratorPeerId'' (gm_administratorGrants m))),
     (''name'', JStr (gm_name m)), (''avatar'', js_or_null JStr (gm_avatar m)),
     (''channels'', JArr (sort_by_field lc ''id'' (gm_channels m))),
     (''administratorPeerIds'', JArr (map JStr (sort_strings (gm_administratorPeerIds m)))),
     (''removedPeerIds'', JArr (map JStr (sort_strings (gm_removedPeerIds m)))),
     (''removedMembers'', JArr (canonicalPeerIdentities lc (gm_removedMembers m))),
     (''revocations'', JArr (sort_by_field lc ''messageId'' (gm_revocations m))),
     (''rendezvousVersion'', JInt (gm_rendezvousVersion m)), (''rendezvousSecret'', JStr (gm_rendezvousSecret m)),
     (''members'', JArr (canonicalPeerIdentities lc (gm_members m))),
     (''timestamp'', JNum (JFin (gm_timestamp m)))]"

definition canonicalGroupMembership :: "(rat \<Rightarrow> string) \<Rightarrow> (string \<Rightarrow> string \<Rightarrow> int) \<Rightarrow> GroupMembersWireMessage \<Rightarrow> string" where
  "canonicalGroupMembership num lc m = jtext num (membership_value lc m)"

definition profile_update_value :: "ProfileUpdateWireMessage \<Rightarrow> jsval" where
  "profile_update_value m = JObj [
     (''version'', JInt 2), (''type'', JStr ''chat.profile.update''), (''channelId'', js_opt JStr (pu_channelId m)),
     (''identity'', canonical_peer (pu_identity m)), (''timestamp'', JNum (JFin (pu_timestamp m)))]"

definition canonicalProfileUpdate :: "(rat \<Rightarrow> string) \<Rightarrow> ProfileUpdateWireMessage \<Rightarrow> string" where
  "canonicalProfileUpdate num m = jtext num (profile_update_value m)"

section \<open>Local messages and conversations\<close>

text \<open>
  An optional field that is null and one that is absent are both \<open>None\<close>, and an absent object of
  reactions is the empty one: the code reads all of them with \<^verbatim>\<open>??\<close>.
\<close>

record LocalChatMessage =
  ms_id :: string
  ms_channelId :: "string option"
  ms_author :: string
  ms_content :: string
  ms_createdAt :: string
  ms_authorPeerId :: "string option"
  ms_signature :: "string option"
  ms_replyToId :: "string option"
  ms_editedContent :: "string option"
  ms_editedAt :: "string option"
  ms_deletedAt :: "string option"
  ms_pinnedAt :: "string option"
  ms_pinnedByPeerId :: "string option"
  ms_reactions :: "(string \<times> string list) list"

definition legacyToLocal :: "(rat \<Rightarrow> string) \<Rightarrow> LegacyChatWireMessage \<Rightarrow> string \<Rightarrow> LocalChatMessage" where
  "legacyToLocal isotime m author = \<lparr>ms_id = lm_id m, ms_channelId = lm_channelId m, ms_author = author, ms_content = lm_content m,
     ms_createdAt = isotime (lm_timestamp m), ms_authorPeerId = None, ms_signature = None, ms_replyToId = None, ms_editedContent = None, ms_editedAt = None,
     ms_deletedAt = None, ms_pinnedAt = None, ms_pinnedByPeerId = None, ms_reactions = []\<rparr>"

definition signedToLocal :: "(rat \<Rightarrow> string) \<Rightarrow> SignedChatWireMessage \<Rightarrow> LocalChatMessage" where
  "signedToLocal isotime m = \<lparr>ms_id = sm_id m, ms_channelId = sm_channelId m, ms_author = sm_author m, ms_content = sm_content m,
     ms_createdAt = isotime (sm_timestamp m), ms_authorPeerId = Some (sm_authorPeerId m), ms_signature = Some (sm_signature m), ms_replyToId = None, ms_editedContent = None, ms_editedAt = None,
     ms_deletedAt = None, ms_pinnedAt = None, ms_pinnedByPeerId = None, ms_reactions = []\<rparr>"

definition localToSignedWire :: "(string \<Rightarrow> rat option) \<Rightarrow> LocalChatMessage \<Rightarrow> SignedChatWireMessage option" where
  "localToSignedWire dateparse m =
    (case (ms_authorPeerId m, ms_signature m, dateparse (ms_createdAt m)) of
       (Some author, Some signature, Some timestamp) \<Rightarrow>
         if author = [] \<or> signature = [] then None
         else Some \<lparr>sm_channelId = ms_channelId m, sm_id = ms_id m, sm_authorPeerId = author, sm_author = ms_author m,
           sm_content = ms_content m, sm_timestamp = timestamp, sm_signature = signature\<rparr>
     | _ \<Rightarrow> None)"

definition samePeerPublicKey :: "PublicPeerIdentity \<Rightarrow> PublicPeerIdentity \<Rightarrow> bool" where
  "samePeerPublicKey left right \<longleftrightarrow> jk_kty (publicKey left) = jk_kty (publicKey right)
     \<and> jk_crv (publicKey left) = jk_crv (publicKey right)
     \<and> jk_x (publicKey left) = jk_x (publicKey right) \<and> jk_y (publicKey left) = jk_y (publicKey right)"

definition conversation_text :: "string \<Rightarrow> string \<Rightarrow> string" where
  "conversation_text peerA peerB = ''risk-dm-v1:'' @ join_with '':'' (sort_strings [peerA, peerB])"

definition privateConversationId :: "string \<Rightarrow> string \<Rightarrow> js_error + string" where
  "privateConversationId peerA peerB =
    (if \<not> wire_id peerA \<or> \<not> wire_id peerB \<or> peerA = peerB then Inl (JSError ''invalid peers'')
     else Inr (''dm-'' @ hex_text (sha256 (utf8 (conversation_text peerA peerB)))))"

section \<open>What the parser admits\<close>

definition bounded_text :: "nat \<Rightarrow> nat \<Rightarrow> string \<Rightarrow> bool" where
  "bounded_text lo hi s \<longleftrightarrow> lo \<le> length (js_trim s) \<and> length s \<le> hi"

definition signed_message_ok :: "rat \<Rightarrow> string option \<Rightarrow> SignedChatWireMessage \<Rightarrow> bool" where
  "signed_message_ok now channelId m \<longleftrightarrow> sm_channelId m = channelId \<and> wire_id (sm_id m) \<and> wire_id (sm_authorPeerId m)
     \<and> bounded_text 2 80 (sm_author m) \<and> bounded_text 1 4000 (sm_content m) \<and> signature_text (sm_signature m)
     \<and> 0 < sm_timestamp m \<and> sm_timestamp m \<le> now + P2P_CLOCK_SKEW_TOLERANCE_MS"

definition chat_event_ok :: "rat \<Rightarrow> string option \<Rightarrow> SignedChatEventWireMessage \<Rightarrow> bool" where
  "chat_event_ok now channelId m \<longleftrightarrow> ev_channelId m = channelId \<and> wire_id (ev_id m) \<and> wire_id (ev_targetMessageId m)
     \<and> wire_id (ev_actorPeerId m) \<and> signature_text (ev_signature m)
     \<and> (ev_content m \<noteq> None \<longleftrightarrow> ev_action m = Edit) \<and> pred_option (bounded_text 1 4000) (ev_content m)
     \<and> (ev_referenceMessageId m \<noteq> None \<longleftrightarrow> ev_action m = Reply) \<and> pred_option wire_id (ev_referenceMessageId m)
     \<and> (ev_emoji m \<noteq> None \<longleftrightarrow> ev_action m = ReactionAdd \<or> ev_action m = ReactionRemove) \<and> pred_option (bounded_text 1 16) (ev_emoji m)
     \<and> 0 < ev_timestamp m \<and> ev_timestamp m \<le> now + P2P_CLOCK_SKEW_TOLERANCE_MS"

definition near :: "rat \<Rightarrow> rat \<Rightarrow> bool" where
  "near now t \<longleftrightarrow> \<bar>t - now\<bar> \<le> P2P_CLOCK_SKEW_TOLERANCE_MS"

definition members_ok :: "rat \<Rightarrow> string option \<Rightarrow> GroupMembersWireMessage \<Rightarrow> bool" where
  "members_ok now channelId m \<longleftrightarrow> gm_channelId m = channelId \<and> wire_id (gm_groupId m) \<and> wire_id (gm_senderPeerId m)
     \<and> wire_id (gm_ownerPeerId m) \<and> 1 \<le> gm_membershipVersion m \<and> 1 \<le> gm_manifestVersion m \<and> 1 \<le> gm_administratorEpoch m
     \<and> gm_members m \<noteq> [] \<and> length (gm_members m) \<le> MAX_GROUP_SYNC_MEMBERS \<and> list_all isPublicPeerIdentity (gm_members m)
     \<and> length (gm_administratorGrants m) \<le> MAX_GROUP_SYNC_MEMBERS \<and> list_all wire_GroupAdministratorGrant (gm_administratorGrants m)
     \<and> length (gm_revocations m) \<le> MAX_GROUP_SYNC_REVOCATIONS \<and> list_all wire_GroupRevocationCertificate (gm_revocations m)
     \<and> distinct (gm_administratorPeerIds m) \<and> list_all wire_id (gm_administratorPeerIds m) \<and> length (gm_administratorPeerIds m) \<le> 64
     \<and> distinct (gm_removedPeerIds m) \<and> list_all wire_id (gm_removedPeerIds m) \<and> length (gm_removedPeerIds m) \<le> 256
     \<and> near now (gm_timestamp m) \<and> signature_text (gm_signature m)"

fun envelope_ok :: "rat \<Rightarrow> string option \<Rightarrow> ChatWireEnvelope \<Rightarrow> bool" where
  "envelope_ok now c (Legacy_Message m) = (lm_channelId m = c \<and> bounded_text 2 80 (lm_author m) \<and> bounded_text 1 4000 (lm_content m)
     \<and> now - LEGACY_MESSAGE_MAX_AGE_MS \<le> lm_timestamp m \<and> lm_timestamp m \<le> now + LEGACY_FUTURE_CLOCK_SKEW_MS)"
| "envelope_ok now c (Signed_Message m) = (signed_message_ok now c m \<and> now - QUEUED_MESSAGE_MAX_AGE_MS \<le> sm_timestamp m)"
| "envelope_ok now c (Identity_Challenge m) = (ic_channelId m = c \<and> wire_id (ic_fromPeerId m) \<and> wire_id (ic_nonce m)
     \<and> near now (ic_timestamp m) \<and> validRiskPeerCapabilities (ic_capabilities m))"
| "envelope_ok now c (Identity_Proof m) = (ip_channelId m = c \<and> wire_id (ip_fromPeerId m) \<and> wire_id (ip_toPeerId m)
     \<and> wire_id (ip_nonce m) \<and> near now (ip_timestamp m) \<and> validRiskPeerCapabilities (ip_capabilities m) \<and> signature_text (ip_signature m))"
| "envelope_ok now c (History_Request m) = (hr_channelId m = c \<and> wire_id (hr_requestId m)
     \<and> distinct (hr_knownIds m) \<and> list_all wire_id (hr_knownIds m) \<and> length (hr_knownIds m) \<le> MAX_HISTORY_IDS
     \<and> pred_option (\<lambda>ids. distinct ids \<and> list_all wire_id ids \<and> length ids \<le> MAX_HISTORY_IDS) (hr_knownEventIds m)
     \<and> (hr_messageBefore m = None \<longleftrightarrow> hr_messageBeforeId m = None)
     \<and> (hr_eventBeforeTimestamp m = None \<longleftrightarrow> hr_eventBeforeId m = None))"
| "envelope_ok now c (History_Chunk m) = (hc_channelId m = c \<and> wire_id (hc_requestId m)
     \<and> length (hc_messages m) \<le> HISTORY_CHUNK_MESSAGES \<and> list_all (signed_message_ok now c) (hc_messages m)
     \<and> pred_option (\<lambda>es. length es \<le> HISTORY_CHUNK_EVENTS \<and> list_all (chat_event_ok now c) es) (hc_events m))"
| "envelope_ok now c (History_Complete m) = (hd_channelId m = c \<and> wire_id (hd_requestId m)
     \<and> (hd_nextMessageBefore m = None \<longleftrightarrow> hd_nextMessageBeforeId m = None)
     \<and> (hd_nextEventBeforeTimestamp m = None \<longleftrightarrow> hd_nextEventBeforeId m = None))"
| "envelope_ok now c (Group_Members m) = members_ok now c m"
| "envelope_ok now c (Profile_Update m) = (pu_channelId m = c \<and> isPublicPeerIdentity (pu_identity m) \<and> near now (pu_timestamp m)
     \<and> signature_text (pu_signature m))"
| "envelope_ok now c (Group_Revocation channelId v) = (channelId = c \<and> wire_GroupRevocationCertificate v)"
| "envelope_ok now c (Message_Ack channelId i) = (channelId = c \<and> wire_id i)"
| "envelope_ok now c (Chat_Event m) = (chat_event_ok now c m \<and> now - QUEUED_MESSAGE_MAX_AGE_MS \<le> ev_timestamp m)"
| "envelope_ok now c (Chat_Typing m) = (ty_channelId m = c \<and> wire_id (ty_actorPeerId m) \<and> near now (ty_timestamp m))"

lemma validWireId_val: "validWireId v \<Longrightarrow> wire_id (str_val v)"
  by (auto simp: validWireId_def wire_id_def str_such_iff)

lemma valid_signature_val: "valid_signature v \<Longrightarrow> signature_text (str_val v)"
  by (auto simp: valid_signature_def signature_text_def str_such_iff)

lemma named_text_val: "named_text n v \<Longrightarrow> bounded_text n 80 (str_val v)"
  by (auto simp: named_text_def bounded_text_def str_such_iff)

lemma content_text_val: "content_text v \<Longrightarrow> bounded_text (Suc 0) 4000 (str_val v)"
  by (auto simp: content_text_def bounded_text_def str_such_iff Suc_le_eq)

lemma freshTimestamp_val: "freshTimestamp now v \<Longrightarrow> near now (num_val v)"
  by (auto simp: freshTimestamp_def near_def num_such_iff abs_le_iff)

lemma message_timestamp_val:
  "message_timestamp now h v \<Longrightarrow> 0 < num_val v \<and> num_val v \<le> now + P2P_CLOCK_SKEW_TOLERANCE_MS
     \<and> (h \<or> now - QUEUED_MESSAGE_MAX_AGE_MS \<le> num_val v)"
  by (auto simp: message_timestamp_def num_such_iff)

lemma int_val_positive: "int_such (\<lambda>n. 1 \<le> n) v \<Longrightarrow> 1 \<le> int_val v"
  by (auto simp: int_val_def int_such_iff)

lemma wire_list_val: "wire_list n p v \<Longrightarrow> length (arr_val v) \<le> n \<and> list_all p (arr_val v)"
  by (auto simp: wire_list_def arr_such_iff)

lemma wire_list_ids:
  assumes "wire_list n validWireId v"
  shows "distinct (uniq (map str_val (arr_val v))) \<and> list_all wire_id (uniq (map str_val (arr_val v)))
    \<and> length (uniq (map str_val (arr_val v))) \<le> n"
proof -
  have "length (uniq (map str_val (arr_val v))) \<le> n"
    using wire_list_val [OF assms] length_uniq_le [of "map str_val (arr_val v)"] by simp
  then show ?thesis using wire_list_val [OF assms] by (auto simp: list_all_iff validWireId_val)
qed

lemmas wire_vals = validWireId_val valid_signature_val named_text_val content_text_val freshTimestamp_val int_val_positive

lemma parseSignedMessageObject_ok:
  "parseSignedMessageObject now c h v = Some m \<Longrightarrow> signed_message_ok now c m \<and> (h \<or> now - QUEUED_MESSAGE_MAX_AGE_MS \<le> sm_timestamp m)"
  unfolding parseSignedMessageObject_def
  by (auto simp: signed_message_ok_def wire_vals dest: message_timestamp_val split: if_splits)

lemma parseSignedEventObject_ok:
  assumes "parseSignedEventObject now c h v = Some m"
  shows "chat_event_ok now c m \<and> (h \<or> now - QUEUED_MESSAGE_MAX_AGE_MS \<le> ev_timestamp m)"
proof -
  obtain action where a: "map_of action_names (str_val (jprop v ''action'')) = Some action"
    using assms by (auto simp: parseSignedEventObject_def split: option.splits)
  note parsed = assms [unfolded parseSignedEventObject_def a option.case]
  have ok: "event_fields_ok action v" "validWireId (jprop v ''id'')" "validWireId (jprop v ''targetMessageId'')"
    "validWireId (jprop v ''actorPeerId'')" "message_timestamp now h (jprop v ''timestamp'')" "valid_signature (jprop v ''signature'')"
    using parsed by (simp_all split: if_splits)
  have m: "ev_channelId m = c" "ev_id m = str_val (jprop v ''id'')" "ev_targetMessageId m = str_val (jprop v ''targetMessageId'')"
    "ev_actorPeerId m = str_val (jprop v ''actorPeerId'')" "ev_action m = action" "ev_content m = str_opt (jprop v ''content'')"
    "ev_referenceMessageId m = str_opt (jprop v ''referenceMessageId'')" "ev_emoji m = str_opt (jprop v ''emoji'')"
    "ev_timestamp m = num_val (jprop v ''timestamp'')" "ev_signature m = str_val (jprop v ''signature'')"
    using parsed by (auto split: if_splits)
  have content: "(str_opt (jprop v ''content'') \<noteq> None \<longleftrightarrow> action = Edit) \<and> pred_option (bounded_text 1 4000) (str_opt (jprop v ''content''))"
    using ok(1) by (cases "action = Edit") (auto simp: event_fields_ok_def str_opt_def content_text_def bounded_text_def str_such_iff Suc_le_eq)
  have reference: "(str_opt (jprop v ''referenceMessageId'') \<noteq> None \<longleftrightarrow> action = Reply) \<and> pred_option wire_id (str_opt (jprop v ''referenceMessageId''))"
    using ok(1) by (cases "action = Reply") (auto simp: event_fields_ok_def str_opt_def validWireId_def wire_id_def str_such_iff)
  have emoji: "(str_opt (jprop v ''emoji'') \<noteq> None \<longleftrightarrow> action = ReactionAdd \<or> action = ReactionRemove) \<and> pred_option (bounded_text 1 16) (str_opt (jprop v ''emoji''))"
    using ok(1) by (cases "action = ReactionAdd \<or> action = ReactionRemove") (auto simp: event_fields_ok_def str_opt_def bounded_text_def str_such_iff Suc_le_eq)
  show ?thesis
    unfolding chat_event_ok_def m using ok content reference emoji message_timestamp_val [OF ok(5)]
    by (simp add: wire_vals)
qed

lemma all_some_ok: "all_some f xs = Some ys \<Longrightarrow> (\<And>x y. f x = Some y \<Longrightarrow> p y) \<Longrightarrow> list_all p ys \<and> length ys = length xs"
  by (induction xs arbitrary: ys) (auto split: option.splits)

lemma parse_history_chunk_ok:
  assumes "parse_history_chunk now c v = Some m" "validWireId (jprop v ''requestId'')"
  shows "envelope_ok now c (History_Chunk m)"
proof -
  obtain ms es where p: "short_list HISTORY_CHUNK_MESSAGES (jprop v ''messages'')"
    "all_some (parseSignedMessageObject now c True) (arr_val (jprop v ''messages'')) = Some ms"
    "all_some (parseSignedEventObject now c True) (arr_val (jprop v ''events'')) = Some es"
    "jprop v ''events'' = JUndefined \<or> short_list HISTORY_CHUNK_EVENTS (jprop v ''events'')"
    "m = \<lparr>hc_channelId = c, hc_requestId = str_val (jprop v ''requestId''), hc_messages = ms,
       hc_events = (if jprop v ''events'' = JUndefined then None else Some es)\<rparr>"
    using assms(1) by (auto simp: parse_history_chunk_def split: if_splits option.splits)
  have "list_all (signed_message_ok now c) ms \<and> length ms = length (arr_val (jprop v ''messages''))"
    by (rule all_some_ok [OF p(2)]) (simp add: parseSignedMessageObject_ok)
  moreover have "list_all (chat_event_ok now c) es \<and> length es = length (arr_val (jprop v ''events''))"
    by (rule all_some_ok [OF p(3)]) (simp add: parseSignedEventObject_ok)
  ultimately show ?thesis
    using p(1,4) assms(2) unfolding p(5) by (auto simp: short_list_def arr_such_iff validWireId_val)
qed

lemma cursor_none:
  "validOptionalHistoryCursor dp t i \<Longrightarrow> str_opt t = None \<longleftrightarrow> str_opt i = None"
  "validOptionalEventCursor t i \<Longrightarrow> safe_int t = None \<longleftrightarrow> str_opt i = None"
  by (auto simp: validOptionalHistoryCursor_def validOptionalEventCursor_def str_opt_def validWireId_def str_such_iff int_such_iff)

lemma ids_opt_ok:
  assumes "v = JUndefined \<or> wire_ids v"
  shows "pred_option (\<lambda>ids. distinct ids \<and> list_all wire_id ids \<and> length ids \<le> MAX_HISTORY_IDS) (ids_opt v)"
proof (cases v)
  case (JArr xs)
  with assms have "wire_list MAX_HISTORY_IDS validWireId v" by (simp add: wire_ids_def)
  from wire_list_ids [OF this] show ?thesis using JArr by (simp add: ids_opt_def)
qed (simp_all add: ids_opt_def)

lemma parse_history_request_ok:
  assumes "parse_history_request dp c v = Some m" "validWireId (jprop v ''requestId'')"
  shows "envelope_ok now c (History_Request m)"
proof -
  have p: "wire_ids (jprop v ''knownIds'')" "jprop v ''knownEventIds'' = JUndefined \<or> wire_ids (jprop v ''knownEventIds'')"
    "validOptionalHistoryCursor dp (jprop v ''messageBefore'') (jprop v ''messageBeforeId'')"
    "validOptionalEventCursor (jprop v ''eventBeforeTimestamp'') (jprop v ''eventBeforeId'')"
    using assms(1) by (simp_all add: parse_history_request_def split: if_splits)
  have m: "hr_channelId m = c" "hr_requestId m = str_val (jprop v ''requestId'')" "hr_knownIds m = uniq (map str_val (arr_val (jprop v ''knownIds'')))"
    "hr_knownEventIds m = ids_opt (jprop v ''knownEventIds'')" "hr_messageBefore m = str_opt (jprop v ''messageBefore'')"
    "hr_messageBeforeId m = str_opt (jprop v ''messageBeforeId'')" "hr_eventBeforeTimestamp m = map_option of_int (safe_int (jprop v ''eventBeforeTimestamp''))"
    "hr_eventBeforeId m = str_opt (jprop v ''eventBeforeId'')"
    using assms(1) by (auto simp: parse_history_request_def split: if_splits)
  show ?thesis
    unfolding envelope_ok.simps m
    using wire_list_ids [of MAX_HISTORY_IDS "jprop v ''knownIds''"] p(1) ids_opt_ok [OF p(2)] cursor_none(1) [OF p(3)]
      cursor_none(2) [OF p(4)] validWireId_val [OF assms(2)]
    by (simp add: wire_ids_def)
qed

lemma parseGroupMembership_ok:
  assumes "parseGroupMembership now c v = Some m"
  shows "members_ok now c m"
proof -
  have ok: "membership_ok now v" using assms by (simp add: parseGroupMembership_def split: if_splits)
  have m: "gm_channelId m = c" "gm_groupId m = str_val (jprop v ''groupId'')" "gm_senderPeerId m = str_val (jprop v ''senderPeerId'')"
    "gm_ownerPeerId m = str_val (jprop v ''ownerPeerId'')" "gm_membershipVersion m = int_val (jprop v ''membershipVersion'')"
    "gm_manifestVersion m = int_val (jprop v ''manifestVersion'')" "gm_administratorEpoch m = int_val (jprop v ''administratorEpoch'')"
    "gm_members m = arr_val (jprop v ''members'')" "gm_administratorGrants m = arr_val (jprop v ''administratorGrants'')"
    "gm_revocations m = arr_val (jprop v ''revocations'')"
    "gm_administratorPeerIds m = uniq (map str_val (arr_val (jprop v ''administratorPeerIds'')))"
    "gm_removedPeerIds m = uniq (map str_val (arr_val (jprop v ''removedPeerIds'')))"
    "gm_timestamp m = num_val (jprop v ''timestamp'')" "gm_signature m = str_val (jprop v ''signature'')"
    using assms by (auto simp: parseGroupMembership_def split: if_splits)
  show ?thesis
    unfolding members_ok_def m using ok unfolding membership_ok_def
    using wire_list_val [of MAX_GROUP_SYNC_MEMBERS isPublicPeerIdentity "jprop v ''members''"]
      wire_list_val [of MAX_GROUP_SYNC_MEMBERS wire_GroupAdministratorGrant "jprop v ''administratorGrants''"]
      wire_list_val [of MAX_GROUP_SYNC_REVOCATIONS wire_GroupRevocationCertificate "jprop v ''revocations''"]
      wire_list_ids [of 64 "jprop v ''administratorPeerIds''"] wire_list_ids [of 256 "jprop v ''removedPeerIds''"]
    by (simp add: wire_vals)
qed

lemma parse_object_ok:
  assumes "parse_object dp now c v = Some e"
  shows "envelope_ok now c e"
proof -
  have history: "envelope_ok now c e" if "parse_history dp now c v = Some e"
    using that parse_history_request_ok [of dp c v _ now] parse_history_chunk_ok [of now c v]
    by (auto simp: parse_history_def parse_history_complete_def validWireId_val cursor_none split: if_splits)
  show ?thesis
    using assms history parseSignedMessageObject_ok [of now c False v] parseSignedEventObject_ok [of now c False v]
      parseGroupMembership_ok [of now c v]
    unfolding parse_object_def
    by (auto simp: parseLegacyMessage_def parseTypingMessage_def parseIdentityChallenge_def parseIdentityProof_def
        parseProfileUpdate_def wire_vals num_such_iff split: if_splits)
qed


section \<open>What the signed texts bind\<close>

definition unsigned_event :: "SignedChatEventWireMessage \<Rightarrow> SignedChatEventWireMessage" where
  "unsigned_event m = m\<lparr>ev_signature := []\<rparr>"

definition unsigned_message :: "SignedChatWireMessage \<Rightarrow> SignedChatWireMessage" where
  "unsigned_message m = m\<lparr>sm_signature := []\<rparr>"

lemma action_name_inj: "action_name a = action_name b \<longleftrightarrow> a = b"
  by (cases a; cases b) (simp_all add: action_name_def)

lemma js_opt_JStr_inj: "js_opt JStr a = js_opt JStr b \<longleftrightarrow> a = b"
  by (cases a; cases b) (simp_all add: js_opt_def)

lemma js_or_null_JStr_inj: "js_or_null JStr a = js_or_null JStr b \<longleftrightarrow> a = b"
  by (cases a; cases b) (simp_all add: js_or_null_def)

lemma chat_value_safe:
  "sm_channelId m \<noteq> None \<Longrightarrow> json_safe (signed_message_value m)"
  "ev_channelId e \<noteq> None \<Longrightarrow> json_safe (chat_event_value e)"
  "ip_channelId p \<noteq> None \<Longrightarrow> json_safe (ip_capabilities p) \<Longrightarrow> json_safe (identity_proof_value p)"
  by (auto simp: signed_message_value_def chat_event_value_def identity_proof_value_def js_opt_def json_safe_or_null
      split: option.split)

lemma chat_value_inj:
  "signed_message_value m = signed_message_value m' \<longleftrightarrow> unsigned_message m = unsigned_message m'"
  "chat_event_value e = chat_event_value e' \<longleftrightarrow> unsigned_event e = unsigned_event e'"
  by (cases m; cases m'; simp add: signed_message_value_def unsigned_message_def js_opt_JStr_inj; blast)
    (cases e; cases e'; simp add: chat_event_value_def unsigned_event_def js_opt_JStr_inj js_or_null_JStr_inj action_name_inj; blast)


definition sample_signed :: "string \<Rightarrow> SignedChatWireMessage" where
  "sample_signed c = \<lparr>sm_channelId = Some ''channel1'', sm_id = ''message1'', sm_authorPeerId = ''peer0001'', sm_author = ''Ana'',
     sm_content = c, sm_timestamp = 1, sm_signature = replicate 16 (CHR ''s'')\<rparr>"

definition sample_event :: SignedChatEventWireMessage where
  "sample_event = \<lparr>ev_channelId = Some ''channel1'', ev_id = ''event001'', ev_targetMessageId = ''message1'', ev_actorPeerId = ''peer0001'',
     ev_action = Delete, ev_content = None, ev_referenceMessageId = None, ev_emoji = None, ev_timestamp = 1, ev_signature = []\<rparr>"

definition sample_proof :: IdentityProofWireMessage where
  "sample_proof = \<lparr>ip_channelId = Some ''channel1'', ip_fromPeerId = ''peer0001'', ip_toPeerId = ''peer0002'', ip_nonce = ''nonce001'',
     ip_timestamp = 1, ip_capabilities = JNull, ip_signature = []\<rparr>"



lemma sample_signed_ok: "signed_message_ok 1 (Some ''channel1'') (sample_signed ''hello'')"
proof -
  have "wire_id ''message1''" "wire_id ''peer0001''" "signature_text (replicate 16 (CHR ''s''))"
    "bounded_text 2 80 ''Ana''" "bounded_text 1 4000 ''hello''" by code_simp+
  then show ?thesis
    unfolding signed_message_ok_def sample_signed_def by (simp add: P2P_CLOCK_SKEW_TOLERANCE_MS_def)
qed


lemma sort_strings_pair: "sort_strings [a, b] = (if a \<le> b then [a, b] else [b, a])"
  by (auto simp: sort_strings_def sort_cmp_def code_unit_compare_def)

lemma wire_id_no_colon: "wire_id s \<Longrightarrow> CHR '':'' \<notin> set s"
proof -
  have "list_all (\<lambda>d. d \<noteq> CHR '':'') wire_chars" by code_simp
  then have "d \<in> set wire_chars \<Longrightarrow> d \<noteq> CHR '':''" for d by (simp only: list_all_iff) blast
  then show "wire_id s \<Longrightarrow> CHR '':'' \<notin> set s"
    unfolding wire_id_def matches_class_def list_all_iff by blast
qed

lemma split_at_char: "c \<notin> set x \<Longrightarrow> c \<notin> set x' \<Longrightarrow> x @ c # y = x' @ c # y' \<longleftrightarrow> x = x' \<and> y = y'"
  by (induction x arbitrary: x') (case_tac x'; auto)+

lemma conversation_text_eq_iff:
  assumes "wire_id a" "wire_id b" "wire_id a'" "wire_id b'"
  shows "conversation_text a b = conversation_text a' b' \<longleftrightarrow> {a, b} = {a', b'}"
proof -
  note nc = assms [THEN wire_id_no_colon]
  have "conversation_text a b = conversation_text a' b' \<longleftrightarrow> sort_strings [a, b] = sort_strings [a', b']"
    by (simp add: conversation_text_def sort_strings_pair split_at_char nc)
  also have "\<dots> \<longleftrightarrow> {a, b} = {a', b'}"
    by (auto simp: sort_strings_pair doubleton_eq_iff split: if_splits)
  finally show ?thesis .
qed

text \<open>The identifier of a private conversation does not depend on which of the two peers computes it, it
  is refused exactly for an invalid identifier or a peer with itself, and the text that is hashed
  determines the pair: two pairs of valid peers hash the same text only when they are the same pair.\<close>

theorem private_conversation_symmetric:
  "privateConversationId a b = privateConversationId b a
   \<and> (isl (privateConversationId a b) \<longleftrightarrow> \<not> (wire_id a \<and> wire_id b \<and> a \<noteq> b))
   \<and> (wire_id a \<and> wire_id b \<and> wire_id a' \<and> wire_id b' \<longrightarrow>
        conversation_text a b = conversation_text a' b' \<longleftrightarrow> {a, b} = {a', b'})"
proof -
  have "conversation_text a b = conversation_text b a"
    by (simp add: conversation_text_def sort_strings_pair) (meson linear)
  then have "privateConversationId a b = privateConversationId b a"
    by (auto simp: privateConversationId_def)
  moreover have "isl (privateConversationId a b) \<longleftrightarrow> \<not> (wire_id a \<and> wire_id b \<and> a \<noteq> b)"
    by (simp add: privateConversationId_def)
  ultimately show ?thesis by (simp add: conversation_text_eq_iff)
qed

theorem private_conversation_symmetric_witness:
  "conversation_text ''peer0001'' ''peer0002'' \<noteq> conversation_text ''peer0001'' ''peer0003''"
proof -
  have "wire_id ''peer0001''" "wire_id ''peer0002''" "wire_id ''peer0003''" by code_simp+
  with private_conversation_symmetric [of "''peer0001''" "''peer0002''" "''peer0001''" "''peer0003''"]
  show ?thesis by (simp add: doubleton_eq_iff)
qed

end
