(* ===== verification/Chat_Storage.thy ===== *)
theory Chat_Storage
  imports Chat_Protocol
begin

text \<open>
  The local stores of chat messages, chat events and queued messages:
  \<^verbatim>\<open>apps/web/src/services/offline/chat-storage.ts\<close>, \<^verbatim>\<open>chat-event-storage.ts\<close>, \<^verbatim>\<open>outbox-storage.ts\<close> and the
  part of \<^verbatim>\<open>database.ts\<close> they use.

  An IndexedDB object store is an association list from the key path to the record. The model
  follows the browser configuration, in which \<^verbatim>\<open>desktopConfig()\<close> is null; the desktop
  configuration sends the same records to a separate backend service. Reading by an index
  gives the records in the order of their keys, which IndexedDB compares by code units.
\<close>

section \<open>Object stores\<close>

definition put_in_store :: "('a \<Rightarrow> string) \<Rightarrow> 'a \<Rightarrow> (string \<times> 'a) list \<Rightarrow> (string \<times> 'a) list" where
  "put_in_store key v store = AList.update (key v) v store"

definition getAllByIndex :: "('a \<Rightarrow> bool) \<Rightarrow> (string \<times> 'a) list \<Rightarrow> 'a list" where
  "getAllByIndex p store = filter p (map snd (sort_cmp (\<lambda>a b. code_unit_compare (fst a) (fst b)) store))"

text \<open>\<^verbatim>\<open>xs.slice(-n)\<close> for a positive n, and \<^verbatim>\<open>Math.trunc\<close>.\<close>

definition last_n :: "nat \<Rightarrow> 'a list \<Rightarrow> 'a list" where
  "last_n n xs = drop (length xs - n) xs"

definition js_trunc :: "rat \<Rightarrow> int" where
  "js_trunc x = (if 0 \<le> x then \<lfloor>x\<rfloor> else \<lceil>x\<rceil>)"

definition text_given :: "string option \<Rightarrow> bool" where
  "text_given t = (case t of None \<Rightarrow> False | Some s \<Rightarrow> s \<noteq> [])"

section \<open>Messages\<close>

record MessagePageOptions =
  mo_before :: "string option"
  mo_beforeId :: "string option"
  mo_limit :: "rat option"

definition page_limit :: "MessagePageOptions \<Rightarrow> nat" where
  "page_limit options = nat (max 1 (min 200 (js_trunc (case mo_limit options of None \<Rightarrow> 100 | Some l \<Rightarrow> l))))"

definition message_before :: "string option \<Rightarrow> string option \<Rightarrow> LocalChatMessage \<Rightarrow> bool" where
  "message_before before beforeId m \<longleftrightarrow>
     \<not> text_given before \<or> ms_createdAt m < the before
     \<or> (ms_createdAt m = the before \<and> text_given beforeId \<and> ms_id m < the beforeId)"

definition compare_messages :: "(string \<Rightarrow> string \<Rightarrow> int) \<Rightarrow> LocalChatMessage \<Rightarrow> LocalChatMessage \<Rightarrow> int" where
  "compare_messages lc a b =
    (if lc (ms_createdAt a) (ms_createdAt b) \<noteq> 0 then lc (ms_createdAt a) (ms_createdAt b) else lc (ms_id a) (ms_id b))"

definition loadLegacyMessages ::
  "(string \<Rightarrow> string \<Rightarrow> int) \<Rightarrow> (string \<times> LocalChatMessage) list \<Rightarrow> string \<Rightarrow> string option \<Rightarrow> string option \<Rightarrow> nat
    \<Rightarrow> LocalChatMessage list" where
  "loadLegacyMessages lc store channelId before beforeId limit =
    last_n limit (sort_cmp (compare_messages lc)
      (filter (message_before before beforeId) (getAllByIndex (\<lambda>m. ms_channelId m = Some channelId) store)))"

definition loadLocalMessages ::
  "(string \<Rightarrow> string \<Rightarrow> int) \<Rightarrow> (string \<times> LocalChatMessage) list \<Rightarrow> string \<Rightarrow> MessagePageOptions \<Rightarrow> LocalChatMessage list" where
  "loadLocalMessages lc store channelId options =
    loadLegacyMessages lc store channelId (mo_before options) (mo_beforeId options) (page_limit options)"

definition saveLegacyMessage :: "LocalChatMessage \<Rightarrow> (string \<times> LocalChatMessage) list \<Rightarrow> (string \<times> LocalChatMessage) list" where
  "saveLegacyMessage = put_in_store ms_id"

definition saveLocalMessage :: "LocalChatMessage \<Rightarrow> (string \<times> LocalChatMessage) list \<Rightarrow> (string \<times> LocalChatMessage) list" where
  "saveLocalMessage = saveLegacyMessage"

definition loadLocalMessage :: "(string \<times> LocalChatMessage) list \<Rightarrow> string option \<Rightarrow> string \<Rightarrow> LocalChatMessage option" where
  "loadLocalMessage store channelId messageId =
    (case map_of store messageId of
       None \<Rightarrow> None
     | Some m \<Rightarrow> if ms_channelId m = channelId then Some m else None)"

section \<open>Events\<close>

type_synonym LocalChatEvent = SignedChatEventWireMessage

record ChatEventPageOptions =
  eo_beforeTimestamp :: "rat option"
  eo_beforeId :: "string option"
  eo_limit :: "rat option"

text \<open>\<^verbatim>\<open>left.timestamp - right.timestamp || left.id.localeCompare(right.id)\<close>; a sort uses only the sign.\<close>

definition compareEvents :: "(string \<Rightarrow> string \<Rightarrow> int) \<Rightarrow> LocalChatEvent \<Rightarrow> LocalChatEvent \<Rightarrow> int" where
  "compareEvents lc l r =
    (if ev_timestamp l < ev_timestamp r then - 1 else if ev_timestamp r < ev_timestamp l then 1 else lc (ev_id l) (ev_id r))"

definition num_given :: "rat option \<Rightarrow> bool" where
  "num_given x = (case x of None \<Rightarrow> False | Some r \<Rightarrow> r \<noteq> 0)"

definition event_before :: "ChatEventPageOptions \<Rightarrow> LocalChatEvent \<Rightarrow> bool" where
  "event_before options e \<longleftrightarrow>
     \<not> num_given (eo_beforeTimestamp options) \<or> ev_timestamp e < the (eo_beforeTimestamp options)
     \<or> (ev_timestamp e = the (eo_beforeTimestamp options) \<and> text_given (eo_beforeId options) \<and> ev_id e < the (eo_beforeId options))"

definition pageEvents :: "(string \<Rightarrow> string \<Rightarrow> int) \<Rightarrow> LocalChatEvent list \<Rightarrow> ChatEventPageOptions \<Rightarrow> LocalChatEvent list" where
  "pageEvents lc events options =
    (let sorted = sort_cmp (compareEvents lc) (filter (event_before options) events) in
     if num_given (eo_limit options) then last_n (nat (max 1 (js_trunc (the (eo_limit options))))) sorted else sorted)"

definition loadLocalChatEvents ::
  "(string \<Rightarrow> string \<Rightarrow> int) \<Rightarrow> (string \<times> LocalChatEvent) list \<Rightarrow> string option \<Rightarrow> ChatEventPageOptions \<Rightarrow> LocalChatEvent list" where
  "loadLocalChatEvents lc store channelId options =
    pageEvents lc (getAllByIndex (\<lambda>e. ev_channelId e = channelId) store) options"

definition saveLocalChatEvent :: "LocalChatEvent \<Rightarrow> (string \<times> LocalChatEvent) list \<Rightarrow> (string \<times> LocalChatEvent) list" where
  "saveLocalChatEvent = put_in_store ev_id"

abbreviation all_events :: ChatEventPageOptions where
  "all_events \<equiv> \<lparr>eo_beforeTimestamp = None, eo_beforeId = None, eo_limit = None\<rparr>"

section \<open>Queued messages\<close>

record OutboxRecord =
  ob_key :: string
  ob_channelId :: string
  ob_messageId :: string
  ob_wire :: string
  ob_queuedAt :: rat
  ob_attempts :: nat

definition outbox_key :: "string \<Rightarrow> string \<Rightarrow> string" where
  "outbox_key channelId messageId = channelId @ '':'' @ messageId"

definition enqueueOutbox ::
  "rat \<Rightarrow> string \<Rightarrow> string \<Rightarrow> string \<Rightarrow> (string \<times> OutboxRecord) list \<Rightarrow> (string \<times> OutboxRecord) list" where
  "enqueueOutbox now channelId messageId wire = put_in_store ob_key
    \<lparr>ob_key = outbox_key channelId messageId, ob_channelId = channelId, ob_messageId = messageId, ob_wire = wire,
     ob_queuedAt = now, ob_attempts = 0\<rparr>"

definition loadOutbox :: "(string \<times> OutboxRecord) list \<Rightarrow> string \<Rightarrow> OutboxRecord list" where
  "loadOutbox store channelId = getAllByIndex (\<lambda>r. ob_channelId r = channelId) store"

definition removeOutbox :: "string \<Rightarrow> string \<Rightarrow> (string \<times> OutboxRecord) list \<Rightarrow> (string \<times> OutboxRecord) list" where
  "removeOutbox channelId messageId = AList.delete (outbox_key channelId messageId)"

definition markOutboxAttempt :: "OutboxRecord \<Rightarrow> (string \<times> OutboxRecord) list \<Rightarrow> (string \<times> OutboxRecord) list" where
  "markOutboxAttempt r = put_in_store ob_key (r\<lparr>ob_attempts := ob_attempts r + 1\<rparr>)"

section \<open>Stores keyed by their records\<close>

text \<open>A store in which every record is found under its own key, and no key twice.\<close>

definition keyed :: "('a \<Rightarrow> string) \<Rightarrow> (string \<times> 'a) list \<Rightarrow> bool" where
  "keyed key store \<longleftrightarrow> wf_map store \<and> (\<forall>k v. map_of store k = Some v \<longrightarrow> key v = k)"

definition records_in :: "(string \<times> 'a) list \<Rightarrow> 'a set" where
  "records_in store = {v. \<exists>k. map_of store k = Some v}"

lemma keyed_Nil [simp]: "keyed key []" "records_in [] = {}"
  by (simp_all add: keyed_def records_in_def)

lemma keyed_put [simp]: "keyed key store \<Longrightarrow> keyed key (put_in_store key v store)"
  by (auto simp: keyed_def put_in_store_def)

lemma records_in_put:
  assumes "keyed key store"
  shows "records_in (put_in_store key v store) = insert v {u \<in> records_in store. key u \<noteq> key v}"
  using assms by (auto simp: keyed_def put_in_store_def records_in_def split: if_splits)

lemma map_of_put [simp]: "map_of (put_in_store key v store) k = (if k = key v then Some v else map_of store k)"
  by (simp add: put_in_store_def)

lemma keyed_lookup: "keyed key store \<Longrightarrow> map_of store k = Some v \<longleftrightarrow> v \<in> records_in store \<and> key v = k"
  by (auto simp: keyed_def records_in_def)

lemma keyed_inj: "keyed key store \<Longrightarrow> inj_on key (records_in store)"
  by (auto simp: keyed_def records_in_def inj_on_def)

lemma set_getAllByIndex:
  assumes "keyed key store"
  shows "set (getAllByIndex p store) = {v \<in> records_in store. p v}"
proof -
  have "snd ` set store = records_in store"
    using assms by (force simp: keyed_def wf_map_def records_in_def map_of_eq_Some_iff)
  then show ?thesis by (auto simp: getAllByIndex_def)
qed

lemma distinct_getAllByIndex:
  assumes "keyed key store"
  shows "distinct (map key (getAllByIndex p store))"
proof -
  let ?s = "sort_cmp (\<lambda>a b. code_unit_compare (fst a) (fst b)) store"
  have "map key (map snd ?s) = map fst ?s"
    using assms by (auto simp: keyed_def wf_map_def map_of_eq_Some_iff)
  moreover have "distinct (map fst ?s)"
    using assms by (metis keyed_def mset_map mset_sort_cmp mset_eq_imp_distinct_iff wf_map_def)
  ultimately show ?thesis
    unfolding getAllByIndex_def by (metis distinct_map_filter)
qed

section \<open>Sorting records\<close>

text \<open>
  The laws of a comparison function that \<^verbatim>\<open>Array.prototype.sort\<close> relies on. The two orders of the
  stores, by time and then by identifier, have them whenever \<^verbatim>\<open>localeCompare\<close> has.
\<close>

locale comparison =
  fixes cmp :: "'a \<Rightarrow> 'a \<Rightarrow> int"
  assumes cmp_refl: "cmp a a = 0"
    and cmp_sym: "cmp a b < 0 \<longleftrightarrow> 0 < cmp b a"
    and cmp_trans: "cmp a b \<le> 0 \<Longrightarrow> cmp b c \<le> 0 \<Longrightarrow> cmp a c \<le> 0"
begin

lemma cmp_total: "cmp a b \<le> 0 \<or> cmp b a \<le> 0"
  using cmp_sym [of b a] by linarith

lemma cmp_equal: "cmp a b \<le> 0 \<Longrightarrow> cmp b a \<le> 0 \<Longrightarrow> cmp a b = 0"
  using cmp_sym [of a b] by linarith

lemma sorted_insert:
  "sorted_wrt (\<lambda>x y. cmp x y \<le> 0) xs \<Longrightarrow> sorted_wrt (\<lambda>x y. cmp x y \<le> 0) (insert_cmp cmp x xs)"
proof (induction xs)
  case (Cons y ys)
  have set_eq: "set (insert_cmp cmp x ys) = insert x (set ys)"
    by (metis mset_insert_cmp set_mset_add_mset_insert set_mset_mset)
  from cmp_total [of x y] Cons show ?case by (auto simp: set_eq intro: cmp_trans)
qed simp

lemma sorted_sort: "sorted_wrt (\<lambda>x y. cmp x y \<le> 0) (sort_cmp cmp xs)"
  by (induction xs) (auto simp: sort_cmp_def intro: sorted_insert)

lemma sorted_unique:
  assumes "sorted_wrt (\<lambda>x y. cmp x y \<le> 0) xs" "sorted_wrt (\<lambda>x y. cmp x y \<le> 0) ys" "mset xs = mset ys"
    and "\<And>a b. a \<in> set xs \<Longrightarrow> b \<in> set xs \<Longrightarrow> cmp a b = 0 \<Longrightarrow> a = b"
  shows "xs = ys"
  using assms
proof (induction xs arbitrary: ys)
  case (Cons x xs)
  then obtain y ys' where ys: "ys = y # ys'" by (cases ys) auto
  have mem: "x \<in> set ys" "y \<in> set (x # xs)"
    using Cons.prems(3) ys by (metis list.set_intros(1) set_mset_mset)+
  with Cons.prems(1,2) ys have "cmp x y \<le> 0" "cmp y x \<le> 0"
    using cmp_refl by (auto simp: order_refl)
  then have "cmp x y = 0" by (rule cmp_equal)
  with mem have "x = y" by (intro Cons.prems(4)) auto
  with Cons ys show ?case by auto
qed simp

lemma sort_unique:
  assumes "mset xs = mset ys" "\<And>a b. a \<in> set xs \<Longrightarrow> b \<in> set xs \<Longrightarrow> cmp a b = 0 \<Longrightarrow> a = b"
  shows "sort_cmp cmp xs = sort_cmp cmp ys"
  by (rule sorted_unique [OF sorted_sort sorted_sort]) (use assms in auto)

end

lemma event_comparison: "collation lc \<Longrightarrow> comparison (compareEvents lc)"
proof
  assume lc: "collation lc"
  note sym = collation.lc_sym [OF lc] and trans = collation.lc_trans [OF lc]
  fix a b c
  show "compareEvents lc a a = 0" by (simp add: compareEvents_def collation.lc_refl [OF lc])
  show "compareEvents lc a b < 0 \<longleftrightarrow> 0 < compareEvents lc b a"
    using sym [of "ev_id a" "ev_id b"] by (auto simp: compareEvents_def)
  show "compareEvents lc a b \<le> 0 \<Longrightarrow> compareEvents lc b c \<le> 0 \<Longrightarrow> compareEvents lc a c \<le> 0"
    using trans [of "ev_id a" "ev_id b" "ev_id c"] by (auto simp: compareEvents_def split: if_splits)
qed

lemma message_comparison:
  assumes "collation lc"
  shows "comparison (compare_messages lc)"
proof -
  have lex: "comparison (\<lambda>a b. if lc (f a) (f b) \<noteq> 0 then lc (f a) (f b) else lc (g a) (g b))"
    for f g :: "LocalChatMessage \<Rightarrow> string"
  proof
    fix a b c
    let ?cmp = "\<lambda>a b. if lc (f a) (f b) \<noteq> 0 then lc (f a) (f b) else lc (g a) (g b)"
    note sym = collation.lc_sym [OF assms] and trans = collation.lc_trans [OF assms]
    show "?cmp a a = 0" by (simp add: collation.lc_refl [OF assms])
    show "?cmp a b < 0 \<longleftrightarrow> 0 < ?cmp b a" using sym by (smt (verit, best))
    show "?cmp a b \<le> 0 \<Longrightarrow> ?cmp b c \<le> 0 \<Longrightarrow> ?cmp a c \<le> 0"
      using trans sym by (smt (verit, ccfv_threshold))
  qed
  show ?thesis unfolding compare_messages_def by (rule lex)
qed

interpretation event_order: comparison "compareEvents code_unit_compare"
  by (rule event_comparison) unfold_locales

interpretation message_order: comparison "compare_messages code_unit_compare"
  by (rule message_comparison) unfold_locales

lemma compareEvents_eq: "strict_collation lc \<Longrightarrow> compareEvents lc a b = 0 \<Longrightarrow> ev_id a = ev_id b"
  by (auto simp: compareEvents_def strict_collation.lc_antisym split: if_splits)

lemma compare_messages_eq: "strict_collation lc \<Longrightarrow> compare_messages lc a b = 0 \<Longrightarrow> ms_id a = ms_id b"
  by (auto simp: compare_messages_def strict_collation.lc_antisym split: if_splits)

lemmas strict_collation_collation = strict_collation.axioms(1)

lemma sort_events_unique:
  assumes "strict_collation lc" "distinct xs" "distinct ys" "set xs = set ys" "inj_on ev_id (set xs)"
  shows "sort_cmp (compareEvents lc) xs = sort_cmp (compareEvents lc) ys"
  by (rule comparison.sort_unique [OF event_comparison [OF strict_collation_collation [OF assms(1)]]])
    (use assms(2-4) in \<open>simp add: set_eq_iff_mset_eq_distinct\<close>, meson compareEvents_eq [OF assms(1)] assms(5) inj_onD)

lemma sort_messages_unique:
  assumes "strict_collation lc" "distinct xs" "distinct ys" "set xs = set ys" "inj_on ms_id (set xs)"
  shows "sort_cmp (compare_messages lc) xs = sort_cmp (compare_messages lc) ys"
  by (rule comparison.sort_unique [OF message_comparison [OF strict_collation_collation [OF assms(1)]]])
    (use assms(2-4) in \<open>simp add: set_eq_iff_mset_eq_distinct\<close>, meson compare_messages_eq [OF assms(1)] assms(5) inj_onD)

end
