(* ===== verification/Message_Projection.thy ===== *)
theory Message_Projection
  imports Chat_Storage
begin

text \<open>
  \<^verbatim>\<open>projectMessage\<close> of \<^verbatim>\<open>apps/web/src/chat/MessageService.ts\<close>: what a message looks like after the events
  that edit, delete, pin or react to it. The events are applied in the order of their times and
  identifiers, so the last writer of a field decides it; the lemmas below make that precise
  and show that a projection can be repeated with more events.

  The reactions under construction are a \<^verbatim>\<open>Map\<close> from an emoji to a \<^verbatim>\<open>Set\<close> of peers, an association list
  of lists without duplicates. The parameter \<open>isotime\<close> prints a time as \<^verbatim>\<open>toISOString\<close> does.
\<close>

section \<open>Projecting a message\<close>

definition event_time :: "(rat \<Rightarrow> string) \<Rightarrow> SignedChatEventWireMessage \<Rightarrow> string" where
  "event_time isotime e = isotime (ev_timestamp e)"

text \<open>The emoji as the property name it becomes; the parser admits reactions with an emoji only.\<close>

definition emoji_key :: "SignedChatEventWireMessage \<Rightarrow> string" where
  "emoji_key e = (case ev_emoji e of None \<Rightarrow> ''undefined'' | Some s \<Rightarrow> s)"

definition reaction_sets :: "LocalChatMessage \<Rightarrow> (string \<times> string list) list" where
  "reaction_sets m = map (\<lambda>(k, ps). (k, uniq ps)) (ms_reactions m)"

definition set_add :: "'a \<Rightarrow> 'a list \<Rightarrow> 'a list" where
  "set_add x xs = (if x \<in> set xs then xs else xs @ [x])"

definition add_reaction :: "SignedChatEventWireMessage \<Rightarrow> (string \<times> string list) list \<Rightarrow> (string \<times> string list) list" where
  "add_reaction e rs = AList.update (emoji_key e)
     (set_add (ev_actorPeerId e) (case map_of rs (emoji_key e) of None \<Rightarrow> [] | Some ps \<Rightarrow> ps)) rs"

definition remove_reaction :: "SignedChatEventWireMessage \<Rightarrow> (string \<times> string list) list \<Rightarrow> (string \<times> string list) list" where
  "remove_reaction e rs = (case map_of rs (emoji_key e) of
     None \<Rightarrow> rs
   | Some ps \<Rightarrow> AList.update (emoji_key e) (removeAll (ev_actorPeerId e) ps) rs)"

definition event_refused :: "LocalChatMessage \<Rightarrow> SignedChatEventWireMessage \<Rightarrow> bool" where
  "event_refused m e \<longleftrightarrow> ev_action e \<in> {Reply, Edit, Delete}
     \<and> (\<not> text_given (ms_authorPeerId m) \<or> Some (ev_actorPeerId e) \<noteq> ms_authorPeerId m)"

definition project_event ::
  "(rat \<Rightarrow> string) \<Rightarrow> LocalChatMessage \<Rightarrow> SignedChatEventWireMessage
    \<Rightarrow> LocalChatMessage \<times> (string \<times> string list) list \<Rightarrow> LocalChatMessage \<times> (string \<times> string list) list" where
  "project_event isotime m e st =
    (if event_refused m e then st
     else case (ev_action e, st) of
       (Reply, p, rs) \<Rightarrow> (p\<lparr>ms_replyToId := ev_referenceMessageId e\<rparr>, rs)
     | (Edit, p, rs) \<Rightarrow> (p\<lparr>ms_editedContent := ev_content e, ms_editedAt := Some (event_time isotime e)\<rparr>, rs)
     | (Delete, p, rs) \<Rightarrow> (p\<lparr>ms_deletedAt := Some (event_time isotime e)\<rparr>, rs)
     | (Pin, p, rs) \<Rightarrow> (p\<lparr>ms_pinnedAt := Some (event_time isotime e), ms_pinnedByPeerId := Some (ev_actorPeerId e)\<rparr>, rs)
     | (Unpin, p, rs) \<Rightarrow> (p\<lparr>ms_pinnedAt := None, ms_pinnedByPeerId := None\<rparr>, rs)
     | (ReactionAdd, p, rs) \<Rightarrow> (p, add_reaction e rs)
     | (ReactionRemove, p, rs) \<Rightarrow> (p, remove_reaction e rs))"

definition reactions_object :: "(string \<times> string list) list \<Rightarrow> (string \<times> string list) list" where
  "reactions_object rs = map (\<lambda>(k, ps). (k, sort_strings ps)) (filter (\<lambda>(k, ps). ps \<noteq> []) rs)"

definition relevant_events ::
  "(string \<Rightarrow> string \<Rightarrow> int) \<Rightarrow> LocalChatMessage \<Rightarrow> SignedChatEventWireMessage list \<Rightarrow> SignedChatEventWireMessage list" where
  "relevant_events lc m events = sort_cmp (compareEvents lc) (filter (\<lambda>e. ev_targetMessageId e = ms_id m) events)"

definition projectMessage ::
  "(string \<Rightarrow> string \<Rightarrow> int) \<Rightarrow> (rat \<Rightarrow> string) \<Rightarrow> LocalChatMessage \<Rightarrow> SignedChatEventWireMessage list \<Rightarrow> LocalChatMessage" where
  "projectMessage lc isotime m events =
    (let (p, rs) = fold (project_event isotime m) (relevant_events lc m events) (m, reaction_sets m)
     in p\<lparr>ms_reactions := reactions_object rs\<rparr>)"

section \<open>The last writer decides\<close>

definition last_event :: "(SignedChatEventWireMessage \<Rightarrow> bool) \<Rightarrow> SignedChatEventWireMessage list \<Rightarrow> SignedChatEventWireMessage option" where
  "last_event p es = (let xs = filter p es in if xs = [] then None else Some (last xs))"

lemma last_event_snoc [simp]: "last_event p [] = None" "last_event p (es @ [e]) = (if p e then Some e else last_event p es)"
  by (simp_all add: last_event_def)

lemma last_event_Some: "last_event p es = Some e \<Longrightarrow> e \<in> set es \<and> p e"
  using last_in_set [of "filter p es"] by (auto simp: last_event_def Let_def split: if_splits)

lemma last_event_None: "last_event p es = None \<longleftrightarrow> (\<forall>e \<in> set es. \<not> p e)"
  by (simp add: last_event_def filter_empty_conv)

definition by_author :: "LocalChatMessage \<Rightarrow> ChatEventAction \<Rightarrow> SignedChatEventWireMessage \<Rightarrow> bool" where
  "by_author m a e \<longleftrightarrow> ev_action e = a \<and> text_given (ms_authorPeerId m) \<and> ms_authorPeerId m = Some (ev_actorPeerId e)"

definition pins :: "SignedChatEventWireMessage \<Rightarrow> bool" where
  "pins e \<longleftrightarrow> ev_action e = Pin \<or> ev_action e = Unpin"

definition reacts :: "string \<Rightarrow> string \<Rightarrow> SignedChatEventWireMessage \<Rightarrow> bool" where
  "reacts k p e \<longleftrightarrow> (ev_action e = ReactionAdd \<or> ev_action e = ReactionRemove) \<and> emoji_key e = k \<and> ev_actorPeerId e = p"

text \<open>Whether a peer reacts with an emoji, in a map of reactions under construction.\<close>

definition has_reaction :: "(string \<times> string list) list \<Rightarrow> string \<Rightarrow> string \<Rightarrow> bool" where
  "has_reaction rs k p = (case map_of rs k of None \<Rightarrow> False | Some ps \<Rightarrow> p \<in> set ps)"

lemma has_reaction_add: "has_reaction (add_reaction e rs) k p \<longleftrightarrow> (k = emoji_key e \<and> p = ev_actorPeerId e) \<or> has_reaction rs k p"
  by (auto simp: has_reaction_def add_reaction_def set_add_def split: option.splits)

lemma has_reaction_remove:
  "has_reaction (remove_reaction e rs) k p \<longleftrightarrow> \<not> (k = emoji_key e \<and> p = ev_actorPeerId e) \<and> has_reaction rs k p"
  by (auto simp: has_reaction_def remove_reaction_def split: option.splits)

definition field_from :: "'a \<Rightarrow> (SignedChatEventWireMessage \<Rightarrow> 'a) \<Rightarrow> SignedChatEventWireMessage option \<Rightarrow> 'a" where
  "field_from old f w = (case w of None \<Rightarrow> old | Some e \<Rightarrow> f e)"

lemma field_from_simps [simp]: "field_from old f None = old" "field_from old f (Some e) = f e"
  by (simp_all add: field_from_def)

text \<open>The state after a list of events, field by field.\<close>

definition pin_time :: "(rat \<Rightarrow> string) \<Rightarrow> SignedChatEventWireMessage \<Rightarrow> string option" where
  "pin_time isotime e = (if ev_action e = Pin then Some (event_time isotime e) else None)"

definition pin_peer :: "SignedChatEventWireMessage \<Rightarrow> string option" where
  "pin_peer e = (if ev_action e = Pin then Some (ev_actorPeerId e) else None)"

definition written :: "(rat \<Rightarrow> string) \<Rightarrow> LocalChatMessage \<Rightarrow> SignedChatEventWireMessage list \<Rightarrow> LocalChatMessage" where
  "written isotime m es = m\<lparr>
     ms_replyToId := field_from (ms_replyToId m) ev_referenceMessageId (last_event (by_author m Reply) es),
     ms_editedContent := field_from (ms_editedContent m) ev_content (last_event (by_author m Edit) es),
     ms_editedAt := field_from (ms_editedAt m) (\<lambda>e. Some (event_time isotime e)) (last_event (by_author m Edit) es),
     ms_deletedAt := field_from (ms_deletedAt m) (\<lambda>e. Some (event_time isotime e)) (last_event (by_author m Delete) es),
     ms_pinnedAt := field_from (ms_pinnedAt m) (pin_time isotime) (last_event pins es),
     ms_pinnedByPeerId := field_from (ms_pinnedByPeerId m) pin_peer (last_event pins es)\<rparr>"

lemma refused_iff: "event_refused m e \<longleftrightarrow> ev_action e \<in> {Reply, Edit, Delete} \<and> \<not> by_author m (ev_action e) e"
  by (auto simp: event_refused_def by_author_def)

lemma fold_project_fields:
  "fst (fold (project_event isotime m) es (m, rs)) = written isotime m es"
proof (induction es rule: rev_induct)
  case Nil
  show ?case by (simp add: written_def)
next
  case (snoc e es)
  then obtain rs' where st: "fold (project_event isotime m) es (m, rs) = (written isotime m es, rs')"
    by (metis prod.collapse)
  have step: "fold (project_event isotime m) (es @ [e]) (m, rs) = project_event isotime m e (written isotime m es, rs')"
    by (simp add: st)
  show ?case
    unfolding step unfolding project_event_def
    by (cases "ev_action e") (auto simp: refused_iff by_author_def pins_def written_def pin_time_def pin_peer_def)
qed

lemma fold_project_reactions:
  "has_reaction (snd (fold (project_event isotime m) es (m, rs))) k p =
     field_from (has_reaction rs k p) (\<lambda>e. ev_action e = ReactionAdd) (last_event (reacts k p) es)"
proof (induction es rule: rev_induct)
  case (snoc e es)
  obtain q rs' where st: "fold (project_event isotime m) es (m, rs) = (q, rs')" by (metis prod.collapse)
  have step: "fold (project_event isotime m) (es @ [e]) (m, rs) = project_event isotime m e (q, rs')"
    by (simp add: st)
  show ?case
    using snoc [unfolded st] unfolding step unfolding project_event_def
    by (cases "ev_action e") (auto simp: event_refused_def reacts_def has_reaction_add has_reaction_remove)
qed simp

section \<open>What a projected message shows\<close>

text \<open>
  The order of the properties of the reactions object is not part of what a message shows: the
  view of a message has its reactions as a function of the emoji.
\<close>

definition message_view :: "LocalChatMessage \<Rightarrow> LocalChatMessage \<times> (string \<Rightarrow> string list option)" where
  "message_view m = (m\<lparr>ms_reactions := []\<rparr>, map_of (ms_reactions m))"

definition reaction_list :: "string set \<Rightarrow> string list option" where
  "reaction_list P = (if P = {} then None else Some (sorted_list_of_set P))"

lemma sort_strings_distinct: "distinct ps \<Longrightarrow> sort_strings ps = sorted_list_of_set (set ps)"
proof -
  have le: "(\<lambda>x y. code_unit_compare x y \<le> 0) = (\<le>)" by (auto simp: code_unit_compare_def fun_eq_iff)
  have "sorted_wrt (\<lambda>x y. code_unit_compare x y \<le> 0) (sort_cmp (\<lambda>a b. code_unit_compare a b) ps)"
    by (rule code_unit_collation.sorted_sort_cmp)
  then have "sorted (sort_strings ps)" by (simp add: sort_strings_def le)
  moreover assume "distinct ps"
  ultimately show ?thesis
    by (metis distinct_sort_cmp set_sort_cmp sort_strings_def sorted_distinct_set_unique finite_set
        set_sorted_list_of_set sorted_sorted_list_of_set distinct_sorted_list_of_set)
qed

definition reactions_ok :: "(string \<times> string list) list \<Rightarrow> bool" where
  "reactions_ok rs \<longleftrightarrow> wf_map rs \<and> (\<forall>k. pred_option distinct (map_of rs k))"

lemma reactions_ok_update: "reactions_ok rs \<Longrightarrow> distinct v \<Longrightarrow> reactions_ok (AList.update k v rs)"
  unfolding reactions_ok_def by simp

lemma reactions_ok_lookup: "reactions_ok rs \<Longrightarrow> map_of rs k = Some ps \<Longrightarrow> distinct ps"
  unfolding reactions_ok_def by (metis option.pred_inject(2))

lemma reactions_ok_add:
  assumes "reactions_ok rs"
  shows "reactions_ok (add_reaction e rs)"
proof -
  have "distinct (case map_of rs (emoji_key e) of None \<Rightarrow> [] | Some ps \<Rightarrow> ps)"
    by (cases "map_of rs (emoji_key e)") (simp, simp only: option.case, rule reactions_ok_lookup [OF assms])
  then show ?thesis unfolding add_reaction_def by (intro reactions_ok_update assms) (simp add: set_add_def)
qed

lemma reactions_ok_remove:
  assumes "reactions_ok rs"
  shows "reactions_ok (remove_reaction e rs)"
proof (cases "map_of rs (emoji_key e)")
  case (Some ps)
  with assms have "distinct ps" by (rule reactions_ok_lookup)
  then show ?thesis by (simp add: remove_reaction_def Some reactions_ok_update assms distinct_removeAll)
qed (simp add: remove_reaction_def assms)

lemma reactions_ok_fold: "reactions_ok (snd st) \<Longrightarrow> reactions_ok (snd (fold (project_event isotime m) es st))"
proof (induction es arbitrary: st)
  case (Cons e es)
  have "reactions_ok (snd (project_event isotime m e st))"
    using Cons.prems by (cases st; cases "ev_action e") (auto simp: project_event_def reactions_ok_add reactions_ok_remove)
  then show ?case by (simp add: Cons.IH)
qed simp

lemma map_of_reaction_sets: "map_of (reaction_sets m) k = map_option uniq (map_of (ms_reactions m) k)"
  by (simp add: reaction_sets_def map_of_map)

lemma reactions_ok_sets: "wf_map (ms_reactions m) \<Longrightarrow> reactions_ok (reaction_sets m)"
  unfolding reactions_ok_def
proof (intro conjI allI)
  show "wf_map (ms_reactions m) \<Longrightarrow> wf_map (reaction_sets m)"
    by (simp add: wf_map_def reaction_sets_def split_def comp_def)
  show "pred_option distinct (map_of (reaction_sets m) k)" for k
    by (cases "map_of (ms_reactions m) k") (simp_all add: map_of_reaction_sets)
qed

lemma has_reaction_sets: "has_reaction (reaction_sets m) k p = has_reaction (ms_reactions m) k p"
  by (auto simp: has_reaction_def reaction_sets_def map_of_map split: option.splits)

lemma map_of_filter_value:
  "wf_map rs \<Longrightarrow> map_of (filter (\<lambda>(k, v). P v) rs) k = (case map_of rs k of None \<Rightarrow> None | Some v \<Rightarrow> if P v then Some v else None)"
proof (induction rs)
  case (Cons e rs)
  obtain k' v where e: "e = (k', v)" by (cases e)
  have none: "map_of rs k' = None" "map_of (filter (\<lambda>(k, v). P v) rs) k' = None"
    using Cons.prems by (simp_all add: e wf_map_def map_of_eq_None_iff image_iff)
  with Cons show ?case by (simp add: e wf_map_def)
qed simp

lemma reactions_object_view:
  assumes "reactions_ok rs"
  shows "map_of (reactions_object rs) = (\<lambda>k. reaction_list {p. has_reaction rs k p})"
proof
  fix k
  have "wf_map rs" using assms by (simp add: reactions_ok_def)
  then have lookup: "map_of (reactions_object rs) k =
      (case map_of rs k of None \<Rightarrow> None | Some ps \<Rightarrow> if ps = [] then None else Some (sort_strings ps))"
    by (simp add: reactions_object_def map_of_map map_of_filter_value split: option.split)
  show "map_of (reactions_object rs) k = reaction_list {p. has_reaction rs k p}"
  proof (cases "map_of rs k")
    case None
    then show ?thesis by (simp add: lookup has_reaction_def reaction_list_def)
  next
    case (Some ps)
    with assms have "sort_strings ps = sorted_list_of_set (set ps)" by (intro sort_strings_distinct reactions_ok_lookup)
    with Some show ?thesis by (simp add: lookup has_reaction_def reaction_list_def)
  qed
qed

lemma wf_reactions_object: "wf_map rs \<Longrightarrow> wf_map (reactions_object rs)"
  by (simp add: wf_map_def reactions_object_def split_def comp_def distinct_map_filter)

definition reacting :: "LocalChatMessage \<Rightarrow> SignedChatEventWireMessage list \<Rightarrow> string \<Rightarrow> string set" where
  "reacting m es k = {p. field_from (has_reaction (ms_reactions m) k p) (\<lambda>e. ev_action e = ReactionAdd) (last_event (reacts k p) es)}"

lemma finite_has_reaction: "finite {p. has_reaction rs k p}"
  by (cases "map_of rs k") (simp_all add: has_reaction_def)

lemma project_view:
  assumes "wf_map (ms_reactions m)"
  shows "message_view (projectMessage lc isotime m events) =
     ((written isotime m (relevant_events lc m events))\<lparr>ms_reactions := []\<rparr>,
      \<lambda>k. reaction_list (reacting m (relevant_events lc m events) k))"
    and "wf_map (ms_reactions (projectMessage lc isotime m events))"
    and "finite (reacting m (relevant_events lc m events) k)"
proof -
  let ?R = "relevant_events lc m events"
  obtain p rs where st: "fold (project_event isotime m) ?R (m, reaction_sets m) = (p, rs)" by (metis prod.collapse)
  have p: "p = written isotime m ?R" using fold_project_fields [of isotime m ?R "reaction_sets m"] by (simp add: st)
  have ok: "reactions_ok rs"
    using reactions_ok_fold [of "(m, reaction_sets m)" isotime m ?R] reactions_ok_sets [OF assms] by (simp add: st)
  have set: "{q. has_reaction rs j q} = reacting m ?R j" for j
    using fold_project_reactions [of isotime m ?R "reaction_sets m" j] by (simp add: st has_reaction_sets reacting_def)
  show "message_view (projectMessage lc isotime m events) = ((written isotime m ?R)\<lparr>ms_reactions := []\<rparr>,
      \<lambda>k. reaction_list (reacting m ?R k))"
    by (simp add: projectMessage_def st message_view_def reactions_object_view [OF ok] set p)
  show "wf_map (ms_reactions (projectMessage lc isotime m events))"
    using ok by (simp add: projectMessage_def st wf_reactions_object reactions_ok_def)
  show "finite (reacting m ?R k)" using finite_has_reaction [of rs k] by (simp add: set)
qed

lemma has_reaction_view: "map_of rs k = reaction_list P \<Longrightarrow> finite P \<Longrightarrow> has_reaction rs k p \<longleftrightarrow> p \<in> P"
  by (auto simp: has_reaction_def reaction_list_def split: if_splits)

lemma field_from_absorb:
  assumes "set es \<subseteq> set es'"
  shows "field_from (field_from old f (last_event p es)) f (last_event p es') = field_from old f (last_event p es')"
proof (cases "last_event p es'")
  case None
  with assms have "last_event p es = None" by (auto simp: last_event_None)
  with None show ?thesis by simp
qed simp

lemma written_view_cong:
  assumes "a\<lparr>ms_reactions := []\<rparr> = b\<lparr>ms_reactions := []\<rparr>"
  shows "(written isotime a es)\<lparr>ms_reactions := []\<rparr> = (written isotime b es)\<lparr>ms_reactions := []\<rparr>"
proof -
  obtain rs where "a = b\<lparr>ms_reactions := rs\<rparr>"
  proof
    show "a = b\<lparr>ms_reactions := ms_reactions a\<rparr>" using assms by (cases a; cases b) simp
  qed
  moreover have "by_author (b\<lparr>ms_reactions := rs\<rparr>) = by_author b" for rs by (simp add: by_author_def fun_eq_iff)
  ultimately show ?thesis by (simp add: written_def)
qed

lemma view_eqD:
  assumes "message_view a = message_view b"
  shows "a\<lparr>ms_reactions := []\<rparr> = b\<lparr>ms_reactions := []\<rparr>" "map_of (ms_reactions a) = map_of (ms_reactions b)"
    "ms_id a = ms_id b" "ms_channelId a = ms_channelId b" "ms_createdAt a = ms_createdAt b"
    "ms_authorPeerId a = ms_authorPeerId b"
  using assms by (cases a; cases b; simp add: message_view_def)+

lemma project_view_cong:
  assumes "message_view a = message_view b" "wf_map (ms_reactions a)" "wf_map (ms_reactions b)"
  shows "message_view (projectMessage lc isotime a events) = message_view (projectMessage lc isotime b events)"
proof -
  note eqs = view_eqD [OF assms(1)]
  have "relevant_events lc a events = relevant_events lc b events" by (simp add: relevant_events_def eqs)
  moreover have "reacting a es = reacting b es" for es by (simp add: reacting_def has_reaction_def eqs fun_eq_iff)
  ultimately show ?thesis
    by (simp add: project_view assms(2,3) written_view_cong [OF eqs(1)])
qed

lemma written_absorb:
  assumes "set es \<subseteq> set es'"
  shows "(written isotime (written isotime m es) es') = written isotime m es'"
proof -
  have by_author: "by_author (written isotime m es) = by_author m"
    by (simp add: by_author_def written_def fun_eq_iff)
  show ?thesis
    unfolding written_def [of isotime "written isotime m es"] by_author
    by (simp add: written_def field_from_absorb [OF assms])
qed

text \<open>
  Projecting an already projected message again, with at least the events it was projected with,
  shows the same as projecting the original message once.
\<close>

lemma project_absorb:
  assumes "set events \<subseteq> set events'" and wf: "wf_map (ms_reactions m)"
  shows "message_view (projectMessage lc isotime (projectMessage lc isotime m events) events') =
    message_view (projectMessage lc isotime m events')"
proof -
  let ?R = "relevant_events lc m events" and ?R' = "relevant_events lc m events'"
  let ?m1 = "projectMessage lc isotime m events"
  have sub: "set ?R \<subseteq> set ?R'" using assms(1) by (auto simp: relevant_events_def)
  note v = project_view(1) [OF wf, of lc isotime events]
  have fields: "?m1\<lparr>ms_reactions := []\<rparr> = (written isotime m ?R)\<lparr>ms_reactions := []\<rparr>"
    and reactions: "map_of (ms_reactions ?m1) k = reaction_list (reacting m ?R k)" for k
    using v by (simp_all add: message_view_def fun_eq_iff)
  have "ms_id ?m1 = ms_id m" using arg_cong [OF fields, of ms_id] by (simp add: written_def)
  then have R': "relevant_events lc ?m1 events' = ?R'" by (simp add: relevant_events_def)
  have has: "has_reaction (ms_reactions ?m1) k p \<longleftrightarrow> p \<in> reacting m ?R k" for k p
    by (rule has_reaction_view [OF reactions project_view(3) [OF wf]])
  have "reacting ?m1 ?R' k = reacting m ?R' k" for k
    unfolding reacting_def [of ?m1] has by (simp add: reacting_def field_from_absorb [OF sub])
  then show ?thesis
    by (simp add: project_view(1) [OF wf] project_view(1) [OF project_view(2) [OF wf]] R'
        written_view_cong [OF fields] written_absorb [OF sub])
qed

text \<open>The order in which the events are listed does not matter.\<close>

lemma project_events_cong:
  assumes "strict_collation lc" "set events = set events'" "distinct events" "distinct events'" "inj_on ev_id (set events)"
  shows "projectMessage lc isotime m events = projectMessage lc isotime m events'"
proof -
  have "relevant_events lc m events = relevant_events lc m events'"
    unfolding relevant_events_def
    by (rule sort_events_unique [OF assms(1)]) (use assms in \<open>auto simp: inj_on_def\<close>)
  then show ?thesis by (simp add: projectMessage_def)
qed

end
