(* ===== verification/Message_Service.thy ===== *)
theory Message_Service
  imports Message_Projection
begin

text \<open>
  \<^verbatim>\<open>MessageService\<close> of \<^verbatim>\<open>apps/web/src/chat/MessageService.ts\<close>: it creates, stores and loads the messages and
  events of the channels and keeps caches of them.

  A \<open>MessageService\<close> record holds the two object stores and the private fields of the class, and
  the calls made to the registered callbacks. Every operation runs to its end before the next
  one starts; \<^verbatim>\<open>eventWrites\<close>, the chain of promises that makes \<^verbatim>\<open>persistEvent\<close> run one event of a
  channel at a time, is then always settled. The second half of \<^verbatim>\<open>loadProjectionEvents\<close>, after its
  await, is a definition of its own, with the branch for a list that was loaded meanwhile.
\<close>

section \<open>State and operations\<close>

datatype ChatMessageChange = Created | Updated

datatype ChatEventInput =
    Reply_Input string
  | Edit_Input string
  | Delete_Input
  | Reaction_Input bool string
  | Pin_Input bool

record MessageService =
  sv_messages :: "(string \<times> LocalChatMessage) list"
  sv_events :: "(string \<times> LocalChatEvent) list"
  sv_processed :: "string list"
  sv_processedEvents :: "string list"
  sv_messageCache :: "(string \<times> LocalChatMessage) list"
  sv_projectionEvents :: "(string option \<times> LocalChatEvent list) list"
  sv_lastEventTimestamp :: rat
  sv_notified :: "(LocalChatMessage \<times> ChatMessageChange) list"

definition new_service :: "(string \<times> LocalChatMessage) list \<Rightarrow> (string \<times> LocalChatEvent) list \<Rightarrow> MessageService" where
  "new_service ms es = \<lparr>sv_messages = ms, sv_events = es, sv_processed = [], sv_processedEvents = [], sv_messageCache = [],
     sv_projectionEvents = [], sv_lastEventTimestamp = 0, sv_notified = []\<rparr>"

definition resetSession :: "MessageService \<Rightarrow> MessageService" where
  "resetSession st = st\<lparr>sv_processed := [], sv_processedEvents := [], sv_messageCache := [], sv_projectionEvents := [],
     sv_lastEventTimestamp := 0\<rparr>"

definition channel_text :: "string option \<Rightarrow> string" where
  "channel_text c = (case c of None \<Rightarrow> ''undefined'' | Some s \<Rightarrow> s)"

definition cacheKey :: "string option \<Rightarrow> string \<Rightarrow> string" where
  "cacheKey channelId messageId = channel_text channelId @ '':'' @ messageId"

definition remember_in :: "nat \<Rightarrow> string \<Rightarrow> string list \<Rightarrow> string list" where
  "remember_in limit x xs = last_n limit (set_add x xs)"

definition remember :: "string \<Rightarrow> MessageService \<Rightarrow> MessageService" where
  "remember messageId st = st\<lparr>sv_processed := remember_in 2048 messageId (sv_processed st)\<rparr>"

definition rememberEvent :: "string \<Rightarrow> MessageService \<Rightarrow> MessageService" where
  "rememberEvent eventId st = st\<lparr>sv_processedEvents := remember_in 4096 eventId (sv_processedEvents st)\<rparr>"

definition hasProcessed :: "MessageService \<Rightarrow> string \<Rightarrow> bool" where
  "hasProcessed st messageId \<longleftrightarrow> messageId \<in> set (sv_processed st)"

definition hasProcessedEvent :: "MessageService \<Rightarrow> string \<Rightarrow> bool" where
  "hasProcessedEvent st eventId \<longleftrightarrow> eventId \<in> set (sv_processedEvents st)"

definition cache_message :: "string \<Rightarrow> LocalChatMessage \<Rightarrow> MessageService \<Rightarrow> MessageService" where
  "cache_message key m st = st\<lparr>sv_messageCache := AList.update key m (sv_messageCache st)\<rparr>"

definition set_projection :: "string option \<Rightarrow> LocalChatEvent list \<Rightarrow> MessageService \<Rightarrow> MessageService" where
  "set_projection channelId es st = st\<lparr>sv_projectionEvents := AList.update channelId es (sv_projectionEvents st)\<rparr>"

definition notify :: "LocalChatMessage \<Rightarrow> ChatMessageChange \<Rightarrow> MessageService \<Rightarrow> MessageService" where
  "notify m change st = st\<lparr>sv_notified := sv_notified st @ [(m, change)]\<rparr>"

definition projection_loaded ::
  "(string \<Rightarrow> string \<Rightarrow> int) \<Rightarrow> string option \<Rightarrow> LocalChatEvent list \<Rightarrow> MessageService \<Rightarrow> LocalChatEvent list \<times> MessageService" where
  "projection_loaded lc channelId events st =
    (case map_of (sv_projectionEvents st) channelId of
       Some concurrentlyLoaded \<Rightarrow>
         let merged = sort_cmp (compareEvents lc)
           (concurrentlyLoaded @ filter (\<lambda>e. ev_id e \<notin> ev_id ` set concurrentlyLoaded) events)
         in (merged, set_projection channelId merged st)
     | None \<Rightarrow> (events, set_projection channelId events st))"

definition loadProjectionEvents ::
  "(string \<Rightarrow> string \<Rightarrow> int) \<Rightarrow> string option \<Rightarrow> MessageService \<Rightarrow> LocalChatEvent list \<times> MessageService" where
  "loadProjectionEvents lc channelId st =
    (case map_of (sv_projectionEvents st) channelId of
       Some cached \<Rightarrow> (cached, st)
     | None \<Rightarrow> projection_loaded lc channelId (loadLocalChatEvents lc (sv_events st) channelId all_events) st)"

definition history ::
  "(string \<Rightarrow> string \<Rightarrow> int) \<Rightarrow> (rat \<Rightarrow> string) \<Rightarrow> string \<Rightarrow> MessagePageOptions \<Rightarrow> MessageService \<Rightarrow> LocalChatMessage list \<times> MessageService" where
  "history lc isotime channelId options st =
    (let messages = loadLocalMessages lc (sv_messages st) channelId options;
         (events, st1) = loadProjectionEvents lc (Some channelId) st;
         projected = map (\<lambda>m. projectMessage lc isotime m events) messages
     in (projected, fold (\<lambda>m. cache_message (cacheKey (Some channelId) (ms_id m)) m) projected st1))"

definition eventHistory ::
  "(string \<Rightarrow> string \<Rightarrow> int) \<Rightarrow> string \<Rightarrow> ChatEventPageOptions \<Rightarrow> MessageService \<Rightarrow> LocalChatEvent list" where
  "eventHistory lc channelId options st = loadLocalChatEvents lc (sv_events st) (Some channelId) options"

definition cached_or_stored :: "string option \<Rightarrow> string \<Rightarrow> MessageService \<Rightarrow> LocalChatMessage option" where
  "cached_or_stored channelId messageId st =
    (case map_of (sv_messageCache st) (cacheKey channelId messageId) of
       Some m \<Rightarrow> Some m
     | None \<Rightarrow> loadLocalMessage (sv_messages st) channelId messageId)"

definition find_message ::
  "(string \<Rightarrow> string \<Rightarrow> int) \<Rightarrow> (rat \<Rightarrow> string) \<Rightarrow> string \<Rightarrow> string \<Rightarrow> MessageService \<Rightarrow> LocalChatMessage option \<times> MessageService" where
  "find_message lc isotime channelId messageId st =
    (case map_of (sv_messageCache st) (cacheKey (Some channelId) messageId) of
       Some cached \<Rightarrow> (Some cached, st)
     | None \<Rightarrow> (case loadLocalMessage (sv_messages st) (Some channelId) messageId of
         None \<Rightarrow> (None, st)
       | Some stored \<Rightarrow>
           let (events, st1) = loadProjectionEvents lc (Some channelId) st;
               projected = projectMessage lc isotime stored events
           in (Some projected, cache_message (cacheKey (Some channelId) messageId) projected st1)))"

definition validateContent :: "string \<Rightarrow> js_error + string" where
  "validateContent content =
    (let trimmed = js_trim content in
     if trimmed = [] \<or> length trimmed > 4000 then Inl (JSError ''invalid message'') else Inr trimmed)"

definition validateEmoji :: "string \<Rightarrow> js_error + string" where
  "validateEmoji emoji =
    (let trimmed = js_trim emoji in
     if trimmed = [] \<or> length trimmed > 16 then Inl (JSError ''invalid reaction'') else Inr trimmed)"

definition createLegacy :: "string \<Rightarrow> string \<Rightarrow> string \<Rightarrow> string \<Rightarrow> rat \<Rightarrow> js_error + LegacyChatWireMessage" where
  "createLegacy uuid channelId author content timestamp = bind_result (validateContent content) (\<lambda>c.
    Inr \<lparr>lm_channelId = Some channelId, lm_id = uuid, lm_author = author, lm_content = c, lm_timestamp = timestamp\<rparr>)"

definition createSigned ::
  "(rat \<Rightarrow> string) \<Rightarrow> (CryptoKey \<Rightarrow> string \<Rightarrow> nat list) \<Rightarrow> string \<Rightarrow> LocalIdentity \<Rightarrow> string \<Rightarrow> string \<Rightarrow> string \<Rightarrow> rat
    \<Rightarrow> js_error + SignedChatWireMessage" where
  "createSigned num sign uuid identity channelId author content timestamp = bind_result (validateContent content) (\<lambda>c.
    let unsigned = \<lparr>sm_channelId = Some channelId, sm_id = uuid, sm_authorPeerId = li_peerId identity, sm_author = author,
          sm_content = c, sm_timestamp = timestamp, sm_signature = []\<rparr>
    in Inr (unsigned\<lparr>sm_signature :=
         bytesToBase64Url (sign (li_privateKey identity) (canonicalSignedMessage num unsigned))\<rparr>))"

definition input_action :: "ChatEventInput \<Rightarrow> ChatEventAction" where
  "input_action input = (case input of Reply_Input _ \<Rightarrow> Reply | Edit_Input _ \<Rightarrow> Edit | Delete_Input \<Rightarrow> Delete
     | Reaction_Input b _ \<Rightarrow> if b then ReactionAdd else ReactionRemove | Pin_Input b \<Rightarrow> if b then Pin else Unpin)"

definition input_fields :: "ChatEventInput \<Rightarrow> js_error + (string option \<times> string option \<times> string option)" where
  "input_fields input = (case input of
     Edit_Input content \<Rightarrow> bind_result (validateContent content) (\<lambda>c. Inr (Some c, None, None))
   | Reply_Input reference \<Rightarrow> Inr (None, Some reference, None)
   | Reaction_Input _ emoji \<Rightarrow> bind_result (validateEmoji emoji) (\<lambda>m. Inr (None, None, Some m))
   | _ \<Rightarrow> Inr (None, None, None))"

definition createEvent ::
  "(rat \<Rightarrow> string) \<Rightarrow> (CryptoKey \<Rightarrow> string \<Rightarrow> nat list) \<Rightarrow> string \<Rightarrow> LocalIdentity \<Rightarrow> string \<Rightarrow> string \<Rightarrow> ChatEventInput \<Rightarrow> rat
    \<Rightarrow> MessageService \<Rightarrow> (js_error + SignedChatEventWireMessage) \<times> MessageService" where
  "createEvent num sign uuid identity channelId targetMessageId input timestamp st =
    (let eventTimestamp = max timestamp (sv_lastEventTimestamp st + 1) in
     (bind_result (input_fields input) (\<lambda>(content, reference, emoji).
        let unsigned = \<lparr>ev_channelId = Some channelId, ev_id = uuid, ev_targetMessageId = targetMessageId,
              ev_actorPeerId = li_peerId identity, ev_action = input_action input, ev_content = content,
              ev_referenceMessageId = reference, ev_emoji = emoji, ev_timestamp = eventTimestamp, ev_signature = []\<rparr>
        in Inr (unsigned\<lparr>ev_signature :=
             bytesToBase64Url (sign (li_privateKey identity) (canonicalChatEvent num unsigned))\<rparr>)),
      st\<lparr>sv_lastEventTimestamp := eventTimestamp\<rparr>))"

definition projection_base :: "LocalChatMessage \<Rightarrow> LocalChatMessage option \<Rightarrow> LocalChatMessage" where
  "projection_base m existing = (case existing of
     None \<Rightarrow> m
   | Some x \<Rightarrow> m\<lparr>ms_replyToId := ms_replyToId x, ms_editedContent := ms_editedContent x, ms_editedAt := ms_editedAt x,
       ms_deletedAt := ms_deletedAt x, ms_pinnedAt := ms_pinnedAt x, ms_pinnedByPeerId := ms_pinnedByPeerId x,
       ms_reactions := ms_reactions x\<rparr>)"

definition persist ::
  "(string \<Rightarrow> string \<Rightarrow> int) \<Rightarrow> (rat \<Rightarrow> string) \<Rightarrow> LocalChatMessage \<Rightarrow> MessageService \<Rightarrow> LocalChatMessage \<times> MessageService" where
  "persist lc isotime m st =
    (let base = projection_base m (cached_or_stored (ms_channelId m) (ms_id m) st);
         (events, st1) = loadProjectionEvents lc (ms_channelId m) st;
         projected = projectMessage lc isotime base events;
         st2 = remember (ms_id m) (st1\<lparr>sv_messages := saveLocalMessage projected (sv_messages st1)\<rparr>);
         st3 = cache_message (cacheKey (ms_channelId m) (ms_id m)) projected st2
     in (projected, notify projected Created st3))"

definition persistSigned ::
  "(string \<Rightarrow> string \<Rightarrow> int) \<Rightarrow> (rat \<Rightarrow> string) \<Rightarrow> SignedChatWireMessage \<Rightarrow> MessageService \<Rightarrow> LocalChatMessage \<times> MessageService" where
  "persistSigned lc isotime m = persist lc isotime (signedToLocal isotime m)"

definition persistLegacy ::
  "(string \<Rightarrow> string \<Rightarrow> int) \<Rightarrow> (rat \<Rightarrow> string) \<Rightarrow> LegacyChatWireMessage \<Rightarrow> string \<Rightarrow> MessageService \<Rightarrow> LocalChatMessage \<times> MessageService" where
  "persistLegacy lc isotime m author = persist lc isotime (legacyToLocal isotime m author)"

definition push_event :: "(string \<Rightarrow> string \<Rightarrow> int) \<Rightarrow> LocalChatEvent \<Rightarrow> LocalChatEvent list \<Rightarrow> LocalChatEvent list" where
  "push_event lc e es = (if \<exists>x \<in> set es. ev_id x = ev_id e then es else sort_cmp (compareEvents lc) (es @ [e]))"

definition persistEvent ::
  "(string \<Rightarrow> string \<Rightarrow> int) \<Rightarrow> (rat \<Rightarrow> string) \<Rightarrow> SignedChatEventWireMessage \<Rightarrow> MessageService \<Rightarrow> LocalChatMessage option \<times> MessageService" where
  "persistEvent lc isotime e st =
    (let st0 = st\<lparr>sv_events := saveLocalChatEvent e (sv_events st)\<rparr>;
         (loaded, st1) = loadProjectionEvents lc (ev_channelId e) st0;
         events = push_event lc e loaded;
         st2 = set_projection (ev_channelId e) events st1
     in case cached_or_stored (ev_channelId e) (ev_targetMessageId e) st2 of
          None \<Rightarrow> (None, rememberEvent (ev_id e) st2)
        | Some m \<Rightarrow>
            let projected = projectMessage lc isotime m events;
                st3 = rememberEvent (ev_id e) (st2\<lparr>sv_messages := saveLocalMessage projected (sv_messages st2)\<rparr>);
                st4 = cache_message (cacheKey (ev_channelId e) (ev_targetMessageId e)) projected st3
            in (Some projected, notify projected Updated st4))"

end
