(* ===== verification/Message_Convergence.thy ===== *)
theory Message_Convergence
  imports Message_Service
begin

text \<open>
  What the message service keeps and shows. Its stores and caches hold projected messages that were
  projected at different times; \<open>service_ok\<close> relates them to the messages and events that were
  persisted, every operation preserves it, and from it follows that \<open>history\<close> shows every
  message with all events applied in order, whatever the order of arrival was.
\<close>

section \<open>The invariant\<close>

text \<open>A raw message as it comes from the wire: no projected field is set.\<close>

definition raw_message :: "LocalChatMessage \<Rightarrow> bool" where
  "raw_message m \<longleftrightarrow> wire_id (ms_id m) \<and> ms_channelId m \<noteq> None \<and> ms_reactions m = []"

definition channel_events :: "LocalChatEvent set \<Rightarrow> string option \<Rightarrow> LocalChatEvent set" where
  "channel_events E c = {e \<in> E. ev_channelId e = c}"

text \<open>The stored or cached form of a persisted message: it was projected with some of the events.\<close>

definition derived ::
  "(string \<Rightarrow> string \<Rightarrow> int) \<Rightarrow> (rat \<Rightarrow> string) \<Rightarrow> LocalChatMessage set \<Rightarrow> LocalChatEvent set \<Rightarrow> LocalChatMessage \<Rightarrow> bool" where
  "derived lc isotime M E x \<longleftrightarrow> wf_map (ms_reactions x)
     \<and> (\<exists>r \<in> M. \<exists>es. set es \<subseteq> channel_events E (ms_channelId r)
          \<and> message_view x = message_view (projectMessage lc isotime r es))"

definition service_ok ::
  "(string \<Rightarrow> string \<Rightarrow> int) \<Rightarrow> (rat \<Rightarrow> string) \<Rightarrow> LocalChatMessage set \<Rightarrow> LocalChatEvent set \<Rightarrow> MessageService \<Rightarrow> bool" where
  "service_ok lc isotime M E st \<longleftrightarrow>
     keyed ms_id (sv_messages st) \<and> keyed ev_id (sv_events st)
     \<and> records_in (sv_events st) = E
     \<and> ms_id ` records_in (sv_messages st) = ms_id ` M
     \<and> (\<forall>x \<in> records_in (sv_messages st). derived lc isotime M E x)
     \<and> (\<forall>k x. map_of (sv_messageCache st) k = Some x \<longrightarrow> k = cacheKey (ms_channelId x) (ms_id x) \<and> derived lc isotime M E x)
     \<and> (\<forall>c es. map_of (sv_projectionEvents st) c = Some es \<longrightarrow> distinct es \<and> set es = channel_events E c)"

text \<open>Identifiers are unique: one identifier never names two messages or two events.\<close>

definition unique_ids :: "LocalChatMessage set \<Rightarrow> LocalChatEvent set \<Rightarrow> bool" where
  "unique_ids M E \<longleftrightarrow> inj_on ms_id M \<and> inj_on ev_id E \<and> (\<forall>m \<in> M. raw_message m)
     \<and> (\<forall>e \<in> E. ev_channelId e \<noteq> None \<and> wire_id (ev_targetMessageId e))"

lemma unique_ids_subset: "unique_ids M E \<Longrightarrow> M' \<subseteq> M \<Longrightarrow> E' \<subseteq> E \<Longrightarrow> unique_ids M' E'"
  unfolding unique_ids_def by (meson inj_on_subset subsetD)

lemma project_keeps:
  assumes "wf_map (ms_reactions m)"
  shows "ms_id (projectMessage lc isotime m es) = ms_id m"
    "ms_channelId (projectMessage lc isotime m es) = ms_channelId m"
    "ms_createdAt (projectMessage lc isotime m es) = ms_createdAt m"
proof -
  have "(projectMessage lc isotime m es)\<lparr>ms_reactions := []\<rparr> = (written isotime m (relevant_events lc m es))\<lparr>ms_reactions := []\<rparr>"
    using project_view(1) [OF assms, of lc isotime es] by (simp add: message_view_def)
  from arg_cong [OF this, of ms_id] arg_cong [OF this, of ms_channelId] arg_cong [OF this, of ms_createdAt]
  show "ms_id (projectMessage lc isotime m es) = ms_id m"
    "ms_channelId (projectMessage lc isotime m es) = ms_channelId m"
    "ms_createdAt (projectMessage lc isotime m es) = ms_createdAt m"
    by (simp_all add: written_def)
qed

lemma raw_wf: "raw_message r \<Longrightarrow> wf_map (ms_reactions r)"
  by (simp add: raw_message_def)

lemma derived_mono: "derived lc isotime M E x \<Longrightarrow> M \<subseteq> M' \<Longrightarrow> E \<subseteq> E' \<Longrightarrow> derived lc isotime M' E' x"
  unfolding derived_def channel_events_def by blast

lemma derivedE:
  assumes "derived lc isotime M E x" "unique_ids M E"
  obtains r es where "r \<in> M" "set es \<subseteq> channel_events E (ms_channelId r)"
    "message_view x = message_view (projectMessage lc isotime r es)" "wf_map (ms_reactions x)" "raw_message r"
    "ms_id x = ms_id r" "ms_channelId x = ms_channelId r" "ms_createdAt x = ms_createdAt r"
proof -
  from assms(1) obtain r es where r: "r \<in> M" "set es \<subseteq> channel_events E (ms_channelId r)"
    "message_view x = message_view (projectMessage lc isotime r es)" "wf_map (ms_reactions x)"
    by (auto simp: derived_def)
  with assms(2) have raw: "raw_message r" by (simp add: unique_ids_def)
  note keep = project_keeps [OF raw_wf [OF raw], of lc isotime es] and eq = view_eqD [OF r(3)]
  show ?thesis
    by (rule that [OF r raw]) (simp_all add: keep eq)
qed

text \<open>A derived message, projected with all events of its channel, shows what the raw message shows.\<close>

lemma project_derived:
  assumes "derived lc isotime M E x" "unique_ids M E" "r \<in> M" "ms_id r = ms_id x"
    and "set events = channel_events E (ms_channelId x)"
  shows "message_view (projectMessage lc isotime x events) = message_view (projectMessage lc isotime r events)"
    and "derived lc isotime M E (projectMessage lc isotime x events)"
proof -
  from assms(1,2) obtain q es where q: "q \<in> M" "set es \<subseteq> channel_events E (ms_channelId q)"
    "message_view x = message_view (projectMessage lc isotime q es)" "wf_map (ms_reactions x)" "raw_message q"
    "ms_id x = ms_id q" "ms_channelId x = ms_channelId q" by (rule derivedE)
  have "q = r" using assms(2-4) q(1,6) by (auto simp: unique_ids_def inj_on_def)
  note wf = raw_wf [OF q(5)]
  have "message_view (projectMessage lc isotime x events) =
      message_view (projectMessage lc isotime (projectMessage lc isotime q es) events)"
    by (rule project_view_cong [OF q(3,4) project_view(2) [OF wf]])
  also have "\<dots> = message_view (projectMessage lc isotime q events)"
    by (rule project_absorb [OF _ wf]) (use q assms(5) in simp)
  finally show view: "message_view (projectMessage lc isotime x events) = message_view (projectMessage lc isotime r events)"
    by (simp add: \<open>q = r\<close>)
  show "derived lc isotime M E (projectMessage lc isotime x events)"
    unfolding derived_def
    by (intro conjI project_view(2) q(4) bexI [OF _ assms(3)] exI [of _ events])
      (use view assms(5) q(7) \<open>q = r\<close> in auto)
qed

lemma derived_raw:
  assumes "r \<in> M" "raw_message r" "set events = channel_events E (ms_channelId r)"
  shows "derived lc isotime M E (projectMessage lc isotime r events)"
  unfolding derived_def using assms project_view(2) [OF raw_wf [OF assms(2)]] by blast

section \<open>Lookups in the stores and caches\<close>

lemma cacheKey_inj:
  assumes "cacheKey (Some c) i = cacheKey (Some d) j" "wire_id i" "wire_id j"
  shows "c = d \<and> i = j"
proof -
  have "rev i @ CHR '':'' # rev c = rev j @ CHR '':'' # rev d"
    using arg_cong [OF assms(1), of rev] by (simp add: cacheKey_def channel_text_def)
  then have "rev i = rev j \<and> rev c = rev d"
    using split_at_char [of "CHR '':''" "rev i" "rev j"] wire_id_no_colon assms(2,3) by simp
  then show ?thesis by simp
qed

lemma service_okD:
  assumes "service_ok lc isotime M E st"
  shows "keyed ms_id (sv_messages st)" "keyed ev_id (sv_events st)" "records_in (sv_events st) = E"
    "ms_id ` records_in (sv_messages st) = ms_id ` M"
    "x \<in> records_in (sv_messages st) \<Longrightarrow> derived lc isotime M E x"
    "map_of (sv_messageCache st) k = Some y \<Longrightarrow> k = cacheKey (ms_channelId y) (ms_id y)"
    "map_of (sv_messageCache st) k = Some y \<Longrightarrow> derived lc isotime M E y"
    "map_of (sv_projectionEvents st) c = Some es \<Longrightarrow> distinct es"
    "map_of (sv_projectionEvents st) c = Some es \<Longrightarrow> set es = channel_events E c"
  using assms unfolding service_ok_def by blast+

lemma derived_channel: "derived lc isotime M E x \<Longrightarrow> unique_ids M E \<Longrightarrow> wire_id (ms_id x) \<and> ms_channelId x \<noteq> None"
  by (erule (1) derivedE) (simp add: raw_message_def)

lemma lookup_derived:
  assumes ok: "service_ok lc isotime M E st" and uniq: "unique_ids M E"
    and "cached_or_stored (Some c) i st = Some x" "wire_id i"
  shows "derived lc isotime M E x \<and> ms_id x = i \<and> ms_channelId x = Some c"
proof (cases "map_of (sv_messageCache st) (cacheKey (Some c) i)")
  case None
  then have "map_of (sv_messages st) i = Some x" "ms_channelId x = Some c"
    using assms(3) by (auto simp: cached_or_stored_def loadLocalMessage_def split: option.splits if_splits)
  then show ?thesis
    using service_okD(5) [OF ok, of x] keyed_lookup [OF service_okD(1) [OF ok]] by auto
next
  case (Some y)
  with assms(3) have "y = x" by (simp add: cached_or_stored_def)
  note y = service_okD(6,7) [OF ok Some]
  then obtain d where "ms_channelId y = Some d" "wire_id (ms_id y)" using derived_channel [OF _ uniq] by blast
  with y(1) cacheKey_inj [of c i d "ms_id y"] assms(4) show ?thesis using y(2) \<open>y = x\<close> by simp
qed

lemma projection_events:
  assumes ok: "service_ok lc isotime M E st"
  shows "distinct (fst (loadProjectionEvents lc c st))"
    "set (fst (loadProjectionEvents lc c st)) = channel_events E c"
    "service_ok lc isotime M E (snd (loadProjectionEvents lc c st))"
proof -
  let ?es = "loadLocalChatEvents lc (sv_events st) c all_events"
  have es: "distinct ?es" "set ?es = channel_events E c"
    using service_okD(2,3) [OF ok] distinct_getAllByIndex [OF service_okD(2) [OF ok]]
    by (simp_all add: loadLocalChatEvents_def pageEvents_def event_before_def num_given_def channel_events_def
        set_getAllByIndex distinct_map)
  have split: "loadProjectionEvents lc c st = (case map_of (sv_projectionEvents st) c of
      Some cached \<Rightarrow> (cached, st) | None \<Rightarrow> (?es, set_projection c ?es st))"
    by (simp add: loadProjectionEvents_def projection_loaded_def split: option.split)
  show "distinct (fst (loadProjectionEvents lc c st))" "set (fst (loadProjectionEvents lc c st)) = channel_events E c"
    using es service_okD(8,9) [OF ok] by (simp_all add: split split: option.split)
  show "service_ok lc isotime M E (snd (loadProjectionEvents lc c st))"
    using ok es by (simp add: split service_ok_def set_projection_def split: option.split)
qed

section \<open>Every operation preserves the invariant\<close>

lemma service_ok_simps [simp]:
  "service_ok lc isotime M E (remember i st) = service_ok lc isotime M E st"
  "service_ok lc isotime M E (rememberEvent i st) = service_ok lc isotime M E st"
  "service_ok lc isotime M E (notify m ch st) = service_ok lc isotime M E st"
  "service_ok lc isotime M E (st\<lparr>sv_lastEventTimestamp := t\<rparr>) = service_ok lc isotime M E st"
  by (simp_all add: service_ok_def remember_def rememberEvent_def notify_def)

lemma service_ok_reset: "service_ok lc isotime M E st \<Longrightarrow> service_ok lc isotime M E (resetSession st)"
  by (simp add: service_ok_def resetSession_def)

lemma service_ok_cache:
  assumes "service_ok lc isotime M E st" "derived lc isotime M E x" "k = cacheKey (ms_channelId x) (ms_id x)"
  shows "service_ok lc isotime M E (cache_message k x st)"
  using assms by (simp add: service_ok_def cache_message_def)

lemma service_ok_save:
  assumes ok: "service_ok lc isotime M E st" and "derived lc isotime M' E x" "M \<subseteq> M'" "ms_id ` M' = insert (ms_id x) (ms_id ` M)"
  shows "service_ok lc isotime M' E (st\<lparr>sv_messages := saveLocalMessage x (sv_messages st)\<rparr>)"
proof -
  note keyed = service_okD(1) [OF ok]
  have records: "records_in (saveLocalMessage x (sv_messages st)) = insert x {y \<in> records_in (sv_messages st). ms_id y \<noteq> ms_id x}"
    unfolding saveLocalMessage_def saveLegacyMessage_def by (rule records_in_put [OF keyed])
  have ids: "ms_id ` records_in (saveLocalMessage x (sv_messages st)) = ms_id ` M'"
    unfolding records assms(4) service_okD(4) [OF ok, symmetric] by auto
  have mono: "derived lc isotime M E y \<Longrightarrow> derived lc isotime M' E y" for y
    using derived_mono assms(3) by blast
  have "keyed ms_id (saveLocalMessage x (sv_messages st))"
    using keyed by (simp add: saveLocalMessage_def saveLegacyMessage_def)
  then show ?thesis
    using ok ids assms(2) mono by (simp add: service_ok_def records)
qed

lemma service_ok_history:
  assumes "service_ok lc isotime M E st" "unique_ids M E"
  shows "service_ok lc isotime M E (snd (history lc isotime c options st))"
proof -
  let ?ms = "loadLocalMessages lc (sv_messages st) c options"
  let ?es = "fst (loadProjectionEvents lc (Some c) st)"
  have in_store: "x \<in> records_in (sv_messages st) \<and> ms_channelId x = Some c" if "x \<in> set ?ms" for x
    using that by (auto simp: loadLocalMessages_def loadLegacyMessages_def last_n_def set_getAllByIndex [OF service_okD(1) [OF assms(1)]]
        dest!: in_set_dropD)
  have proj: "derived lc isotime M E (projectMessage lc isotime x ?es) \<and> ms_channelId (projectMessage lc isotime x ?es) = Some c"
    if "x \<in> set ?ms" for x
  proof -
    have x: "derived lc isotime M E x" using service_okD(5) [OF assms(1)] in_store [OF that] by blast
    have "ms_id x \<in> ms_id ` M" using service_okD(4) [OF assms(1)] in_store [OF that] by blast
    then obtain r where r: "r \<in> M" "ms_id r = ms_id x" by force
    from x have wf: "wf_map (ms_reactions x)" by (simp add: derived_def)
    have "derived lc isotime M E (projectMessage lc isotime x ?es)"
      by (rule project_derived(2) [OF x assms(2) r]) (simp add: projection_events(2) [OF assms(1)] in_store [OF that])
    then show ?thesis using in_store [OF that] by (simp add: project_keeps [OF wf])
  qed
  have fold_ok: "service_ok lc isotime M E (fold (\<lambda>m. cache_message (cacheKey (Some c) (ms_id m)) m) ps st')"
    if "service_ok lc isotime M E st'" "\<forall>p \<in> set ps. derived lc isotime M E p \<and> ms_channelId p = Some c" for ps st'
    using that by (induction ps arbitrary: st') (simp_all add: service_ok_cache)
  show ?thesis
    unfolding history_def Let_def split_def snd_conv
    by (rule fold_ok) (use proj projection_events(3) [OF assms(1)] in auto)
qed

lemma derived_persist:
  assumes "service_ok lc isotime M E st" "unique_ids (insert m M) E"
  shows "derived lc isotime (insert m M) E (fst (persist lc isotime m st)) \<and> ms_id (fst (persist lc isotime m st)) = ms_id m
    \<and> ms_channelId (fst (persist lc isotime m st)) = ms_channelId m"
proof -
  have raw: "raw_message m" and uniq: "unique_ids M E"
    using assms(2) unique_ids_subset [OF assms(2), of M E] by (auto simp: unique_ids_def)
  then obtain c where c: "ms_channelId m = Some c" "wire_id (ms_id m)" by (auto simp: raw_message_def)
  let ?es = "fst (loadProjectionEvents lc (Some c) st)"
  note es = projection_events(2) [OF assms(1), of "Some c"]
  have result: "fst (persist lc isotime m st) = projectMessage lc isotime (projection_base m (cached_or_stored (Some c) (ms_id m) st)) ?es"
    by (simp add: persist_def split_def Let_def c)
  show ?thesis
  proof (cases "cached_or_stored (Some c) (ms_id m) st")
    case None
    with result show ?thesis
      using derived_raw [of m "insert m M" ?es E] raw c es by (simp add: projection_base_def project_keeps [OF raw_wf [OF raw]])
  next
    case (Some x)
    note x = lookup_derived [OF assms(1) uniq Some c(2)]
    then have dx: "derived lc isotime (insert m M) E x" using derived_mono by blast
    obtain r es where r: "r \<in> insert m M" "message_view x = message_view (projectMessage lc isotime r es)"
      "wf_map (ms_reactions x)" "ms_id x = ms_id r" using dx assms(2) by (rule derivedE)
    then have "r = m" using assms(2) x by (auto simp: unique_ids_def inj_on_def)
    have "x\<lparr>ms_reactions := []\<rparr> = (written isotime m (relevant_events lc m es))\<lparr>ms_reactions := []\<rparr>"
      using r(2) project_view(1) [OF raw_wf [OF raw], of lc isotime es] \<open>r = m\<close> by (simp add: message_view_def)
    then have "projection_base m (Some x) = x"
      by (cases m; cases x) (simp add: projection_base_def written_def)
    with result Some have "fst (persist lc isotime m st) = projectMessage lc isotime x ?es" by simp
    then show ?thesis
      using project_derived(2) [OF dx assms(2), of m ?es] x es c by (simp add: project_keeps [OF r(3)])
  qed
qed

lemma service_ok_persist:
  assumes "service_ok lc isotime M E st" "unique_ids (insert m M) E"
  shows "service_ok lc isotime (insert m M) E (snd (persist lc isotime m st))"
proof -
  let ?p = "fst (persist lc isotime m st)" and ?st1 = "snd (loadProjectionEvents lc (ms_channelId m) st)"
  note p = derived_persist [OF assms]
  have "service_ok lc isotime (insert m M) E (?st1\<lparr>sv_messages := saveLocalMessage ?p (sv_messages ?st1)\<rparr>)"
    by (rule service_ok_save [OF projection_events(3) [OF assms(1)]]) (use p in auto)
  then have "service_ok lc isotime (insert m M) E
      (cache_message (cacheKey (ms_channelId m) (ms_id m)) ?p (remember (ms_id m) (?st1\<lparr>sv_messages := saveLocalMessage ?p (sv_messages ?st1)\<rparr>)))"
    by (intro service_ok_cache) (use p in simp_all)
  then show ?thesis by (simp add: persist_def Let_def split_def)
qed

lemma service_ok_push:
  assumes ok: "service_ok lc isotime M E st" and uniq: "unique_ids M (insert e E)"
    and st0: "st0 = st\<lparr>sv_events := saveLocalChatEvent e (sv_events st)\<rparr>"
    and events: "events = push_event lc e (fst (loadProjectionEvents lc (ev_channelId e) st0))"
  shows "set events = channel_events (insert e E) (ev_channelId e)"
    and "service_ok lc isotime M (insert e E) (set_projection (ev_channelId e) events (snd (loadProjectionEvents lc (ev_channelId e) st0)))"
proof -
  let ?c = "ev_channelId e" and ?E = "insert e E"
  have inj: "inj_on ev_id ?E" using uniq by (simp add: unique_ids_def)
  have records: "records_in (sv_events st0) = ?E"
    using records_in_put [OF service_okD(2) [OF ok], of e] inj service_okD(3) [OF ok]
    by (auto simp: st0 saveLocalChatEvent_def inj_on_def)
  have keyed: "keyed ev_id (sv_events st0)" using service_okD(2) [OF ok] by (simp add: st0 saveLocalChatEvent_def)
  let ?es = "loadLocalChatEvents lc (sv_events st0) ?c all_events"
  have es: "distinct ?es" "set ?es = channel_events ?E ?c"
    using records distinct_getAllByIndex [OF keyed]
    by (simp_all add: loadLocalChatEvents_def pageEvents_def event_before_def num_given_def channel_events_def
        set_getAllByIndex [OF keyed] distinct_map)
  have split: "loadProjectionEvents lc ?c st0 = (case map_of (sv_projectionEvents st) ?c of
      Some cached \<Rightarrow> (cached, st0) | None \<Rightarrow> (?es, set_projection ?c ?es st0))"
    by (simp add: loadProjectionEvents_def projection_loaded_def st0 split: option.split)
  have both: "distinct events \<and> set events = channel_events ?E ?c"
  proof (cases "map_of (sv_projectionEvents st) ?c")
    case None
    have "e \<in> set ?es" by (simp add: es channel_events_def)
    with None es show ?thesis by (auto simp: events split push_event_def)
  next
    case (Some cached)
    note c = service_okD(8,9) [OF ok Some]
    show ?thesis
    proof (cases "e \<in> E")
      case True
      then have "e \<in> set cached" "?E = E" using c by (auto simp: channel_events_def)
      with Some c show ?thesis by (auto simp: events split push_event_def)
    next
      case False
      then have "\<not> (\<exists>x \<in> set cached. ev_id x = ev_id e)" "e \<notin> set cached"
        using inj c by (auto simp: channel_events_def inj_on_def)
      with Some c show ?thesis by (auto simp: events split push_event_def channel_events_def)
    qed
  qed
  then show "set events = channel_events ?E ?c" by simp
  have other: "channel_events ?E c' = channel_events E c'" if "c' \<noteq> ?c" for c'
    using that by (auto simp: channel_events_def)
  have mono: "derived lc isotime M E x \<Longrightarrow> derived lc isotime M ?E x" for x by (rule derived_mono) auto
  have st0s: "sv_messages st0 = sv_messages st" "sv_messageCache st0 = sv_messageCache st"
    "sv_projectionEvents st0 = sv_projectionEvents st" by (simp_all add: st0)
  have sv: "sv_messages (snd (loadProjectionEvents lc ?c st0)) = sv_messages st"
    "sv_events (snd (loadProjectionEvents lc ?c st0)) = sv_events st0"
    "sv_messageCache (snd (loadProjectionEvents lc ?c st0)) = sv_messageCache st"
    "c' \<noteq> ?c \<Longrightarrow> map_of (sv_projectionEvents (snd (loadProjectionEvents lc ?c st0))) c' = map_of (sv_projectionEvents st) c'" for c'
    by (simp_all add: split set_projection_def st0s split: option.split)
  show "service_ok lc isotime M ?E (set_projection ?c events (snd (loadProjectionEvents lc ?c st0)))"
    using ok keyed records both other mono
    by (simp add: service_ok_def set_projection_def sv)
qed

lemma service_ok_persistEvent:
  assumes ok: "service_ok lc isotime M E st" and uniq: "unique_ids M (insert e E)"
  shows "service_ok lc isotime M (insert e E) (snd (persistEvent lc isotime e st))"
proof -
  define st0 where "st0 = st\<lparr>sv_events := saveLocalChatEvent e (sv_events st)\<rparr>"
  define events where "events = push_event lc e (fst (loadProjectionEvents lc (ev_channelId e) st0))"
  define st2 where "st2 = set_projection (ev_channelId e) events (snd (loadProjectionEvents lc (ev_channelId e) st0))"
  note set_events = service_ok_push(1) [OF ok uniq st0_def events_def]
    and ok2 = service_ok_push(2) [OF ok uniq st0_def events_def, folded st2_def]
  obtain c where c: "ev_channelId e = Some c" "wire_id (ev_targetMessageId e)" using uniq by (auto simp: unique_ids_def)
  show ?thesis
  proof (cases "cached_or_stored (ev_channelId e) (ev_targetMessageId e) st2")
    case None
    then show ?thesis using ok2
      by (simp add: persistEvent_def Let_def split_def flip: st0_def events_def st2_def)
  next
    case (Some x)
    let ?p = "projectMessage lc isotime x events"
    note x = lookup_derived [OF ok2 uniq Some [unfolded c(1)] c(2)]
    then obtain r es where r: "r \<in> M" "wf_map (ms_reactions x)" "ms_id x = ms_id r" using uniq derivedE by (metis (no_types, lifting))
    have dp: "derived lc isotime M (insert e E) ?p"
      by (rule project_derived(2) [OF _ uniq r(1)]) (use x r set_events c in auto)
    have keep: "ms_id ?p = ev_targetMessageId e" "ms_channelId ?p = ev_channelId e"
      using x by (simp_all add: project_keeps [OF r(2)] c)
    have "service_ok lc isotime M (insert e E) (st2\<lparr>sv_messages := saveLocalMessage ?p (sv_messages st2)\<rparr>)"
      by (rule service_ok_save [OF ok2 dp]) (use r keep x in auto)
    then have "service_ok lc isotime M (insert e E) (cache_message (cacheKey (ev_channelId e) (ev_targetMessageId e)) ?p
        (rememberEvent (ev_id e) (st2\<lparr>sv_messages := saveLocalMessage ?p (sv_messages st2)\<rparr>)))"
      by (intro service_ok_cache) (use dp keep in simp_all)
    then show ?thesis using Some
      by (simp add: persistEvent_def Let_def split_def flip: st0_def events_def st2_def)
  qed
qed

lemma service_ok_find:
  assumes ok: "service_ok lc isotime M E st" and uniq: "unique_ids M E"
  shows "service_ok lc isotime M E (snd (find_message lc isotime c i st))"
proof (cases "map_of (sv_messageCache st) (cacheKey (Some c) i)")
  case None
  show ?thesis
  proof (cases "loadLocalMessage (sv_messages st) (Some c) i")
    case (Some x)
    let ?es = "fst (loadProjectionEvents lc (Some c) st)"
    have x: "x \<in> records_in (sv_messages st)" "ms_id x = i" "ms_channelId x = Some c"
      using Some keyed_lookup [OF service_okD(1) [OF ok]] by (auto simp: loadLocalMessage_def split: option.splits if_splits)
    then have dx: "derived lc isotime M E x" using service_okD(5) [OF ok] by blast
    then obtain r where r: "r \<in> M" "wf_map (ms_reactions x)" "ms_id x = ms_id r" using uniq derivedE by (metis (no_types, lifting))
    have "derived lc isotime M E (projectMessage lc isotime x ?es)"
      by (rule project_derived(2) [OF dx uniq r(1)]) (use r x projection_events(2) [OF ok] in auto)
    then have "service_ok lc isotime M E (cache_message (cacheKey (Some c) i) (projectMessage lc isotime x ?es) (snd (loadProjectionEvents lc (Some c) st)))"
      by (intro service_ok_cache projection_events(3) [OF ok]) (simp_all add: project_keeps [OF r(2)] x)
    then show ?thesis by (simp add: find_message_def None Some split_def Let_def)
  qed (simp add: find_message_def None ok)
qed (simp add: find_message_def ok)

section \<open>Sequences of operations\<close>

datatype service_op =
    Signed_Op SignedChatWireMessage
  | Legacy_Op LegacyChatWireMessage string
  | Event_Op SignedChatEventWireMessage
  | History_Op string MessagePageOptions
  | Find_Op string string
  | Reset_Op

fun apply_op :: "(string \<Rightarrow> string \<Rightarrow> int) \<Rightarrow> (rat \<Rightarrow> string) \<Rightarrow> service_op \<Rightarrow> MessageService \<Rightarrow> MessageService" where
  "apply_op lc isotime (Signed_Op m) st = snd (persistSigned lc isotime m st)"
| "apply_op lc isotime (Legacy_Op m author) st = snd (persistLegacy lc isotime m author st)"
| "apply_op lc isotime (Event_Op e) st = snd (persistEvent lc isotime e st)"
| "apply_op lc isotime (History_Op c options) st = snd (history lc isotime c options st)"
| "apply_op lc isotime (Find_Op c i) st = snd (find_message lc isotime c i st)"
| "apply_op lc isotime Reset_Op st = resetSession st"

definition run_ops :: "(string \<Rightarrow> string \<Rightarrow> int) \<Rightarrow> (rat \<Rightarrow> string) \<Rightarrow> service_op list \<Rightarrow> MessageService" where
  "run_ops lc isotime ops = fold (apply_op lc isotime) ops (new_service [] [])"

fun op_message :: "(rat \<Rightarrow> string) \<Rightarrow> service_op \<Rightarrow> LocalChatMessage list" where
  "op_message isotime (Signed_Op m) = [signedToLocal isotime m]"
| "op_message isotime (Legacy_Op m author) = [legacyToLocal isotime m author]"
| "op_message isotime _ = []"

fun op_event :: "service_op \<Rightarrow> LocalChatEvent list" where
  "op_event (Event_Op e) = [e]"
| "op_event _ = []"

definition ops_messages :: "(rat \<Rightarrow> string) \<Rightarrow> service_op list \<Rightarrow> LocalChatMessage list" where
  "ops_messages isotime ops = concat (map (op_message isotime) ops)"

definition ops_events :: "service_op list \<Rightarrow> LocalChatEvent list" where
  "ops_events ops = concat (map op_event ops)"

lemma service_ok_run:
  assumes "unique_ids (set (ops_messages isotime ops)) (set (ops_events ops))"
  shows "service_ok lc isotime (set (ops_messages isotime ops)) (set (ops_events ops)) (run_ops lc isotime ops)"
  using assms
proof (induction ops rule: rev_induct)
  case Nil
  show ?case by (simp add: service_ok_def run_ops_def new_service_def ops_messages_def ops_events_def)
next
  case (snoc op ops)
  let ?M = "set (ops_messages isotime ops)" and ?E = "set (ops_events ops)"
  have sets: "set (ops_messages isotime (ops @ [op])) = set (op_message isotime op) \<union> ?M"
    "set (ops_events (ops @ [op])) = set (op_event op) \<union> ?E"
    by (auto simp: ops_messages_def ops_events_def)
  from snoc.prems have uniq: "unique_ids ?M ?E" by (rule unique_ids_subset) (auto simp: sets)
  note IH = snoc.IH [OF uniq]
  have run: "run_ops lc isotime (ops @ [op]) = apply_op lc isotime op (run_ops lc isotime ops)" by (simp add: run_ops_def)
  show ?case
    using snoc.prems IH uniq unfolding sets run
    by (cases op) (simp_all add: persistSigned_def persistLegacy_def service_ok_persist service_ok_persistEvent
        service_ok_history service_ok_find service_ok_reset)
qed

section \<open>What the history shows\<close>

text \<open>
  The specification of \<open>history\<close>: the page of the messages that were persisted, each with all the
  events of the channel applied, in the order of the events.
\<close>

definition show_history ::
  "(string \<Rightarrow> string \<Rightarrow> int) \<Rightarrow> (rat \<Rightarrow> string) \<Rightarrow> LocalChatMessage list \<Rightarrow> LocalChatEvent list \<Rightarrow> string \<Rightarrow> MessagePageOptions
    \<Rightarrow> LocalChatMessage list" where
  "show_history lc isotime ms es c options =
    map (\<lambda>m. projectMessage lc isotime m (filter (\<lambda>e. ev_channelId e = Some c) es))
      (last_n (page_limit options) (sort_cmp (compare_messages lc)
        (filter (message_before (mo_before options) (mo_beforeId options)) (filter (\<lambda>m. ms_channelId m = Some c) ms))))"

lemma insert_cmp_map_on:
  assumes "\<And>a b. a \<in> insert x (set xs) \<Longrightarrow> b \<in> insert x (set xs) \<Longrightarrow> cmp (f a) (f b) = cmp a b"
  shows "insert_cmp cmp (f x) (map f xs) = map f (insert_cmp cmp x xs)"
  using assms by (induction xs) auto

lemma sort_cmp_map_on:
  assumes "\<And>a b. a \<in> set xs \<Longrightarrow> b \<in> set xs \<Longrightarrow> cmp (f a) (f b) = cmp a b"
  shows "sort_cmp cmp (map f xs) = map f (sort_cmp cmp xs)"
  using assms
proof (induction xs)
  case (Cons x xs)
  have "set (sort_cmp cmp xs) = set xs" by simp
  with Cons.prems have "insert_cmp cmp (f x) (map f (sort_cmp cmp xs)) = map f (insert_cmp cmp x (sort_cmp cmp xs))"
    by (intro insert_cmp_map_on) simp
  with Cons show ?case by (simp add: sort_cmp_def)
qed simp

lemma last_n_map: "last_n n (map f xs) = map f (last_n n xs)"
  by (simp add: last_n_def drop_map)

text \<open>The persisted message a stored form was made from.\<close>

definition original :: "LocalChatMessage list \<Rightarrow> LocalChatMessage \<Rightarrow> LocalChatMessage" where
  "original ms x = hd (filter (\<lambda>r. ms_id r = ms_id x) ms)"

lemma original_derived:
  assumes "derived lc isotime (set ms) E x" "unique_ids (set ms) E"
  shows "original ms x \<in> set ms" "ms_id (original ms x) = ms_id x" "ms_channelId (original ms x) = ms_channelId x"
    "ms_createdAt (original ms x) = ms_createdAt x"
proof -
  from assms obtain r es where r: "r \<in> set ms" "ms_id x = ms_id r" "ms_channelId x = ms_channelId r" "ms_createdAt x = ms_createdAt r"
    by (rule derivedE)
  then have "original ms x \<in> set (filter (\<lambda>r. ms_id r = ms_id x) ms)"
    unfolding original_def by (intro hd_in_set) (auto simp: filter_empty_conv)
  then show in_ms: "original ms x \<in> set ms" "ms_id (original ms x) = ms_id x" by simp_all
  then have "original ms x = r" using r(1,2) assms(2) by (simp add: unique_ids_def inj_on_def)
  then show "ms_channelId (original ms x) = ms_channelId x" "ms_createdAt (original ms x) = ms_createdAt x" using r by simp_all
qed

lemma set_channel_page:
  assumes "service_ok lc isotime M E st" "x \<in> set (filter p (getAllByIndex (\<lambda>m. ms_channelId m = Some c) (sv_messages st)))"
  shows "x \<in> records_in (sv_messages st)" "ms_channelId x = Some c" "p x" "derived lc isotime M E x"
  using assms service_okD(5) [OF assms(1)] by (auto simp: set_getAllByIndex [OF service_okD(1) [OF assms(1)]])

lemma page_originals:
  assumes "strict_collation lc" and ok: "service_ok lc isotime (set ms) E st" and uniq: "unique_ids (set ms) E" and "distinct ms"
    and S: "S = filter (message_before b i) (getAllByIndex (\<lambda>m. ms_channelId m = Some c) (sv_messages st))"
  shows "map (original ms) (sort_cmp (compare_messages lc) S) =
    sort_cmp (compare_messages lc) (filter (message_before b i) (filter (\<lambda>m. ms_channelId m = Some c) ms))"
proof -
  let ?T = "filter (message_before b i) (filter (\<lambda>m. ms_channelId m = Some c) ms)"
  note inS = set_channel_page [OF ok, of _ "message_before b i" c, folded S]
  have orig: "original ms x \<in> set ms \<and> ms_id (original ms x) = ms_id x \<and> ms_channelId (original ms x) = ms_channelId x
      \<and> ms_createdAt (original ms x) = ms_createdAt x \<and> message_before b i (original ms x) = message_before b i x"
    if "x \<in> records_in (sv_messages st)" for x
    using original_derived [OF service_okD(5) [OF ok that] uniq] by (simp add: message_before_def)
  have inj: "inj_on ms_id (set ms)" using uniq by (simp add: unique_ids_def)
  have "r \<in> original ms ` set S" if r: "r \<in> set ?T" for r
  proof -
    have "ms_id r \<in> ms_id ` records_in (sv_messages st)" using r service_okD(4) [OF ok] by auto
    then obtain x where x: "x \<in> records_in (sv_messages st)" "ms_id x = ms_id r" by force
    have "original ms x = r" using orig [OF x(1)] x(2) r inj by (simp add: inj_on_def)
    with x(1) orig [OF x(1)] r have "x \<in> set S" by (simp add: S set_getAllByIndex [OF service_okD(1) [OF ok]])
    with \<open>original ms x = r\<close> show ?thesis by blast
  qed
  moreover have "original ms x \<in> set ?T" if "x \<in> set S" for x
    using orig [OF inS(1) [OF that]] inS(2,3) [OF that] by simp
  ultimately have sets: "set (map (original ms) S) = set ?T" by auto
  have "map ms_id (map (original ms) S) = map ms_id S" using orig inS(1) by simp
  then have "distinct (map (original ms) S)"
    using distinct_map_filter [OF distinct_getAllByIndex [OF service_okD(1) [OF ok]]] S by (metis (no_types, lifting) distinct_map)
  then have "sort_cmp (compare_messages lc) (map (original ms) S) = sort_cmp (compare_messages lc) ?T"
    by (intro sort_messages_unique [OF assms(1)]) (use sets inj \<open>distinct ms\<close> in \<open>auto simp: inj_on_def\<close>)
  moreover have "sort_cmp (compare_messages lc) (map (original ms) S) = map (original ms) (sort_cmp (compare_messages lc) S)"
    by (rule sort_cmp_map_on) (use orig inS(1) in \<open>simp add: compare_messages_def\<close>)
  ultimately show ?thesis by simp
qed

lemma projection_shows:
  assumes "strict_collation lc" and ok: "service_ok lc isotime (set ms) (set es) st" and uniq: "unique_ids (set ms) (set es)"
    and "distinct es" "derived lc isotime (set ms) (set es) x" "ms_channelId x = Some c"
  shows "message_view (projectMessage lc isotime x (fst (loadProjectionEvents lc (Some c) st))) =
    message_view (projectMessage lc isotime (original ms x) (filter (\<lambda>e. ev_channelId e = Some c) es))"
proof -
  let ?events = "fst (loadProjectionEvents lc (Some c) st)" and ?es = "filter (\<lambda>e. ev_channelId e = Some c) es"
  have "message_view (projectMessage lc isotime x ?events) = message_view (projectMessage lc isotime (original ms x) ?events)"
    by (rule project_derived(1) [OF _ uniq]) (use assms(5,6) original_derived [OF assms(5) uniq] projection_events(2) [OF ok] in auto)
  also have "projectMessage lc isotime (original ms x) ?events = projectMessage lc isotime (original ms x) ?es"
    by (rule project_events_cong [OF assms(1)])
      (use projection_events(1,2) [OF ok, of "Some c"] uniq \<open>distinct es\<close> in \<open>auto simp: channel_events_def unique_ids_def inj_on_def\<close>)
  finally show ?thesis .
qed

lemma history_shows:
  assumes "strict_collation lc" and ok: "service_ok lc isotime (set ms) (set es) st" and uniq: "unique_ids (set ms) (set es)"
    and "distinct ms" "distinct es"
  shows "map message_view (fst (history lc isotime c options st)) = map message_view (show_history lc isotime ms es c options)"
proof -
  define S where "S = filter (message_before (mo_before options) (mo_beforeId options))
    (getAllByIndex (\<lambda>m. ms_channelId m = Some c) (sv_messages st))"
  define L where "L = last_n (page_limit options) (sort_cmp (compare_messages lc) S)"
  have hist: "fst (history lc isotime c options st) =
      map (\<lambda>x. projectMessage lc isotime x (fst (loadProjectionEvents lc (Some c) st))) L"
    by (simp add: history_def Let_def split_def loadLocalMessages_def loadLegacyMessages_def L_def S_def)
  have spec: "show_history lc isotime ms es c options =
      map (\<lambda>x. projectMessage lc isotime (original ms x) (filter (\<lambda>e. ev_channelId e = Some c) es)) L"
    unfolding show_history_def page_originals [OF assms(1) ok uniq assms(4) S_def, symmetric] last_n_map L_def by simp
  have "derived lc isotime (set ms) (set es) x \<and> ms_channelId x = Some c" if "x \<in> set L" for x
  proof -
    have "x \<in> set S" using that by (metis in_set_dropD last_n_def set_sort_cmp L_def)
    then show ?thesis unfolding S_def using set_channel_page [OF ok] by blast
  qed
  then show ?thesis unfolding hist spec using projection_shows [OF assms(1) ok uniq assms(5)] by simp
qed

lemma show_history_order:
  assumes "strict_collation lc" "unique_ids (set ms) (set es)" "distinct ms" "distinct es" "distinct ms'" "distinct es'"
    and "set ms = set ms'" "set es = set es'"
  shows "show_history lc isotime ms es c options = show_history lc isotime ms' es' c options"
proof -
  have inj: "inj_on ms_id (set ms)" "inj_on ev_id (set es)" using assms(2) by (simp_all add: unique_ids_def)
  let ?f = "\<lambda>xs. filter (message_before (mo_before options) (mo_beforeId options)) (filter (\<lambda>m. ms_channelId m = Some c) xs)"
  have "sort_cmp (compare_messages lc) (?f ms) = sort_cmp (compare_messages lc) (?f ms')"
    by (rule sort_messages_unique [OF assms(1)]) (use assms inj in \<open>auto simp: inj_on_def\<close>)
  moreover have "projectMessage lc isotime m (filter (\<lambda>e. ev_channelId e = Some c) es) =
      projectMessage lc isotime m (filter (\<lambda>e. ev_channelId e = Some c) es')" for m
    by (rule project_events_cong [OF assms(1)]) (use assms inj in \<open>auto simp: inj_on_def\<close>)
  ultimately show ?thesis by (simp add: show_history_def)
qed

text \<open>C6: The message service refines a simple specification. After any sequence of messages and events
  that arrive in any order, also repeatedly, with loads of the history, lookups and session resets
  between them, every page of the history shows exactly the persisted messages of the channel in
  order, each with all the persisted events of the channel applied in the order of their times,
  provided that an identifier never names two messages or two events.\<close>

theorem message_service_refines:
  assumes "strict_collation lc" "unique_ids (set (ops_messages isotime ops)) (set (ops_events ops))"
  shows "map message_view (fst (history lc isotime c options (run_ops lc isotime ops))) =
    map message_view (show_history lc isotime (uniq (ops_messages isotime ops)) (uniq (ops_events ops)) c options)"
  by (rule history_shows) (use assms service_ok_run in simp_all)

definition sample_edit :: SignedChatEventWireMessage where
  "sample_edit = \<lparr>ev_channelId = Some ''channel1'', ev_id = ''event002'', ev_targetMessageId = ''message1'', ev_actorPeerId = ''peer0001'',
     ev_action = Edit, ev_content = Some ''bye'', ev_referenceMessageId = None, ev_emoji = None, ev_timestamp = 2, ev_signature = []\<rparr>"

abbreviation first_page :: MessagePageOptions where
  "first_page \<equiv> \<lparr>mo_before = None, mo_beforeId = None, mo_limit = None\<rparr>"

lemma sample_unique:
  "unique_ids {signedToLocal isotime (sample_signed ''hello'')} {sample_edit, sample_event}"
proof -
  have "wire_id ''message1''" by code_simp
  then show ?thesis
    by (simp add: unique_ids_def raw_message_def signedToLocal_def sample_signed_def sample_edit_def sample_event_def)
qed

theorem message_service_refines_witness:
  "map message_view (fst (history code_unit_compare (\<lambda>_. ''1970'') ''channel1'' first_page
      (run_ops code_unit_compare (\<lambda>_. ''1970'') [Event_Op sample_edit, Signed_Op (sample_signed ''hello''), Event_Op sample_event])))
   = map message_view (show_history code_unit_compare (\<lambda>_. ''1970'') [signedToLocal (\<lambda>_. ''1970'') (sample_signed ''hello'')]
      [sample_edit, sample_event] ''channel1'' first_page)"
proof -
  let ?ops = "[Event_Op sample_edit, Signed_Op (sample_signed ''hello''), Event_Op sample_event]"
  have ids: "ops_messages (\<lambda>_. ''1970'') ?ops = [signedToLocal (\<lambda>_. ''1970'') (sample_signed ''hello'')]"
    "ops_events ?ops = [sample_edit, sample_event]" by (simp_all add: ops_messages_def ops_events_def)
  have "uniq [sample_edit, sample_event] = [sample_edit, sample_event]"
    by (rule uniq_id) (simp add: sample_edit_def sample_event_def)
  moreover have "uniq [m] = [m]" for m :: LocalChatMessage by (rule uniq_id) simp
  ultimately show ?thesis
    using message_service_refines [of code_unit_compare "\<lambda>_. ''1970''" ?ops "''channel1''" first_page]
      code_unit_collation.strict_collation_axioms sample_unique
    by (simp add: ids)
qed

text \<open>C9: Replicas converge: two services that have persisted the same messages and the same events, in any
  two orders and with any repetitions and resets, show the same history, page by page.\<close>

theorem replicas_converge:
  assumes "strict_collation lc" "unique_ids (set (ops_messages isotime ops)) (set (ops_events ops))"
    and "set (ops_messages isotime ops) = set (ops_messages isotime ops')" "set (ops_events ops) = set (ops_events ops')"
  shows "map message_view (fst (history lc isotime c options (run_ops lc isotime ops))) =
    map message_view (fst (history lc isotime c options (run_ops lc isotime ops')))"
proof -
  have refines: "map message_view (fst (history lc isotime c options (run_ops lc isotime os))) =
      map message_view (show_history lc isotime (uniq (ops_messages isotime os)) (uniq (ops_events os)) c options)"
    if "unique_ids (set (ops_messages isotime os)) (set (ops_events os))" for os
    by (rule history_shows) (use assms(1) that service_ok_run in simp_all)
  have "show_history lc isotime (uniq (ops_messages isotime ops)) (uniq (ops_events ops)) c options =
      show_history lc isotime (uniq (ops_messages isotime ops')) (uniq (ops_events ops')) c options"
    by (rule show_history_order) (use assms in simp_all)
  with refines assms show ?thesis by simp
qed

theorem replicas_converge_witness:
  "map message_view (fst (history code_unit_compare (\<lambda>_. ''1970'') ''channel1'' first_page
      (run_ops code_unit_compare (\<lambda>_. ''1970'') [Event_Op sample_edit, Signed_Op (sample_signed ''hello''), Event_Op sample_event])))
   = map message_view (fst (history code_unit_compare (\<lambda>_. ''1970'') ''channel1'' first_page
      (run_ops code_unit_compare (\<lambda>_. ''1970'')
        [Signed_Op (sample_signed ''hello''), Event_Op sample_event, Reset_Op, Event_Op sample_edit, Event_Op sample_event])))"
  by (rule replicas_converge)
    (use code_unit_collation.strict_collation_axioms sample_unique in \<open>auto simp: ops_messages_def ops_events_def\<close>)

end
