(* ===== verification/History_Service.thy ===== *)
theory History_Service
  imports Message_Convergence
begin

text \<open>
  \<^verbatim>\<open>HistoryService\<close> of \<^verbatim>\<open>apps/web/src/chat/HistoryService.ts\<close>: a peer asks another one for the messages and
  events of a channel that it does not have, page by page, from the newest to the oldest.

  The service keeps one request for each remote peer. The callbacks \<^verbatim>\<open>send\<close> and \<^verbatim>\<open>isActive\<close> of the
  context are the environment: \<open>link k\<close> is the answer of \<^verbatim>\<open>isActive\<close> before the k-th message an operation
  sends, and the result of sending it, the number of channels it went to or an exception (the
  transport refuses a text of more than 64 KiB). The envelopes are sent as their JSON text; the model keeps the
  envelopes. \<open>verify\<close> and \<open>verifyEvent\<close> are the callbacks of the constructor.
\<close>

section \<open>State\<close>

record HistoryPeerContext =
  hp_channelId :: string
  hp_remotePeerId :: string
  hp_includeEvents :: bool

record HistoryRequestState =
  hq_requestId :: string
  hq_context :: HistoryPeerContext
  hq_messageBefore :: "string option"
  hq_messageBeforeId :: "string option"
  hq_eventBeforeTimestamp :: "rat option"
  hq_eventBeforeId :: "string option"
  hq_messagesDone :: bool
  hq_eventsDone :: bool

type_synonym requests = "(string \<times> HistoryRequestState) list"

type_synonym link = "nat \<Rightarrow> bool \<times> (js_error + nat)"

definition history_resetSession :: "requests \<Rightarrow> requests" where
  "history_resetSession rs = []"

definition forgetPeer :: "string \<Rightarrow> requests \<Rightarrow> requests" where
  "forgetPeer remotePeerId rs = AList.delete remotePeerId rs"

section \<open>Asking\<close>

definition request_wire :: "HistoryRequestState \<Rightarrow> string list \<Rightarrow> string list option \<Rightarrow> HistoryRequestWireMessage" where
  "request_wire s knownIds knownEventIds =
    (let m = text_given (hq_messageBefore s) \<and> text_given (hq_messageBeforeId s);
         e = num_given (hq_eventBeforeTimestamp s) \<and> text_given (hq_eventBeforeId s)
     in \<lparr>hr_channelId = Some (hp_channelId (hq_context s)), hr_requestId = hq_requestId s, hr_knownIds = knownIds,
          hr_knownEventIds = knownEventIds,
          hr_messageBefore = (if m then hq_messageBefore s else None), hr_messageBeforeId = (if m then hq_messageBeforeId s else None),
          hr_eventBeforeTimestamp = (if e then hq_eventBeforeTimestamp s else None),
          hr_eventBeforeId = (if e then hq_eventBeforeId s else None),
          hr_messagesDone = (if hq_messagesDone s then Some True else None),
          hr_eventsDone = (if hq_eventsDone s then Some True else None)\<rparr>)"

definition issueRequest ::
  "link \<Rightarrow> HistoryRequestState \<Rightarrow> string list \<Rightarrow> string list option \<Rightarrow> requests \<Rightarrow> (js_error + unit) \<times> ChatWireEnvelope list \<times> requests" where
  "issueRequest link s knownIds knownEventIds rs =
    (let peer = hp_remotePeerId (hq_context s); rs1 = AList.update peer s rs;
         wire = History_Request (request_wire s knownIds knownEventIds)
     in if \<not> fst (link 0) then (Inr (), [], AList.delete peer rs1)
        else case snd (link 0) of
            Inl e \<Rightarrow> (Inl e, [wire], rs1)
          | Inr sent \<Rightarrow> (Inr (), [wire], if sent = 0 then AList.delete peer rs1 else rs1))"

definition history_page :: "MessagePageOptions" where
  "history_page = \<lparr>mo_before = None, mo_beforeId = None, mo_limit = Some (of_nat MAX_HISTORY_IDS)\<rparr>"

definition event_page :: "ChatEventPageOptions" where
  "event_page = \<lparr>eo_beforeTimestamp = None, eo_beforeId = None, eo_limit = Some (of_nat MAX_HISTORY_IDS)\<rparr>"

definition history_request ::
  "(string \<Rightarrow> string \<Rightarrow> int) \<Rightarrow> (rat \<Rightarrow> string) \<Rightarrow> string \<Rightarrow> bool \<Rightarrow> link \<Rightarrow> HistoryPeerContext \<Rightarrow> requests \<Rightarrow> MessageService
    \<Rightarrow> (js_error + unit) \<times> ChatWireEnvelope list \<times> requests \<times> MessageService" where
  "history_request lc isotime uuid active link ctx rs st =
    (if map_has rs (hp_remotePeerId ctx) then (Inr (), [], rs, st)
     else
       let (messages, st1) = history lc isotime (hp_channelId ctx) history_page st;
           knownIds = map ms_id (last_n MAX_HISTORY_IDS messages);
           knownEventIds = (if hp_includeEvents ctx
             then Some (map ev_id (eventHistory lc (hp_channelId ctx) event_page st)) else None);
           s = \<lparr>hq_requestId = uuid, hq_context = ctx, hq_messageBefore = None, hq_messageBeforeId = None,
             hq_eventBeforeTimestamp = None, hq_eventBeforeId = None, hq_messagesDone = False,
             hq_eventsDone = (\<not> hp_includeEvents ctx)\<rparr>
       in if \<not> active then (Inr (), [], rs, st1)
          else case issueRequest link s knownIds knownEventIds rs of (res, out, rs1) \<Rightarrow> (res, out, rs1, st1))"

section \<open>Answering\<close>

text \<open>
  Sending a list of envelopes, each after asking whether the session is active: the loop stops
  when it is not, when nothing was reached, and at an exception. The flag tells whether the loop
  went to its end; \<open>k\<close> counts the messages sent before.
\<close>

fun send_each :: "link \<Rightarrow> nat \<Rightarrow> ChatWireEnvelope list \<Rightarrow> ChatWireEnvelope list \<times> (js_error + bool)" where
  "send_each link k [] = ([], Inr True)"
| "send_each link k (w # ws) =
    (if \<not> fst (link k) then ([], Inr False)
     else case snd (link k) of
         Inl e \<Rightarrow> ([w], Inl e)
       | Inr sent \<Rightarrow> if sent = 0 then ([w], Inr False)
           else (case send_each link (Suc k) ws of (out, res) \<Rightarrow> (w # out, res)))"

fun slices :: "nat \<Rightarrow> 'a list \<Rightarrow> 'a list list" where
  "slices n xs = (if xs = [] \<or> n = 0 then [] else take n xs # slices n (drop n xs))"

declare slices.simps [simp del]

definition opt_list :: "'a option list \<Rightarrow> 'a list" where
  "opt_list xs = List.map_filter (\<lambda>x. x) xs"

definition message_chunk :: "string \<Rightarrow> string \<Rightarrow> SignedChatWireMessage list \<Rightarrow> ChatWireEnvelope" where
  "message_chunk channelId requestId ms =
    History_Chunk \<lparr>hc_channelId = Some channelId, hc_requestId = requestId, hc_messages = ms, hc_events = None\<rparr>"

definition event_chunk :: "string \<Rightarrow> string \<Rightarrow> SignedChatEventWireMessage list \<Rightarrow> ChatWireEnvelope" where
  "event_chunk channelId requestId es =
    History_Chunk \<lparr>hc_channelId = Some channelId, hc_requestId = requestId, hc_messages = [], hc_events = Some es\<rparr>"

definition complete_wire ::
  "string \<Rightarrow> string \<Rightarrow> LocalChatMessage list \<Rightarrow> LocalChatEvent list \<Rightarrow> HistoryCompleteWireMessage" where
  "complete_wire channelId requestId messagePage eventPage =
    (let m = length messagePage = MAX_HISTORY_IDS; e = length eventPage = MAX_HISTORY_IDS in
     \<lparr>hd_channelId = Some channelId, hd_requestId = requestId,
      hd_nextMessageBefore = (if m then Some (ms_createdAt (hd messagePage)) else None),
      hd_nextMessageBeforeId = (if m then Some (ms_id (hd messagePage)) else None),
      hd_nextEventBeforeTimestamp = (if e then Some (ev_timestamp (hd eventPage)) else None),
      hd_nextEventBeforeId = (if e then Some (ev_id (hd eventPage)) else None)\<rparr>)"

definition respond_message_page ::
  "(string \<Rightarrow> string \<Rightarrow> int) \<Rightarrow> (rat \<Rightarrow> string) \<Rightarrow> HistoryPeerContext \<Rightarrow> HistoryRequestWireMessage \<Rightarrow> MessageService
    \<Rightarrow> LocalChatMessage list \<times> MessageService" where
  "respond_message_page lc isotime ctx request st =
    (if hr_messagesDone request = Some True then ([], st)
     else history lc isotime (hp_channelId ctx)
       \<lparr>mo_before = hr_messageBefore request, mo_beforeId = hr_messageBeforeId request, mo_limit = Some (of_nat MAX_HISTORY_IDS)\<rparr> st)"

definition respond_event_page ::
  "(string \<Rightarrow> string \<Rightarrow> int) \<Rightarrow> HistoryPeerContext \<Rightarrow> HistoryRequestWireMessage \<Rightarrow> MessageService \<Rightarrow> LocalChatEvent list" where
  "respond_event_page lc ctx request st =
    (if hr_eventsDone request \<noteq> Some True \<and> hr_knownEventIds request \<noteq> None
     then eventHistory lc (hp_channelId ctx)
       \<lparr>eo_beforeTimestamp = hr_eventBeforeTimestamp request, eo_beforeId = hr_eventBeforeId request,
        eo_limit = Some (of_nat MAX_HISTORY_IDS)\<rparr> st
     else [])"

definition respond ::
  "(string \<Rightarrow> string \<Rightarrow> int) \<Rightarrow> (rat \<Rightarrow> string) \<Rightarrow> (string \<Rightarrow> rat option) \<Rightarrow> bool \<Rightarrow> link \<Rightarrow> HistoryPeerContext
    \<Rightarrow> HistoryRequestWireMessage \<Rightarrow> MessageService \<Rightarrow> (js_error + unit) \<times> ChatWireEnvelope list \<times> MessageService" where
  "respond lc isotime dateparse active link ctx request st =
    (let (messagePage, st1) = respond_message_page lc isotime ctx request st;
         messages = filter (\<lambda>m. sm_id m \<notin> set (hr_knownIds request)) (opt_list (map (localToSignedWire dateparse) messagePage));
         eventPage = respond_event_page lc ctx request st1;
         knownEvents = (case hr_knownEventIds request of None \<Rightarrow> [] | Some ids \<Rightarrow> ids);
         events = filter (\<lambda>e. ev_id e \<notin> set knownEvents) eventPage;
         chunks = map (message_chunk (hp_channelId ctx) (hr_requestId request)) (slices HISTORY_CHUNK_MESSAGES messages)
           @ map (event_chunk (hp_channelId ctx) (hr_requestId request)) (slices HISTORY_CHUNK_EVENTS events);
         done_wire = History_Complete (complete_wire (hp_channelId ctx) (hr_requestId request) messagePage eventPage)
     in if \<not> active then (Inr (), [], st1)
        else case send_each link 0 (chunks @ [done_wire]) of
            (out, Inl e) \<Rightarrow> (Inl e, out, st1)
          | (out, Inr _) \<Rightarrow> (Inr (), out, st1))"

section \<open>Receiving\<close>

definition accept_message ::
  "(string \<Rightarrow> string \<Rightarrow> int) \<Rightarrow> (rat \<Rightarrow> string) \<Rightarrow> (SignedChatWireMessage \<Rightarrow> bool) \<Rightarrow> SignedChatWireMessage \<Rightarrow> MessageService \<Rightarrow> MessageService" where
  "accept_message lc isotime verify m st =
    (if hasProcessed st (sm_id m) \<or> \<not> verify m then st else snd (persistSigned lc isotime m st))"

definition accept_event ::
  "(string \<Rightarrow> string \<Rightarrow> int) \<Rightarrow> (rat \<Rightarrow> string) \<Rightarrow> (SignedChatEventWireMessage \<Rightarrow> bool) \<Rightarrow> SignedChatEventWireMessage \<Rightarrow> MessageService \<Rightarrow> MessageService" where
  "accept_event lc isotime verifyEvent e st =
    (if hasProcessedEvent st (ev_id e) \<or> \<not> verifyEvent e then st else snd (persistEvent lc isotime e st))"

definition acceptChunk ::
  "(string \<Rightarrow> string \<Rightarrow> int) \<Rightarrow> (rat \<Rightarrow> string) \<Rightarrow> (SignedChatWireMessage \<Rightarrow> bool) \<Rightarrow> (SignedChatEventWireMessage \<Rightarrow> bool)
    \<Rightarrow> string \<Rightarrow> HistoryChunkWireMessage \<Rightarrow> requests \<Rightarrow> MessageService \<Rightarrow> MessageService" where
  "acceptChunk lc isotime verify verifyEvent remotePeerId chunk rs st =
    (if map_option hq_requestId (map_of rs remotePeerId) \<noteq> Some (hc_requestId chunk) then st
     else fold (accept_event lc isotime verifyEvent) (case hc_events chunk of None \<Rightarrow> [] | Some es \<Rightarrow> es)
       (fold (accept_message lc isotime verify) (hc_messages chunk) st))"

definition cursorAdvances :: "string option \<Rightarrow> string option \<Rightarrow> string \<Rightarrow> string \<Rightarrow> bool" where
  "cursorAdvances previousTimestamp previousId nextTimestamp nextId \<longleftrightarrow>
     (case previousTimestamp of
        None \<Rightarrow> True
      | Some p \<Rightarrow> nextTimestamp < p \<or> (nextTimestamp = p \<and> (case previousId of None \<Rightarrow> False | Some i \<Rightarrow> nextId < i)))"

definition eventCursorAdvances :: "rat option \<Rightarrow> string option \<Rightarrow> rat \<Rightarrow> string \<Rightarrow> bool" where
  "eventCursorAdvances previousTimestamp previousId nextTimestamp nextId \<longleftrightarrow>
     (case previousTimestamp of
        None \<Rightarrow> True
      | Some p \<Rightarrow> nextTimestamp < p \<or> (nextTimestamp = p \<and> (case previousId of None \<Rightarrow> False | Some i \<Rightarrow> nextId < i)))"

definition has_message_cursor :: "HistoryCompleteWireMessage \<Rightarrow> bool" where
  "has_message_cursor c \<longleftrightarrow> hd_nextMessageBefore c \<noteq> None \<and> hd_nextMessageBeforeId c \<noteq> None"

definition has_event_cursor :: "HistoryCompleteWireMessage \<Rightarrow> bool" where
  "has_event_cursor c \<longleftrightarrow> hd_nextEventBeforeTimestamp c \<noteq> None \<and> hd_nextEventBeforeId c \<noteq> None"

definition next_request :: "string \<Rightarrow> HistoryRequestState \<Rightarrow> HistoryCompleteWireMessage \<Rightarrow> HistoryRequestState" where
  "next_request uuid s c = s\<lparr>hq_requestId := uuid,
     hq_messageBefore := (if has_message_cursor c then hd_nextMessageBefore c else hq_messageBefore s),
     hq_messageBeforeId := (if has_message_cursor c then hd_nextMessageBeforeId c else hq_messageBeforeId s),
     hq_eventBeforeTimestamp := (if has_event_cursor c then hd_nextEventBeforeTimestamp c else hq_eventBeforeTimestamp s),
     hq_eventBeforeId := (if has_event_cursor c then hd_nextEventBeforeId c else hq_eventBeforeId s),
     hq_messagesDone := hq_messagesDone s \<or> \<not> has_message_cursor c,
     hq_eventsDone := hq_eventsDone s \<or> \<not> has_event_cursor c\<rparr>"

definition acceptComplete ::
  "string \<Rightarrow> link \<Rightarrow> string \<Rightarrow> HistoryCompleteWireMessage \<Rightarrow> requests \<Rightarrow> (js_error + unit) \<times> ChatWireEnvelope list \<times> requests" where
  "acceptComplete uuid link remotePeerId c rs =
    (case map_of rs remotePeerId of
       None \<Rightarrow> (Inr (), [], rs)
     | Some s \<Rightarrow>
         if hq_requestId s \<noteq> hd_requestId c then (Inr (), [], rs)
         else if (has_message_cursor c \<and> \<not> cursorAdvances (hq_messageBefore s) (hq_messageBeforeId s)
                    (the (hd_nextMessageBefore c)) (the (hd_nextMessageBeforeId c)))
              \<or> (has_event_cursor c \<and> \<not> eventCursorAdvances (hq_eventBeforeTimestamp s) (hq_eventBeforeId s)
                    (the (hd_nextEventBeforeTimestamp c)) (the (hd_nextEventBeforeId c)))
         then (Inr (), [], AList.delete remotePeerId rs)
         else let next = next_request uuid s c in
           if hq_messagesDone next \<and> hq_eventsDone next then (Inr (), [], AList.delete remotePeerId rs)
           else issueRequest link next [] (if hq_eventsDone next then None else Some []) rs)"

end
