(* ===== verification/History_Session.thy ===== *)
theory History_Session
  imports History_Service
begin

text \<open>
  What a whole history exchange achieves. The pages of a channel, walked from the newest to the oldest
  message with the cursor of \<^verbatim>\<open>HistoryService\<close>, cover the channel when \<^verbatim>\<open>localeCompare\<close> orders the texts
  of the stored messages by code units, as the cursor test does; an exchange of two services over a
  link that stays up then ends, and the asking service has every signed message of the other one.
  Where the two orders differ the walk can skip messages.
\<close>

section \<open>Pages\<close>

definition by_code_units :: "(string \<Rightarrow> string \<Rightarrow> int) \<Rightarrow> bool" where
  "by_code_units lc \<longleftrightarrow> (\<forall>a b. (lc a b < 0 \<longleftrightarrow> a < b) \<and> (lc a b = 0 \<longleftrightarrow> a = b))"

lemma by_code_units_compare: "by_code_units code_unit_compare"
  by (auto simp: by_code_units_def code_unit_compare_def)

lemma by_code_units_strict:
  assumes "by_code_units lc"
  shows "strict_collation lc"
proof -
  have lt: "lc a b < 0 \<longleftrightarrow> a < b" "lc a b = 0 \<longleftrightarrow> a = b" for a b using assms by (simp_all add: by_code_units_def)
  have gt: "0 < lc a b \<longleftrightarrow> b < a" for a b
  proof -
    have "0 < lc a b \<longleftrightarrow> \<not> lc a b < 0 \<and> lc a b \<noteq> 0" by linarith
    then show ?thesis unfolding lt by (metis less_asym linorder_neqE)
  qed
  have le: "lc a b \<le> 0 \<longleftrightarrow> a \<le> b" for a b using gt [of a b] by (simp flip: not_less)
  show ?thesis by unfold_locales (simp_all add: lt gt le)
qed

definition before_message :: "LocalChatMessage \<Rightarrow> LocalChatMessage \<Rightarrow> bool" where
  "before_message a b \<longleftrightarrow> ms_createdAt a < ms_createdAt b \<or> (ms_createdAt a = ms_createdAt b \<and> ms_id a < ms_id b)"

lemma compare_before: "by_code_units lc \<Longrightarrow> compare_messages lc a b < 0 \<longleftrightarrow> before_message a b"
  by (auto simp: compare_messages_def before_message_def by_code_units_def)

definition channel_list :: "(string \<Rightarrow> string \<Rightarrow> int) \<Rightarrow> (string \<times> LocalChatMessage) list \<Rightarrow> string \<Rightarrow> LocalChatMessage list" where
  "channel_list lc store c = sort_cmp (compare_messages lc) (getAllByIndex (\<lambda>m. ms_channelId m = Some c) store)"

definition cursor_ready :: "(string \<times> LocalChatMessage) list \<Rightarrow> bool" where
  "cursor_ready store \<longleftrightarrow> keyed ms_id store \<and> (\<forall>m \<in> records_in store. ms_createdAt m \<noteq> [] \<and> ms_id m \<noteq> [])"

lemma channel_list_props:
  assumes "by_code_units lc" "cursor_ready store"
  shows "sorted_wrt before_message (channel_list lc store c)"
    and "set (channel_list lc store c) = {m \<in> records_in store. ms_channelId m = Some c}"
    and "distinct (channel_list lc store c)"
proof -
  let ?X = "getAllByIndex (\<lambda>m. ms_channelId m = Some c) store" and ?L = "channel_list lc store c"
  have keyed: "keyed ms_id store" using assms(2) by (simp add: cursor_ready_def)
  note cmp = message_comparison [OF strict_collation_collation [OF by_code_units_strict [OF assms(1)]]]
  show set: "set ?L = {m \<in> records_in store. ms_channelId m = Some c}"
    by (simp add: channel_list_def set_getAllByIndex [OF keyed])
  have "distinct ?X" using distinct_getAllByIndex [OF keyed] by (simp add: distinct_map)
  then show dist: "distinct ?L" by (simp add: channel_list_def)
  have inj: "inj_on ms_id (set ?L)" using keyed_inj [OF keyed] by (simp add: set inj_on_def)
  have "sorted_wrt (\<lambda>x y. compare_messages lc x y \<le> 0) ?L" unfolding channel_list_def by (rule comparison.sorted_sort [OF cmp])
  then have "sorted_wrt (\<lambda>x y. compare_messages lc x y \<le> 0 \<and> x \<noteq> y) ?L"
    using dist by (simp add: sorted_wrt_iff_nth_less distinct_conv_nth)
  then show "sorted_wrt before_message ?L"
  proof (rule sorted_wrt_mono_rel [rotated])
    fix x y assume xy: "x \<in> set ?L" "y \<in> set ?L" "compare_messages lc x y \<le> 0 \<and> x \<noteq> y"
    then have "compare_messages lc x y \<noteq> 0"
      using compare_messages_eq [OF by_code_units_strict [OF assms(1)]] inj by (metis inj_onD)
    with xy show "before_message x y" using compare_before [OF assms(1)] by (metis order_le_imp_less_or_eq)
  qed
qed

lemma before_message_irrefl [simp]: "\<not> before_message a a"
  by (simp add: before_message_def)

lemma before_message_asym: "before_message a b \<Longrightarrow> \<not> before_message b a"
  by (auto simp: before_message_def)

lemma filter_before_take:
  assumes "sorted_wrt before_message L" "k < length L" "\<And>x. x \<in> set L \<Longrightarrow> P x \<longleftrightarrow> before_message x (L ! k)"
  shows "filter P L = take k L"
proof -
  have L: "L = take k L @ L ! k # drop (Suc k) L" by (simp add: id_take_nth_drop assms(2))
  then have s: "\<forall>x \<in> set (take k L). before_message x (L ! k)" "\<forall>x \<in> set (drop (Suc k) L). before_message (L ! k) x"
    using assms(1) by (metis sorted_wrt_append list.set_intros(1), metis sorted_wrt_append sorted_wrt.simps(2))
  have "filter P (take k L) = take k L" using s(1) assms(3) by (intro filter_True) (auto dest: in_set_takeD)
  moreover have "filter P (L ! k # drop (Suc k) L) = []"
    unfolding filter_empty_conv using s(2) assms(2,3) by (metis before_message_asym in_set_dropD nth_mem set_ConsD)
  ultimately show ?thesis by (subst L, subst filter_append) simp
qed

text \<open>The messages before the \<open>k\<close>-th one of a channel, or all of them: what a cursor leaves to be loaded.\<close>

definition cursor_at :: "LocalChatMessage list \<Rightarrow> nat \<Rightarrow> string option \<Rightarrow> string option \<Rightarrow> bool" where
  "cursor_at L k b i \<longleftrightarrow> k = length L \<and> b = None \<and> i = None
     \<or> k < length L \<and> b = Some (ms_createdAt (L ! k)) \<and> i = Some (ms_id (L ! k))"

lemma load_page:
  assumes "by_code_units lc" "cursor_ready store" "cursor_at (channel_list lc store c) k b i"
  shows "loadLocalMessages lc store c \<lparr>mo_before = b, mo_beforeId = i, mo_limit = Some (of_nat MAX_HISTORY_IDS)\<rparr> =
    last_n MAX_HISTORY_IDS (take k (channel_list lc store c))"
proof -
  let ?L = "channel_list lc store c" and ?X = "getAllByIndex (\<lambda>m. ms_channelId m = Some c) store"
  note cmp = message_comparison [OF strict_collation_collation [OF by_code_units_strict [OF assms(1)]]]
  note L = channel_list_props [OF assms(1,2), of c]
  have keyed: "keyed ms_id store" using assms(2) by (simp add: cursor_ready_def)
  have inj: "inj_on ms_id (set ?X)" using keyed_inj [OF keyed] by (auto simp: set_getAllByIndex [OF keyed] inj_on_def)
  have sort_filter: "sort_cmp (compare_messages lc) (filter P ?X) = filter P ?L" for P
    unfolding channel_list_def
    by (rule comparison.sorted_unique [OF cmp comparison.sorted_sort [OF cmp] sorted_wrt_filter [OF comparison.sorted_sort [OF cmp]]])
      (auto dest!: compare_messages_eq [OF by_code_units_strict [OF assms(1)]] inj_onD [OF inj])
  have "filter (message_before b i) ?L = take k ?L"
  proof (cases "k < length ?L")
    case True
    then have "?L ! k \<in> records_in store" using L(2) nth_mem by blast
    then have "text_given (Some (ms_createdAt (?L ! k)))" "text_given (Some (ms_id (?L ! k)))"
      using assms(2) by (simp_all add: cursor_ready_def text_given_def)
    then show ?thesis
      using assms(3) True by (intro filter_before_take [OF L(1)]) (auto simp: cursor_at_def message_before_def before_message_def)
  next
    case False
    then show ?thesis using assms(3) by (simp add: cursor_at_def message_before_def text_given_def filter_True)
  qed
  then show ?thesis
    by (simp add: loadLocalMessages_def loadLegacyMessages_def sort_filter page_limit_def MAX_HISTORY_IDS_def js_trunc_def)
qed

section \<open>What the operations of an exchange do\<close>

lemma projectMessage_form: "\<exists>rs. projectMessage lc isotime m es = (written isotime m (relevant_events lc m es))\<lparr>ms_reactions := rs\<rparr>"
proof -
  obtain p rs where st: "fold (project_event isotime m) (relevant_events lc m es) (m, reaction_sets m) = (p, rs)"
    by (metis prod.collapse)
  then have "p = written isotime m (relevant_events lc m es)"
    using fold_project_fields [of isotime m "relevant_events lc m es" "reaction_sets m"] by simp
  then show ?thesis by (auto simp: projectMessage_def st)
qed

lemma project_fields [simp]:
  "ms_id (projectMessage lc isotime m es) = ms_id m"
  "ms_createdAt (projectMessage lc isotime m es) = ms_createdAt m"
  "ms_channelId (projectMessage lc isotime m es) = ms_channelId m"
  "localToSignedWire dateparse (projectMessage lc isotime m es) = localToSignedWire dateparse m"
proof -
  obtain rs where form: "projectMessage lc isotime m es = (written isotime m (relevant_events lc m es))\<lparr>ms_reactions := rs\<rparr>"
    using projectMessage_form by blast
  have fields: "ms_id (projectMessage lc isotime m es) = ms_id m" "ms_createdAt (projectMessage lc isotime m es) = ms_createdAt m"
    "ms_channelId (projectMessage lc isotime m es) = ms_channelId m" "ms_author (projectMessage lc isotime m es) = ms_author m"
    "ms_content (projectMessage lc isotime m es) = ms_content m" "ms_signature (projectMessage lc isotime m es) = ms_signature m"
    "ms_authorPeerId (projectMessage lc isotime m es) = ms_authorPeerId m"
    unfolding form by (simp_all add: written_def)
  then show "ms_id (projectMessage lc isotime m es) = ms_id m" "ms_createdAt (projectMessage lc isotime m es) = ms_createdAt m"
    "ms_channelId (projectMessage lc isotime m es) = ms_channelId m"
    by simp_all
  show "localToSignedWire dateparse (projectMessage lc isotime m es) = localToSignedWire dateparse m"
    unfolding localToSignedWire_def fields ..
qed

lemma sv_messages_load [simp]: "sv_messages (snd (loadProjectionEvents lc c st)) = sv_messages st"
  by (simp add: loadProjectionEvents_def projection_loaded_def set_projection_def Let_def split: option.split)

lemma sv_processed_load [simp]: "sv_processed (snd (loadProjectionEvents lc c st)) = sv_processed st"
  by (simp add: loadProjectionEvents_def projection_loaded_def set_projection_def Let_def split: option.split)

lemma history_state:
  "sv_messages (snd (history lc isotime c options st)) = sv_messages st"
  "sv_processed (snd (history lc isotime c options st)) = sv_processed st"
proof -
  have "sv_messages (fold (\<lambda>m. cache_message (key m) m) ps st') = sv_messages st'"
    "sv_processed (fold (\<lambda>m. cache_message (key m) m) ps st') = sv_processed st'" for ps key st'
    by (induction ps arbitrary: st') (simp_all add: cache_message_def)
  then show "sv_messages (snd (history lc isotime c options st)) = sv_messages st"
    "sv_processed (snd (history lc isotime c options st)) = sv_processed st"
    by (simp_all add: history_def Let_def split_def)
qed

definition page_shows :: "(string \<Rightarrow> rat option) \<Rightarrow> LocalChatMessage list \<Rightarrow> LocalChatMessage list \<Rightarrow> bool" where
  "page_shows dateparse shown stored \<longleftrightarrow> map ms_id shown = map ms_id stored \<and> map ms_createdAt shown = map ms_createdAt stored
     \<and> map (localToSignedWire dateparse) shown = map (localToSignedWire dateparse) stored"

lemma history_page_shows:
  "page_shows dateparse (fst (history lc isotime c options st)) (loadLocalMessages lc (sv_messages st) c options)"
  by (simp add: history_def Let_def split_def page_shows_def)

definition stored_ids :: "MessageService \<Rightarrow> string set" where
  "stored_ids st = fst ` set (sv_messages st)"

definition processed_stored :: "MessageService \<Rightarrow> bool" where
  "processed_stored st \<longleftrightarrow> set (sv_processed st) \<subseteq> stored_ids st"

lemma persist_stores:
  "stored_ids (snd (persist lc isotime m st)) = insert (ms_id m) (stored_ids st)"
  "set (sv_processed (snd (persist lc isotime m st))) \<subseteq> insert (ms_id m) (set (sv_processed st))"
proof -
  have base: "ms_id (projection_base m x) = ms_id m" for x by (simp add: projection_base_def split: option.split)
  have "set (last_n n xs) \<subseteq> set xs" for n and xs :: "string list" by (auto simp: last_n_def dest: in_set_dropD)
  moreover have "set (set_add x xs) = insert x (set xs)" for x :: string and xs by (auto simp: set_add_def)
  ultimately have "set (remember_in n x xs) \<subseteq> insert x (set xs)" for n x xs unfolding remember_in_def by metis
  then show "set (sv_processed (snd (persist lc isotime m st))) \<subseteq> insert (ms_id m) (set (sv_processed st))"
    by (simp add: persist_def Let_def split_def notify_def cache_message_def remember_def)
  show "stored_ids (snd (persist lc isotime m st)) = insert (ms_id m) (stored_ids st)"
    by (simp add: persist_def Let_def split_def notify_def cache_message_def remember_def stored_ids_def saveLocalMessage_def
        saveLegacyMessage_def put_in_store_def dom_update base flip: dom_map_of_conv_image_fst)
      (simp add: dom_map_of_conv_image_fst base update_conv' flip: fun_upd_def)
qed

lemma accept_message_stores:
  assumes "processed_stored st"
  shows "processed_stored (accept_message lc isotime verify m st)"
    "stored_ids st \<subseteq> stored_ids (accept_message lc isotime verify m st)"
    "verify m \<Longrightarrow> sm_id m \<in> stored_ids (accept_message lc isotime verify m st)"
  using assms persist_stores [of lc isotime "signedToLocal isotime m" st]
  by (auto simp: accept_message_def persistSigned_def processed_stored_def hasProcessed_def signedToLocal_def)

lemma accept_messages_store:
  assumes "processed_stored st"
  shows "processed_stored (fold (accept_message lc isotime verify) ms st)
    \<and> stored_ids st \<subseteq> stored_ids (fold (accept_message lc isotime verify) ms st)
    \<and> (\<forall>m \<in> set ms. verify m \<longrightarrow> sm_id m \<in> stored_ids (fold (accept_message lc isotime verify) ms st))"
  using assms
proof (induction ms arbitrary: st)
  case (Cons m ms)
  note one = accept_message_stores [OF Cons.prems, where lc = lc and isotime = isotime and verify = verify and m = m]
  from Cons.IH [OF one(1)] one(2,3) show ?case by auto
qed simp

section \<open>A whole exchange\<close>

text \<open>
  The link stays up and delivers every envelope. A round is one request with the answer of the
  other service, delivered in order; the requests the asking service then sends are the next
  rounds. \<open>uuid\<close> gives the identifiers of the requests, by the fuel left.
\<close>

definition up :: link where
  "up k = (True, Inr 1)"

definition deliver ::
  "(string \<Rightarrow> string \<Rightarrow> int) \<Rightarrow> (rat \<Rightarrow> string) \<Rightarrow> (SignedChatWireMessage \<Rightarrow> bool) \<Rightarrow> (SignedChatEventWireMessage \<Rightarrow> bool) \<Rightarrow> string \<Rightarrow> string
    \<Rightarrow> ChatWireEnvelope \<Rightarrow> requests \<times> MessageService \<times> ChatWireEnvelope list \<Rightarrow> requests \<times> MessageService \<times> ChatWireEnvelope list" where
  "deliver lc isotime verify verifyEvent uuid peer w s = (case s of (rs, st, out) \<Rightarrow>
     (case w of
        History_Chunk chunk \<Rightarrow> (rs, acceptChunk lc isotime verify verifyEvent peer chunk rs st, out)
      | History_Complete c \<Rightarrow> (case acceptComplete uuid up peer c rs of (res, out', rs') \<Rightarrow> (rs', st, out @ out'))
      | _ \<Rightarrow> (rs, st, out)))"

fun session ::
  "(string \<Rightarrow> string \<Rightarrow> int) \<Rightarrow> (rat \<Rightarrow> string) \<Rightarrow> (string \<Rightarrow> rat option) \<Rightarrow> (SignedChatWireMessage \<Rightarrow> bool) \<Rightarrow> (SignedChatEventWireMessage \<Rightarrow> bool)
    \<Rightarrow> (nat \<Rightarrow> string) \<Rightarrow> HistoryPeerContext \<Rightarrow> string \<Rightarrow> nat \<Rightarrow> ChatWireEnvelope list \<Rightarrow> requests \<times> MessageService \<Rightarrow> MessageService
    \<Rightarrow> (requests \<times> MessageService) option" where
  "session lc isotime dateparse verify verifyEvent uuid ctx peer fuel [] (rs, a) b = Some (rs, a)"
| "session lc isotime dateparse verify verifyEvent uuid ctx peer 0 (w # ws) (rs, a) b = None"
| "session lc isotime dateparse verify verifyEvent uuid ctx peer (Suc fuel) (w # ws) (rs, a) b =
    (case w of
       History_Request req \<Rightarrow>
         (case respond lc isotime dateparse True up ctx req b of (res, out, b1) \<Rightarrow>
          (case fold (deliver lc isotime verify verifyEvent (uuid fuel) peer) out (rs, a, []) of (rs1, a1, nexts) \<Rightarrow>
             session lc isotime dateparse verify verifyEvent uuid ctx peer fuel (ws @ nexts) (rs1, a1) b1))
     | _ \<Rightarrow> session lc isotime dateparse verify verifyEvent uuid ctx peer fuel ws (rs, a) b)"

lemma slices_Nil [simp]: "slices n [] = []"
  by (subst slices.simps) simp

lemma concat_slices: "0 < n \<Longrightarrow> concat (slices n xs) = xs"
proof (induction n xs rule: slices.induct)
  case (1 n xs)
  then show ?case by (subst slices.simps) simp
qed

lemma send_each_up: "send_each up k ws = (ws, Inr True)"
  by (induction ws arbitrary: k) (simp_all add: up_def)

lemma deliver_chunks:
  assumes "map_option hq_requestId (map_of rs peer) = Some rid"
  shows "fold (deliver lc isotime verify verifyEvent uuid peer) (map (message_chunk ch rid) mss) (rs, a, out) =
    (rs, fold (accept_message lc isotime verify) (concat mss) a, out)"
proof (induction mss arbitrary: a)
  case (Cons ms mss)
  have "deliver lc isotime verify verifyEvent uuid peer (message_chunk ch rid ms) (rs, a, out) =
      (rs, fold (accept_message lc isotime verify) ms a, out)"
    using assms unfolding deliver_def message_chunk_def acceptChunk_def by auto
  then show ?case by (simp add: Cons.IH)
qed simp

definition wires_of :: "(string \<Rightarrow> rat option) \<Rightarrow> string list \<Rightarrow> LocalChatMessage list \<Rightarrow> SignedChatWireMessage list" where
  "wires_of dateparse known page = filter (\<lambda>m. sm_id m \<notin> set known) (opt_list (map (localToSignedWire dateparse) page))"

lemma wires_of_mem:
  "m \<in> set page \<Longrightarrow> localToSignedWire dateparse m = Some w \<Longrightarrow> sm_id w \<notin> set known \<Longrightarrow> w \<in> set (wires_of dateparse known page)"
  by (force simp: wires_of_def opt_list_def List.map_filter_def)

text \<open>A request for messages only, at the \<open>k\<close>-th message of the channel of the answering service.\<close>

definition asking :: "LocalChatMessage list \<Rightarrow> string \<Rightarrow> string \<Rightarrow> nat \<Rightarrow> HistoryRequestState \<Rightarrow> bool" where
  "asking L c peer k s \<longleftrightarrow> hp_channelId (hq_context s) = c \<and> hp_remotePeerId (hq_context s) = peer
     \<and> cursor_at L k (hq_messageBefore s) (hq_messageBeforeId s)
     \<and> hq_eventBeforeTimestamp s = None \<and> hq_eventBeforeId s = None \<and> \<not> hq_messagesDone s \<and> hq_eventsDone s"

lemma request_wire_asking:
  assumes "asking L c peer k s" "\<forall>m \<in> set L. ms_createdAt m \<noteq> [] \<and> ms_id m \<noteq> []"
  shows "request_wire s known None = \<lparr>hr_channelId = Some c, hr_requestId = hq_requestId s, hr_knownIds = known, hr_knownEventIds = None,
     hr_messageBefore = hq_messageBefore s, hr_messageBeforeId = hq_messageBeforeId s, hr_eventBeforeTimestamp = None,
     hr_eventBeforeId = None, hr_messagesDone = None, hr_eventsDone = Some True\<rparr>"
proof (cases "k < length L")
  case True
  then have "ms_createdAt (L ! k) \<noteq> []" "ms_id (L ! k) \<noteq> []" using assms(2) by simp_all
  then show ?thesis using assms(1) True by (auto simp: asking_def cursor_at_def request_wire_def text_given_def num_given_def Let_def)
next
  case False
  then show ?thesis using assms(1) by (auto simp: asking_def cursor_at_def request_wire_def text_given_def num_given_def Let_def)
qed

lemma respond_asking:
  assumes "by_code_units lc" "cursor_ready (sv_messages b)" "asking (channel_list lc (sv_messages b) c) c peer k s" "hp_channelId ctx = c"
    and L: "L = channel_list lc (sv_messages b) c"
  obtains b1 where "sv_messages b1 = sv_messages b"
    "respond lc isotime dateparse True up ctx (request_wire s known None) b =
      (Inr (), map (message_chunk c (hq_requestId s)) (slices HISTORY_CHUNK_MESSAGES (wires_of dateparse known (last_n MAX_HISTORY_IDS (take k L))))
        @ [History_Complete (complete_wire c (hq_requestId s) (last_n MAX_HISTORY_IDS (take k L)) [])], b1)"
proof -
  let ?page = "last_n MAX_HISTORY_IDS (take k L)"
  let ?o = "\<lparr>mo_before = hq_messageBefore s, mo_beforeId = hq_messageBeforeId s, mo_limit = Some (of_nat MAX_HISTORY_IDS)\<rparr>"
  define b1 where "b1 = snd (history lc isotime c ?o b)"
  define shown where "shown = fst (history lc isotime c ?o b)"
  have ready: "\<forall>m \<in> set L. ms_createdAt m \<noteq> [] \<and> ms_id m \<noteq> []"
    using channel_list_props(2) [OF assms(1,2), of c] assms(2) by (simp add: L cursor_ready_def)
  note req = request_wire_asking [OF assms(3) [folded L] ready, of known]
  have "loadLocalMessages lc (sv_messages b) c ?o = ?page"
    unfolding L by (rule load_page [OF assms(1,2)]) (use assms(3) in \<open>simp add: asking_def\<close>)
  then have same: "page_shows dateparse shown ?page" using history_page_shows [of dateparse lc isotime c ?o b] by (simp add: shown_def)
  then have len: "length shown = length ?page" by (metis page_shows_def length_map)
  have complete: "complete_wire c rid shown [] = complete_wire c rid ?page []" for rid
  proof (cases "length ?page = MAX_HISTORY_IDS")
    case True
    then have ne: "?page \<noteq> []" "shown \<noteq> []" using len by (auto simp: MAX_HISTORY_IDS_def)
    have "ms_id (hd shown) = ms_id (hd ?page)" "ms_createdAt (hd shown) = ms_createdAt (hd ?page)"
      using same ne by (metis hd_map page_shows_def)+
    then show ?thesis by (simp add: complete_wire_def Let_def len)
  qed (simp add: complete_wire_def Let_def len MAX_HISTORY_IDS_def)
  have wires: "wires_of dateparse known shown = wires_of dateparse known ?page"
    using same by (simp add: wires_of_def page_shows_def)
  have page: "respond_message_page lc isotime ctx (request_wire s known None) b = (shown, b1)"
    by (simp add: respond_message_page_def req assms(4) shown_def b1_def)
  have "respond lc isotime dateparse True up ctx (request_wire s known None) b =
      (Inr (), map (message_chunk c (hq_requestId s)) (slices HISTORY_CHUNK_MESSAGES (wires_of dateparse known ?page))
        @ [History_Complete (complete_wire c (hq_requestId s) ?page [])], b1)"
    unfolding respond_def page
    by (simp add: send_each_up respond_event_page_def req assms(4) complete wires flip: wires_of_def)
  then show thesis by (rule that [of b1, rotated]) (simp add: b1_def history_state)
qed

lemma hd_last_n: "n \<le> k \<Longrightarrow> k \<le> length L \<Longrightarrow> 0 < n \<Longrightarrow> hd (last_n n (take k L)) = L ! (k - n)"
  by (simp add: last_n_def hd_drop_conv_nth)

lemma cursor_advances_asking:
  assumes "sorted_wrt before_message L" "asking L c peer k s" "MAX_HISTORY_IDS \<le> k"
  shows "cursorAdvances (hq_messageBefore s) (hq_messageBeforeId s) (ms_createdAt (L ! (k - MAX_HISTORY_IDS))) (ms_id (L ! (k - MAX_HISTORY_IDS)))"
proof (cases "k < length L")
  case True
  then have "before_message (L ! (k - MAX_HISTORY_IDS)) (L ! k)"
    using assms(1,3) by (auto simp: sorted_wrt_iff_nth_less MAX_HISTORY_IDS_def)
  with assms(2) True show ?thesis by (auto simp: asking_def cursor_at_def cursorAdvances_def before_message_def)
next
  case False
  with assms(2) show ?thesis by (auto simp: asking_def cursor_at_def cursorAdvances_def)
qed

text \<open>The answer of one round ends the exchange, or leads to the request for the next page.\<close>

lemma complete_asking:
  assumes "sorted_wrt before_message L" "asking L c peer k s" "k \<le> length L" "map_of rs peer = Some s"
    and cw: "cw = complete_wire c (hq_requestId s) (last_n MAX_HISTORY_IDS (take k L)) []"
  shows "k < MAX_HISTORY_IDS \<Longrightarrow> acceptComplete uuid up peer cw rs = (Inr (), [], AList.delete peer rs)"
    and "MAX_HISTORY_IDS \<le> k \<Longrightarrow> \<exists>s'. asking L c peer (k - MAX_HISTORY_IDS) s'
      \<and> acceptComplete uuid up peer cw rs = (Inr (), [History_Request (request_wire s' [] None)], AList.update peer s' rs)"
proof -
  have len: "length (last_n MAX_HISTORY_IDS (take k L)) = min MAX_HISTORY_IDS k" using assms(3) by (simp add: last_n_def)
  have no_event: "\<not> has_event_cursor cw" "hd_requestId cw = hq_requestId s"
    by (simp_all add: cw complete_wire_def has_event_cursor_def Let_def MAX_HISTORY_IDS_def)
  note s = assms(2) [unfolded asking_def]
  show "acceptComplete uuid up peer cw rs = (Inr (), [], AList.delete peer rs)" if "k < MAX_HISTORY_IDS"
  proof -
    have "\<not> has_message_cursor cw" using that by (simp add: cw complete_wire_def has_message_cursor_def Let_def len)
    then show ?thesis using s no_event by (simp add: acceptComplete_def assms(4) Let_def next_request_def)
  qed
  show "\<exists>s'. asking L c peer (k - MAX_HISTORY_IDS) s'
      \<and> acceptComplete uuid up peer cw rs = (Inr (), [History_Request (request_wire s' [] None)], AList.update peer s' rs)"
    if "MAX_HISTORY_IDS \<le> k"
  proof -
    let ?m = "L ! (k - MAX_HISTORY_IDS)" and ?s = "next_request uuid s cw"
    have hd: "hd (last_n MAX_HISTORY_IDS (take k L)) = ?m"
      by (rule hd_last_n [OF that assms(3)]) (simp add: MAX_HISTORY_IDS_def)
    have cursor: "has_message_cursor cw" "hd_nextMessageBefore cw = Some (ms_createdAt ?m)" "hd_nextMessageBeforeId cw = Some (ms_id ?m)"
      using that by (simp_all add: cw complete_wire_def has_message_cursor_def Let_def len hd)
    have "k - MAX_HISTORY_IDS < length L" using that assms(3) by (simp add: MAX_HISTORY_IDS_def)
    then have asking: "asking L c peer (k - MAX_HISTORY_IDS) ?s"
      using s no_event cursor by (simp add: asking_def next_request_def cursor_at_def)
    moreover have "acceptComplete uuid up peer cw rs = issueRequest up ?s [] None rs"
      using asking no_event cursor cursor_advances_asking [OF assms(1,2) that]
      by (simp add: acceptComplete_def assms(4) Let_def asking_def)
    moreover have "issueRequest up ?s [] None rs = (Inr (), [History_Request (request_wire ?s [] None)], AList.update peer ?s rs)"
      using asking by (simp add: issueRequest_def up_def Let_def asking_def)
    ultimately show ?thesis by auto
  qed
qed

text \<open>One round: the messages of the page are put in the store of the asking service.\<close>

lemma session_round:
  assumes "by_code_units lc" "cursor_ready (sv_messages b)" "L = channel_list lc (sv_messages b) c" "hp_channelId ctx = c"
    and "asking L c peer k s" "map_of rs peer = Some s" "processed_stored a"
    and acc: "acceptComplete (uuid n) up peer (complete_wire c (hq_requestId s) (last_n MAX_HISTORY_IDS (take k L)) []) rs = (Inr (), out, rs1)"
  shows "\<exists>a1 b1. session lc isotime dateparse verify verifyEvent uuid ctx peer (Suc n) [History_Request (request_wire s known None)] (rs, a) b =
      session lc isotime dateparse verify verifyEvent uuid ctx peer n out (rs1, a1) b1
    \<and> sv_messages b1 = sv_messages b \<and> processed_stored a1 \<and> stored_ids a \<subseteq> stored_ids a1
    \<and> (\<forall>w \<in> set (wires_of dateparse known (last_n MAX_HISTORY_IDS (take k L))). verify w \<longrightarrow> sm_id w \<in> stored_ids a1)"
proof -
  let ?page = "last_n MAX_HISTORY_IDS (take k L)"
  obtain b1 where b1: "sv_messages b1 = sv_messages b"
    "respond lc isotime dateparse True up ctx (request_wire s known None) b =
      (Inr (), map (message_chunk c (hq_requestId s)) (slices HISTORY_CHUNK_MESSAGES (wires_of dateparse known ?page))
        @ [History_Complete (complete_wire c (hq_requestId s) ?page [])], b1)"
    by (rule respond_asking [OF assms(1,2) assms(5) [unfolded assms(3)] assms(4,3)])
  define a1 where "a1 = fold (accept_message lc isotime verify) (wires_of dateparse known ?page) a"
  have "fold (deliver lc isotime verify verifyEvent (uuid n) peer)
      (map (message_chunk c (hq_requestId s)) (slices HISTORY_CHUNK_MESSAGES (wires_of dateparse known ?page))) (rs, a, []) = (rs, a1, [])"
    using deliver_chunks [of rs peer "hq_requestId s"] assms(6) by (simp add: concat_slices a1_def HISTORY_CHUNK_MESSAGES_def)
  then have "session lc isotime dateparse verify verifyEvent uuid ctx peer (Suc n) [History_Request (request_wire s known None)] (rs, a) b =
      session lc isotime dateparse verify verifyEvent uuid ctx peer n out (rs1, a1) b1"
    by (simp add: b1(2) deliver_def acc)
  with accept_messages_store [OF assms(7), where ms = "wires_of dateparse known ?page" and lc = lc and isotime = isotime and verify = verify, folded a1_def] b1(1)
  show ?thesis by blast
qed

lemma take_last_n: "k \<le> length L \<Longrightarrow> set (take k L) = set (take (k - n) L) \<union> set (last_n n (take k L))"
proof -
  assume k: "k \<le> length L"
  have "set (take k L) = set (take (k - n) (take k L)) \<union> set (drop (k - n) (take k L))"
    by (metis append_take_drop_id set_append)
  then show ?thesis using k by (simp add: last_n_def)
qed

lemma session_stores:
  assumes "by_code_units lc" "cursor_ready (sv_messages b)" "L = channel_list lc (sv_messages b) c" "hp_channelId ctx = c"
    and "asking L c peer k s" "k \<le> length L" "map_of rs peer = Some s" "processed_stored a" "k div MAX_HISTORY_IDS < fuel"
  shows "\<exists>rs' a'. session lc isotime dateparse verify verifyEvent uuid ctx peer fuel [History_Request (request_wire s known None)] (rs, a) b = Some (rs', a')
    \<and> \<not> map_has rs' peer \<and> stored_ids a \<subseteq> stored_ids a'
    \<and> (\<forall>m \<in> set (take k L). \<forall>w. localToSignedWire dateparse m = Some w \<longrightarrow> verify w \<longrightarrow> sm_id w \<notin> set known \<longrightarrow> sm_id w \<in> stored_ids a')"
  using assms
proof (induction k arbitrary: s rs a b fuel known rule: less_induct)
  case (less k)
  let ?page = "last_n MAX_HISTORY_IDS (take k L)" and ?n = "k - MAX_HISTORY_IDS"
  obtain n where fuel: "fuel = Suc n" using less.prems(9) by (cases fuel) auto
  have sorted: "sorted_wrt before_message L" using channel_list_props(1) [OF less.prems(1,2)] less.prems(3) by simp
  note round = session_round [OF less.prems(1-5,7,8), where uuid = uuid and n = n and isotime = isotime and dateparse = dateparse
    and verify = verify and verifyEvent = verifyEvent and known = known]
  note complete = complete_asking [OF sorted less.prems(5,6,7) refl, where uuid = "uuid n"]
  note parts = take_last_n [OF less.prems(6), of MAX_HISTORY_IDS]
  show ?case
  proof (cases "k < MAX_HISTORY_IDS")
    case True
    from round [OF complete(1) [OF True]] obtain a1 b1 where one:
      "session lc isotime dateparse verify verifyEvent uuid ctx peer (Suc n) [History_Request (request_wire s known None)] (rs, a) b = Some (AList.delete peer rs, a1)"
      "stored_ids a \<subseteq> stored_ids a1" "\<forall>w \<in> set (wires_of dateparse known ?page). verify w \<longrightarrow> sm_id w \<in> stored_ids a1"
      unfolding session.simps(1) by blast
    have "set (take k L) = set ?page" using parts True by simp
    with one wires_of_mem show ?thesis unfolding fuel by (metis map_has_delete)
  next
    case False
    then have le: "MAX_HISTORY_IDS \<le> k" and lt: "?n < k" by (simp_all add: MAX_HISTORY_IDS_def)
    obtain s' where s': "asking L c peer ?n s'" "acceptComplete (uuid n) up peer (complete_wire c (hq_requestId s) ?page []) rs =
        (Inr (), [History_Request (request_wire s' [] None)], AList.update peer s' rs)" using complete(2) [OF le] by blast
    from round [OF s'(2)] obtain a1 b1 where one:
      "session lc isotime dateparse verify verifyEvent uuid ctx peer (Suc n) [History_Request (request_wire s known None)] (rs, a) b =
       session lc isotime dateparse verify verifyEvent uuid ctx peer n [History_Request (request_wire s' [] None)] (AList.update peer s' rs, a1) b1"
      "sv_messages b1 = sv_messages b" "processed_stored a1" "stored_ids a \<subseteq> stored_ids a1"
      "\<forall>w \<in> set (wires_of dateparse known ?page). verify w \<longrightarrow> sm_id w \<in> stored_ids a1" by blast
    have "?n div MAX_HISTORY_IDS < n" using less.prems(9) le unfolding fuel by (simp add: MAX_HISTORY_IDS_def le_div_geq)
    note IH = less.IH [OF lt less.prems(1) _ _ less.prems(4) s'(1) _ _ one(3) this, of b1 "AList.update peer s' rs" "[]"]
    have "\<exists>rs' a'. session lc isotime dateparse verify verifyEvent uuid ctx peer n [History_Request (request_wire s' [] None)] (AList.update peer s' rs, a1) b1 = Some (rs', a')
      \<and> \<not> map_has rs' peer \<and> stored_ids a1 \<subseteq> stored_ids a'
      \<and> (\<forall>m \<in> set (take ?n L). \<forall>w. localToSignedWire dateparse m = Some w \<longrightarrow> verify w \<longrightarrow> sm_id w \<notin> set [] \<longrightarrow> sm_id w \<in> stored_ids a')"
      by (rule IH) (use less.prems one(2) in simp_all)
    then obtain rs' a' where rest: "session lc isotime dateparse verify verifyEvent uuid ctx peer n [History_Request (request_wire s' [] None)] (AList.update peer s' rs, a1) b1 = Some (rs', a')"
      "\<not> map_has rs' peer" "stored_ids a1 \<subseteq> stored_ids a'"
      "\<forall>m \<in> set (take ?n L). \<forall>w. localToSignedWire dateparse m = Some w \<longrightarrow> verify w \<longrightarrow> sm_id w \<in> stored_ids a'"
      by auto
    have "sm_id w \<in> stored_ids a'"
      if "m \<in> set (take k L)" "localToSignedWire dateparse m = Some w" "verify w" "sm_id w \<notin> set known" for m w
      using that rest(3,4) one(5) wires_of_mem [of m ?page dateparse w known] unfolding parts by blast
    with one(1,4) rest show ?thesis unfolding fuel by (metis order_trans)
  qed
qed

lemma loaded_ids_stored:
  assumes "cursor_ready (sv_messages st)"
  shows "set (map ms_id (fst (history lc isotime c options st))) \<subseteq> stored_ids st"
proof -
  have keyed: "keyed ms_id (sv_messages st)" using assms by (simp add: cursor_ready_def)
  have "map ms_id (fst (history lc isotime c options st)) = map ms_id (loadLocalMessages lc (sv_messages st) c options)"
    using history_page_shows [of "\<lambda>_. None" lc isotime c options st] by (simp add: page_shows_def)
  moreover have "set (loadLocalMessages lc (sv_messages st) c options) \<subseteq> records_in (sv_messages st)"
    by (auto simp: loadLocalMessages_def loadLegacyMessages_def last_n_def set_getAllByIndex [OF keyed] dest!: in_set_dropD)
  moreover have "ms_id ` records_in (sv_messages st) \<subseteq> stored_ids st"
    using keyed unfolding keyed_def records_in_def stored_ids_def by (auto simp flip: dom_map_of_conv_image_fst)
  ultimately show ?thesis by (metis image_mono order_trans set_map)
qed


definition sample_stored :: "(string \<times> LocalChatMessage) list" where
  "sample_stored = [(''message1'', signedToLocal (\<lambda>_. ''1970'') (sample_signed ''hello''))]"

lemma sample_stored_ready: "cursor_ready sample_stored" "cursor_ready []"
  by (auto simp: cursor_ready_def sample_stored_def keyed_def wf_map_def records_in_def signedToLocal_def sample_signed_def split: if_splits)

definition sample_context :: "string \<Rightarrow> HistoryPeerContext" where
  "sample_context peer = \<lparr>hp_channelId = ''channel1'', hp_remotePeerId = peer, hp_includeEvents = False\<rparr>"


end
