(* ===== verification/History_Limits.thy ===== *)
theory History_Limits
  imports History_Session
begin

text \<open>
  Three limits of the history exchange and of the store behind it: a chunk of eight long messages
  does not fit the wire, a locale that does not sort by code units makes the walk over the pages
  skip messages, and a message of one channel can replace one of another channel.
\<close>

section \<open>The text of a chunk\<close>

definition signed_wire_value :: "SignedChatWireMessage \<Rightarrow> jsval" where
  "signed_wire_value m = JObj [
     (''version'', JInt 2), (''type'', JStr ''chat.message''), (''channelId'', js_opt JStr (sm_channelId m)),
     (''id'', JStr (sm_id m)), (''authorPeerId'', JStr (sm_authorPeerId m)), (''author'', JStr (sm_author m)),
     (''content'', JStr (sm_content m)), (''timestamp'', JNum (JFin (sm_timestamp m))), (''signature'', JStr (sm_signature m))]"

definition message_chunk_value :: "string \<Rightarrow> string \<Rightarrow> SignedChatWireMessage list \<Rightarrow> jsval" where
  "message_chunk_value channelId requestId ms = JObj [
     (''version'', JInt 2), (''type'', JStr ''chat.history.chunk''), (''channelId'', JStr channelId),
     (''requestId'', JStr requestId), (''messages'', JArr (map signed_wire_value ms))]"

lemma utf8_length_simps [simp]: "utf8_length [] = 0" "utf8_length (c # s) = (if code_unit c < 128 then 1 else 2) + utf8_length s"
  by (simp_all add: utf8_length_def)

lemma escape_length: "(if code_unit c < 128 then 1 else 2) \<le> utf8_length (escape_char c)"
proof -
  have "0 < length (escape_char c)" using escape_char_start(1) [of c] by blast
  with utf8_length_ge [of "escape_char c"] have "1 \<le> utf8_length (escape_char c)" by linarith
  moreover have "escape_char c = [c]" if "\<not> code_unit c < 128"
  proof -
    have small: "code_unit d < 128 \<Longrightarrow> c \<noteq> d" for d using that by blast
    have "c \<noteq> CHR 0x22" "c \<noteq> CHR 0x5C" "c \<noteq> CHR 0x08" "c \<noteq> CHR 0x09" "c \<noteq> CHR 0x0A" "c \<noteq> CHR 0x0C" "c \<noteq> CHR 0x0D"
      by (rule small, simp)+
    with that show ?thesis by (simp add: escape_char_def)
  qed
  ultimately show ?thesis by auto
qed

lemma quote_length: "utf8_length s + 2 \<le> utf8_length (quote_text s)"
proof -
  have "utf8_length s \<le> utf8_length (concat (map escape_char s))"
  proof (induction s)
    case (Cons c s)
    with escape_length [of c] show ?case by simp
  qed simp
  then show ?thesis by (simp add: quote_text_def)
qed

lemma join_length: "sum_list (map utf8_length xs) \<le> utf8_length (join_with sep xs)"
proof (induction xs)
  case (Cons x xs)
  then show ?case by (cases xs) auto
qed simp

lemma object_length:
  "sum_list (map (\<lambda>p. length (fst p) + 3 + utf8_length (jtext num (snd p))) (filter (\<lambda>p. snd p \<noteq> JUndefined) ps))
    \<le> utf8_length (jtext num (JObj ps))"
proof -
  let ?ps = "filter (\<lambda>p. snd p \<noteq> JUndefined) ps"
  let ?t = "\<lambda>p. quote_text (fst p) @ '':'' @ jtext num (snd p)"
  have "length (fst p) + 3 + utf8_length (jtext num (snd p)) \<le> utf8_length (?t p)" for p
    using quote_length [of "fst p"] utf8_length_ge [of "fst p"] by simp
  then have "sum_list (map (\<lambda>p. length (fst p) + 3 + utf8_length (jtext num (snd p))) ?ps) \<le> sum_list (map (\<lambda>p. utf8_length (?t p)) ?ps)"
    by (rule sum_list_mono)
  also have "\<dots> \<le> utf8_length (join_with '','' (map ?t ?ps))"
    using join_length [of "map ?t ?ps" "'',''"] by (simp add: comp_def)
  finally show ?thesis by simp
qed

lemma array_length: "sum_list (map (\<lambda>v. utf8_length (jtext num v)) xs) \<le> utf8_length (jtext num (JArr xs))"
  using join_length [of "map (jtext num) xs" "'',''"] by (simp add: comp_def)

definition long_message :: "SignedChatWireMessage \<Rightarrow> bool" where
  "long_message m \<longleftrightarrow> length (sm_content m) = 4000 \<and> list_all (\<lambda>c. 128 \<le> code_unit c) (sm_content m)
     \<and> length (sm_id m) = 36 \<and> length (sm_signature m) = 86"

lemma utf8_length_wide: "list_all (\<lambda>c. 128 \<le> code_unit c) s \<Longrightarrow> utf8_length s = 2 * length s"
  by (induction s) auto

lemma long_message_text:
  assumes "long_message m"
  shows "8200 \<le> utf8_length (jtext num (signed_wire_value m))"
proof -
  have content: "utf8_length (sm_content m) = 8000" using assms utf8_length_wide by (simp add: long_message_def)
  have ids: "36 \<le> utf8_length (sm_id m)" "86 \<le> utf8_length (sm_signature m)"
    using assms utf8_length_ge [of "sm_id m"] utf8_length_ge [of "sm_signature m"] by (simp_all add: long_message_def)
  define f where "f p = length (fst p) + 3 + utf8_length (jtext num (snd p))" for p :: "string \<times> jsval"
  have "f (''id'', JStr (sm_id m)) + f (''content'', JStr (sm_content m)) + f (''signature'', JStr (sm_signature m))
      + f (''type'', JStr ''chat.message'') + f (''authorPeerId'', JStr (sm_authorPeerId m)) + f (''author'', JStr (sm_author m))
      + f (''timestamp'', JNum (JFin (sm_timestamp m))) + f (''version'', JInt 2) \<le> utf8_length (jtext num (signed_wire_value m))"
    using object_length [of num "case signed_wire_value m of JObj ps \<Rightarrow> ps"]
    by (cases "js_opt JStr (sm_channelId m) = JUndefined") (simp_all add: signed_wire_value_def f_def del: jtext.simps)
  moreover have "8200 \<le> f (''id'', JStr (sm_id m)) + f (''content'', JStr (sm_content m)) + f (''signature'', JStr (sm_signature m))
      + f (''type'', JStr ''chat.message'') + f (''authorPeerId'', JStr (sm_authorPeerId m)) + f (''author'', JStr (sm_author m))
      + f (''timestamp'', JNum (JFin (sm_timestamp m))) + f (''version'', JInt 2)"
    using quote_length [of "sm_id m"] quote_length [of "sm_content m"] quote_length [of "sm_signature m"] content ids
    by (simp add: f_def)
  ultimately show ?thesis by (rule order_trans [rotated])
qed

text \<open>C33: A history chunk may be too large for the wire: eight messages of the greatest length that the
  parser admits, with letters that take two bytes, make a chunk whose text is over the limit of
  64 KiB, so the transport throws, or the receiver drops the whole chunk.\<close>

theorem history_chunk_too_large:
  assumes "length ms = HISTORY_CHUNK_MESSAGES" "\<forall>m \<in> set ms. long_message m"
  shows "MAX_WIRE_BYTES < utf8_length (jtext num (message_chunk_value c rid ms))
    \<and> parseChatWireEnvelope jparse dateparse now (jtext num (message_chunk_value c rid ms)) channelId = None"
proof -
  have "8200 * length ms = sum_list (map (\<lambda>m. 8200) ms)" by (simp add: sum_list_triv)
  also have "\<dots> \<le> sum_list (map (\<lambda>m. utf8_length (jtext num (signed_wire_value m))) ms)"
    by (rule sum_list_mono) (use assms(2) long_message_text in blast)
  also have "\<dots> \<le> utf8_length (jtext num (JArr (map signed_wire_value ms)))"
    using array_length [of num "map signed_wire_value ms"] by (simp add: comp_def del: jtext.simps)
  also have "\<dots> \<le> utf8_length (jtext num (message_chunk_value c rid ms))"
    using object_length [of num "case message_chunk_value c rid ms of JObj ps \<Rightarrow> ps"]
    by (simp add: message_chunk_value_def del: jtext.simps)
  finally have "MAX_WIRE_BYTES < utf8_length (jtext num (message_chunk_value c rid ms))"
    using assms(1) by (simp add: MAX_WIRE_BYTES_def HISTORY_CHUNK_MESSAGES_def)
  then show ?thesis by (simp add: parseChatWireEnvelope_def)
qed

definition sample_long :: SignedChatWireMessage where
  "sample_long = (sample_signed (replicate 4000 (CHR 0xE9)))\<lparr>sm_id := replicate 36 (CHR ''a''), sm_signature := replicate 86 (CHR ''s'')\<rparr>"

theorem history_chunk_too_large_witness:
  "MAX_WIRE_BYTES < utf8_length (jtext fraction_text (message_chunk_value ''channel1'' ''request1'' (replicate 8 sample_long)))"
  using history_chunk_too_large [of "replicate 8 sample_long" fraction_text "''channel1''" "''request1''"]
  by (simp add: HISTORY_CHUNK_MESSAGES_def long_message_def sample_long_def sample_signed_def list_all_iff)

section \<open>Locale order\<close>

definition caseless_compare :: "string \<Rightarrow> string \<Rightarrow> int" where
  "caseless_compare a b = (if js_lower a = js_lower b then code_unit_compare a b else code_unit_compare (js_lower a) (js_lower b))"

lemma caseless_strict: "strict_collation caseless_compare"
  by unfold_locales (auto simp: caseless_compare_def code_unit_compare_def split: if_splits)

definition page_message :: "string \<Rightarrow> LocalChatMessage" where
  "page_message i = (signedToLocal (\<lambda>_. ''1970'') (sample_signed ''hello''))\<lparr>ms_id := i\<rparr>"

definition two_messages :: "(string \<times> LocalChatMessage) list" where
  "two_messages = [(''aaaaaaaa'', page_message ''aaaaaaaa''), (''Bbbbbbbb'', page_message ''Bbbbbbbb'')]"

text \<open>With a locale that sorts letters without regard to case the walk over the pages loses messages:
  of two messages of the same time, the first page of one message holds one, and the page before it is
  empty, although the other message was never loaded.\<close>

theorem page_walk_skips:
  "strict_collation caseless_compare \<and> cursor_ready two_messages
   \<and> loadLocalMessages caseless_compare two_messages ''channel1'' \<lparr>mo_before = None, mo_beforeId = None, mo_limit = Some 1\<rparr>
       = [page_message ''Bbbbbbbb'']
   \<and> loadLocalMessages caseless_compare two_messages ''channel1''
       \<lparr>mo_before = Some (ms_createdAt (page_message ''Bbbbbbbb'')), mo_beforeId = Some ''Bbbbbbbb'', mo_limit = Some 1\<rparr> = []
   \<and> page_message ''aaaaaaaa'' \<in> records_in two_messages"
proof (intro conjI caseless_strict)
  show "cursor_ready two_messages"
    by (auto simp: cursor_ready_def two_messages_def keyed_def wf_map_def records_in_def page_message_def signedToLocal_def split: if_splits)
  show "page_message ''aaaaaaaa'' \<in> records_in two_messages"
    by (auto simp: records_in_def two_messages_def intro!: exI [of _ "''aaaaaaaa''"])
  show "loadLocalMessages caseless_compare two_messages ''channel1'' \<lparr>mo_before = None, mo_beforeId = None, mo_limit = Some 1\<rparr>
       = [page_message ''Bbbbbbbb'']" by code_simp
  show "loadLocalMessages caseless_compare two_messages ''channel1''
       \<lparr>mo_before = Some (ms_createdAt (page_message ''Bbbbbbbb'')), mo_beforeId = Some ''Bbbbbbbb'', mo_limit = Some 1\<rparr> = []" by code_simp
qed

section \<open>Channels\<close>

text \<open>The store of messages is keyed by the identifier alone: persisting a message of one channel removes
  a message of any other channel that has the same identifier from that channel, whoever wrote it.\<close>

theorem message_replaced_across_channels:
  assumes "keyed ms_id (sv_messages st)" "ms_channelId m = Some c" "c \<noteq> d"
  shows "ms_id m \<notin> ms_id ` set (loadLocalMessages lc (sv_messages (snd (persist lc isotime m st))) d options)"
proof -
  obtain p where p: "sv_messages (snd (persist lc isotime m st)) = saveLocalMessage p (sv_messages st)" "ms_id p = ms_id m" "ms_channelId p = Some c"
  proof
    let ?base = "projection_base m (cached_or_stored (ms_channelId m) (ms_id m) st)"
    let ?p = "projectMessage lc isotime ?base (fst (loadProjectionEvents lc (ms_channelId m) st))"
    show "sv_messages (snd (persist lc isotime m st)) = saveLocalMessage ?p (sv_messages st)"
      by (simp add: persist_def Let_def split_def notify_def cache_message_def remember_def)
    have "ms_id ?base = ms_id m" "ms_channelId ?base = ms_channelId m" by (simp_all add: projection_base_def split: option.split)
    then show "ms_id ?p = ms_id m" "ms_channelId ?p = Some c" using assms(2) by simp_all
  qed
  have "keyed ms_id (saveLocalMessage p (sv_messages st))"
    using assms(1) by (simp add: saveLocalMessage_def saveLegacyMessage_def)
  moreover have "records_in (saveLocalMessage p (sv_messages st)) = insert p {u \<in> records_in (sv_messages st). ms_id u \<noteq> ms_id p}"
    unfolding saveLocalMessage_def saveLegacyMessage_def by (rule records_in_put [OF assms(1)])
  ultimately have "\<forall>x \<in> set (loadLocalMessages lc (sv_messages (snd (persist lc isotime m st))) d options). ms_id x \<noteq> ms_id m"
    using p assms(3) by (auto simp: loadLocalMessages_def loadLegacyMessages_def last_n_def set_getAllByIndex dest!: in_set_dropD)
  then show ?thesis unfolding image_iff by metis
qed

theorem message_replaced_across_channels_witness:
  "ms_id (signedToLocal (\<lambda>_. ''1970'') (sample_signed ''hello'')) \<notin> ms_id ` set (loadLocalMessages code_unit_compare (sv_messages (snd (persist code_unit_compare (\<lambda>_. ''1970'')
      ((signedToLocal (\<lambda>_. ''1970'') (sample_signed ''bye''))\<lparr>ms_channelId := Some ''channel2''\<rparr>) (new_service sample_stored [])))) ''channel1'' first_page)"
  using message_replaced_across_channels [of "new_service sample_stored []"
      "(signedToLocal (\<lambda>_. ''1970'') (sample_signed ''bye''))\<lparr>ms_channelId := Some ''channel2''\<rparr>" "''channel2''" "''channel1''"
      code_unit_compare "\<lambda>_. ''1970''" first_page] sample_stored_ready(1)
  by (simp add: new_service_def cursor_ready_def signedToLocal_def sample_signed_def)

end
