(* ===== verification/Outbox_Service.thy ===== *)
theory Outbox_Service
  imports Chat_Storage
begin

text \<open>
  \<^verbatim>\<open>OutboxService\<close> of \<^verbatim>\<open>apps/web/src/chat/OutboxService.ts\<close>: messages and events that no peer has acknowledged
  stay in a store and are sent again to every peer that connects.

  The callbacks of \<open>flush\<close> are its environment: \<open>active k\<close> is the answer of \<^verbatim>\<open>isActive\<close> before the k-th record
  (\<open>active 0\<close> the one before the loop), \<open>send\<close> the number of channels a text goes to.
\<close>

type_synonym outbox = "(string \<times> OutboxRecord) list"

definition enqueue :: "rat \<Rightarrow> string \<Rightarrow> string \<Rightarrow> string \<Rightarrow> outbox \<Rightarrow> outbox" where
  "enqueue now channelId messageId wire = enqueueOutbox now channelId messageId wire"

definition acknowledge :: "string \<Rightarrow> string \<Rightarrow> outbox \<Rightarrow> outbox" where
  "acknowledge channelId messageId = removeOutbox channelId messageId"

definition createAck :: "string \<Rightarrow> string \<Rightarrow> ChatWireEnvelope" where
  "createAck channelId messageId = Message_Ack (Some channelId) messageId"

definition queued_kind :: "ChatWireEnvelope option \<Rightarrow> bool" where
  "queued_kind w = (case w of Some (Signed_Message _) \<Rightarrow> True | Some (Chat_Event _) \<Rightarrow> True | _ \<Rightarrow> False)"

fun flush_each ::
  "(OutboxRecord \<Rightarrow> ChatWireEnvelope option) \<Rightarrow> string \<Rightarrow> (string \<Rightarrow> nat) \<Rightarrow> (nat \<Rightarrow> bool) \<Rightarrow> (ChatWireEnvelope \<Rightarrow> bool) \<Rightarrow> nat
    \<Rightarrow> OutboxRecord list \<Rightarrow> outbox \<Rightarrow> string list \<times> outbox" where
  "flush_each parse channelId send active canSend k [] store = ([], store)"
| "flush_each parse channelId send active canSend k (r # rs) store =
    (if \<not> active k then ([], store)
     else if \<not> queued_kind (parse r)
     then flush_each parse channelId send active canSend (Suc k) rs (removeOutbox channelId (ob_messageId r) store)
     else if canSend (the (parse r))
     then (case flush_each parse channelId send active canSend (Suc k) rs
               (if send (ob_wire r) > 0 then markOutboxAttempt r store else store) of
             (out, store') \<Rightarrow> (ob_wire r # out, store'))
     else flush_each parse channelId send active canSend (Suc k) rs store)"

definition flush ::
  "(string \<Rightarrow> jsval option) \<Rightarrow> (string \<Rightarrow> rat option) \<Rightarrow> rat \<Rightarrow> string \<Rightarrow> (string \<Rightarrow> nat) \<Rightarrow> (nat \<Rightarrow> bool) \<Rightarrow> (ChatWireEnvelope \<Rightarrow> bool)
    \<Rightarrow> outbox \<Rightarrow> string list \<times> outbox" where
  "flush jparse dateparse now channelId send active canSend store =
    (if \<not> active 0 then ([], store)
     else flush_each (\<lambda>r. parseChatWireEnvelope jparse dateparse now (ob_wire r) (Some channelId)) channelId send active canSend 1
       (loadOutbox store channelId) store)"

section \<open>A queued message stays until it is acknowledged\<close>

text \<open>A record of the outbox as \<open>enqueueOutbox\<close> makes it.\<close>

definition outbox_ok :: "outbox \<Rightarrow> bool" where
  "outbox_ok store \<longleftrightarrow> keyed ob_key store
     \<and> (\<forall>r \<in> records_in store. ob_key r = outbox_key (ob_channelId r) (ob_messageId r) \<and> wire_id (ob_messageId r))"

lemma outbox_key_inj:
  assumes "outbox_key c i = outbox_key d j" "wire_id i" "wire_id j"
  shows "c = d \<and> i = j"
proof -
  have "rev i @ CHR '':'' # rev c = rev j @ CHR '':'' # rev d"
    using arg_cong [OF assms(1), of rev] by (simp add: outbox_key_def)
  then have "rev i = rev j \<and> rev c = rev d"
    using split_at_char [of "CHR '':''" "rev i" "rev j"] wire_id_no_colon assms(2,3) by simp
  then show ?thesis by simp
qed

lemma outbox_ok_delete: "outbox_ok store \<Longrightarrow> outbox_ok (AList.delete k store)"
  by (auto simp: outbox_ok_def keyed_def records_in_def split: if_splits)

lemma outbox_ok_put:
  assumes "outbox_ok store" "ob_key r = outbox_key (ob_channelId r) (ob_messageId r)" "wire_id (ob_messageId r)"
  shows "outbox_ok (put_in_store ob_key r store)"
  using assms records_in_put [of ob_key store r] by (auto simp: outbox_ok_def)

lemma outbox_ok_enqueue: "outbox_ok store \<Longrightarrow> wire_id i \<Longrightarrow> outbox_ok (enqueue now c i wire store)"
  unfolding enqueue_def enqueueOutbox_def by (rule outbox_ok_put) simp_all

lemma outbox_ok_mark:
  assumes "outbox_ok store" "ob_key r = outbox_key (ob_channelId r) (ob_messageId r)" "wire_id (ob_messageId r)"
  shows "outbox_ok (markOutboxAttempt r store)"
  unfolding markOutboxAttempt_def by (rule outbox_ok_put) (use assms in simp_all)

text \<open>What is kept of a record: all but the number of attempts, which does not decrease.\<close>

definition kept :: "outbox \<Rightarrow> OutboxRecord \<Rightarrow> bool" where
  "kept store r \<longleftrightarrow> (\<exists>n. ob_attempts r \<le> n \<and> map_of store (ob_key r) = Some (r\<lparr>ob_attempts := n\<rparr>))"

lemma kept_self: "map_of store (ob_key r) = Some r \<Longrightarrow> kept store r"
  unfolding kept_def by (rule exI [of _ "ob_attempts r"]) simp

definition loaded_ok :: "string \<Rightarrow> OutboxRecord list \<Rightarrow> bool" where
  "loaded_ok c rs \<longleftrightarrow> distinct (map ob_key rs)
     \<and> (\<forall>r \<in> set rs. ob_channelId r = c \<and> ob_key r = outbox_key c (ob_messageId r) \<and> wire_id (ob_messageId r))"

lemma loaded_ok_Cons:
  "loaded_ok c (r # rs) \<longleftrightarrow> ob_key r \<notin> ob_key ` set rs \<and> ob_channelId r = c \<and> ob_key r = outbox_key c (ob_messageId r)
     \<and> wire_id (ob_messageId r) \<and> loaded_ok c rs"
  by (auto simp: loaded_ok_def)

text \<open>The loop touches only the records of the list it loaded, and a record that it can parse is kept.\<close>

lemma mark_lookup: "map_of (markOutboxAttempt r store) k = (if k = ob_key r then Some (r\<lparr>ob_attempts := ob_attempts r + 1\<rparr>) else map_of store k)"
  by (simp add: markOutboxAttempt_def)

lemma flush_each_other:
  "loaded_ok c rs \<Longrightarrow> key \<notin> ob_key ` set rs
    \<Longrightarrow> map_of (snd (flush_each parse c send active canSend k rs store)) key = map_of store key"
  by (induction rs arbitrary: k store)
    (auto simp: loaded_ok_Cons removeOutbox_def mark_lookup split_def)

lemma flush_each_keeps:
  assumes "loaded_ok c rs" "r \<in> set rs" "queued_kind (parse r)"
  shows "map_of (snd (flush_each parse c send active canSend k rs store)) (ob_key r)
    \<in> {map_of store (ob_key r), Some (r\<lparr>ob_attempts := ob_attempts r + 1\<rparr>)}"
  using assms(1,2)
proof (induction rs arbitrary: k store)
  case (Cons q rs)
  have rs: "loaded_ok c rs" "ob_key q \<notin> ob_key ` set rs" "ob_key q = outbox_key c (ob_messageId q)"
    using Cons.prems(1) unfolding loaded_ok_Cons by blast+
  show ?case
  proof (cases "q = r")
    case True
    then show ?thesis using assms(3) flush_each_other [OF rs(1,2)] by (auto simp: mark_lookup split_def)
  next
    case False
    then have r: "r \<in> set rs" using Cons.prems(2) by simp
    have keep: "map_of st (ob_key r) = map_of store (ob_key r)
        \<Longrightarrow> map_of (snd (flush_each parse c send active canSend j rs st)) (ob_key r)
          \<in> {map_of store (ob_key r), Some (r\<lparr>ob_attempts := ob_attempts r + 1\<rparr>)}" for st j
      using Cons.IH [OF rs(1) r, of j st] by simp
    have "ob_key r \<noteq> ob_key q" using r rs(2) by (metis imageI)
    then have "map_of (removeOutbox c (ob_messageId q) store) (ob_key r) = map_of store (ob_key r)"
      "map_of (markOutboxAttempt q store) (ob_key r) = map_of store (ob_key r)"
      by (simp_all add: removeOutbox_def mark_lookup rs(3))
    note this [THEN keep] keep [OF refl]
    then show ?thesis by (simp add: split_def)
  qed
qed simp

lemma outbox_ok_flush_each:
  "loaded_ok c rs \<Longrightarrow> outbox_ok store \<Longrightarrow> outbox_ok (snd (flush_each parse c send active canSend k rs store))"
  by (induction rs arbitrary: k store) (auto simp: loaded_ok_Cons removeOutbox_def outbox_ok_delete outbox_ok_mark split_def)

lemma loadOutbox_ok:
  assumes "outbox_ok store"
  shows "loaded_ok c (loadOutbox store c)" "r \<in> set (loadOutbox store c) \<longleftrightarrow> r \<in> records_in store \<and> ob_channelId r = c"
proof -
  have keyed: "keyed ob_key store" using assms by (simp add: outbox_ok_def)
  show "r \<in> set (loadOutbox store c) \<longleftrightarrow> r \<in> records_in store \<and> ob_channelId r = c"
    by (auto simp: loadOutbox_def set_getAllByIndex [OF keyed])
  show "loaded_ok c (loadOutbox store c)"
    unfolding loaded_ok_def loadOutbox_def set_getAllByIndex [OF keyed]
    using distinct_getAllByIndex [OF keyed] assms by (auto simp: outbox_ok_def)
qed

section \<open>Sequences of operations\<close>

datatype outbox_op =
    Enqueue_Op rat string string string
  | Ack_Op string string
  | Flush_Op rat string "string \<Rightarrow> nat" "nat \<Rightarrow> bool" "ChatWireEnvelope \<Rightarrow> bool"

fun apply_outbox :: "(string \<Rightarrow> jsval option) \<Rightarrow> (string \<Rightarrow> rat option) \<Rightarrow> outbox_op \<Rightarrow> outbox \<Rightarrow> outbox" where
  "apply_outbox jparse dateparse (Enqueue_Op now c i wire) store = enqueue now c i wire store"
| "apply_outbox jparse dateparse (Ack_Op c i) store = acknowledge c i store"
| "apply_outbox jparse dateparse (Flush_Op now c send active canSend) store = snd (flush jparse dateparse now c send active canSend store)"

text \<open>The operations that leave a message in the queue: it is not acknowledged, no other message is queued under
  its identifier, and while its channel is flushed its text still parses (it is not older than 30 days).\<close>

fun leaves :: "(string \<Rightarrow> jsval option) \<Rightarrow> (string \<Rightarrow> rat option) \<Rightarrow> OutboxRecord \<Rightarrow> outbox_op \<Rightarrow> bool" where
  "leaves jparse dateparse r (Enqueue_Op now c i wire) \<longleftrightarrow> wire_id i \<and> (c, i) \<noteq> (ob_channelId r, ob_messageId r)"
| "leaves jparse dateparse r (Ack_Op c i) \<longleftrightarrow> wire_id i \<and> (c, i) \<noteq> (ob_channelId r, ob_messageId r)"
| "leaves jparse dateparse r (Flush_Op now c send active canSend) \<longleftrightarrow>
     c \<noteq> ob_channelId r \<or> queued_kind (parseChatWireEnvelope jparse dateparse now (ob_wire r) (Some c))"

lemma outbox_step:
  assumes ok: "outbox_ok store" and r: "map_of store (ob_key r) = Some r" and "leaves jparse dateparse r op"
  shows "outbox_ok (apply_outbox jparse dateparse op store)
    \<and> map_of (apply_outbox jparse dateparse op store) (ob_key r) \<in> {Some r, Some (r\<lparr>ob_attempts := ob_attempts r + 1\<rparr>)}"
proof -
  have in_store: "r \<in> records_in store" using r by (auto simp: records_in_def)
  then have key: "ob_key r = outbox_key (ob_channelId r) (ob_messageId r)" "wire_id (ob_messageId r)"
    using ok by (simp_all add: outbox_ok_def)
  show ?thesis
  proof (cases op)
    case (Enqueue_Op now c i wire)
    then have i: "wire_id i" "(c, i) \<noteq> (ob_channelId r, ob_messageId r)" using assms(3) by simp_all
    then have "outbox_key c i \<noteq> ob_key r" unfolding key(1) using outbox_key_inj key(2) by blast
    with Enqueue_Op r i(1) show ?thesis
      by (simp add: outbox_ok_enqueue [OF ok]) (simp add: enqueue_def enqueueOutbox_def)
  next
    case (Ack_Op c i)
    then have "wire_id i" "(c, i) \<noteq> (ob_channelId r, ob_messageId r)" using assms(3) by simp_all
    then have "outbox_key c i \<noteq> ob_key r" unfolding key(1) using outbox_key_inj key(2) by blast
    with Ack_Op r show ?thesis by (simp add: acknowledge_def removeOutbox_def outbox_ok_delete [OF ok])
  next
    case (Flush_Op now c send active canSend)
    note loaded = loadOutbox_ok [OF ok, where c = c]
    let ?parse = "\<lambda>r. parseChatWireEnvelope jparse dateparse now (ob_wire r) (Some c)"
    have "map_of (snd (flush_each ?parse c send active canSend 1 (loadOutbox store c) store)) (ob_key r)
        \<in> {Some r, Some (r\<lparr>ob_attempts := ob_attempts r + 1\<rparr>)}"
    proof (cases "ob_channelId r = c")
      case True
      then have "r \<in> set (loadOutbox store c)" "queued_kind (?parse r)" using loaded(2) in_store assms(3) Flush_Op by simp_all
      from flush_each_keeps [where parse = ?parse and store = store, OF loaded(1) this, unfolded r] show ?thesis .
    next
      case False
      then have "ob_key r \<notin> ob_key ` set (loadOutbox store c)"
        using loaded(1) key outbox_key_inj unfolding loaded_ok_def image_iff by metis
      then show ?thesis using flush_each_other [OF loaded(1)] r by simp
    qed
    then show ?thesis using Flush_Op r outbox_ok_flush_each [OF loaded(1) ok] ok by (simp add: flush_def)
  qed
qed

lemma leaves_attempts [simp]: "leaves jparse dateparse (r\<lparr>ob_attempts := n\<rparr>) op = leaves jparse dateparse r op"
  by (cases op) simp_all



end
