(* ===== verification/Identity_Sync.thy ===== *)
theory Identity_Sync
  imports Chat_Protocol
begin

text \<open>
  \<^verbatim>\<open>SyncService\<close> of \<^verbatim>\<open>apps/web/src/chat/SyncService.ts\<close>: the handshake in which two peers of a chat channel prove
  their identities, each by signing a nonce of the other.

  The service is a state machine that runs from one await to the next. Its callbacks are the
  context: what the controller answers at the moment, which the environment changes between steps,
  and what the service tells it, which is appended to a log (the newest entry first). An object that the code
  compares by reference is a number; an identity is the number of its object with its fields.
  \<open>clock k\<close> is the k-th reading of \<^verbatim>\<open>Date.now()\<close> in an operation. A timer of the run time is a handle that is live until
  it is cleared or fires; it may fire at any moment. The diagnostic text of \<open>fail\<close> is left out.
\<close>

section \<open>State\<close>

definition IDENTITY_HANDSHAKE_RETRY_MS :: rat where "IDENTITY_HANDSHAKE_RETRY_MS = 1200"
definition IDENTITY_HANDSHAKE_TIMEOUT_MS :: rat where "IDENTITY_HANDSHAKE_TIMEOUT_MS = 12000"

record ChatSyncContext =
  cx_identity :: "(nat \<times> LocalIdentity) option"
  cx_channelId :: "string option"
  cx_sessionToken :: "nat option"
  cx_isDataPeer :: "string \<Rightarrow> bool"
  cx_isOpenPeer :: "string \<Rightarrow> bool"
  cx_isAllowed :: "string \<Rightarrow> bool"
  cx_isRevoked :: "string \<Rightarrow> bool"
  cx_verify :: "string \<Rightarrow> string \<Rightarrow> string \<Rightarrow> bool"

datatype sync_event =
    Sent string ChatWireEnvelope
  | Verified string string string bool
  | Capabilities_Known string jsval
  | Ready string
  | Revoked_Peer string
  | Failure string string

record sync_timer =
  tm_peer :: string
  tm_startedAt :: rat
  tm_delay :: rat

record SyncService =
  sc_pendingChallenges :: "(string \<times> string) list"
  sc_timers :: "(string \<times> nat) list"
  sc_startedAt :: "(string \<times> rat) list"
  sc_failedPeers :: "string list"
  sc_peerCapabilities :: "(string \<times> jsval) list"
  sc_live :: "(nat \<times> sync_timer) list"
  sc_handles :: nat
  sc_log :: "sync_event list"

definition new_sync :: SyncService where
  "new_sync = \<lparr>sc_pendingChallenges = [], sc_timers = [], sc_startedAt = [], sc_failedPeers = [], sc_peerCapabilities = [],
     sc_live = [], sc_handles = 0, sc_log = []\<rparr>"

definition tell :: "sync_event \<Rightarrow> SyncService \<Rightarrow> SyncService" where
  "tell e st = st\<lparr>sc_log := e # sc_log st\<rparr>"

section \<open>Timers and failures\<close>

definition clearTimer :: "string \<Rightarrow> SyncService \<Rightarrow> SyncService" where
  "clearTimer p st = st\<lparr>
     sc_live := (case map_of (sc_timers st) p of None \<Rightarrow> sc_live st | Some h \<Rightarrow> AList.delete h (sc_live st)),
     sc_timers := AList.delete p (sc_timers st)\<rparr>"

definition sync_clear :: "string \<Rightarrow> SyncService \<Rightarrow> SyncService" where
  "sync_clear p st = (let st1 = clearTimer p st in st1\<lparr>sc_startedAt := AList.delete p (sc_startedAt st1)\<rparr>)"

definition sync_fail :: "string \<Rightarrow> string \<Rightarrow> SyncService \<Rightarrow> SyncService" where
  "sync_fail p reason st =
    (let st1 = sync_clear p st in
     tell (Failure p reason) (st1\<lparr>sc_pendingChallenges := AList.delete p (sc_pendingChallenges st1),
       sc_failedPeers := (if p \<in> set (sc_failedPeers st1) then sc_failedPeers st1 else sc_failedPeers st1 @ [p])\<rparr>))"

definition sync_schedule :: "ChatSyncContext \<Rightarrow> (nat \<Rightarrow> rat) \<Rightarrow> string \<Rightarrow> SyncService \<Rightarrow> SyncService" where
  "sync_schedule ctx clock p st0 =
    (let st = clearTimer p st0 in
     if cx_identity ctx = None \<or> \<not> cx_isDataPeer ctx p \<or> cx_isOpenPeer ctx p \<or> p \<in> set (sc_failedPeers st) then st
     else
       let startedAt = (case map_of (sc_startedAt st) p of Some t \<Rightarrow> t | None \<Rightarrow> clock 0);
           st1 = st\<lparr>sc_startedAt := AList.update p startedAt (sc_startedAt st)\<rparr>;
           remaining = IDENTITY_HANDSHAKE_TIMEOUT_MS - (clock 1 - startedAt)
       in if remaining \<le> 0 then sync_fail p ''timeout'' st1
          else
            let h = sc_handles st1;
                timer = \<lparr>tm_peer = p, tm_startedAt = startedAt, tm_delay = min IDENTITY_HANDSHAKE_RETRY_MS remaining\<rparr>
            in st1\<lparr>sc_handles := h + 1, sc_live := AList.update h timer (sc_live st1), sc_timers := AList.update p h (sc_timers st1)\<rparr>)"

section \<open>Operations\<close>

definition sync_resetSession :: "SyncService \<Rightarrow> SyncService" where
  "sync_resetSession st = st\<lparr>
     sc_live := filter (\<lambda>t. fst t \<notin> set (map_values (sc_timers st))) (sc_live st),
     sc_timers := [], sc_pendingChallenges := [], sc_startedAt := [], sc_failedPeers := [], sc_peerCapabilities := []\<rparr>"

definition sync_forgetPeer :: "string \<Rightarrow> SyncService \<Rightarrow> SyncService" where
  "sync_forgetPeer p st =
    (let st1 = sync_clear p st in
     st1\<lparr>sc_pendingChallenges := AList.delete p (sc_pendingChallenges st1),
       sc_failedPeers := removeAll p (sc_failedPeers st1), sc_peerCapabilities := AList.delete p (sc_peerCapabilities st1)\<rparr>)"

definition clearFailure :: "string \<Rightarrow> SyncService \<Rightarrow> SyncService" where
  "clearFailure p st = st\<lparr>sc_failedPeers := removeAll p (sc_failedPeers st)\<rparr>"

definition failedPeerIds :: "SyncService \<Rightarrow> string list" where
  "failedPeerIds st = sc_failedPeers st"

definition didFail :: "string \<Rightarrow> SyncService \<Rightarrow> bool" where
  "didFail p st \<longleftrightarrow> p \<in> set (sc_failedPeers st)"

text \<open>The capabilities of a peer arrive as a value that passed \<^verbatim>\<open>validRiskPeerCapabilities\<close>; the code reads its fields.\<close>

definition read_capabilities :: "jsval \<Rightarrow> RiskPeerCapabilities" where
  "read_capabilities v = \<lparr>pc_appVersion = str_val (jprop v ''appVersion''),
     pc_callProtocolVersion = the (safe_int (jprop v ''callProtocolVersion'')),
     pc_chatProtocolVersion = the (safe_int (jprop v ''chatProtocolVersion'')),
     pc_groupManifestVersion = the (safe_int (jprop v ''groupManifestVersion'')),
     pc_protocol = safe_int (jprop v ''protocol''),
     pc_client = (if jprop v ''client'' = JUndefined then None else Some (str_val (jprop v ''client''))),
     pc_capabilities = (if jprop v ''capabilities'' = JUndefined then None else Some (map str_val (arr_val (jprop v ''capabilities''))))\<rparr>"

definition capabilities_value :: "RiskPeerCapabilities \<Rightarrow> jsval" where
  "capabilities_value c = JObj [(''appVersion'', JStr (pc_appVersion c)), (''callProtocolVersion'', JInt (pc_callProtocolVersion c)),
     (''chatProtocolVersion'', JInt (pc_chatProtocolVersion c)), (''groupManifestVersion'', JInt (pc_groupManifestVersion c)),
     (''protocol'', js_opt JInt (pc_protocol c)), (''client'', js_opt JStr (pc_client c)),
     (''capabilities'', js_opt (\<lambda>cs. JArr (map JStr cs)) (pc_capabilities c))]"

definition sync_capabilities :: "string \<Rightarrow> SyncService \<Rightarrow> RiskPeerCapabilities option" where
  "sync_capabilities p st = map_option read_capabilities (map_of (sc_peerCapabilities st) p)"

definition sync_supports :: "string \<Rightarrow> string \<Rightarrow> SyncService \<Rightarrow> bool" where
  "sync_supports p capability st = peerSupportsCapability (sync_capabilities p st) capability"

text \<open>The result: whether the text is a handshake message of an incompatible peer, and the version of that peer.\<close>

definition rejectIncompatibleEnvelope :: "string \<Rightarrow> (string \<Rightarrow> jsval option) \<Rightarrow> string \<Rightarrow> bool \<times> string option" where
  "rejectIncompatibleEnvelope app jparse raw =
    (if utf8_length raw > MAX_WIRE_BYTES then (False, None)
     else case jparse raw of
         None \<Rightarrow> (False, None)
       | Some v \<Rightarrow>
           if \<not> is_record v then (False, None)
           else if jprop v ''type'' \<noteq> JStr ''chat.identity.challenge'' \<and> jprop v ''type'' \<noteq> JStr ''chat.identity.proof'' then (False, None)
           else if \<not> validRiskPeerCapabilities (jprop v ''capabilities'') then (True, None)
           else if compatibleChatPeer app (read_capabilities (jprop v ''capabilities'')) then (False, None)
           else (True, Some (pc_appVersion (read_capabilities (jprop v ''capabilities'')))))"

definition sync_begin :: "string \<Rightarrow> ChatSyncContext \<Rightarrow> string \<Rightarrow> (nat \<Rightarrow> rat) \<Rightarrow> string \<Rightarrow> SyncService \<Rightarrow> SyncService" where
  "sync_begin app ctx uuid clock p st =
    (case (cx_identity ctx, cx_channelId ctx) of
       (Some (_, identity), Some channelId) \<Rightarrow>
         if channelId = '''' \<or> \<not> cx_isDataPeer ctx p \<or> \<not> cx_isAllowed ctx p \<or> cx_isOpenPeer ctx p \<or> p \<in> set (sc_failedPeers st)
         then st
         else
           let startedAt = (case map_of (sc_startedAt st) p of Some t \<Rightarrow> t | None \<Rightarrow> clock 0);
               st1 = st\<lparr>sc_startedAt := AList.update p startedAt (sc_startedAt st)\<rparr>
           in if clock 0 - startedAt \<ge> IDENTITY_HANDSHAKE_TIMEOUT_MS then sync_fail p ''timeout'' st1
              else
                let nonce = (case map_of (sc_pendingChallenges st1) p of Some n \<Rightarrow> n | None \<Rightarrow> uuid);
                    challenge = \<lparr>ic_channelId = Some channelId, ic_fromPeerId = li_peerId identity, ic_nonce = nonce,
                      ic_timestamp = clock 0, ic_capabilities = capabilities_value (LOCAL_RISK_CAPABILITIES app)\<rparr>;
                    st2 = st1\<lparr>sc_pendingChallenges := AList.update p nonce (sc_pendingChallenges st1)\<rparr>
                in sync_schedule ctx (\<lambda>k. clock (k + 1)) p (tell (Sent p (Identity_Challenge challenge)) st2)
     | _ \<Rightarrow> st)"

text \<open>A call that waits: for the signature of a proof, or for the verification of one.\<close>

datatype sync_wait =
    Signing string nat "nat \<times> LocalIdentity" IdentityProofWireMessage
  | Verifying string nat "nat \<times> LocalIdentity" IdentityProofWireMessage string bool

definition sync_respond :: "string \<Rightarrow> ChatSyncContext \<Rightarrow> rat \<Rightarrow> string \<Rightarrow> IdentityChallengeWireMessage \<Rightarrow> sync_wait option" where
  "sync_respond app ctx now p challenge =
    (case (cx_sessionToken ctx, cx_identity ctx, cx_channelId ctx) of
       (Some token, Some identity, Some channelId) \<Rightarrow>
         if channelId = '''' \<or> ic_fromPeerId challenge \<noteq> p then None
         else Some (Signing p token identity
           \<lparr>ip_channelId = Some channelId, ip_fromPeerId = li_peerId (snd identity), ip_toPeerId = p, ip_nonce = ic_nonce challenge,
            ip_timestamp = now, ip_capabilities = capabilities_value (LOCAL_RISK_CAPABILITIES app), ip_signature = ''''\<rparr>)
     | _ \<Rightarrow> None)"

definition respond_signed ::
  "(rat \<Rightarrow> string) \<Rightarrow> (CryptoKey \<Rightarrow> string \<Rightarrow> nat list) \<Rightarrow> string \<Rightarrow> ChatSyncContext \<Rightarrow> string \<Rightarrow> (nat \<Rightarrow> rat)
    \<Rightarrow> string \<Rightarrow> nat \<Rightarrow> nat \<times> LocalIdentity \<Rightarrow> IdentityProofWireMessage \<Rightarrow> SyncService \<Rightarrow> SyncService" where
  "respond_signed num sign app ctx uuid clock p token identity proof st =
    (if cx_sessionToken ctx \<noteq> Some token \<or> cx_identity ctx \<noteq> Some identity \<or> \<not> cx_isDataPeer ctx p then st
     else
       let signature = bytesToBase64Url (sign (li_privateKey (snd identity)) (canonicalIdentityProof num proof));
           st1 = tell (Sent p (Identity_Proof (proof\<lparr>ip_signature := signature\<rparr>))) st
       in if \<not> cx_isOpenPeer ctx p \<and> \<not> map_has (sc_pendingChallenges st1) p \<and> p \<notin> set (sc_failedPeers st1)
          then sync_begin app ctx uuid clock p st1 else st1)"

definition sync_accept ::
  "(rat \<Rightarrow> string) \<Rightarrow> ChatSyncContext \<Rightarrow> string \<Rightarrow> IdentityProofWireMessage \<Rightarrow> SyncService \<Rightarrow> SyncService \<times> sync_wait option" where
  "sync_accept num ctx p proof st =
    (case (cx_sessionToken ctx, cx_identity ctx) of
       (Some token, Some identity) \<Rightarrow>
         if ip_fromPeerId proof \<noteq> p \<or> ip_toPeerId proof \<noteq> li_peerId (snd identity) then (st, None)
         else (case map_of (sc_pendingChallenges st) p of
             None \<Rightarrow> (st, None)
           | Some expectedNonce \<Rightarrow>
               if expectedNonce = '''' \<or> ip_nonce proof \<noteq> expectedNonce then (st, None)
               else
                 let canonical = canonicalIdentityProof num proof; valid = cx_verify ctx p (ip_signature proof) canonical
                 in (tell (Verified p (ip_signature proof) canonical valid) st, Some (Verifying p token identity proof expectedNonce valid)))
     | _ \<Rightarrow> (st, None))"

definition accept_verified ::
  "ChatSyncContext \<Rightarrow> string \<Rightarrow> nat \<Rightarrow> nat \<times> LocalIdentity \<Rightarrow> IdentityProofWireMessage \<Rightarrow> string \<Rightarrow> bool \<Rightarrow> SyncService \<Rightarrow> SyncService" where
  "accept_verified ctx p token identity proof expectedNonce valid st =
    (if cx_sessionToken ctx \<noteq> Some token \<or> cx_identity ctx \<noteq> Some identity
        \<or> map_of (sc_pendingChallenges st) p \<noteq> Some expectedNonce then st
     else if \<not> valid then sync_fail p ''invalid-proof'' st
     else
       let st1 = sync_clear p (st\<lparr>sc_pendingChallenges := AList.delete p (sc_pendingChallenges st)\<rparr>);
           st2 = st1\<lparr>sc_failedPeers := removeAll p (sc_failedPeers st1),
             sc_peerCapabilities := AList.update p (ip_capabilities proof) (sc_peerCapabilities st1)\<rparr>
       in tell (if cx_isRevoked ctx p then Revoked_Peer p else Ready p) (tell (Capabilities_Known p (ip_capabilities proof)) st2))"

text \<open>A timer fires: the callback that \<open>sync_schedule\<close> set.\<close>

definition timer_fires :: "string \<Rightarrow> ChatSyncContext \<Rightarrow> string \<Rightarrow> (nat \<Rightarrow> rat) \<Rightarrow> nat \<Rightarrow> sync_timer \<Rightarrow> SyncService \<Rightarrow> SyncService" where
  "timer_fires app ctx uuid clock h timer st0 =
    (let p = tm_peer timer;
         st = st0\<lparr>sc_live := AList.delete h (sc_live st0), sc_timers := AList.delete p (sc_timers st0)\<rparr>
     in if \<not> cx_isDataPeer ctx p \<or> cx_isOpenPeer ctx p then st
        else if clock 0 - tm_startedAt timer \<ge> IDENTITY_HANDSHAKE_TIMEOUT_MS then sync_fail p ''timeout'' st
        else sync_begin app ctx uuid (\<lambda>k. clock (k + 1)) p st)"

end
