(* ===== verification/Group_Storage.thy ===== *)
theory Group_Storage
  imports Group_Manifest
begin

text \<open>
  The stateful half of \<^verbatim>\<open>apps/web/src/services/offline/social-storage.ts\<close>: the operations that load
  the stored groups, change one of them and save it.

  The state is a \<open>SocialStore\<close>: the IndexedDB object stores of identity, friends and groups, the
  channels whose data was purged, and the window events dispatched. The model follows the
  browser configuration, in which \<^verbatim>\<open>desktopConfig()\<close> is null and the object stores are local; the
  desktop configuration sends the same records to a separate backend service.

  An operation returns its result or the exception it throws, together with the store: loading
  the groups repairs and saves them first, also when the operation throws later. The
  parameters are \<open>num\<close> (number printing), \<open>lc\<close> (\<^verbatim>\<open>localeCompare\<close>), \<open>sign\<close>, \<open>verify\<close>, the clock \<open>now\<close>, and
  \<open>uuid\<close>, the results of the calls of \<^verbatim>\<open>crypto.randomUUID()\<close> in the order the operation makes them.
\<close>

section \<open>State\<close>

record LocalFriend = PublicPeerIdentity +
  addedAt :: rat

datatype social_event = SocialUpdated | GroupRemoved string string

record SocialStore =
  ss_identity :: "LocalIdentity option"
  ss_friends :: "(string \<times> LocalFriend) list"
  ss_groups :: "(string \<times> LocalGroup) list"
  ss_purged :: "string list"
  ss_events :: "social_event list"

type_synonym 'a outcome = "(js_error + 'a) \<times> SocialStore"

definition put_group :: "LocalGroup \<Rightarrow> SocialStore \<Rightarrow> SocialStore" where
  "put_group grp st = st\<lparr>ss_groups := AList.update (g_groupId grp) grp (ss_groups st)\<rparr>"

definition dispatch :: "social_event \<Rightarrow> SocialStore \<Rightarrow> SocialStore" where
  "dispatch e st = st\<lparr>ss_events := ss_events st @ [e]\<rparr>"

definition purge_channels :: "string list \<Rightarrow> SocialStore \<Rightarrow> SocialStore" where
  "purge_channels ids st = st\<lparr>ss_purged := ss_purged st @ ids\<rparr>"

section \<open>Repairing stored groups\<close>

definition legacy_owner :: "PublicPeerIdentity option \<Rightarrow> LocalGroup \<Rightarrow> string" where
  "legacy_owner self grp =
    (if g_ownerPeerId grp \<noteq> [] then g_ownerPeerId grp
     else case g_members grp of
       m # _ \<Rightarrow> if peerId m \<noteq> [] then peerId m
                else (case self of Some s \<Rightarrow> if peerId s \<noteq> [] then peerId s else g_groupId grp | None \<Rightarrow> g_groupId grp)
     | [] \<Rightarrow> (case self of Some s \<Rightarrow> if peerId s \<noteq> [] then peerId s else g_groupId grp | None \<Rightarrow> g_groupId grp))"

definition positive_or :: "int \<Rightarrow> int \<Rightarrow> int" where
  "positive_or v d = (if safe_positive v then v else d)"

definition opt_positive_or :: "int option \<Rightarrow> int \<Rightarrow> int" where
  "opt_positive_or v d = (case v of None \<Rightarrow> d | Some n \<Rightarrow> if safe_positive n then n else d)"

definition wire_or :: "string option \<Rightarrow> string \<Rightarrow> string" where
  "wire_or v d = (case v of None \<Rightarrow> d | Some s \<Rightarrow> if wire_id s then s else d)"

text \<open>The normalised fields, before the local identity is put in.\<close>

definition normalised_group :: "(string \<Rightarrow> string \<Rightarrow> int) \<Rightarrow> PublicPeerIdentity option \<Rightarrow> LocalGroup \<Rightarrow> LocalGroup" where
  "normalised_group lc self grp =
    (let owner = legacy_owner self grp;
         membershipVersion = positive_or (g_membershipVersion grp) 1;
         manifestVersion = positive_or (g_manifestVersion grp) membershipVersion;
         epoch = opt_positive_or (g_administratorEpoch grp) 1;
         grants = mergeAdministratorGrants lc [] (grants_of grp);
         revocations = mergeGroupRevocations lc [] (revocations_of grp);
         removedPeerIds = uniq (filter (\<lambda>p. length p \<le> 128 \<and> p \<noteq> owner)
           (g_removedPeerIds grp @ map rc_targetPeerId revocations));
         removedMembers = filter (\<lambda>m. peerId m \<in> set removedPeerIds) (dedupePeerIdentities (g_removedMembers grp) None);
         members = filter (\<lambda>m. peerId m \<notin> set removedPeerIds) (dedupePeerIdentities (g_members grp) self);
         administratorPeerIds = filter (\<lambda>p. \<exists>m \<in> set members. peerId m = p)
           (uniq (filter (\<lambda>p. length p \<le> 128 \<and> p \<noteq> owner) (g_administratorPeerIds grp)));
         activeGrants = filter (\<lambda>g. gr_administratorPeerId g \<in> set administratorPeerIds
             \<and> gr_administratorEpoch g = epoch) grants
     in grp\<lparr>g_ownerPeerId := owner, g_membershipVersion := membershipVersion, g_manifestVersion := manifestVersion,
          g_manifestActorPeerId := Some (wire_or (g_manifestActorPeerId grp) owner),
          g_manifestOperationId := Some (wire_or (g_manifestOperationId grp) (legacy_operation manifestVersion)),
          g_administratorEpoch := Some epoch, g_administratorPeerIds := administratorPeerIds,
          g_administratorGrants := Some activeGrants, g_removedPeerIds := removedPeerIds,
          g_removedMembers := removedMembers, g_revocations := Some revocations,
          g_rendezvousVersion := Some (opt_positive_or (g_rendezvousVersion grp) 1),
          g_rendezvousSecret := Some (wire_or (g_rendezvousSecret grp) (g_groupId grp)),
          g_members := members\<rparr>)"

definition normalisation_changed :: "LocalGroup \<Rightarrow> LocalGroup \<Rightarrow> bool" where
  "normalisation_changed grp n \<longleftrightarrow>
     length (g_members n) \<noteq> length (g_members grp)
     \<or> g_ownerPeerId grp \<noteq> g_ownerPeerId n
     \<or> g_membershipVersion grp \<noteq> g_membershipVersion n
     \<or> g_manifestVersion grp \<noteq> g_manifestVersion n
     \<or> g_manifestActorPeerId grp \<noteq> g_manifestActorPeerId n
     \<or> g_manifestOperationId grp \<noteq> g_manifestOperationId n
     \<or> g_administratorEpoch grp \<noteq> g_administratorEpoch n
     \<or> g_rendezvousVersion grp \<noteq> g_rendezvousVersion n
     \<or> g_rendezvousSecret grp \<noteq> g_rendezvousSecret n
     \<or> g_removedPeerIds grp \<noteq> g_removedPeerIds n
     \<or> g_administratorPeerIds grp \<noteq> g_administratorPeerIds n
     \<or> grants_of grp \<noteq> grants_of n
     \<or> g_removedMembers grp \<noteq> g_removedMembers n
     \<or> revocations_of grp \<noteq> revocations_of n"

text \<open>The members with the local identity put in, and whether that changed them.\<close>

definition with_self :: "PublicPeerIdentity option \<Rightarrow> LocalGroup \<Rightarrow> PublicPeerIdentity list \<times> bool" where
  "with_self self n =
    (case self of
       None \<Rightarrow> (g_members n, False)
     | Some s \<Rightarrow>
         (case find_index (\<lambda>m. samePeerIdentity m s) (g_members n) of
            None \<Rightarrow>
              if peerId s = g_ownerPeerId n \<or> peerId s \<notin> set (g_removedPeerIds n)
              then (g_members n @ [s], True) else (g_members n, False)
          | Some i \<Rightarrow>
              (let current = g_members n ! i in
               if peerId current \<noteq> peerId s \<or> \<not> samePublicKey (publicKey current) (publicKey s)
                  \<or> displayName current \<noteq> displayName s \<or> avatar current \<noteq> avatar s
               then ((g_members n)[i := s], True) else (g_members n, False))))"

definition reconcile_group :: "(string \<Rightarrow> string \<Rightarrow> int) \<Rightarrow> LocalIdentity option \<Rightarrow> LocalGroup \<Rightarrow> LocalGroup \<times> bool" where
  "reconcile_group lc identity grp =
    (let self = map_option publicIdentity identity;
         n = normalised_group lc self grp
     in case with_self self n of (members, selfChanged) \<Rightarrow>
          if normalisation_changed grp n \<or> selfChanged then (n\<lparr>g_members := members\<rparr>, True) else (grp, False))"

text \<open>\<^verbatim>\<open>reconcileIdentityMembership\<close>, with \<^verbatim>\<open>persist\<close> writing the record back into the object store.\<close>

definition reconcileIdentityMembership ::
    "(string \<Rightarrow> string \<Rightarrow> int) \<Rightarrow> LocalGroup list \<Rightarrow> LocalIdentity option \<Rightarrow> SocialStore \<Rightarrow> LocalGroup list \<times> SocialStore" where
  "reconcileIdentityMembership lc groups identity st =
    (map (\<lambda>g. fst (reconcile_group lc identity g)) groups,
     fold (\<lambda>g st. case reconcile_group lc identity g of (g', changed) \<Rightarrow> if changed then put_group g' st else st) groups st)"

definition loadLocalGroups :: "(string \<Rightarrow> string \<Rightarrow> int) \<Rightarrow> SocialStore \<Rightarrow> LocalGroup list \<times> SocialStore" where
  "loadLocalGroups lc st = reconcileIdentityMembership lc (map_values (ss_groups st)) (ss_identity st) st"

definition find_group :: "LocalGroup list \<Rightarrow> string \<Rightarrow> LocalGroup option" where
  "find_group groups gid = List.find (\<lambda>g. g_groupId g = gid) groups"

section \<open>The synchronisation budget\<close>

definition js_or_undefined :: "('a \<Rightarrow> jsval) \<Rightarrow> 'a option \<Rightarrow> jsval" where
  "js_or_undefined f v = (case v of None \<Rightarrow> JUndefined | Some x \<Rightarrow> f x)"

definition key_js :: "JsonWebKey \<Rightarrow> jsval" where
  "key_js k = JObj ([(''kty'', js_or_undefined JStr (jk_kty k)), (''crv'', js_or_undefined JStr (jk_crv k)),
     (''x'', js_or_undefined JStr (jk_x k)), (''y'', js_or_undefined JStr (jk_y k))]
     @ map (\<lambda>p. (fst p, JStr (snd p))) (jk_rest k))"

text \<open>A member without its avatar, as the projection lists it.\<close>

definition member_js :: "PublicPeerIdentity \<Rightarrow> jsval" where
  "member_js m = JObj [(''peerId'', JStr (peerId m)), (''publicKey'', key_js (publicKey m)),
     (''displayName'', JStr (displayName m))]"

definition grant_js :: "GroupAdministratorGrant \<Rightarrow> jsval" where
  "grant_js g = JObj [(''version'', JInt (gr_version g)), (''groupId'', JStr (gr_groupId g)),
     (''administratorPeerId'', JStr (gr_administratorPeerId g)),
     (''administratorPublicKey'', key_js (gr_administratorPublicKey g)),
     (''ownerPeerId'', JStr (gr_ownerPeerId g)), (''administratorEpoch'', JInt (gr_administratorEpoch g)),
     (''messageId'', JStr (gr_messageId g)), (''timestamp'', JNum (JFin (gr_timestamp g))),
     (''signature'', JStr (gr_signature g))]"

definition revocation_js :: "GroupRevocationCertificate \<Rightarrow> jsval" where
  "revocation_js c = JObj [(''version'', JInt (rc_version c)), (''groupId'', JStr (rc_groupId c)),
     (''targetPeerId'', JStr (rc_targetPeerId c)), (''targetPublicKey'', key_js (rc_targetPublicKey c)),
     (''issuerPeerId'', JStr (rc_issuerPeerId c)), (''membershipVersion'', JInt (rc_membershipVersion c)),
     (''administratorEpoch'', JInt (rc_administratorEpoch c)), (''messageId'', JStr (rc_messageId c)),
     (''timestamp'', JNum (JFin (rc_timestamp c))),
     (''administratorGrant'', js_or_undefined grant_js (rc_administratorGrant c)),
     (''rendezvousVersion'', js_or_undefined (\<lambda>n. JInt n) (rc_rendezvousVersion c)),
     (''rendezvousSecret'', js_or_undefined JStr (rc_rendezvousSecret c)),
     (''signature'', JStr (rc_signature c))]"

definition channel_js :: "LocalGroupChannel \<Rightarrow> jsval" where
  "channel_js c = JObj [(''id'', JStr (ch_id c)), (''name'', JStr (ch_name c)),
     (''kind'', JStr (case ch_kind c of TextChannel \<Rightarrow> ''text'' | VoiceChannel \<Rightarrow> ''voice'')),
     (''voiceRoomId'', (case ch_voiceRoomId c of None \<Rightarrow> JUndefined | Some None \<Rightarrow> JNull | Some (Some r) \<Rightarrow> JStr r))]"

definition MAX_GROUP_SYNC_WIRE_BYTES :: nat where
  "MAX_GROUP_SYNC_WIRE_BYTES = 60 * 1024"

definition sync_projection :: "rat \<Rightarrow> LocalGroup \<Rightarrow> jsval" where
  "sync_projection now grp = JObj
    [(''version'', JInt 2), (''type'', JStr ''chat.members.snapshot''),
     (''channelId'', JStr ''00000000-0000-4000-8000-000000000000''),
     (''groupId'', JStr (g_groupId grp)), (''senderPeerId'', JStr (actor_of grp)),
     (''ownerPeerId'', JStr (g_ownerPeerId grp)), (''membershipVersion'', JInt (g_membershipVersion grp)),
     (''manifestVersion'', JInt (g_manifestVersion grp)), (''manifestActorPeerId'', JStr (actor_of grp)),
     (''manifestOperationId'', JStr (operation_of grp)), (''administratorEpoch'', JInt (epoch_of grp)),
     (''administratorGrants'', JArr (map grant_js (grants_of grp))),
     (''name'', JStr (g_name grp)), (''avatar'', js_or_undefined JStr (g_avatar grp)),
     (''channels'', JArr (map channel_js (g_channels grp))),
     (''administratorPeerIds'', JArr (map JStr (g_administratorPeerIds grp))),
     (''removedPeerIds'', JArr (map JStr (g_removedPeerIds grp))),
     (''removedMembers'', JArr (map member_js (g_removedMembers grp))),
     (''revocations'', JArr (map revocation_js (revocations_of grp))),
     (''rendezvousVersion'', JInt (rendezvous_version_of grp)),
     (''rendezvousSecret'', JStr (or_else (g_rendezvousSecret grp) (g_groupId grp))),
     (''members'', JArr (map member_js (g_members grp))),
     (''timestamp'', JNum (JFin now)), (''signature'', JStr (replicate 86 (CHR ''A'')))]"

definition assertLocalGroupSyncBudget :: "(rat \<Rightarrow> string) \<Rightarrow> rat \<Rightarrow> LocalGroup \<Rightarrow> js_error + unit" where
  "assertLocalGroupSyncBudget num now grp =
    (if utf8_length (jtext num (sync_projection now grp)) > MAX_GROUP_SYNC_WIRE_BYTES
     then Inl (JSError ''sync budget exceeded'') else Inr ())"

section \<open>Operations on groups\<close>

definition saveLocalGroup :: "(rat \<Rightarrow> string) \<Rightarrow> rat \<Rightarrow> LocalGroup \<Rightarrow> SocialStore \<Rightarrow> unit outcome" where
  "saveLocalGroup num now grp st =
    (case assertLocalGroupSyncBudget num now grp of
       Inl e \<Rightarrow> (Inl e, st)
     | Inr _ \<Rightarrow> (Inr (), put_group grp st))"

text \<open>Saving as the last state change of an operation: on success the store is post-processed.\<close>

definition save_then :: "(rat \<Rightarrow> string) \<Rightarrow> rat \<Rightarrow> LocalGroup \<Rightarrow> (SocialStore \<Rightarrow> SocialStore) \<Rightarrow> 'a \<Rightarrow> SocialStore \<Rightarrow> 'a outcome" where
  "save_then num now grp after result st =
    (case saveLocalGroup num now grp st of
       (Inl e, st') \<Rightarrow> (Inl e, st')
     | (Inr _, st') \<Rightarrow> (Inr result, after st'))"

definition deleteLocalGroup :: "string \<Rightarrow> SocialStore \<Rightarrow> SocialStore" where
  "deleteLocalGroup gid st =
    (let channelIds = (case map_of (ss_groups st) gid of None \<Rightarrow> [] | Some g \<Rightarrow> map ch_id (g_channels g))
     in purge_channels channelIds (st\<lparr>ss_groups := AList.delete gid (ss_groups st)\<rparr>))"

definition createLocalGroup ::
    "(rat \<Rightarrow> string) \<Rightarrow> rat \<Rightarrow> (nat \<Rightarrow> string) \<Rightarrow> string \<Rightarrow> PublicPeerIdentity \<Rightarrow> SocialStore \<Rightarrow> LocalGroup outcome" where
  "createLocalGroup num now uuid name owner st =
    (let trimmedName = js_trim name in
     if length trimmedName < 2 \<or> length trimmedName > 80 then (Inl (JSError ''group name length''), st)
     else let grp = \<lparr>g_groupId = uuid 0, g_name = trimmedName, g_avatar = None,
            g_channels =
              [\<lparr>ch_id = uuid 3, ch_name = ''geral'', ch_kind = TextChannel, ch_voiceRoomId = None\<rparr>,
               \<lparr>ch_id = uuid 4, ch_name = ''Geral'', ch_kind = VoiceChannel, ch_voiceRoomId = Some (Some (uuid 5))\<rparr>],
            g_ownerPeerId = peerId owner, g_membershipVersion = 1, g_manifestVersion = 1,
            g_administratorPeerIds = [], g_removedPeerIds = [], g_removedMembers = [],
            g_manifestActorPeerId = Some (peerId owner), g_manifestOperationId = Some (uuid 1),
            g_administratorEpoch = Some 1, g_administratorGrants = Some [], g_revocations = Some [],
            g_rendezvousVersion = Some 1, g_rendezvousSecret = Some (uuid 2), g_ownerIdentity = None,
            g_members = [owner], g_joinedAt = now\<rparr>
          in save_then num now grp (\<lambda>s. s) grp st)"

text \<open>The local identity, if it may manage the group.\<close>

definition managing_identity :: "SocialStore \<Rightarrow> LocalGroup \<Rightarrow> LocalIdentity option" where
  "managing_identity st grp =
    (case ss_identity st of
       None \<Rightarrow> None
     | Some i \<Rightarrow> if canManageLocalGroup grp (li_peerId i) then Some i else None)"

definition addLocalGroupChannel ::
    "(rat \<Rightarrow> string) \<Rightarrow> (string \<Rightarrow> string \<Rightarrow> int) \<Rightarrow> rat \<Rightarrow> (nat \<Rightarrow> string) \<Rightarrow> string \<Rightarrow> LocalGroupChannel
     \<Rightarrow> SocialStore \<Rightarrow> unit outcome" where
  "addLocalGroupChannel num lc now uuid gid channel st0 =
    (case loadLocalGroups lc st0 of (groups, st) \<Rightarrow>
      (case find_group groups gid of
         None \<Rightarrow> (Inl (JSError ''group not found''), st)
       | Some grp \<Rightarrow>
           (case managing_identity st grp of
              None \<Rightarrow> (Inl (JSError ''only administrators change channels''), st)
            | Some identity \<Rightarrow>
                (let name = js_trim (ch_name channel) in
                 if length name < 2 \<or> length name > 80 then (Inl (JSError ''channel name length''), st)
                 else let normalized = channel\<lparr>ch_name := name\<rparr>;
                      grp' = (if \<exists>c \<in> set (g_channels grp). ch_id c = ch_id normalized then grp
                        else assign_revision (grp\<lparr>g_channels := g_channels grp @ [normalized]\<rparr>)
                               (nextGroupManifestRevision (uuid 0) grp (li_peerId identity)))
                      in save_then num now grp' (\<lambda>s. s) () st))))"

definition ensureLocalGroup ::
    "(rat \<Rightarrow> string) \<Rightarrow> (string \<Rightarrow> string \<Rightarrow> int) \<Rightarrow> rat \<Rightarrow> PublicGroupMetadata \<Rightarrow> PublicPeerIdentity \<Rightarrow> SocialStore
     \<Rightarrow> LocalGroup outcome" where
  "ensureLocalGroup num lc now metadata owner st0 =
    (case loadLocalGroups lc st0 of (groups, st) \<Rightarrow>
      (case find_group groups (g_groupId metadata) of
         Some existing \<Rightarrow> (Inr existing, st)
       | None \<Rightarrow>
           (let local = PublicGroupMetadata.extend (metadata\<lparr>g_avatar := None, g_ownerIdentity := None\<rparr>)
                  (LocalGroup.fields [owner] now)
            in save_then num now local (\<lambda>s. s) local st)))"

definition addLocalGroupMember ::
    "(rat \<Rightarrow> string) \<Rightarrow> (string \<Rightarrow> string \<Rightarrow> int) \<Rightarrow> rat \<Rightarrow> (nat \<Rightarrow> string) \<Rightarrow> PublicGroupMetadata
     \<Rightarrow> PublicPeerIdentity \<Rightarrow> PublicPeerIdentity \<Rightarrow> SocialStore \<Rightarrow> unit outcome" where
  "addLocalGroupMember num lc now uuid metadata member owner st0 =
    (if \<not> canManageLocalGroup metadata (peerId owner) then (Inl (JSError ''only administrators approve members''), st0)
     else case loadLocalGroups lc st0 of (groups, st) \<Rightarrow>
       (let base = (case find_group groups (g_groupId metadata) of
              Some current \<Rightarrow> current
            | None \<Rightarrow> PublicGroupMetadata.extend metadata (LocalGroup.fields [owner] now))
        in if peerId member \<in> set (g_removedPeerIds base)
              \<or> (\<exists>c \<in> set (g_removedMembers base). samePeerIdentity c member)
           then (Inl (JSError ''identity was revoked''), st)
           else if \<not> (\<exists>m \<in> set (g_members base). samePeerIdentity m member)
              \<and> length (g_members base) \<ge> MAX_GROUP_MEMBERS
           then (Inl (JSError ''member limit''), st)
           else let members = upsertGroupMemberIdentity (g_members base) member;
                    bumped = base\<lparr>g_manifestVersion := max (g_manifestVersion metadata) (g_manifestVersion base)\<rparr>;
                    grp' = assign_revision
                      (base\<lparr>g_members := members,
                            g_membershipVersion := max (g_membershipVersion metadata) (g_membershipVersion base) + 1\<rparr>)
                      (nextGroupManifestRevision (uuid 0) bumped (peerId owner))
                in save_then num now grp' (dispatch SocialUpdated) () st))"

definition updateLocalGroupProfile ::
    "(rat \<Rightarrow> string) \<Rightarrow> (string \<Rightarrow> string \<Rightarrow> int) \<Rightarrow> rat \<Rightarrow> (nat \<Rightarrow> string) \<Rightarrow> string \<Rightarrow> string \<Rightarrow> string option
     \<Rightarrow> SocialStore \<Rightarrow> LocalGroup outcome" where
  "updateLocalGroupProfile num lc now uuid gid name avatar' st0 =
    (case loadLocalGroups lc st0 of (groups, st) \<Rightarrow>
      (case find_group groups gid of
         None \<Rightarrow> (Inl (JSError ''group not found''), st)
       | Some grp \<Rightarrow>
           (case managing_identity st grp of
              None \<Rightarrow> (Inl (JSError ''only administrators personalise''), st)
            | Some identity \<Rightarrow>
                (let normalizedName = js_trim name in
                 if length normalizedName < 2 \<or> length normalizedName > 80 then (Inl (JSError ''group name length''), st)
                 else if (case avatar' of None \<Rightarrow> False | Some a \<Rightarrow> \<not> valid_avatar a)
                 then (Inl (JSError ''invalid group image''), st)
                 else if g_name grp = normalizedName \<and> g_avatar grp = avatar' then (Inr grp, st)
                 else let updated = assign_revision (grp\<lparr>g_name := normalizedName, g_avatar := avatar'\<rparr>)
                            (nextGroupManifestRevision (uuid 0) grp (li_peerId identity))
                      in save_then num now updated (dispatch SocialUpdated) updated st))))"

definition setLocalGroupAdministrator ::
    "(rat \<Rightarrow> string) \<Rightarrow> (string \<Rightarrow> string \<Rightarrow> int) \<Rightarrow> (CryptoKey \<Rightarrow> string \<Rightarrow> nat list) \<Rightarrow> rat \<Rightarrow> (nat \<Rightarrow> string)
     \<Rightarrow> string \<Rightarrow> string \<Rightarrow> bool \<Rightarrow> SocialStore \<Rightarrow> LocalGroup outcome" where
  "setLocalGroupAdministrator num lc sign now uuid gid target administrator st0 =
    (case loadLocalGroups lc st0 of (groups, st) \<Rightarrow>
      (case find_group groups gid of
         None \<Rightarrow> (Inl (JSError ''group not found''), st)
       | Some grp \<Rightarrow>
           (case ss_identity st of
              None \<Rightarrow> (Inl (JSError ''only the owner sets administrators''), st)
            | Some identity \<Rightarrow>
                if li_peerId identity \<noteq> g_ownerPeerId grp then (Inl (JSError ''only the owner sets administrators''), st)
                else if target = g_ownerPeerId grp then (Inl (JSError ''owner has all permissions''), st)
                else if \<not> (\<exists>m \<in> set (g_members grp). peerId m = target) then (Inl (JSError ''member not found''), st)
                else
                  (let current = uniq (g_administratorPeerIds grp);
                       administrators = (if administrator then uniq (current @ [target]) else filter (\<lambda>p. p \<noteq> target) current);
                       epoch = epoch_of grp + 1
                   in case map_result (\<lambda>(i, p).
                          (case find_peer (g_members grp) p of
                             None \<Rightarrow> Inl (JSError ''unknown administrator'')
                           | Some m \<Rightarrow> createGroupAdministratorGrant num sign (uuid i) now grp m identity epoch))
                        (enumerate 0 administrators) of
                       Inl e \<Rightarrow> (Inl e, st)
                     | Inr grants \<Rightarrow>
                         (let updated = assign_revision
                            (grp\<lparr>g_administratorPeerIds := administrators, g_administratorGrants := Some grants,
                                 g_administratorEpoch := Some epoch\<rparr>)
                            (nextGroupManifestRevision (uuid (length administrators)) grp (li_peerId identity))
                          in save_then num now updated (dispatch SocialUpdated) updated st)))))"

text \<open>The group after the removal of \<open>target\<close> with its certificate and the renewed grants.\<close>

definition removed_group ::
    "(string \<Rightarrow> string \<Rightarrow> int) \<Rightarrow> string \<Rightarrow> LocalGroup \<Rightarrow> LocalIdentity \<Rightarrow> PublicPeerIdentity
     \<Rightarrow> GroupRevocationCertificate \<Rightarrow> GroupAdministratorGrant list \<Rightarrow> int \<Rightarrow> string \<Rightarrow> LocalGroup" where
  "removed_group lc operation grp identity target certificate grants epoch secret =
    assign_revision
      (grp\<lparr>g_members := filter (\<lambda>m. \<not> samePeerIdentity m target) (g_members grp),
           g_administratorPeerIds := filter (\<lambda>p. p \<noteq> peerId target) (g_administratorPeerIds grp),
           g_removedPeerIds := uniq (g_removedPeerIds grp @ [peerId target]),
           g_removedMembers := dedupePeerIdentities (g_removedMembers grp @ [target]) None,
           g_revocations := Some (mergeGroupRevocations lc (revocations_of grp) [certificate]),
           g_membershipVersion := g_membershipVersion grp + 1,
           g_administratorEpoch := Some epoch,
           g_administratorGrants := Some grants,
           g_rendezvousVersion := Some (rendezvous_version_of grp + 1),
           g_rendezvousSecret := Some secret\<rparr>)
      (nextGroupManifestRevision operation grp (li_peerId identity))"

definition removeLocalGroupMember ::
    "(rat \<Rightarrow> string) \<Rightarrow> (string \<Rightarrow> string \<Rightarrow> int) \<Rightarrow> (CryptoKey \<Rightarrow> string \<Rightarrow> nat list) \<Rightarrow> rat \<Rightarrow> (nat \<Rightarrow> string)
     \<Rightarrow> string \<Rightarrow> string \<Rightarrow> SocialStore \<Rightarrow> LocalGroup outcome" where
  "removeLocalGroupMember num lc sign now uuid gid targetId st0 =
    (case loadLocalGroups lc st0 of (groups, st) \<Rightarrow>
      (case find_group groups gid of
         None \<Rightarrow> (Inl (JSError ''group not found''), st)
       | Some grp \<Rightarrow>
           (case managing_identity st grp of
              None \<Rightarrow> (Inl (JSError ''only administrators remove members''), st)
            | Some identity \<Rightarrow>
                if targetId = g_ownerPeerId grp then (Inl (JSError ''owner cannot be removed''), st)
                else if targetId \<in> set (g_administratorPeerIds grp) \<and> li_peerId identity \<noteq> g_ownerPeerId grp
                then (Inl (JSError ''only the owner removes an administrator''), st)
                else (case find_peer (g_members grp) targetId of
                    None \<Rightarrow> (Inl (JSError ''member not found''), st)
                  | Some target \<Rightarrow>
                      if \<not> (\<exists>c \<in> set (revocations_of grp). rc_targetPeerId c = targetId)
                         \<and> length (revocations_of grp) \<ge> MAX_GROUP_REVOCATIONS
                      then (Inl (JSError ''revocation limit''), st)
                      else
                        (let wasAdministrator = targetId \<in> set (g_administratorPeerIds grp);
                             epoch = epoch_of grp + (if wasAdministrator then 1 else 0);
                             secret = uuid 0;
                             rotated = grp\<lparr>g_administratorEpoch := Some epoch,
                               g_rendezvousVersion := Some (rendezvous_version_of grp + 1), g_rendezvousSecret := Some secret\<rparr>;
                             remaining = filter (\<lambda>p. p \<noteq> targetId) (g_administratorPeerIds grp)
                         in case createGroupRevocationCertificate num sign (uuid 1) now rotated target identity
                               (g_membershipVersion grp + 1) of
                              Inl e \<Rightarrow> (Inl e, st)
                            | Inr certificate \<Rightarrow>
                                (case (if wasAdministrator
                                       then map_result (\<lambda>(i, p).
                                          (case find_peer (g_members grp) p of
                                             None \<Rightarrow> Inl (JSError ''unknown administrator'')
                                           | Some m \<Rightarrow> createGroupAdministratorGrant num sign (uuid i) now grp m identity epoch))
                                         (enumerate 2 remaining)
                                       else Inr (filter (\<lambda>g. gr_administratorPeerId g \<noteq> targetId) (grants_of grp))) of
                                   Inl e \<Rightarrow> (Inl e, st)
                                 | Inr grants \<Rightarrow>
                                     (let updated = removed_group lc (uuid (length remaining + 2)) grp identity target
                                            certificate grants epoch secret
                                      in save_then num now updated (dispatch SocialUpdated) updated st)))))))"

definition mergeLocalGroupMembers ::
    "(rat \<Rightarrow> string) \<Rightarrow> (string \<Rightarrow> string \<Rightarrow> int) \<Rightarrow> rat \<Rightarrow> string \<Rightarrow> PublicPeerIdentity list \<Rightarrow> string \<Rightarrow> int
     \<Rightarrow> SocialStore \<Rightarrow> LocalGroup outcome" where
  "mergeLocalGroupMembers num lc now gid incoming ownerPeerId version st0 =
    (case loadLocalGroups lc st0 of (groups, st) \<Rightarrow>
      (case find_group groups gid of
         None \<Rightarrow> (Inl (JSError ''group not found''), st)
       | Some grp \<Rightarrow>
           if g_ownerPeerId grp \<noteq> ownerPeerId \<or> version \<le> g_membershipVersion grp then (Inr grp, st)
           else let members = dedupePeerIdentities incoming None in
             (case (find_peer (g_members grp) ownerPeerId, find_peer members ownerPeerId) of
                (Some known, Some new) \<Rightarrow>
                  if \<not> samePublicKey (publicKey known) (publicKey new) then (Inr grp, st)
                  else let merged = grp\<lparr>g_members := members, g_membershipVersion := version\<rparr> in
                    if (case ss_identity st of
                          None \<Rightarrow> False
                        | Some i \<Rightarrow> \<not> (\<exists>m \<in> set members. peerId m = li_peerId i \<and> samePublicKey (publicKey m) (li_publicKey i)))
                    then (Inr merged, dispatch SocialUpdated (deleteLocalGroup gid st))
                    else save_then num now merged (\<lambda>s. s) merged st
              | _ \<Rightarrow> (Inr grp, st))))"

fun stableCanonicalValue :: "(rat \<Rightarrow> string) \<Rightarrow> (string \<Rightarrow> string \<Rightarrow> int) \<Rightarrow> jsval \<Rightarrow> string" where
  "stableCanonicalValue num lc (JArr xs) =
     CHR ''['' # join_with '','' (map (stableCanonicalValue num lc) xs) @ '']''"
| "stableCanonicalValue num lc (JObj ps) =
     CHR ''{'' # join_with '','' (map (\<lambda>p. jtext num (JStr (fst p)) @ '':'' @ stableCanonicalValue num lc (snd p))
       (sort_cmp (\<lambda>l r. lc (fst l) (fst r)) (filter (\<lambda>p. snd p \<noteq> JUndefined) ps))) @ ''}''"
| "stableCanonicalValue num lc v = jtext num v"

definition identity_js :: "PublicPeerIdentity \<Rightarrow> jsval" where
  "identity_js m = JObj [(''peerId'', JStr (peerId m)), (''publicKey'', key_js (publicKey m)),
     (''displayName'', JStr (displayName m)), (''avatar'', js_or_undefined JStr (avatar m))]"

definition manifest_state :: "LocalGroup \<Rightarrow> jsval" where
  "manifest_state grp = JObj
    [(''groupId'', JStr (g_groupId grp)), (''name'', JStr (g_name grp)),
     (''avatar'', js_or_undefined JStr (g_avatar grp)), (''channels'', JArr (map channel_js (g_channels grp))),
     (''ownerPeerId'', JStr (g_ownerPeerId grp)), (''membershipVersion'', JInt (g_membershipVersion grp)),
     (''manifestVersion'', JInt (g_manifestVersion grp)),
     (''manifestActorPeerId'', js_or_undefined JStr (g_manifestActorPeerId grp)),
     (''manifestOperationId'', js_or_undefined JStr (g_manifestOperationId grp)),
     (''administratorEpoch'', js_or_undefined (\<lambda>n. JInt n) (g_administratorEpoch grp)),
     (''administratorPeerIds'', JArr (map JStr (g_administratorPeerIds grp))),
     (''administratorGrants'', js_or_undefined (\<lambda>gs. JArr (map grant_js gs)) (g_administratorGrants grp)),
     (''removedPeerIds'', JArr (map JStr (g_removedPeerIds grp))),
     (''removedMembers'', JArr (map identity_js (g_removedMembers grp))),
     (''revocations'', js_or_undefined (\<lambda>rs. JArr (map revocation_js rs)) (g_revocations grp)),
     (''rendezvousVersion'', js_or_undefined (\<lambda>n. JInt n) (g_rendezvousVersion grp)),
     (''rendezvousSecret'', js_or_undefined JStr (g_rendezvousSecret grp)),
     (''ownerIdentity'', js_or_undefined identity_js (g_ownerIdentity grp)),
     (''members'', JArr (map identity_js (g_members grp)))]"

definition sameLocalGroupManifestState ::
    "(rat \<Rightarrow> string) \<Rightarrow> (string \<Rightarrow> string \<Rightarrow> int) \<Rightarrow> LocalGroup \<Rightarrow> LocalGroup \<Rightarrow> bool" where
  "sameLocalGroupManifestState num lc left right \<longleftrightarrow>
     stableCanonicalValue num lc (manifest_state left) = stableCanonicalValue num lc (manifest_state right)"

definition mergeLocalGroupManifest ::
    "(rat \<Rightarrow> string) \<Rightarrow> (string \<Rightarrow> string \<Rightarrow> int) \<Rightarrow> (JsonWebKey \<Rightarrow> nat list \<Rightarrow> string \<Rightarrow> bool) \<Rightarrow> rat
     \<Rightarrow> LocalGroup \<Rightarrow> string \<Rightarrow> SocialStore \<Rightarrow> LocalGroup outcome" where
  "mergeLocalGroupManifest num lc verify now incoming sender st0 =
    (case loadLocalGroups lc st0 of (groups, st) \<Rightarrow>
      (case find_group groups (g_groupId incoming) of
         None \<Rightarrow> (Inl (JSError ''group not found''), st)
       | Some grp \<Rightarrow>
           if \<not> validateMergedManifestRevocations num verify grp incoming sender then (Inr grp, st)
           else let merged = resolveLocalGroupManifest lc grp incoming sender in
             if (case ss_identity st of
                   None \<Rightarrow> False
                 | Some i \<Rightarrow> \<not> (\<exists>m \<in> set (g_members merged). samePeerIdentity m (publicIdentity i)))
             then (Inr merged, dispatch SocialUpdated (dispatch (GroupRemoved (g_groupId grp) (g_name grp))
                     (deleteLocalGroup (g_groupId grp) st)))
             else if sameLocalGroupManifestState num lc grp merged then (Inr grp, st)
             else save_then num now merged
                    (\<lambda>s. dispatch SocialUpdated (purge_channels
                       (map ch_id (filter (\<lambda>c. ch_id c \<notin> ch_id ` set (g_channels merged)) (g_channels grp))) s))
                    merged st))"

definition applyGroupRevocationCertificate ::
    "(rat \<Rightarrow> string) \<Rightarrow> (string \<Rightarrow> string \<Rightarrow> int) \<Rightarrow> (JsonWebKey \<Rightarrow> nat list \<Rightarrow> string \<Rightarrow> bool) \<Rightarrow> rat
     \<Rightarrow> GroupRevocationCertificate \<Rightarrow> SocialStore \<Rightarrow> bool outcome" where
  "applyGroupRevocationCertificate num lc verify now certificate st0 =
    (case loadLocalGroups lc st0 of (groups, st) \<Rightarrow>
      (case find_group groups (rc_groupId certificate) of
         None \<Rightarrow> (Inr False, st)
       | Some grp \<Rightarrow>
           if \<not> verifyGroupRevocationCertificate num verify certificate grp False then (Inr False, st)
           else let updated = revoked_group lc certificate grp in
             if (case ss_identity st of
                   None \<Rightarrow> False
                 | Some i \<Rightarrow> li_peerId i = rc_targetPeerId certificate
                     \<and> samePublicKey (li_publicKey i) (rc_targetPublicKey certificate))
             then (Inr True, dispatch SocialUpdated (dispatch (GroupRemoved (g_groupId grp) (g_name grp))
                     (deleteLocalGroup (g_groupId grp) st)))
             else save_then num now updated (dispatch SocialUpdated) True st))"

text \<open>
  \<^verbatim>\<open>updateKnownPeerProfile\<close> goes through the groups in order and stops at the first save that throws.
\<close>

fun update_profile_in :: "(rat \<Rightarrow> string) \<Rightarrow> rat \<Rightarrow> PublicPeerIdentity \<Rightarrow> LocalGroup list \<Rightarrow> SocialStore \<Rightarrow> unit outcome" where
  "update_profile_in num now peer [] st = (Inr (), st)"
| "update_profile_in num now peer (grp # groups) st =
    (case find_index (\<lambda>m. samePeerIdentity m peer) (g_members grp) of
       None \<Rightarrow> update_profile_in num now peer groups st
     | Some i \<Rightarrow>
         if \<not> samePublicKey (publicKey (g_members grp ! i)) (publicKey peer)
         then update_profile_in num now peer groups st
         else (case saveLocalGroup num now (grp\<lparr>g_members := (g_members grp)[i := peer]\<rparr>) st of
             (Inl e, st') \<Rightarrow> (Inl e, st')
           | (Inr _, st') \<Rightarrow> update_profile_in num now peer groups st'))"

definition saveLocalFriend :: "LocalFriend \<Rightarrow> SocialStore \<Rightarrow> SocialStore" where
  "saveLocalFriend friend st = st\<lparr>ss_friends := AList.update (peerId friend) friend (ss_friends st)\<rparr>"

definition deleteLocalFriend :: "string \<Rightarrow> SocialStore \<Rightarrow> SocialStore" where
  "deleteLocalFriend p st = st\<lparr>ss_friends := AList.delete p (ss_friends st)\<rparr>"

definition updateKnownPeerProfile ::
    "(rat \<Rightarrow> string) \<Rightarrow> (string \<Rightarrow> string \<Rightarrow> int) \<Rightarrow> rat \<Rightarrow> PublicPeerIdentity \<Rightarrow> SocialStore \<Rightarrow> unit outcome" where
  "updateKnownPeerProfile num lc now peer st0 =
    (case loadLocalGroups lc st0 of (groups, st) \<Rightarrow>
      (case update_profile_in num now peer groups st of
         (Inl e, st') \<Rightarrow> (Inl e, st')
       | (Inr _, st') \<Rightarrow>
           (let friends = map_values (ss_friends st');
                st'' = (case List.find (\<lambda>f. samePeerIdentity (PublicPeerIdentity.truncate f) peer) friends of
                   None \<Rightarrow> st'
                 | Some friend \<Rightarrow> saveLocalFriend (PublicPeerIdentity.extend peer (LocalFriend.fields (addedAt friend))) st')
            in (Inr (), dispatch SocialUpdated st''))))"

text \<open>
  \<^verbatim>\<open>repairLocalIdentityAliases\<close>: the loop over the groups, with the number of \<^verbatim>\<open>randomUUID\<close> calls so far
  and the number of aliases removed.
\<close>

fun repair_in ::
    "(rat \<Rightarrow> string) \<Rightarrow> (string \<Rightarrow> string \<Rightarrow> int) \<Rightarrow> (CryptoKey \<Rightarrow> string \<Rightarrow> nat list) \<Rightarrow> rat \<Rightarrow> (nat \<Rightarrow> string)
     \<Rightarrow> LocalIdentity \<Rightarrow> LocalGroup list \<Rightarrow> nat \<Rightarrow> nat \<Rightarrow> SocialStore \<Rightarrow> nat outcome" where
  "repair_in num lc sign now uuid identity [] k removedCount st = (Inr removedCount, st)"
| "repair_in num lc sign now uuid identity (grp # groups) k removedCount st =
    (let normalizedName = js_lower (js_trim (li_displayName identity));
         aliases = filter (\<lambda>m. peerId m \<noteq> li_peerId identity
           \<and> js_lower (js_trim (displayName m)) = normalizedName) (g_members grp);
         aliasIds = uniq (map peerId aliases)
     in if g_ownerPeerId grp \<noteq> li_peerId identity \<or> aliases = []
        then repair_in num lc sign now uuid identity groups k removedCount st
        else let pruned = grp\<lparr>g_members := filter (\<lambda>m. peerId m \<notin> set aliasIds) (g_members grp),
                   g_removedPeerIds := uniq (g_removedPeerIds grp @ aliasIds),
                   g_removedMembers := dedupePeerIdentities (g_removedMembers grp @ aliases) None,
                   g_membershipVersion := g_membershipVersion grp + 1\<rparr>
             in case map_result (\<lambda>(i, a). createGroupRevocationCertificate num sign (uuid i) now pruned a identity
                       (g_membershipVersion pruned)) (enumerate k aliases) of
                  Inl e \<Rightarrow> (Inl e, st)
                | Inr certificates \<Rightarrow>
                    (let updated = assign_revision
                         (pruned\<lparr>g_revocations := Some (mergeGroupRevocations lc (revocations_of pruned) certificates)\<rparr>)
                         (nextGroupManifestRevision (uuid (k + length aliases)) pruned (li_peerId identity))
                     in case saveLocalGroup num now updated st of
                          (Inl e, st') \<Rightarrow> (Inl e, st')
                        | (Inr _, st') \<Rightarrow> repair_in num lc sign now uuid identity groups (k + length aliases + 1)
                            (removedCount + length aliases) st'))"

definition repairLocalIdentityAliases ::
    "(rat \<Rightarrow> string) \<Rightarrow> (string \<Rightarrow> string \<Rightarrow> int) \<Rightarrow> (CryptoKey \<Rightarrow> string \<Rightarrow> nat list) \<Rightarrow> rat \<Rightarrow> (nat \<Rightarrow> string)
     \<Rightarrow> SocialStore \<Rightarrow> nat outcome" where
  "repairLocalIdentityAliases num lc sign now uuid st0 =
    (case ss_identity st0 of
       None \<Rightarrow> (Inl (JSError ''no local identity''), st0)
     | Some identity \<Rightarrow>
         (case loadLocalGroups lc st0 of (groups, st) \<Rightarrow>
           (case repair_in num lc sign now uuid identity groups 0 0 st of
              (Inl e, st') \<Rightarrow> (Inl e, st')
            | (Inr n, st') \<Rightarrow> (Inr n, if n \<noteq> 0 then dispatch SocialUpdated st' else st'))))"

section \<open>Operations on the local identity\<close>

text \<open>
  A stored private key is taken to be non-extractable already; \<open>fresh\<close> is the result of
  generating a key pair (the exported public key and the private key).
\<close>

definition put_identity :: "LocalIdentity \<Rightarrow> SocialStore \<Rightarrow> SocialStore" where
  "put_identity identity st = st\<lparr>ss_identity := Some identity\<rparr>"

definition getOrCreateLocalIdentity ::
    "(string \<Rightarrow> string \<Rightarrow> int) \<Rightarrow> string \<Rightarrow> JsonWebKey \<times> CryptoKey \<Rightarrow> string \<Rightarrow> SocialStore \<Rightarrow> LocalIdentity \<times> SocialStore" where
  "getOrCreateLocalIdentity lc uuid fresh name st =
    (case ss_identity st of
       Some existing \<Rightarrow>
         (let existing' = (if li_displayName existing \<noteq> name then existing\<lparr>li_displayName := name\<rparr> else existing);
              st' = (if li_displayName existing \<noteq> name then put_identity existing' st else st)
          in (existing', snd (loadLocalGroups lc st')))
     | None \<Rightarrow>
         (let identity = \<lparr>li_peerId = uuid, li_publicKey = fst fresh, li_displayName = name, li_avatar = None,
                li_privateKey = snd fresh\<rparr>
          in (identity, snd (loadLocalGroups lc (put_identity identity st)))))"

definition updateLocalIdentityProfile ::
    "(string \<Rightarrow> string \<Rightarrow> int) \<Rightarrow> string \<Rightarrow> string option \<Rightarrow> SocialStore \<Rightarrow> LocalIdentity outcome" where
  "updateLocalIdentityProfile lc name avatar' st =
    (case ss_identity st of
       None \<Rightarrow> (Inl (JSError ''no local profile''), st)
     | Some identity \<Rightarrow>
         (let updated = identity\<lparr>li_displayName := name, li_avatar := avatar'\<rparr>
          in (Inr updated, snd (loadLocalGroups lc (put_identity updated st)))))"

definition saveLocalProfile ::
    "(string \<Rightarrow> string \<Rightarrow> int) \<Rightarrow> string \<Rightarrow> string option \<Rightarrow> SocialStore \<Rightarrow> (string \<times> string option) outcome" where
  "saveLocalProfile lc displayName' avatar' st =
    (let name = js_trim displayName' in
     if length name < 2 \<or> length name > 80 then (Inl (JSError ''profile name length''), st)
     else if (case avatar' of None \<Rightarrow> False | Some a \<Rightarrow> \<not> valid_avatar a) then (Inl (JSError ''invalid profile image''), st)
     else case updateLocalIdentityProfile lc name avatar' st of
       (Inl e, st') \<Rightarrow> (Inl e, st')
     | (Inr identity, st') \<Rightarrow> (Inr (li_displayName identity, li_avatar identity), st'))"

section \<open>Well-formed stores\<close>

text \<open>Every group is stored under its own identifier, once.\<close>

definition wf_store :: "SocialStore \<Rightarrow> bool" where
  "wf_store st \<longleftrightarrow> wf_map (ss_groups st) \<and> (\<forall>k g. map_of (ss_groups st) k = Some g \<longrightarrow> g_groupId g = k)"

lemma wf_store_put [simp]: "wf_store st \<Longrightarrow> wf_store (put_group grp st)"
  by (auto simp: wf_store_def put_group_def)

lemma wf_store_misc [simp]:
  "wf_store (dispatch e st) = wf_store st" "wf_store (purge_channels ids st) = wf_store st"
  "wf_store (put_identity i st) = wf_store st" "wf_store (saveLocalFriend f st) = wf_store st"
  "wf_store (deleteLocalFriend p st) = wf_store st"
  by (simp_all add: wf_store_def dispatch_def purge_channels_def put_identity_def saveLocalFriend_def deleteLocalFriend_def)

lemma wf_store_delete [simp]: "wf_store st \<Longrightarrow> wf_store (deleteLocalGroup gid st)"
  by (auto simp: wf_store_def deleteLocalGroup_def purge_channels_def)

lemma wf_store_reconcile:
  "wf_store st \<Longrightarrow> wf_store (snd (reconcileIdentityMembership lc groups identity st))"
  unfolding reconcileIdentityMembership_def snd_conv
  by (induction groups arbitrary: st) (auto split: prod.splits)

lemma wf_store_load [simp]: "wf_store st \<Longrightarrow> wf_store (snd (loadLocalGroups lc st))"
  by (simp add: loadLocalGroups_def wf_store_reconcile)

lemma wf_store_save [simp]: "wf_store st \<Longrightarrow> wf_store (snd (saveLocalGroup num now grp st))"
  by (auto simp: saveLocalGroup_def split: sum.splits)

section \<open>Effects of the operations\<close>

lemma save_then_Inr:
  assumes "save_then num now grp after result st = (Inr r, st')"
  shows "r = result" "st' = after (put_group grp st)"
  using assms by (cases "assertLocalGroupSyncBudget num now grp"; simp add: save_then_def saveLocalGroup_def)+

lemma managing_identity_Some:
  "managing_identity st grp = Some i \<longleftrightarrow> ss_identity st = Some i \<and> canManageLocalGroup grp (li_peerId i)"
  by (auto simp: managing_identity_def split: option.splits if_splits)

lemma assign_revision_next:
  "assign_revision grp (nextGroupManifestRevision u h actor) =
     grp\<lparr>g_manifestVersion := max 1 (g_manifestVersion h) + 1, g_manifestActorPeerId := Some actor, g_manifestOperationId := Some u\<rparr>"
  by (simp add: assign_revision_def nextGroupManifestRevision_def)

lemma compare_newer: "g_manifestVersion b < g_manifestVersion a \<Longrightarrow> compareGroupManifestRevisions lc a b > 0"
  by (simp add: compareGroupManifestRevisions_def)

text \<open>A successful removal went through all the guards and saved \<open>removed_group\<close>.\<close>

lemma removeLocalGroupMember_Inr:
  assumes "removeLocalGroupMember num lc sign now uuid gid p st0 = (Inr g', st')"
  obtains grp identity target certificate grants where
    "find_group (fst (loadLocalGroups lc st0)) gid = Some grp"
    "ss_identity (snd (loadLocalGroups lc st0)) = Some identity" "canManageLocalGroup grp (li_peerId identity)"
    "p \<noteq> g_ownerPeerId grp" "p \<in> set (g_administratorPeerIds grp) \<longrightarrow> li_peerId identity = g_ownerPeerId grp"
    "find_peer (g_members grp) p = Some target"
    "createGroupRevocationCertificate num sign (uuid 1) now
       (grp\<lparr>g_administratorEpoch := Some (epoch_of grp + (if p \<in> set (g_administratorPeerIds grp) then 1 else 0)),
            g_rendezvousVersion := Some (rendezvous_version_of grp + 1), g_rendezvousSecret := Some (uuid 0)\<rparr>)
       target identity (g_membershipVersion grp + 1) = Inr certificate"
    "g' = removed_group lc (uuid (length (filter (\<lambda>q. q \<noteq> p) (g_administratorPeerIds grp)) + 2)) grp identity target
        certificate grants (epoch_of grp + (if p \<in> set (g_administratorPeerIds grp) then 1 else 0)) (uuid 0)"
    "st' = dispatch SocialUpdated (put_group g' (snd (loadLocalGroups lc st0)))"
proof -
  obtain groups st where load: "loadLocalGroups lc st0 = (groups, st)" by fastforce
  note R = assms [unfolded removeLocalGroupMember_def load prod.case]
  from R obtain grp where grp: "find_group groups gid = Some grp" by (cases "find_group groups gid") simp_all
  note R = R [unfolded grp option.case]
  from R obtain identity where i: "managing_identity st grp = Some identity"
    by (cases "managing_identity st grp") simp_all
  note R = R [unfolded i option.case]
  from R have g: "p \<noteq> g_ownerPeerId grp" "\<not> (p \<in> set (g_administratorPeerIds grp) \<and> li_peerId identity \<noteq> g_ownerPeerId grp)"
    by (auto split: if_splits)
  note R = R [unfolded if_not_P [OF g(1)] if_not_P [OF g(2)]]
  from R obtain target where t: "find_peer (g_members grp) p = Some target"
    by (cases "find_peer (g_members grp) p") simp_all
  note R = R [unfolded t option.case Let_def]
  from R obtain certificate grants where
    "createGroupRevocationCertificate num sign (uuid 1) now
       (grp\<lparr>g_administratorEpoch := Some (epoch_of grp + (if p \<in> set (g_administratorPeerIds grp) then 1 else 0)),
            g_rendezvousVersion := Some (rendezvous_version_of grp + 1), g_rendezvousSecret := Some (uuid 0)\<rparr>)
       target identity (g_membershipVersion grp + 1) = Inr certificate"
    and sv: "save_then num now (removed_group lc (uuid (length (filter (\<lambda>q. q \<noteq> p) (g_administratorPeerIds grp)) + 2)) grp identity target
        certificate grants (epoch_of grp + (if p \<in> set (g_administratorPeerIds grp) then 1 else 0)) (uuid 0))
        (dispatch SocialUpdated) (removed_group lc (uuid (length (filter (\<lambda>q. q \<noteq> p) (g_administratorPeerIds grp)) + 2)) grp identity target
        certificate grants (epoch_of grp + (if p \<in> set (g_administratorPeerIds grp) then 1 else 0)) (uuid 0)) st = (Inr g', st')"
    by (simp split: if_split_asm sum.split_asm)
  with that grp i g t load save_then_Inr [OF sv] show thesis
    by (simp add: managing_identity_Some)
qed


lemma save_then_Inl: "save_then num now grp after result st = (Inl e, st') \<Longrightarrow> st' = st"
  by (cases "assertLocalGroupSyncBudget num now grp") (simp_all add: save_then_def saveLocalGroup_def)

lemma removeLocalGroupMember_Inl:
  assumes "removeLocalGroupMember num lc sign now uuid gid p st0 = (Inl e, st')"
  shows "ss_groups st' = ss_groups (snd (loadLocalGroups lc st0))"
  using assms unfolding removeLocalGroupMember_def Let_def
  by (auto split: prod.split_asm option.split_asm if_split_asm sum.split_asm dest: save_then_Inl)

text \<open>C22: Removing a member does all a removal has to: the saved group has neither the target nor an
  alias of it as a member or administrator, marks it as removed without forgetting earlier
  removals, rotates the rendezvous secret under a new version, raises the administrator epoch
  exactly when an administrator was removed, and supersedes the previous revision; it
  only succeeds for a target other than the owner, and for an administrator only if the owner
  asks; and when it throws, no group is changed beyond the repair on loading.\<close>

theorem removeLocalGroupMember_effect:
  "case removeLocalGroupMember num lc sign now uuid gid p st0 of
     (Inl e, st') \<Rightarrow> ss_groups st' = ss_groups (snd (loadLocalGroups lc st0))
   | (Inr g', st') \<Rightarrow> (\<exists>grp target identity. find_group (fst (loadLocalGroups lc st0)) gid = Some grp
    \<and> find_peer (g_members grp) p = Some target \<and> p \<noteq> g_ownerPeerId grp
    \<and> ss_identity (snd (loadLocalGroups lc st0)) = Some identity
    \<and> (li_peerId identity = g_ownerPeerId grp
       \<or> li_peerId identity \<in> set (g_administratorPeerIds grp) - {p} \<and> p \<in> - set (g_administratorPeerIds grp))
    \<and> map_of (ss_groups st') (g_groupId grp) = Some g'
    \<and> list_all (\<lambda>m. \<not> samePeerIdentity m target) (g_members g') \<and> p \<notin> set (g_administratorPeerIds g')
    \<and> set (g_removedPeerIds g') = insert p (set (g_removedPeerIds grp))
    \<and> g_rendezvousVersion g' = Some (rendezvous_version_of grp + 1) \<and> g_rendezvousSecret g' = Some (uuid 0)
    \<and> epoch_of g' = epoch_of grp + (if p \<in> set (g_administratorPeerIds grp) then 1 else 0)
    \<and> compareGroupManifestRevisions lc g' grp > 0)"
proof (cases "removeLocalGroupMember num lc sign now uuid gid p st0")
  case (Pair r st')
  show ?thesis
  proof (cases r)
    case (Inl e)
    with Pair removeLocalGroupMember_Inl show ?thesis by simp
  next
    case (Inr g')
    from Pair [unfolded Inr] show ?thesis
    proof (rule removeLocalGroupMember_Inr)
      fix grp identity target certificate grants
      assume *: "find_group (fst (loadLocalGroups lc st0)) gid = Some grp"
        "ss_identity (snd (loadLocalGroups lc st0)) = Some identity" "canManageLocalGroup grp (li_peerId identity)"
        "p \<noteq> g_ownerPeerId grp" "p \<in> set (g_administratorPeerIds grp) \<longrightarrow> li_peerId identity = g_ownerPeerId grp"
        "find_peer (g_members grp) p = Some target"
        and g': "g' = removed_group lc (uuid (length (filter (\<lambda>q. q \<noteq> p) (g_administratorPeerIds grp)) + 2)) grp identity target
            certificate grants (epoch_of grp + (if p \<in> set (g_administratorPeerIds grp) then 1 else 0)) (uuid 0)"
        and st': "st' = dispatch SocialUpdated (put_group g' (snd (loadLocalGroups lc st0)))"
      have t: "peerId target = p" using find_peer_Some [OF *(6)] by simp
      have id: "g_groupId g' = g_groupId grp" by (simp add: g' removed_group_def assign_revision_next)
      have "compareGroupManifestRevisions lc g' grp > 0"
        by (rule compare_newer) (simp add: g' removed_group_def assign_revision_next)
      moreover have "map_of (ss_groups st') (g_groupId grp) = Some g'"
        by (simp add: st' put_group_def dispatch_def id)
      moreover have "list_all (\<lambda>m. \<not> samePeerIdentity m target) (g_members g') \<and> p \<notin> set (g_administratorPeerIds g')
        \<and> set (g_removedPeerIds g') = insert p (set (g_removedPeerIds grp))
        \<and> g_rendezvousVersion g' = Some (rendezvous_version_of grp + 1) \<and> g_rendezvousSecret g' = Some (uuid 0)
        \<and> epoch_of g' = epoch_of grp + (if p \<in> set (g_administratorPeerIds grp) then 1 else 0)"
        by (simp add: g' removed_group_def assign_revision_next t list_all_iff)
      moreover have "li_peerId identity = g_ownerPeerId grp
           \<or> li_peerId identity \<in> set (g_administratorPeerIds grp) - {p} \<and> p \<in> - set (g_administratorPeerIds grp)"
        using *(3,5) by (auto simp: canManageLocalGroup_def)
      ultimately show ?thesis using * Pair Inr by (simp only: prod.case sum.case) blast
    qed
  qed
qed

section \<open>Administrators\<close>

lemma setLocalGroupAdministrator_Inr:
  assumes "setLocalGroupAdministrator num lc sign now uuid gid target administrator st0 = (Inr g', st')"
    and "find_group (fst (loadLocalGroups lc st0)) gid = Some grp"
  obtains identity grants where
    "ss_identity (snd (loadLocalGroups lc st0)) = Some identity" "li_peerId identity = g_ownerPeerId grp"
    "list_all2 (\<lambda>x y. (case x of (i, p) \<Rightarrow> (case find_peer (g_members grp) p of
         None \<Rightarrow> Inl (JSError ''unknown administrator'')
       | Some m \<Rightarrow> createGroupAdministratorGrant num sign (uuid i) now grp m identity (epoch_of grp + 1))) = Inr y)
       (enumerate 0 (g_administratorPeerIds g')) grants"
    "g' = grp\<lparr>g_administratorPeerIds := g_administratorPeerIds g', g_administratorGrants := Some grants,
        g_administratorEpoch := Some (epoch_of grp + 1), g_manifestVersion := max 1 (g_manifestVersion grp) + 1,
        g_manifestActorPeerId := Some (li_peerId identity), g_manifestOperationId := Some (uuid (length (g_administratorPeerIds g')))\<rparr>"
    "target \<in> set (g_administratorPeerIds g') \<longleftrightarrow> administrator" "target \<noteq> g_ownerPeerId grp"
    "set (g_administratorPeerIds g') \<union> {target} = set (g_administratorPeerIds grp) \<union> {target}"
proof -
  obtain groups st where load: "loadLocalGroups lc st0 = (groups, st)" by fastforce
  define as where "as = (if administrator then uniq (uniq (g_administratorPeerIds grp) @ [target])
     else filter (\<lambda>p. p \<noteq> target) (uniq (g_administratorPeerIds grp)))"
  have grp: "find_group groups gid = Some grp" using assms(2) load by simp
  note R = assms(1) [unfolded setLocalGroupAdministrator_def load prod.case grp option.case]
  from R obtain identity where i: "ss_identity st = Some identity" by (cases "ss_identity st") simp_all
  note R = R [unfolded i option.case Let_def, folded as_def]
  from R have g: "\<not> li_peerId identity \<noteq> g_ownerPeerId grp" "\<not> target = g_ownerPeerId grp"
      "\<not> \<not> (\<exists>m \<in> set (g_members grp). peerId m = target)"
    by (auto split: if_splits)
  note R = R [unfolded if_not_P [OF g(1)] if_not_P [OF g(2)] if_not_P [OF g(3)]]
  obtain grants where gr: "map_result (\<lambda>(i, p). (case find_peer (g_members grp) p of
         None \<Rightarrow> Inl (JSError ''unknown administrator'')
       | Some m \<Rightarrow> createGroupAdministratorGrant num sign (uuid i) now grp m identity (epoch_of grp + 1)))
       (enumerate 0 as) = Inr grants"
    using R by (simp split: sum.split_asm)
  note sv = save_then_Inr [OF R [unfolded gr sum.case]]
  have eq: "g' = grp\<lparr>g_administratorPeerIds := as, g_administratorGrants := Some grants,
        g_administratorEpoch := Some (epoch_of grp + 1), g_manifestVersion := max 1 (g_manifestVersion grp) + 1,
        g_manifestActorPeerId := Some (li_peerId identity), g_manifestOperationId := Some (uuid (length as))\<rparr>"
    using sv(1) by (simp add: assign_revision_next)
  then have as': "g_administratorPeerIds g' = as" by simp
  show thesis
  proof (rule that)
    show "ss_identity (snd (loadLocalGroups lc st0)) = Some identity" by (simp add: load i)
    show "li_peerId identity = g_ownerPeerId grp" "target \<noteq> g_ownerPeerId grp" using g by simp_all
    show "target \<in> set (g_administratorPeerIds g') \<longleftrightarrow> administrator" unfolding as' as_def by simp
    show "set (g_administratorPeerIds g') \<union> {target} = set (g_administratorPeerIds grp) \<union> {target}"
      unfolding as' as_def by auto
  qed (use map_result_Inr [OF gr] eq as' in simp_all)
qed

lemma setLocalGroupAdministrator_Inl:
  assumes "setLocalGroupAdministrator num lc sign now uuid gid target administrator st0 = (Inl e, st')"
  shows "ss_groups st' = ss_groups (snd (loadLocalGroups lc st0))"
  using assms unfolding setLocalGroupAdministrator_def Let_def
  by (auto split: prod.split_asm option.split_asm if_split_asm sum.split_asm dest: save_then_Inl)

lemma setLocalGroupAdministrator_found:
  "setLocalGroupAdministrator num lc sign now uuid gid target administrator st0 = (Inr g', st') \<Longrightarrow>
    \<exists>grp. find_group (fst (loadLocalGroups lc st0)) gid = Some grp"
  unfolding setLocalGroupAdministrator_def by (auto split: prod.split_asm option.split_asm)

text \<open>A grant that the owner's identity signed for the member \<open>m\<close> at \<open>epoch\<close>.\<close>

definition owner_grant :: "(rat \<Rightarrow> string) \<Rightarrow> (CryptoKey \<Rightarrow> string \<Rightarrow> nat list) \<Rightarrow> LocalIdentity \<Rightarrow> LocalGroup
    \<Rightarrow> int \<Rightarrow> string \<Rightarrow> GroupAdministratorGrant \<Rightarrow> bool" where
  "owner_grant num sign owner grp epoch p g \<longleftrightarrow>
     gr_administratorPeerId g = p \<and> gr_administratorEpoch g = epoch \<and> gr_groupId g = g_groupId grp
     \<and> gr_ownerPeerId g = g_ownerPeerId grp
     \<and> map_option publicKey (find_peer (g_members grp) p) = Some (gr_administratorPublicKey g)
     \<and> gr_signature g = bytesToBase64Url (sign (li_privateKey owner) (canonicalGroupAdministratorGrant num g))"

lemma createGroupAdministratorGrant_owner_grant:
  assumes "createGroupAdministratorGrant num sign uuid now grp m owner epoch = Inr g" "find_peer (g_members grp) p = Some m"
  shows "owner_grant num sign owner grp epoch p g"
proof -
  define u where "u = \<lparr>gr_version = 1, gr_groupId = g_groupId grp, gr_administratorPeerId = peerId m,
     gr_administratorPublicKey = publicKey m, gr_ownerPeerId = li_peerId owner, gr_administratorEpoch = epoch,
     gr_messageId = uuid, gr_timestamp = now, gr_signature = []\<rparr>"
  have own: "li_peerId owner = g_ownerPeerId grp"
    and g: "g = u\<lparr>gr_signature := bytesToBase64Url (sign (li_privateKey owner) (canonicalGroupAdministratorGrant num u))\<rparr>"
    using assms(1) unfolding createGroupAdministratorGrant_def Let_def u_def [symmetric] by (simp_all split: if_splits)
  have "gr_signature g = bytesToBase64Url (sign (li_privateKey owner) (canonicalGroupAdministratorGrant num g))"
    by (simp add: g)
  moreover have "gr_administratorPeerId g = p" "gr_administratorEpoch g = epoch" "gr_groupId g = g_groupId grp"
    "gr_ownerPeerId g = g_ownerPeerId grp" "gr_administratorPublicKey g = publicKey m"
    using find_peer_Some [OF assms(2)] by (simp_all add: g u_def own)
  ultimately show ?thesis using assms(2) by (simp add: owner_grant_def)
qed

text \<open>Only the owner changes the administrators; then the target is an administrator of the
  saved group exactly if that was asked, the epoch advances by one, and every administrator, the
  remaining ones too, holds a fresh grant of the new epoch that the owner signed over its member key.
  When it throws, no group is changed beyond the repair on loading.\<close>

theorem setLocalGroupAdministrator_effect:
  "case setLocalGroupAdministrator num lc sign now uuid gid target administrator st0 of
     (Inl e, st') \<Rightarrow> ss_groups st' = ss_groups (snd (loadLocalGroups lc st0))
   | (Inr g', st') \<Rightarrow> (\<exists>grp identity. find_group (fst (loadLocalGroups lc st0)) gid = Some grp
      \<and> ss_identity (snd (loadLocalGroups lc st0)) = Some identity \<and> li_peerId identity = g_ownerPeerId grp
      \<and> (target \<in> set (g_administratorPeerIds g') \<longleftrightarrow> administrator) \<and> target \<noteq> g_ownerPeerId grp
      \<and> set (g_administratorPeerIds g') \<union> {target} = set (g_administratorPeerIds grp) \<union> {target}
      \<and> epoch_of g' = epoch_of grp + 1
      \<and> list_all (\<lambda>p. list_ex (owner_grant num sign identity grp (epoch_of g') p) (grants_of g')) (g_administratorPeerIds g'))"
proof (cases "setLocalGroupAdministrator num lc sign now uuid gid target administrator st0")
  case (Pair r st')
  show ?thesis
  proof (cases r)
    case (Inl e)
    with Pair setLocalGroupAdministrator_Inl show ?thesis by simp
  next
    case (Inr g')
    note R = Pair [unfolded Inr]
    from setLocalGroupAdministrator_found [OF R] obtain grp where
      grp: "find_group (fst (loadLocalGroups lc st0)) gid = Some grp" by blast
    from R grp show ?thesis
    proof (rule setLocalGroupAdministrator_Inr)
      fix identity grants
      assume *: "ss_identity (snd (loadLocalGroups lc st0)) = Some identity" "li_peerId identity = g_ownerPeerId grp"
        "target \<in> set (g_administratorPeerIds g') \<longleftrightarrow> administrator" "target \<noteq> g_ownerPeerId grp"
        "set (g_administratorPeerIds g') \<union> {target} = set (g_administratorPeerIds grp) \<union> {target}"
        and l2: "list_all2 (\<lambda>x y. (case x of (i, p) \<Rightarrow> (case find_peer (g_members grp) p of
             None \<Rightarrow> Inl (JSError ''unknown administrator'')
           | Some m \<Rightarrow> createGroupAdministratorGrant num sign (uuid i) now grp m identity (epoch_of grp + 1))) = Inr y)
           (enumerate 0 (g_administratorPeerIds g')) grants"
        and g': "g' = grp\<lparr>g_administratorPeerIds := g_administratorPeerIds g', g_administratorGrants := Some grants,
            g_administratorEpoch := Some (epoch_of grp + 1), g_manifestVersion := max 1 (g_manifestVersion grp) + 1,
            g_manifestActorPeerId := Some (li_peerId identity), g_manifestOperationId := Some (uuid (length (g_administratorPeerIds g')))\<rparr>"
      have mem: "epoch_of g' = epoch_of grp + 1" "grants_of g' = grants"
        using arg_cong [OF g', of g_administratorEpoch] arg_cong [OF g', of g_administratorGrants] by simp_all
      have "list_ex (owner_grant num sign identity grp (epoch_of g') p) (grants_of g')"
        if "p \<in> set (g_administratorPeerIds g')" for p
      proof -
        obtain i where i: "i < length (g_administratorPeerIds g')" "g_administratorPeerIds g' ! i = p"
          using \<open>p \<in> set (g_administratorPeerIds g')\<close> by (metis in_set_conv_nth)
        then have "i < length grants" "(case find_peer (g_members grp) p of None \<Rightarrow> Inl (JSError ''unknown administrator'')
            | Some m \<Rightarrow> createGroupAdministratorGrant num sign (uuid i) now grp m identity (epoch_of grp + 1)) = Inr (grants ! i)"
          using l2 by (auto simp: list_all2_conv_all_nth nth_enumerate_eq)
        with createGroupAdministratorGrant_owner_grant show ?thesis
          by (auto simp: list_ex_iff mem split: option.split_asm intro!: bexI [of _ "grants ! i"])
      qed
      with * grp mem Pair Inr show ?thesis by (simp only: prod.case sum.case list_all_iff) blast
    qed
  qed
qed

section \<open>Adding members\<close>

text \<open>The group an approval starts from: the stored one, or one made of the invite's metadata.\<close>

definition approval_base :: "(string \<Rightarrow> string \<Rightarrow> int) \<Rightarrow> rat \<Rightarrow> PublicGroupMetadata \<Rightarrow> PublicPeerIdentity \<Rightarrow> SocialStore \<Rightarrow> LocalGroup" where
  "approval_base lc now metadata owner st0 =
    (case find_group (fst (loadLocalGroups lc st0)) (g_groupId metadata) of
       Some current \<Rightarrow> current
     | None \<Rightarrow> PublicGroupMetadata.extend metadata (LocalGroup.fields [owner] now))"

lemma upsert_member:
  "member \<in> set (upsertGroupMemberIdentity ms member)"
  "\<exists>m \<in> set ms. samePeerIdentity m member \<Longrightarrow> length (upsertGroupMemberIdentity ms member) = length ms"
  "length (upsertGroupMemberIdentity ms member) \<le> Suc (length ms)"
proof -
  show "length (upsertGroupMemberIdentity ms member) = length ms" if "\<exists>m \<in> set ms. samePeerIdentity m member"
  proof (cases "find_index (\<lambda>candidate. samePeerIdentity candidate member) ms")
    case None
    with that show ?thesis unfolding find_index_None by blast
  qed (simp add: upsertGroupMemberIdentity_def)
  show "member \<in> set (upsertGroupMemberIdentity ms member)"
  proof (cases "find_index (\<lambda>candidate. samePeerIdentity candidate member) ms")
    case (Some i)
    with find_index_Some [OF Some] show ?thesis by (simp add: upsertGroupMemberIdentity_def set_update_memI)
  qed (simp add: upsertGroupMemberIdentity_def)
  show "length (upsertGroupMemberIdentity ms member) \<le> Suc (length ms)"
    by (simp add: upsertGroupMemberIdentity_def split: option.splits)
qed

text \<open>Approving a member never readmits a revoked identity and respects the member limit: if it
  succeeds, the caller manages the group, neither the peer id nor the key of the new member was
  removed from it, the member is in the saved group, and the list grows only below the limit. If it
  throws, no group is changed beyond the repair on loading.\<close>

theorem addLocalGroupMember_effect:
  "let base = approval_base lc now metadata owner st0 in
   case addLocalGroupMember num lc now uuid metadata member owner st0 of
     (Inl e, st') \<Rightarrow> st' = st0 \<or> st' = snd (loadLocalGroups lc st0)
   | (Inr r, st') \<Rightarrow> canManageLocalGroup metadata (peerId owner)
      \<and> peerId member \<notin> set (g_removedPeerIds base)
      \<and> list_all (\<lambda>c. \<not> samePeerIdentity c member) (g_removedMembers base)
      \<and> (\<exists>g'. map_of (ss_groups st') (g_groupId base) = Some g' \<and> member \<in> set (g_members g')
           \<and> length (g_members g') \<le> max MAX_GROUP_MEMBERS (length (g_members base))
           \<and> g_removedPeerIds g' = g_removedPeerIds base
           \<and> compareGroupManifestRevisions lc g' base > 0)"
proof -
  define base where "base = approval_base lc now metadata owner st0"
  obtain groups st where load: "loadLocalGroups lc st0 = (groups, st)" by fastforce
  have b: "(case find_group groups (g_groupId metadata) of Some current \<Rightarrow> current
     | None \<Rightarrow> PublicGroupMetadata.extend metadata (LocalGroup.fields [owner] now)) = base"
    by (simp add: base_def approval_base_def load)
  let ?g = "assign_revision
      (base\<lparr>g_members := upsertGroupMemberIdentity (g_members base) member,
           g_membershipVersion := max (g_membershipVersion metadata) (g_membershipVersion base) + 1\<rparr>)
      (nextGroupManifestRevision (uuid 0) (base\<lparr>g_manifestVersion := max (g_manifestVersion metadata) (g_manifestVersion base)\<rparr>) (peerId owner))"
  have eq: "addLocalGroupMember num lc now uuid metadata member owner st0 =
    (if \<not> canManageLocalGroup metadata (peerId owner) then (Inl (JSError ''only administrators approve members''), st0)
     else if peerId member \<in> set (g_removedPeerIds base) \<or> (\<exists>c \<in> set (g_removedMembers base). samePeerIdentity c member)
     then (Inl (JSError ''identity was revoked''), st)
     else if \<not> (\<exists>m \<in> set (g_members base). samePeerIdentity m member) \<and> length (g_members base) \<ge> MAX_GROUP_MEMBERS
     then (Inl (JSError ''member limit''), st)
     else save_then num now ?g (dispatch SocialUpdated) () st)"
    unfolding addLocalGroupMember_def load prod.case b Let_def ..
  have len: "length (upsertGroupMemberIdentity (g_members base) member) \<le> max MAX_GROUP_MEMBERS (length (g_members base))"
    if "\<not> (\<not> (\<exists>m \<in> set (g_members base). samePeerIdentity m member) \<and> length (g_members base) \<ge> MAX_GROUP_MEMBERS)"
  proof (cases "\<exists>m \<in> set (g_members base). samePeerIdentity m member")
    case True
    from upsert_member(2) [OF True] show ?thesis by simp
  next
    case False
    with that upsert_member(3) [of "g_members base" member] show ?thesis by linarith
  qed
  have cmp: "compareGroupManifestRevisions lc ?g base > 0"
    by (rule compare_newer) (simp add: assign_revision_next)
  have "save_then num now ?g (dispatch SocialUpdated) () st = (Inr (), dispatch SocialUpdated (put_group ?g st))
      \<or> (\<exists>e. save_then num now ?g (dispatch SocialUpdated) () st = (Inl e, st))"
    by (cases "assertLocalGroupSyncBudget num now ?g") (simp_all add: save_then_def saveLocalGroup_def)
  then consider (bad) e where "save_then num now ?g (dispatch SocialUpdated) () st = (Inl e, st)"
    | (good) "save_then num now ?g (dispatch SocialUpdated) () st = (Inr (), dispatch SocialUpdated (put_group ?g st))"
    by blast
  then show ?thesis
  proof cases
    case bad
    show ?thesis unfolding base_def [symmetric] Let_def eq bad by (simp add: load)
  next
    case good
    have m: "map_of (ss_groups (dispatch SocialUpdated (put_group ?g st))) (g_groupId base) = Some ?g"
      by (simp add: put_group_def dispatch_def assign_revision_next)
    have f: "g_members ?g = upsertGroupMemberIdentity (g_members base) member" "g_removedPeerIds ?g = g_removedPeerIds base"
      by (simp_all add: assign_revision_next)
    show ?thesis unfolding base_def [symmetric] Let_def eq good
      using cmp len upsert_member(1) m f by (simp add: load list_all_iff)
  qed
qed


section \<open>Reachable stores\<close>

lemma wf_store_save_then:
  "wf_store st \<Longrightarrow> (\<And>s. wf_store (after s) = wf_store s) \<Longrightarrow> wf_store (snd (save_then num now grp after result st))"
  by (cases "assertLocalGroupSyncBudget num now grp") (simp_all add: save_then_def saveLocalGroup_def)

lemma wf_store_load_pair: "loadLocalGroups lc st = (groups, st') \<Longrightarrow> wf_store st \<Longrightarrow> wf_store st'"
  by (metis snd_conv wf_store_load)

lemma wf_store_update_profile_in:
  "wf_store st \<Longrightarrow> wf_store (snd (update_profile_in num now peer groups st))"
proof (induction groups arbitrary: st)
  case (Cons g groups)
  have "wf_store st'" if "saveLocalGroup num now h st = (r, st')" for h r st'
    using wf_store_save [OF Cons.prems, of num now h] that by simp
  with Cons show ?case by (auto split: option.split prod.split sum.split)
qed simp

lemma wf_store_repair_in:
  "wf_store st \<Longrightarrow> wf_store (snd (repair_in num lc sign now uuid identity groups k n st))"
proof (induction groups arbitrary: st k n)
  case (Cons g groups)
  have "wf_store st'" if "saveLocalGroup num now h st = (r, st')" for h r st'
    using wf_store_save [OF Cons.prems, of num now h] that by simp
  with Cons show ?case by (auto simp: Let_def split: option.split prod.split sum.split)
qed simp

lemmas wf_store_intros = wf_store_save_then wf_store_load_pair wf_store_update_profile_in wf_store_repair_in

inductive social_step :: "SocialStore \<Rightarrow> SocialStore \<Rightarrow> bool" where
  create_group: "social_step st (snd (createLocalGroup num now uuid name owner st))"
| add_channel: "social_step st (snd (addLocalGroupChannel num lc now uuid gid channel st))"
| ensure_group: "social_step st (snd (ensureLocalGroup num lc now metadata owner st))"
| add_member: "social_step st (snd (addLocalGroupMember num lc now uuid metadata member owner st))"
| update_group: "social_step st (snd (updateLocalGroupProfile num lc now uuid gid name av st))"
| set_administrator: "social_step st (snd (setLocalGroupAdministrator num lc sign now uuid gid target b st))"
| remove_member: "social_step st (snd (removeLocalGroupMember num lc sign now uuid gid p st))"
| merge_members: "social_step st (snd (mergeLocalGroupMembers num lc now gid incoming owner_id version st))"
| merge_manifest: "social_step st (snd (mergeLocalGroupManifest num lc verify now manifest sender st))"
| apply_revocation: "social_step st (snd (applyGroupRevocationCertificate num lc verify now certificate st))"
| update_peer: "social_step st (snd (updateKnownPeerProfile num lc now peer st))"
| repair: "social_step st (snd (repairLocalIdentityAliases num lc sign now uuid st))"
| get_identity: "social_step st (snd (getOrCreateLocalIdentity lc u fresh name st))"
| save_profile: "social_step st (snd (saveLocalProfile lc name av st))"
| delete_group: "social_step st (deleteLocalGroup gid st)"
| save_friend: "social_step st (saveLocalFriend friend st)"
| delete_friend: "social_step st (deleteLocalFriend p st)"

lemma wf_store_step: "social_step st st' \<Longrightarrow> wf_store st \<Longrightarrow> wf_store st'"
proof (induction rule: social_step.induct)
  case create_group
  then show ?case by (simp add: createLocalGroup_def Let_def wf_store_intros)
next
  case add_channel
  then show ?case
    by (auto simp: addLocalGroupChannel_def Let_def intro!: wf_store_intros(1) dest: wf_store_intros(2)
        split: prod.splits option.splits)
next
  case ensure_group
  then show ?case
    by (auto simp: ensureLocalGroup_def Let_def intro!: wf_store_intros(1) dest: wf_store_intros(2)
        split: prod.splits option.splits)
next
  case add_member
  then show ?case
    by (auto simp: addLocalGroupMember_def Let_def intro!: wf_store_intros(1) dest: wf_store_intros(2)
        split: prod.splits option.splits)
next
  case update_group
  then show ?case
    by (auto simp: updateLocalGroupProfile_def Let_def intro!: wf_store_intros(1) dest: wf_store_intros(2)
        split: prod.splits option.splits)
next
  case set_administrator
  then show ?case
    by (auto simp: setLocalGroupAdministrator_def Let_def intro!: wf_store_intros(1) dest: wf_store_intros(2)
        split: prod.splits option.splits sum.splits)
next
  case remove_member
  then show ?case
    by (auto simp: removeLocalGroupMember_def Let_def intro!: wf_store_intros(1) dest: wf_store_intros(2)
        split: prod.splits option.splits sum.splits)
next
  case merge_members
  then show ?case
    by (auto simp: mergeLocalGroupMembers_def Let_def intro!: wf_store_intros(1) dest: wf_store_intros(2)
        split: prod.splits option.splits)
next
  case merge_manifest
  then show ?case
    by (auto simp: mergeLocalGroupManifest_def Let_def intro!: wf_store_intros(1) dest: wf_store_intros(2)
        split: prod.splits option.splits)
next
  case apply_revocation
  then show ?case
    by (auto simp: applyGroupRevocationCertificate_def Let_def intro!: wf_store_intros(1) dest: wf_store_intros(2)
        split: prod.splits option.splits)
next
  case (update_peer st num lc now peer)
  obtain groups st1 where l: "loadLocalGroups lc st = (groups, st1)" by fastforce
  obtain r st2 where p: "update_profile_in num now peer groups st1 = (r, st2)" by fastforce
  have "wf_store st2"
    using wf_store_intros(3) [OF wf_store_intros(2) [OF l update_peer], of num now peer groups] by (simp add: p)
  then show ?case by (simp add: updateKnownPeerProfile_def l p Let_def split: option.split sum.split)
next
  case (repair st num lc sign now uuid)
  obtain groups st1 where l: "loadLocalGroups lc st = (groups, st1)" by fastforce
  have "wf_store st2" if "repair_in num lc sign now uuid i groups 0 0 st1 = (r, st2)" for i r st2
    using wf_store_intros(4) [OF wf_store_intros(2) [OF l repair], of num lc sign now uuid i groups 0 0] that by simp
  with repair show ?case by (auto simp: repairLocalIdentityAliases_def l split: option.split prod.split sum.split)
next
  case get_identity
  then show ?case by (simp add: getOrCreateLocalIdentity_def Let_def split: option.splits)
next
  case save_profile
  then show ?case
    by (auto simp: saveLocalProfile_def updateLocalIdentityProfile_def Let_def split: option.splits prod.splits sum.splits)
qed simp_all


lemma reconcile_groupId [simp]: "g_groupId (fst (reconcile_group lc identity g)) = g_groupId g"
  by (simp add: reconcile_group_def Let_def normalised_group_def split: prod.splits)

lemma find_group_stored:
  assumes "\<forall>(k, g) \<in> set gs. g_groupId g = k" "distinct (map fst gs)"
  shows "find_group (map (\<lambda>g. fst (reconcile_group lc identity g)) (map snd gs)) gid
    = map_option (\<lambda>g. fst (reconcile_group lc identity g)) (map_of gs gid)"
  using assms by (induction gs) (auto simp: find_group_def)

definition empty_store :: SocialStore where
  "empty_store = \<lparr>ss_identity = None, ss_friends = [], ss_groups = [], ss_purged = [], ss_events = []\<rparr>"

lemma wf_store_empty: "wf_store empty_store"
  by (simp add: wf_store_def empty_store_def)

text \<open>In every store the operations can reach from an empty one, each group is stored once and
  under its own identifier, so that loading the groups and looking one up finds exactly what is
  stored under that identifier, repaired for the local identity.\<close>

theorem reachable_store_lookup:
  assumes "social_step\<^sup>*\<^sup>* empty_store st"
  shows "wf_store st \<and> find_group (fst (loadLocalGroups lc st)) gid
    = map_option (\<lambda>g. fst (reconcile_group lc (ss_identity st) g)) (map_of (ss_groups st) gid)"
proof -
  from assms have wf: "wf_store st"
    by (induction rule: rtranclp_induct) (auto simp: wf_store_empty wf_store_step)
  then have "\<forall>(k, g) \<in> set (ss_groups st). g_groupId g = k" "distinct (map fst (ss_groups st))"
    by (auto simp: wf_store_def wf_map_def)
  from find_group_stored [OF this] wf show ?thesis
    by (simp add: loadLocalGroups_def reconcileIdentityMembership_def map_values_def comp_def)
qed

theorem reachable_store_lookup_witness:
  "wf_store (snd (createLocalGroup fraction_text 1 (\<lambda>_. ''message-1'') ''Group'' (sample_peer ''owner-01'') empty_store))"
proof -
  have "social_step\<^sup>*\<^sup>* empty_store
      (snd (createLocalGroup fraction_text 1 (\<lambda>_. ''message-1'') ''Group'' (sample_peer ''owner-01'') empty_store))"
    by (intro r_into_rtranclp create_group)
  from reachable_store_lookup [OF this] show ?thesis by blast
qed

end
