(* ===== verification/Group_Chat.thy ===== *)
theory Group_Chat
  imports Chat_Storage Group_Storage
begin

text \<open>
  \<^verbatim>\<open>GroupChatService\<close> of \<^verbatim>\<open>apps/web/src/chat/GroupChatService.ts\<close>: who is trusted on a channel, the verification of
  signatures with the keys of the group, and the snapshots by which administrators replicate the
  group.

  The parts of a snapshot travel as JSON values; \<open>read_peer\<close> and its kin give their typed view. \<open>verify\<close> is the
  verification of WebCrypto with the import of the key, which fails for a key it cannot import.
\<close>

section \<open>The typed view of received values\<close>

definition read_key :: "jsval \<Rightarrow> JsonWebKey" where
  "read_key v = \<lparr>jk_kty = str_opt (jprop v ''kty''), jk_crv = str_opt (jprop v ''crv''), jk_x = str_opt (jprop v ''x''),
     jk_y = str_opt (jprop v ''y''),
     jk_rest = (case v of
        JObj ps \<Rightarrow> map (\<lambda>p. (fst p, str_val (snd p)))
          (filter (\<lambda>p. fst p \<notin> {''kty'', ''crv'', ''x'', ''y''} \<and> str_opt (snd p) \<noteq> None) ps)
      | _ \<Rightarrow> [])\<rparr>"

definition read_peer :: "jsval \<Rightarrow> PublicPeerIdentity" where
  "read_peer v = \<lparr>peerId = str_val (jprop v ''peerId''), publicKey = read_key (jprop v ''publicKey''),
     displayName = str_val (jprop v ''displayName''), avatar = str_opt (jprop v ''avatar'')\<rparr>"

definition read_channel :: "jsval \<Rightarrow> LocalGroupChannel" where
  "read_channel v = \<lparr>ch_id = str_val (jprop v ''id''), ch_name = str_val (jprop v ''name''),
     ch_kind = (if jprop v ''kind'' = JStr ''text'' then TextChannel else VoiceChannel),
     ch_voiceRoomId = (case jprop v ''voiceRoomId'' of JStr r \<Rightarrow> Some (Some r) | JNull \<Rightarrow> Some None | _ \<Rightarrow> None)\<rparr>"

definition read_grant :: "jsval \<Rightarrow> GroupAdministratorGrant" where
  "read_grant v = \<lparr>gr_version = int_val (jprop v ''version''), gr_groupId = str_val (jprop v ''groupId''),
     gr_administratorPeerId = str_val (jprop v ''administratorPeerId''),
     gr_administratorPublicKey = read_key (jprop v ''administratorPublicKey''),
     gr_ownerPeerId = str_val (jprop v ''ownerPeerId''), gr_administratorEpoch = int_val (jprop v ''administratorEpoch''),
     gr_messageId = str_val (jprop v ''messageId''), gr_timestamp = num_val (jprop v ''timestamp''),
     gr_signature = str_val (jprop v ''signature'')\<rparr>"

definition read_revocation :: "jsval \<Rightarrow> GroupRevocationCertificate" where
  "read_revocation v = \<lparr>rc_version = int_val (jprop v ''version''), rc_groupId = str_val (jprop v ''groupId''),
     rc_targetPeerId = str_val (jprop v ''targetPeerId''), rc_targetPublicKey = read_key (jprop v ''targetPublicKey''),
     rc_issuerPeerId = str_val (jprop v ''issuerPeerId''), rc_membershipVersion = int_val (jprop v ''membershipVersion''),
     rc_administratorEpoch = int_val (jprop v ''administratorEpoch''), rc_messageId = str_val (jprop v ''messageId''),
     rc_timestamp = num_val (jprop v ''timestamp''),
     rc_administratorGrant = (if jprop v ''administratorGrant'' = JUndefined then None else Some (read_grant (jprop v ''administratorGrant''))),
     rc_rendezvousVersion = (if jprop v ''rendezvousVersion'' = JUndefined then None else Some (int_val (jprop v ''rendezvousVersion''))),
     rc_rendezvousSecret = str_opt (jprop v ''rendezvousSecret''), rc_signature = str_val (jprop v ''signature'')\<rparr>"

section \<open>Trust\<close>

record GroupPeerTransitions =
  gt_revokedPeerIds :: "string list"
  gt_unknownPeerIds :: "string list"

record GroupChatService =
  gc_trusted :: "(string \<times> PublicPeerIdentity) list"
  gc_revoked :: "(string \<times> PublicPeerIdentity) list"
  gc_names :: "(string \<times> string) list"
  gc_verifyKeys :: "(string \<times> JsonWebKey) list"
  gc_certificates :: "GroupRevocationCertificate list"

definition new_groups :: GroupChatService where
  "new_groups = \<lparr>gc_trusted = [], gc_revoked = [], gc_names = [], gc_verifyKeys = [], gc_certificates = []\<rparr>"

definition group_reset :: "GroupChatService \<Rightarrow> GroupChatService" where
  "group_reset st = \<lparr>gc_trusted = [], gc_revoked = [], gc_names = [], gc_verifyKeys = [], gc_certificates = []\<rparr>"

definition peer_map :: "PublicPeerIdentity list \<Rightarrow> (string \<times> PublicPeerIdentity) list" where
  "peer_map ps = fold (\<lambda>p m. AList.update (peerId p) p m) ps []"

definition install ::
  "PublicPeerIdentity list \<Rightarrow> PublicPeerIdentity list \<Rightarrow> GroupRevocationCertificate list \<Rightarrow> string list \<Rightarrow> GroupChatService
    \<Rightarrow> GroupPeerTransitions \<times> GroupChatService" where
  "install activePeers revokedPeers revocations connectedPeerIds st =
    (let active = peer_map activePeers;
         revoked = peer_map (filter (\<lambda>p. \<not> map_has active (peerId p)) revokedPeers)
     in (\<lparr>gt_revokedPeerIds = filter (map_has revoked) connectedPeerIds,
          gt_unknownPeerIds = filter (\<lambda>p. \<not> map_has revoked p \<and> \<not> map_has active p) connectedPeerIds\<rparr>,
         \<lparr>gc_trusted = active, gc_revoked = revoked, gc_names = map (\<lambda>e. (fst e, displayName (snd e))) active,
          gc_verifyKeys = [], gc_certificates = filter validGroupRevocationCertificate revocations\<rparr>))"

definition configure ::
  "LocalIdentity option \<Rightarrow> PublicPeerIdentity list \<Rightarrow> PublicPeerIdentity list \<Rightarrow> GroupRevocationCertificate list \<Rightarrow> GroupChatService \<Rightarrow> GroupChatService" where
  "configure identity trustedPeers revokedPeers revocations st =
    (let active = (case identity of
           None \<Rightarrow> trustedPeers
         | Some i \<Rightarrow> filter (\<lambda>p. peerId p \<noteq> li_peerId i) trustedPeers @ [publicIdentity i])
     in snd (install active revokedPeers revocations [] st))"

definition isTrustedRemote :: "GroupChatService \<Rightarrow> string \<Rightarrow> string option \<Rightarrow> bool \<Rightarrow> bool" where
  "isTrustedRemote st remotePeerId localPeerId authenticated =
    (if \<not> authenticated then Some remotePeerId \<noteq> localPeerId
     else Some remotePeerId \<noteq> localPeerId \<and> (map_has (gc_trusted st) remotePeerId \<or> map_has (gc_revoked st) remotePeerId))"

definition isTrusted :: "GroupChatService \<Rightarrow> string \<Rightarrow> bool" where
  "isTrusted st p = map_has (gc_trusted st) p"

definition isRevoked :: "GroupChatService \<Rightarrow> string \<Rightarrow> bool" where
  "isRevoked st p = map_has (gc_revoked st) p"

definition group_displayName :: "GroupChatService \<Rightarrow> string \<Rightarrow> string option" where
  "group_displayName st p = map_of (gc_names st) p"

definition removeDisplayName :: "string \<Rightarrow> GroupChatService \<Rightarrow> GroupChatService" where
  "removeDisplayName p st = st\<lparr>gc_names := AList.delete p (gc_names st)\<rparr>"

definition trustedPeerIds :: "GroupChatService \<Rightarrow> string list" where
  "trustedPeerIds st = map_keys (gc_trusted st)"

definition revocationsFor :: "GroupChatService \<Rightarrow> string \<Rightarrow> GroupRevocationCertificate list" where
  "revocationsFor st p = filter (\<lambda>c. rc_targetPeerId c = p) (gc_certificates st)"

section \<open>Signatures\<close>

definition known_peer :: "GroupChatService \<Rightarrow> string \<Rightarrow> PublicPeerIdentity option" where
  "known_peer st p = (case map_of (gc_trusted st) p of Some x \<Rightarrow> Some x | None \<Rightarrow> map_of (gc_revoked st) p)"

definition verifyCanonical ::
  "(JsonWebKey \<Rightarrow> nat list \<Rightarrow> string \<Rightarrow> bool) \<Rightarrow> string \<Rightarrow> string \<Rightarrow> string \<Rightarrow> GroupChatService \<Rightarrow> bool \<times> GroupChatService" where
  "verifyCanonical verify p signature canonical st =
    (case known_peer st p of
       None \<Rightarrow> (False, st)
     | Some peer \<Rightarrow>
         (case map_of (gc_verifyKeys st) (peerId peer) of
            Some key \<Rightarrow> (verify_text verify key signature canonical, st)
          | None \<Rightarrow> (verify_text verify (publicKey peer) signature canonical,
                     st\<lparr>gc_verifyKeys := AList.update (peerId peer) (publicKey peer) (gc_verifyKeys st)\<rparr>)))"

definition verifySignedMessage ::
  "(rat \<Rightarrow> string) \<Rightarrow> (JsonWebKey \<Rightarrow> nat list \<Rightarrow> string \<Rightarrow> bool) \<Rightarrow> SignedChatWireMessage \<Rightarrow> GroupChatService \<Rightarrow> bool \<times> GroupChatService" where
  "verifySignedMessage num verify m st = verifyCanonical verify (sm_authorPeerId m) (sm_signature m) (canonicalSignedMessage num m) st"

section \<open>Profiles\<close>

text \<open>What follows the await of \<open>updateKnownPeerProfile\<close>, on the service as it is then.\<close>

definition profile_accepted :: "string \<Rightarrow> ProfileUpdateWireMessage \<Rightarrow> GroupChatService \<Rightarrow> GroupChatService" where
  "profile_accepted remotePeerId m st = (let identity = read_peer (pu_identity m) in
     st\<lparr>gc_trusted := AList.update remotePeerId identity (gc_trusted st),
        gc_names := AList.update remotePeerId (displayName identity) (gc_names st),
        gc_verifyKeys := AList.delete remotePeerId (gc_verifyKeys st)\<rparr>)"

definition acceptProfile ::
  "(rat \<Rightarrow> string) \<Rightarrow> (string \<Rightarrow> string \<Rightarrow> int) \<Rightarrow> (JsonWebKey \<Rightarrow> nat list \<Rightarrow> string \<Rightarrow> bool) \<Rightarrow> rat \<Rightarrow> string \<Rightarrow> ProfileUpdateWireMessage
    \<Rightarrow> GroupChatService \<Rightarrow> SocialStore \<Rightarrow> (js_error + bool) \<times> GroupChatService \<times> SocialStore" where
  "acceptProfile num lc verify now remotePeerId m st store =
    (if peerId (read_peer (pu_identity m)) \<noteq> remotePeerId then (Inr False, st, store)
     else case verifyCanonical verify remotePeerId (pu_signature m) (canonicalProfileUpdate num m) st of
         (False, st1) \<Rightarrow> (Inr False, st1, store)
       | (True, st1) \<Rightarrow>
           (case updateKnownPeerProfile num lc now (read_peer (pu_identity m)) store of
              (Inl e, store1) \<Rightarrow> (Inl e, st1, store1)
            | (Inr _, store1) \<Rightarrow> (Inr True, profile_accepted remotePeerId m st1, store1)))"

definition createProfileUpdate ::
  "(rat \<Rightarrow> string) \<Rightarrow> (CryptoKey \<Rightarrow> string \<Rightarrow> nat list) \<Rightarrow> rat \<Rightarrow> LocalIdentity \<Rightarrow> string \<Rightarrow> ProfileUpdateWireMessage" where
  "createProfileUpdate num sign now identity channelId =
    (let unsigned_update = \<lparr>pu_channelId = Some channelId, pu_identity = identity_js (publicIdentity identity), pu_timestamp = now, pu_signature = ''''\<rparr>
     in unsigned_update\<lparr>pu_signature := bytesToBase64Url (sign (li_privateKey identity) (canonicalProfileUpdate num unsigned_update))\<rparr>)"

section \<open>Snapshots\<close>

definition snapshot ::
  "rat \<Rightarrow> LocalGroup \<Rightarrow> string \<Rightarrow> LocalIdentity \<Rightarrow> GroupMembersWireMessage" where
  "snapshot now grp channelId identity =
    \<lparr>gm_channelId = Some channelId, gm_groupId = g_groupId grp, gm_senderPeerId = li_peerId identity, gm_ownerPeerId = g_ownerPeerId grp,
     gm_membershipVersion = g_membershipVersion grp, gm_manifestVersion = g_manifestVersion grp,
     gm_manifestActorPeerId = actor_of grp, gm_manifestOperationId = operation_of grp,
     gm_administratorEpoch = epoch_of grp, gm_administratorGrants = map grant_js (grants_of grp),
     gm_name = g_name grp, gm_avatar = g_avatar grp, gm_channels = map channel_js (g_channels grp),
     gm_administratorPeerIds = g_administratorPeerIds grp, gm_removedPeerIds = g_removedPeerIds grp,
     gm_removedMembers = map member_js (take MAX_GROUP_SYNC_MEMBERS (g_removedMembers grp)),
     gm_revocations = map revocation_js (last_n MAX_GROUP_SYNC_REVOCATIONS (revocations_of grp)),
     gm_rendezvousVersion = rendezvous_version_of grp, gm_rendezvousSecret = or_else (g_rendezvousSecret grp) (g_groupId grp),
     gm_members = map member_js (take MAX_GROUP_SYNC_MEMBERS (g_members grp)), gm_timestamp = now, gm_signature = ''''\<rparr>"

definition snapshot_wire_value :: "GroupMembersWireMessage \<Rightarrow> jsval" where
  "snapshot_wire_value m = JObj [
     (''version'', JInt 2), (''type'', JStr ''chat.members.snapshot''), (''channelId'', js_opt JStr (gm_channelId m)),
     (''groupId'', JStr (gm_groupId m)), (''senderPeerId'', JStr (gm_senderPeerId m)), (''ownerPeerId'', JStr (gm_ownerPeerId m)),
     (''membershipVersion'', JInt (gm_membershipVersion m)), (''manifestVersion'', JInt (gm_manifestVersion m)),
     (''manifestActorPeerId'', JStr (gm_manifestActorPeerId m)), (''manifestOperationId'', JStr (gm_manifestOperationId m)),
     (''administratorEpoch'', JInt (gm_administratorEpoch m)), (''administratorGrants'', JArr (gm_administratorGrants m)),
     (''name'', JStr (gm_name m)), (''avatar'', js_opt JStr (gm_avatar m)), (''channels'', JArr (gm_channels m)),
     (''administratorPeerIds'', JArr (map JStr (gm_administratorPeerIds m))), (''removedPeerIds'', JArr (map JStr (gm_removedPeerIds m))),
     (''removedMembers'', JArr (gm_removedMembers m)), (''revocations'', JArr (gm_revocations m)),
     (''rendezvousVersion'', JInt (gm_rendezvousVersion m)), (''rendezvousSecret'', JStr (gm_rendezvousSecret m)),
     (''members'', JArr (gm_members m)), (''timestamp'', JNum (JFin (gm_timestamp m))), (''signature'', JStr (gm_signature m))]"

definition createMembershipSnapshot ::
  "(rat \<Rightarrow> string) \<Rightarrow> (string \<Rightarrow> string \<Rightarrow> int) \<Rightarrow> (CryptoKey \<Rightarrow> string \<Rightarrow> nat list) \<Rightarrow> rat \<Rightarrow> string \<Rightarrow> string \<Rightarrow> LocalIdentity
    \<Rightarrow> SocialStore \<Rightarrow> GroupMembersWireMessage option outcome" where
  "createMembershipSnapshot num lc sign now groupId channelId identity store0 =
    (case loadLocalGroups lc store0 of (groups, store) \<Rightarrow>
      (case find_group groups groupId of
         None \<Rightarrow> (Inr None, store)
       | Some grp \<Rightarrow>
           if g_ownerPeerId grp \<noteq> li_peerId identity \<and> li_peerId identity \<notin> set (g_administratorPeerIds grp) then (Inr None, store)
           else
             let unsigned_snapshot = snapshot now grp channelId identity;
                 m = unsigned_snapshot\<lparr>gm_signature :=
                   bytesToBase64Url (sign (li_privateKey identity) (canonicalGroupMembership num lc unsigned_snapshot))\<rparr>
             in if utf8_length (jtext num (snapshot_wire_value m)) > MAX_WIRE_BYTES then (Inl (JSError ''manifest too large''), store)
                else (Inr (Some m), store)))"

definition sameIdentityKey :: "PublicPeerIdentity option \<Rightarrow> PublicPeerIdentity option \<Rightarrow> bool" where
  "sameIdentityKey left right =
    (case (left, right) of
       (Some l, Some r) \<Rightarrow> peerId l = peerId r \<and> samePublicKey (publicKey l) (publicKey r)
     | _ \<Rightarrow> False)"

fun known_by_id :: "PublicPeerIdentity list \<Rightarrow> (string \<times> PublicPeerIdentity) list \<Rightarrow> (string \<times> PublicPeerIdentity) list option" where
  "known_by_id [] known = Some known"
| "known_by_id (m # ms) known =
    (case map_of known (peerId m) of
       Some k \<Rightarrow> if \<not> sameIdentityKey (Some k) (Some m) then None else known_by_id ms (AList.update (peerId m) m known)
     | None \<Rightarrow> known_by_id ms (AList.update (peerId m) m known))"

fun valid_certificates ::
  "(rat \<Rightarrow> string) \<Rightarrow> (JsonWebKey \<Rightarrow> nat list \<Rightarrow> string \<Rightarrow> bool) \<Rightarrow> LocalGroup \<Rightarrow> LocalGroup \<Rightarrow> GroupRevocationCertificate list
    \<Rightarrow> (string \<times> GroupRevocationCertificate) list \<Rightarrow> (string \<times> GroupRevocationCertificate) list option" where
  "valid_certificates num verify current vgroup [] valid = Some valid"
| "valid_certificates num verify current vgroup (c # cs) valid =
    (case List.find (\<lambda>k. rc_messageId k = rc_messageId c) (revocations_of current) of
       Some trusted \<Rightarrow>
         if rc_signature trusted \<noteq> rc_signature c \<or> canonicalGroupRevocation num trusted \<noteq> canonicalGroupRevocation num c then None
         else valid_certificates num verify current vgroup cs (AList.update (rc_targetPeerId c) c valid)
     | None \<Rightarrow>
         if rc_targetPeerId c = g_ownerPeerId current \<or> \<not> verifyGroupRevocationCertificate num verify c vgroup True then None
         else if rc_issuerPeerId c \<noteq> g_ownerPeerId current \<and> rc_targetPeerId c \<in> set (g_administratorPeerIds current) then None
         else valid_certificates num verify current vgroup cs (AList.update (rc_targetPeerId c) c valid))"

definition validateRemovalAuthority ::
  "(rat \<Rightarrow> string) \<Rightarrow> (JsonWebKey \<Rightarrow> nat list \<Rightarrow> string \<Rightarrow> bool) \<Rightarrow> LocalGroup \<Rightarrow> GroupMembersWireMessage \<Rightarrow> bool" where
  "validateRemovalAuthority num verify current m =
    (let members = map read_peer (gm_members m); removedMembers = map read_peer (gm_removedMembers m) in
     case known_by_id (g_members current @ g_removedMembers current @ members @ removedMembers) [] of
       None \<Rightarrow> False
     | Some known \<Rightarrow>
         (case map_of known (g_ownerPeerId current) of
            None \<Rightarrow> False
          | Some owner \<Rightarrow>
              if \<not> (\<exists>x \<in> set members. peerId x = peerId owner \<and> sameIdentityKey (Some x) (Some owner)) then False
              else
                let vgroup = current\<lparr>g_members := map_values known, g_removedMembers := map_values known\<rparr> in
                case valid_certificates num verify current vgroup (map read_revocation (gm_revocations m)) [] of
                  None \<Rightarrow> False
                | Some valid \<Rightarrow>
                    if g_ownerPeerId current \<in> set (gm_removedPeerIds m) then False
                    else if \<exists>p \<in> set (gm_removedPeerIds m). p \<notin> set (g_removedPeerIds current) \<and> \<not> map_has valid p then False
                    else list_all (\<lambda>x. peerId x \<in> set (gm_removedPeerIds m) \<and> sameIdentityKey (Some x) (map_of known (peerId x))) removedMembers))"

definition incoming_group :: "LocalGroup \<Rightarrow> GroupMembersWireMessage \<Rightarrow> LocalGroup" where
  "incoming_group current m = current\<lparr>g_name := gm_name m, g_avatar := gm_avatar m, g_channels := map read_channel (gm_channels m),
     g_members := map read_peer (gm_members m), g_ownerPeerId := gm_ownerPeerId m, g_membershipVersion := gm_membershipVersion m,
     g_manifestVersion := gm_manifestVersion m, g_manifestActorPeerId := Some (gm_manifestActorPeerId m),
     g_manifestOperationId := Some (gm_manifestOperationId m), g_administratorEpoch := Some (gm_administratorEpoch m),
     g_administratorGrants := Some (map read_grant (gm_administratorGrants m)), g_administratorPeerIds := gm_administratorPeerIds m,
     g_removedPeerIds := gm_removedPeerIds m, g_removedMembers := map read_peer (gm_removedMembers m),
     g_revocations := Some (map read_revocation (gm_revocations m)), g_rendezvousVersion := Some (gm_rendezvousVersion m),
     g_rendezvousSecret := Some (gm_rendezvousSecret m)\<rparr>"

text \<open>The two lists of administrators compared as the sorted text.\<close>

definition same_administrators :: "(rat \<Rightarrow> string) \<Rightarrow> string list \<Rightarrow> string list \<Rightarrow> bool" where
  "same_administrators num xs ys \<longleftrightarrow> jtext num (JArr (map JStr (sort_strings xs))) = jtext num (JArr (map JStr (sort_strings ys)))"

definition acceptMembership ::
  "(rat \<Rightarrow> string) \<Rightarrow> (string \<Rightarrow> string \<Rightarrow> int) \<Rightarrow> (JsonWebKey \<Rightarrow> nat list \<Rightarrow> string \<Rightarrow> bool) \<Rightarrow> rat \<Rightarrow> string \<Rightarrow> LocalIdentity \<Rightarrow> string
    \<Rightarrow> GroupMembersWireMessage \<Rightarrow> GroupChatService \<Rightarrow> SocialStore
    \<Rightarrow> (js_error + (LocalGroup \<times> bool) option) \<times> GroupChatService \<times> SocialStore" where
  "acceptMembership num lc verify now groupId localIdentity remotePeerId m st store0 =
    (if gm_groupId m \<noteq> groupId \<or> gm_senderPeerId m \<noteq> remotePeerId then (Inr None, st, store0)
     else case loadLocalGroups lc store0 of (groups, store) \<Rightarrow>
       (case find_group groups groupId of
          None \<Rightarrow> (Inr None, st, store)
        | Some current \<Rightarrow>
            if g_ownerPeerId current \<noteq> remotePeerId \<and> remotePeerId \<notin> set (g_administratorPeerIds current) then (Inr None, st, store)
            else case verifyCanonical verify remotePeerId (gm_signature m) (canonicalGroupMembership num lc m) st of
                (False, st1) \<Rightarrow> (Inr None, st1, store)
              | (True, st1) \<Rightarrow>
                  if gm_ownerPeerId m \<noteq> g_ownerPeerId current then (Inr None, st1, store)
                  else if remotePeerId \<noteq> g_ownerPeerId current
                    \<and> (gm_administratorEpoch m \<noteq> epoch_of current
                       \<or> \<not> same_administrators num (gm_administratorPeerIds m) (g_administratorPeerIds current)) then (Inr None, st1, store)
                  else if \<not> validateRemovalAuthority num verify current m then (Inr None, st1, store)
                  else
                    let incoming = incoming_group current m in
                    case mergeLocalGroupManifest num lc verify now incoming remotePeerId store of
                      (Inl e, store1) \<Rightarrow> (Inl e, st1, store1)
                    | (Inr merged, store1) \<Rightarrow>
                        let localCanAnswer = g_ownerPeerId merged = li_peerId localIdentity
                              \<or> li_peerId localIdentity \<in> set (g_administratorPeerIds merged)
                        in (Inr (Some (merged, localCanAnswer \<and> \<not> sameLocalGroupManifestState num lc incoming merged)), st1, store1)))"

section \<open>The group of a channel\<close>

record InferredGroupSecurity =
  ig_groupId :: string
  ig_identity :: LocalIdentity
  ig_trustedPeers :: "PublicPeerIdentity list"
  ig_revokedPeers :: "PublicPeerIdentity list"
  ig_revocations :: "GroupRevocationCertificate list"
  ig_rendezvousId :: string

definition inferLocalGroupSecurity ::
  "(string \<Rightarrow> string \<Rightarrow> int) \<Rightarrow> string \<Rightarrow> JsonWebKey \<times> CryptoKey \<Rightarrow> string \<Rightarrow> string \<Rightarrow> SocialStore
    \<Rightarrow> InferredGroupSecurity option \<times> SocialStore" where
  "inferLocalGroupSecurity lc uuid fresh channelId name store0 =
    (case loadLocalGroups lc store0 of (groups, store) \<Rightarrow>
      (case List.find (\<lambda>g. \<exists>c \<in> set (g_channels g). ch_kind c = TextChannel \<and> ch_id c = channelId) groups of
         None \<Rightarrow> (None, store)
       | Some grp \<Rightarrow>
           (case getOrCreateLocalIdentity lc uuid fresh name store of
              (identity, store1) \<Rightarrow>
                (Some \<lparr>ig_groupId = g_groupId grp, ig_identity = identity, ig_trustedPeers = g_members grp,
                   ig_revokedPeers = g_removedMembers grp, ig_revocations = revocations_of grp,
                   ig_rendezvousId = groupRendezvousId grp ''chat'' channelId\<rparr>, store1))))"

end
