(* ===== verification/Chat_Controller.thy ===== *)
theory Chat_Controller
  imports History_Limits Outbox_Service Identity_Sync Group_Chat
begin

text \<open>
  \<^verbatim>\<open>ChatController\<close> of \<^verbatim>\<open>apps/web/src/chat/ChatController.ts\<close>: one chat session, from signaling and the peer
  connections to the services that store, verify and replicate.

  The controller runs from one await to the next. What waits is a value of \<open>chat_wait\<close> in \<open>ct_waiting\<close>, the
  newest first; \<open>resume_chat\<close> is what the code does after the await, on the state of that moment. A call of a
  service runs to its end where it is made, and its caller waits for it once; the handshake of
  \<^verbatim>\<open>SyncService\<close> keeps its own awaits (\<open>sync_wait\<close>). What the controller asks of the transport, of signaling
  and of its listeners goes to \<open>ct_effects\<close>, the newest first.

  An object that is compared by reference (a session token, a transport, a signaling adapter, an identity) is
  a number. A \<open>ChatEnv\<close> holds what one step reads from outside: the clock, fresh identifiers, the peers
  present at the rendezvous, the number of channels the transport reached with its k-th text or
  its exception (the texts of the handshake are short and do not throw), and the functions the services take.
  The attachment service is known by its generation only; whether it takes a text is \<open>en_control\<close>.
\<close>

section \<open>State\<close>

datatype ChatConnectionStatus = ChatDisconnected | ChatConnecting | ChatConnected | ChatReady | ChatIncompatible | ChatError

record ChatConnectionOptions =
  co_identity :: "(nat \<times> LocalIdentity) option"
  co_trustedPeers :: "PublicPeerIdentity list option"
  co_revokedPeers :: "PublicPeerIdentity list option"
  co_revocations :: "GroupRevocationCertificate list option"
  co_groupId :: "string option"
  co_requireIdentityAuthentication :: bool
  co_rendezvousId :: "string option"
  co_namespace :: "string option"
  co_membershipOnly :: bool

record ChatEnv =
  en_num :: "rat \<Rightarrow> string"
  en_lc :: "string \<Rightarrow> string \<Rightarrow> int"
  en_isotime :: "rat \<Rightarrow> string"
  en_dateparse :: "string \<Rightarrow> rat option"
  en_jparse :: "string \<Rightarrow> jsval option"
  en_sign :: "CryptoKey \<Rightarrow> string \<Rightarrow> nat list"
  en_verify :: "JsonWebKey \<Rightarrow> nat list \<Rightarrow> string \<Rightarrow> bool"
  en_app :: string
  en_clock :: "nat \<Rightarrow> rat"
  en_uuid :: string
  en_present :: "string list"
  en_send :: "nat \<Rightarrow> js_error + nat"
  en_control :: "js_error + bool"
  en_settled :: bool

datatype chat_effect =
    Send_To string ChatWireEnvelope
  | Send_Text string string
  | Broadcast ChatWireEnvelope
  | Connect_To string bool
  | Disconnect_From string
  | Accept_Description string
  | Rendezvous string
  | Status_Changed ChatConnectionStatus
  | Typing_Changed "(string \<times> string) list"
  | Files_Ready string
  | Files_Forgotten string

text \<open>What an awaited call of the controller returns to.\<close>

datatype chat_next =
    Stop
  | Prepared_Profile nat nat string
  | Prepared_Membership nat nat string
  | Prepared_Outbox nat nat string
  | Prepared_History nat nat string
  | Answer_History string HistoryRequestWireMessage
  | Reply_Membership string
  | Joined string "string option"
  | Connect_Refreshed nat

datatype chat_wait =
    Syncing sync_wait
  | Resume chat_next
  | Control_Handled string string
  | Profile_Made nat nat string ProfileUpdateWireMessage chat_next
  | Snapshot_Made nat nat string "js_error + GroupMembersWireMessage option" chat_next
  | Revocation_Applied string bool
  | Event_Verified string SignedChatEventWireMessage bool
  | Message_Verified string SignedChatWireMessage bool
  | Persisted string string
  | Membership_Accepted string "(LocalGroup \<times> bool) option"
  | Connecting_Peer string
  | Accepting_Peer string
  | After_Refresh nat chat_next
  | Refresh_Loaded nat nat string "nat \<times> LocalIdentity" bool "LocalGroup option"
  | Refresh_Connected nat nat string "nat \<times> LocalIdentity" bool "string option"
  | Refresh_Sent nat nat string "nat \<times> LocalIdentity" "string option"
  | Refresh_Signaled nat nat string "nat \<times> LocalIdentity" nat
  | Refresh_Repeats nat nat string "nat \<times> LocalIdentity"
  | Connect_Disconnected string string ChatConnectionOptions
  | Connect_Inferred nat string string ChatConnectionOptions "InferredGroupSecurity option"
  | Connect_Network nat
  | Connect_Attachments nat
  | Connect_Signaled nat
  | Send_Created SignedChatWireMessage "string option"
  | Send_Enqueued SignedChatWireMessage "string option"
  | Send_Persisted SignedChatWireMessage "string option"
  | Event_Created SignedChatEventWireMessage
  | Event_Enqueued SignedChatEventWireMessage
  | Own_Found string "LocalChatMessage option" ChatEventInput
  | Known_Found string "LocalChatMessage option" ChatEventInput

record ChatController =
  ct_sessionToken :: "nat option"
  ct_objects :: nat
  ct_signaling :: "nat option"
  ct_transport :: "nat option"
  ct_channelId :: "string option"
  ct_groupId :: "string option"
  ct_rendezvousId :: "string option"
  ct_signalingNamespace :: string
  ct_peerId :: "string option"
  ct_displayName :: string
  ct_identity :: "(nat \<times> LocalIdentity) option"
  ct_status :: ChatConnectionStatus
  ct_dataChannelPeers :: "string list"
  ct_openDataPeers :: "string list"
  ct_revocationOnlyPeers :: "string list"
  ct_refreshingMembers :: "nat option"
  ct_pendingMemberRefreshBroadcast :: bool
  ct_membershipOnly :: bool
  ct_readyTimer :: "nat option"
  ct_typingPeers :: "(string \<times> string) list"
  ct_localTypingActive :: bool
  ct_lastTypingSentAt :: rat
  ct_attachments :: bool
  ct_generation :: nat
  ct_messages :: MessageService
  ct_outbox :: outbox
  ct_groups :: GroupChatService
  ct_requests :: requests
  ct_sync :: SyncService
  ct_social :: SocialStore
  ct_waiting :: "chat_wait list"
  ct_effects :: "chat_effect list"

definition new_chat :: "MessageService \<Rightarrow> outbox \<Rightarrow> SocialStore \<Rightarrow> ChatController" where
  "new_chat messages outbox social = \<lparr>ct_sessionToken = None, ct_objects = 0, ct_signaling = None, ct_transport = None,
     ct_channelId = None, ct_groupId = None, ct_rendezvousId = None, ct_signalingNamespace = ''chat'', ct_peerId = None,
     ct_displayName = ''Participante'', ct_identity = None, ct_status = ChatDisconnected, ct_dataChannelPeers = [],
     ct_openDataPeers = [], ct_revocationOnlyPeers = [], ct_refreshingMembers = None, ct_pendingMemberRefreshBroadcast = False,
     ct_membershipOnly = False, ct_readyTimer = None, ct_typingPeers = [], ct_localTypingActive = False, ct_lastTypingSentAt = 0,
     ct_attachments = False, ct_generation = 0, ct_messages = messages, ct_outbox = outbox, ct_groups = new_groups,
     ct_requests = [], ct_sync = new_sync, ct_social = social, ct_waiting = [], ct_effects = []\<rparr>"

definition effect :: "chat_effect \<Rightarrow> ChatController \<Rightarrow> ChatController" where
  "effect e st = st\<lparr>ct_effects := e # ct_effects st\<rparr>"

definition wait_for :: "chat_wait \<Rightarrow> ChatController \<Rightarrow> ChatController" where
  "wait_for w st = st\<lparr>ct_waiting := w # ct_waiting st\<rparr>"

section \<open>Status and peers\<close>

definition setStatus :: "ChatConnectionStatus \<Rightarrow> ChatController \<Rightarrow> ChatController" where
  "setStatus s st = (if ct_status st = s then st else effect (Status_Changed s) (st\<lparr>ct_status := s\<rparr>))"

definition emitTyping :: "ChatController \<Rightarrow> ChatController" where
  "emitTyping st = effect (Typing_Changed (ct_typingPeers st)) st"

definition peer_label :: "GroupChatService \<Rightarrow> string \<Rightarrow> string" where
  "peer_label groups p = (case group_displayName groups p of Some n \<Rightarrow> n | None \<Rightarrow> ''Peer '' @ take 6 p)"

definition updateTypingPeer :: "string \<Rightarrow> bool \<Rightarrow> ChatController \<Rightarrow> ChatController" where
  "updateTypingPeer p active st =
    (let others = AList.delete p (ct_typingPeers st) in
     emitTyping (st\<lparr>ct_typingPeers := (if active then others @ [(p, peer_label (ct_groups st) p)] else others)\<rparr>))"

definition typing_expires :: "string \<Rightarrow> ChatController \<Rightarrow> ChatController" where
  "typing_expires p st = emitTyping (st\<lparr>ct_typingPeers := AList.delete p (ct_typingPeers st)\<rparr>)"

definition clearReadyTimeout :: "ChatController \<Rightarrow> ChatController" where
  "clearReadyTimeout st = st\<lparr>ct_readyTimer := None\<rparr>"

definition armReadyTimeout :: "nat \<Rightarrow> ChatController \<Rightarrow> ChatController" where
  "armReadyTimeout token st =
    (let st1 = clearReadyTimeout st in
     if ct_openDataPeers st1 \<noteq> [] \<or> ct_sessionToken st1 \<noteq> Some token then st1 else st1\<lparr>ct_readyTimer := Some token\<rparr>)"

definition ready_timeout :: "nat \<Rightarrow> ChatController \<Rightarrow> ChatController" where
  "ready_timeout token st0 =
    (let st = clearReadyTimeout st0 in
     if ct_sessionToken st \<noteq> Some token \<or> ct_openDataPeers st \<noteq> [] then st else setStatus ChatConnected st)"

definition arm_if_alone :: "ChatController \<Rightarrow> ChatController" where
  "arm_if_alone st = (case ct_sessionToken st of
     Some token \<Rightarrow> if ct_openDataPeers st = [] then armReadyTimeout token st else st
   | None \<Rightarrow> st)"

definition status_by_peers :: "ChatController \<Rightarrow> ChatController" where
  "status_by_peers st = setStatus (if ct_openDataPeers st \<noteq> [] then ChatReady else ChatConnected) st"

definition error_if_alone :: "ChatController \<Rightarrow> ChatController" where
  "error_if_alone st = (if ct_openDataPeers st = [] then setStatus ChatError st else st)"

definition isTrustedPeer :: "ChatController \<Rightarrow> string \<Rightarrow> bool" where
  "isTrustedPeer st p = isTrustedRemote (ct_groups st) p (ct_peerId st) (ct_identity st \<noteq> None)"

definition files_forget :: "string \<Rightarrow> ChatController \<Rightarrow> ChatController" where
  "files_forget p st = (if ct_attachments st then effect (Files_Forgotten p) st else st)"

definition transport_disconnect :: "string \<Rightarrow> ChatController \<Rightarrow> ChatController" where
  "transport_disconnect p st = (if ct_transport st = None then st else effect (Disconnect_From p) st)"

definition forgetPeerConnection :: "string \<Rightarrow> ChatController \<Rightarrow> ChatController" where
  "forgetPeerConnection p st0 =
    (let st1 = updateTypingPeer p False st0;
         st2 = st1\<lparr>ct_sync := sync_forgetPeer p (ct_sync st1), ct_dataChannelPeers := removeAll p (ct_dataChannelPeers st1),
           ct_openDataPeers := removeAll p (ct_openDataPeers st1), ct_revocationOnlyPeers := removeAll p (ct_revocationOnlyPeers st1),
           ct_requests := forgetPeer p (ct_requests st1)\<rparr>
     in arm_if_alone (status_by_peers (files_forget p st2)))"

definition rejectIncompatiblePeer :: "string \<Rightarrow> ChatController \<Rightarrow> ChatController" where
  "rejectIncompatiblePeer p st =
    (let st1 = forgetPeerConnection p st;
         st2 = (if ct_openDataPeers st1 = [] then setStatus ChatIncompatible (clearReadyTimeout st1) else st1)
     in transport_disconnect p st2)"

section \<open>Sending\<close>

text \<open>The result of one text: the number of channels, 0 without a transport, or the exception of the transport.\<close>

definition send_data :: "ChatEnv \<Rightarrow> nat \<Rightarrow> string \<Rightarrow> ChatWireEnvelope \<Rightarrow> ChatController \<Rightarrow> (js_error + nat) \<times> ChatController" where
  "send_data env k p w st = (if ct_transport st = None then (Inr 0, st) else (en_send env k, effect (Send_To p w) st))"

fun send_to_each :: "ChatEnv \<Rightarrow> nat \<Rightarrow> (string \<times> ChatWireEnvelope) list \<Rightarrow> ChatController \<Rightarrow> (js_error + nat) \<times> ChatController" where
  "send_to_each env k [] st = (Inr 0, st)"
| "send_to_each env k ((p, w) # ws) st = (case send_data env k p w st of
     (Inl e, st1) \<Rightarrow> (Inl e, st1)
   | (Inr n, st1) \<Rightarrow> (case send_to_each env (Suc k) ws st1 of
       (Inl e, st2) \<Rightarrow> (Inl e, st2)
     | (Inr m, st2) \<Rightarrow> (Inr (n + m), st2)))"

definition sendToAuthenticatedPeers :: "ChatEnv \<Rightarrow> ChatWireEnvelope \<Rightarrow> ChatController \<Rightarrow> (js_error + nat) \<times> ChatController" where
  "sendToAuthenticatedPeers env w st = (if ct_transport st = None then (Inr 0, st)
     else send_to_each env 0 (map (\<lambda>p. (p, w)) (ct_openDataPeers st)) st)"

definition sendToCapablePeers :: "ChatEnv \<Rightarrow> ChatWireEnvelope \<Rightarrow> string \<Rightarrow> ChatController \<Rightarrow> (js_error + nat) \<times> ChatController" where
  "sendToCapablePeers env w capability st = (if ct_transport st = None then (Inr 0, st)
     else send_to_each env 0
       (map (\<lambda>p. (p, w)) (filter (\<lambda>p. sync_supports p capability (ct_sync st)) (ct_openDataPeers st))) st)"

definition sendMessageAck :: "ChatEnv \<Rightarrow> string \<Rightarrow> string \<Rightarrow> ChatController \<Rightarrow> ChatController" where
  "sendMessageAck env p i st = (case ct_channelId st of
     Some c \<Rightarrow> if c = '''' \<or> ct_transport st = None \<or> p \<notin> set (ct_openDataPeers st) then st
       else snd (send_data env 0 p (createAck c i) st)
   | None \<Rightarrow> st)"

definition sendRevocations :: "ChatEnv \<Rightarrow> string \<Rightarrow> ChatController \<Rightarrow> ChatController" where
  "sendRevocations env p st = (case ct_channelId st of
     Some c \<Rightarrow> if c = '''' \<or> ct_transport st = None \<or> p \<notin> set (ct_revocationOnlyPeers st) then st
       else snd (send_to_each env 0
         (map (\<lambda>r. (p, Group_Revocation (Some c) (revocation_js r))) (revocationsFor (ct_groups st) p)) st)
   | None \<Rightarrow> st)"

definition isSessionPeerActive :: "ChatController \<Rightarrow> nat \<Rightarrow> string \<Rightarrow> bool" where
  "isSessionPeerActive st token p \<longleftrightarrow> ct_sessionToken st = Some token \<and> ct_transport st \<noteq> None \<and> p \<in> set (ct_openDataPeers st)"

text \<open>A call that needs the session, its channel and its transport, and a peer that is open.\<close>

definition session_of_peer :: "ChatController \<Rightarrow> string \<Rightarrow> (nat \<times> string \<times> nat) option" where
  "session_of_peer st p = (case (ct_sessionToken st, ct_channelId st, ct_transport st) of
     (Some token, Some c, Some transport) \<Rightarrow> if c = '''' \<or> p \<notin> set (ct_openDataPeers st) then None else Some (token, c, transport)
   | _ \<Rightarrow> None)"

definition sendProfileUpdate :: "ChatEnv \<Rightarrow> string \<Rightarrow> chat_next \<Rightarrow> ChatController \<Rightarrow> ChatController" where
  "sendProfileUpdate env p next st = (case (session_of_peer st p, ct_identity st) of
     (Some (token, c, transport), Some (_, identity)) \<Rightarrow>
       wait_for (Profile_Made token transport p (createProfileUpdate (en_num env) (en_sign env) (en_clock env 0) identity c) next) st
   | _ \<Rightarrow> wait_for (Resume next) st)"

definition sendGroupMembership :: "ChatEnv \<Rightarrow> string \<Rightarrow> chat_next \<Rightarrow> ChatController \<Rightarrow> ChatController" where
  "sendGroupMembership env p next st = (case (session_of_peer st p, ct_groupId st, ct_identity st) of
     (Some (token, c, transport), Some g, Some (_, identity)) \<Rightarrow>
       if g = '''' then wait_for (Resume next) st
       else (case createMembershipSnapshot (en_num env) (en_lc env) (en_sign env) (en_clock env 0) g c identity (ct_social st) of
           (result, social) \<Rightarrow> wait_for (Snapshot_Made token transport p result next) (st\<lparr>ct_social := social\<rparr>))
   | _ \<Rightarrow> wait_for (Resume next) st)"

definition flushOutbox :: "ChatEnv \<Rightarrow> string \<Rightarrow> ChatController \<Rightarrow> ChatController" where
  "flushOutbox env p st = (case session_of_peer st p of
     None \<Rightarrow> st
   | Some (token, c, transport) \<Rightarrow>
       (case flush (en_jparse env) (en_dateparse env) (en_clock env 0) c
            (\<lambda>_. case en_send env 0 of Inr n \<Rightarrow> n | Inl _ \<Rightarrow> 0) (\<lambda>_. isSessionPeerActive st token p)
            (\<lambda>w. case w of Chat_Event _ \<Rightarrow> sync_supports p ''chat-events-v1'' (ct_sync st) | _ \<Rightarrow> True) (ct_outbox st) of
          (texts, box) \<Rightarrow> fold (\<lambda>t. effect (Send_Text p t)) texts (st\<lparr>ct_outbox := box\<rparr>)))"

definition peer_link :: "ChatEnv \<Rightarrow> ChatController \<Rightarrow> nat \<Rightarrow> string \<Rightarrow> link" where
  "peer_link env st token p = (\<lambda>k. (isSessionPeerActive st token p, en_send env k))"

definition requestHistory :: "ChatEnv \<Rightarrow> string \<Rightarrow> ChatController \<Rightarrow> (js_error + unit) \<times> ChatController" where
  "requestHistory env p st = (case (session_of_peer st p, ct_identity st) of
     (Some (token, c, transport), Some _) \<Rightarrow>
       (case history_request (en_lc env) (en_isotime env) (en_uuid env) (isSessionPeerActive st token p) (peer_link env st token p)
            \<lparr>hp_channelId = c, hp_remotePeerId = p, hp_includeEvents = sync_supports p ''chat-events-v1'' (ct_sync st)\<rparr>
            (ct_requests st) (ct_messages st) of
          (result, out, rs, messages) \<Rightarrow>
            (result, fold (\<lambda>w. effect (Send_To p w)) out (st\<lparr>ct_requests := rs, ct_messages := messages\<rparr>)))
   | _ \<Rightarrow> (Inr (), st))"

definition respondHistory :: "ChatEnv \<Rightarrow> string \<Rightarrow> HistoryRequestWireMessage \<Rightarrow> ChatController \<Rightarrow> ChatController" where
  "respondHistory env p request st = (case session_of_peer st p of
     None \<Rightarrow> st
   | Some (token, c, transport) \<Rightarrow>
       (case respond (en_lc env) (en_isotime env) (en_dateparse env) (isSessionPeerActive st token p) (peer_link env st token p)
            \<lparr>hp_channelId = c, hp_remotePeerId = p, hp_includeEvents = sync_supports p ''chat-events-v1'' (ct_sync st)\<rparr>
            request (ct_messages st) of
          (_, out, messages) \<Rightarrow> fold (\<lambda>w. effect (Send_To p w)) out (st\<lparr>ct_messages := messages\<rparr>)))"

section \<open>The handshake\<close>

definition sync_context :: "ChatEnv \<Rightarrow> ChatController \<Rightarrow> ChatSyncContext" where
  "sync_context env st = \<lparr>cx_identity = ct_identity st, cx_channelId = ct_channelId st, cx_sessionToken = ct_sessionToken st,
     cx_isDataPeer = (\<lambda>p. p \<in> set (ct_dataChannelPeers st)), cx_isOpenPeer = (\<lambda>p. p \<in> set (ct_openDataPeers st)),
     cx_isAllowed = isTrustedPeer st, cx_isRevoked = isRevoked (ct_groups st),
     cx_verify = (\<lambda>p signature canonical. fst (verifyCanonical (en_verify env) p signature canonical (ct_groups st)))\<rparr>"

definition markRevokedPeerReady :: "ChatEnv \<Rightarrow> string \<Rightarrow> ChatController \<Rightarrow> ChatController" where
  "markRevokedPeerReady env p st =
    (if p \<notin> set (ct_dataChannelPeers st) \<or> p \<in> set (ct_revocationOnlyPeers st) then st
     else sendRevocations env p (clearReadyTimeout (st\<lparr>ct_sync := sync_forgetPeer p (ct_sync st),
       ct_openDataPeers := removeAll p (ct_openDataPeers st), ct_revocationOnlyPeers := ct_revocationOnlyPeers st @ [p]\<rparr>)))"

definition markPeerReady :: "ChatEnv \<Rightarrow> string \<Rightarrow> ChatController \<Rightarrow> ChatController" where
  "markPeerReady env p st =
    (if p \<notin> set (ct_dataChannelPeers st) \<or> p \<in> set (ct_openDataPeers st) then st
     else if isRevoked (ct_groups st) p then markRevokedPeerReady env p st
     else case ct_sessionToken st of
         None \<Rightarrow> st
       | Some token \<Rightarrow>
           sendProfileUpdate env p (Prepared_Profile token (ct_generation st) p)
             (setStatus ChatReady (clearReadyTimeout (st\<lparr>ct_openDataPeers := ct_openDataPeers st @ [p]\<rparr>))))"

text \<open>The callbacks that the controller gives to \<^verbatim>\<open>SyncService\<close>, called as the service tells its events.\<close>

definition sync_callback :: "ChatEnv \<Rightarrow> sync_event \<Rightarrow> ChatController \<Rightarrow> ChatController" where
  "sync_callback env e st = (case e of
     Sent p w \<Rightarrow> if ct_transport st = None then st else effect (Send_To p w) st
   | Verified p signature canonical _ \<Rightarrow>
       st\<lparr>ct_groups := snd (verifyCanonical (en_verify env) p signature canonical (ct_groups st))\<rparr>
   | Ready p \<Rightarrow> markPeerReady env p st
   | Revoked_Peer p \<Rightarrow> markRevokedPeerReady env p st
   | Failure _ _ \<Rightarrow> error_if_alone st
   | Capabilities_Known _ _ \<Rightarrow> st)"

definition sync_result :: "ChatEnv \<Rightarrow> SyncService \<Rightarrow> ChatController \<Rightarrow> ChatController" where
  "sync_result env sync st =
    fold (sync_callback env) (rev (take (length (sc_log sync) - length (sc_log (ct_sync st))) (sc_log sync))) (st\<lparr>ct_sync := sync\<rparr>)"

definition begin_handshake :: "ChatEnv \<Rightarrow> string \<Rightarrow> ChatController \<Rightarrow> ChatController" where
  "begin_handshake env p st = sync_result env (sync_begin (en_app env) (sync_context env st) (en_uuid env) (en_clock env) p (ct_sync st)) st"

definition handshake_timer :: "ChatEnv \<Rightarrow> nat \<Rightarrow> sync_timer \<Rightarrow> ChatController \<Rightarrow> ChatController" where
  "handshake_timer env h timer st =
    sync_result env (timer_fires (en_app env) (sync_context env st) (en_uuid env) (en_clock env) h timer (ct_sync st)) st"

definition receive_challenge :: "ChatEnv \<Rightarrow> string \<Rightarrow> IdentityChallengeWireMessage \<Rightarrow> ChatController \<Rightarrow> ChatController" where
  "receive_challenge env p challenge st = (case sync_respond (en_app env) (sync_context env st) (en_clock env 0) p challenge of
     None \<Rightarrow> st
   | Some w \<Rightarrow> wait_for (Syncing w) st)"

definition receive_proof :: "ChatEnv \<Rightarrow> string \<Rightarrow> IdentityProofWireMessage \<Rightarrow> ChatController \<Rightarrow> ChatController" where
  "receive_proof env p m st = (case sync_accept (en_num env) (sync_context env st) p m (ct_sync st) of
     (sync, None) \<Rightarrow> sync_result env sync st
   | (sync, Some w) \<Rightarrow> wait_for (Syncing w) (sync_result env sync st))"

definition resume_sync :: "ChatEnv \<Rightarrow> sync_wait \<Rightarrow> ChatController \<Rightarrow> ChatController" where
  "resume_sync env w st = (case w of
     Signing p token identity m \<Rightarrow>
       sync_result env (respond_signed (en_num env) (en_sign env) (en_app env) (sync_context env st) (en_uuid env) (en_clock env)
         p token identity m (ct_sync st)) st
   | Verifying p token identity m nonce valid \<Rightarrow>
       sync_result env (accept_verified (sync_context env st) p token identity m nonce valid (ct_sync st)) st)"

section \<open>Group membership\<close>

definition connectTrustedPeer :: "string \<Rightarrow> string option \<Rightarrow> ChatController \<Rightarrow> ChatController" where
  "connectTrustedPeer p localPeerId st =
    (if \<not> text_given localPeerId \<or> ct_transport st = None \<or> \<not> isTrustedPeer st p then st
     else wait_for (Connecting_Peer p) (effect (Connect_To p (the localPeerId < p)) st))"

definition connecting_failed :: "ChatController \<Rightarrow> ChatController" where
  "connecting_failed st = arm_if_alone (status_by_peers st)"

definition connectPresentTrustedPeers :: "ChatEnv \<Rightarrow> ChatController \<Rightarrow> ChatController" where
  "connectPresentTrustedPeers env st =
    (if ct_signaling st = None \<or> \<not> text_given (ct_peerId st) then st
     else fold (\<lambda>p. connectTrustedPeer p (ct_peerId st)) (filter (isTrustedPeer st) (en_present env)) st)"

definition installGroupPeers ::
  "ChatEnv \<Rightarrow> PublicPeerIdentity list \<Rightarrow> PublicPeerIdentity list \<Rightarrow> GroupRevocationCertificate list \<Rightarrow> ChatController \<Rightarrow> ChatController" where
  "installGroupPeers env activePeers revokedPeers revocations st =
    (case install activePeers revokedPeers revocations (ct_dataChannelPeers st) (ct_groups st) of
       (transitions, groups) \<Rightarrow>
         let st1 = fold (\<lambda>p s. markRevokedPeerReady env p (files_forget p (s\<lparr>ct_openDataPeers := removeAll p (ct_openDataPeers s)\<rparr>)))
               (gt_revokedPeerIds transitions) (st\<lparr>ct_groups := groups\<rparr>)
         in fold (\<lambda>p s. transport_disconnect p (forgetPeerConnection p s)) (gt_unknownPeerIds transitions) st1)"

text \<open>
  \<^verbatim>\<open>refreshGroupMembership\<close>: at most one refresh runs, and a broadcast that is asked for meanwhile makes it run
  once more. A refresh is the number of its promise.
\<close>

definition refresh_finishes :: "nat \<Rightarrow> ChatController \<Rightarrow> ChatController" where
  "refresh_finishes task st = (if ct_refreshingMembers st = Some task then st\<lparr>ct_refreshingMembers := None\<rparr> else st)"

definition refresh_pass :: "ChatEnv \<Rightarrow> nat \<Rightarrow> nat \<Rightarrow> string \<Rightarrow> nat \<times> LocalIdentity \<Rightarrow> ChatController \<Rightarrow> ChatController" where
  "refresh_pass env task token g identity st =
    (case loadLocalGroups (en_lc env) (ct_social st) of (groups, social) \<Rightarrow>
       wait_for (Refresh_Loaded task token g identity (ct_pendingMemberRefreshBroadcast st) (find_group groups g))
         (st\<lparr>ct_pendingMemberRefreshBroadcast := False, ct_social := social\<rparr>))"

definition refreshGroupMembership :: "ChatEnv \<Rightarrow> bool \<Rightarrow> chat_next \<Rightarrow> ChatController \<Rightarrow> ChatController" where
  "refreshGroupMembership env broadcast next st = (case (ct_sessionToken st, ct_groupId st, ct_identity st) of
     (Some token, Some g, Some identity) \<Rightarrow>
       if g = '''' then wait_for (Resume next) st
       else
         let st1 = st\<lparr>ct_pendingMemberRefreshBroadcast := ct_pendingMemberRefreshBroadcast st \<or> broadcast\<rparr>
         in (case ct_refreshingMembers st1 of
               Some task \<Rightarrow> wait_for (After_Refresh task next) st1
             | None \<Rightarrow>
                 let task = ct_objects st1
                 in wait_for (After_Refresh task next) (refresh_pass env task token g identity
                      (st1\<lparr>ct_objects := task + 1, ct_refreshingMembers := Some task\<rparr>)))
   | _ \<Rightarrow> wait_for (Resume next) st)"

definition rendezvous_change :: "LocalGroup \<Rightarrow> ChatController \<Rightarrow> string option" where
  "rendezvous_change grp st = (if \<not> text_given (ct_channelId st) \<or> \<not> text_given (ct_rendezvousId st) then None
     else let next = groupRendezvousId grp ''chat'' (the (ct_channelId st))
          in if Some next = ct_rendezvousId st then None else Some next)"

definition refresh_loaded ::
  "ChatEnv \<Rightarrow> nat \<Rightarrow> nat \<Rightarrow> string \<Rightarrow> nat \<times> LocalIdentity \<Rightarrow> bool \<Rightarrow> LocalGroup option \<Rightarrow> ChatController \<Rightarrow> ChatController" where
  "refresh_loaded env task token g identity shouldBroadcast grp st = (case grp of
     None \<Rightarrow> refresh_finishes task st
   | Some grp \<Rightarrow>
       if ct_sessionToken st \<noteq> Some token \<or> ct_groupId st \<noteq> Some g \<or> ct_identity st \<noteq> Some identity then refresh_finishes task st
       else
         let change = rendezvous_change grp st
         in wait_for (Refresh_Connected task token g identity shouldBroadcast change)
              (connectPresentTrustedPeers env (installGroupPeers env (g_members grp) (g_removedMembers grp) (revocations_of grp) st)))"

definition refresh_connected ::
  "ChatEnv \<Rightarrow> nat \<Rightarrow> nat \<Rightarrow> string \<Rightarrow> nat \<times> LocalIdentity \<Rightarrow> bool \<Rightarrow> string option \<Rightarrow> ChatController \<Rightarrow> ChatController" where
  "refresh_connected env task token g identity shouldBroadcast change st =
    (if ct_sessionToken st \<noteq> Some token then refresh_finishes task st
     else wait_for (Refresh_Sent task token g identity change)
       (if shouldBroadcast then fold (\<lambda>p. sendGroupMembership env p Stop) (ct_openDataPeers st) st else st))"

definition refresh_repeats :: "ChatEnv \<Rightarrow> nat \<Rightarrow> nat \<Rightarrow> string \<Rightarrow> nat \<times> LocalIdentity \<Rightarrow> ChatController \<Rightarrow> ChatController" where
  "refresh_repeats env task token g identity st =
    (if ct_pendingMemberRefreshBroadcast st \<and> ct_sessionToken st = Some token then refresh_pass env task token g identity st
     else refresh_finishes task st)"

definition refresh_sent ::
  "ChatEnv \<Rightarrow> nat \<Rightarrow> nat \<Rightarrow> string \<Rightarrow> nat \<times> LocalIdentity \<Rightarrow> string option \<Rightarrow> ChatController \<Rightarrow> ChatController" where
  "refresh_sent env task token g identity change st =
    (if \<not> en_settled env \<or> ct_sessionToken st \<noteq> Some token then refresh_finishes task st
     else case (change, ct_signaling st) of
         (Some next, Some signaling) \<Rightarrow>
           if next = '''' \<or> \<not> text_given (ct_peerId st) then refresh_repeats env task token g identity st
           else wait_for (Refresh_Signaled task token g identity signaling)
             (effect (Rendezvous next) (setStatus ChatConnecting (st\<lparr>ct_rendezvousId := Some next\<rparr>)))
       | _ \<Rightarrow> refresh_repeats env task token g identity st)"

definition refresh_signaled ::
  "ChatEnv \<Rightarrow> nat \<Rightarrow> nat \<Rightarrow> string \<Rightarrow> nat \<times> LocalIdentity \<Rightarrow> nat \<Rightarrow> ChatController \<Rightarrow> ChatController" where
  "refresh_signaled env task token g identity signaling st =
    (if \<not> en_settled env \<or> ct_sessionToken st \<noteq> Some token \<or> ct_signaling st \<noteq> Some signaling then refresh_finishes task st
     else wait_for (Refresh_Repeats task token g identity) (connectPresentTrustedPeers env (setStatus ChatConnected st)))"

section \<open>Sessions\<close>

definition chat_disconnect :: "ChatController \<Rightarrow> ChatController" where
  "chat_disconnect st = setStatus ChatDisconnected ((emitTyping (st\<lparr>ct_sessionToken := None, ct_signaling := None, ct_transport := None,
     ct_attachments := False, ct_generation := ct_generation st + 1, ct_channelId := None, ct_groupId := None, ct_rendezvousId := None,
     ct_signalingNamespace := ''chat'', ct_peerId := None, ct_identity := None, ct_membershipOnly := False,
     ct_pendingMemberRefreshBroadcast := False, ct_refreshingMembers := None, ct_readyTimer := None, ct_dataChannelPeers := [],
     ct_openDataPeers := [], ct_revocationOnlyPeers := [], ct_typingPeers := [], ct_localTypingActive := False,
     ct_lastTypingSentAt := 0\<rparr>))
     \<lparr>ct_groups := group_reset (ct_groups st), ct_sync := sync_resetSession (ct_sync st), ct_requests := history_resetSession (ct_requests st),
      ct_messages := resetSession (ct_messages st)\<rparr>)"

text \<open>The catch of \<^verbatim>\<open>connect\<close>; \<open>aborted\<close> tells an \<^verbatim>\<open>AbortError\<close>. A session that was replaced leaves the state as it is.\<close>

definition connect_fails :: "nat \<Rightarrow> bool \<Rightarrow> ChatController \<Rightarrow> ChatController" where
  "connect_fails token aborted st = (if ct_sessionToken st \<noteq> Some token then st
     else let st1 = chat_disconnect st in if aborted then st1 else setStatus ChatError st1)"

definition chat_connect :: "string \<Rightarrow> string \<Rightarrow> ChatConnectionOptions \<Rightarrow> ChatController \<Rightarrow> ChatController" where
  "chat_connect channelId name options st = wait_for (Connect_Disconnected channelId name options) (chat_disconnect st)"

definition connect_disconnected ::
  "ChatEnv \<Rightarrow> JsonWebKey \<times> CryptoKey \<Rightarrow> string \<Rightarrow> string \<Rightarrow> ChatConnectionOptions \<Rightarrow> ChatController \<Rightarrow> ChatController" where
  "connect_disconnected env fresh channelId name options st0 =
    (let st = setStatus ChatConnecting st0; token = ct_objects st;
         st1 = st\<lparr>ct_objects := token + 1, ct_sessionToken := Some token\<rparr>
     in if co_identity options \<noteq> None then wait_for (Connect_Inferred token channelId name options None) st1
        else case inferLocalGroupSecurity (en_lc env) (en_uuid env) fresh channelId name (ct_social st1) of
            (inferred, social) \<Rightarrow> wait_for (Connect_Inferred token channelId name options inferred) (st1\<lparr>ct_social := social\<rparr>))"

definition connect_inferred ::
  "ChatEnv \<Rightarrow> nat \<Rightarrow> string \<Rightarrow> string \<Rightarrow> ChatConnectionOptions \<Rightarrow> InferredGroupSecurity option \<Rightarrow> ChatController \<Rightarrow> ChatController" where
  "connect_inferred env token channelId name options inferred st =
    (if ct_sessionToken st \<noteq> Some token then connect_fails token True st
     else
       let identity = (case co_identity options of Some i \<Rightarrow> Some i
             | None \<Rightarrow> map_option (\<lambda>i. (ct_objects st, ig_identity i)) inferred);
           trusted = (case co_trustedPeers options of Some ps \<Rightarrow> ps | None \<Rightarrow> (case inferred of Some i \<Rightarrow> ig_trustedPeers i | None \<Rightarrow> []));
           revoked = (case co_revokedPeers options of Some ps \<Rightarrow> ps | None \<Rightarrow> (case inferred of Some i \<Rightarrow> ig_revokedPeers i | None \<Rightarrow> []));
           revocations = (case co_revocations options of Some rs \<Rightarrow> rs | None \<Rightarrow> (case inferred of Some i \<Rightarrow> ig_revocations i | None \<Rightarrow> []))
       in if co_requireIdentityAuthentication options \<and> identity = None then connect_fails token False st
          else wait_for (Connect_Network token) (st\<lparr>ct_objects := ct_objects st + 1, ct_channelId := Some channelId,
            ct_groupId := (case co_groupId options of Some g \<Rightarrow> Some g | None \<Rightarrow> map_option ig_groupId inferred),
            ct_rendezvousId := Some (case co_rendezvousId options of Some r \<Rightarrow> r
              | None \<Rightarrow> (case inferred of Some i \<Rightarrow> ig_rendezvousId i | None \<Rightarrow> channelId)),
            ct_signalingNamespace := (case co_namespace options of Some n \<Rightarrow> n | None \<Rightarrow> ''chat''),
            ct_membershipOnly := co_membershipOnly options, ct_identity := identity,
            ct_peerId := Some (case identity of Some i \<Rightarrow> li_peerId (snd i) | None \<Rightarrow> en_uuid env), ct_displayName := js_trim name,
            ct_groups := configure (map_option snd identity) trusted revoked revocations (ct_groups st)\<rparr>))"

definition connect_network :: "ChatEnv \<Rightarrow> nat \<Rightarrow> ChatController \<Rightarrow> ChatController" where
  "connect_network env token st =
    (if ct_sessionToken st \<noteq> Some token then connect_fails token True st
     else if \<not> en_settled env then connect_fails token False st
     else wait_for (Connect_Attachments token)
       (st\<lparr>ct_objects := ct_objects st + 2, ct_signaling := Some (ct_objects st), ct_transport := Some (ct_objects st + 1)\<rparr>))"

definition connect_attachments :: "ChatEnv \<Rightarrow> nat \<Rightarrow> ChatController \<Rightarrow> ChatController" where
  "connect_attachments env token st =
    (if ct_sessionToken st \<noteq> Some token then connect_fails token True st
     else if \<not> en_settled env then connect_fails token False st
     else
       let st1 = (if ct_membershipOnly st then st else st\<lparr>ct_attachments := True, ct_generation := ct_generation st + 1\<rparr>)
       in wait_for (Connect_Signaled token) (effect (Rendezvous (case ct_rendezvousId st1 of Some r \<Rightarrow> r | None \<Rightarrow> '''')) st1))"

definition connect_signaled :: "ChatEnv \<Rightarrow> nat \<Rightarrow> ChatController \<Rightarrow> ChatController" where
  "connect_signaled env token st =
    (if ct_sessionToken st \<noteq> Some token then connect_fails token True st
     else if \<not> en_settled env then connect_fails token False st
     else
       let st1 = armReadyTimeout token (setStatus ChatConnected st)
       in if text_given (ct_groupId st1) then refreshGroupMembership env False (Connect_Refreshed token) st1 else connectPresentTrustedPeers env st1)"

section \<open>Receiving\<close>

definition chunk_keys ::
  "ChatEnv \<Rightarrow> HistoryChunkWireMessage \<Rightarrow> GroupChatService \<Rightarrow> MessageService \<Rightarrow> GroupChatService" where
  "chunk_keys env chunk groups messages =
    (let verify = (\<lambda>m. fst (verifySignedMessage (en_num env) (en_verify env) m groups));
         (g1, sv) = fold (\<lambda>m (g, sv). (if hasProcessed sv (sm_id m) then g else snd (verifySignedMessage (en_num env) (en_verify env) m g),
             accept_message (en_lc env) (en_isotime env) verify m sv)) (hc_messages chunk) (groups, messages);
         verifyEvent = (\<lambda>e. fst (verifyCanonical (en_verify env) (ev_actorPeerId e) (ev_signature e) (canonicalChatEvent (en_num env) e) groups))
     in fst (fold (\<lambda>e (g, sv). (if hasProcessedEvent sv (ev_id e) then g
               else snd (verifyCanonical (en_verify env) (ev_actorPeerId e) (ev_signature e) (canonicalChatEvent (en_num env) e) g),
             accept_event (en_lc env) (en_isotime env) verifyEvent e sv))
           (case hc_events chunk of None \<Rightarrow> [] | Some es \<Rightarrow> es) (g1, sv)))"

definition receive_chunk :: "ChatEnv \<Rightarrow> string \<Rightarrow> HistoryChunkWireMessage \<Rightarrow> ChatController \<Rightarrow> ChatController" where
  "receive_chunk env p chunk st =
    (if map_option hq_requestId (map_of (ct_requests st) p) \<noteq> Some (hc_requestId chunk) then st
     else st\<lparr>ct_groups := chunk_keys env chunk (ct_groups st) (ct_messages st),
       ct_messages := acceptChunk (en_lc env) (en_isotime env)
         (\<lambda>m. fst (verifySignedMessage (en_num env) (en_verify env) m (ct_groups st)))
         (\<lambda>e. fst (verifyCanonical (en_verify env) (ev_actorPeerId e) (ev_signature e) (canonicalChatEvent (en_num env) e) (ct_groups st)))
         p chunk (ct_requests st) (ct_messages st)\<rparr>)"

definition receive_complete :: "ChatEnv \<Rightarrow> string \<Rightarrow> HistoryCompleteWireMessage \<Rightarrow> ChatController \<Rightarrow> ChatController" where
  "receive_complete env p c st =
    (let active = (case ct_sessionToken st of Some token \<Rightarrow> isSessionPeerActive st token p | None \<Rightarrow> False)
     in case acceptComplete (en_uuid env) (\<lambda>k. (active, en_send env k)) p c (ct_requests st) of
          (_, out, rs) \<Rightarrow> fold (\<lambda>w. effect (Send_To p w)) out (st\<lparr>ct_requests := rs\<rparr>))"

definition receive_event :: "ChatEnv \<Rightarrow> string \<Rightarrow> SignedChatEventWireMessage \<Rightarrow> ChatController \<Rightarrow> ChatController" where
  "receive_event env p e st =
    (if ev_actorPeerId e \<noteq> p \<or> \<not> sync_supports p ''chat-events-v1'' (ct_sync st) then st
     else if hasProcessedEvent (ct_messages st) (ev_id e) then sendMessageAck env p (ev_id e) st
     else case verifyCanonical (en_verify env) p (ev_signature e) (canonicalChatEvent (en_num env) e) (ct_groups st) of
         (valid, groups) \<Rightarrow> wait_for (Event_Verified p e valid) (st\<lparr>ct_groups := groups\<rparr>))"

definition receive_message :: "ChatEnv \<Rightarrow> string \<Rightarrow> SignedChatWireMessage \<Rightarrow> ChatController \<Rightarrow> ChatController" where
  "receive_message env p m st =
    (if hasProcessed (ct_messages st) (sm_id m) then sendMessageAck env p (sm_id m) st
     else if ct_identity st = None \<or> sm_authorPeerId m \<noteq> p then st
     else case verifySignedMessage (en_num env) (en_verify env) m (ct_groups st) of
         (valid, groups) \<Rightarrow> wait_for (Message_Verified p m valid) (st\<lparr>ct_groups := groups\<rparr>))"

definition receive_legacy :: "ChatEnv \<Rightarrow> string \<Rightarrow> LegacyChatWireMessage \<Rightarrow> ChatController \<Rightarrow> ChatController" where
  "receive_legacy env p m st =
    (if hasProcessed (ct_messages st) (lm_id m) \<or> ct_identity st \<noteq> None then st
     else st\<lparr>ct_messages := snd (persistLegacy (en_lc env) (en_isotime env) m (peer_label (ct_groups st) p) (ct_messages st))\<rparr>)"

definition receive_revocation :: "ChatEnv \<Rightarrow> string option \<Rightarrow> jsval \<Rightarrow> ChatController \<Rightarrow> ChatController" where
  "receive_revocation env c v st =
    (if \<not> text_given (ct_groupId st) \<or> Some (rc_groupId (read_revocation v)) \<noteq> ct_groupId st then st
     else case applyGroupRevocationCertificate (en_num env) (en_lc env) (en_verify env) (en_clock env 0) (read_revocation v) (ct_social st) of
         (Inl e, social) \<Rightarrow> st\<lparr>ct_social := social\<rparr>
       | (Inr applied, social) \<Rightarrow> wait_for (Revocation_Applied (rc_targetPeerId (read_revocation v)) applied) (st\<lparr>ct_social := social\<rparr>))"

definition receive_membership :: "ChatEnv \<Rightarrow> string \<Rightarrow> GroupMembersWireMessage \<Rightarrow> ChatController \<Rightarrow> ChatController" where
  "receive_membership env p m st = (case (ct_groupId st, ct_identity st) of
     (Some g, Some (_, identity)) \<Rightarrow>
       if g = '''' then st
       else (case acceptMembership (en_num env) (en_lc env) (en_verify env) (en_clock env 0) g identity p m (ct_groups st) (ct_social st) of
           (Inl e, groups, social) \<Rightarrow> st\<lparr>ct_groups := groups, ct_social := social\<rparr>
         | (Inr accepted, groups, social) \<Rightarrow> wait_for (Membership_Accepted p accepted) (st\<lparr>ct_groups := groups, ct_social := social\<rparr>))
   | _ \<Rightarrow> st)"

definition receive_profile :: "ChatEnv \<Rightarrow> string \<Rightarrow> ProfileUpdateWireMessage \<Rightarrow> ChatController \<Rightarrow> ChatController" where
  "receive_profile env p m st =
    (case acceptProfile (en_num env) (en_lc env) (en_verify env) (en_clock env 0) p m (ct_groups st) (ct_social st) of
       (_, groups, social) \<Rightarrow> st\<lparr>ct_groups := groups, ct_social := social\<rparr>)"

definition receive_envelope :: "ChatEnv \<Rightarrow> string \<Rightarrow> ChatWireEnvelope \<Rightarrow> ChatController \<Rightarrow> ChatController" where
  "receive_envelope env p w st = (case w of
     Message_Ack _ i \<Rightarrow> (case ct_channelId st of
         Some c \<Rightarrow> if c = '''' then st else st\<lparr>ct_outbox := acknowledge c i (ct_outbox st)\<rparr>
       | None \<Rightarrow> st)
   | Chat_Typing t \<Rightarrow>
       if ty_actorPeerId t \<noteq> p \<or> \<not> sync_supports p ''typing-indicator-v1'' (ct_sync st) then st else updateTypingPeer p (ty_active t) st
   | Chat_Event e \<Rightarrow> receive_event env p e st
   | Signed_Message m \<Rightarrow> receive_message env p m st
   | Legacy_Message m \<Rightarrow> receive_legacy env p m st
   | _ \<Rightarrow> if ct_identity st = None then st else (case w of
         Group_Members m \<Rightarrow> receive_membership env p m st
       | Profile_Update m \<Rightarrow> receive_profile env p m st
       | History_Request r \<Rightarrow> sendGroupMembership env p (Answer_History p r) st
       | History_Chunk c \<Rightarrow> receive_chunk env p c st
       | History_Complete c \<Rightarrow> receive_complete env p c st
       | _ \<Rightarrow> st))"

definition receive_text :: "ChatEnv \<Rightarrow> string \<Rightarrow> string \<Rightarrow> ChatController \<Rightarrow> ChatController" where
  "receive_text env p raw st =
    (if \<not> isTrustedPeer st p then st
     else case parseChatWireEnvelope (en_jparse env) (en_dateparse env) (en_clock env 0) raw (ct_channelId st) of
         None \<Rightarrow> st
       | Some w \<Rightarrow> (case w of
             Identity_Challenge c \<Rightarrow> if ct_identity st = None then st else receive_challenge env p c st
           | Identity_Proof m \<Rightarrow> if ct_identity st = None then st else receive_proof env p m st
           | Group_Revocation c v \<Rightarrow> receive_revocation env c v st
           | _ \<Rightarrow>
               if ct_identity st \<noteq> None \<and> p \<notin> set (ct_openDataPeers st) \<and> p \<notin> set (ct_revocationOnlyPeers st) then st
               else if p \<in> set (ct_revocationOnlyPeers st) then st
               else receive_envelope env p w st))"

definition receive_data :: "ChatEnv \<Rightarrow> string \<Rightarrow> string \<Rightarrow> ChatController \<Rightarrow> ChatController" where
  "receive_data env p raw st =
    (case (if ct_identity st = None then (False, None) else rejectIncompatibleEnvelope (en_app env) (en_jparse env) raw) of
       (True, version) \<Rightarrow> rejectIncompatiblePeer p st
     | (False, version) \<Rightarrow>
         if p \<in> set (ct_openDataPeers st) \<and> ct_attachments st then wait_for (Control_Handled p raw) st
         else receive_text env p raw st)"

section \<open>What the user does\<close>

definition event_wire_value :: "SignedChatEventWireMessage \<Rightarrow> jsval" where
  "event_wire_value e = JObj [
     (''version'', JInt 3), (''type'', JStr ''chat.event''), (''channelId'', js_opt JStr (ev_channelId e)),
     (''id'', JStr (ev_id e)), (''targetMessageId'', JStr (ev_targetMessageId e)), (''actorPeerId'', JStr (ev_actorPeerId e)),
     (''action'', JStr (action_name (ev_action e))), (''content'', js_opt JStr (ev_content e)),
     (''referenceMessageId'', js_opt JStr (ev_referenceMessageId e)), (''emoji'', js_opt JStr (ev_emoji e)),
     (''timestamp'', JNum (JFin (ev_timestamp e))), (''signature'', JStr (ev_signature e))]"

text \<open>\<^verbatim>\<open>publishEvent\<close> and the calls that end in it. The result is the exception that the call throws before its first await.\<close>

definition publishEvent :: "ChatEnv \<Rightarrow> string \<Rightarrow> ChatEventInput \<Rightarrow> ChatController \<Rightarrow> (js_error + unit) \<times> ChatController" where
  "publishEvent env target input st = (case (ct_channelId st, ct_identity st) of
     (Some c, Some (_, identity)) \<Rightarrow>
       if c = '''' then (Inl (JSError ''not connected''), st)
       else (case createEvent (en_num env) (en_sign env) (en_uuid env) identity c target input (en_clock env 0) (ct_messages st) of
           (Inl e, messages) \<Rightarrow> (Inl e, st\<lparr>ct_messages := messages\<rparr>)
         | (Inr event, messages) \<Rightarrow> (Inr (), wait_for (Event_Created event) (st\<lparr>ct_messages := messages\<rparr>)))
   | _ \<Rightarrow> (Inl (JSError ''not connected''), st))"

definition event_created :: "ChatEnv \<Rightarrow> SignedChatEventWireMessage \<Rightarrow> ChatController \<Rightarrow> ChatController" where
  "event_created env e st = wait_for (Event_Enqueued e)
     (st\<lparr>ct_outbox := enqueue (en_clock env 0) (channel_text (ev_channelId e)) (ev_id e) (jtext (en_num env) (event_wire_value e)) (ct_outbox st)\<rparr>)"

definition event_enqueued :: "ChatEnv \<Rightarrow> SignedChatEventWireMessage \<Rightarrow> ChatController \<Rightarrow> ChatController" where
  "event_enqueued env e st = (case sendToCapablePeers env (Chat_Event e) ''chat-events-v1'' st of
     (Inl _, st1) \<Rightarrow> st1
   | (Inr _, st1) \<Rightarrow> st1\<lparr>ct_messages := snd (persistEvent (en_lc env) (en_isotime env) e (ct_messages st1))\<rparr>)"

definition chat_send :: "ChatEnv \<Rightarrow> string \<Rightarrow> string option \<Rightarrow> ChatController \<Rightarrow> (js_error + unit) \<times> ChatController" where
  "chat_send env content replyToId st = (case (ct_channelId st, ct_transport st) of
     (Some c, Some _) \<Rightarrow>
       if c = '''' then (Inl (JSError ''not connected''), st)
       else (case validateContent content of
           Inl e \<Rightarrow> (Inl e, st)
         | Inr trimmed \<Rightarrow> (case ct_identity st of
               Some (_, identity) \<Rightarrow>
                 (case createSigned (en_num env) (en_sign env) (en_uuid env) identity c (ct_displayName st) trimmed (en_clock env 0) of
                    Inl e \<Rightarrow> (Inl e, st)
                  | Inr m \<Rightarrow> (Inr (), wait_for (Send_Created m replyToId) st))
             | None \<Rightarrow>
                 (case createLegacy (en_uuid env) c (ct_displayName st) trimmed (en_clock env 0) of
                    Inl e \<Rightarrow> (Inl e, st)
                  | Inr m \<Rightarrow>
                      let st1 = effect (Broadcast (Legacy_Message m)) st
                      in (case en_send env 0 of
                            Inl e \<Rightarrow> (Inl e, st1)
                          | Inr n \<Rightarrow> if n = 0 then (Inl (JSError ''no connection''), st1)
                              else (Inr (), st1\<lparr>ct_messages := snd (persistLegacy (en_lc env) (en_isotime env) m (ct_displayName st)
                                (ct_messages st1))\<rparr>)))))
   | _ \<Rightarrow> (Inl (JSError ''not connected''), st))"

definition send_created :: "ChatEnv \<Rightarrow> SignedChatWireMessage \<Rightarrow> string option \<Rightarrow> ChatController \<Rightarrow> ChatController" where
  "send_created env m replyToId st = wait_for (Send_Enqueued m replyToId)
     (st\<lparr>ct_outbox := enqueue (en_clock env 0) (channel_text (sm_channelId m)) (sm_id m) (jtext (en_num env) (signed_wire_value m)) (ct_outbox st)\<rparr>)"

definition send_enqueued :: "ChatEnv \<Rightarrow> SignedChatWireMessage \<Rightarrow> string option \<Rightarrow> ChatController \<Rightarrow> ChatController" where
  "send_enqueued env m replyToId st = (case sendToAuthenticatedPeers env (Signed_Message m) st of
     (Inl _, st1) \<Rightarrow> st1
   | (Inr _, st1) \<Rightarrow> wait_for (Send_Persisted m replyToId)
       (st1\<lparr>ct_messages := snd (persistSigned (en_lc env) (en_isotime env) m (ct_messages st1))\<rparr>))"

definition send_persisted :: "ChatEnv \<Rightarrow> SignedChatWireMessage \<Rightarrow> string option \<Rightarrow> ChatController \<Rightarrow> ChatController" where
  "send_persisted env m replyToId st =
    (if text_given replyToId then snd (publishEvent env (sm_id m) (Reply_Input (the replyToId)) st) else st)"

definition find_own :: "ChatEnv \<Rightarrow> string \<Rightarrow> ChatEventInput \<Rightarrow> ChatController \<Rightarrow> (js_error + unit) \<times> ChatController" where
  "find_own env i input st = (case (ct_channelId st, ct_identity st) of
     (Some c, Some _) \<Rightarrow>
       if c = '''' then (Inl (JSError ''not connected''), st)
       else (case find_message (en_lc env) (en_isotime env) c i (ct_messages st) of
           (found, messages) \<Rightarrow> (Inr (), wait_for (Own_Found i found input) (st\<lparr>ct_messages := messages\<rparr>)))
   | _ \<Rightarrow> (Inl (JSError ''not connected''), st))"

text \<open>\<^verbatim>\<open>requireOwnMessage\<close> after its await, and what \<^verbatim>\<open>editMessage\<close> and \<^verbatim>\<open>deleteMessage\<close> do with the message.\<close>

definition own_found :: "ChatEnv \<Rightarrow> string \<Rightarrow> LocalChatMessage option \<Rightarrow> ChatEventInput \<Rightarrow> ChatController \<Rightarrow> (js_error + unit) \<times> ChatController" where
  "own_found env i found input st = (case found of
     None \<Rightarrow> (Inl (JSError ''message not found''), st)
   | Some m \<Rightarrow> (case ct_identity st of
       None \<Rightarrow> (Inl (JSError ''no identity''), st)
     | Some (_, identity) \<Rightarrow>
         if ms_authorPeerId m \<noteq> Some (li_peerId identity) then (Inl (JSError ''not your message''), st)
         else (case input of
             Edit_Input _ \<Rightarrow> if text_given (ms_deletedAt m) then (Inl (JSError ''message deleted''), st) else publishEvent env i input st
           | _ \<Rightarrow> publishEvent env i input st)))"

definition editMessage :: "ChatEnv \<Rightarrow> string \<Rightarrow> string \<Rightarrow> ChatController \<Rightarrow> (js_error + unit) \<times> ChatController" where
  "editMessage env i content = find_own env i (Edit_Input content)"

definition deleteMessage :: "ChatEnv \<Rightarrow> string \<Rightarrow> ChatController \<Rightarrow> (js_error + unit) \<times> ChatController" where
  "deleteMessage env i = find_own env i Delete_Input"

definition find_known :: "ChatEnv \<Rightarrow> string \<Rightarrow> ChatEventInput \<Rightarrow> ChatController \<Rightarrow> (js_error + unit) \<times> ChatController" where
  "find_known env i input st = (case (ct_channelId st, ct_identity st) of
     (Some c, Some _) \<Rightarrow>
       if c = '''' then (Inl (JSError ''message not found''), st)
       else (case find_message (en_lc env) (en_isotime env) c i (ct_messages st) of
           (found, messages) \<Rightarrow> (Inr (), wait_for (Known_Found i found input) (st\<lparr>ct_messages := messages\<rparr>)))
   | _ \<Rightarrow> (Inl (JSError ''message not found''), st))"

definition known_found :: "ChatEnv \<Rightarrow> string \<Rightarrow> LocalChatMessage option \<Rightarrow> ChatEventInput \<Rightarrow> ChatController \<Rightarrow> (js_error + unit) \<times> ChatController" where
  "known_found env i found input st = (case found of
     None \<Rightarrow> (Inl (JSError ''message not found''), st)
   | Some _ \<Rightarrow> publishEvent env i input st)"

definition setReaction :: "ChatEnv \<Rightarrow> string \<Rightarrow> string \<Rightarrow> bool \<Rightarrow> ChatController \<Rightarrow> (js_error + unit) \<times> ChatController" where
  "setReaction env i emoji active = find_known env i (Reaction_Input active emoji)"

definition setPinned :: "ChatEnv \<Rightarrow> string \<Rightarrow> bool \<Rightarrow> ChatController \<Rightarrow> (js_error + unit) \<times> ChatController" where
  "setPinned env i pinned = find_known env i (Pin_Input pinned)"

definition setTyping :: "ChatEnv \<Rightarrow> bool \<Rightarrow> ChatController \<Rightarrow> ChatController" where
  "setTyping env active st = (case (ct_channelId st, ct_identity st, ct_transport st) of
     (Some c, Some (_, identity), Some _) \<Rightarrow>
       if c = '''' \<or> ct_status st \<noteq> ChatReady then st
       else
         let now = en_clock env 0 in
         if active = ct_localTypingActive st \<and> (\<not> active \<or> now - ct_lastTypingSentAt st < 1500) then st
         else snd (sendToCapablePeers env
           (Chat_Typing \<lparr>ty_channelId = Some c, ty_actorPeerId = li_peerId identity, ty_active = active, ty_timestamp = now\<rparr>)
           ''typing-indicator-v1'' (st\<lparr>ct_localTypingActive := active, ct_lastTypingSentAt := now\<rparr>))
   | _ \<Rightarrow> st)"

text \<open>\<^verbatim>\<open>queue\<close> works on the stores alone, without a session; \<open>uuid2\<close> is the identifier of the reply event.\<close>

definition chat_queue ::
  "ChatEnv \<Rightarrow> string \<Rightarrow> JsonWebKey \<times> CryptoKey \<Rightarrow> string \<Rightarrow> string \<Rightarrow> string \<Rightarrow> string option \<Rightarrow> ChatController \<Rightarrow> (js_error + LocalChatMessage) \<times> ChatController" where
  "chat_queue env uuid2 fresh channelId content name replyToId st0 =
    (case getOrCreateLocalIdentity (en_lc env) (en_uuid env) fresh name (ct_social st0) of (identity, social) \<Rightarrow>
      let st = st0\<lparr>ct_social := social\<rparr> in
      (case createSigned (en_num env) (en_sign env) (en_uuid env) identity channelId (li_displayName identity) content (en_clock env 0) of
         Inl e \<Rightarrow> (Inl e, st)
       | Inr m \<Rightarrow>
           let st1 = st\<lparr>ct_outbox := enqueue (en_clock env 1) channelId (sm_id m) (jtext (en_num env) (signed_wire_value m)) (ct_outbox st)\<rparr>;
               (message, messages) = persistSigned (en_lc env) (en_isotime env) m (ct_messages st1);
               st2 = st1\<lparr>ct_messages := messages\<rparr>
           in if \<not> text_given replyToId then (Inr message, st2)
              else (case createEvent (en_num env) (en_sign env) uuid2 identity channelId (sm_id m) (Reply_Input (the replyToId)) (en_clock env 2)
                        (ct_messages st2) of
                  (Inl e, messages2) \<Rightarrow> (Inl e, st2\<lparr>ct_messages := messages2\<rparr>)
                | (Inr event, messages2) \<Rightarrow> (Inr message,
                    st2\<lparr>ct_outbox := enqueue (en_clock env 3) channelId (ev_id event) (jtext (en_num env) (event_wire_value event)) (ct_outbox st2),
                      ct_messages := snd (persistEvent (en_lc env) (en_isotime env) event messages2)\<rparr>))))"

section \<open>What the network reports\<close>

text \<open>The callbacks given to the transport carry the token of their session and do nothing for a session that was replaced.\<close>

definition data_state :: "ChatEnv \<Rightarrow> nat \<Rightarrow> string \<Rightarrow> bool \<Rightarrow> ChatController \<Rightarrow> ChatController" where
  "data_state env token p is_open st =
    (if ct_sessionToken st \<noteq> Some token then st
     else if \<not> is_open then forgetPeerConnection p st
     else
       let st1 = st\<lparr>ct_dataChannelPeers := (if p \<in> set (ct_dataChannelPeers st) then ct_dataChannelPeers st else ct_dataChannelPeers st @ [p]),
             ct_sync := clearFailure p (ct_sync st)\<rparr>
       in if ct_identity st1 \<noteq> None then begin_handshake env p st1 else markPeerReady env p st1)"

definition data_message :: "ChatEnv \<Rightarrow> nat \<Rightarrow> string \<Rightarrow> string \<Rightarrow> ChatController \<Rightarrow> ChatController" where
  "data_message env token p raw st = (if ct_sessionToken st \<noteq> Some token then st else receive_data env p raw st)"

definition connection_lost :: "nat \<Rightarrow> string \<Rightarrow> ChatController \<Rightarrow> ChatController" where
  "connection_lost token p st = (if ct_sessionToken st \<noteq> Some token then st else forgetPeerConnection p st)"

definition negotiation_error :: "nat \<Rightarrow> ChatController \<Rightarrow> ChatController" where
  "negotiation_error token st = (if ct_sessionToken st \<noteq> Some token then st else error_if_alone st)"

definition transfer_open :: "nat \<Rightarrow> string \<Rightarrow> ChatController \<Rightarrow> ChatController" where
  "transfer_open token p st =
    (if ct_sessionToken st = Some token \<and> p \<in> set (ct_openDataPeers st) \<and> \<not> isRevoked (ct_groups st) p \<and> ct_attachments st
     then effect (Files_Ready p) st else st)"

definition peer_joined :: "ChatEnv \<Rightarrow> string \<Rightarrow> string option \<Rightarrow> ChatController \<Rightarrow> ChatController" where
  "peer_joined env p version st =
    (if ct_identity st \<noteq> None \<and> text_given version \<and> \<not> compatibleAppVersion (en_app env) version then rejectIncompatiblePeer p st
     else if \<not> isTrustedPeer st p
     then (if text_given (ct_groupId st) then refreshGroupMembership env True (Joined p (ct_peerId st)) st else st)
     else connectTrustedPeer p (ct_peerId st) st)"

definition peer_left :: "string \<Rightarrow> ChatController \<Rightarrow> ChatController" where
  "peer_left p st0 =
    (if \<not> isTrustedPeer st0 p then st0
     else
       let st = forgetPeerConnection p st0
       in transport_disconnect p (if ct_identity st = None then st\<lparr>ct_groups := removeDisplayName p (ct_groups st)\<rparr> else st))"

definition description_received :: "string \<Rightarrow> ChatController \<Rightarrow> ChatController" where
  "description_received p st =
    (if \<not> isTrustedPeer st p \<or> ct_transport st = None then st else wait_for (Accepting_Peer p) (effect (Accept_Description p) st))"

definition signaling_connected :: "ChatEnv \<Rightarrow> ChatController \<Rightarrow> ChatController" where
  "signaling_connected env st0 =
    (if ct_openDataPeers st0 \<noteq> [] then st0
     else
       let st1 = setStatus ChatConnected st0;
           st = (case ct_sessionToken st1 of Some token \<Rightarrow> armReadyTimeout token st1 | None \<Rightarrow> st1)
       in if text_given (ct_groupId st) then refreshGroupMembership env False Stop st else connectPresentTrustedPeers env st)"

definition signaling_reconnecting :: "ChatController \<Rightarrow> ChatController" where
  "signaling_reconnecting st = (if ct_openDataPeers st = [] then setStatus ChatConnecting st else st)"

definition signaling_error :: "ChatController \<Rightarrow> ChatController" where
  "signaling_error st = error_if_alone st"

section \<open>After an await\<close>

text \<open>An exception in the calls that prepare a peer sets the status; elsewhere it is dropped.\<close>

definition next_fails :: "chat_next \<Rightarrow> ChatController \<Rightarrow> ChatController" where
  "next_fails next st =
    (let fails = (\<lambda>token. if ct_sessionToken st \<noteq> Some token then st else error_if_alone st) in
     case next of
       Prepared_Profile token _ _ \<Rightarrow> fails token
     | Prepared_Membership token _ _ \<Rightarrow> fails token
     | Prepared_Outbox token _ _ \<Rightarrow> fails token
     | Prepared_History token _ _ \<Rightarrow> fails token
     | Connect_Refreshed token \<Rightarrow> connect_fails token False st
     | _ \<Rightarrow> st)"

definition resume_next :: "ChatEnv \<Rightarrow> chat_next \<Rightarrow> ChatController \<Rightarrow> ChatController" where
  "resume_next env next st = (case next of
     Stop \<Rightarrow> st
   | Prepared_Profile token generation p \<Rightarrow>
       if \<not> isSessionPeerActive st token p then st else sendGroupMembership env p (Prepared_Membership token generation p) st
   | Prepared_Membership token generation p \<Rightarrow>
       if ct_membershipOnly st \<or> \<not> isSessionPeerActive st token p then st
       else wait_for (Resume (Prepared_Outbox token generation p)) (flushOutbox env p st)
   | Prepared_Outbox token generation p \<Rightarrow>
       if \<not> isSessionPeerActive st token p then st
       else (case requestHistory env p st of
           (Inl _, st1) \<Rightarrow> next_fails next st1
         | (Inr _, st1) \<Rightarrow> wait_for (Resume (Prepared_History token generation p)) st1)
   | Prepared_History token generation p \<Rightarrow>
       if \<not> isSessionPeerActive st token p \<or> generation \<noteq> ct_generation st \<or> \<not> ct_attachments st then st else effect (Files_Ready p) st
   | Answer_History p request \<Rightarrow> respondHistory env p request st
   | Reply_Membership p \<Rightarrow> sendGroupMembership env p Stop st
   | Joined p localPeerId \<Rightarrow> if isTrustedPeer st p then connectTrustedPeer p localPeerId st else st
   | Connect_Refreshed token \<Rightarrow> st)"

definition made_for :: "ChatEnv \<Rightarrow> nat \<Rightarrow> nat \<Rightarrow> string \<Rightarrow> ChatWireEnvelope \<Rightarrow> chat_next \<Rightarrow> ChatController \<Rightarrow> ChatController" where
  "made_for env token transport p w next st =
    (if ct_sessionToken st \<noteq> Some token \<or> ct_transport st \<noteq> Some transport \<or> p \<notin> set (ct_openDataPeers st) then wait_for (Resume next) st
     else (case send_data env 0 p w st of
         (Inl _, st1) \<Rightarrow> next_fails next st1
       | (Inr _, st1) \<Rightarrow> wait_for (Resume next) st1))"

definition membership_accepted :: "ChatEnv \<Rightarrow> string \<Rightarrow> (LocalGroup \<times> bool) option \<Rightarrow> ChatController \<Rightarrow> ChatController" where
  "membership_accepted env p accepted st = (case accepted of
     None \<Rightarrow> st
   | Some (merged, shouldReply) \<Rightarrow>
       wait_for (Resume (if shouldReply then Reply_Membership p else Stop)) (connectPresentTrustedPeers env
         (installGroupPeers env (g_members merged) (g_removedMembers merged) (revocations_of merged) st)))"

definition resume_chat :: "ChatEnv \<Rightarrow> JsonWebKey \<times> CryptoKey \<Rightarrow> chat_wait \<Rightarrow> ChatController \<Rightarrow> ChatController" where
  "resume_chat env fresh w st = (case w of
     Syncing v \<Rightarrow> resume_sync env v st
   | Resume next \<Rightarrow> resume_next env next st
   | Control_Handled p raw \<Rightarrow> (case en_control env of Inr False \<Rightarrow> receive_text env p raw st | _ \<Rightarrow> st)
   | Profile_Made token transport p m next \<Rightarrow> made_for env token transport p (Profile_Update m) next st
   | Snapshot_Made token transport p result next \<Rightarrow> (case result of
         Inl _ \<Rightarrow> next_fails next st
       | Inr None \<Rightarrow> wait_for (Resume next) st
       | Inr (Some m) \<Rightarrow> made_for env token transport p (Group_Members m) next st)
   | Revocation_Applied target applied \<Rightarrow>
       if \<not> applied then st
       else if map_option (\<lambda>i. li_peerId (snd i)) (ct_identity st) = Some target then chat_disconnect st
       else refreshGroupMembership env False Stop st
   | Event_Verified p e valid \<Rightarrow>
       if \<not> valid then st
       else wait_for (Persisted p (ev_id e)) (st\<lparr>ct_messages := snd (persistEvent (en_lc env) (en_isotime env) e (ct_messages st))\<rparr>)
   | Message_Verified p m valid \<Rightarrow>
       if \<not> valid then st
       else wait_for (Persisted p (sm_id m)) (st\<lparr>ct_messages := snd (persistSigned (en_lc env) (en_isotime env) m (ct_messages st))\<rparr>)
   | Persisted p i \<Rightarrow> sendMessageAck env p i st
   | Membership_Accepted p accepted \<Rightarrow> membership_accepted env p accepted st
   | Connecting_Peer p \<Rightarrow> if en_settled env then st else connecting_failed st
   | Accepting_Peer p \<Rightarrow> if en_settled env then st else status_by_peers st
   | After_Refresh task next \<Rightarrow>
       if ct_refreshingMembers st = Some task then wait_for w st
       else if en_settled env then resume_next env next st else next_fails next st
   | Refresh_Loaded task token g identity shouldBroadcast grp \<Rightarrow> refresh_loaded env task token g identity shouldBroadcast grp st
   | Refresh_Connected task token g identity shouldBroadcast change \<Rightarrow> refresh_connected env task token g identity shouldBroadcast change st
   | Refresh_Sent task token g identity change \<Rightarrow> refresh_sent env task token g identity change st
   | Refresh_Signaled task token g identity signaling \<Rightarrow> refresh_signaled env task token g identity signaling st
   | Refresh_Repeats task token g identity \<Rightarrow> refresh_repeats env task token g identity st
   | Connect_Disconnected c name options \<Rightarrow> connect_disconnected env fresh c name options st
   | Connect_Inferred token c name options inferred \<Rightarrow> connect_inferred env token c name options inferred st
   | Connect_Network token \<Rightarrow> connect_network env token st
   | Connect_Attachments token \<Rightarrow> connect_attachments env token st
   | Connect_Signaled token \<Rightarrow> connect_signaled env token st
   | Send_Created m replyToId \<Rightarrow> send_created env m replyToId st
   | Send_Enqueued m replyToId \<Rightarrow> send_enqueued env m replyToId st
   | Send_Persisted m replyToId \<Rightarrow> send_persisted env m replyToId st
   | Event_Created e \<Rightarrow> event_created env e st
   | Event_Enqueued e \<Rightarrow> event_enqueued env e st
   | Own_Found i found input \<Rightarrow> snd (own_found env i found input st)
   | Known_Found i found input \<Rightarrow> snd (known_found env i found input st))"

end
