(* ===== verification/Handshake_Safety.thy ===== *)
theory Handshake_Safety
  imports Identity_Sync
begin

text \<open>
  What the identity handshake guarantees under every interleaving of its calls: a peer is
  reported as authenticated only after it signed a nonce that was sent to it, on the same channel
  and for the same receiver, and each nonce is accepted once.

  The step relation lets the environment do what the controller may do at any moment: call every
  operation, let a waiting call go on, let a timer fire and change the answers of the context. It
  relies on two facts. \<^verbatim>\<open>crypto.randomUUID\<close> gives an identifier that was not used before, and the controller changes its
  identity or channel only after \<^verbatim>\<open>resetSession\<close>, when no challenge is pending (\<^verbatim>\<open>ChatController.disconnect\<close>). A proof
  that is accepted comes from the parser, which gives it the channel of the session.
\<close>

section \<open>What a log says\<close>

fun open_nonce :: "string \<Rightarrow> sync_event list \<Rightarrow> string option" where
  "open_nonce p [] = None"
| "open_nonce p (Sent q (Identity_Challenge c) # es) = (if q = p then Some (ic_nonce c) else open_nonce p es)"
| "open_nonce p (_ # es) = open_nonce p es"

fun concluded :: "sync_event \<Rightarrow> string option" where
  "concluded (Ready p) = Some p"
| "concluded (Revoked_Peer p) = Some p"
| "concluded _ = None"

definition challenges :: "string \<Rightarrow> sync_event list \<Rightarrow> IdentityChallengeWireMessage set" where
  "challenges p es = {c. Sent p (Identity_Challenge c) \<in> set es}"

definition issued :: "sync_event list \<Rightarrow> string set" where
  "issued es = {ic_nonce c | p c. c \<in> challenges p es}"

text \<open>The nonces for which a peer was reported as authenticated, the newest first.\<close>

fun accepted :: "string \<Rightarrow> sync_event list \<Rightarrow> string list" where
  "accepted p [] = []"
| "accepted p (e # es) =
    (if concluded e = Some p then (case open_nonce p es of None \<Rightarrow> [] | Some n \<Rightarrow> [n]) else []) @ accepted p es"

definition proven :: "(rat \<Rightarrow> string) \<Rightarrow> sync_event list \<Rightarrow> string \<Rightarrow> string \<Rightarrow> bool" where
  "proven num es p n \<longleftrightarrow> (\<exists>ch proof mid pre. es = mid @ Sent p (Identity_Challenge ch) # pre
     \<and> Verified p (ip_signature proof) (canonicalIdentityProof num proof) True \<in> set mid
     \<and> ic_nonce ch = n \<and> ip_nonce proof = n \<and> ip_fromPeerId proof = p
     \<and> ip_toPeerId proof = ic_fromPeerId ch \<and> ip_channelId proof = ic_channelId ch)"

fun authentic :: "(rat \<Rightarrow> string) \<Rightarrow> sync_event list \<Rightarrow> bool" where
  "authentic num [] \<longleftrightarrow> True"
| "authentic num (e # es) \<longleftrightarrow> authentic num es
     \<and> (\<forall>p. concluded e = Some p \<longrightarrow> (\<exists>n. open_nonce p es = Some n \<and> proven num es p n \<and> n \<notin> set (accepted p es)))"

definition quiet :: "sync_event \<Rightarrow> bool" where
  "quiet e \<longleftrightarrow> concluded e = None \<and> (\<forall>p c. e \<noteq> Sent p (Identity_Challenge c))"

lemma quiet_events [simp]:
  "quiet (Failure p r)" "quiet (Verified p s t v)" "quiet (Capabilities_Known p u)" "quiet (Sent p (Identity_Proof m))"
  by (simp_all add: quiet_def)

lemma open_nonce_quiet: "quiet e \<Longrightarrow> open_nonce p (e # es) = open_nonce p es"
  by (cases "(p, e # es)" rule: open_nonce.cases) (auto simp: quiet_def)

lemma quiet_log:
  assumes "quiet e"
  shows "accepted p (e # es) = accepted p es" "authentic num (e # es) = authentic num es"
    "challenges p (e # es) = challenges p es" "issued (e # es) = issued es"
  using assms by (auto simp: quiet_def challenges_def issued_def)

lemma proven_Cons: "proven num es p n \<Longrightarrow> proven num (e # es) p n"
  unfolding proven_def by (metis append_Cons insertCI list.simps(15))

lemma open_nonce_issued: "open_nonce p es = Some n \<Longrightarrow> n \<in> issued es"
  by (induction p es rule: open_nonce.induct) (fastforce simp: issued_def challenges_def split: if_splits)+

lemma issued_Cons: "issued es \<subseteq> issued (e # es)"
  by (auto simp: issued_def challenges_def)

lemma accepted_issued: "set (accepted p es) \<subseteq> issued es"
proof (induction es)
  case (Cons e es)
  then have "set (accepted p es) \<subseteq> issued (e # es)" using issued_Cons by blast
  moreover have "n \<in> issued (e # es)" if "open_nonce p es = Some n" for n
    using open_nonce_issued [OF that] issued_Cons by blast
  ultimately show ?case unfolding accepted.simps set_append by (cases "concluded e = Some p"; cases "open_nonce p es") simp_all
qed simp

lemma authentic_split:
  assumes "authentic num (post @ e # pre)" "concluded e = Some p"
  shows "\<exists>n. open_nonce p pre = Some n \<and> proven num pre p n \<and> n \<notin> set (accepted p pre)"
  using assms by (induction post) auto

section \<open>The invariant\<close>

definition session_of :: "ChatSyncContext \<Rightarrow> string option \<times> string option" where
  "session_of ctx = (map_option (\<lambda>i. li_peerId (snd i)) (cx_identity ctx), cx_channelId ctx)"

definition challenged :: "ChatSyncContext \<Rightarrow> sync_event list \<Rightarrow> string \<Rightarrow> string \<Rightarrow> bool" where
  "challenged ctx es p n \<longleftrightarrow> open_nonce p es = Some n \<and> n \<notin> set (accepted p es)
     \<and> (\<exists>c \<in> challenges p es. ic_nonce c = n \<and> session_of ctx = (Some (ic_fromPeerId c), ic_channelId c))"

definition wait_ok :: "(rat \<Rightarrow> string) \<Rightarrow> sync_event list \<Rightarrow> sync_wait \<Rightarrow> bool" where
  "wait_ok num es w \<longleftrightarrow> (\<forall>p token identity proof n. w = Verifying p token identity proof n True \<longrightarrow> proven num es p n)"

definition auth_ok :: "(rat \<Rightarrow> string) \<Rightarrow> ChatSyncContext \<Rightarrow> sync_wait list \<Rightarrow> (string \<times> string) list \<Rightarrow> sync_event list \<Rightarrow> bool" where
  "auth_ok num ctx ws pending es \<longleftrightarrow> authentic num es \<and> (\<forall>w \<in> set ws. wait_ok num es w)
     \<and> (\<forall>p n. map_of pending p = Some n \<longrightarrow> challenged ctx es p n)"

lemma wait_ok_Cons: "wait_ok num es w \<Longrightarrow> wait_ok num (e # es) w"
  using proven_Cons by (auto simp: wait_ok_def)

lemma wait_ok_Signing [simp]: "wait_ok num es (Signing p token identity proof)"
  by (simp add: wait_ok_def)

lemma auth_ok_shrink:
  assumes "auth_ok num ctx ws pending es" "map_of pending' \<subseteq>\<^sub>m map_of pending" "set ws' \<subseteq> set ws"
  shows "auth_ok num ctx ws' pending' es"
  using assms unfolding auth_ok_def map_le_def by (metis domI subsetD)

lemma auth_ok_quiet:
  assumes "auth_ok num ctx ws pending es" "quiet e"
  shows "auth_ok num ctx ws pending (e # es)"
  using assms by (simp add: auth_ok_def challenged_def quiet_log open_nonce_quiet wait_ok_Cons del: accepted.simps authentic.simps)

lemma delete_le [simp]: "map_of (AList.delete k m) \<subseteq>\<^sub>m map_of m"
  by (auto simp: map_le_def dom_def)

lemma auth_ok_challenge:
  assumes ok: "auth_ok num ctx ws pending es" and c: "session_of ctx = (Some (ic_fromPeerId c), ic_channelId c)"
    and n: "map_of pending p = Some (ic_nonce c) \<or> ic_nonce c \<notin> issued es"
  shows "auth_ok num ctx ws (AList.update p (ic_nonce c) pending) (Sent p (Identity_Challenge c) # es)"
proof -
  let ?e = "Sent p (Identity_Challenge c)"
  have fresh: "ic_nonce c \<notin> set (accepted p es)"
    using ok n accepted_issued [of p es] by (auto simp: auth_ok_def challenged_def)
  have "challenged ctx (?e # es) q m" if "map_of (AList.update p (ic_nonce c) pending) q = Some m" for q m
  proof (cases "q = p")
    case True
    then show ?thesis using that fresh c by (auto simp: challenged_def challenges_def)
  next
    case False
    then have "challenged ctx es q m" using that ok by (simp add: auth_ok_def)
    with False show ?thesis by (auto simp: challenged_def challenges_def)
  qed
  then show ?thesis using ok wait_ok_Cons by (auto simp: auth_ok_def)
qed

lemma auth_ok_conclude:
  assumes ok: "auth_ok num ctx ws pending es" and n: "map_of pending p = Some n" and "proven num es p n" "concluded e = Some p"
  shows "auth_ok num ctx ws (AList.delete p pending) (e # es)"
proof -
  have p: "open_nonce p es = Some n" "n \<notin> set (accepted p es)" using ok n by (auto simp: auth_ok_def challenged_def)
  have other: "open_nonce q (e # es) = open_nonce q es" "challenges q (e # es) = challenges q es" for q
    using assms(4) by (cases "(q, e # es)" rule: open_nonce.cases; auto simp: challenges_def)+
  have "challenged ctx (e # es) q m" if "map_of (AList.delete p pending) q = Some m" for q m
  proof -
    have "q \<noteq> p" "challenged ctx es q m" using that ok by (auto simp: auth_ok_def split: if_split_asm)
    then show ?thesis using assms(4) unfolding challenged_def other by simp
  qed
  then show ?thesis using ok p assms(3,4) wait_ok_Cons by (auto simp: auth_ok_def)
qed

abbreviation svc_ok :: "(rat \<Rightarrow> string) \<Rightarrow> ChatSyncContext \<Rightarrow> sync_wait list \<Rightarrow> SyncService \<Rightarrow> bool" where
  "svc_ok num ctx ws st \<equiv> auth_ok num ctx ws (sc_pendingChallenges st) (sc_log st)"

lemma clear_fields [simp]:
  "sc_pendingChallenges (clearTimer p st) = sc_pendingChallenges st" "sc_log (clearTimer p st) = sc_log st"
  "sc_pendingChallenges (sync_clear p st) = sc_pendingChallenges st" "sc_log (sync_clear p st) = sc_log st"
  "sc_failedPeers (clearTimer p st) = sc_failedPeers st" "sc_failedPeers (sync_clear p st) = sc_failedPeers st"
  by (simp_all add: clearTimer_def sync_clear_def Let_def)

lemma fail_fields [simp]:
  "sc_pendingChallenges (sync_fail p r st) = AList.delete p (sc_pendingChallenges st)" "sc_log (sync_fail p r st) = Failure p r # sc_log st"
  by (simp_all add: sync_fail_def tell_def Let_def)

lemma tell_fields [simp]: "sc_pendingChallenges (tell e st) = sc_pendingChallenges st" "sc_log (tell e st) = e # sc_log st"
  by (simp_all add: tell_def)

lemma auth_ok_fail: "auth_ok num ctx ws pending es \<Longrightarrow> auth_ok num ctx ws (AList.delete p pending) (Failure p r # es)"
  using auth_ok_quiet [OF auth_ok_shrink [OF _ delete_le subset_refl]] by simp

lemma fail_ok: "svc_ok num ctx ws st \<Longrightarrow> svc_ok num ctx ws (sync_fail p r st)"
  by (simp add: auth_ok_fail)

lemma schedule_ok: "svc_ok num ctx ws st \<Longrightarrow> svc_ok num ctx ws (sync_schedule ctx' clock p st)"
  unfolding sync_schedule_def Let_def by (auto intro: auth_ok_fail)

lemma begin_ok:
  assumes "svc_ok num ctx ws st" "uuid \<notin> issued (sc_log st)"
  shows "svc_ok num ctx ws (sync_begin app ctx uuid clock p st)"
proof (cases "cx_identity ctx = None \<or> cx_channelId ctx = None")
  case True
  then show ?thesis using assms(1) by (auto simp: sync_begin_def split: option.split prod.split)
next
  case False
  then obtain i c where i: "cx_identity ctx = Some i" "cx_channelId ctx = Some c" by auto
  define n where "n = (case map_of (sc_pendingChallenges st) p of Some n \<Rightarrow> n | None \<Rightarrow> uuid)"
  define ch where "ch = \<lparr>ic_channelId = Some c, ic_fromPeerId = li_peerId (snd i), ic_nonce = n, ic_timestamp = clock 0,
    ic_capabilities = capabilities_value (LOCAL_RISK_CAPABILITIES app)\<rparr>"
  have ch: "ic_nonce ch = n" by (simp add: ch_def)
  have "map_of (sc_pendingChallenges st) p = Some n \<or> n \<notin> issued (sc_log st)"
    using assms(2) by (cases "map_of (sc_pendingChallenges st) p") (simp_all add: n_def)
  then have "auth_ok num ctx ws (AList.update p n (sc_pendingChallenges st)) (Sent p (Identity_Challenge ch) # sc_log st)"
    using auth_ok_challenge [OF assms(1), of ch p] unfolding ch by (simp add: session_of_def i ch_def)
  moreover have "svc_ok num ctx ws (sync_fail p r (st\<lparr>sc_startedAt := x\<rparr>))" for r x
    by (rule fail_ok) (simp add: assms(1))
  ultimately show ?thesis using assms(1)
    unfolding sync_begin_def i by (cases i) (auto simp: Let_def ch_def n_def simp del: fail_fields intro!: schedule_ok)
qed

lemma accept_ok:
  assumes ok: "svc_ok num ctx ws st" and acc: "sync_accept num ctx p proof st = (st', w)" and ch: "ip_channelId proof = cx_channelId ctx"
  shows "svc_ok num ctx (case w of None \<Rightarrow> ws | Some v \<Rightarrow> v # ws) st'"
proof (cases w)
  case None
  then have "st' = st" using acc by (auto simp: sync_accept_def Let_def split: option.splits if_splits)
  then show ?thesis using ok None by simp
next
  case (Some v)
  then obtain token i n valid where v: "cx_identity ctx = Some i" "ip_fromPeerId proof = p" "ip_toPeerId proof = li_peerId (snd i)"
      "map_of (sc_pendingChallenges st) p = Some n" "ip_nonce proof = n" "v = Verifying p token i proof n valid"
      "st' = tell (Verified p (ip_signature proof) (canonicalIdentityProof num proof) valid) st"
    using acc by (auto simp: sync_accept_def Let_def split: option.splits if_splits)
  have ok': "svc_ok num ctx ws st'" using ok v(7) auth_ok_quiet by simp
  have "proven num (sc_log st') p n" if valid
  proof -
    obtain c where c: "Sent p (Identity_Challenge c) \<in> set (sc_log st)" "ic_nonce c = n" "session_of ctx = (Some (ic_fromPeerId c), ic_channelId c)"
      using ok v(4) unfolding auth_ok_def challenged_def challenges_def by blast
    obtain pre mid where "sc_log st = mid @ Sent p (Identity_Challenge c) # pre" using split_list [OF c(1)] by blast
    then show ?thesis unfolding proven_def using that c v ch
      by (intro exI [of _ c] exI [of _ "proof"] exI [of _ "Verified p (ip_signature proof) (canonicalIdentityProof num proof) True # mid"]
          exI [of _ pre]) (simp add: session_of_def)
  qed
  then show ?thesis using ok' Some v(6) by (auto simp: auth_ok_def wait_ok_def)
qed

lemma verified_ok:
  assumes ok: "svc_ok num ctx ws st" and w: "wait_ok num (sc_log st) (Verifying p token identity proof n valid)"
  shows "svc_ok num ctx ws (accept_verified ctx p token identity proof n valid st)"
proof (cases "map_of (sc_pendingChallenges st) p = Some n \<and> valid")
  case True
  then have "proven num (Capabilities_Known p (ip_capabilities proof) # sc_log st) p n" using w proven_Cons by (simp add: wait_ok_def)
  moreover have "auth_ok num ctx ws (sc_pendingChallenges st) (Capabilities_Known p (ip_capabilities proof) # sc_log st)"
    using ok auth_ok_quiet by simp
  ultimately have "concluded e = Some p \<Longrightarrow> auth_ok num ctx ws (AList.delete p (sc_pendingChallenges st)) (e # Capabilities_Known p (ip_capabilities proof) # sc_log st)" for e
    using auth_ok_conclude True by blast
  then show ?thesis using ok True by (simp add: accept_verified_def Let_def)
next
  case False
  then show ?thesis using ok fail_ok by (auto simp: accept_verified_def)
qed

section \<open>Timers\<close>

text \<open>Every live timer is the one recorded for its peer, so that clearing it is always possible.\<close>

definition timer_ok :: "SyncService \<Rightarrow> nat \<Rightarrow> sync_timer \<Rightarrow> bool" where
  "timer_ok st h t \<longleftrightarrow> map_of (sc_timers st) (tm_peer t) = Some h \<and> h < sc_handles st
     \<and> map_of (sc_startedAt st) (tm_peer t) = Some (tm_startedAt t) \<and> 0 < tm_delay t \<and> tm_delay t \<le> IDENTITY_HANDSHAKE_RETRY_MS"

definition timers_ok :: "SyncService \<Rightarrow> bool" where
  "timers_ok st \<longleftrightarrow> wf_map (sc_live st) \<and> (\<forall>h t. map_of (sc_live st) h = Some t \<longrightarrow> timer_ok st h t)
     \<and> (\<forall>p h. map_of (sc_timers st) p = Some h \<longrightarrow> (\<exists>t. map_of (sc_live st) h = Some t \<and> tm_peer t = p))"

lemma timers_okI:
  assumes "wf_map (sc_live st)" "\<And>h t. map_of (sc_live st) h = Some t \<Longrightarrow> timer_ok st h t"
    and "\<And>p h. map_of (sc_timers st) p = Some h \<Longrightarrow> \<exists>t. map_of (sc_live st) h = Some t \<and> tm_peer t = p"
  shows "timers_ok st"
  unfolding timers_ok_def using assms by blast

lemma timers_okD:
  assumes "timers_ok st"
  shows "wf_map (sc_live st)" "map_of (sc_live st) h = Some t \<Longrightarrow> timer_ok st h t"
    "map_of (sc_timers st) p = Some h \<Longrightarrow> \<exists>t. map_of (sc_live st) h = Some t \<and> tm_peer t = p"
  using assms unfolding timers_ok_def by blast+

definition no_timer :: "string \<Rightarrow> SyncService \<Rightarrow> bool" where
  "no_timer p st \<longleftrightarrow> map_of (sc_timers st) p = None"

lemma no_timer_live: "timers_ok st \<Longrightarrow> no_timer p st \<Longrightarrow> map_of (sc_live st) h = Some t \<Longrightarrow> tm_peer t \<noteq> p"
  using timers_okD(2) [of st h t] by (auto simp: no_timer_def timer_ok_def)

text \<open>A timer that is cleared or fires leaves the others as they are.\<close>

lemma timers_ok_drop:
  assumes ok: "timers_ok st" and h: "map_of (sc_timers st) p = Some h"
  shows "timers_ok (st\<lparr>sc_live := AList.delete h (sc_live st), sc_timers := AList.delete p (sc_timers st)\<rparr>)"
proof (rule timers_okI)
  obtain t0 where t0: "map_of (sc_live st) h = Some t0" "tm_peer t0 = p" using timers_okD(3) [OF ok h] by blast
  fix g t
  assume "map_of (sc_live (st\<lparr>sc_live := AList.delete h (sc_live st), sc_timers := AList.delete p (sc_timers st)\<rparr>)) g = Some t"
  then have g: "g \<noteq> h" "timer_ok st g t" using timers_okD(2) [OF ok] by (auto split: if_split_asm)
  then have "tm_peer t \<noteq> p" using h by (auto simp: timer_ok_def)
  with g show "timer_ok (st\<lparr>sc_live := AList.delete h (sc_live st), sc_timers := AList.delete p (sc_timers st)\<rparr>) g t"
    by (simp add: timer_ok_def)
next
  fix q g
  assume "map_of (sc_timers (st\<lparr>sc_live := AList.delete h (sc_live st), sc_timers := AList.delete p (sc_timers st)\<rparr>)) q = Some g"
  then have q: "q \<noteq> p" "map_of (sc_timers st) q = Some g" by (auto split: if_split_asm)
  obtain t where t: "map_of (sc_live st) g = Some t" "tm_peer t = q" using timers_okD(3) [OF ok q(2)] by blast
  have "g \<noteq> h"
  proof
    assume "g = h"
    with t timers_okD(3) [OF ok h] q(1) show False by auto
  qed
  with t show "\<exists>t. map_of (sc_live (st\<lparr>sc_live := AList.delete h (sc_live st), sc_timers := AList.delete p (sc_timers st)\<rparr>)) g = Some t \<and> tm_peer t = q"
    by simp
qed (simp add: timers_okD(1) [OF ok])

lemma timers_ok_clearTimer:
  assumes "timers_ok st"
  shows "timers_ok (clearTimer p st)" "no_timer p (clearTimer p st)"
proof -
  show "no_timer p (clearTimer p st)" by (simp add: clearTimer_def no_timer_def)
  show "timers_ok (clearTimer p st)"
  proof (cases "map_of (sc_timers st) p")
    case None
    then have "AList.delete p (sc_timers st) = sc_timers st" by (simp add: delete_idem map_of_eq_None_iff)
    with None assms show ?thesis by (simp add: clearTimer_def)
  qed (use assms timers_ok_drop in \<open>simp add: clearTimer_def\<close>)
qed

lemma timers_ok_start:
  assumes "timers_ok st" "\<And>h t. map_of (sc_live st) h = Some t \<Longrightarrow> map_of x (tm_peer t) = map_of (sc_startedAt st) (tm_peer t)"
  shows "timers_ok (st\<lparr>sc_startedAt := x\<rparr>)"
  by (rule timers_okI) (use timers_okD [OF assms(1)] assms(2) in \<open>simp_all add: timer_ok_def\<close>)

lemma timers_ok_forget_start:
  assumes "timers_ok st" "no_timer p st"
  shows "timers_ok (st\<lparr>sc_startedAt := AList.delete p (sc_startedAt st)\<rparr>)" "timers_ok (st\<lparr>sc_startedAt := AList.update p t (sc_startedAt st)\<rparr>)"
  using no_timer_live [OF assms] by (auto intro!: timers_ok_start [OF assms(1)])

lemma timers_ok_clear:
  assumes "timers_ok st"
  shows "timers_ok (sync_clear p st)" "no_timer p (sync_clear p st)"
  using timers_ok_forget_start(1) timers_ok_clearTimer [OF assms] by (simp_all add: sync_clear_def Let_def no_timer_def)

lemma timers_ok_other [simp]:
  "timers_ok (st\<lparr>sc_pendingChallenges := a\<rparr>) = timers_ok st" "timers_ok (st\<lparr>sc_failedPeers := b\<rparr>) = timers_ok st"
  "timers_ok (st\<lparr>sc_peerCapabilities := c\<rparr>) = timers_ok st" "timers_ok (tell e st) = timers_ok st"
  by (simp_all add: timers_ok_def timer_ok_def tell_def)

lemma timers_ok_fail: "timers_ok st \<Longrightarrow> timers_ok (sync_fail p r st)"
  unfolding sync_fail_def Let_def by (simp add: timers_ok_clear(1))

lemma timers_ok_arm:
  assumes ok: "timers_ok st" and "no_timer p st" "map_of (sc_startedAt st) p = Some (tm_startedAt t)" "tm_peer t = p"
    "0 < tm_delay t" "tm_delay t \<le> IDENTITY_HANDSHAKE_RETRY_MS"
  shows "timers_ok (st\<lparr>sc_handles := sc_handles st + 1, sc_live := AList.update (sc_handles st) t (sc_live st),
    sc_timers := AList.update p (sc_handles st) (sc_timers st)\<rparr>)" (is "timers_ok ?st")
proof (rule timers_okI)
  fix g u
  assume g: "map_of (sc_live ?st) g = Some u"
  show "timer_ok ?st g u"
  proof (cases "g = sc_handles st")
    case True
    then show ?thesis using g assms by (simp add: timer_ok_def)
  next
    case False
    then have "map_of (sc_live st) g = Some u" using g by simp
    then have "timer_ok st g u" "tm_peer u \<noteq> p" using timers_okD(2) [OF ok] no_timer_live [OF ok assms(2)] by blast+
    then show ?thesis by (simp add: timer_ok_def)
  qed
next
  fix q g
  assume q: "map_of (sc_timers ?st) q = Some g"
  show "\<exists>u. map_of (sc_live ?st) g = Some u \<and> tm_peer u = q"
  proof (cases "q = p")
    case False
    then obtain u where u: "map_of (sc_live st) g = Some u" "tm_peer u = q" using timers_okD(3) [OF ok, of q g] q by auto
    then have "g < sc_handles st" using timers_okD(2) [OF ok] by (simp add: timer_ok_def)
    with u show ?thesis by simp
  qed (use q assms(4) in simp)
qed (simp add: timers_okD(1) [OF ok])

lemma timers_ok_schedule:
  assumes "timers_ok st"
  shows "timers_ok (sync_schedule ctx clock p st)"
proof -
  note cleared = timers_ok_clearTimer [OF assms, of p]
  define a where "a = (case map_of (sc_startedAt (clearTimer p st)) p of Some t \<Rightarrow> t | None \<Rightarrow> clock 0)"
  define st1 where "st1 = (clearTimer p st)\<lparr>sc_startedAt := AList.update p a (sc_startedAt (clearTimer p st))\<rparr>"
  have st1: "timers_ok st1" "no_timer p st1" "map_of (sc_startedAt st1) p = Some a"
    using timers_ok_forget_start(2) [OF cleared] cleared(2) by (simp_all add: st1_def no_timer_def)
  have arm: "timers_ok (st1\<lparr>sc_handles := sc_handles st1 + 1, sc_live := AList.update (sc_handles st1) t (sc_live st1),
      sc_timers := AList.update p (sc_handles st1) (sc_timers st1)\<rparr>)"
    if "t = \<lparr>tm_peer = p, tm_startedAt = a, tm_delay = min IDENTITY_HANDSHAKE_RETRY_MS r\<rparr>" "\<not> r \<le> 0" for t r
    by (rule timers_ok_arm [OF st1(1,2)]) (use that st1(3) in \<open>simp_all add: IDENTITY_HANDSHAKE_RETRY_MS_def\<close>)
  show ?thesis
    unfolding sync_schedule_def Let_def a_def [symmetric] st1_def [symmetric]
    using cleared(1) timers_ok_fail [OF st1(1)] arm by simp
qed

lemma timers_ok_begin:
  assumes "timers_ok st"
  shows "timers_ok (sync_begin app ctx uuid clock p st)"
proof -
  define a where "a = (case map_of (sc_startedAt st) p of Some t \<Rightarrow> t | None \<Rightarrow> clock 0)"
  have "timers_ok (st\<lparr>sc_startedAt := AList.update p a (sc_startedAt st)\<rparr>)"
    by (rule timers_ok_start [OF assms]) (auto simp: timer_ok_def a_def dest!: timers_okD(2) [OF assms])
  then show ?thesis
    unfolding sync_begin_def Let_def a_def [symmetric] using assms
    by (auto intro!: timers_ok_schedule timers_ok_fail split: option.split prod.split)
qed

lemma timers_ok_fires:
  assumes ok: "timers_ok st" and t: "map_of (sc_live st) h = Some t"
  shows "timers_ok (timer_fires app ctx uuid clock h t st)"
proof -
  have "map_of (sc_timers st) (tm_peer t) = Some h" using timers_okD(2) [OF ok t] by (simp add: timer_ok_def)
  from timers_ok_drop [OF ok this] show ?thesis by (simp add: timer_fires_def Let_def timers_ok_fail timers_ok_begin)
qed

lemma reset_no_timers:
  assumes "timers_ok st"
  shows "sc_live (sync_resetSession st) = []"
proof -
  have "fst x \<in> set (map_values (sc_timers st))" if "x \<in> set (sc_live st)" for x
  proof -
    have "map_of (sc_live st) (fst x) = Some (snd x)"
      using timers_okD(1) [OF assms] that by (simp add: wf_map_def map_of_is_SomeI)
    from timers_okD(2) [OF assms this] have "map_of (sc_timers st) (tm_peer (snd x)) = Some (fst x)" by (simp add: timer_ok_def)
    then show ?thesis unfolding map_values_def by (metis map_of_SomeD image_eqI list.set_map snd_conv)
  qed
  then show ?thesis by (simp add: sync_resetSession_def filter_empty_conv)
qed

lemma timers_ok_reset: "timers_ok st \<Longrightarrow> timers_ok (sync_resetSession st)"
  by (rule timers_okI) (use reset_no_timers [of st] in \<open>simp_all add: sync_resetSession_def\<close>)

section \<open>Interleavings\<close>

record sync_system =
  sy_context :: ChatSyncContext
  sy_service :: SyncService
  sy_waiting :: "sync_wait list"

inductive sync_reachable :: "(rat \<Rightarrow> string) \<Rightarrow> (CryptoKey \<Rightarrow> string \<Rightarrow> nat list) \<Rightarrow> string \<Rightarrow> sync_system \<Rightarrow> bool"
  for num sign app where
  start: "sync_reachable num sign app \<lparr>sy_context = ctx, sy_service = new_sync, sy_waiting = []\<rparr>"
| context_changes: "sync_reachable num sign app s
    \<Longrightarrow> sc_pendingChallenges (sy_service s) = [] \<or> session_of ctx = session_of (sy_context s)
    \<Longrightarrow> sync_reachable num sign app (s\<lparr>sy_context := ctx\<rparr>)"
| session_reset: "sync_reachable num sign app s \<Longrightarrow> sync_reachable num sign app (s\<lparr>sy_service := sync_resetSession (sy_service s)\<rparr>)"
| peer_forgotten: "sync_reachable num sign app s \<Longrightarrow> sync_reachable num sign app (s\<lparr>sy_service := sync_forgetPeer p (sy_service s)\<rparr>)"
| failure_cleared: "sync_reachable num sign app s \<Longrightarrow> sync_reachable num sign app (s\<lparr>sy_service := clearFailure p (sy_service s)\<rparr>)"
| begun: "sync_reachable num sign app s \<Longrightarrow> uuid \<notin> issued (sc_log (sy_service s))
    \<Longrightarrow> sync_reachable num sign app (s\<lparr>sy_service := sync_begin app (sy_context s) uuid clock p (sy_service s)\<rparr>)"
| responding: "sync_reachable num sign app s \<Longrightarrow> sync_respond app (sy_context s) now p challenge = Some w
    \<Longrightarrow> sync_reachable num sign app (s\<lparr>sy_waiting := w # sy_waiting s\<rparr>)"
| responded: "sync_reachable num sign app s \<Longrightarrow> sy_waiting s = ws1 @ Signing p token identity m # ws2
    \<Longrightarrow> uuid \<notin> issued (sc_log (sy_service s))
    \<Longrightarrow> sync_reachable num sign app (s\<lparr>sy_waiting := ws1 @ ws2,
          sy_service := respond_signed num sign app (sy_context s) uuid clock p token identity m (sy_service s)\<rparr>)"
| accepting: "sync_reachable num sign app s \<Longrightarrow> ip_channelId m = cx_channelId (sy_context s)
    \<Longrightarrow> sync_accept num (sy_context s) p m (sy_service s) = (st, w)
    \<Longrightarrow> sync_reachable num sign app (s\<lparr>sy_waiting := (case w of None \<Rightarrow> sy_waiting s | Some v \<Rightarrow> v # sy_waiting s), sy_service := st\<rparr>)"
| was_verified: "sync_reachable num sign app s \<Longrightarrow> sy_waiting s = ws1 @ Verifying p token identity m n valid # ws2
    \<Longrightarrow> sync_reachable num sign app (s\<lparr>sy_waiting := ws1 @ ws2,
          sy_service := accept_verified (sy_context s) p token identity m n valid (sy_service s)\<rparr>)"
| fired: "sync_reachable num sign app s \<Longrightarrow> map_of (sc_live (sy_service s)) h = Some timer \<Longrightarrow> uuid \<notin> issued (sc_log (sy_service s))
    \<Longrightarrow> sync_reachable num sign app (s\<lparr>sy_service := timer_fires app (sy_context s) uuid clock h timer (sy_service s)\<rparr>)"

definition system_ok :: "(rat \<Rightarrow> string) \<Rightarrow> sync_system \<Rightarrow> bool" where
  "system_ok num s \<longleftrightarrow> svc_ok num (sy_context s) (sy_waiting s) (sy_service s) \<and> timers_ok (sy_service s)"

lemma timers_ok_accept: "timers_ok st \<Longrightarrow> sync_accept num ctx p m st = (st', w) \<Longrightarrow> timers_ok st'"
  by (auto simp: sync_accept_def Let_def split: option.splits if_splits)

lemma timers_ok_verified: "timers_ok st \<Longrightarrow> timers_ok (accept_verified ctx p token identity m n valid st)"
  by (simp add: accept_verified_def Let_def timers_ok_fail timers_ok_clear(1))

lemma timers_ok_signed: "timers_ok st \<Longrightarrow> timers_ok (respond_signed num sign app ctx uuid clock p token identity m st)"
  by (simp add: respond_signed_def Let_def timers_ok_begin)

lemma signed_ok:
  assumes "svc_ok num ctx ws st" "uuid \<notin> issued (sc_log st)"
  shows "svc_ok num ctx ws (respond_signed num sign app ctx uuid clock p token identity m st)"
proof -
  let ?st = "tell (Sent p (Identity_Proof (m\<lparr>ip_signature := bytesToBase64Url (sign (li_privateKey (snd identity)) (canonicalIdentityProof num m))\<rparr>))) st"
  have "svc_ok num ctx ws ?st" "uuid \<notin> issued (sc_log ?st)" using assms auth_ok_quiet by (simp_all add: quiet_log)
  then show ?thesis using assms(1) begin_ok [of num ctx ws ?st] by (simp add: respond_signed_def Let_def del: tell_fields)
qed

lemma fires_ok:
  assumes "svc_ok num ctx ws st" "uuid \<notin> issued (sc_log st)"
  shows "svc_ok num ctx ws (timer_fires app ctx uuid clock h t st)"
proof -
  let ?st = "st\<lparr>sc_live := AList.delete h (sc_live st), sc_timers := AList.delete (tm_peer t) (sc_timers st)\<rparr>"
  have "svc_ok num ctx ws ?st" "uuid \<notin> issued (sc_log ?st)" using assms by simp_all
  then show ?thesis unfolding timer_fires_def Let_def using fail_ok [of num ctx ws ?st] begin_ok [of num ctx ws ?st] by simp
qed

lemma auth_ok_context:
  assumes "auth_ok num ctx ws pending es" "pending = [] \<or> session_of ctx' = session_of ctx"
  shows "auth_ok num ctx' ws pending es"
  using assms by (auto simp: auth_ok_def challenged_def)

lemma auth_ok_waits: "auth_ok num ctx ws pending es \<Longrightarrow> set ws' \<subseteq> set ws \<Longrightarrow> auth_ok num ctx ws' pending es"
  using auth_ok_shrink [OF _ map_le_refl] .

lemma system_ok_reachable: "sync_reachable num sign app s \<Longrightarrow> system_ok num s"
proof (induction rule: sync_reachable.induct)
  case (start ctx)
  have "timers_ok new_sync" by (rule timers_okI) (simp_all add: new_sync_def)
  then show ?case by (simp add: system_ok_def auth_ok_def new_sync_def)
next
  case (context_changes s ctx)
  then show ?case using auth_ok_context by (auto simp: system_ok_def)
next
  case (session_reset s)
  then show ?case using timers_ok_reset by (simp add: system_ok_def) (simp add: sync_resetSession_def auth_ok_def)
next
  case (peer_forgotten s p)
  then show ?case using auth_ok_shrink [OF _ delete_le subset_refl] timers_ok_clear(1)
    by (simp add: system_ok_def sync_forgetPeer_def Let_def)
next
  case (failure_cleared s p)
  then show ?case by (simp add: system_ok_def clearFailure_def)
next
  case (begun s uuid clock p)
  then show ?case using begin_ok timers_ok_begin by (simp add: system_ok_def)
next
  case (responding s now p challenge w)
  then have "\<exists>token i m. w = Signing p token i m" by (auto simp: sync_respond_def split: option.splits if_splits)
  with responding show ?case by (auto simp: system_ok_def auth_ok_def)
next
  case (responded s ws1 p token identity m ws2 uuid clock)
  then have "svc_ok num (sy_context s) (ws1 @ ws2) (sy_service s)"
    using auth_ok_waits [of num "sy_context s" "sy_waiting s" _ _ "ws1 @ ws2"] by (auto simp: system_ok_def)
  with responded show ?case using signed_ok timers_ok_signed by (simp add: system_ok_def)
next
  case (accepting s m p st w)
  then show ?case using accept_ok [OF _ accepting(3,2)] timers_ok_accept [OF _ accepting(3)] by (simp add: system_ok_def)
next
  case (was_verified s ws1 p token identity m n valid ws2)
  then have "svc_ok num (sy_context s) (ws1 @ ws2) (sy_service s)" "wait_ok num (sc_log (sy_service s)) (Verifying p token identity m n valid)"
    using auth_ok_waits [of num "sy_context s" "sy_waiting s" _ _ "ws1 @ ws2"] by (auto simp: system_ok_def auth_ok_def)
  with was_verified show ?case using verified_ok timers_ok_verified by (simp add: system_ok_def)
next
  case (fired s h timer uuid clock)
  then show ?case using fires_ok timers_ok_fires by (simp add: system_ok_def)
qed

section \<open>Theorems\<close>


text \<open>The timers of the handshake do not leak: a peer has at most one live timer, it waits at most 1200
  milliseconds, forgetting the peer clears it, and resetting the session clears all of them.\<close>

theorem handshake_timers:
  assumes "sync_reachable num sign app s" "map_of (sc_live (sy_service s)) h = Some t"
  shows "sc_live (sync_resetSession (sy_service s)) = []
    \<and> map_of (sc_timers (sy_service s)) (tm_peer t) = Some h
    \<and> map_of (sc_live (sync_forgetPeer (tm_peer t) (sy_service s))) h = None
    \<and> 0 < tm_delay t \<and> tm_delay t \<le> 1200"
proof -
  have ok: "timers_ok (sy_service s)" using system_ok_reachable [OF assms(1)] by (simp add: system_ok_def)
  from timers_okD(2) [OF ok assms(2)] reset_no_timers [OF ok] show ?thesis
    by (simp add: timer_ok_def IDENTITY_HANDSHAKE_RETRY_MS_def sync_forgetPeer_def sync_clear_def clearTimer_def Let_def)
qed

text \<open>A run in which both theorems apply: a challenge, the proof of the peer, its verification.\<close>

definition hs_context :: ChatSyncContext where
  "hs_context = \<lparr>cx_identity = Some (1, sample_identity ''peer0002''), cx_channelId = Some ''channel1'', cx_sessionToken = Some 1,
     cx_isDataPeer = (\<lambda>_. True), cx_isOpenPeer = (\<lambda>_. False), cx_isAllowed = (\<lambda>_. True), cx_isRevoked = (\<lambda>_. False),
     cx_verify = (\<lambda>_ _ _. True)\<rparr>"

definition hs_begun :: SyncService where
  "hs_begun = sync_begin DEFAULT_APP_VERSION hs_context ''nonce001'' (\<lambda>_. 5) ''peer0001'' new_sync"

definition hs_ready :: SyncService where
  "hs_ready = accept_verified hs_context ''peer0001'' 1 (1, sample_identity ''peer0002'') sample_proof ''nonce001'' True
     (fst (sync_accept fraction_text hs_context ''peer0001'' sample_proof hs_begun))"

lemma hs_begun_state:
  "\<exists>c. sc_log hs_begun = [Sent ''peer0001'' (Identity_Challenge c)] \<and> ic_nonce c = ''nonce001''"
  "map_of (sc_pendingChallenges hs_begun) ''peer0001'' = Some ''nonce001''"
  "map_of (sc_live hs_begun) 0 = Some \<lparr>tm_peer = ''peer0001'', tm_startedAt = 5, tm_delay = 1200\<rparr>"
  by (simp_all add: hs_begun_def sync_begin_def hs_context_def new_sync_def sync_schedule_def clearTimer_def tell_def Let_def
      IDENTITY_HANDSHAKE_TIMEOUT_MS_def IDENTITY_HANDSHAKE_RETRY_MS_def)

lemma hs_accept:
  "sync_accept fraction_text hs_context ''peer0001'' sample_proof hs_begun =
    (fst (sync_accept fraction_text hs_context ''peer0001'' sample_proof hs_begun),
     Some (Verifying ''peer0001'' 1 (1, sample_identity ''peer0002'') sample_proof ''nonce001'' True))"
  using hs_begun_state(2) by (simp add: sync_accept_def hs_context_def sample_proof_def sample_identity_def Let_def)

lemma hs_ready_log: "\<exists>pre. sc_log hs_ready = Ready ''peer0001'' # pre"
  using hs_begun_state(2) by (simp add: hs_ready_def accept_verified_def sync_accept_def hs_context_def sample_proof_def sample_identity_def Let_def)

lemma hs_reachable:
  "sync_reachable fraction_text sample_sign DEFAULT_APP_VERSION \<lparr>sy_context = hs_context, sy_service = hs_begun, sy_waiting = []\<rparr>"
  "sync_reachable fraction_text sample_sign DEFAULT_APP_VERSION \<lparr>sy_context = hs_context, sy_service = hs_ready, sy_waiting = []\<rparr>"
proof -
  have "''nonce001'' \<notin> issued (sc_log new_sync)" by (simp add: issued_def challenges_def new_sync_def)
  from sync_reachable.begun [OF sync_reachable.start [where ctx = hs_context], of "''nonce001''" fraction_text sample_sign DEFAULT_APP_VERSION "\<lambda>_. 5" "''peer0001''"] this
  show begun: "sync_reachable fraction_text sample_sign DEFAULT_APP_VERSION \<lparr>sy_context = hs_context, sy_service = hs_begun, sy_waiting = []\<rparr>"
    by (simp add: hs_begun_def)
  have "ip_channelId sample_proof = cx_channelId hs_context" by (simp add: sample_proof_def hs_context_def)
  with sync_reachable.accepting [OF begun, of sample_proof "''peer0001''"] hs_accept
  have "sync_reachable fraction_text sample_sign DEFAULT_APP_VERSION \<lparr>sy_context = hs_context,
      sy_service = fst (sync_accept fraction_text hs_context ''peer0001'' sample_proof hs_begun),
      sy_waiting = [Verifying ''peer0001'' 1 (1, sample_identity ''peer0002'') sample_proof ''nonce001'' True]\<rparr>"
    by fastforce
  from sync_reachable.was_verified [OF this, of "[]"]
  show "sync_reachable fraction_text sample_sign DEFAULT_APP_VERSION \<lparr>sy_context = hs_context, sy_service = hs_ready, sy_waiting = []\<rparr>"
    by (simp add: hs_ready_def)
qed


theorem handshake_timers_witness: "sc_live (sync_resetSession hs_begun) = []"
  using handshake_timers [OF hs_reachable(1)] hs_begun_state(3) by auto

end
