(* ===== verification/Chat_Safety.thy ===== *)
theory Chat_Safety
  imports Chat_Controller Handshake_Safety
begin

text \<open>
  What the chat controller guarantees under every interleaving of its handlers: peers that are open were
  authenticated for the channel of the session and are not revoked, and nothing but the handshake and
  certificates of revocation goes to any other peer.

  A handler is \<open>calm\<close> when it leaves the session and its handshakes alone, opens no peer and sends only to
  open peers. Nearly all of the controller is calm; the steps of the handshake and of a connection are
  treated one by one.
\<close>

section \<open>Calm handlers\<close>

fun handshake_wire :: "ChatWireEnvelope \<Rightarrow> bool" where
  "handshake_wire (Identity_Challenge _) = True"
| "handshake_wire (Identity_Proof _) = True"
| "handshake_wire _ = False"

fun certificate_wire :: "ChatWireEnvelope \<Rightarrow> bool" where
  "certificate_wire (Group_Revocation _ _) = True"
| "certificate_wire _ = False"

text \<open>What a handler may do in a state: everything that is not a handshake or a certificate goes to open peers.\<close>

fun permitted :: "ChatController \<Rightarrow> chat_effect \<Rightarrow> bool" where
  "permitted st (Send_To p w) \<longleftrightarrow> handshake_wire w \<or> certificate_wire w \<or> p \<in> set (ct_openDataPeers st)"
| "permitted st (Send_Text p t) \<longleftrightarrow> p \<in> set (ct_openDataPeers st)"
| "permitted st (Broadcast w) \<longleftrightarrow> ct_identity st = None"
| "permitted st _ \<longleftrightarrow> True"

fun phase_wait :: "chat_wait \<Rightarrow> bool" where
  "phase_wait (Connect_Inferred _ _ _ _ _) = True"
| "phase_wait (Connect_Network _) = True"
| "phase_wait _ = False"

fun verifying_wait :: "chat_wait \<Rightarrow> bool" where
  "verifying_wait (Syncing (Verifying _ _ _ _ _ _)) = True"
| "verifying_wait _ = False"

definition peers_ok :: "ChatController \<Rightarrow> bool" where
  "peers_ok st \<longleftrightarrow> set (ct_openDataPeers st) \<subseteq> set (ct_dataChannelPeers st)
     \<and> set (ct_revocationOnlyPeers st) \<subseteq> set (ct_dataChannelPeers st)
     \<and> (ct_transport st = None \<longrightarrow> ct_dataChannelPeers st = [])"

definition unrevoked :: "ChatController \<Rightarrow> bool" where
  "unrevoked st \<longleftrightarrow> (\<forall>p \<in> set (ct_openDataPeers st). \<not> isRevoked (ct_groups st) p)"

definition same_session :: "ChatController \<Rightarrow> ChatController \<Rightarrow> bool" where
  "same_session st st' \<longleftrightarrow> ct_sessionToken st' = ct_sessionToken st \<and> ct_transport st' = ct_transport st
     \<and> ct_identity st' = ct_identity st \<and> ct_channelId st' = ct_channelId st \<and> ct_objects st \<le> ct_objects st'
     \<and> filter phase_wait (ct_waiting st') = filter phase_wait (ct_waiting st)"

definition told :: "ChatController \<Rightarrow> ChatController \<Rightarrow> bool" where
  "told st st' \<longleftrightarrow> (\<exists>es. ct_effects st' = es @ ct_effects st \<and> (\<forall>e \<in> set es. permitted st e))"

definition calm :: "ChatController \<Rightarrow> ChatController \<Rightarrow> bool" where
  "calm st st' \<longleftrightarrow> same_session st st' \<and> told st st'
     \<and> filter verifying_wait (ct_waiting st') = filter verifying_wait (ct_waiting st)
     \<and> sc_log (ct_sync st') = sc_log (ct_sync st)
     \<and> map_of (sc_pendingChallenges (ct_sync st')) \<subseteq>\<^sub>m map_of (sc_pendingChallenges (ct_sync st))
     \<and> set (ct_openDataPeers st') \<subseteq> set (ct_openDataPeers st)
     \<and> (peers_ok st \<longrightarrow> peers_ok st') \<and> (unrevoked st \<longrightarrow> unrevoked st')"

lemma told_refl [simp]: "told st st"
  by (simp add: told_def)

lemma calm_refl [simp]: "calm st st"
  by (simp add: calm_def same_session_def)

lemma permitted_mono:
  assumes "permitted st' e" "set (ct_openDataPeers st') \<subseteq> set (ct_openDataPeers st)" "ct_identity st' = ct_identity st"
  shows "permitted st e"
  using assms by (cases e) auto

lemma calm_trans: "calm a b \<Longrightarrow> calm b c \<Longrightarrow> calm a c"
proof -
  assume a: "calm a b" "calm b c"
  have "told a c"
  proof -
    obtain es fs where "ct_effects b = es @ ct_effects a" "\<forall>e \<in> set es. permitted a e"
      "ct_effects c = fs @ ct_effects b" "\<forall>e \<in> set fs. permitted b e"
      using a unfolding calm_def told_def by blast
    moreover have "permitted a e" if "permitted b e" for e
      using permitted_mono [OF that] a(1) unfolding calm_def same_session_def by blast
    ultimately show ?thesis unfolding told_def by (intro exI [of _ "fs @ es"]) auto
  qed
  then show ?thesis using a map_le_trans unfolding calm_def same_session_def by (metis (no_types, lifting) order_trans)
qed

named_theorems calms

lemma calm_lift: "calm st st' \<Longrightarrow> calm s st \<Longrightarrow> calm s st'"
  by (rule calm_trans)

text \<open>Fields that play no part.\<close>

lemma calm_field:
  "calm st (st\<lparr>ct_signaling := a\<rparr>)" "calm st (st\<lparr>ct_groupId := b\<rparr>)" "calm st (st\<lparr>ct_rendezvousId := c\<rparr>)"
  "calm st (st\<lparr>ct_status := d\<rparr>)" "calm st (st\<lparr>ct_refreshingMembers := e\<rparr>)" "calm st (st\<lparr>ct_pendingMemberRefreshBroadcast := f\<rparr>)"
  "calm st (st\<lparr>ct_readyTimer := g\<rparr>)" "calm st (st\<lparr>ct_typingPeers := h\<rparr>)" "calm st (st\<lparr>ct_localTypingActive := i\<rparr>)"
  "calm st (st\<lparr>ct_lastTypingSentAt := j\<rparr>)" "calm st (st\<lparr>ct_messages := l\<rparr>)" "calm st (st\<lparr>ct_outbox := m\<rparr>)"
  "calm st (st\<lparr>ct_requests := n\<rparr>)" "calm st (st\<lparr>ct_social := k\<rparr>)"
  by (simp_all add: calm_def same_session_def told_def peers_ok_def unrevoked_def)

lemma forget_fields [simp]:
  "sc_log (sync_forgetPeer p s) = sc_log s" "sc_log (clearFailure p s) = sc_log s"
  "sc_pendingChallenges (sync_forgetPeer p s) = AList.delete p (sc_pendingChallenges s)"
  "sc_pendingChallenges (clearFailure p s) = sc_pendingChallenges s"
  by (simp_all add: sync_forgetPeer_def clearFailure_def Let_def)

lemma calm_shrink:
  "calm st (st\<lparr>ct_openDataPeers := removeAll p (ct_openDataPeers st)\<rparr>)"
  "calm st (st\<lparr>ct_sync := sync_forgetPeer p (ct_sync st)\<rparr>)" "calm st (st\<lparr>ct_sync := clearFailure p (ct_sync st)\<rparr>)"
  by (auto simp: calm_def same_session_def told_def peers_ok_def unrevoked_def)

lemmas calm_fields [calms] = calm_field [THEN calm_lift] calm_shrink [THEN calm_lift]

lemma calm_groups [calms]: "calm s st \<Longrightarrow> gc_revoked g = gc_revoked (ct_groups st) \<Longrightarrow> calm s (st\<lparr>ct_groups := g\<rparr>)"
  by (erule calm_trans) (simp add: calm_def same_session_def told_def peers_ok_def unrevoked_def isRevoked_def)

lemma calm_objects [calms]: "calm s st \<Longrightarrow> ct_objects st \<le> n \<Longrightarrow> calm s (st\<lparr>ct_objects := n\<rparr>)"
  by (erule calm_trans) (simp add: calm_def same_session_def told_def peers_ok_def unrevoked_def)

lemma calm_wait [calms]: "calm s st \<Longrightarrow> \<not> phase_wait w \<Longrightarrow> \<not> verifying_wait w \<Longrightarrow> calm s (wait_for w st)"
  by (erule calm_trans) (simp add: calm_def same_session_def told_def peers_ok_def unrevoked_def wait_for_def)

lemma calm_effect [calms]:
  assumes "calm s st" "permitted st e"
  shows "calm s (effect e st)"
proof (rule calm_trans [OF assms(1)])
  have "told st (effect e st)" unfolding told_def effect_def by (rule exI [of _ "[e]"]) (simp add: assms(2))
  then show "calm st (effect e st)" by (simp add: calm_def same_session_def peers_ok_def unrevoked_def effect_def)
qed

lemma calm_fold: "calm s st \<Longrightarrow> (\<And>x t. x \<in> set xs \<Longrightarrow> calm s t \<Longrightarrow> calm s (f x t)) \<Longrightarrow> calm s (fold f xs st)"
  by (induction xs arbitrary: st) auto

section \<open>Status and peers\<close>

lemma calm_status [calms]: "calm s st \<Longrightarrow> calm s (setStatus x st)"
  unfolding setStatus_def by (auto intro!: calms)

lemma calm_emit [calms]: "calm s st \<Longrightarrow> calm s (emitTyping st)"
  unfolding emitTyping_def by (auto intro!: calms)

lemma calm_clear [calms]: "calm s st \<Longrightarrow> calm s (clearReadyTimeout st)"
  unfolding clearReadyTimeout_def by (auto intro!: calms)

lemma calm_arm [calms]: "calm s st \<Longrightarrow> calm s (armReadyTimeout t st)"
  unfolding armReadyTimeout_def Let_def by (auto intro!: calms)

lemma calm_small [calms]:
  assumes "calm s st"
  shows "calm s (updateTypingPeer p a st)" "calm s (typing_expires p st)" "calm s (ready_timeout t st)" "calm s (arm_if_alone st)"
    "calm s (status_by_peers st)" "calm s (error_if_alone st)" "calm s (files_forget p st)" "calm s (transport_disconnect p st)"
  unfolding updateTypingPeer_def typing_expires_def ready_timeout_def arm_if_alone_def status_by_peers_def error_if_alone_def
    files_forget_def transport_disconnect_def Let_def
  using assms by (auto intro!: calms split: option.split)

lemma calm_forget_peer:
  "calm st (st\<lparr>ct_sync := sync_forgetPeer p (ct_sync st), ct_dataChannelPeers := removeAll p (ct_dataChannelPeers st),
     ct_openDataPeers := removeAll p (ct_openDataPeers st), ct_revocationOnlyPeers := removeAll p (ct_revocationOnlyPeers st),
     ct_requests := x\<rparr>)"
  by (auto simp: calm_def same_session_def told_def peers_ok_def unrevoked_def)

lemma calm_forget [calms]: "calm s st \<Longrightarrow> calm s (forgetPeerConnection p st)"
  unfolding forgetPeerConnection_def Let_def by (auto intro!: calms calm_lift [OF calm_forget_peer])

lemma calm_reject [calms]: "calm s st \<Longrightarrow> calm s (rejectIncompatiblePeer p st)"
  unfolding rejectIncompatiblePeer_def Let_def by (auto intro!: calms)

section \<open>Sending\<close>

lemma effect_peers [simp]: "ct_openDataPeers (effect e st) = ct_openDataPeers st" "ct_identity (effect e st) = ct_identity st"
  by (simp_all add: effect_def)

lemma calm_send_data:
  assumes "certificate_wire w \<or> p \<in> set (ct_openDataPeers st)"
  shows "calm st (snd (send_data env k p w st))" "ct_openDataPeers (snd (send_data env k p w st)) = ct_openDataPeers st"
  using assms by (auto simp: send_data_def intro!: calm_effect)

lemma send_to_each_calm:
  assumes "\<And>p w. (p, w) \<in> set ws \<Longrightarrow> certificate_wire w \<or> p \<in> set (ct_openDataPeers st)"
  shows "calm st (snd (send_to_each env k ws st)) \<and> ct_openDataPeers (snd (send_to_each env k ws st)) = ct_openDataPeers st"
  using assms
proof (induction ws arbitrary: k st)
  case (Cons x ws)
  obtain p w where x: "x = (p, w)" by (cases x)
  obtain r st1 where sd: "send_data env k p w st = (r, st1)" by fastforce
  then have st1: "calm st st1" "ct_openDataPeers st1 = ct_openDataPeers st"
    using calm_send_data [of w p st env k] Cons.prems [of p w] x by (auto simp: sd)
  then have "calm st1 (snd (send_to_each env (Suc k) ws st1)) \<and> ct_openDataPeers (snd (send_to_each env (Suc k) ws st1)) = ct_openDataPeers st1"
    using Cons.prems by (intro Cons.IH) auto
  then have "calm st (snd (send_to_each env (Suc k) ws st1))" "ct_openDataPeers (snd (send_to_each env (Suc k) ws st1)) = ct_openDataPeers st"
    using st1 calm_trans by auto
  with st1 show ?case by (auto simp: x sd split: sum.split prod.split)
qed simp


lemmas calm_send_to_each = send_to_each_calm [THEN conjunct1]

lemma calm_send_open:
  "calm st (snd (sendToAuthenticatedPeers env w st))" "calm st (snd (sendToCapablePeers env w c st))"
  unfolding sendToAuthenticatedPeers_def sendToCapablePeers_def by (auto intro!: calm_send_to_each)

lemma calm_ack: "calm st (sendMessageAck env p i st)"
  unfolding sendMessageAck_def by (auto intro!: calm_send_data split: option.split)

lemma calm_revocations: "calm st (sendRevocations env p st)"
  unfolding sendRevocations_def by (auto intro!: calm_send_to_each split: option.split)

lemma session_of_peer_open: "session_of_peer st p = Some x \<Longrightarrow> p \<in> set (ct_openDataPeers st)"
  by (auto simp: session_of_peer_def split: option.splits if_splits)

lemma calm_profile: "calm st (sendProfileUpdate env p next st)"
  unfolding sendProfileUpdate_def by (auto intro!: calm_wait split: option.split prod.split)

lemma calm_membership: "calm st (sendGroupMembership env p next st)"
  unfolding sendGroupMembership_def by (auto intro!: calms split: option.split prod.split)

lemma calm_effects:
  assumes "\<And>e. e \<in> set es \<Longrightarrow> permitted st (f e)"
  shows "calm st (fold (\<lambda>e. effect (f e)) es st) \<and> ct_openDataPeers (fold (\<lambda>e. effect (f e)) es st) = ct_openDataPeers st"
  using assms
proof (induction es arbitrary: st)
  case (Cons e es)
  have "permitted (effect (f e) st) (f x)" if "x \<in> set es" for x
    using Cons.prems [of x] that by (cases "f x") auto
  then have "calm (effect (f e) st) (fold (\<lambda>e. effect (f e)) es (effect (f e) st))
      \<and> ct_openDataPeers (fold (\<lambda>e. effect (f e)) es (effect (f e) st)) = ct_openDataPeers (effect (f e) st)"
    by (rule Cons.IH)
  moreover have "calm st (effect (f e) st)" using Cons.prems by (auto intro!: calm_effect)
  ultimately show ?case using calm_trans by auto
qed simp

lemma calm_each_effect [calms]:
  assumes "calm s st" "\<And>e. e \<in> set es \<Longrightarrow> permitted st (f e)"
  shows "calm s (fold (\<lambda>e. effect (f e)) es st)"
  using calm_trans [OF assms(1) conjunct1 [OF calm_effects]] assms(2) by blast

lemma calm_flush: "calm st (flushOutbox env p st)"
  unfolding flushOutbox_def by (auto intro!: calms dest: session_of_peer_open split: option.split prod.split)

lemma calm_request: "requestHistory env p st = (r, st') \<Longrightarrow> calm st st'"
  unfolding requestHistory_def by (auto intro!: calms dest: session_of_peer_open split: option.splits prod.splits)

lemma calm_respond: "calm st (respondHistory env p request st)"
  unfolding respondHistory_def by (auto intro!: calms dest: session_of_peer_open split: option.splits prod.splits)

lemmas calm_sends [calms] = calm_send_open [THEN calm_lift] calm_ack [THEN calm_lift] calm_revocations [THEN calm_lift]
  calm_profile [THEN calm_lift] calm_membership [THEN calm_lift] calm_flush [THEN calm_lift] calm_respond [THEN calm_lift]


section \<open>Trust and membership\<close>

lemma calm_revoke:
  assumes "p \<in> set (ct_dataChannelPeers st)"
  shows "calm st (st\<lparr>ct_sync := sync_forgetPeer p (ct_sync st), ct_openDataPeers := removeAll p (ct_openDataPeers st),
    ct_revocationOnlyPeers := ct_revocationOnlyPeers st @ [p]\<rparr>)"
  using assms by (auto simp: calm_def same_session_def told_def peers_ok_def unrevoked_def)

lemma calm_mark_revoked [calms]: "calm s st \<Longrightarrow> calm s (markRevokedPeerReady env p st)"
  unfolding markRevokedPeerReady_def by (auto intro!: calms calm_lift [OF calm_revoke])

lemma calm_connect [calms]: "calm s st \<Longrightarrow> calm s (connectTrustedPeer p l st)"
  unfolding connectTrustedPeer_def by (auto intro!: calms)

lemma calm_present [calms]: "calm s st \<Longrightarrow> calm s (connectPresentTrustedPeers env st)"
  unfolding connectPresentTrustedPeers_def by (auto intro!: calm_fold calms)

lemma calm_open_subset: "calm st st' \<Longrightarrow> set (ct_openDataPeers st') \<subseteq> set (ct_openDataPeers st)"
  by (simp add: calm_def)

lemma fold_calm_removes:
  assumes "\<And>p t. calm t (f p t)" "\<And>p t. p \<notin> set (ct_openDataPeers (f p t))"
  shows "calm st (fold f ps st)" "set ps \<inter> set (ct_openDataPeers (fold f ps st)) = {}"
proof -
  have c: "calm st (fold f ps st)" for ps st using calm_fold [of st st ps f] calm_lift [OF assms(1)] by simp
  show "calm st (fold f ps st)" by (rule c)
  show "set ps \<inter> set (ct_openDataPeers (fold f ps st)) = {}"
  proof (induction ps arbitrary: st)
    case (Cons p ps)
    have "p \<notin> set (ct_openDataPeers (fold f ps (f p st)))" using calm_open_subset [OF c] assms(2) by blast
    with Cons.IH [of "f p st"] show ?case by auto
  qed simp
qed

lemma calm_install_rest:
  assumes "calm (st\<lparr>ct_groups := g\<rparr>) st'" "\<And>p. p \<in> set (ct_openDataPeers st') \<Longrightarrow> peers_ok st \<Longrightarrow> \<not> isRevoked g p"
    and "gc_revoked (ct_groups st') = gc_revoked g" and "peers_ok st"
  shows "calm st st'"
proof -
  have "permitted (st\<lparr>ct_groups := g\<rparr>) e = permitted st e" for e by (cases e) simp_all
  moreover have "peers_ok (st\<lparr>ct_groups := g\<rparr>) = peers_ok st" by (simp add: peers_ok_def)
  moreover have "unrevoked st'" unfolding unrevoked_def isRevoked_def using assms(2,4) by (simp add: assms(3) isRevoked_def)
  ultimately show ?thesis using assms(1) by (simp add: calm_def same_session_def told_def)
qed


lemma groups_kept [simp]:
  "ct_groups (effect e st) = ct_groups st" "ct_groups (wait_for w st) = ct_groups st" "ct_groups (setStatus x st) = ct_groups st"
  "ct_groups (emitTyping st) = ct_groups st" "ct_groups (clearReadyTimeout st) = ct_groups st"
  by (simp_all add: effect_def wait_for_def setStatus_def emitTyping_def clearReadyTimeout_def)

lemma send_to_each_groups [simp]: "ct_groups (snd (send_to_each env k ws st)) = ct_groups st"
  by (induction env k ws st rule: send_to_each.induct) (auto simp: send_data_def split: sum.split prod.split if_splits)

lemma groups_kept_small [simp]:
  "ct_groups (files_forget p st) = ct_groups st" "ct_groups (transport_disconnect p st) = ct_groups st"
  "ct_groups (updateTypingPeer p a st) = ct_groups st" "ct_groups (armReadyTimeout t st) = ct_groups st"
  "ct_groups (status_by_peers st) = ct_groups st" "ct_groups (sendRevocations env p st) = ct_groups st"
  by (simp_all add: files_forget_def transport_disconnect_def updateTypingPeer_def status_by_peers_def armReadyTimeout_def Let_def
    sendRevocations_def split: option.split)

lemma groups_kept_peers [simp]:
  "ct_groups (arm_if_alone st) = ct_groups st" "ct_groups (forgetPeerConnection p st) = ct_groups st"
  "ct_groups (markRevokedPeerReady env p st) = ct_groups st"
  by (simp_all add: arm_if_alone_def forgetPeerConnection_def markRevokedPeerReady_def Let_def split: option.split)

lemma forgotten_closed: "p \<notin> set (ct_openDataPeers (forgetPeerConnection p st))"
proof -
  have "calm st1 (arm_if_alone (status_by_peers (files_forget p st1)))" for st1 by (intro calms calm_refl)
  from calm_open_subset [OF this] show ?thesis unfolding forgetPeerConnection_def Let_def by fastforce
qed

lemma revoked_closed: "p \<notin> set (ct_openDataPeers st) \<Longrightarrow> p \<notin> set (ct_openDataPeers (markRevokedPeerReady env p st))"
  using calm_open_subset [OF calm_mark_revoked [OF calm_refl [of st], of env p]] by blast

lemma fold_groups: "(\<And>p t. ct_groups (f p t) = ct_groups t) \<Longrightarrow> ct_groups (fold f ps st) = ct_groups st"
  by (induction ps arbitrary: st) simp_all

lemma calm_install [calms]:
  assumes "calm s st" "peers_ok s"
  shows "calm s (installGroupPeers env active revoked certificates st)"
proof (rule calm_lift [OF _ assms(1)])
  have ok: "peers_ok st" using assms by (simp add: calm_def)
  obtain tr g where inst: "install active revoked certificates (ct_dataChannelPeers st) (ct_groups st) = (tr, g)" by fastforce
  have revoked_ids: "p \<in> set (gt_revokedPeerIds tr)" if "p \<in> set (ct_dataChannelPeers st)" "isRevoked g p" for p
    using inst that by (auto simp: install_def Let_def isRevoked_def)
  define f where "f = (\<lambda>p s. markRevokedPeerReady env p (files_forget p (s\<lparr>ct_openDataPeers := removeAll p (ct_openDataPeers s)\<rparr>)))"
  define h where "h = (\<lambda>p s. transport_disconnect p (forgetPeerConnection p s))"
  define st1 where "st1 = fold f (gt_revokedPeerIds tr) (st\<lparr>ct_groups := g\<rparr>)"
  have result: "installGroupPeers env active revoked certificates st = fold h (gt_unknownPeerIds tr) st1"
    by (simp add: installGroupPeers_def inst st1_def f_def h_def Let_def)
  have f: "calm t (f p t)" "p \<notin> set (ct_openDataPeers (f p t))" for p t
  proof -
    show "calm t (f p t)" unfolding f_def by (intro calms calm_refl)
    show "p \<notin> set (ct_openDataPeers (f p t))" unfolding f_def by (rule revoked_closed) (simp add: files_forget_def)
  qed
  have h: "calm t (h p t)" for p t unfolding h_def by (intro calms calm_refl)
  have st1: "calm (st\<lparr>ct_groups := g\<rparr>) st1" "set (gt_revokedPeerIds tr) \<inter> set (ct_openDataPeers st1) = {}"
    unfolding st1_def by (rule fold_calm_removes; rule f)+
  have last: "calm st1 (fold h (gt_unknownPeerIds tr) st1)" by (rule calm_fold) (auto intro: calm_lift [OF h])
  show "calm st (installGroupPeers env active revoked certificates st)"
  proof (rule calm_install_rest [where g = g])
    show all: "calm (st\<lparr>ct_groups := g\<rparr>) (installGroupPeers env active revoked certificates st)"
      unfolding result by (rule calm_trans [OF st1(1) last])
    fix p assume p: "p \<in> set (ct_openDataPeers (installGroupPeers env active revoked certificates st))"
    then have "p \<in> set (ct_openDataPeers st)" "p \<in> set (ct_openDataPeers st1)"
      using calm_open_subset [OF all] calm_open_subset [OF last] by (auto simp: result)
    then show "\<not> isRevoked g p" using revoked_ids st1(2) ok by (auto simp: peers_ok_def)
  next
    have "ct_groups (f p t) = ct_groups t" "ct_groups (h p t) = ct_groups t" for p t by (simp_all add: f_def h_def)
    then show "gc_revoked (ct_groups (installGroupPeers env active revoked certificates st)) = gc_revoked g"
      unfolding result st1_def by (simp add: fold_groups)
  qed (rule ok)
qed

lemma calm_refresh_small [calms]:
  assumes "calm s st"
  shows "calm s (refresh_finishes task st)" "calm s (refresh_pass env task token g identity st)"
    "calm s (refresh_repeats env task token g identity st)" "calm s (refreshGroupMembership env b next st)"
proof -
  have pass: "calm s (refresh_pass env task token g identity t)" if "calm s t" for t task token g identity
    using that unfolding refresh_pass_def by (auto intro!: calms split: prod.split)
  show 1: "calm s (refresh_finishes task st)" using assms unfolding refresh_finishes_def by (auto intro!: calms)
  show "calm s (refresh_pass env task token g identity st)" using assms by (rule pass)
  show "calm s (refresh_repeats env task token g identity st)" unfolding refresh_repeats_def using assms 1 pass by auto
  show "calm s (refreshGroupMembership env b next st)"
    unfolding refreshGroupMembership_def Let_def using assms by (auto intro!: calms pass split: option.split prod.split)
qed

lemma calm_refresh [calms]:
  assumes "calm s st" "peers_ok s"
  shows "calm s (refresh_loaded env task token g identity b grp st)" "calm s (refresh_connected env task token g identity b change st)"
    "calm s (refresh_sent env task token g identity change st)" "calm s (refresh_signaled env task token g identity n st)"
    "calm s (membership_accepted env p acc st)"
  unfolding refresh_loaded_def refresh_connected_def refresh_sent_def refresh_signaled_def membership_accepted_def Let_def
  using assms by (auto intro!: calms calm_fold split: option.split)


section \<open>Receiving and sending\<close>

lemma verify_revoked [simp]: "gc_revoked (snd (verifyCanonical v p sig c g)) = gc_revoked g"
  by (simp add: verifyCanonical_def split: option.split)

lemma verifyCanonical_revoked: "verifyCanonical v p sig c g = (b, g') \<Longrightarrow> gc_revoked g' = gc_revoked g"
  using verify_revoked [of v p sig c g] by simp

lemma verifySigned_revoked: "verifySignedMessage num v m g = (b, g') \<Longrightarrow> gc_revoked g' = gc_revoked g"
  by (simp add: verifySignedMessage_def verifyCanonical_revoked)

lemma acceptMembership_revoked:
  "acceptMembership num lc v now g i p m groups store = (r, groups', store') \<Longrightarrow> gc_revoked groups' = gc_revoked groups"
  unfolding acceptMembership_def Let_def
  by (auto split: if_splits prod.splits option.splits sum.splits bool.splits dest: verifyCanonical_revoked)

lemma acceptProfile_revoked:
  "acceptProfile num lc v now p m groups store = (r, groups', store') \<Longrightarrow> gc_revoked groups' = gc_revoked groups"
  unfolding acceptProfile_def
  by (auto split: if_splits prod.splits sum.splits bool.splits dest: verifyCanonical_revoked simp: profile_accepted_def Let_def)

lemma fold_pair_revoked:
  "(\<And>x a b. gc_revoked (fst (f x (a, b))) = gc_revoked a) \<Longrightarrow> gc_revoked (fst (fold f xs (a, b))) = gc_revoked a"
proof (induction xs arbitrary: a b)
  case (Cons x xs)
  obtain a' b' where "f x (a, b) = (a', b')" by fastforce
  then show ?case using Cons.IH [of a' b'] Cons.prems by (metis comp_apply fold_simps(2) fst_conv)
qed simp

lemma chunk_keys_revoked [simp]: "gc_revoked (chunk_keys env chunk groups messages) = gc_revoked groups"
  unfolding chunk_keys_def Let_def split_def
  by (subst prod.collapse [symmetric], subst fold_pair_revoked, simp, subst prod.collapse [symmetric], subst fold_pair_revoked)
    (simp_all add: verifySignedMessage_def)

lemma acceptComplete_silent: "acceptComplete uuid link p c rs = (r, out, rs') \<Longrightarrow> w \<in> set out \<Longrightarrow> fst (link 0)"
  by (auto simp: acceptComplete_def issueRequest_def Let_def split: option.splits if_splits sum.splits)

lemma calm_receive_envelope [calms]:
  assumes "calm s st"
  shows "calm s (receive_envelope env p w st)"
proof -
  have legacy: "calm s (receive_legacy env p m st)" for m
    unfolding receive_legacy_def using assms by (auto intro!: calms)
  have event: "calm s (receive_event env p e st)" for e
    unfolding receive_event_def using assms by (auto intro!: calms dest: verifyCanonical_revoked split: prod.split)
  have msg: "calm s (receive_message env p m st)" for m
    unfolding receive_message_def using assms by (auto intro!: calms dest: verifySigned_revoked split: prod.split)
  have mem: "calm s (receive_membership env p m st)" for m
    unfolding receive_membership_def using assms
    by (auto intro!: calms dest: acceptMembership_revoked split: prod.split option.split sum.split)
  have prof: "calm s (receive_profile env p m st)" for m
    unfolding receive_profile_def using assms by (auto intro!: calms dest: acceptProfile_revoked split: prod.split)
  have chunk: "calm s (receive_chunk env p c st)" for c
    unfolding receive_chunk_def using assms by (auto intro!: calms)
  have complete: "calm s (receive_complete env p c st)" for c
    unfolding receive_complete_def Let_def using assms
    by (auto intro!: calms dest: acceptComplete_silent simp: isSessionPeerActive_def split: prod.split option.split)
  show ?thesis unfolding receive_envelope_def
    by (cases w) (use assms legacy event msg mem prof chunk complete in \<open>auto intro!: calms split: option.split\<close>)
qed


text \<open>What the user does, up to its exception.\<close>

lemma calm_user [calms]:
  assumes "calm s st"
  shows "calm s (snd (publishEvent env i input st))" "calm s (snd (find_own env i input st))" "calm s (snd (find_known env i input st))"
    "calm s (setTyping env b st)" "calm s (event_created env e st)" "calm s (send_created env m r st)"
proof -
  show "calm s (snd (publishEvent env i input st))"
    unfolding publishEvent_def using assms by (auto intro!: calms split: option.split prod.split sum.split)
  show "calm s (snd (find_own env i input st))" "calm s (snd (find_known env i input st))"
    unfolding find_own_def find_known_def using assms by (auto intro!: calms split: option.split prod.split)
  show "calm s (setTyping env b st)"
    unfolding setTyping_def Let_def using assms by (auto intro!: calms split: option.split prod.split)
  show "calm s (event_created env e st)" "calm s (send_created env m r st)"
    unfolding event_created_def send_created_def using assms by (auto intro!: calms)
qed

lemma calm_found [calms]:
  assumes "calm s st"
  shows "calm s (snd (own_found env i found input st))" "calm s (snd (known_found env i found input st))"
    "calm s (send_persisted env m r st)" "calm s (snd (chat_send env content r st))" "calm s (snd (chat_queue env u f c content n r st))"
proof -
  show "calm s (snd (own_found env i found input st))" "calm s (snd (known_found env i found input st))"
    "calm s (send_persisted env m r st)"
    unfolding own_found_def known_found_def send_persisted_def using assms
    by (auto intro!: calms split: option.split prod.split ChatEventInput.split)
  show "calm s (snd (chat_send env content r st))"
    unfolding chat_send_def Let_def using assms
    by (auto intro!: calms calm_lift [OF calm_effect [OF calm_refl]] split: option.split prod.split sum.split)
  show "calm s (snd (chat_queue env u f c content n r st))"
    unfolding chat_queue_def Let_def using assms by (auto intro!: calms split: prod.split sum.split)
qed

lemma calm_enqueued [calms]:
  assumes "calm s st"
  shows "calm s (event_enqueued env e st)" "calm s (send_enqueued env m r st)"
proof -
  have "calm s st1" if "sendToCapablePeers env w c st = (x, st1)" for w c x st1
    using calm_sends(2) [OF assms, of env w c] that by simp
  then show "calm s (event_enqueued env e st)" unfolding event_enqueued_def by (auto intro!: calms split: prod.split sum.split)
  have "calm s st1" if "sendToAuthenticatedPeers env w st = (x, st1)" for w x st1
    using calm_sends(1) [OF assms, of env w] that by simp
  then show "calm s (send_enqueued env m r st)" unfolding send_enqueued_def by (auto intro!: calms split: prod.split sum.split)
qed

section \<open>What the network reports\<close>

lemma calm_network [calms]:
  assumes "calm s st"
  shows "calm s (connection_lost t p st)" "calm s (negotiation_error t st)" "calm s (transfer_open t p st)" "calm s (peer_joined env p v st)"
    "calm s (peer_left p st)" "calm s (description_received p st)" "calm s (signaling_connected env st)"
    "calm s (signaling_reconnecting st)" "calm s (signaling_error st)" "calm s (connecting_failed st)"
proof -
  show "calm s (connection_lost t p st)" "calm s (negotiation_error t st)" "calm s (transfer_open t p st)" "calm s (peer_joined env p v st)"
    unfolding connection_lost_def negotiation_error_def transfer_open_def peer_joined_def using assms by (auto intro!: calms)
  show "calm s (peer_left p st)"
    unfolding peer_left_def Let_def using assms by (auto intro!: calms simp: removeDisplayName_def)
  show "calm s (description_received p st)" "calm s (signaling_connected env st)"
    "calm s (signaling_reconnecting st)" "calm s (signaling_error st)" "calm s (connecting_failed st)"
    unfolding description_received_def signaling_connected_def signaling_reconnecting_def signaling_error_def connecting_failed_def Let_def
    using assms by (auto intro!: calms split: option.split)
qed


section \<open>The handshake\<close>

text \<open>Effects that are permitted in every state.\<close>

fun free :: "chat_effect \<Rightarrow> bool" where
  "free (Send_To p w) \<longleftrightarrow> handshake_wire w \<or> certificate_wire w"
| "free (Send_Text p t) \<longleftrightarrow> False"
| "free (Broadcast w) \<longleftrightarrow> False"
| "free _ \<longleftrightarrow> True"

definition freely :: "ChatController \<Rightarrow> ChatController \<Rightarrow> bool" where
  "freely st st' \<longleftrightarrow> (\<exists>es. ct_effects st' = es @ ct_effects st \<and> list_all free es)"

lemma freely_told: "freely st st' \<Longrightarrow> told st st'"
proof -
  have "free e \<Longrightarrow> permitted st e" for e by (cases e) auto
  then show "freely st st' \<Longrightarrow> told st st'" unfolding freely_def told_def by (metis Ball_set)
qed

lemma freely_refl [simp]: "ct_effects st' = ct_effects st \<Longrightarrow> freely st st'"
  by (simp add: freely_def)

lemma freely_trans: "freely a b \<Longrightarrow> freely b c \<Longrightarrow> freely a c"
  unfolding freely_def by (metis append_assoc list_all_append)

lemma freely_effect: "free e \<Longrightarrow> freely s st \<Longrightarrow> freely s (effect e st)"
  by (erule freely_trans) (auto simp: freely_def effect_def intro!: exI [of _ "[e]"])

lemma freely_wait [simp]: "freely s (wait_for w st) = freely s st"
  by (simp add: freely_def wait_for_def)

lemma freely_field:
  "freely s st \<Longrightarrow> ct_effects st' = ct_effects st \<Longrightarrow> freely s st'"
  by (simp add: freely_def)

lemma freely_status: "freely s st \<Longrightarrow> freely s (setStatus x st)"
  unfolding setStatus_def by (auto intro!: freely_effect intro: freely_field)

lemma freely_certificates: "list_all (\<lambda>x. certificate_wire (snd x)) ws \<Longrightarrow> freely s st \<Longrightarrow> freely s (snd (send_to_each env k ws st))"
proof (induction env k ws st rule: send_to_each.induct)
  case (2 env k p w ws st)
  obtain r st1 where sd: "send_data env k p w st = (r, st1)" by fastforce
  then have "freely s st1" using 2(2,3) by (auto simp: send_data_def freely_effect split: if_splits)
  then show ?case using 2(1)[OF sd [symmetric]] 2(2) by (auto simp: sd split: sum.split prod.split)
qed simp

lemma freely_callbacks:
  assumes "freely s st"
  shows "freely s (sendRevocations env p st)" "freely s (sendProfileUpdate env p next st)" "freely s (error_if_alone st)"
  using assms by (auto simp: sendRevocations_def sendProfileUpdate_def error_if_alone_def list_all_iff
    intro!: freely_certificates freely_status split: option.split prod.split)

lemma freely_mark:
  assumes "freely s st"
  shows "freely s (markRevokedPeerReady env p st)" "freely s (markPeerReady env p st)"
proof -
  show 1: "freely s (markRevokedPeerReady env p st)"
    unfolding markRevokedPeerReady_def using assms by (auto simp: clearReadyTimeout_def intro!: freely_callbacks intro: freely_field)
  show "freely s (markPeerReady env p st)"
    unfolding markPeerReady_def using assms 1
    by (auto simp: clearReadyTimeout_def intro!: freely_callbacks freely_status intro: freely_field split: option.split)
qed

definition short_event :: "sync_event \<Rightarrow> bool" where
  "short_event e \<longleftrightarrow> (\<forall>p w. e = Sent p w \<longrightarrow> handshake_wire w)"

lemma freely_callback: "freely s st \<Longrightarrow> short_event e \<Longrightarrow> freely s (sync_callback env e st)"
  by (cases e) (auto simp: sync_callback_def short_event_def freely_callbacks freely_mark freely_effect intro: freely_field)

lemma freely_fold: "freely s st \<Longrightarrow> list_all short_event es \<Longrightarrow> freely s (fold (sync_callback env) es st)"
  by (induction es arbitrary: st) (auto intro: freely_callback)

definition extends :: "(sync_event \<Rightarrow> bool) \<Rightarrow> SyncService \<Rightarrow> SyncService \<Rightarrow> bool" where
  "extends P s s' \<longleftrightarrow> (\<exists>es. sc_log s' = es @ sc_log s \<and> list_all P es)"

lemma extends_refl [simp]: "sc_log s' = sc_log s \<Longrightarrow> extends P s s'"
  by (simp add: extends_def)

lemma extends_trans: "extends P a b \<Longrightarrow> extends P b c \<Longrightarrow> extends P a c"
  unfolding extends_def by (metis append_assoc list_all_append)

lemma extends_mono: "extends P a b \<Longrightarrow> (\<And>e. P e \<Longrightarrow> Q e) \<Longrightarrow> extends Q a b"
  unfolding extends_def by (metis list_all_iff)

lemma extends_tell: "P e \<Longrightarrow> extends P s st \<Longrightarrow> extends P s (tell e st)"
  by (erule extends_trans) (auto simp: extends_def)

lemma extends_log: "extends P s st \<Longrightarrow> sc_log st' = sc_log st \<Longrightarrow> extends P s st'"
  by (simp add: extends_def)

lemma sync_result_unfold:
  assumes "extends P (ct_sync st) sync"
  obtains es where "sync_result env sync st = fold (sync_callback env) es (st\<lparr>ct_sync := sync\<rparr>)" "list_all P es"
    "set (sc_log sync) = set es \<union> set (sc_log (ct_sync st))"
proof -
  obtain es where es: "sc_log sync = es @ sc_log (ct_sync st)" "list_all P es" using assms unfolding extends_def by blast
  show ?thesis by (rule that [of "rev es"]) (use es in \<open>auto simp: sync_result_def\<close>)
qed

text \<open>Events that open no peer.\<close>

definition plain_event :: "sync_event \<Rightarrow> bool" where
  "plain_event e \<longleftrightarrow> short_event e \<and> (\<forall>p. e \<noteq> Ready p)"

lemma plain_simps [simp]:
  "plain_event (Failure p r)" "plain_event (Verified p a b v)" "plain_event (Capabilities_Known p u)" "plain_event (Revoked_Peer p)"
  "plain_event (Sent p (Identity_Challenge c))" "plain_event (Sent p (Identity_Proof m))" "\<not> plain_event (Ready p)"
  by (auto simp: plain_event_def short_event_def)

lemma calm_callback [calms]: "calm s st \<Longrightarrow> plain_event e \<Longrightarrow> calm s (sync_callback env e st)"
  by (cases e) (auto simp: sync_callback_def plain_event_def short_event_def intro!: calms)

lemma calm_sync_result:
  assumes "extends plain_event (ct_sync st) sync"
  shows "calm (st\<lparr>ct_sync := sync\<rparr>) (sync_result env sync st)"
proof -
  obtain es where es: "sync_result env sync st = fold (sync_callback env) es (st\<lparr>ct_sync := sync\<rparr>)" "list_all plain_event es"
    using sync_result_unfold [OF assms] by metis
  show ?thesis unfolding es(1) by (rule calm_fold) (use es(2) in \<open>auto simp: list_all_iff intro!: calm_callback\<close>)
qed

lemma extends_fail: "extends plain_event s st \<Longrightarrow> extends plain_event s (sync_fail p r st)"
  by (erule extends_trans) (auto simp: extends_def)

lemma extends_schedule: "extends plain_event s st \<Longrightarrow> extends plain_event s (sync_schedule ctx clock p st)"
  unfolding sync_schedule_def Let_def by (auto intro!: extends_fail intro: extends_log)

lemma extends_begin: "extends plain_event s st \<Longrightarrow> extends plain_event s (sync_begin app ctx uuid clock p st)"
  unfolding sync_begin_def Let_def
  by (auto intro!: extends_fail extends_schedule extends_tell intro: extends_log split: option.split prod.split)

lemma extends_timer: "extends plain_event st (timer_fires app ctx uuid clock h timer st)"
  unfolding timer_fires_def Let_def by (auto intro!: extends_fail extends_begin)

lemma extends_signed: "extends plain_event st (respond_signed num sign app ctx uuid clock p token identity m st)"
  unfolding respond_signed_def Let_def by (auto intro!: extends_begin extends_tell)

lemma extends_accept: "sync_accept num ctx p m st = (st', w) \<Longrightarrow> extends plain_event st st'"
  by (auto simp: sync_accept_def Let_def intro!: extends_tell split: option.splits if_splits)

section \<open>Pending challenges\<close>

definition pending_ok :: "string option \<times> string option \<Rightarrow> SyncService \<Rightarrow> bool" where
  "pending_ok ids s \<longleftrightarrow> (\<forall>p n. map_of (sc_pendingChallenges s) p = Some n \<longrightarrow>
     (\<exists>c \<in> challenges p (sc_log s). ic_nonce c = n \<and> ic_channelId c \<noteq> None \<and> ids = (Some (ic_fromPeerId c), ic_channelId c)))"

lemma pending_ok_mono:
  assumes "pending_ok ids s" "set (sc_log s) \<subseteq> set (sc_log s')" "map_of (sc_pendingChallenges s') \<subseteq>\<^sub>m map_of (sc_pendingChallenges s)"
  shows "pending_ok ids s'"
  unfolding pending_ok_def
proof (intro allI impI)
  fix p n assume "map_of (sc_pendingChallenges s') p = Some n"
  then have "map_of (sc_pendingChallenges s) p = Some n" using assms(3) unfolding map_le_def by (metis domI)
  then show "\<exists>c \<in> challenges p (sc_log s'). ic_nonce c = n \<and> ic_channelId c \<noteq> None \<and> ids = (Some (ic_fromPeerId c), ic_channelId c)"
    using assms(1,2) unfolding pending_ok_def challenges_def by blast
qed

lemma pending_fail: "pending_ok ids s \<Longrightarrow> pending_ok ids (sync_fail p r s)"
  by (erule pending_ok_mono) auto

lemma pending_schedule: "pending_ok ids s \<Longrightarrow> pending_ok ids (sync_schedule ctx clock p s)"
  unfolding sync_schedule_def Let_def by (auto intro!: pending_fail elim: pending_ok_mono)

lemma pending_begin:
  assumes "pending_ok (session_of ctx) s"
  shows "pending_ok (session_of ctx) (sync_begin app ctx uuid clock p s)"
proof (cases "cx_identity ctx = None \<or> cx_channelId ctx = None")
  case True
  then show ?thesis using assms by (auto simp: sync_begin_def split: option.split prod.split)
next
  case False
  then obtain i c where i: "cx_identity ctx = Some i" "cx_channelId ctx = Some c" by auto
  define n where "n = (case map_of (sc_pendingChallenges s) p of Some n \<Rightarrow> n | None \<Rightarrow> uuid)"
  define ch where "ch = \<lparr>ic_channelId = Some c, ic_fromPeerId = li_peerId (snd i), ic_nonce = n, ic_timestamp = clock 0,
    ic_capabilities = capabilities_value (LOCAL_RISK_CAPABILITIES app)\<rparr>"
  have "pending_ok (session_of ctx) (tell (Sent p (Identity_Challenge ch))
      (s\<lparr>sc_startedAt := x, sc_pendingChallenges := AList.update p n (sc_pendingChallenges s)\<rparr>))" for x
    using assms unfolding pending_ok_def challenges_def
    by (auto simp: session_of_def i ch_def split: if_split_asm)
  moreover have "pending_ok (session_of ctx) (sync_fail p r (s\<lparr>sc_startedAt := x\<rparr>))" for r x
    by (intro pending_fail pending_ok_mono [OF assms]) simp_all
  ultimately show ?thesis using assms
    unfolding sync_begin_def i by (cases i) (auto simp: Let_def ch_def n_def simp del: fail_fields intro!: pending_schedule)
qed

lemma pending_timer:
  assumes "pending_ok (session_of ctx) s"
  shows "pending_ok (session_of ctx) (timer_fires app ctx uuid clock h timer s)"
  unfolding timer_fires_def Let_def by (auto intro!: pending_fail pending_begin pending_ok_mono [OF assms])

lemma pending_signed:
  assumes "pending_ok (session_of ctx) s"
  shows "pending_ok (session_of ctx) (respond_signed num sign app ctx uuid clock p token identity m s)"
  unfolding respond_signed_def Let_def using assms by (auto intro!: pending_begin pending_ok_mono [OF assms])


section \<open>The session invariant\<close>

definition signed_proof :: "(rat \<Rightarrow> string) \<Rightarrow> sync_event list \<Rightarrow> string \<Rightarrow> IdentityProofWireMessage \<Rightarrow> bool" where
  "signed_proof num es p m \<longleftrightarrow> Verified p (ip_signature m) (canonicalIdentityProof num m) True \<in> set es \<and> ip_fromPeerId m = p"

text \<open>
  A peer was authenticated for the session: it answered a challenge of this controller, for the
  channel and the identity of the session, with a proof that verified.
\<close>

definition authenticated :: "(rat \<Rightarrow> string) \<Rightarrow> ChatController \<Rightarrow> string \<Rightarrow> bool" where
  "authenticated num st p \<longleftrightarrow> (\<exists>c m i channel. c \<in> challenges p (sc_log (ct_sync st)) \<and> signed_proof num (sc_log (ct_sync st)) p m
     \<and> ic_nonce c = ip_nonce m \<and> ct_identity st = Some i \<and> ct_channelId st = Some channel
     \<and> ic_fromPeerId c = li_peerId (snd i) \<and> ip_toPeerId m = li_peerId (snd i)
     \<and> ic_channelId c = Some channel \<and> ip_channelId m = Some channel)"

abbreviation ids :: "ChatController \<Rightarrow> string option \<times> string option" where
  "ids st \<equiv> (map_option (\<lambda>i. li_peerId (snd i)) (ct_identity st), ct_channelId st)"

definition verifying_ok :: "(rat \<Rightarrow> string) \<Rightarrow> ChatController \<Rightarrow> chat_wait \<Rightarrow> bool" where
  "verifying_ok num st w \<longleftrightarrow> (\<forall>p t i m n v. w = Syncing (Verifying p t i m n v) \<longrightarrow>
     t < ct_objects st \<and> ip_nonce m = n \<and> ip_toPeerId m = li_peerId (snd i)
     \<and> (v \<longrightarrow> signed_proof num (sc_log (ct_sync st)) p m)
     \<and> (ct_sessionToken st = Some t \<longrightarrow> ct_identity st \<noteq> None \<and> ip_channelId m = ct_channelId st))"

lemma verifying_ok_iff:
  "verifying_ok num st (Syncing (Verifying p t i m n v)) \<longleftrightarrow> t < ct_objects st \<and> ip_nonce m = n \<and> ip_toPeerId m = li_peerId (snd i)
     \<and> (v \<longrightarrow> signed_proof num (sc_log (ct_sync st)) p m)
     \<and> (ct_sessionToken st = Some t \<longrightarrow> ct_identity st \<noteq> None \<and> ip_channelId m = ct_channelId st)"
  unfolding verifying_ok_def by blast

fun phase_token :: "chat_wait \<Rightarrow> nat option" where
  "phase_token (Connect_Inferred t _ _ _ _) = Some t"
| "phase_token (Connect_Network t) = Some t"
| "phase_token _ = None"

fun inferred_wait :: "chat_wait \<Rightarrow> bool" where
  "inferred_wait (Connect_Inferred _ _ _ _ _) = True"
| "inferred_wait _ = False"

lemma phase_wait_token: "phase_wait w \<longleftrightarrow> phase_token w \<noteq> None"
  by (cases w) simp_all

definition phases_ok :: "ChatController \<Rightarrow> bool" where
  "phases_ok st \<longleftrightarrow> (\<forall>w \<in> set (filter phase_wait (ct_waiting st)). \<forall>t. phase_token w = Some t \<longrightarrow> t < ct_objects st
       \<and> (ct_sessionToken st = Some t \<longrightarrow> ct_transport st = None
           \<and> filter (\<lambda>v. phase_token v = Some t) (filter phase_wait (ct_waiting st)) = [w]
           \<and> (inferred_wait w \<longrightarrow> ct_identity st = None \<and> ct_channelId st = None)))
     \<and> (\<forall>t. ct_sessionToken st = Some t \<longrightarrow> t < ct_objects st)
     \<and> (ct_sessionToken st = None \<longrightarrow> ct_transport st = None \<and> ct_identity st = None \<and> ct_channelId st = None)"

definition chat_ok :: "(rat \<Rightarrow> string) \<Rightarrow> ChatController \<Rightarrow> bool" where
  "chat_ok num st \<longleftrightarrow> peers_ok st \<and> unrevoked st \<and> phases_ok st \<and> pending_ok (ids st) (ct_sync st)
     \<and> (\<forall>w \<in> set (filter verifying_wait (ct_waiting st)). verifying_ok num st w)
     \<and> (ct_identity st \<noteq> None \<longrightarrow> (\<forall>p \<in> set (ct_openDataPeers st). authenticated num st p))"

lemma signed_proof_mono: "signed_proof num es p m \<Longrightarrow> set es \<subseteq> set es' \<Longrightarrow> signed_proof num es' p m"
  by (auto simp: signed_proof_def)

lemma authenticated_mono:
  assumes "authenticated num st p" "ct_identity st' = ct_identity st" "ct_channelId st' = ct_channelId st"
    "set (sc_log (ct_sync st)) \<subseteq> set (sc_log (ct_sync st'))"
  shows "authenticated num st' p"
proof -
  have "c \<in> challenges p (sc_log (ct_sync st'))" if "c \<in> challenges p (sc_log (ct_sync st))" for c
    using that assms(4) by (auto simp: challenges_def)
  then show ?thesis using assms(1) signed_proof_mono [OF _ assms(4)] unfolding authenticated_def assms(2,3) by metis
qed

lemma verifying_ok_mono:
  assumes "verifying_ok num st w" "same_session st st'" "set (sc_log (ct_sync st)) \<subseteq> set (sc_log (ct_sync st'))"
  shows "verifying_ok num st' w"
  using assms(1,2) signed_proof_mono [OF _ assms(3)] unfolding verifying_ok_def same_session_def by auto

lemma phases_ok_same: "phases_ok st \<Longrightarrow> same_session st st' \<Longrightarrow> phases_ok st'"
  unfolding phases_ok_def same_session_def by auto

text \<open>A handler that leaves the session as it is, adds to the log and has no more pending challenges.\<close>

lemma chat_ok_kept:
  assumes ok: "chat_ok num st" and "same_session st st'" "set (sc_log (ct_sync st)) \<subseteq> set (sc_log (ct_sync st'))"
    and "pending_ok (ids st) (ct_sync st')" "set (filter verifying_wait (ct_waiting st')) \<subseteq> set (filter verifying_wait (ct_waiting st))"
    and "set (ct_openDataPeers st') \<subseteq> set (ct_openDataPeers st)" "peers_ok st'" "unrevoked st'"
  shows "chat_ok num st'"
proof -
  have ses: "ct_identity st' = ct_identity st" "ct_channelId st' = ct_channelId st" using assms(2) by (auto simp: same_session_def)
  show ?thesis unfolding chat_ok_def
  proof (intro conjI impI ballI)
    fix w assume "w \<in> set (filter verifying_wait (ct_waiting st'))"
    then show "verifying_ok num st' w" using ok assms(2,3,5) verifying_ok_mono unfolding chat_ok_def by blast
  next
    fix p assume "ct_identity st' \<noteq> None" "p \<in> set (ct_openDataPeers st')"
    then have "authenticated num st p" using ok assms(6) ses unfolding chat_ok_def by auto
    then show "authenticated num st' p" by (rule authenticated_mono) (use ses assms(3) in simp_all)
  next
    show "phases_ok st'" using ok assms(2) phases_ok_same unfolding chat_ok_def by blast
    show "pending_ok (ids st') (ct_sync st')" using assms(4) ses by simp
  qed (use assms in simp_all)
qed

lemma chat_ok_calm:
  assumes "chat_ok num st" "calm st st'"
  shows "chat_ok num st'"
proof (rule chat_ok_kept [OF assms(1)])
  have c: "same_session st st'" "sc_log (ct_sync st') = sc_log (ct_sync st)"
    "map_of (sc_pendingChallenges (ct_sync st')) \<subseteq>\<^sub>m map_of (sc_pendingChallenges (ct_sync st))"
    using assms(2) by (simp_all add: calm_def)
  have "pending_ok (ids st) (ct_sync st)" using assms(1) by (simp add: chat_ok_def)
  then show "pending_ok (ids st) (ct_sync st')" by (rule pending_ok_mono) (use c in simp_all)
  show "peers_ok st'" "unrevoked st'" using assms by (auto simp: calm_def chat_ok_def)
qed (use assms(2) in \<open>simp_all add: calm_def\<close>)

lemma session_of_context [simp]: "session_of (sync_context env st) = ids st"
  by (simp add: session_of_def sync_context_def)

lemma chat_ok_sync:
  assumes "chat_ok num st" "extends plain_event (ct_sync st) sync" "pending_ok (ids st) sync"
  shows "chat_ok num (sync_result env sync st)"
proof -
  have log: "set (sc_log (ct_sync st)) \<subseteq> set (sc_log sync)" using assms(2) by (auto simp: extends_def)
  have "chat_ok num (st\<lparr>ct_sync := sync\<rparr>)"
    by (rule chat_ok_kept [OF assms(1)])
      (use assms log in \<open>auto simp: same_session_def chat_ok_def peers_ok_def unrevoked_def\<close>)
  then show ?thesis using chat_ok_calm calm_sync_result [OF assms(2)] by blast
qed

lemma told_sync:
  assumes "extends short_event (ct_sync st) sync"
  shows "told st (sync_result env sync st)"
proof -
  obtain es where es: "sync_result env sync st = fold (sync_callback env) es (st\<lparr>ct_sync := sync\<rparr>)" "list_all short_event es"
    using sync_result_unfold [OF assms] by metis
  have "freely st (fold (sync_callback env) es (st\<lparr>ct_sync := sync\<rparr>))" by (rule freely_fold) (simp_all add: es(2))
  then show ?thesis using freely_told es(1) by simp
qed

lemma extends_short: "extends plain_event s s' \<Longrightarrow> extends short_event s s'"
  by (erule extends_mono) (simp add: plain_event_def)

text \<open>The handlers that start or continue a handshake.\<close>

lemma handshake_steps:
  assumes "chat_ok num st"
  shows "chat_ok num (begin_handshake env p st) \<and> told st (begin_handshake env p st)"
    "chat_ok num (handshake_timer env h timer st) \<and> told st (handshake_timer env h timer st)"
    "chat_ok num (resume_sync env (Signing p t i m) st) \<and> told st (resume_sync env (Signing p t i m) st)"
proof -
  have pend: "pending_ok (session_of (sync_context env st)) (ct_sync st)" using assms by (simp add: chat_ok_def)
  show "chat_ok num (begin_handshake env p st) \<and> told st (begin_handshake env p st)"
    unfolding begin_handshake_def
    by (intro conjI chat_ok_sync told_sync extends_short assms)
      (use pending_begin [OF pend] in \<open>simp_all add: extends_begin\<close>)
  show "chat_ok num (handshake_timer env h timer st) \<and> told st (handshake_timer env h timer st)"
    unfolding handshake_timer_def
    by (intro conjI chat_ok_sync told_sync extends_short assms)
      (use pending_timer [OF pend] in \<open>simp_all add: extends_timer\<close>)
  show "chat_ok num (resume_sync env (Signing p t i m) st) \<and> told st (resume_sync env (Signing p t i m) st)"
    unfolding resume_sync_def sync_wait.case
    by (intro conjI chat_ok_sync told_sync extends_short assms)
      (use pending_signed [OF pend] in \<open>simp_all add: extends_signed\<close>)
qed


text \<open>A peer is opened.\<close>

lemma chat_ok_open:
  assumes "chat_ok num st" "p \<in> set (ct_dataChannelPeers st)" "\<not> isRevoked (ct_groups st) p"
    "ct_identity st \<noteq> None \<Longrightarrow> authenticated num st p"
  shows "chat_ok num (st\<lparr>ct_openDataPeers := ct_openDataPeers st @ [p]\<rparr>)"
  using assms unfolding chat_ok_def
  by (auto simp: peers_ok_def unrevoked_def phases_ok_def verifying_ok_def authenticated_def)

lemma chat_ok_mark:
  assumes "chat_ok num st" "ct_identity st \<noteq> None \<Longrightarrow> authenticated num st p"
  shows "chat_ok num (markPeerReady env p st)"
proof -
  have revoked: "chat_ok num (markRevokedPeerReady env p st)" by (rule chat_ok_calm [OF assms(1)]) (intro calms calm_refl)
  have opened: "chat_ok num (sendProfileUpdate env p k (setStatus ChatReady (clearReadyTimeout st1)))"
    if "chat_ok num st1" for st1 k by (rule chat_ok_calm [OF that]) (intro calms calm_refl)
  show ?thesis unfolding markPeerReady_def
    using assms revoked by (auto intro!: opened chat_ok_open split: option.split)
qed

lemma chat_ok_wait:
  assumes "chat_ok num st" "verifying_ok num st w" "\<not> phase_wait w"
  shows "chat_ok num (wait_for w st)"
  using assms unfolding chat_ok_def wait_for_def
  by (auto simp: peers_ok_def unrevoked_def phases_ok_def verifying_ok_def authenticated_def)

lemma receive_proof_ok:
  assumes ok: "chat_ok num st" and num: "num = en_num env" and ch: "ip_channelId m = ct_channelId st" and st': "st' = receive_proof env p m st"
  shows "chat_ok num st' \<and> told st st'"
proof -
  obtain sync w where acc: "sync_accept (en_num env) (sync_context env st) p m (ct_sync st) = (sync, w)" by fastforce
  have ext: "extends plain_event (ct_sync st) sync" using extends_accept [OF acc] .
  have "sc_pendingChallenges sync = sc_pendingChallenges (ct_sync st)" "set (sc_log (ct_sync st)) \<subseteq> set (sc_log sync)"
    using acc by (auto simp: sync_accept_def Let_def split: option.splits if_splits)
  then have "pending_ok (ids st) sync" using ok by (auto simp: chat_ok_def elim: pending_ok_mono)
  from chat_ok_sync [OF ok ext this] have ok1: "chat_ok num (sync_result env sync st)" .
  have told1: "told st (sync_result env sync st)" by (rule told_sync [OF extends_short [OF ext]])
  show ?thesis
  proof (cases w)
    case None
    then show ?thesis using ok1 told1 st' by (simp add: receive_proof_def acc)
  next
    case (Some v)
    then obtain t i n valid where v: "v = Verifying p t i m n valid" "ct_sessionToken st = Some t" "ct_identity st = Some i"
        "ip_fromPeerId m = p" "ip_toPeerId m = li_peerId (snd i)" "ip_nonce m = n"
        "sync = tell (Verified p (ip_signature m) (canonicalIdentityProof (en_num env) m) valid) (ct_sync st)"
      using acc by (auto simp: sync_accept_def sync_context_def Let_def split: option.splits if_splits)
    have calm: "calm (st\<lparr>ct_sync := sync\<rparr>) (sync_result env sync st)" by (rule calm_sync_result [OF ext])
    then have same: "ct_sessionToken (sync_result env sync st) = Some t" "ct_identity (sync_result env sync st) = Some i"
        "ct_channelId (sync_result env sync st) = ct_channelId st" "sc_log (ct_sync (sync_result env sync st)) = sc_log sync"
        "ct_objects st \<le> ct_objects (sync_result env sync st)"
      using v(2,3) by (auto simp: calm_def same_session_def)
    have "t < ct_objects st" using ok v(2) by (simp add: chat_ok_def phases_ok_def)
    moreover have "valid \<longrightarrow> signed_proof num (sc_log (ct_sync (sync_result env sync st))) p m"
      unfolding same(4) by (simp add: v(4,7) num signed_proof_def)
    ultimately have "verifying_ok num (sync_result env sync st) (Syncing v)"
      unfolding v(1) verifying_ok_iff using v(5,6) same(1-3,5) ch by (metis option.discI order_less_le_trans)
    then have "chat_ok num (wait_for (Syncing v) (sync_result env sync st))" by (rule chat_ok_wait [OF ok1]) simp
    moreover have "told st (wait_for (Syncing v) (sync_result env sync st))" using told1 by (simp add: told_def wait_for_def)
    ultimately show ?thesis by (simp add: st' receive_proof_def acc Some)
  qed
qed

lemma verified_sync_ok:
  assumes ok: "chat_ok num st" and w: "verifying_ok num st (Syncing (Verifying p t i m n v))"
    and st': "st' = resume_sync env (Verifying p t i m n v) st"
  shows "chat_ok num st' \<and> told st st'"
proof -
  define ctx where "ctx = sync_context env st"
  define sync where "sync = accept_verified ctx p t i m n v (ct_sync st)"
  have st'': "st' = sync_result env sync st" by (simp add: st' resume_sync_def sync_def ctx_def)
  have pend: "pending_ok (ids st) (ct_sync st)" using ok by (simp add: chat_ok_def)
  show ?thesis
  proof (cases "ct_sessionToken st = Some t \<and> ct_identity st = Some i \<and> map_of (sc_pendingChallenges (ct_sync st)) p = Some n \<and> v")
    case False
    then have "sync = ct_sync st \<or> sync = sync_fail p ''invalid-proof'' (ct_sync st)"
      by (auto simp: sync_def accept_verified_def ctx_def sync_context_def)
    then have "extends plain_event (ct_sync st) sync" "pending_ok (ids st) sync"
      using pend pending_fail extends_fail by auto
    then show ?thesis using chat_ok_sync [OF ok] told_sync [OF extends_short] st'' by simp
  next
    case True
    define e where "e = (if cx_isRevoked ctx p then Revoked_Peer p else Ready p)"
    define st2 where "st2 = st\<lparr>ct_sync := sync\<rparr>"
    have log: "sc_log sync = [e, Capabilities_Known p (ip_capabilities m)] @ sc_log (ct_sync st)"
      and pending: "sc_pendingChallenges sync = AList.delete p (sc_pendingChallenges (ct_sync st))"
      using True by (simp_all add: sync_def accept_verified_def ctx_def sync_context_def e_def Let_def)
    have result: "st' = sync_callback env e st2"
      unfolding st'' sync_result_def log by (simp add: st2_def sync_callback_def)
    obtain c where c: "c \<in> challenges p (sc_log (ct_sync st))" "ic_nonce c = n" "ic_channelId c \<noteq> None"
        "ids st = (Some (ic_fromPeerId c), ic_channelId c)"
      using pend True unfolding pending_ok_def by blast
    have m: "signed_proof num (sc_log (ct_sync st)) p m" "ip_nonce m = n" "ip_toPeerId m = li_peerId (snd i)" "ip_channelId m = ct_channelId st"
      using w True unfolding verifying_ok_iff by blast+
    then have auth: "authenticated num st p" unfolding authenticated_def using c True
      by (intro exI [of _ c] exI [of _ m] exI [of _ i] exI [of _ "the (ct_channelId st)"]) auto
    have ok2: "chat_ok num st2"
      unfolding st2_def by (rule chat_ok_kept [OF ok])
        (use ok log pending in \<open>auto simp: same_session_def chat_ok_def peers_ok_def unrevoked_def elim: pending_ok_mono\<close>)
    have auth2: "authenticated num st2 p" by (rule authenticated_mono [OF auth]) (auto simp: st2_def log)
    have "chat_ok num st'" unfolding result e_def
      using chat_ok_mark [OF ok2 auth2] chat_ok_calm [OF ok2] calm_mark_revoked [OF calm_refl] by (simp add: sync_callback_def)
    moreover have "told st st'"
      unfolding result e_def by (rule freely_told) (auto simp: sync_callback_def st2_def intro!: freely_mark)
    ultimately show ?thesis ..
  qed
qed

section \<open>Sessions\<close>

lemma disconnect_fields [simp]:
  "ct_sessionToken (chat_disconnect st) = None" "ct_transport (chat_disconnect st) = None" "ct_identity (chat_disconnect st) = None"
  "ct_channelId (chat_disconnect st) = None" "ct_dataChannelPeers (chat_disconnect st) = []" "ct_openDataPeers (chat_disconnect st) = []"
  "ct_revocationOnlyPeers (chat_disconnect st) = []" "ct_waiting (chat_disconnect st) = ct_waiting st"
  "ct_objects (chat_disconnect st) = ct_objects st" "ct_sync (chat_disconnect st) = sync_resetSession (ct_sync st)"
  by (simp_all add: chat_disconnect_def setStatus_def emitTyping_def effect_def)

lemma reset_fields [simp]: "sc_pendingChallenges (sync_resetSession s) = []" "sc_log (sync_resetSession s) = sc_log s"
  by (simp_all add: sync_resetSession_def)

lemma disconnect_freely: "freely st (chat_disconnect st)"
proof -
  have "ct_effects (chat_disconnect st) = (if ct_status st = ChatDisconnected then [] else [Status_Changed ChatDisconnected])
      @ [Typing_Changed []] @ ct_effects st"
    by (simp add: chat_disconnect_def setStatus_def emitTyping_def effect_def)
  then show ?thesis unfolding freely_def
    by (intro exI [of _ "(if ct_status st = ChatDisconnected then [] else [Status_Changed ChatDisconnected]) @ [Typing_Changed []]"]) simp
qed

lemma disconnect_ok:
  assumes "chat_ok num st"
  shows "chat_ok num (chat_disconnect st)"
  using assms unfolding chat_ok_def
  by (auto simp: peers_ok_def unrevoked_def phases_ok_def pending_ok_def verifying_ok_def)

lemma connect_fails_ok:
  assumes "chat_ok num st"
  shows "chat_ok num (connect_fails t a st) \<and> told st (connect_fails t a st)"
proof -
  have calm: "calm (chat_disconnect st) (setStatus ChatError (chat_disconnect st))" by (intro calms calm_refl)
  have "freely (chat_disconnect st) (setStatus ChatError (chat_disconnect st))" by (intro freely_status) simp
  then have "told st (setStatus ChatError (chat_disconnect st))" using disconnect_freely freely_told freely_trans by blast
  then show ?thesis using disconnect_ok [OF assms] freely_told [OF disconnect_freely] chat_ok_calm [OF _ calm] assms
    by (auto simp: connect_fails_def Let_def)
qed


text \<open>A wait that is taken up leaves the list.\<close>

abbreviation drop_wait :: "ChatController \<Rightarrow> chat_wait list \<Rightarrow> ChatController" where
  "drop_wait st ws \<equiv> st\<lparr>ct_waiting := ws\<rparr>"

lemma token_filter: "filter (\<lambda>v. phase_token v = Some t) (filter phase_wait ws) = filter (\<lambda>v. phase_token v = Some t) ws"
proof -
  have "(\<lambda>v. phase_token v = Some t \<and> phase_wait v) = (\<lambda>v. phase_token v = Some t)" by (auto simp: phase_wait_token)
  then show ?thesis by (simp add: conj_commute)
qed

lemma verifying_wait_cases: "verifying_wait w \<Longrightarrow> \<exists>p t i m n v. w = Syncing (Verifying p t i m n v)"
  by (cases w rule: verifying_wait.cases) simp_all

lemma filter_single: "filter P (ws1 @ w # ws2) = [v] \<Longrightarrow> v \<in> set (ws1 @ ws2) \<Longrightarrow> P v \<Longrightarrow> filter P (ws1 @ ws2) = [v]"
proof (cases "P w")
  case True
  assume *: "filter P (ws1 @ w # ws2) = [v]" "v \<in> set (ws1 @ ws2)" "P v"
  then have "filter P ws1 = [] \<and> filter P ws2 = []" using True by (auto simp: append_eq_Cons_conv)
  with * show ?thesis by (auto simp: filter_empty_conv)
qed simp

lemma drop_wait_facts [simp]:
  "verifying_ok num (drop_wait st ws) w = verifying_ok num st w" "authenticated num (drop_wait st ws) p = authenticated num st p"
  "peers_ok (drop_wait st ws) = peers_ok st" "unrevoked (drop_wait st ws) = unrevoked st"
  by (simp_all add: peers_ok_def unrevoked_def verifying_ok_def authenticated_def)

lemma chat_ok_drop:
  assumes ok: "chat_ok num st" and ws: "ct_waiting st = ws1 @ w # ws2"
  shows "chat_ok num (drop_wait st (ws1 @ ws2))"
proof -
  have phases: "phases_ok st" using ok by (simp add: chat_ok_def)
  have single: "filter (\<lambda>v. phase_token v = Some t) (filter phase_wait (ws1 @ ws2)) = [v]"
    if "v \<in> set (filter phase_wait (ws1 @ ws2))" "phase_token v = Some t" "ct_sessionToken st = Some t" for v t
  proof -
    have v: "v \<in> set (filter phase_wait (ct_waiting st))" using that(1) ws by auto
    then have "filter (\<lambda>v. phase_token v = Some t) (filter phase_wait (ct_waiting st)) = [v]"
      using phases that(2,3) unfolding phases_ok_def by blast
    then have "filter (\<lambda>v. phase_token v = Some t) (ws1 @ w # ws2) = [v]" unfolding token_filter ws .
    from filter_single [OF this _ that(2)] that(1) show ?thesis unfolding token_filter by auto
  qed
  have "phases_ok (drop_wait st (ws1 @ ws2))"
    unfolding phases_ok_def
  proof (intro conjI ballI allI impI)
    fix v t assume v: "v \<in> set (filter phase_wait (ct_waiting (drop_wait st (ws1 @ ws2))))" "phase_token v = Some t"
    then have old: "v \<in> set (filter phase_wait (ct_waiting st))" using ws by auto
    then show "t < ct_objects (drop_wait st (ws1 @ ws2))" using phases v(2) unfolding phases_ok_def by simp
    assume t: "ct_sessionToken (drop_wait st (ws1 @ ws2)) = Some t"
    then show "ct_transport (drop_wait st (ws1 @ ws2)) = None" using phases v(2) old unfolding phases_ok_def by simp
    show "filter (\<lambda>v. phase_token v = Some t) (filter phase_wait (ct_waiting (drop_wait st (ws1 @ ws2)))) = [v]"
      using single v t by simp
    assume "inferred_wait v"
    then show "ct_identity (drop_wait st (ws1 @ ws2)) = None" "ct_channelId (drop_wait st (ws1 @ ws2)) = None"
      using phases v(2) old t unfolding phases_ok_def by simp_all
  qed (use phases in \<open>simp_all add: phases_ok_def\<close>)
  moreover have "set (filter verifying_wait (ws1 @ ws2)) \<subseteq> set (filter verifying_wait (ct_waiting st))" by (auto simp: ws)
  ultimately show ?thesis using ok unfolding chat_ok_def by (simp add: subset_iff) blast
qed

text \<open>What is known of a session whose wait was taken up.\<close>

lemma phase_facts:
  assumes ok: "chat_ok num st" and ws: "ct_waiting st = ws1 @ w # ws2" and w: "phase_token w = Some t" "ct_sessionToken st = Some t"
  shows "ct_transport st = None" "inferred_wait w \<longrightarrow> ct_identity st = None \<and> ct_channelId st = None"
    "\<forall>v \<in> set (ws1 @ ws2). phase_token v \<noteq> Some t"
proof -
  have "w \<in> set (filter phase_wait (ct_waiting st))" using ws w(1) by (simp add: phase_wait_token)
  then have *: "ct_transport st = None" "inferred_wait w \<longrightarrow> ct_identity st = None \<and> ct_channelId st = None"
      "filter (\<lambda>v. phase_token v = Some t) (filter phase_wait (ct_waiting st)) = [w]"
    using ok w unfolding chat_ok_def phases_ok_def by blast+
  then show "ct_transport st = None" "inferred_wait w \<longrightarrow> ct_identity st = None \<and> ct_channelId st = None" by blast+
  have "filter (\<lambda>v. phase_token v = Some t) ws1 @ w # filter (\<lambda>v. phase_token v = Some t) ws2 = [w]"
    using *(3) w(1) unfolding token_filter by (simp add: ws)
  then have "filter (\<lambda>v. phase_token v = Some t) (ws1 @ ws2) = []" by (auto simp: append_eq_Cons_conv)
  then show "\<forall>v \<in> set (ws1 @ ws2). phase_token v \<noteq> Some t" unfolding filter_empty_conv .
qed

lemma chat_ok_idle:
  assumes "chat_ok num st" "ct_transport st = None"
  shows "ct_dataChannelPeers st = []" "ct_openDataPeers st = []" "ct_revocationOnlyPeers st = []"
  using assms unfolding chat_ok_def peers_ok_def by auto

lemma pending_ok_none: "pending_ok (None, c) s \<Longrightarrow> sc_pendingChallenges s = []"
proof (cases "sc_pendingChallenges s")
  case (Cons x xs)
  assume "pending_ok (None, c) s"
  moreover have "map_of (sc_pendingChallenges s) (fst x) = Some (snd x)" by (simp add: Cons)
  ultimately show ?thesis unfolding pending_ok_def by blast
qed

text \<open>A new session; the other calls of \<^verbatim>\<open>connect\<close> are over, so that no session is there.\<close>

lemma chat_ok_new_token:
  assumes ok: "chat_ok num st" and none: "ct_sessionToken st = None" and w: "phase_token w = Some (ct_objects st)" "inferred_wait w"
  shows "chat_ok num (wait_for w (st\<lparr>ct_objects := ct_objects st + 1, ct_sessionToken := Some (ct_objects st)\<rparr>))"
proof -
  have idle: "ct_transport st = None" "ct_identity st = None" "ct_channelId st = None"
    using ok none by (auto simp: chat_ok_def phases_ok_def)
  have old: "t < ct_objects st" if "v \<in> set (ct_waiting st)" "phase_token v = Some t" for v t
    using ok that unfolding chat_ok_def phases_ok_def by (auto simp: phase_wait_token)
  let ?st = "wait_for w (st\<lparr>ct_objects := ct_objects st + 1, ct_sessionToken := Some (ct_objects st)\<rparr>)"
  have "filter (\<lambda>v. phase_token v = Some (ct_objects st)) (ct_waiting st) = []" using old by (fastforce simp: filter_empty_conv)
  then have "filter (\<lambda>v. phase_token v = Some (ct_objects st)) (ct_waiting ?st) = [w]" using w(1) by (simp add: wait_for_def)
  moreover have "t < ct_objects st + 1 \<and> (ct_objects st = t \<longrightarrow> v = w)"
    if "v = w \<or> v \<in> set (ct_waiting st)" "phase_token v = Some t" for v t
    using that old [of v t] w(1) by auto
  ultimately have "phases_ok ?st"
    unfolding phases_ok_def token_filter using idle by (auto simp: wait_for_def split: if_split_asm)
  moreover have "verifying_ok num ?st v" if v: "v \<in> set (ct_waiting st)" "verifying_wait v" for v
  proof -
    obtain p t i m n b where v': "v = Syncing (Verifying p t i m n b)" using verifying_wait_cases [OF v(2)] by blast
    have "verifying_ok num st v" using ok v by (simp add: chat_ok_def)
    then show ?thesis unfolding v' verifying_ok_iff by (auto simp: wait_for_def)
  qed
  moreover have "\<not> verifying_wait w" using w(2) by (cases w) simp_all
  ultimately show ?thesis using ok chat_ok_idle [OF ok idle(1)] unfolding chat_ok_def
    by (auto simp: peers_ok_def unrevoked_def wait_for_def)
qed


lemma phases_okI:
  assumes "ct_sessionToken st = Some t" "t < ct_objects st"
    and "\<And>v u. v \<in> set (ct_waiting st) \<Longrightarrow> phase_token v = Some u \<Longrightarrow> u < ct_objects st"
    and "\<And>v. v \<in> set (ct_waiting st) \<Longrightarrow> phase_token v = Some t \<Longrightarrow> ct_transport st = None
      \<and> filter (\<lambda>v. phase_token v = Some t) (ct_waiting st) = [v] \<and> \<not> inferred_wait v"
  shows "phases_ok st"
  unfolding phases_ok_def token_filter using assms by auto

lemma calm_connect_fields [calms]:
  assumes "calm s st"
  shows "calm s (st\<lparr>ct_attachments := a, ct_generation := g\<rparr>)"
  by (rule calm_lift [OF _ assms]) (simp add: calm_def same_session_def told_def peers_ok_def unrevoked_def)

text \<open>A handler keeps the invariant and sends only what is permitted.\<close>

definition safe :: "(rat \<Rightarrow> string) \<Rightarrow> ChatController \<Rightarrow> ChatController \<Rightarrow> bool" where
  "safe num st st' \<longleftrightarrow> chat_ok num st' \<and> told st st'"

lemma safe_calm: "chat_ok num st \<Longrightarrow> calm st st' \<Longrightarrow> safe num st st'"
  unfolding safe_def using chat_ok_calm by (auto simp: calm_def)

lemma safe_fails: "chat_ok num st \<Longrightarrow> safe num st (connect_fails t a st)"
  unfolding safe_def using connect_fails_ok .

lemma safe_effects: "chat_ok num st' \<Longrightarrow> ct_effects st' = ct_effects st \<Longrightarrow> safe num st st'"
  unfolding safe_def told_def by simp

lemma connect_disconnected_ok:
  assumes ok: "chat_ok num st" and none: "ct_sessionToken st = None"
  shows "safe num st (connect_disconnected env fresh c name options st)"
proof -
  have calm: "calm st (setStatus ChatConnecting st)" by (intro calms calm_refl)
  have st1: "chat_ok num (setStatus ChatConnecting st)" "told st (setStatus ChatConnecting st)" "ct_sessionToken (setStatus ChatConnecting st) = None"
    using safe_calm [OF ok calm] calm none by (auto simp: safe_def calm_def same_session_def)
  define st2 where "st2 = setStatus ChatConnecting st"
  have new: "safe num st (wait_for (Connect_Inferred (ct_objects st2) c name options x)
      (st2\<lparr>ct_objects := ct_objects st2 + 1, ct_sessionToken := Some (ct_objects st2)\<rparr>))" for x
    using chat_ok_new_token [of num st2 "Connect_Inferred (ct_objects st2) c name options x"] st1
    unfolding st2_def [symmetric] safe_def by (simp add: told_def wait_for_def)
  have "safe num st (wait_for w (t\<lparr>ct_social := so\<rparr>))" if "safe num st (wait_for w t)" for w t so
  proof -
    have social: "wait_for w (t\<lparr>ct_social := so\<rparr>) = (wait_for w t)\<lparr>ct_social := so\<rparr>" by (simp add: wait_for_def)
    have "calm u (u\<lparr>ct_social := so\<rparr>)" for u by (intro calms calm_refl)
    from chat_ok_calm [OF _ this] that show ?thesis unfolding social safe_def told_def by simp
  qed
  then show ?thesis unfolding connect_disconnected_def Let_def st2_def [symmetric] using new by (auto split: prod.split)
qed

lemma connect_inferred_ok:
  assumes ok: "chat_ok num st" and ws: "ct_waiting st = ws1 @ Connect_Inferred t c name options inferred # ws2"
  shows "safe num (drop_wait st (ws1 @ ws2)) (connect_inferred env t c name options inferred (drop_wait st (ws1 @ ws2)))"
proof -
  define st0 where "st0 = drop_wait st (ws1 @ ws2)"
  have ok0: "chat_ok num st0" unfolding st0_def by (rule chat_ok_drop [OF ok ws])
  show ?thesis
  proof (cases "ct_sessionToken st = Some t")
    case False
    then show ?thesis using safe_fails [OF ok0] unfolding st0_def by (simp add: connect_inferred_def)
  next
    case True
    from phase_facts [OF ok ws _ True] have f: "ct_transport st0 = None" "ct_identity st0 = None" "ct_channelId st0 = None"
        "\<forall>v \<in> set (ct_waiting st0). phase_token v \<noteq> Some t"
      by (simp_all add: st0_def)
    have t: "ct_sessionToken st0 = Some t" "t < ct_objects st0" using True ok0 by (auto simp: st0_def chat_ok_def phases_ok_def)
    have "chat_ok num (wait_for (Connect_Network t) (st0\<lparr>ct_objects := ct_objects st0 + 1, ct_channelId := a,
      ct_groupId := b, ct_rendezvousId := d, ct_signalingNamespace := e, ct_membershipOnly := f, ct_identity := g, ct_peerId := h,
      ct_displayName := i, ct_groups := j\<rparr>))" (is "chat_ok num ?st") for a b d e f g h i j
    proof -
      note idle = chat_ok_idle [OF ok0 f(1)]
      have pend: "sc_pendingChallenges (ct_sync st0) = []" using ok0 f(2) by (auto simp: chat_ok_def intro: pending_ok_none)
      have "filter (\<lambda>v. phase_token v = Some t) (ct_waiting st0) = []" using f(4) by (simp add: filter_empty_conv)
      then have "filter (\<lambda>v. phase_token v = Some t) (ct_waiting ?st) = [Connect_Network t]" by (simp add: wait_for_def)
      moreover have "u < ct_objects st0" if "v = Connect_Network t \<or> v \<in> set (ct_waiting st0)" "phase_token v = Some u" for v u
        using that t ok0 unfolding chat_ok_def phases_ok_def by (auto simp: phase_wait_token)
      ultimately have "phases_ok ?st"
        using f t by (intro phases_okI [of _ t]) (auto simp: wait_for_def intro: less_SucI)
      moreover have "verifying_ok num ?st v" if v: "v \<in> set (ct_waiting st0)" "verifying_wait v" for v
      proof -
        obtain p u x m n b where v': "v = Syncing (Verifying p u x m n b)" using verifying_wait_cases [OF v(2)] by blast
        have "verifying_ok num st0 v" using ok0 v by (simp add: chat_ok_def)
        then show ?thesis using f(2) t unfolding v' verifying_ok_iff by (auto simp: wait_for_def)
      qed
      ultimately show ?thesis unfolding chat_ok_def
        using idle f(1) by (auto simp: peers_ok_def unrevoked_def wait_for_def pend pending_ok_def)
    qed
    then show ?thesis
      unfolding st0_def [symmetric] connect_inferred_def Let_def using safe_fails [OF ok0] t(1)
      by (auto intro!: safe_effects simp: wait_for_def)
  qed
qed

lemma connect_network_ok:
  assumes ok: "chat_ok num st" and ws: "ct_waiting st = ws1 @ Connect_Network t # ws2"
  shows "safe num (drop_wait st (ws1 @ ws2)) (connect_network env t (drop_wait st (ws1 @ ws2)))"
proof -
  define st0 where "st0 = drop_wait st (ws1 @ ws2)"
  have ok0: "chat_ok num st0" unfolding st0_def by (rule chat_ok_drop [OF ok ws])
  show ?thesis
  proof (cases "ct_sessionToken st = Some t \<and> en_settled env")
    case False
    then show ?thesis using safe_fails [OF ok0] unfolding st0_def by (auto simp: connect_network_def)
  next
    case True
    with phase_facts [OF ok ws] have f: "ct_transport st0 = None" "\<forall>v \<in> set (ct_waiting st0). phase_token v \<noteq> Some t"
      by (simp_all add: st0_def)
    have t: "ct_sessionToken st0 = Some t" using True by (simp add: st0_def)
    note idle = chat_ok_idle [OF ok0 f(1)]
    let ?st = "st0\<lparr>ct_objects := ct_objects st0 + 2, ct_signaling := Some (ct_objects st0), ct_transport := Some (ct_objects st0 + 1)\<rparr>"
    have "phases_ok ?st" using ok0 f(2) t unfolding chat_ok_def phases_ok_def token_filter by (fastforce simp: phase_wait_token)
    moreover have "verifying_ok num ?st v" if "verifying_ok num st0 v" for v
      using that unfolding verifying_ok_def by fastforce
    ultimately have "chat_ok num ?st" using ok0 idle unfolding chat_ok_def
      by (auto simp: peers_ok_def unrevoked_def authenticated_def)
    then have "chat_ok num (wait_for (Connect_Attachments t) ?st)" by (rule chat_ok_wait) (simp_all add: verifying_ok_def)
    then show ?thesis unfolding st0_def [symmetric] connect_network_def using t True by (auto intro!: safe_effects simp: wait_for_def)
  qed
qed

lemma connect_rest_ok:
  assumes ok: "chat_ok num st"
  shows "safe num st (connect_attachments env t st)" "safe num st (connect_signaled env t st)"
proof -
  show "safe num st (connect_attachments env t st)"
    unfolding connect_attachments_def Let_def using safe_fails [OF ok] by (auto intro!: safe_calm [OF ok] calms calm_refl)
  show "safe num st (connect_signaled env t st)"
    unfolding connect_signaled_def Let_def using safe_fails [OF ok] by (auto intro!: safe_calm [OF ok] calms calm_refl)
qed


lemma safe_after_calm:
  assumes "calm st st1" "safe num st1 st2"
  shows "safe num st st2"
proof -
  obtain es fs where "ct_effects st1 = es @ ct_effects st" "\<forall>e \<in> set es. permitted st e"
    "ct_effects st2 = fs @ ct_effects st1" "\<forall>e \<in> set fs. permitted st1 e"
    using assms unfolding calm_def safe_def told_def by blast
  moreover have "permitted st e" if "permitted st1 e" for e
    using permitted_mono [OF that] assms(1) unfolding calm_def same_session_def by blast
  ultimately have "told st st2" unfolding told_def by (intro exI [of _ "fs @ es"]) auto
  then show ?thesis using assms(2) by (simp add: safe_def)
qed

lemma next_fails_ok:
  assumes ok: "chat_ok num st"
  shows "safe num st (next_fails k st)"
proof -
  have "safe num st (if ct_sessionToken st \<noteq> Some t then st else error_if_alone st)" for t
    by (rule safe_calm [OF ok]) (auto intro!: calms calm_refl)
  then show ?thesis unfolding next_fails_def Let_def
    using safe_fails [OF ok] safe_calm [OF ok calm_refl] by (cases k) simp_all
qed

lemma after_calm_fails: "chat_ok num st \<Longrightarrow> calm st st1 \<Longrightarrow> safe num st (next_fails k st1)"
  using safe_after_calm next_fails_ok chat_ok_calm by blast

lemma resume_next_ok:
  assumes ok: "chat_ok num st"
  shows "safe num st (resume_next env k st)"
proof (cases k)
  case (Prepared_Outbox t g p)
  obtain r st1 where req: "requestHistory env p st = (r, st1)" by fastforce
  have "calm st st1" by (rule calm_request [OF req])
  then have "safe num st (next_fails (Prepared_Outbox t g p) st1)" "calm st (wait_for (Resume (Prepared_History t g p)) st1)"
    using after_calm_fails [OF ok] by (auto intro!: calms)
  then show ?thesis unfolding Prepared_Outbox resume_next_def chat_next.case req
    using safe_calm [OF ok] calm_refl by (auto split: sum.split)
qed (auto simp: resume_next_def intro!: safe_calm [OF ok] calms calm_refl)

lemma made_for_ok:
  assumes ok: "chat_ok num st"
  shows "safe num st (made_for env t tr p w k st)"
proof (cases "ct_sessionToken st \<noteq> Some t \<or> ct_transport st \<noteq> Some tr \<or> p \<notin> set (ct_openDataPeers st)")
  case True
  then show ?thesis by (auto simp: made_for_def intro!: safe_calm [OF ok] calms calm_refl)
next
  case False
  obtain r st1 where sd: "send_data env 0 p w st = (r, st1)" by fastforce
  then have "calm st st1" using calm_send_data(1) [of w p st env 0] False by simp
  then show ?thesis using False after_calm_fails [OF ok] by (auto simp: made_for_def sd intro!: safe_calm [OF ok] calms split: sum.split)
qed

lemma parsed_ok: "parseChatWireEnvelope jp dp now raw c = Some w \<Longrightarrow> envelope_ok now c w"
  unfolding parseChatWireEnvelope_def by (auto dest: parse_object_ok split: option.splits if_splits)

lemma receive_text_ok:
  assumes ok: "chat_ok num st" and num: "num = en_num env"
  shows "safe num st (receive_text env p raw st)"
proof (cases "isTrustedPeer st p")
  case True
  show ?thesis
  proof (cases "parseChatWireEnvelope (en_jparse env) (en_dateparse env) (en_clock env 0) raw (ct_channelId st)")
    case None
    then show ?thesis by (auto simp: receive_text_def intro!: safe_calm [OF ok])
  next
    case (Some w)
    have "calm st (receive_challenge env p c st)" for c
      unfolding receive_challenge_def by (auto simp: sync_respond_def intro!: calms split: option.split)
    moreover have "calm st (receive_revocation env c v st)" for c v
      unfolding receive_revocation_def by (auto intro!: calms split: sum.split prod.split)
    moreover have "safe num st (receive_proof env p m st)" if "w = Identity_Proof m" for m
      using receive_proof_ok [OF ok num _ refl, of m] parsed_ok [OF Some] that by (simp add: safe_def)
    ultimately show ?thesis
      unfolding receive_text_def using True Some
      by (cases w) (auto intro!: safe_calm [OF ok] calms calm_refl)
  qed
qed (auto simp: receive_text_def intro!: safe_calm [OF ok])

lemma receive_data_ok:
  assumes ok: "chat_ok num st" and num: "num = en_num env"
  shows "safe num st (receive_data env p raw st)"
proof -
  have "safe num st (rejectIncompatiblePeer p st)" "safe num st (wait_for (Control_Handled p raw) st)"
    by (rule safe_calm [OF ok], intro calms calm_refl; simp)+
  then show ?thesis unfolding receive_data_def using receive_text_ok [OF assms]
    by (auto split: prod.split bool.split)
qed

lemma data_state_ok:
  assumes ok: "chat_ok num st" and tr: "ct_transport st \<noteq> None"
  shows "safe num st (data_state env t p b st)"
proof -
  define st1 where "st1 = st\<lparr>ct_dataChannelPeers := (if p \<in> set (ct_dataChannelPeers st) then ct_dataChannelPeers st else ct_dataChannelPeers st @ [p]),
             ct_sync := clearFailure p (ct_sync st)\<rparr>"
  have "calm st st1" using tr by (auto simp: st1_def calm_def same_session_def told_def peers_ok_def unrevoked_def)
  note calm = this and ok1 = chat_ok_calm [OF ok this]
  have "safe num st1 (begin_handshake env p st1)" using handshake_steps(1) [OF ok1] by (simp add: safe_def)
  moreover have "safe num st1 (markPeerReady env p st1)" if "ct_identity st1 = None"
    unfolding safe_def using chat_ok_mark [OF ok1] freely_told [OF freely_mark(2) [OF freely_refl [OF refl]]] that by simp
  moreover have "safe num st (forgetPeerConnection p st)" by (rule safe_calm [OF ok]) (intro calms calm_refl)
  ultimately show ?thesis
    unfolding data_state_def Let_def st1_def [symmetric] using safe_after_calm [OF calm] safe_calm [OF ok calm_refl]
    by (cases "ct_identity st1") simp_all
qed

section \<open>Steps\<close>

lemma resume_chat_ok:
  assumes ok: "chat_ok num st" and num: "num = en_num env" and ws: "ct_waiting st = ws1 @ w # ws2"
    and serial: "\<forall>c name options. w = Connect_Disconnected c name options \<longrightarrow> ct_sessionToken st = None"
  shows "safe num (drop_wait st (ws1 @ ws2)) (resume_chat env fresh w (drop_wait st (ws1 @ ws2)))"
proof -
  define st0 where "st0 = drop_wait st (ws1 @ ws2)"
  have ok0: "chat_ok num st0" unfolding st0_def by (rule chat_ok_drop [OF ok ws])
  have peers: "peers_ok st0" using ok0 by (simp add: chat_ok_def)
  have calm: "calm st0 st' \<Longrightarrow> safe num st0 st'" for st' by (rule safe_calm [OF ok0])
  show ?thesis
  proof (cases w)
    case (Syncing v)
    show ?thesis
    proof (cases v)
      case (Signing p t i m)
      then show ?thesis using handshake_steps(3) [OF ok0] by (simp add: Syncing resume_chat_def safe_def st0_def)
    next
      case (Verifying p t i m n b)
      have "verifying_ok num st w" using ok ws Syncing Verifying by (auto simp: chat_ok_def)
      then have "verifying_ok num st0 (Syncing (Verifying p t i m n b))" by (simp add: st0_def Syncing Verifying)
      from verified_sync_ok [OF ok0 this refl] show ?thesis by (simp add: Syncing Verifying resume_chat_def safe_def st0_def)
    qed
  next
    case (Connect_Disconnected c name options)
    then show ?thesis using connect_disconnected_ok [OF ok0] serial by (simp add: resume_chat_def st0_def)
  next
    case (Connect_Inferred t c name options inferred)
    then show ?thesis using connect_inferred_ok [OF ok ws [unfolded Connect_Inferred]] by (simp add: resume_chat_def)
  next
    case (Connect_Network t)
    then show ?thesis using connect_network_ok [OF ok ws [unfolded Connect_Network]] by (simp add: resume_chat_def)
  next
    case (Revocation_Applied target applied)
    then show ?thesis using calm disconnect_ok [OF ok0] freely_told [OF disconnect_freely]
      unfolding st0_def [symmetric] by (auto simp: resume_chat_def safe_def [of num st0 "chat_disconnect st0"] intro!: calm calms calm_refl)
  qed (use receive_text_ok [OF ok0 num] resume_next_ok [OF ok0] next_fails_ok [OF ok0] made_for_ok [OF ok0] connect_rest_ok [OF ok0]
      in \<open>auto simp: resume_chat_def st0_def [symmetric] intro!: calm calms calm_refl peers split: sum.split bool.split option.split\<close>)
qed


text \<open>
  One step of the controller. A transport calls back only after it was made. The calls of \<^verbatim>\<open>connect\<close> follow
  each other: one that waits for its \<^verbatim>\<open>disconnect\<close> goes on while no other call has made a session.
\<close>

inductive chat_step :: "(rat \<Rightarrow> string) \<Rightarrow> ChatController \<Rightarrow> ChatController \<Rightarrow> bool" for num where
  resumes: "ct_waiting st = ws1 @ w # ws2 \<Longrightarrow> num = en_num env
    \<Longrightarrow> (\<forall>c name options. w = Connect_Disconnected c name options \<longrightarrow> ct_sessionToken st = None)
    \<Longrightarrow> chat_step num st (resume_chat env fresh w (drop_wait st (ws1 @ ws2)))"
| connects: "chat_step num st (chat_connect c name options st)"
| disconnects: "chat_step num st (chat_disconnect st)"
| sends: "chat_step num st (snd (chat_send env content reply st))"
| queues: "chat_step num st (snd (chat_queue env uuid2 fresh c content name reply st))"
| edits: "chat_step num st (snd (editMessage env i content st))"
| deletes: "chat_step num st (snd (deleteMessage env i st))"
| reacts: "chat_step num st (snd (setReaction env i emoji b st))"
| pins: "chat_step num st (snd (setPinned env i b st))"
| types: "chat_step num st (setTyping env b st)"
| typing_ends: "chat_step num st (typing_expires p st)"
| ready_timer: "ct_readyTimer st = Some t \<Longrightarrow> chat_step num st (ready_timeout t st)"
| sync_timer: "map_of (sc_live (ct_sync st)) h = Some timer \<Longrightarrow> chat_step num st (handshake_timer env h timer st)"
| channel_state: "ct_transport st \<noteq> None \<Longrightarrow> chat_step num st (data_state env t p b st)"
| data: "num = en_num env \<Longrightarrow> chat_step num st (data_message env t p raw st)"
| lost: "chat_step num st (connection_lost t p st)"
| negotiation: "chat_step num st (negotiation_error t st)"
| transfer: "chat_step num st (transfer_open t p st)"
| joins: "chat_step num st (peer_joined env p v st)"
| leaves: "chat_step num st (peer_left p st)"
| description: "chat_step num st (description_received p st)"
| signaled: "chat_step num st (signaling_connected env st)"
| signaling_again: "chat_step num st (signaling_reconnecting st)"
| signaling_fails: "chat_step num st (signaling_error st)"

inductive chat_reachable :: "(rat \<Rightarrow> string) \<Rightarrow> ChatController \<Rightarrow> bool" for num where
  created: "chat_reachable num (new_chat messages box social)"
| stepped: "chat_reachable num st \<Longrightarrow> chat_step num st st' \<Longrightarrow> chat_reachable num st'"

lemma step_safe:
  assumes ok: "chat_ok num st" and step: "chat_step num st st'"
  shows "safe num st st'"
  using step
proof cases
  case (resumes ws1 w ws2 env fresh)
  have "safe num (drop_wait st (ws1 @ ws2)) st'" using resume_chat_ok [OF ok resumes(3,2,4)] resumes(1) by simp
  moreover have "permitted (drop_wait st (ws1 @ ws2)) e = permitted st e" for e by (cases e) simp_all
  ultimately show ?thesis by (simp add: safe_def told_def)
next
  case (connects c name options)
  have "calm (chat_disconnect st) (chat_connect c name options st)" unfolding chat_connect_def by (intro calms calm_refl) simp_all
  then have "chat_ok num st'" using connects chat_ok_calm disconnect_ok [OF ok] by blast
  moreover have "told st st'" using freely_told [OF disconnect_freely] by (simp add: connects chat_connect_def wait_for_def told_def)
  ultimately show ?thesis by (simp add: safe_def)
next
  case disconnects
  then show ?thesis using disconnect_ok [OF ok] freely_told [OF disconnect_freely] by (simp add: safe_def)
next
  case (sync_timer h timer env)
  then show ?thesis using handshake_steps(2) [OF ok] by (simp add: safe_def)
next
  case (channel_state env t p b)
  then show ?thesis using data_state_ok [OF ok] by simp
next
  case (data env t p raw)
  then show ?thesis using receive_data_ok [OF ok] safe_calm [OF ok calm_refl] by (simp add: data_message_def)
qed (auto simp: editMessage_def deleteMessage_def setReaction_def setPinned_def intro!: safe_calm [OF ok] calms calm_refl)

lemma reachable_ok: "chat_reachable num st \<Longrightarrow> chat_ok num st"
proof (induction rule: chat_reachable.induct)
  case (created messages box social)
  show ?case
    by (simp add: chat_ok_def new_chat_def peers_ok_def unrevoked_def phases_ok_def pending_ok_def new_sync_def)
next
  case (stepped st st')
  then show ?case using step_safe by (simp add: safe_def)
qed


end
