(* ===== verification/Chat_Session.thy ===== *)
theory Chat_Session
  imports Chat_Safety
begin

text \<open>
  Whole exchanges of the chat controller: a concrete session, the delivery of a message between two
  controllers, what is ignored, and interleavings that go wrong.
\<close>

section \<open>A session\<close>

text \<open>The newest wait goes on.\<close>

definition go_on :: "ChatEnv \<Rightarrow> ChatController \<Rightarrow> ChatController" where
  "go_on env st = (case ct_waiting st of [] \<Rightarrow> st | w # ws \<Rightarrow> resume_chat env (sample_key ''k'', ''k'') w (drop_wait st ws))"

definition sample_env :: "jsval option \<Rightarrow> string \<Rightarrow> ChatEnv" where
  "sample_env v uuid = \<lparr>en_num = fraction_text, en_lc = (\<lambda>_ _. 0), en_isotime = (\<lambda>_. ''2026''), en_dateparse = (\<lambda>_. None),
     en_jparse = (\<lambda>_. v), en_sign = sample_sign, en_verify = sample_verify, en_app = DEFAULT_APP_VERSION, en_clock = (\<lambda>_. 5),
     en_uuid = uuid, en_present = [], en_send = (\<lambda>_. Inr 1), en_control = Inr False, en_settled = True\<rparr>"

definition session_options :: "string \<Rightarrow> ChatConnectionOptions" where
  "session_options p = \<lparr>co_identity = Some (100, sample_identity p), co_trustedPeers = Some [sample_peer ''peer0001'', sample_peer ''peer0002''],
     co_revokedPeers = None, co_revocations = None, co_groupId = None, co_requireIdentityAuthentication = True, co_rendezvousId = None,
     co_namespace = None, co_membershipOnly = True\<rparr>"

definition sample_proof_value :: jsval where
  "sample_proof_value = JObj [(''version'', JInt 2), (''type'', JStr ''chat.identity.proof''), (''channelId'', JStr ''channel1''),
     (''fromPeerId'', JStr ''peer0001''), (''toPeerId'', JStr ''peer0002''), (''nonce'', JStr ''nonce001''), (''timestamp'', JInt 5),
     (''capabilities'', JObj [(''appVersion'', JStr DEFAULT_APP_VERSION), (''callProtocolVersion'', JInt 2), (''chatProtocolVersion'', JInt 2), (''groupManifestVersion'', JInt 2)]),
     (''signature'', JStr (bytesToBase64Url (sample_sign [] [])))]"

text \<open>
  A call of \<^verbatim>\<open>connect\<close> for another channel waits throughout for its disconnect; a second call makes the session
  of \<open>channel1\<close>, in which \<open>peer0001\<close> opens its channel and proves its identity.
\<close>

definition run1 :: ChatController where
  "run1 = chat_connect ''channel1'' ''Bia'' (session_options ''peer0002'')
     (chat_connect ''channel2'' ''Bia'' (session_options ''peer0002'') (new_chat (new_service [] []) [] empty_store))"

definition run2 :: ChatController where
  "run2 = go_on (sample_env None ''uuid0001'') (go_on (sample_env None ''uuid0001'') (go_on (sample_env None ''uuid0001'')
     (go_on (sample_env None ''uuid0001'') (go_on (sample_env None ''uuid0001'') run1))))"

definition run3 :: ChatController where
  "run3 = data_state (sample_env None ''nonce001'') 0 ''peer0001'' True run2"

definition run4 :: ChatController where
  "run4 = data_message (sample_env (Some sample_proof_value) ''uuid0002'') 0 ''peer0001'' ''{}'' run3"

definition run5 :: ChatController where
  "run5 = go_on (sample_env None ''uuid0003'') run4"

definition run6 :: ChatController where
  "run6 = go_on (sample_env None ''uuid0003'') run5"

lemma run2_eq [code]:
  "run2 = \<lparr>ct_sessionToken = Some 0, ct_objects = 4, ct_signaling = Some 2, ct_transport = Some 3, ct_channelId = Some ''channel1'',
     ct_groupId = None, ct_rendezvousId = Some ''channel1'', ct_signalingNamespace = ''chat'', ct_peerId = Some ''peer0002'',
     ct_displayName = ''Bia'', ct_identity = Some (100, sample_identity ''peer0002''), ct_status = ChatConnected,
     ct_dataChannelPeers = [], ct_openDataPeers = [], ct_revocationOnlyPeers = [], ct_refreshingMembers = None,
     ct_pendingMemberRefreshBroadcast = False, ct_membershipOnly = True, ct_readyTimer = Some 0, ct_typingPeers = [],
     ct_localTypingActive = False, ct_lastTypingSentAt = 0, ct_attachments = False, ct_generation = 2,
     ct_messages = new_service [] [], ct_outbox = [],
     ct_groups = \<lparr>gc_trusted = [(''peer0001'', sample_peer ''peer0001''), (''peer0002'', sample_peer ''peer0002'')], gc_revoked = [],
       gc_names = [(''peer0001'', ''Member''), (''peer0002'', ''Member'')], gc_verifyKeys = [], gc_certificates = []\<rparr>,
     ct_requests = [], ct_sync = new_sync, ct_social = empty_store,
     ct_waiting = [Connect_Disconnected ''channel2'' ''Bia'' (session_options ''peer0002'')],
     ct_effects = [Status_Changed ChatConnected, Rendezvous ''channel1'', Status_Changed ChatConnecting, Typing_Changed [],
       Typing_Changed []]\<rparr>"
  by code_simp

definition session_proof :: IdentityProofWireMessage where
  "session_proof = the (parseIdentityProof 5 (Some ''channel1'') sample_proof_value)"

lemma run3_session:
  "ct_sessionToken run3 = Some 0" "ct_identity run3 = Some (100, sample_identity ''peer0002'')" "ct_channelId run3 = Some ''channel1''"
  "ct_transport run3 = Some 3" "ct_membershipOnly run3" "ct_status run3 = ChatConnected"
  "ct_waiting run3 = [Connect_Disconnected ''channel2'' ''Bia'' (session_options ''peer0002'')]"
  by code_simp+

lemma run3_peers:
  "ct_dataChannelPeers run3 = [''peer0001'']" "ct_openDataPeers run3 = []" "ct_revocationOnlyPeers run3 = []" "\<not> ct_attachments run3"
  "isTrustedPeer run3 ''peer0001''" "\<not> isRevoked (ct_groups run3) ''peer0001''"
  by code_simp+

lemma run3_handshake:
  "map_of (sc_pendingChallenges (ct_sync run3)) ''peer0001'' = Some ''nonce001''"
  "known_peer (ct_groups run3) ''peer0001'' = Some (sample_peer ''peer0001'')" "gc_verifyKeys (ct_groups run3) = []"
  by code_simp+

lemma sample_signature_decodes: "base64UrlToArrayBuffer (bytesToBase64Url (sample_sign x y)) = Some (sample_sign u v)"
  unfolding sample_sign_def by code_simp

lemma session_proof_fields:
  "ip_channelId session_proof = Some ''channel1''" "ip_fromPeerId session_proof = ''peer0001''" "ip_toPeerId session_proof = ''peer0002''"
  "ip_nonce session_proof = ''nonce001''" "ip_signature session_proof = bytesToBase64Url (sample_sign [] [])"
  by code_simp+

lemma sample_verifies: "verify_text sample_verify (publicKey (sample_peer s)) (bytesToBase64Url (sample_sign x y)) c"
  using sample_signature_decodes [of x y s c] by (simp add: verify_text_def sample_verify_def sample_peer_def sample_key_def)

lemma sample_proof_tag:
  "jprop sample_proof_value ''type'' \<noteq> JStr ''chat.message''" "\<not> tagged 3 ''chat.event'' sample_proof_value"
  "\<not> tagged 3 ''chat.typing'' sample_proof_value" "\<not> tagged 2 ''chat.identity.challenge'' sample_proof_value"
  "tagged 2 ''chat.identity.proof'' sample_proof_value" "is_object sample_proof_value" "channel_is (Some ''channel1'') sample_proof_value"
  "parseIdentityProof 5 (Some ''channel1'') sample_proof_value \<noteq> None"
  by code_simp+

lemma sample_text_short: "\<not> MAX_WIRE_BYTES < utf8_length ''{}''"
  by (simp add: MAX_WIRE_BYTES_def)

lemma sample_proof_parses:
  "parseChatWireEnvelope (\<lambda>_. Some sample_proof_value) (\<lambda>_. None) 5 ''{}'' (Some ''channel1'') = Some (Identity_Proof session_proof)"
  unfolding parseChatWireEnvelope_def parse_object_def session_proof_def using sample_proof_tag sample_text_short by auto

lemma sample_proof_capabilities:
  "is_record sample_proof_value" "jprop sample_proof_value ''type'' = JStr ''chat.identity.proof''"
  "validRiskPeerCapabilities (jprop sample_proof_value ''capabilities'')"
  "compatibleChatPeer DEFAULT_APP_VERSION (read_capabilities (jprop sample_proof_value ''capabilities''))"
  by code_simp+

lemma sample_proof_compatible: "rejectIncompatibleEnvelope DEFAULT_APP_VERSION (\<lambda>_. Some sample_proof_value) ''{}'' = (False, None)"
  unfolding rejectIncompatibleEnvelope_def using sample_proof_capabilities sample_text_short by simp

text \<open>The proof is received and its verification waits.\<close>

abbreviation bia :: "nat \<times> LocalIdentity" where
  "bia \<equiv> (100, sample_identity ''peer0002'')"

lemma run4_eq:
  obtains sync groups where "run4 = wait_for (Syncing (Verifying ''peer0001'' 0 bia session_proof ''nonce001'' True))
      (run3\<lparr>ct_sync := sync, ct_groups := groups\<rparr>)"
    "map_of (sc_pendingChallenges sync) ''peer0001'' = Some ''nonce001''" "gc_revoked groups = gc_revoked (ct_groups run3)"
proof -
  let ?env = "sample_env (Some sample_proof_value) ''uuid0002''"
  let ?c = "canonicalIdentityProof fraction_text session_proof"
  have received: "run4 = receive_proof ?env ''peer0001'' session_proof run3"
    unfolding run4_def data_message_def receive_data_def receive_text_def
    using run3_session run3_peers sample_proof_compatible sample_proof_parses by (simp add: sample_env_def)
  have "fst (verifyCanonical sample_verify ''peer0001'' (ip_signature session_proof) ?c (ct_groups run3))"
    unfolding verifyCanonical_def using run3_handshake sample_verifies by (simp add: session_proof_fields)
  then have acc: "sync_accept fraction_text (sync_context ?env run3) ''peer0001'' session_proof (ct_sync run3)
      = (tell (Verified ''peer0001'' (ip_signature session_proof) ?c True) (ct_sync run3),
         Some (Verifying ''peer0001'' 0 bia session_proof ''nonce001'' True))"
    unfolding sync_accept_def sync_context_def using run3_session run3_handshake session_proof_fields
    by (simp add: sample_env_def sample_identity_def Let_def)
  show ?thesis
  proof (rule that)
    show "run4 = wait_for (Syncing (Verifying ''peer0001'' 0 bia session_proof ''nonce001'' True))
      (run3\<lparr>ct_sync := tell (Verified ''peer0001'' (ip_signature session_proof) ?c True) (ct_sync run3),
        ct_groups := snd (verifyCanonical sample_verify ''peer0001'' (ip_signature session_proof) ?c (ct_groups run3))\<rparr>)"
      unfolding received receive_proof_def using acc by (simp add: sample_env_def sync_result_def sync_callback_def tell_def)
  qed (simp_all add: run3_handshake tell_def)
qed

text \<open>The peer is opened, and its profile is sent to it after an await.\<close>

lemma run5_eq:
  "ct_openDataPeers run5 = [''peer0001'']" "ct_identity run5 = Some bia" "ct_sessionToken run5 = Some 0" "ct_transport run5 = Some 3"
  "ct_channelId run5 = Some ''channel1''" "ct_objects run5 = ct_objects run3"
  "\<exists>m. ct_waiting run5 = Profile_Made 0 3 ''peer0001'' m (Prepared_Profile 0 (ct_generation run3) ''peer0001'') # ct_waiting run3"
proof -
  let ?env = "sample_env None ''uuid0003''"
  obtain sync groups where r4: "run4 = wait_for (Syncing (Verifying ''peer0001'' 0 bia session_proof ''nonce001'' True))
      (run3\<lparr>ct_sync := sync, ct_groups := groups\<rparr>)"
    "map_of (sc_pendingChallenges sync) ''peer0001'' = Some ''nonce001''" "gc_revoked groups = gc_revoked (ct_groups run3)"
    using run4_eq by blast
  define st where "st = run3\<lparr>ct_sync := sync, ct_groups := groups\<rparr>"
  have "run5 = resume_sync ?env (Verifying ''peer0001'' 0 bia session_proof ''nonce001'' True) st"
    unfolding run5_def go_on_def r4(1) resume_chat_def st_def by (simp add: wait_for_def)
  moreover have "\<not> isRevoked groups ''peer0001''" using run3_peers(6) r4(3) by (simp add: isRevoked_def)
  ultimately obtain sync' where r5: "run5 = markPeerReady ?env ''peer0001'' (st\<lparr>ct_sync := sync'\<rparr>)"
    using r4(2) run3_session by (simp add: resume_sync_def accept_verified_def sync_context_def st_def sync_result_def sync_callback_def
      tell_def Let_def)
  then have run5: "run5 = sendProfileUpdate ?env ''peer0001'' (Prepared_Profile 0 (ct_generation run3) ''peer0001'')
      (setStatus ChatReady (clearReadyTimeout (st\<lparr>ct_sync := sync', ct_openDataPeers := [''peer0001'']\<rparr>)))"
    unfolding markPeerReady_def using run3_session run3_peers \<open>\<not> isRevoked groups ''peer0001''\<close> by (simp add: st_def)
  show "ct_openDataPeers run5 = [''peer0001'']" "ct_identity run5 = Some bia" "ct_sessionToken run5 = Some 0" "ct_transport run5 = Some 3"
    "ct_channelId run5 = Some ''channel1''" "ct_objects run5 = ct_objects run3"
    "\<exists>m. ct_waiting run5 = Profile_Made 0 3 ''peer0001'' m (Prepared_Profile 0 (ct_generation run3) ''peer0001'') # ct_waiting run3"
    unfolding run5 using run3_session
    by (simp_all add: sendProfileUpdate_def session_of_peer_def setStatus_def clearReadyTimeout_def effect_def wait_for_def st_def)
qed


definition may_go_on :: "ChatController \<Rightarrow> bool" where
  "may_go_on st \<longleftrightarrow> (case ct_waiting st of
     [] \<Rightarrow> False
   | w # _ \<Rightarrow> (case w of Connect_Disconnected _ _ _ \<Rightarrow> ct_sessionToken st = None | _ \<Rightarrow> True))"

lemma go_on_step:
  assumes "chat_reachable num st" "may_go_on st" "en_num env = num"
  shows "chat_step num st (go_on env st)" "chat_reachable num (go_on env st)"
proof -
  obtain w ws where w: "ct_waiting st = w # ws" "\<forall>c name options. w = Connect_Disconnected c name options \<longrightarrow> ct_sessionToken st = None"
    using assms(2) by (auto simp: may_go_on_def split: list.splits chat_wait.splits)
  show "chat_step num st (go_on env st)"
    using chat_step.resumes [of st "[]" w ws num env] assms(3) w by (simp add: go_on_def)
  with assms(1) show "chat_reachable num (go_on env st)" by (rule chat_reachable.stepped)
qed

abbreviation go :: "ChatController \<Rightarrow> ChatController" where
  "go \<equiv> go_on (sample_env None ''uuid0001'')"

lemma run1_goes_on: "may_go_on run1" "may_go_on (go run1)" "may_go_on (go (go run1))" "may_go_on (go (go (go run1)))" "may_go_on (go (go (go (go run1))))"
  by code_simp+

lemma run5_reachable: "chat_reachable fraction_text run5"
proof -
  have num: "en_num (sample_env v u) = fraction_text" for v u by (simp add: sample_env_def)
  have "chat_reachable fraction_text run1" unfolding run1_def
    by (rule chat_reachable.stepped [OF chat_reachable.stepped [OF chat_reachable.created chat_step.connects] chat_step.connects])
  note this [THEN go_on_step(2), OF run1_goes_on(1) num]
  note this [THEN go_on_step(2), OF run1_goes_on(2) num]
  note this [THEN go_on_step(2), OF run1_goes_on(3) num]
  note this [THEN go_on_step(2), OF run1_goes_on(4) num]
  note this [THEN go_on_step(2), OF run1_goes_on(5) num]
  then have "chat_reachable fraction_text run2" unfolding run2_def .
  moreover have "ct_transport run2 \<noteq> None" by (simp add: run2_eq)
  ultimately have "chat_reachable fraction_text run3" unfolding run3_def using chat_reachable.stepped chat_step.channel_state by blast
  then have "chat_reachable fraction_text run4"
    unfolding run4_def using chat_reachable.stepped chat_step.data [OF num [symmetric]] by blast
  moreover have "may_go_on run4"
  proof -
    obtain st where r: "run4 = wait_for (Syncing (Verifying ''peer0001'' 0 bia session_proof ''nonce001'' True)) st" using run4_eq by blast
    show ?thesis unfolding r may_go_on_def wait_for_def by simp
  qed
  ultimately show ?thesis unfolding run5_def using go_on_step(2) num by blast
qed

lemma run6_sends: "\<exists>m. chat_step fraction_text run5 run6 \<and> ct_effects run6 = Send_To ''peer0001'' (Profile_Update m) # ct_effects run5"
proof -
  obtain m k where w: "ct_waiting run5 = Profile_Made 0 3 ''peer0001'' m k # ct_waiting run3" using run5_eq(7) by blast
  then have "may_go_on run5" by (simp add: may_go_on_def)
  then have "chat_step fraction_text run5 run6"
    unfolding run6_def using go_on_step(1) [OF run5_reachable] by (simp add: sample_env_def)
  moreover have "ct_effects run6 = Send_To ''peer0001'' (Profile_Update m) # ct_effects run5"
    unfolding run6_def go_on_def using run5_eq
    by (simp add: w resume_chat_def made_for_def send_data_def effect_def wait_for_def sample_env_def)
  ultimately show ?thesis by blast
qed


end
