(* ===== verification/Chat_Exchange.thy ===== *)
theory Chat_Exchange
  imports Chat_Session
begin

text \<open>
  Exchanges between controllers: what a peer that is not open can do, how a message reaches the other
  side and is acknowledged, and three exchanges that go wrong.
\<close>

section \<open>Peers that are not open\<close>

definition stored :: "ChatController \<Rightarrow> MessageService \<times> outbox \<times> SocialStore" where
  "stored st = (ct_messages st, ct_outbox st, ct_social st)"

lemma stored_small [simp]:
  "stored (effect e t) = stored t" "stored (wait_for w t) = stored t" "stored (setStatus s t) = stored t"
  "stored (emitTyping t) = stored t" "stored (clearReadyTimeout t) = stored t" "stored (updateTypingPeer p a t) = stored t"
  "stored (armReadyTimeout n t) = stored t" "stored (arm_if_alone t) = stored t" "stored (status_by_peers t) = stored t"
  "stored (files_forget p t) = stored t" "stored (transport_disconnect p t) = stored t"
  by (simp_all add: stored_def effect_def wait_for_def setStatus_def emitTyping_def clearReadyTimeout_def updateTypingPeer_def Let_def
    armReadyTimeout_def arm_if_alone_def status_by_peers_def files_forget_def transport_disconnect_def split: option.split)

lemma stored_reject [simp]: "stored (rejectIncompatiblePeer p t) = stored t"
proof -
  have "stored (forgetPeerConnection p t) = stored t" unfolding forgetPeerConnection_def Let_def stored_small
    by (simp add: stored_def updateTypingPeer_def emitTyping_def effect_def Let_def)
  then show ?thesis unfolding rejectIncompatiblePeer_def Let_def by simp
qed

lemma stored_proof: "stored (receive_proof env p m t) = stored t"
proof -
  obtain sync w where acc: "sync_accept (en_num env) (sync_context env t) p m (ct_sync t) = (sync, w)" by fastforce
  have "stored (sync_result env sync t) = stored t"
    using acc by (auto simp: stored_def sync_accept_def Let_def tell_def sync_result_def sync_callback_def split: option.splits if_splits)
  then show ?thesis by (auto simp: receive_proof_def acc split: option.split)
qed

lemma stored_revocation: "ct_messages (receive_revocation env c v t) = ct_messages t \<and> ct_outbox (receive_revocation env c v t) = ct_outbox t"
  by (auto simp: receive_revocation_def wait_for_def split: sum.split prod.split)

text \<open>C38: A peer that is not open cannot touch what is stored: whatever it sends to a session with an identity, the
  messages, events, queued texts and the stored groups stay as they are, unless it passes on a certificate of
  revocation; and a text that is neither part of the handshake nor a certificate leaves the whole state as it
  is, except that an incompatible peer is dropped. In particular a request for history that comes
  before the proof of its sender is verified is lost without an answer.\<close>

theorem stranger_is_ignored:
  assumes "ct_identity st \<noteq> None" "p \<notin> set (ct_openDataPeers st)"
    and st': "st' = receive_data env p raw st"
    and w: "w = parseChatWireEnvelope (en_jparse env) (en_dateparse env) (en_clock env 0) raw (ct_channelId st)"
  shows "ct_messages st' = ct_messages st \<and> ct_outbox st' = ct_outbox st
    \<and> ((\<forall>c v. w \<noteq> Some (Group_Revocation c v)) \<longrightarrow> ct_social st' = ct_social st)
    \<and> ((\<forall>e. w = Some e \<longrightarrow> \<not> handshake_wire e \<and> \<not> certificate_wire e) \<longrightarrow> st' = st \<or> st' = rejectIncompatiblePeer p st)"
proof -
  have reject: "stored (rejectIncompatiblePeer p st) = stored st" by (rule stored_reject)
  have challenge: "stored (receive_challenge env p c st) = stored st" for c
    by (simp add: receive_challenge_def split: option.split)
  have direct: "st' = rejectIncompatiblePeer p st \<or> st' = receive_text env p raw st"
    using assms(1,2) by (auto simp: st' receive_data_def split: prod.split bool.split)
  have "receive_text env p raw st = st" if "\<forall>e. w = Some e \<longrightarrow> \<not> handshake_wire e \<and> \<not> certificate_wire e"
    using that assms(1,2) by (auto simp: receive_text_def w split: option.split ChatWireEnvelope.split)
  moreover have "ct_messages (receive_text env p raw st) = ct_messages st \<and> ct_outbox (receive_text env p raw st) = ct_outbox st
      \<and> ((\<forall>c v. w \<noteq> Some (Group_Revocation c v)) \<longrightarrow> ct_social (receive_text env p raw st) = ct_social st)"
  proof (cases "isTrustedPeer st p \<and> (\<exists>e. w = Some e \<and> (handshake_wire e \<or> certificate_wire e))")
    case True
    then obtain e where e: "w = Some e" "isTrustedPeer st p" "handshake_wire e \<or> certificate_wire e" by blast
    then show ?thesis unfolding receive_text_def w [symmetric]
      using assms(1) challenge [unfolded stored_def] stored_proof [of env p _ st, unfolded stored_def] stored_revocation
      by (cases e) simp_all
  next
    case False
    then show ?thesis using calculation by (auto simp: receive_text_def)
  qed
  ultimately show ?thesis using direct reject [unfolded stored_def] by auto
qed

theorem stranger_is_ignored_witness:
  "ct_identity run3 \<noteq> None \<and> ''peer0001'' \<notin> set (ct_openDataPeers run3)
     \<and> parseChatWireEnvelope (\<lambda>_. None) (\<lambda>_. None) 5 ''{}'' (Some ''channel1'') = None
     \<and> receive_data (sample_env None ''uuid0002'') ''peer0001'' ''{}'' run3 \<in> {run3, rejectIncompatiblePeer ''peer0001'' run3}
     \<and> ct_social (receive_data (sample_env None ''uuid0002'') ''peer0001'' ''{}'' run3) = ct_social run3"
proof -
  let ?env = "sample_env None ''uuid0002''"
  have none: "parseChatWireEnvelope (\<lambda>_. None) (\<lambda>_. None) 5 ''{}'' (Some ''channel1'') = None"
    by (simp add: parseChatWireEnvelope_def parse_object_def)
  then have w: "parseChatWireEnvelope (en_jparse ?env) (en_dateparse ?env) (en_clock ?env 0) ''{}'' (ct_channelId run3) = None"
    by (simp add: sample_env_def run3_session)
  have pre: "ct_identity run3 \<noteq> None" "''peer0001'' \<notin> set (ct_openDataPeers run3)"
    by (simp_all add: run3_session run3_peers)
  from stranger_is_ignored [OF pre refl refl, where env = ?env and raw = "''{}''"] w none pre show ?thesis by simp
qed

section \<open>Sending\<close>

lemma send_to_each_reaches:
  assumes "\<And>k. \<exists>n. en_send env k = Inr n" "ct_transport st \<noteq> None"
  shows "\<exists>n es. send_to_each env k ws st = (Inr n, st\<lparr>ct_effects := es @ ct_effects st\<rparr>) \<and> set es = (\<lambda>(p, w). Send_To p w) ` set ws"
  using assms(2)
proof (induction ws arbitrary: k st)
  case Nil
  show ?case by (rule exI [of _ 0], rule exI [of _ "[]"]) simp
next
  case (Cons x ws)
  obtain p w where x: "x = (p, w)" by (cases x)
  obtain n where n: "en_send env k = Inr n" using assms(1) by blast
  have tr: "ct_transport (effect (Send_To p w) st) \<noteq> None" using Cons.prems by (simp add: effect_def)
  obtain m es where es: "send_to_each env (Suc k) ws (effect (Send_To p w) st)
      = (Inr m, (effect (Send_To p w) st)\<lparr>ct_effects := es @ ct_effects (effect (Send_To p w) st)\<rparr>)"
      "set es = (\<lambda>(p, w). Send_To p w) ` set ws"
    using Cons.IH [OF tr, of "Suc k"] by blast
  then have "send_to_each env k (x # ws) st = (Inr (n + m), st\<lparr>ct_effects := (es @ [Send_To p w]) @ ct_effects st\<rparr>)"
    using Cons.prems n by (auto simp: x send_data_def effect_def)
  moreover have "set (es @ [Send_To p w]) = (\<lambda>(p, w). Send_To p w) ` set (x # ws)" by (simp add: x es(2))
  ultimately show ?case by blast
qed

lemma send_authenticated_reaches:
  assumes "\<And>k. \<exists>n. en_send env k = Inr n" "ct_transport st \<noteq> None"
  shows "\<exists>n es. sendToAuthenticatedPeers env w st = (Inr n, st\<lparr>ct_effects := es @ ct_effects st\<rparr>)
    \<and> set es = (\<lambda>p. Send_To p w) ` set (ct_openDataPeers st)"
  using send_to_each_reaches [OF assms, of 0 "map (\<lambda>p. (p, w)) (ct_openDataPeers st)"] assms(2)
  by (auto simp: sendToAuthenticatedPeers_def image_image)

text \<open>The message that \<open>chat_send\<close> makes of a text.\<close>

definition signed_message :: "ChatEnv \<Rightarrow> LocalIdentity \<Rightarrow> string \<Rightarrow> string \<Rightarrow> string \<Rightarrow> SignedChatWireMessage" where
  "signed_message env identity c author content =
    (let m = \<lparr>sm_channelId = Some c, sm_id = en_uuid env, sm_authorPeerId = li_peerId identity, sm_author = author, sm_content = content,
           sm_timestamp = en_clock env 0, sm_signature = []\<rparr>
     in m\<lparr>sm_signature := bytesToBase64Url (en_sign env (li_privateKey identity) (canonicalSignedMessage (en_num env) m))\<rparr>)"

lemma validate_twice: "validateContent content = Inr t \<Longrightarrow> validateContent t = Inr t"
proof -
  have idem: "js_trim (js_trim s) = js_trim s" for s
  proof -
    define u where "u = dropWhile is_white s"
    define v where "v = rev (dropWhile is_white (rev u))"
    have "dropWhile is_white v = v"
    proof (cases v)
      case (Cons x v')
      have "u = v @ rev (takeWhile is_white (rev u))"
        unfolding v_def by (metis rev_append rev_rev_ident takeWhile_dropWhile_id)
      also have "\<dots> = x # v' @ rev (takeWhile is_white (rev u))" by (simp add: Cons)
      finally have "u = x # v' @ rev (takeWhile is_white (rev u))" .
      then have "hd u = x" "u \<noteq> []" by (metis list.sel(1), metis list.distinct(1))
      then have "\<not> is_white x" using hd_dropWhile [of is_white s] by (simp add: u_def)
      then show ?thesis using Cons by simp
    qed simp
    then show ?thesis by (simp add: js_trim_def u_def [symmetric] v_def [symmetric]) (simp add: v_def)
  qed
  assume "validateContent content = Inr t"
  then show ?thesis using idem by (auto simp: validateContent_def Let_def split: if_splits)
qed

lemma createSigned_message:
  "validateContent t = Inr t \<Longrightarrow> createSigned (en_num env) (en_sign env) (en_uuid env) identity c author t (en_clock env 0)
    = Inr (signed_message env identity c author t)"
  by (simp add: createSigned_def signed_message_def bind_result_def Let_def)

lemma chat_send_waits:
  assumes "ct_identity st = Some (i, identity)" "ct_channelId st = Some c" "c \<noteq> []" "ct_transport st \<noteq> None" "validateContent content = Inr t"
  shows "chat_send env content r st = (Inr (), wait_for (Send_Created (signed_message env identity c (ct_displayName st) t) r) st)"
  using assms createSigned_message [OF validate_twice [OF assms(5)]] by (auto simp: chat_send_def)

text \<open>The two awaits of \<^verbatim>\<open>send\<close> taken up: the text is queued, goes to every open peer and is stored.\<close>

lemma send_created_goes:
  assumes "\<And>k. \<exists>n. en_send env k = Inr n" "ct_transport st \<noteq> None"
  shows "\<exists>es. go_on env (go_on env (wait_for (Send_Created m r) st)) = wait_for (Send_Persisted m r)
      (st\<lparr>ct_outbox := enqueue (en_clock env 0) (channel_text (sm_channelId m)) (sm_id m) (jtext (en_num env) (signed_wire_value m)) (ct_outbox st),
        ct_effects := es @ ct_effects st, ct_messages := snd (persistSigned (en_lc env) (en_isotime env) m (ct_messages st))\<rparr>)
    \<and> set es = (\<lambda>p. Send_To p (Signed_Message m)) ` set (ct_openDataPeers st)"
proof -
  define st1 where "st1 = st\<lparr>ct_outbox := enqueue (en_clock env 0) (channel_text (sm_channelId m)) (sm_id m)
    (jtext (en_num env) (signed_wire_value m)) (ct_outbox st)\<rparr>"
  have "go_on env (wait_for (Send_Created m r) st) = wait_for (Send_Enqueued m r) st1"
    by (simp add: go_on_def wait_for_def resume_chat_def send_created_def st1_def)
  moreover have "go_on env (wait_for (Send_Enqueued m r) st1) = send_enqueued env m r st1"
    by (simp add: go_on_def wait_for_def resume_chat_def)
  moreover obtain n es where "sendToAuthenticatedPeers env (Signed_Message m) st1 = (Inr n, st1\<lparr>ct_effects := es @ ct_effects st1\<rparr>)"
      "set es = (\<lambda>p. Send_To p (Signed_Message m)) ` set (ct_openDataPeers st1)"
    using send_authenticated_reaches [OF assms(1), of st1 "Signed_Message m"] assms(2) by (auto simp: st1_def)
  ultimately show ?thesis by (intro exI [of _ es]) (simp add: send_enqueued_def st1_def)
qed


section \<open>Exchanges that go wrong\<close>

text \<open>The first awaits of a call of \<^verbatim>\<open>connect\<close> that brings its identity.\<close>

lemma connect_goes_on:
  assumes "co_identity options = Some i" "en_settled env"
  obtains st' where
    "go_on env (go_on env (resume_chat env fresh (Connect_Disconnected c name options) st)) = wait_for (Connect_Attachments (ct_objects st)) st'"
    "ct_channelId st' = Some c" "ct_identity st' = Some i" "ct_transport st' \<noteq> None" "ct_openDataPeers st' = ct_openDataPeers st"
    "ct_sync st' = ct_sync st" "ct_displayName st' = js_trim name" "ct_sessionToken st' = Some (ct_objects st)"
proof -
  define st1 where "st1 = setStatus ChatConnecting st"
  have st1: "ct_objects st1 = ct_objects st" "ct_openDataPeers st1 = ct_openDataPeers st" "ct_sync st1 = ct_sync st"
    by (simp_all add: st1_def setStatus_def effect_def)
  obtain st2 where st2: "connect_inferred env (ct_objects st) c name options None
        (st1\<lparr>ct_objects := ct_objects st + 1, ct_sessionToken := Some (ct_objects st)\<rparr>) = wait_for (Connect_Network (ct_objects st)) st2"
      "ct_channelId st2 = Some c" "ct_identity st2 = Some i" "ct_openDataPeers st2 = ct_openDataPeers st" "ct_sync st2 = ct_sync st"
      "ct_displayName st2 = js_trim name" "ct_sessionToken st2 = Some (ct_objects st)"
    using assms(1) st1 by (simp add: connect_inferred_def)
  have "go_on env (resume_chat env fresh (Connect_Disconnected c name options) st) = wait_for (Connect_Network (ct_objects st)) st2"
    using assms(1) st1 st2(1) by (simp add: go_on_def resume_chat_def connect_disconnected_def st1_def [symmetric] wait_for_def Let_def)
  then have "go_on env (go_on env (resume_chat env fresh (Connect_Disconnected c name options) st))
      = wait_for (Connect_Attachments (ct_objects st))
          (st2\<lparr>ct_objects := ct_objects st2 + 2, ct_signaling := Some (ct_objects st2), ct_transport := Some (ct_objects st2 + 1)\<rparr>)"
    using assms(2) st2(7) by (simp add: go_on_def resume_chat_def connect_network_def wait_for_def)
  then show ?thesis by (rule that) (use st2 in simp_all)
qed

text \<open>The second call goes on with its session, over the peers of the first.\<close>

definition sample_connect :: "ChatController \<Rightarrow> ChatController" where
  "sample_connect st = go_on (sample_env None ''uuid0004'') (go_on (sample_env None ''uuid0004'') (resume_chat (sample_env None ''uuid0004'')
     (sample_key ''k'', ''k'') (last (ct_waiting st)) (drop_wait st (butlast (ct_waiting st)))))"

text \<open>C40: Overlapping calls of \<^verbatim>\<open>connect\<close> carry authenticated peers into another channel. A call that still waits for its
  disconnect when another call has made a session takes over without clearing that session: the peers
  that are open there are open in the new session, for the new channel, without any challenge for it, and
  the texts of the user go to them.\<close>

theorem overlapping_connects_keep_peers:
  assumes "ct_waiting st = ws1 @ Connect_Disconnected c name options # ws2" "co_identity options = Some i" "c \<noteq> []"
    and "q \<in> set (ct_openDataPeers st)" "en_settled env" "\<And>k. \<exists>n. en_send env k = Inr n" "validateContent content = Inr t"
    and st': "st' = go_on env (go_on env (resume_chat env fresh (Connect_Disconnected c name options) (drop_wait st (ws1 @ ws2))))"
  shows "ct_channelId st' = Some c \<and> q \<in> set (ct_openDataPeers st')
    \<and> (authenticated num st' q \<longrightarrow> (\<exists>ch \<in> challenges q (sc_log (ct_sync st)). ic_channelId ch = Some c))
    \<and> (\<exists>m. sm_channelId m = Some c \<and> sm_content m = t
         \<and> Send_To q (Signed_Message m) \<in> set (ct_effects (go_on env (go_on env (snd (chat_send env content None st'))))))"
proof -
  obtain st1 where st1: "st' = wait_for (Connect_Attachments (ct_objects st)) st1"
    "ct_channelId st1 = Some c" "ct_identity st1 = Some i" "ct_transport st1 \<noteq> None" "ct_openDataPeers st1 = ct_openDataPeers st"
    "ct_sync st1 = ct_sync st"
    by (rule connect_goes_on [OF assms(2,5), of fresh c name "drop_wait st (ws1 @ ws2)"]) (auto simp: st')
  have f: "ct_channelId st' = Some c" "ct_identity st' = Some (fst i, snd i)" "ct_transport st' \<noteq> None"
      "ct_openDataPeers st' = ct_openDataPeers st" "ct_sync st' = ct_sync st"
    using st1 by (simp_all add: wait_for_def)
  define m where "m = signed_message env (snd i) c (ct_displayName st') t"
  have m: "sm_channelId m = Some c" "sm_content m = t" by (simp_all add: m_def signed_message_def Let_def)
  obtain es st2 where sent: "go_on env (go_on env (wait_for (Send_Created m None) st')) = wait_for (Send_Persisted m None) st2"
      "ct_effects st2 = es @ ct_effects st'" "set es = (\<lambda>p. Send_To p (Signed_Message m)) ` set (ct_openDataPeers st')"
    using send_created_goes [OF assms(6) f(3), of m None] by fastforce
  have "Send_To q (Signed_Message m) \<in> set (ct_effects (go_on env (go_on env (snd (chat_send env content None st')))))"
    unfolding chat_send_waits [OF f(2,1) assms(3) f(3) assms(7)] m_def [symmetric] snd_conv sent(1)
    using sent(2,3) assms(4) f(4) by (simp add: wait_for_def)
  moreover have "\<exists>ch \<in> challenges q (sc_log (ct_sync st)). ic_channelId ch = Some c" if "authenticated num st' q"
    using that f(1,5) by (auto simp: authenticated_def)
  ultimately show ?thesis using f(1,4) assms(4) m by auto
qed

theorem overlapping_connects_keep_peers_witness:
  "\<exists>st1 st'. st1 = sample_connect run5 \<and> ct_channelId st1 = Some ''channel2''
     \<and> ''peer0001'' \<in> set (ct_openDataPeers st1)
     \<and> st' = go_on (sample_env None ''uuid0004'') (go_on (sample_env None ''uuid0004'')
         (snd (chat_send (sample_env None ''uuid0004'') ''hello'' None st1)))
     \<and> (\<exists>m. sm_channelId m = Some ''channel2'' \<and> sm_content m = ''hello'' \<and> Send_To ''peer0001'' (Signed_Message m) \<in> set (ct_effects st'))"
proof -
  let ?env = "sample_env None ''uuid0004''"
  obtain w where w: "ct_waiting run5 = [w] @ Connect_Disconnected ''channel2'' ''Bia'' (session_options ''peer0002'') # []"
    using run5_eq(7) run3_session(7) by auto
  have pre: "co_identity (session_options ''peer0002'') = Some bia" "''channel2'' \<noteq> []" "''peer0001'' \<in> set (ct_openDataPeers run5)"
    "en_settled ?env" "\<exists>n. en_send ?env k = Inr n" for k
    by (simp_all add: session_options_def run5_eq sample_env_def)
  have c: "validateContent ''hello'' = Inr ''hello''" by code_simp
  have e: "sample_connect run5 = go_on ?env (go_on ?env (resume_chat ?env (sample_key ''k'', ''k'')
      (Connect_Disconnected ''channel2'' ''Bia'' (session_options ''peer0002'')) (drop_wait run5 ([w] @ []))))"
    by (simp add: sample_connect_def w)
  from overlapping_connects_keep_peers [OF w pre(1-5) c e] show ?thesis by blast
qed

text \<open>A text outlives its session. \<^verbatim>\<open>send\<close> looks at the session before its awaits only: if the controller is
  connected to another channel when the text has been queued, the signed text of the old channel goes to the
  open peers of the new one.\<close>

theorem text_sent_to_next_channel:
  assumes "ct_channelId st = Some c" "c \<noteq> []" "ct_identity st = Some (i, identity)" "ct_transport st \<noteq> None"
    and "validateContent content = Inr t" "m = signed_message env identity c (ct_displayName st) t"
    and "ct_transport st' \<noteq> None" "q \<in> set (ct_openDataPeers st')" "\<And>k. \<exists>n. en_send env k = Inr n"
  shows "snd (chat_send env content None st) = wait_for (Send_Created m None) st
    \<and> sm_channelId m = Some c \<and> sm_content m = t
    \<and> Send_To q (Signed_Message m) \<in> set (ct_effects (go_on env (go_on env (wait_for (Send_Created m None) st'))))"
proof -
  obtain es st2 where sent: "go_on env (go_on env (wait_for (Send_Created m None) st')) = wait_for (Send_Persisted m None) st2"
      "ct_effects st2 = es @ ct_effects st'" "set es = (\<lambda>p. Send_To p (Signed_Message m)) ` set (ct_openDataPeers st')"
    using send_created_goes [OF assms(9,7), of m None] by fastforce
  then have "Send_To q (Signed_Message m) \<in> set (ct_effects (go_on env (go_on env (wait_for (Send_Created m None) st'))))"
    using assms(8) by (simp add: wait_for_def)
  moreover have "sm_channelId m = Some c" "sm_content m = t" by (simp_all add: assms(6) signed_message_def Let_def)
  ultimately show ?thesis using chat_send_waits [OF assms(3,1,2,4,5), of env None] assms(6) by simp
qed

theorem text_sent_to_next_channel_witness:
  "\<exists>m. sm_channelId m = Some ''channel1'' \<and> sm_content m = ''hello'' \<and> ct_channelId (sample_connect run5) = Some ''channel2''
     \<and> snd (chat_send (sample_env None ''uuid0004'') ''hello'' None run5) = wait_for (Send_Created m None) run5
     \<and> Send_To ''peer0001'' (Signed_Message m) \<in> set (ct_effects (go_on (sample_env None ''uuid0004'')
         (go_on (sample_env None ''uuid0004'') (wait_for (Send_Created m None) (sample_connect run5)))))"
proof -
  let ?env = "sample_env None ''uuid0004''"
  let ?m = "signed_message ?env (snd bia) ''channel1'' (ct_displayName run5) ''hello''"
  obtain w where w: "ct_waiting run5 = [w, Connect_Disconnected ''channel2'' ''Bia'' (session_options ''peer0002'')]"
    using run5_eq(7) run3_session(7) by auto
  have id: "co_identity (session_options ''peer0002'') = Some bia" "en_settled ?env" by (simp_all add: session_options_def sample_env_def)
  obtain st1 where st1: "sample_connect run5 = wait_for (Connect_Attachments (ct_objects (drop_wait run5 [w]))) st1"
    "ct_channelId st1 = Some ''channel2''" "ct_transport st1 \<noteq> None" "ct_openDataPeers st1 = ct_openDataPeers run5"
    by (rule connect_goes_on [OF id, of "(sample_key ''k'', ''k'')" "''channel2''" "''Bia''" "drop_wait run5 [w]"])
      (auto simp: sample_connect_def w)
  have next_session: "ct_transport (sample_connect run5) \<noteq> None" "''peer0001'' \<in> set (ct_openDataPeers (sample_connect run5))"
      "ct_channelId (sample_connect run5) = Some ''channel2''"
    using st1 run5_eq(1) by (simp_all add: wait_for_def)
  have c: "validateContent ''hello'' = Inr ''hello''" by code_simp
  have pre: "''channel1'' \<noteq> []" "ct_identity run5 = Some (fst bia, snd bia)" "ct_transport run5 \<noteq> None" "\<exists>n. en_send ?env k = Inr n" for k
    by (simp_all add: run5_eq sample_env_def)
  show ?thesis
    by (rule exI [of _ ?m])
      (use text_sent_to_next_channel [OF run5_eq(5) pre(1-3) c refl next_session(1,2) pre(4)] next_session(3) in simp)
qed

section \<open>A removed peer\<close>

lemma send_to_each_prefix:
  assumes "\<And>k. \<exists>n. en_send env k = Inr n" "ct_transport st \<noteq> None"
  shows "\<exists>es. snd (send_to_each env k ws st) = st\<lparr>ct_effects := es @ ct_effects st\<rparr> \<and> set es = (\<lambda>(p, w). Send_To p w) ` set ws"
  using send_to_each_reaches [OF assms, of k ws] by fastforce

lemma calm_keeps_effects: "calm st st' \<Longrightarrow> set (ct_effects st) \<subseteq> set (ct_effects st')"
  unfolding calm_def told_def by auto

lemma peer_map_has: "map_has (peer_map ps) p \<longleftrightarrow> p \<in> peerId ` set ps"
proof -
  have "dom (map_of (fold (\<lambda>p m. AList.update (peerId p) p m) ps m)) = dom (map_of m) \<union> peerId ` set ps" for m
    by (induction ps arbitrary: m) (auto simp: update_conv')
  from this [of "[]"] show ?thesis unfolding peer_map_def map_has_def by (auto simp: dom_map_of_conv_image_fst)
qed

text \<open>One peer of \<^verbatim>\<open>transitions.revokedPeerIds\<close>.\<close>

definition revoke_one :: "ChatEnv \<Rightarrow> string \<Rightarrow> ChatController \<Rightarrow> ChatController" where
  "revoke_one env q s = markRevokedPeerReady env q (files_forget q (s\<lparr>ct_openDataPeers := removeAll q (ct_openDataPeers s)\<rparr>))"

lemma revoke_one_calm: "calm s (revoke_one env q s)"
  unfolding revoke_one_def files_forget_def by (auto intro!: calms)

lemma revoke_one_sends:
  assumes "\<And>k. \<exists>n. en_send env k = Inr n" "ct_transport s \<noteq> None" "ct_channelId s = Some ch" "ch \<noteq> []"
  shows "ct_transport (revoke_one env q s) = ct_transport s \<and> ct_channelId (revoke_one env q s) = ct_channelId s
    \<and> ct_groups (revoke_one env q s) = ct_groups s \<and> ct_dataChannelPeers (revoke_one env q s) = ct_dataChannelPeers s
    \<and> (q \<noteq> p \<longrightarrow> (p \<in> set (ct_revocationOnlyPeers (revoke_one env q s)) \<longleftrightarrow> p \<in> set (ct_revocationOnlyPeers s)))
    \<and> (q = p \<longrightarrow> p \<in> set (ct_dataChannelPeers s) \<longrightarrow> p \<notin> set (ct_revocationOnlyPeers s) \<longrightarrow> c \<in> set (revocationsFor (ct_groups s) p)
        \<longrightarrow> Send_To p (Group_Revocation (Some ch) (revocation_js c)) \<in> set (ct_effects (revoke_one env q s)))"
proof -
  define s1 where "s1 = files_forget q (s\<lparr>ct_openDataPeers := removeAll q (ct_openDataPeers s)\<rparr>)"
  have s1: "ct_transport s1 = ct_transport s" "ct_channelId s1 = ct_channelId s" "ct_groups s1 = ct_groups s"
      "ct_dataChannelPeers s1 = ct_dataChannelPeers s" "ct_revocationOnlyPeers s1 = ct_revocationOnlyPeers s"
    by (simp_all add: s1_def files_forget_def effect_def)
  show ?thesis
  proof (cases "q \<notin> set (ct_dataChannelPeers s1) \<or> q \<in> set (ct_revocationOnlyPeers s1)")
    case True
    then have "revoke_one env q s = s1" unfolding revoke_one_def s1_def [symmetric] markRevokedPeerReady_def by simp
    with True s1 show ?thesis by auto
  next
    case False
    define s2 where "s2 = clearReadyTimeout (s1\<lparr>ct_sync := sync_forgetPeer q (ct_sync s1),
      ct_openDataPeers := removeAll q (ct_openDataPeers s1), ct_revocationOnlyPeers := ct_revocationOnlyPeers s1 @ [q]\<rparr>)"
    have s2: "ct_transport s2 = ct_transport s" "ct_channelId s2 = ct_channelId s" "ct_groups s2 = ct_groups s"
        "ct_dataChannelPeers s2 = ct_dataChannelPeers s" "ct_revocationOnlyPeers s2 = ct_revocationOnlyPeers s @ [q]"
      by (simp_all add: s2_def clearReadyTimeout_def s1)
    have tr: "ct_transport s2 \<noteq> None" using assms(2) by (simp add: s2)
    have r: "revoke_one env q s = snd (send_to_each env 0
        (map (\<lambda>r. (q, Group_Revocation (Some ch) (revocation_js r))) (revocationsFor (ct_groups s) q)) s2)"
      using False s2 tr assms(3,4)
      unfolding revoke_one_def s1_def [symmetric] markRevokedPeerReady_def s2_def [symmetric] sendRevocations_def by (auto simp: s2)
    obtain es where "revoke_one env q s = s2\<lparr>ct_effects := es @ ct_effects s2\<rparr>"
        "set es = (\<lambda>(p, w). Send_To p w) ` set (map (\<lambda>r. (q, Group_Revocation (Some ch) (revocation_js r))) (revocationsFor (ct_groups s) q))"
      unfolding r using send_to_each_prefix [OF assms(1) tr] by blast
    with s2 show ?thesis by (auto simp: image_image)
  qed
qed

lemma revoke_all_sends:
  assumes "\<And>k. \<exists>n. en_send env k = Inr n" "ct_transport s \<noteq> None" "ct_channelId s = Some ch" "ch \<noteq> []"
    and "p \<in> set (ct_dataChannelPeers s)" "p \<notin> set (ct_revocationOnlyPeers s)" "c \<in> set (revocationsFor (ct_groups s) p)" "p \<in> set qs"
  shows "Send_To p (Group_Revocation (Some ch) (revocation_js c)) \<in> set (ct_effects (fold (revoke_one env) qs s))"
  using assms(2-)
proof (induction qs arbitrary: s)
  case (Cons q qs)
  note one = revoke_one_sends [OF assms(1) Cons.prems(1-3), of q p c]
  have rest: "set (ct_effects (revoke_one env q s)) \<subseteq> set (ct_effects (fold (revoke_one env) qs (revoke_one env q s)))"
    by (intro calm_keeps_effects calm_fold) (auto intro: calm_lift [OF revoke_one_calm])
  show ?case
  proof (cases "q = p")
    case True
    then show ?thesis using one Cons.prems rest by auto
  next
    case False
    then have "Send_To p (Group_Revocation (Some ch) (revocation_js c)) \<in> set (ct_effects (fold (revoke_one env) qs (revoke_one env q s)))"
      using one Cons.prems by (intro Cons.IH) simp_all
    then show ?thesis by simp
  qed
qed simp

text \<open>C39: A removed peer learns the rendezvous it is removed from. The certificate of a removal carries the
  new secret of the group; when the removal is installed it goes to the removed peer over any channel that is
  open, authenticated or not, and gives the peer every new rendezvous of the group.\<close>

theorem removed_peer_learns_rendezvous:
  assumes "createGroupRevocationCertificate num sign uuid now rotated target issuer version = Inr c"
    and "validGroupRevocationCertificate c" "validOpaqueId (g_rendezvousSecret rotated)"
    and "g_rendezvousSecret grp = g_rendezvousSecret rotated" "c \<in> set (revocations_of grp)"
    and "target \<in> set (g_removedMembers grp)" "list_all (\<lambda>m. peerId m \<noteq> peerId target) (g_members grp)"
    and "ct_channelId st = Some ch" "ch \<noteq> []" "ct_transport st \<noteq> None" "\<And>k. \<exists>n. en_send env k = Inr n"
    and "peerId target \<in> set (ct_dataChannelPeers st)" "peerId target \<notin> set (ct_revocationOnlyPeers st)"
    and st': "st' = installGroupPeers env (g_members grp) (g_removedMembers grp) (revocations_of grp) st"
  shows "\<exists>v secret. Send_To (peerId target) (Group_Revocation (Some ch) v) \<in> set (ct_effects st')
    \<and> rc_rendezvousSecret (read_revocation v) = Some secret
    \<and> groupRendezvousId grp purpose resource = ''risk-rendezvous-v1:'' @ secret @ '':'' @ purpose @ '':'' @ resource"
proof -
  let ?p = "peerId target"
  have c: "rc_targetPeerId c = ?p" "rc_rendezvousSecret c = g_rendezvousSecret rotated"
    using assms(1) by (auto simp: createGroupRevocationCertificate_def Let_def split: if_split_asm)
  obtain secret where secret: "g_rendezvousSecret rotated = Some secret"
    using assms(3) by (cases "g_rendezvousSecret rotated") (simp_all add: validOpaqueId_def)
  obtain transitions groups where i: "install (g_members grp) (g_removedMembers grp) (revocations_of grp) (ct_dataChannelPeers st) (ct_groups st)
      = (transitions, groups)" by fastforce
  have "target \<in> {x \<in> set (g_removedMembers grp). peerId x \<notin> peerId ` set (g_members grp)}"
    using assms(6,7) by (auto simp: list_all_iff)
  then have t: "?p \<in> set (gt_revokedPeerIds transitions)" "c \<in> set (revocationsFor groups ?p)"
    using i assms(2,5,12) c(1) imageI [of target _ peerId]
    by (auto simp: install_def Let_def peer_map_has list_all_iff revocationsFor_def)
  define st1 where "st1 = fold (revoke_one env) (gt_revokedPeerIds transitions) (st\<lparr>ct_groups := groups\<rparr>)"
  have "Send_To ?p (Group_Revocation (Some ch) (revocation_js c)) \<in> set (ct_effects st1)"
    unfolding st1_def using assms(8-13) t by (intro revoke_all_sends) simp_all
  moreover have "st' = fold (\<lambda>p s. transport_disconnect p (forgetPeerConnection p s)) (gt_unknownPeerIds transitions) st1"
    unfolding st' installGroupPeers_def i st1_def by (simp add: revoke_one_def [abs_def])
  then have "calm st1 st'" unfolding transport_disconnect_def by (auto intro!: calms calm_fold)
  ultimately have "Send_To ?p (Group_Revocation (Some ch) (revocation_js c)) \<in> set (ct_effects st')" using calm_keeps_effects by blast
  moreover have "rc_rendezvousSecret (read_revocation (revocation_js c)) = Some secret"
    using c(2) secret by (simp add: read_revocation_def revocation_js_def js_or_undefined_def str_opt_def)
  moreover have "groupRendezvousId grp purpose resource = ''risk-rendezvous-v1:'' @ secret @ '':'' @ purpose @ '':'' @ resource"
    using assms(3,4) secret by (simp add: groupRendezvousId_def Let_def)
  ultimately show ?thesis by blast
qed

definition shrunk_group :: "GroupRevocationCertificate \<Rightarrow> LocalGroup" where
  "shrunk_group c = sample_group\<lparr>g_members := [sample_peer ''owner-01''], g_removedMembers := [sample_peer ''peer0001''],
     g_revocations := Some [c]\<rparr>"

lemma removal_certificate:
  obtains c where
    "createGroupRevocationCertificate fraction_text sample_sign ''message-1'' 1 sample_group (sample_peer ''peer0001'') (sample_identity ''owner-01'') 2
       = Inr c" "validGroupRevocationCertificate c"
proof -
  obtain c where c: "createGroupRevocationCertificate fraction_text sample_sign ''message-1'' 1 sample_group (sample_peer ''peer0001'')
      (sample_identity ''owner-01'') 2 = Inr c" "rc_signature c = bytesToBase64Url (sample_sign [] [])"
      "c\<lparr>rc_signature := []\<rparr> = \<lparr>rc_version = 1, rc_groupId = ''group-01'', rc_targetPeerId = ''peer0001'',
         rc_targetPublicKey = sample_key ''peer0001'', rc_issuerPeerId = ''owner-01'', rc_membershipVersion = 2, rc_administratorEpoch = 1,
         rc_messageId = ''message-1'', rc_timestamp = 1, rc_administratorGrant = None, rc_rendezvousVersion = Some 2,
         rc_rendezvousSecret = Some ''secret-01'', rc_signature = []\<rparr>"
    by (simp add: createGroupRevocationCertificate_def sample_group_def sample_peer_def sample_identity_def canManageLocalGroup_def Let_def
      sample_sign_def or_else_def)
  have "validGroupRevocationCertificate (c\<lparr>rc_signature := bytesToBase64Url (sample_sign [] [])\<rparr>)"
    using c(3) by (cases c) (simp, code_simp)
  then have "validGroupRevocationCertificate c" using c(2) by (cases c) simp
  with c(1) that show thesis by blast
qed

theorem removed_peer_learns_rendezvous_witness:
  "\<exists>(grp :: LocalGroup) v secret. ''peer0001'' \<notin> set (ct_openDataPeers run3) \<and> list_all (\<lambda>m. peerId m \<noteq> ''peer0001'') (g_members grp)
    \<and> Send_To ''peer0001'' (Group_Revocation (Some ''channel1'') v) \<in> set (ct_effects (installGroupPeers (sample_env None ''uuid0001'')
        (g_members grp) (g_removedMembers grp) (revocations_of grp) run3))
    \<and> rc_rendezvousSecret (read_revocation v) = Some secret
    \<and> groupRendezvousId grp ''chat'' ''channel1'' = ''risk-rendezvous-v1:'' @ secret @ '':'' @ ''chat'' @ '':'' @ ''channel1''"
proof -
  let ?p = "peerId (sample_peer ''peer0001'')"
  obtain c where c:
    "createGroupRevocationCertificate fraction_text sample_sign ''message-1'' 1 sample_group (sample_peer ''peer0001'') (sample_identity ''owner-01'') 2
       = Inr c" "validGroupRevocationCertificate c"
    by (rule removal_certificate)
  have grp: "validOpaqueId (g_rendezvousSecret sample_group)" "g_rendezvousSecret (shrunk_group c) = g_rendezvousSecret sample_group"
      "c \<in> set (revocations_of (shrunk_group c))" "sample_peer ''peer0001'' \<in> set (g_removedMembers (shrunk_group c))"
      "list_all (\<lambda>m. peerId m \<noteq> ?p) (g_members (shrunk_group c))"
    by (code_simp, simp_all add: shrunk_group_def or_else_def sample_peer_def)
  have st: "ct_channelId run3 = Some ''channel1''" "''channel1'' \<noteq> []" "ct_transport run3 \<noteq> None" "?p \<in> set (ct_dataChannelPeers run3)"
      "?p \<notin> set (ct_revocationOnlyPeers run3)" "\<exists>n. en_send (sample_env None ''uuid0001'') k = Inr n" for k
    by (simp_all add: run3_session run3_peers sample_peer_def sample_env_def)
  have p: "?p = ''peer0001''" by (simp add: sample_peer_def)
  obtain v secret where "Send_To ''peer0001'' (Group_Revocation (Some ''channel1'') v) \<in> set (ct_effects
        (installGroupPeers (sample_env None ''uuid0001'') (g_members (shrunk_group c)) (g_removedMembers (shrunk_group c))
          (revocations_of (shrunk_group c)) run3))"
      "rc_rendezvousSecret (read_revocation v) = Some secret"
      "groupRendezvousId (shrunk_group c) ''chat'' ''channel1'' = ''risk-rendezvous-v1:'' @ secret @ '':'' @ ''chat'' @ '':'' @ ''channel1''"
    using removed_peer_learns_rendezvous [OF c(1,2) grp(1-5) st(1-3) st(6) st(4,5) refl, of "''chat''" "''channel1''"]
    unfolding p by blast
  moreover have "''peer0001'' \<notin> set (ct_openDataPeers run3)" "list_all (\<lambda>m. peerId m \<noteq> ''peer0001'') (g_members (shrunk_group c))"
    using grp(5) by (simp add: run3_peers, simp only: p)
  ultimately show ?thesis by - (rule exI [of _ "shrunk_group c"], rule exI [of _ v], rule exI [of _ secret], intro conjI, assumption+)
qed

end
