(* ===== verification/Group_Trust.thy ===== *)
theory Group_Trust
  imports Group_Chat
begin

text \<open>
  Properties of the group service: its cache of keys is never stale, a snapshot is taken over only
  from an administrator whose signature verifies, and two flaws in which an ordinary message of a
  member has more effect than it should.
\<close>

section \<open>The cache of verification keys\<close>

definition keys_ok :: "GroupChatService \<Rightarrow> bool" where
  "keys_ok st \<longleftrightarrow> (\<forall>p x. known_peer st p = Some x \<longrightarrow> peerId x = p)
     \<and> (\<forall>p k. map_of (gc_verifyKeys st) p = Some k \<longrightarrow> map_option publicKey (known_peer st p) = Some k)"

lemma keys_okI:
  assumes "\<And>p x. known_peer st p = Some x \<Longrightarrow> peerId x = p"
    and "\<And>p k. map_of (gc_verifyKeys st) p = Some k \<Longrightarrow> map_option publicKey (known_peer st p) = Some k"
  shows "keys_ok st"
  using assms unfolding keys_ok_def by blast

lemma keys_okD:
  assumes "keys_ok st"
  shows "known_peer st p = Some x \<Longrightarrow> peerId x = p"
    "map_of (gc_verifyKeys st) p = Some k \<Longrightarrow> map_option publicKey (known_peer st p) = Some k"
  using assms unfolding keys_ok_def by blast+

lemma map_of_fold_update:
  assumes "\<And>p x. map_of m p = Some x \<Longrightarrow> peerId x = p"
  shows "map_of (fold (\<lambda>p m. AList.update (peerId p) p m) ps m) q = Some y \<Longrightarrow> peerId y = q"
  using assms
proof (induction ps arbitrary: m)
  case (Cons a ps)
  show ?case by (rule Cons.IH) (use Cons.prems in \<open>auto split: if_splits\<close>)
qed simp

lemma peer_map_key: "map_of (peer_map ps) p = Some x \<Longrightarrow> peerId x = p"
  unfolding peer_map_def by (rule map_of_fold_update) simp_all

lemma known_fields [simp]:
  "known_peer (st\<lparr>gc_verifyKeys := ks\<rparr>) p = known_peer st p" "known_peer (st\<lparr>gc_names := ns\<rparr>) p = known_peer st p"
  by (cases "map_of (gc_trusted st) p"; simp add: known_peer_def)+

lemma keys_ok_install: "keys_ok (snd (install activePeers revokedPeers revocations connectedPeerIds st))"
  by (rule keys_okI) (auto simp: install_def known_peer_def Let_def dest: peer_map_key split: option.splits)

lemma verifyCanonical_state:
  assumes "keys_ok st"
  shows "keys_ok (snd (verifyCanonical verify p s t st))"
    "fst (verifyCanonical verify p s t st) = (case known_peer st p of None \<Rightarrow> False | Some x \<Rightarrow> verify_text verify (publicKey x) s t)"
    "known_peer (snd (verifyCanonical verify p s t st)) = known_peer st"
proof -
  show "known_peer (snd (verifyCanonical verify p s t st)) = known_peer st"
    by (auto simp: verifyCanonical_def fun_eq_iff split: option.split)
  show "keys_ok (snd (verifyCanonical verify p s t st))"
  proof (cases "known_peer st p")
    case (Some x)
    then have "peerId x = p" using keys_okD(1) [OF assms] by blast
    with Some show ?thesis
      by (intro keys_okI) (auto simp: verifyCanonical_def split: option.splits if_splits dest: keys_okD [OF assms])
  qed (simp add: verifyCanonical_def assms)
  show "fst (verifyCanonical verify p s t st) = (case known_peer st p of None \<Rightarrow> False | Some x \<Rightarrow> verify_text verify (publicKey x) s t)"
  proof (cases "known_peer st p")
    case (Some x)
    then have "peerId x = p" "map_of (gc_verifyKeys st) p = Some k \<Longrightarrow> publicKey x = k" for k
      using keys_okD [OF assms] Some by (blast, metis option.inject option.simps(9))
    with Some show ?thesis by (auto simp: verifyCanonical_def split: option.split)
  qed (simp add: verifyCanonical_def)
qed

lemma known_profile:
  "known_peer (profile_accepted p m st) q = (if q = p then Some (read_peer (pu_identity m)) else known_peer st q)"
  by (cases "map_of (gc_trusted st) q") (simp_all add: profile_accepted_def known_peer_def Let_def)

lemma keys_ok_profile:
  assumes "keys_ok st" "peerId (read_peer (pu_identity m)) = p"
  shows "keys_ok (profile_accepted p m st)"
proof (rule keys_okI)
  fix q k assume "map_of (gc_verifyKeys (profile_accepted p m st)) q = Some k"
  then have "q \<noteq> p" "map_of (gc_verifyKeys st) q = Some k" by (auto simp: profile_accepted_def Let_def split: if_splits)
  then show "map_option publicKey (known_peer (profile_accepted p m st) q) = Some k"
    using keys_okD(2) [OF assms(1)] by (simp add: known_profile)
qed (use assms keys_okD(1) [OF assms(1)] in \<open>auto simp: known_profile split: if_splits\<close>)

text \<open>Everything that happens to the service, each operation at any moment.\<close>

inductive group_reachable :: "GroupChatService \<Rightarrow> bool" where
  start: "group_reachable new_groups"
| configured: "group_reachable st \<Longrightarrow> group_reachable (configure identity trusted revoked revocations st)"
| installed: "group_reachable st \<Longrightarrow> group_reachable (snd (install active revoked revocations peers st))"
| was_reset: "group_reachable st \<Longrightarrow> group_reachable (group_reset st)"
| checked: "group_reachable st \<Longrightarrow> group_reachable (snd (verifyCanonical verify p s t st))"
| updated: "group_reachable st \<Longrightarrow> peerId (read_peer (pu_identity m)) = p \<Longrightarrow> group_reachable (profile_accepted p m st)"
| unnamed: "group_reachable st \<Longrightarrow> group_reachable (removeDisplayName p st)"

lemma keys_ok_reset: "keys_ok new_groups" "keys_ok (group_reset st)"
  by (rule keys_okI; simp add: new_groups_def group_reset_def known_peer_def)+

lemma keys_ok_reachable: "group_reachable st \<Longrightarrow> keys_ok st"
proof (induction rule: group_reachable.induct)
  case (unnamed st p)
  then show ?case by (simp add: removeDisplayName_def keys_ok_def)
qed (simp_all add: keys_ok_reset configure_def keys_ok_install verifyCanonical_state keys_ok_profile)

text \<open>C34: The cache of imported keys is never stale: after any sequence of configurations, changes of the group, profile
  updates and verifications, a text is verified with the key under which its author is known at
  that moment, as trusted or as removed, and nothing of an unknown author verifies.\<close>

theorem verification_uses_current_key:
  assumes "group_reachable st"
  shows "fst (verifyCanonical verify p s t st) =
    (case known_peer st p of None \<Rightarrow> False | Some x \<Rightarrow> peerId x = p \<and> verify_text verify (publicKey x) s t)"
  using verifyCanonical_state(2) [OF keys_ok_reachable [OF assms]] keys_okD(1) [OF keys_ok_reachable [OF assms]]
  by (auto split: option.split)

theorem verification_uses_current_key_witness:
  "fst (verifyCanonical (\<lambda>key _ _. key = sample_key ''owner-01'') ''owner-01'' [] ''text''
     (configure None [sample_peer ''owner-01''] [] [] new_groups))"
  using verification_uses_current_key [OF group_reachable.configured [OF group_reachable.start], of "\<lambda>key _ _. key = sample_key ''owner-01''"
      "''owner-01''" "[]" "''text''" None "[sample_peer ''owner-01'']" "[]" "[]"]
  by code_simp

section \<open>Whose snapshots are taken over\<close>

lemma known_by_id_consistent:
  assumes "known_by_id ms known = Some known'"
  shows "(\<forall>x \<in> set ms. \<exists>k. map_of known' (peerId x) = Some k \<and> samePublicKey (publicKey k) (publicKey x))
    \<and> (\<forall>p k. map_of known p = Some k \<longrightarrow> (\<exists>k'. map_of known' p = Some k' \<and> samePublicKey (publicKey k') (publicKey k)))"
  using assms
proof (induction ms known rule: known_by_id.induct)
  case (2 m ms known)
  have rest: "known_by_id ms (AList.update (peerId m) m known) = Some known'"
    and same: "map_of known (peerId m) = Some k \<Longrightarrow> samePublicKey (publicKey m) (publicKey k)" for k
    using "2.prems" samePublicKey_sym by (auto simp: sameIdentityKey_def split: option.splits if_splits)
  have IH: "(\<forall>x \<in> set ms. \<exists>k. map_of known' (peerId x) = Some k \<and> samePublicKey (publicKey k) (publicKey x))
    \<and> (\<forall>p k. map_of (AList.update (peerId m) m known) p = Some k \<longrightarrow> (\<exists>k'. map_of known' p = Some k' \<and> samePublicKey (publicKey k') (publicKey k)))"
    using "2.IH" "2.prems" rest by (auto split: option.splits if_splits)
  then obtain k' where k': "map_of known' (peerId m) = Some k'" "samePublicKey (publicKey k') (publicKey m)"
    by (metis map_of_update_eq)
  have "\<exists>k''. map_of known' p = Some k'' \<and> samePublicKey (publicKey k'') (publicKey k)" if "map_of known p = Some k" for p k
  proof (cases "p = peerId m")
    case True
    then show ?thesis using k' same that samePublicKey_trans by blast
  next
    case False
    then show ?thesis using IH that by (metis map_of_update_eq)
  qed
  then show ?case using IH k' by auto
qed auto

lemma known_by_id_same_key:
  assumes "known_by_id ms [] = Some known" "x \<in> set ms" "y \<in> set ms" "peerId x = peerId y"
  shows "samePublicKey (publicKey x) (publicKey y)"
proof -
  obtain k where "map_of known (peerId x) = Some k" "samePublicKey (publicKey k) (publicKey x)"
    using known_by_id_consistent [OF assms(1)] assms(2) by blast
  moreover obtain k' where "map_of known (peerId y) = Some k'" "samePublicKey (publicKey k') (publicKey y)"
    using known_by_id_consistent [OF assms(1)] assms(3) by blast
  ultimately show ?thesis using assms(4) samePublicKey_sym samePublicKey_trans by (metis option.inject)
qed

text \<open>C35: Only an administrator who signed it can make a service take over a snapshot: the peer that sent it is
  the owner or an administrator of the local group, the snapshot is signed with the key under
  which this peer is known, an administrator that is not the owner leaves the list of
  administrators and the epoch as they are, the owner is not removed, and no identity of the local group comes with another
  key.\<close>

theorem snapshot_authority:
  assumes "keys_ok st" "loadLocalGroups lc store0 = (groups, store)" "find_group groups groupId = Some current"
    and "acceptMembership num lc verify now groupId localIdentity sender m st store0 = (Inr (Some r), st', store')"
  shows "sender \<in> {g_ownerPeerId current} \<union> set (g_administratorPeerIds current)
    \<and> (\<exists>x. known_peer st sender = Some x \<and> verify_text verify (publicKey x) (gm_signature m) (canonicalGroupMembership num lc m))
    \<and> gm_groupId m = groupId \<and> gm_ownerPeerId m = g_ownerPeerId current \<and> g_ownerPeerId current \<notin> set (gm_removedPeerIds m)
    \<and> (sender \<noteq> g_ownerPeerId current
         \<longrightarrow> gm_administratorEpoch m = epoch_of current \<and> same_administrators num (gm_administratorPeerIds m) (g_administratorPeerIds current))
    \<and> (\<forall>x \<in> set (g_members current @ g_removedMembers current). \<forall>y \<in> read_peer ` (set (gm_members m) \<union> set (gm_removedMembers m)).
         peerId x = peerId y \<longrightarrow> samePublicKey (publicKey x) (publicKey y))"
proof -
  have ver: "fst (verifyCanonical verify sender (gm_signature m) (canonicalGroupMembership num lc m) st)"
    and valid: "validateRemovalAuthority num verify current m"
    and guards: "gm_groupId m = groupId" "gm_ownerPeerId m = g_ownerPeerId current"
      "sender \<in> {g_ownerPeerId current} \<union> set (g_administratorPeerIds current)"
      "sender \<noteq> g_ownerPeerId current
         \<longrightarrow> gm_administratorEpoch m = epoch_of current \<and> same_administrators num (gm_administratorPeerIds m) (g_administratorPeerIds current)"
    using assms(2-4) unfolding acceptMembership_def by (auto split: if_splits bool.splits prod.splits sum.splits)
  obtain known where known: "known_by_id (g_members current @ g_removedMembers current @ map read_peer (gm_members m)
      @ map read_peer (gm_removedMembers m)) [] = Some known" and owner: "g_ownerPeerId current \<notin> set (gm_removedPeerIds m)"
    using valid unfolding validateRemovalAuthority_def by (auto simp: Let_def split: option.splits if_splits)
  have "samePublicKey (publicKey x) (publicKey y)"
    if "x \<in> set (g_members current @ g_removedMembers current)" "y \<in> read_peer ` (set (gm_members m) \<union> set (gm_removedMembers m))"
      "peerId x = peerId y" for x y
    by (rule known_by_id_same_key [OF known _ _ that(3)]) (use that in auto)
  moreover have "\<exists>x. known_peer st sender = Some x \<and> verify_text verify (publicKey x) (gm_signature m) (canonicalGroupMembership num lc m)"
    using ver by (simp add: verifyCanonical_state(2) [OF assms(1)] split: option.splits)
  ultimately show ?thesis using guards owner by blast
qed

section \<open>A snapshot that is always answered\<close>

text \<open>The text by which two manifests are compared, as the text of a value with sorted keys.\<close>

fun stable_value :: "(string \<Rightarrow> string \<Rightarrow> int) \<Rightarrow> jsval \<Rightarrow> jsval" where
  "stable_value lc (JArr xs) = JArr (map (stable_value lc) xs)"
| "stable_value lc (JObj ps) = JObj (map (\<lambda>p. (fst p, stable_value lc (snd p)))
     (sort_cmp (\<lambda>l r. lc (fst l) (fst r)) (filter (\<lambda>p. snd p \<noteq> JUndefined) ps)))"
| "stable_value lc v = v"

fun storable :: "jsval \<Rightarrow> bool" where
  "storable (JArr xs) \<longleftrightarrow> list_all (\<lambda>x. x \<noteq> JUndefined \<and> storable x) xs"
| "storable (JObj ps) \<longleftrightarrow> list_all (\<lambda>p. storable (snd p)) ps"
| "storable (JNum x) \<longleftrightarrow> (\<exists>q. x = JFin q)"
| "storable _ \<longleftrightarrow> True"

lemma stable_undefined [simp]: "stable_value lc v = JUndefined \<longleftrightarrow> v = JUndefined"
  by (cases v) simp_all

lemma stable_text: "stableCanonicalValue num lc v = jtext num (stable_value lc v)"
proof (induction v rule: stable_value.induct)
  case (1 lc xs)
  then have "map (stableCanonicalValue num lc) xs = map (jtext num) (map (stable_value lc) xs)" by simp
  then show ?case by (simp only: stableCanonicalValue.simps stable_value.simps jtext.simps)
next
  case (2 lc ps)
  let ?qs = "sort_cmp (\<lambda>l r. lc (fst l) (fst r)) (filter (\<lambda>p. snd p \<noteq> JUndefined) ps)"
  have qs: "set ?qs \<subseteq> set ps" "\<forall>p \<in> set ?qs. snd p \<noteq> JUndefined" by auto
  have "filter (\<lambda>p. snd p \<noteq> JUndefined) (map (\<lambda>p. (fst p, stable_value lc (snd p))) ?qs) = map (\<lambda>p. (fst p, stable_value lc (snd p))) ?qs"
    by (rule filter_True) (use qs(2) in simp)
  moreover have "map (\<lambda>p. jtext num (JStr (fst p)) @ '':'' @ stableCanonicalValue num lc (snd p)) ?qs
      = map (\<lambda>p. quote_text (fst p) @ '':'' @ jtext num (snd p)) (map (\<lambda>p. (fst p, stable_value lc (snd p))) ?qs)"
    using 2 qs(1) by (auto simp: prod.case_eq_if)
  ultimately show ?case by (simp only: stableCanonicalValue.simps stable_value.simps jtext.simps)
qed simp_all

lemma stable_safe: "storable v \<Longrightarrow> v \<noteq> JUndefined \<Longrightarrow> json_safe (stable_value lc v)"
proof (induction v rule: stable_value.induct)
  case (2 lc ps)
  then show ?case by (fastforce simp: list_all_iff)
qed (auto simp: list_all_iff)

lemma stable_member:
  assumes "stable_value lc (JObj ps) = stable_value lc (JObj qs)" "(k, v) \<in> set ps" "v \<noteq> JUndefined"
  shows "\<exists>w. (k, w) \<in> set qs \<and> w \<noteq> JUndefined \<and> stable_value lc w = stable_value lc v"
proof -
  have "(\<lambda>p. (fst p, stable_value lc (snd p))) ` {p \<in> set ps. snd p \<noteq> JUndefined} = (\<lambda>p. (fst p, stable_value lc (snd p))) ` {p \<in> set qs. snd p \<noteq> JUndefined}"
    using arg_cong [OF assms(1), of "\<lambda>u. case u of JObj xs \<Rightarrow> set xs | _ \<Rightarrow> {}"] by simp
  moreover have "(k, stable_value lc v) \<in> (\<lambda>p. (fst p, stable_value lc (snd p))) ` {p \<in> set ps. snd p \<noteq> JUndefined}"
    using assms(2,3) by force
  ultimately show ?thesis by auto
qed

lemma storable_parts:
  "storable (key_js k)" "storable (identity_js x)" "storable (grant_js g)" "storable (channel_js c)" "storable (revocation_js r)"
proof -
  show key: "storable (key_js k)" for k by (auto simp: key_js_def js_or_undefined_def list_all_iff split: option.split)
  show "storable (identity_js x)" by (simp add: identity_js_def key js_or_undefined_def split: option.split)
  show grant: "storable (grant_js g)" for g by (simp add: grant_js_def key)
  show "storable (channel_js c)" by (simp add: channel_js_def split: option.split)
  show "storable (revocation_js r)" by (simp add: revocation_js_def key grant js_or_undefined_def split: option.split)
qed

lemma object_parts [simp]:
  "key_js k \<noteq> JUndefined" "identity_js x \<noteq> JUndefined" "grant_js g \<noteq> JUndefined" "channel_js c \<noteq> JUndefined" "revocation_js r \<noteq> JUndefined"
  by (simp_all add: key_js_def identity_js_def grant_js_def channel_js_def revocation_js_def)

lemma storable_opt: "storable (js_or_undefined f v) \<longleftrightarrow> (\<forall>x. v = Some x \<longrightarrow> storable (f x))"
  by (simp add: js_or_undefined_def split: option.split)

lemma storable_manifest: "storable (manifest_state grp)"
  unfolding manifest_state_def
  by (simp add: storable_opt storable_parts list_all_iff)

definition is_members :: "LocalGroup \<Rightarrow> jsval \<Rightarrow> bool" where
  "is_members g w \<longleftrightarrow> (''members'', w) \<in> (case manifest_state g of JObj ps \<Rightarrow> set ps | _ \<Rightarrow> {})"

lemma is_members: "is_members g w \<longleftrightarrow> w = JArr (map identity_js (g_members g))"
  by (simp add: is_members_def manifest_state_def)

definition identity_fields :: "PublicPeerIdentity \<Rightarrow> (string \<times> jsval) list" where
  "identity_fields m = [(''peerId'', JStr (peerId m)), (''publicKey'', key_js (publicKey m)),
     (''displayName'', JStr (displayName m)), (''avatar'', js_or_undefined JStr (avatar m))]"

lemma identity_fields: "identity_js m = JObj (identity_fields m)"
  by (simp add: identity_js_def identity_fields_def)

lemma same_state_avatars:
  assumes "number_format num" "sameLocalGroupManifestState num lc a b" "x \<in> set (g_members b)" "avatar x \<noteq> None"
  shows "\<exists>y \<in> set (g_members a). avatar y \<noteq> None"
proof -
  have obj: "manifest_state g \<noteq> JUndefined" for g by (simp add: manifest_state_def)
  have "stable_value lc (manifest_state b) = stable_value lc (manifest_state a)"
    using assms(2) jtext_eq_iff [OF assms(1) stable_safe [OF storable_manifest obj] stable_safe [OF storable_manifest obj]]
    by (simp add: sameLocalGroupManifestState_def stable_text)
  moreover obtain ps qs where objs: "manifest_state b = JObj ps" "manifest_state a = JObj qs" by (simp add: manifest_state_def)
  moreover have "(''members'', JArr (map identity_js (g_members b))) \<in> set ps"
    using is_members [of b "JArr (map identity_js (g_members b))"] objs(1) by (simp add: is_members_def)
  ultimately obtain w where "(''members'', w) \<in> set qs" "stable_value lc w = stable_value lc (JArr (map identity_js (g_members b)))"
    using stable_member [of lc ps qs "''members''" "JArr (map identity_js (g_members b))"] by force
  moreover from this(1) have "w = JArr (map identity_js (g_members a))"
    using is_members [of a w] objs(2) by (simp add: is_members_def)
  ultimately have "stable_value lc (JArr (map identity_js (g_members a))) = stable_value lc (JArr (map identity_js (g_members b)))" by blast
  then have "map (stable_value lc \<circ> identity_js) (g_members a) = map (stable_value lc \<circ> identity_js) (g_members b)" by simp
  moreover have "(stable_value lc \<circ> identity_js) x \<in> set (map (stable_value lc \<circ> identity_js) (g_members b))"
    using assms(3) unfolding set_map by (rule imageI)
  ultimately have "(stable_value lc \<circ> identity_js) x \<in> set (map (stable_value lc \<circ> identity_js) (g_members a))" by (simp only:)
  then obtain y where y: "y \<in> set (g_members a)" "stable_value lc (identity_js x) = stable_value lc (identity_js y)"
    unfolding set_map image_iff comp_apply by blast
  from assms(4) obtain im where im: "avatar x = Some im" by blast
  then have "(''avatar'', JStr im) \<in> set (identity_fields x)" by (simp add: identity_fields_def js_or_undefined_def)
  from stable_member [OF y(2) [unfolded identity_fields] this]
  obtain w where "(''avatar'', w) \<in> set (identity_fields y)" "w \<noteq> JUndefined" by blast
  then have "js_or_undefined JStr (avatar y) \<noteq> JUndefined" by (simp add: identity_fields_def)
  then have "avatar y \<noteq> None" by (cases "avatar y") (simp_all add: js_or_undefined_def)
  with y(1) show ?thesis by blast
qed

lemma snapshot_members: "createMembershipSnapshot num lc sign now groupId channelId identity store = (Inr (Some m), store')
    \<Longrightarrow> v \<in> set (gm_members m) \<Longrightarrow> avatar (read_peer v) = None"
  by (auto simp: createMembershipSnapshot_def snapshot_def member_js_def read_peer_def str_opt_def Let_def split: prod.splits option.splits if_splits)


section \<open>A profile that replaces another member\<close>

text \<open>C37: A member can take another member out of the groups of its peers: a profile update signed by one
  member, with its own peer id and the public key of another member that stands before it in the group,
  is accepted and replaces the entry of the other member, so that the stored group does not list
  that member, the owner for instance, any more.\<close>

theorem profile_update_replaces_member:
  assumes "keys_ok st" "known_peer st p = Some x" "verify_text verify (publicKey x) (pu_signature m) (canonicalProfileUpdate num m)"
    and "peerId (read_peer (pu_identity m)) = p" "samePublicKey (publicKey victim) (publicKey (read_peer (pu_identity m)))"
    and "loadLocalGroups lc store = ([grp], store1)" "g_members grp = pre @ victim # post" "peerId victim \<noteq> p"
    and "list_all (\<lambda>y. \<not> samePeerIdentity y (read_peer (pu_identity m)) \<and> peerId y \<noteq> peerId victim) pre"
    and "list_all (\<lambda>y. peerId y \<noteq> peerId victim) post"
    and "assertLocalGroupSyncBudget num now (grp\<lparr>g_members := pre @ read_peer (pu_identity m) # post\<rparr>) = Inr ()"
  shows "\<exists>st' store'. acceptProfile num lc verify now p m st store = (Inr True, st', store')
    \<and> (\<exists>g. map_of (ss_groups store') (g_groupId grp) = Some g \<and> g_members g = pre @ read_peer (pu_identity m) # post
        \<and> find_peer (g_members g) (peerId victim) = None)"
proof -
  let ?i = "read_peer (pu_identity m)" and ?g = "grp\<lparr>g_members := pre @ read_peer (pu_identity m) # post\<rparr>"
  have "fst (verifyCanonical verify p (pu_signature m) (canonicalProfileUpdate num m) st)"
    using verifyCanonical_state(2) [OF assms(1)] assms(2,3) by simp
  then obtain st1 where ver: "verifyCanonical verify p (pu_signature m) (canonicalProfileUpdate num m) st = (True, st1)"
    by (metis prod.collapse)
  have idx: "find_index (\<lambda>y. samePeerIdentity y ?i) (pre @ victim # post) = Some (length pre)"
    using assms(5,9) by (induction pre) (auto simp: samePeerIdentity_def)
  have save: "saveLocalGroup num now ?g store1 = (Inr (), put_group ?g store1)"
    using assms(11) by (simp add: saveLocalGroup_def)
  have upd: "update_profile_in num now ?i [grp] store1 = (Inr (), put_group ?g store1)"
    using assms(5,7) by (simp add: idx save)
  then obtain store' where "updateKnownPeerProfile num lc now ?i store = (Inr (), store')" "ss_groups store' = ss_groups (put_group ?g store1)"
    by (simp add: updateKnownPeerProfile_def assms(6) upd Let_def dispatch_def saveLocalFriend_def split: option.split del: update_profile_in.simps)
  then show ?thesis using ver assms(4,8-10)
    by (auto simp: acceptProfile_def put_group_def find_peer_None list_all_iff)
qed

section \<open>Concrete runs\<close>

text \<open>A bound on the length of a text that is cheaper to evaluate than the text.\<close>

fun text_size :: "string \<Rightarrow> int" where
  "text_size [] = 0"
| "text_size (c # s) = 1 + text_size s"

lemma text_size [simp]: "text_size s = int (length s)"
  by (induction s) simp_all

fun text_bound :: "(rat \<Rightarrow> string) \<Rightarrow> jsval \<Rightarrow> int" where
  "text_bound num (JStr s) = 6 * text_size s + 2"
| "text_bound num (JNum (JFin x)) = text_size (number_text num x)"
| "text_bound num (JArr xs) = 2 + sum_list (map (\<lambda>x. text_bound num x + 1) xs)"
| "text_bound num (JObj ps) = 2 + sum_list (map (\<lambda>p. 6 * text_size (fst p) + 4 + text_bound num (snd p)) ps)"
| "text_bound num _ = 5"

lemma quote_bound: "length (quote_text s) \<le> 6 * length s + 2"
proof -
  have "length (concat (map escape_char s)) \<le> 6 * length s"
  proof (induction s)
    case (Cons c s)
    have "length (escape_char c) \<le> 6" by (simp add: escape_char_def)
    with Cons show ?case by simp
  qed simp
  then show ?thesis by (simp add: quote_text_def)
qed

lemma join_bound: "int (length (join_with '','' ts)) \<le> sum_list (map (\<lambda>t. int (length t) + 1) ts)"
proof (induction ts)
  case (Cons t ts)
  then show ?case by (cases ts) simp_all
qed simp

lemma text_bound_nonneg: "0 \<le> text_bound num v"
proof (induction num v rule: text_bound.induct)
  case (3 num xs)
  then show ?case by (auto intro!: add_nonneg_nonneg sum_list_nonneg)
next
  case (4 num ps)
  then show ?case by (fastforce intro!: add_nonneg_nonneg sum_list_nonneg)
qed simp_all

lemma sum_list_filter_mono:
  fixes f g :: "'a \<Rightarrow> int"
  assumes "\<And>x. x \<in> set xs \<Longrightarrow> P x \<Longrightarrow> f x \<le> g x" "\<And>x. 0 \<le> g x"
  shows "sum_list (map f (filter P xs)) \<le> sum_list (map g xs)"
  using assms(1)
proof (induction xs)
  case (Cons x xs)
  then have "sum_list (map f (filter P xs)) \<le> sum_list (map g xs)" by simp
  with Cons.prems [of x] assms(2) [of x] show ?case by auto
qed simp

lemma text_bound: "int (length (jtext num v)) \<le> text_bound num v"
proof (induction num v rule: jtext.induct)
  case (6 num s)
  then show ?case using quote_bound [of s] by simp
next
  case (7 num xs)
  have "sum_list (map (\<lambda>x. int (length (jtext num x)) + 1) xs) \<le> sum_list (map (\<lambda>x. text_bound num x + 1) xs)"
    by (rule sum_list_mono) (use 7 in simp)
  then show ?case using join_bound [of "map (jtext num) xs"] by (simp add: comp_def)
next
  case (8 num ps)
  let ?t = "\<lambda>p. quote_text (fst p) @ '':'' @ jtext num (snd p)" and ?b = "\<lambda>p. 6 * text_size (fst p) + 4 + text_bound num (snd p)"
  have "int (length (?t p)) + 1 \<le> ?b p" if "p \<in> set ps" "snd p \<noteq> JUndefined" for p
  proof -
    have "int (length (jtext num (snd p))) \<le> text_bound num (snd p)" using 8 that by (cases p) auto
    with quote_bound [of "fst p"] show ?thesis by simp
  qed
  moreover have "0 \<le> ?b p" for p using text_bound_nonneg [of num "snd p"] by simp
  ultimately have "sum_list (map (\<lambda>p. int (length (?t p)) + 1) (filter (\<lambda>p. snd p \<noteq> JUndefined) ps)) \<le> sum_list (map ?b ps)"
    by (rule sum_list_filter_mono)
  then show ?case using join_bound [of "map ?t (filter (\<lambda>p. snd p \<noteq> JUndefined) ps)"] by (simp add: comp_def)
qed simp_all

lemma utf8_bound: "utf8_length s \<le> 2 * length s"
  unfolding utf8_length_def by (induction s) auto

definition gt_group :: "string option \<Rightarrow> LocalGroup" where
  "gt_group im = sample_group\<lparr>g_members := [(sample_peer ''member-1'')\<lparr>avatar := im\<rparr>, sample_peer ''owner-01''],
     g_manifestActorPeerId := Some ''owner-01'', g_manifestOperationId := Some ''legacy-1'', g_administratorGrants := Some [], g_revocations := Some []\<rparr>"

definition gt_store :: "string option \<Rightarrow> SocialStore" where
  "gt_store im = empty_store\<lparr>ss_groups := [(''group-01'', gt_group im)]\<rparr>"

definition gt_snapshot :: GroupMembersWireMessage where
  "gt_snapshot = snapshot 5 (gt_group (Some ''image'')) ''channel1'' (sample_identity ''owner-01'')"

definition gt_service :: "string \<Rightarrow> GroupChatService" where
  "gt_service p = configure None [sample_peer p] [] [] new_groups"

lemma gt_service_known: "known_peer (gt_service p) p = Some (sample_peer p)" "keys_ok (gt_service p)"
  by (simp_all add: gt_service_def configure_def keys_ok_install) (simp add: install_def known_peer_def peer_map_def sample_peer_def)

lemma gt_normal: "normalised_group code_unit_compare None (gt_group (Some ''image'')) = gt_group (Some ''image'')" by code_simp

lemma gt_load: "loadLocalGroups code_unit_compare (gt_store (Some ''image'')) = ([gt_group (Some ''image'')], gt_store (Some ''image''))"
  by (simp add: loadLocalGroups_def reconcileIdentityMembership_def gt_store_def empty_store_def map_values_def reconcile_group_def gt_normal
      with_self_def normalisation_changed_def)

lemma gt_incoming: "incoming_group (gt_group (Some ''image'')) gt_snapshot = gt_group None" by code_simp

lemma gt_resolved:
  "resolveLocalGroupManifest code_unit_compare (gt_group (Some ''image'')) (gt_group None) ''owner-01'' = gt_group (Some ''image'')"
  by code_simp

lemma gt_valid:
  "validateRemovalAuthority fraction_text (\<lambda>_ _ _. True) (gt_group (Some ''image'')) gt_snapshot"
  "validateMergedManifestRevocations fraction_text (\<lambda>_ _ _. True) (gt_group (Some ''image'')) (gt_group None) ''owner-01''"
  by code_simp+

lemma gt_fields:
  "g_groupId (gt_group im) = ''group-01''" "g_ownerPeerId (gt_group im) = ''owner-01''"
  "gm_groupId gt_snapshot = ''group-01''" "gm_senderPeerId gt_snapshot = ''owner-01''" "gm_ownerPeerId gt_snapshot = ''owner-01''"
  "gm_signature gt_snapshot = []"
  by (simp_all add: gt_group_def sample_group_def gt_snapshot_def snapshot_def sample_identity_def)

lemma gt_find: "find_group [gt_group im] ''group-01'' = Some (gt_group im)"
  by (simp add: find_group_def gt_fields)

lemma gt_merge:
  "mergeLocalGroupManifest fraction_text code_unit_compare (\<lambda>_ _ _. True) 5 (gt_group None) ''owner-01'' (gt_store (Some ''image''))
    = (Inr (gt_group (Some ''image'')), gt_store (Some ''image''))"
proof -
  have "ss_identity (gt_store (Some ''image'')) = None" by (simp add: gt_store_def empty_store_def)
  then show ?thesis
    by (simp add: mergeLocalGroupManifest_def gt_load gt_find gt_fields gt_valid gt_resolved sameLocalGroupManifestState_def)
qed

lemma gt_verified: "\<exists>st. verifyCanonical (\<lambda>_ _ _. True) p [] t (gt_service p) = (True, st)"
proof -
  have "verify_text (\<lambda>_ _ _. True) k [] t" for k by (simp add: verify_text_def) code_simp
  then have "fst (verifyCanonical (\<lambda>_ _ _. True) p [] t (gt_service p))"
    using verifyCanonical_state(2) [OF gt_service_known(2)] gt_service_known(1) by simp
  then show ?thesis by (metis prod.collapse)
qed

lemma gt_accepted:
  "\<exists>reply st. acceptMembership fraction_text code_unit_compare (\<lambda>_ _ _. True) 5 ''group-01'' (sample_identity ''owner-01'') ''owner-01'' gt_snapshot
     (gt_service ''owner-01'') (gt_store (Some ''image'')) = (Inr (Some (gt_group (Some ''image''), reply)), st, gt_store (Some ''image''))"
proof -
  obtain st where "verifyCanonical (\<lambda>_ _ _. True) ''owner-01'' [] (canonicalGroupMembership fraction_text code_unit_compare gt_snapshot)
      (gt_service ''owner-01'') = (True, st)" using gt_verified by blast
  then show ?thesis
    by (simp add: acceptMembership_def gt_fields gt_load gt_find gt_valid gt_incoming gt_merge Let_def)
qed

lemma gt_created:
  "createMembershipSnapshot fraction_text code_unit_compare (\<lambda>_ _. []) 5 ''group-01'' ''channel1'' (sample_identity ''owner-01'') (gt_store (Some ''image''))
    = (Inr (Some gt_snapshot), gt_store (Some ''image''))"
proof -
  have "bytesToBase64Url [] = []" by code_simp
  then have sig: "gt_snapshot\<lparr>gm_signature := bytesToBase64Url []\<rparr> = gt_snapshot" by (simp add: gt_snapshot_def snapshot_def)
  have "text_bound fraction_text (snapshot_wire_value gt_snapshot) \<le> 30000" by code_simp
  with text_bound [of fraction_text "snapshot_wire_value gt_snapshot"] utf8_bound [of "jtext fraction_text (snapshot_wire_value gt_snapshot)"]
  have "\<not> utf8_length (jtext fraction_text (snapshot_wire_value gt_snapshot)) > MAX_WIRE_BYTES" by (simp add: MAX_WIRE_BYTES_def)
  moreover have "li_peerId (sample_identity ''owner-01'') = ''owner-01''" by (simp add: sample_identity_def)
  ultimately show ?thesis
    by (simp add: createMembershipSnapshot_def gt_load gt_find gt_fields Let_def gt_snapshot_def [symmetric] sig)
qed

theorem snapshot_authority_witness:
  "\<exists>x. known_peer (gt_service ''owner-01'') ''owner-01'' = Some x
     \<and> verify_text (\<lambda>_ _ _. True) (publicKey x) (gm_signature gt_snapshot) (canonicalGroupMembership fraction_text code_unit_compare gt_snapshot)"
proof -
  obtain reply st where "acceptMembership fraction_text code_unit_compare (\<lambda>_ _ _. True) 5 ''group-01'' (sample_identity ''owner-01'') ''owner-01'' gt_snapshot
     (gt_service ''owner-01'') (gt_store (Some ''image'')) = (Inr (Some (gt_group (Some ''image''), reply)), st, gt_store (Some ''image''))"
    using gt_accepted by blast
  from snapshot_authority [OF gt_service_known(2) gt_load gt_find this] show ?thesis by blast
qed


definition gt_profile :: ProfileUpdateWireMessage where
  "gt_profile = \<lparr>pu_channelId = Some ''channel1'', pu_identity = identity_js ((sample_peer ''owner-01'')\<lparr>publicKey := sample_key ''member-1''\<rparr>),
     pu_timestamp = 5, pu_signature = []\<rparr>"

lemma gt_profile_identity: "read_peer (pu_identity gt_profile) = (sample_peer ''owner-01'')\<lparr>publicKey := sample_key ''member-1''\<rparr>"
  by code_simp

theorem profile_update_replaces_member_witness:
  "\<exists>st store g. acceptProfile fraction_text code_unit_compare (\<lambda>_ _ _. True) 5 ''owner-01'' gt_profile (gt_service ''owner-01'') (gt_store (Some ''image''))
      = (Inr True, st, store) \<and> map_of (ss_groups store) ''group-01'' = Some g \<and> find_peer (g_members g) ''member-1'' = None"
proof -
  let ?victim = "(sample_peer ''member-1'')\<lparr>avatar := Some ''image''\<rparr>"
  let ?g = "(gt_group (Some ''image''))\<lparr>g_members := [] @ read_peer (pu_identity gt_profile) # [sample_peer ''owner-01'']\<rparr>"
  have "text_bound fraction_text (sync_projection 5 ?g) \<le> 30000" by code_simp
  with text_bound [of fraction_text "sync_projection 5 ?g"] utf8_bound [of "jtext fraction_text (sync_projection 5 ?g)"]
  have budget: "assertLocalGroupSyncBudget fraction_text 5 ?g = Inr ()" by (simp add: assertLocalGroupSyncBudget_def MAX_GROUP_SYNC_WIRE_BYTES_def)
  have ver: "verify_text (\<lambda>_ _ _. True) (publicKey (sample_peer ''owner-01'')) (pu_signature gt_profile) (canonicalProfileUpdate fraction_text gt_profile)"
    by (simp add: gt_profile_def verify_text_def) code_simp
  have "\<exists>st' store'. acceptProfile fraction_text code_unit_compare (\<lambda>_ _ _. True) 5 ''owner-01'' gt_profile (gt_service ''owner-01'') (gt_store (Some ''image''))
      = (Inr True, st', store') \<and> (\<exists>g. map_of (ss_groups store') (g_groupId (gt_group (Some ''image''))) = Some g
        \<and> g_members g = [] @ read_peer (pu_identity gt_profile) # [sample_peer ''owner-01''] \<and> find_peer (g_members g) (peerId ?victim) = None)"
    by (rule profile_update_replaces_member [OF gt_service_known(2,1) ver _ _ gt_load _ _ _ _ budget])
      (simp_all add: gt_profile_identity gt_group_def sample_peer_def)
  then show ?thesis by (auto simp: gt_fields sample_peer_def)
qed

end
