(* ===== verification/Chat_Delivery.thy ===== *)
theory Chat_Delivery
  imports Chat_Exchange Group_Trust
begin

text \<open>
  The delivery of a text between two controllers: it reaches the peers that are open, is verified, stored and
  acknowledged there, and leaves the outbox with the acknowledgement.
\<close>

section \<open>A text arrives\<close>

text \<open>A text of a peer, after the attachment service has seen it.\<close>

definition arrives :: "ChatEnv \<Rightarrow> string \<Rightarrow> string \<Rightarrow> ChatController \<Rightarrow> ChatController" where
  "arrives env p raw st = (if ct_attachments st then go_on env (receive_data env p raw st) else receive_data env p raw st)"

lemma parse_tag:
  assumes "parseChatWireEnvelope jparse dateparse now raw c = Some w" "w = Signed_Message m \<or> w = Message_Ack d i"
  shows "rejectIncompatibleEnvelope app jparse raw = (False, None)"
proof -
  obtain v where v: "jparse raw = Some v" "parse_object dateparse now c v = Some w" "\<not> MAX_WIRE_BYTES < utf8_length raw"
    using assms(1) by (auto simp: parseChatWireEnvelope_def split: if_split_asm option.split_asm)
  have "jprop v ''type'' \<noteq> JStr ''chat.identity.challenge''"
  proof
    assume t: "jprop v ''type'' = JStr ''chat.identity.challenge''"
    show False
      by (cases "jprop v ''version'' = JInt 2") (use v(2) assms(2) in \<open>auto simp: parse_object_def tagged_def parse_history_def t\<close>)
  qed
  moreover have "jprop v ''type'' \<noteq> JStr ''chat.identity.proof''"
  proof
    assume t: "jprop v ''type'' = JStr ''chat.identity.proof''"
    show False
      by (cases "jprop v ''version'' = JInt 2") (use v(2) assms(2) in \<open>auto simp: parse_object_def tagged_def parse_history_def t\<close>)
  qed
  ultimately show ?thesis using v by (simp add: rejectIncompatibleEnvelope_def)
qed

lemma arrives_open:
  assumes "parseChatWireEnvelope (en_jparse env) (en_dateparse env) (en_clock env 0) raw (ct_channelId st) = Some w"
    and "w = Signed_Message m \<or> w = Message_Ack d i"
    and "p \<in> set (ct_openDataPeers st)" "p \<notin> set (ct_revocationOnlyPeers st)" "isTrustedPeer st p" "en_control env = Inr False"
  shows "arrives env p raw st = receive_envelope env p w st"
proof -
  have "receive_text env p raw st = receive_envelope env p w st"
    using assms by (auto simp: receive_text_def)
  moreover have "receive_data env p raw st = (if ct_attachments st then wait_for (Control_Handled p raw) st else receive_text env p raw st)"
    using parse_tag [OF assms(1,2)] assms(3) by (simp add: receive_data_def)
  ultimately show ?thesis using assms(6) by (simp add: arrives_def go_on_def wait_for_def resume_chat_def)
qed

lemma persistSigned_stored:
  "\<exists>x. map_of (sv_messages (snd (persistSigned lc isotime m sv))) (sm_id m) = Some x \<and> ms_content x = sm_content m
     \<and> ms_authorPeerId x = Some (sm_authorPeerId m) \<and> ms_channelId x = sm_channelId m"
proof -
  let ?l = "signedToLocal isotime m"
  let ?base = "projection_base ?l (cached_or_stored (ms_channelId ?l) (ms_id ?l) sv)"
  let ?es = "fst (loadProjectionEvents lc (ms_channelId ?l) sv)"
  obtain rs where form: "projectMessage lc isotime ?base ?es = (written isotime ?base (relevant_events lc ?base ?es))\<lparr>ms_reactions := rs\<rparr>"
    using projectMessage_form by blast
  have base: "ms_id ?base = sm_id m" "ms_content ?base = sm_content m" "ms_authorPeerId ?base = Some (sm_authorPeerId m)"
      "ms_channelId ?base = sm_channelId m"
    by (simp_all add: projection_base_def signedToLocal_def split: option.split)
  then have p: "ms_id (projectMessage lc isotime ?base ?es) = sm_id m" "ms_content (projectMessage lc isotime ?base ?es) = sm_content m"
      "ms_authorPeerId (projectMessage lc isotime ?base ?es) = Some (sm_authorPeerId m)"
      "ms_channelId (projectMessage lc isotime ?base ?es) = sm_channelId m"
    unfolding form by (simp_all add: written_def)
  have "sv_messages (snd (persistSigned lc isotime m sv)) = put_in_store ms_id (projectMessage lc isotime ?base ?es) (sv_messages sv)"
    by (simp add: persistSigned_def persist_def Let_def split_def notify_def cache_message_def remember_def saveLocalMessage_def saveLegacyMessage_def)
  then show ?thesis using p by (simp add: put_in_store_def)
qed

lemma verify_signed_message:
  assumes "signature_scheme keypair sign verify" "keypair (li_privateKey identity) (publicKey x)" "keys_ok groups"
    and "known_peer groups (li_peerId identity) = Some x" "en_sign env = sign" "en_num env = num"
  shows "fst (verifySignedMessage num verify (signed_message env identity c author t) groups)"
proof -
  let ?m = "signed_message env identity c author t"
  have author: "sm_authorPeerId ?m = li_peerId identity" by (simp add: signed_message_def Let_def)
  have "sm_signature ?m = bytesToBase64Url (sign (li_privateKey identity) (canonicalSignedMessage num ?m))"
    using assms(5,6) by (simp add: signed_message_def canonicalSignedMessage_def signed_message_value_def Let_def)
  then have "verify_text verify (publicKey x) (sm_signature ?m) (canonicalSignedMessage num ?m)"
    using verify_text_sign(1) [OF assms(1,2), of "canonicalSignedMessage num ?m"] by (simp only:)
  then show ?thesis
    unfolding verifySignedMessage_def author using verifyCanonical_state(2) [OF assms(3), of verify "li_peerId identity"] assms(4) by simp
qed

text \<open>An acknowledged text leaves the outbox.\<close>

lemma ack_empties:
  assumes "parseChatWireEnvelope (en_jparse env) (en_dateparse env) (en_clock env 0) raw (Some c) = Some (Message_Ack d i)"
    and "ct_channelId st = Some c" "c \<noteq> []" "q \<in> set (ct_openDataPeers st)" "q \<notin> set (ct_revocationOnlyPeers st)" "isTrustedPeer st q"
    and "en_control env = Inr False"
  shows "map_of (ct_outbox (arrives env q raw st)) (outbox_key c i) = None"
proof -
  have "arrives env q raw st = receive_envelope env q (Message_Ack d i) st"
    by (rule arrives_open) (use assms in auto)
  then show ?thesis using assms(2,3) by (simp add: receive_envelope_def acknowledge_def removeOutbox_def)
qed

section \<open>Delivery\<close>


text \<open>Two controllers that are ready for each other.\<close>

definition ready_chat :: "string \<Rightarrow> string \<Rightarrow> ChatController" where
  "ready_chat p q = (new_chat (new_service [] []) [] empty_store)
     \<lparr>ct_sessionToken := Some 0, ct_objects := 2, ct_channelId := Some ''channel1'', ct_transport := Some 1, ct_peerId := Some p,
      ct_displayName := ''Member'', ct_identity := Some (100, sample_identity p), ct_status := ChatReady, ct_dataChannelPeers := [q],
      ct_openDataPeers := [q], ct_groups := configure (Some (sample_identity p)) [sample_peer p, sample_peer q] [] [] new_groups\<rparr>"

definition sample_text_message :: SignedChatWireMessage where
  "sample_text_message = \<lparr>sm_channelId = Some ''channel1'', sm_id = ''message-1'', sm_authorPeerId = ''peer0001'', sm_author = ''Member'',
     sm_content = ''hello'', sm_timestamp = 5, sm_signature = bytesToBase64Url (sample_sign [] [])\<rparr>"

definition sample_ack_value :: jsval where
  "sample_ack_value = JObj [(''version'', JInt 2), (''type'', JStr ''chat.message.ack''), (''channelId'', JStr ''channel1''),
     (''messageId'', JStr ''message-1'')]"

lemma sample_texts:
  "signed_message (sample_env v ''message-1'') (sample_identity ''peer0001'') ''channel1'' ''Member'' ''hello'' = sample_text_message"
  "parse_object (\<lambda>_. None) 5 (Some ''channel1'') (signed_wire_value sample_text_message) = Some (Signed_Message sample_text_message)"
  "parse_object (\<lambda>_. None) 5 (Some ''channel1'') sample_ack_value = Some (Message_Ack (Some ''channel1'') ''message-1'')"
proof -
  show "signed_message (sample_env v ''message-1'') (sample_identity ''peer0001'') ''channel1'' ''Member'' ''hello'' = sample_text_message"
    by (simp add: signed_message_def sample_text_message_def sample_env_def sample_identity_def sample_sign_def Let_def)
qed code_simp+

lemma sample_tags:
  "is_object (signed_wire_value sample_text_message)" "channel_is (Some ''channel1'') (signed_wire_value sample_text_message)"
  "is_object sample_ack_value" "channel_is (Some ''channel1'') sample_ack_value" "sm_id sample_text_message = ''message-1''"
  by code_simp+

lemma ready_facts:
  "isTrustedPeer (ready_chat ''peer0001'' ''peer0002'') ''peer0002''" "isTrustedPeer (ready_chat ''peer0002'' ''peer0001'') ''peer0001''"
  "known_peer (ct_groups (ready_chat ''peer0002'' ''peer0001'')) ''peer0001'' = Some (sample_peer ''peer0001'')"
  "\<not> hasProcessed (ct_messages (ready_chat ''peer0002'' ''peer0001'')) ''message-1''" "validateContent ''hello'' = Inr ''hello''"
  by code_simp+


end
