(* ===== verification/Spec2Isabelle.thy ===== *)
theory Spec2Isabelle
  imports Streaming_SHA256 Chunk_Codec Receiver_Safety Sender_Safety History_Limits Outbox_Service Chat_Delivery
begin

text \<open>
  Risk is a peer to peer application for groups: text channels, private conversations, voice rooms and
  file transfer between browsers over WebRTC, with local storage and no server that sees content.
  This library models its core logic as HOL functions over the data the code uses and proves what
  makes it correct. The sources are TypeScript, under \<^verbatim>\<open>src/\<close>.

  \<^bold>\<open>Values of the language.\<close> \<open>Prelude\<close> holds the insertion ordered maps and lists shared by all theories.
  \<open>JS_Value\<close> models JavaScript values as they come out of \<^verbatim>\<open>JSON.parse\<close>, numbers (rational, infinite or
  NaN), strings of 8-bit code units and the regular expression classes the validators use.
  \<open>JSON_Text\<close> is \<^verbatim>\<open>JSON.stringify\<close> with its injectivity, \<open>Base64\<close> the URL alphabet of signatures.

  \<^bold>\<open>Identities and groups\<close> (\<^verbatim>\<open>apps/web/src/services/offline/social-storage.ts\<close>, \<^verbatim>\<open>avatar-validation.ts\<close>).
  \<open>Peer_Identity\<close>: public keys, aliases and \<^verbatim>\<open>localeCompare\<close> as an interface (the locale \<open>collation\<close>).
  \<open>Group_Certificates\<close>: administrator grants and revocation certificates, the texts that are signed,
  creation, verification and merging. \<open>Group_Manifest\<close>: the replicated description of a group and
  its merge; the theorems give an invariant of every merge, convergence of replicas, that removed
  peers stay removed and that removals chain to the owner. \<open>Group_Storage\<close>: the operations on the
  local store of groups, friends and the identity.

  \<^bold>\<open>Attachments\<close> (\<^verbatim>\<open>packages/protocol/src/attachments.ts\<close>, \<^verbatim>\<open>packages/rtc/src\<close>,
  \<^verbatim>\<open>apps/web/src/services/attachments\<close>). \<open>Attachment_Protocol\<close>: wire types and validators. \<open>SHA256\<close> and
  \<open>Streaming_SHA256\<close>: the two streaming hashers at the width of their words, proved equal to the
  standard for every way a message is cut. \<open>Chunk_Codec\<close>: the binary frame of a chunk and its round
  trip. \<open>Attachment_Chunks\<close>: cutting a file into chunks and describing it by a manifest.
  \<open>File_Receiver\<close> and \<open>File_Sender\<close>: the two transfer engines as state machines that run from one
  await to the next under an arbitrary scheduler; \<open>Receiver_Safety\<close> and \<open>Sender_Safety\<close> prove invariants
  of every interleaving by induction over reachable states, and exhibit the schedules behind the
  findings. The loop that starts transfers has fuel, one unit for each queued transfer;
  \<open>pump_exhausts\<close> shows that it always suffices.

  \<^bold>\<open>Chat\<close> (\<^verbatim>\<open>apps/web/src/chat\<close> and the stores under \<^verbatim>\<open>services/offline\<close>). \<open>Protocol_Compatibility\<close>: versions,
  capabilities and clocks. \<open>Chat_Protocol\<close>: all messages of the chat channel (\<^verbatim>\<open>MessageProtocol.ts\<close>), the
  parser with the bounds of everything it admits, and the signed texts. \<open>Chat_Storage\<close>: the stores of
  messages, events and queued messages and their pages. \<open>Message_Projection\<close>: what a message shows
  after its events; the last writer decides each field. \<open>Message_Service\<close>: the service that keeps
  messages, with its caches. \<open>Message_Convergence\<close>: its invariant, its refinement of a specification
  that only knows the persisted messages and events, and the convergence of replicas.
  \<open>History_Service\<close> (\<^verbatim>\<open>HistoryService.ts\<close>): asking a peer for the messages and events of a channel, page by
  page. \<open>History_Session\<close>: an exchange over a link that stays up ends and is complete; its fuel is one
  round more than the number of full pages. \<open>History_Limits\<close>: the limits of size, order and keys
  behind the findings. \<open>Outbox_Service\<close> (\<^verbatim>\<open>OutboxService.ts\<close>): queued messages stay until they are
  acknowledged. \<open>Identity_Sync\<close> (\<^verbatim>\<open>SyncService.ts\<close>): the handshake in which peers prove their identities, as a
  state machine; \<open>Handshake_Safety\<close> proves authentication for every interleaving of its calls and
  timers. \<open>Group_Chat\<close> (\<^verbatim>\<open>GroupChatService.ts\<close>): who is trusted, the verification of signatures and the
  snapshots of the group; \<open>Group_Trust\<close> shows whose snapshots are taken over and that keys are
  never stale, and exhibits two flaws.
  \<open>Chat_Controller\<close> (\<^verbatim>\<open>ChatController.ts\<close>) composes these services: sessions, peers, what they send and what
  the user does, run from one await to the next; what waits is part of the state, so every interleaving is a
  sequence of steps. \<open>Chat_Safety\<close> proves that private traffic reaches authenticated peers only;
  \<open>Chat_Session\<close> runs a session on concrete texts, \<open>Chat_Exchange\<close> shows what a peer that is not open cannot do and
  three exchanges that go wrong, \<open>Chat_Delivery\<close> the delivery of a text from one controller to another.
  \<^bold>\<open>Parameters.\<close> What the sources call but do not define is a parameter: \<open>num\<close> prints the numbers that are
  not small integers, \<open>lc\<close> is \<^verbatim>\<open>localeCompare\<close>, \<open>sign\<close> and \<open>verify\<close> the signatures of WebCrypto, \<open>uuid\<close> and \<open>now\<close> the
  random identifiers and the clock, \<open>isotime\<close> and \<open>dateparse\<close> print and read dates, \<open>jparse\<close> is
  \<^verbatim>\<open>JSON.parse\<close>, \<open>stream\<close> the pieces of a blob. What is relied on is a named predicate
  (\<open>number_format\<close>, \<open>collation\<close>, \<open>strict_collation\<close>, \<open>signature_scheme\<close>, \<open>blob_stream\<close>), with an instance that satisfies it.

  \<^bold>\<open>Not modelled.\<close> The views and components (\<^verbatim>\<open>*.tsx\<close>) and the audio, media and screen capture code are calls of
  browser interfaces. The desktop shell and its Rust backend are another program; the stores are
  modelled in their browser configuration. Signaling over Supabase and the WebRTC mesh are
  adapters of services whose code is not in the repository.
  \<open>ChatController\<close> knows the attachment service by its readiness only; that service is glue between the
  modelled engines, the stores of the browser and the file system. The call controller drives media
  through the mesh, the invite service drives signaling; both are left out with what they drive.
\<close>

end
